(* ===== verification/Prelude.thy ===== *)
theory Prelude
  imports Main "HOL-Library.Word"
begin

text \<open>
  Shared vocabulary of the development: result values, rows of a database table as a list
  with a key, the laws of looking rows up, updating them and counting them, and the
  interface of a system that is driven by operations and keeps an invariant.
\<close>

section \<open>Collections\<close>

named_theorems row_simps \<open>lookup, update and counting of table rows\<close>

type_synonym ('e, 'a) result = "'e + 'a"

definition is_ok :: "('e, 'a) result \<Rightarrow> bool" where
  "is_ok r = (case r of Inl _ \<Rightarrow> False | Inr _ \<Rightarrow> True)"

lemma is_ok_simps [simp]: "is_ok (Inr a)" "\<not> is_ok (Inl e)"
  by (simp_all add: is_ok_def)

section \<open>Rows with a key\<close>

text \<open>
  A table is the list of its rows in insertion order. The statements the services issue
  are lookups by a column (\<open>find_row\<close>), updates of the rows with a given column value
  (\<open>update_row\<close>), insertions at the end and counts (\<open>count_rows\<close>).
\<close>

definition find_row :: "('r \<Rightarrow> 'k) \<Rightarrow> 'k \<Rightarrow> 'r list \<Rightarrow> 'r option" where
  "find_row key k rows = find (\<lambda>r. key r = k) rows"

definition update_row :: "('r \<Rightarrow> 'k) \<Rightarrow> 'k \<Rightarrow> ('r \<Rightarrow> 'r) \<Rightarrow> 'r list \<Rightarrow> 'r list" where
  "update_row key k f rows = map (\<lambda>r. if key r = k then f r else r) rows"

definition count_rows :: "('r \<Rightarrow> bool) \<Rightarrow> 'r list \<Rightarrow> nat" where
  "count_rows P rows = length (filter P rows)"

lemma find_row_Nil [simp]: "find_row key k [] = None"
  by (simp add: find_row_def)

lemma find_row_Cons [simp]:
  "find_row key k (r # rs) = (if key r = k then Some r else find_row key k rs)"
  by (simp add: find_row_def)

lemma update_row_Nil [simp]: "update_row key k f [] = []"
  by (simp add: update_row_def)

lemma update_row_Cons [simp]:
  "update_row key k f (r # rs) = (if key r = k then f r else r) # update_row key k f rs"
  by (simp add: update_row_def)

lemma count_rows_Nil [simp]: "count_rows P [] = 0"
  by (simp add: count_rows_def)

lemma count_rows_Cons [simp]:
  "count_rows P (r # rs) = (if P r then Suc (count_rows P rs) else count_rows P rs)"
  by (simp add: count_rows_def)

lemma count_rows_append [simp]: "count_rows P (xs @ ys) = count_rows P xs + count_rows P ys"
  by (simp add: count_rows_def)

lemma count_rows_zero_iff: "count_rows P rows = 0 \<longleftrightarrow> (\<forall>r \<in> set rows. \<not> P r)"
  by (induction rows) auto

lemma count_rows_cong: "(\<And>r. r \<in> set rows \<Longrightarrow> P r = Q r) \<Longrightarrow> count_rows P rows = count_rows Q rows"
  by (induction rows) auto

lemma find_row_SomeD: "find_row key k rows = Some r \<Longrightarrow> r \<in> set rows \<and> key r = k"
  by (induction rows) (auto split: if_splits)

lemma find_row_None_iff: "find_row key k rows = None \<longleftrightarrow> (\<forall>r \<in> set rows. key r \<noteq> k)"
  by (induction rows) auto

lemma find_row_Some_iff:
  "distinct (map key rows) \<Longrightarrow> find_row key k rows = Some r \<longleftrightarrow> r \<in> set rows \<and> key r = k"
  by (induction rows) (auto simp: rev_image_eqI)

lemma find_row_append [row_simps]:
  "find_row key k (xs @ ys) =
     (case find_row key k xs of Some r \<Rightarrow> Some r | None \<Rightarrow> find_row key k ys)"
  by (induction xs) auto

lemma find_row_update_same [row_simps]:
  "(\<And>r. key (f r) = key r) \<Longrightarrow>
     find_row key k (update_row key k f rows) = map_option f (find_row key k rows)"
  by (induction rows) auto

lemma find_row_update_other [row_simps]:
  "(\<And>r. key (f r) = key r) \<Longrightarrow> k \<noteq> k' \<Longrightarrow>
     find_row key k (update_row key k' f rows) = find_row key k rows"
  by (induction rows) auto

lemma map_key_update_row [row_simps]:
  "(\<And>r. g (f r) = g r) \<Longrightarrow> map g (update_row key k f rows) = map g rows"
  by (induction rows) auto

lemma length_update_row [simp]: "length (update_row key k f rows) = length rows"
  by (simp add: update_row_def)

lemma set_update_rowE:
  assumes "r \<in> set (update_row key k f rows)"
  obtains "r \<in> set rows" "key r \<noteq> k" | r0 where "r0 \<in> set rows" "key r0 = k" "r = f r0"
  using assms by (auto simp: update_row_def split: if_splits)

lemma update_row_absent: "find_row key k rows = None \<Longrightarrow> update_row key k f rows = rows"
  by (induction rows) (auto split: if_splits)

lemma count_rows_update_same:
  "(\<And>r. r \<in> set rows \<Longrightarrow> key r = k \<Longrightarrow> P (f r) = P r) \<Longrightarrow>
     count_rows P (update_row key k f rows) = count_rows P rows"
  by (induction rows) auto

lemma count_rows_update_absent:
  "(\<forall>r \<in> set rows. key r \<noteq> k) \<Longrightarrow> count_rows P (update_row key k f rows) = count_rows P rows"
  by (induction rows) auto

text \<open>
  The counting law: with distinct keys an update moves exactly one row in or out of a count.
\<close>

lemma count_rows_update:
  assumes "distinct (map key rows)" and "find_row key k rows = Some r"
  shows "count_rows P (update_row key k f rows) + of_bool (P r)
           = count_rows P rows + of_bool (P (f r))"
  using assms
proof (induction rows)
  case Nil
  then show ?case by simp
next
  case (Cons x xs)
  show ?case
  proof (cases "key x = k")
    case True
    with Cons.prems have "x = r" and "\<forall>y \<in> set xs. key y \<noteq> k"
      by (auto simp: image_iff)
    with True show ?thesis by (simp add: count_rows_update_absent)
  next
    case False
    with Cons show ?thesis by auto
  qed
qed

lemma count_rows_pos: "r \<in> set rows \<Longrightarrow> P r \<Longrightarrow> 0 < count_rows P rows"
  by (induction rows) auto

lemma map_update_row_id:
  assumes "distinct (map key rows)" and "find_row key k rows = Some r" and "g (f r) = g r"
  shows "map g (update_row key k f rows) = map g rows"
proof -
  have "g (if key x = k then f x else x) = g x" if "x \<in> set rows" for x
    using that assms find_row_SomeD [OF assms(2)] by (auto simp: distinct_map inj_on_def)
  then show ?thesis by (simp add: update_row_def)
qed

lemma update_row_twice:
  "(\<And>r. key (f r) = key r) \<Longrightarrow> update_row key k g (update_row key k f rows) = update_row key k (\<lambda>r. g (f r)) rows"
  by (induction rows) auto

lemma find_row_update_const_other:
  "key r = k \<Longrightarrow> k' \<noteq> k \<Longrightarrow> find_row key k' (update_row key k (\<lambda>_. r) rows) = find_row key k' rows"
  by (induction rows) auto

lemma find_row_update_const_same:
  "key r = k \<Longrightarrow> find_row key k rows \<noteq> None \<Longrightarrow> find_row key k (update_row key k (\<lambda>_. r) rows) = Some r"
  by (induction rows) auto

lemma find_row_update_const:
  "key r = k \<Longrightarrow> find_row key k rows \<noteq> None \<Longrightarrow>
     find_row key k' (update_row key k (\<lambda>_. r) rows) = (if k' = k then Some r else find_row key k' rows)"
  by (metis find_row_update_const_other find_row_update_const_same)

section \<open>A stored table: the interface the services use\<close>

text \<open>
  What a service relies on when it reads a row by its primary key and writes it back: the
  provider is a database state with a list of rows, the laws say what a lookup returns
  and which rows an update touches. Every table of the model interprets this interface.
\<close>

locale row_store =
  fixes rows :: "'db \<Rightarrow> 'r list"
    and key :: "'r \<Rightarrow> 'k"
    and get :: "'db \<Rightarrow> 'k \<Rightarrow> 'r option"
    and upd :: "'k \<Rightarrow> ('r \<Rightarrow> 'r) \<Rightarrow> 'db \<Rightarrow> 'db"
  assumes get_rows: "get db k = find_row key k (rows db)"
    and rows_upd: "rows (upd k f db) = update_row key k f (rows db)"
begin

lemma get_key: "get db k = Some r \<Longrightarrow> key r = k"
  by (auto simp: get_rows dest: find_row_SomeD)

lemma get_member: "get db k = Some r \<Longrightarrow> r \<in> set (rows db)"
  by (auto simp: get_rows dest: find_row_SomeD)

lemma member_get: "distinct (map key (rows db)) \<Longrightarrow> r \<in> set (rows db) \<Longrightarrow> get db (key r) = Some r"
  by (simp add: get_rows find_row_Some_iff)

lemma get_upd:
  "(\<And>r. key (f r) = key r) \<Longrightarrow>
     get (upd k f db) k' = (if k' = k then map_option f (get db k) else get db k')"
  by (auto simp: get_rows rows_upd row_simps)

lemma column_upd:
  assumes "\<And>r. g (f r) = g r"
  shows "map g (rows (upd k f db)) = map g (rows db)"
  unfolding rows_upd using assms by (simp add: update_row_def)

lemmas keys_upd = column_upd [where g = key]

lemma count_upd:
  "distinct (map key (rows db)) \<Longrightarrow> get db k = Some r \<Longrightarrow>
     count_rows P (rows (upd k f db)) + of_bool (P r) = count_rows P (rows db) + of_bool (P (f r))"
  by (simp add: get_rows rows_upd count_rows_update)

lemma count_upd_same:
  "(\<And>r. P (f r) = P r) \<Longrightarrow> count_rows P (rows (upd k f db)) = count_rows P (rows db)"
  by (simp add: rows_upd count_rows_update_same)

lemma member_updE:
  assumes "r \<in> set (rows (upd k f db))"
  obtains "r \<in> set (rows db)" "key r \<noteq> k" | r0 where "r0 \<in> set (rows db)" "key r0 = k" "r = f r0"
  using assms unfolding rows_upd by (rule set_update_rowE)

end

section \<open>Systems driven by operations\<close>

text \<open>
  A component with a state, a set of initial states and one transition relation per
  operation, together with an invariant that each operation keeps. Everything reachable
  then satisfies the invariant.
\<close>

inductive reach :: "('s \<Rightarrow> bool) \<Rightarrow> ('s \<Rightarrow> 's \<Rightarrow> bool) \<Rightarrow> 's \<Rightarrow> bool"
  for init :: "'s \<Rightarrow> bool" and step :: "'s \<Rightarrow> 's \<Rightarrow> bool" where
  reach_init: "init s \<Longrightarrow> reach init step s"
| reach_step: "reach init step s \<Longrightarrow> step s t \<Longrightarrow> reach init step t"

locale inv_system =
  fixes init :: "'s \<Rightarrow> bool"
    and step :: "'s \<Rightarrow> 's \<Rightarrow> bool"
    and inv :: "'s \<Rightarrow> bool"
  assumes inv_init: "init s \<Longrightarrow> inv s"
    and inv_step: "inv s \<Longrightarrow> step s t \<Longrightarrow> inv t"
begin

lemma reach_inv: "reach init step s \<Longrightarrow> inv s"
  by (induction rule: reach.induct) (auto intro: inv_init inv_step)

lemma steps_inv: "step\<^sup>*\<^sup>* s t \<Longrightarrow> inv s \<Longrightarrow> inv t"
  by (induction rule: rtranclp_induct) (auto intro: inv_step)

end

text \<open>A monotone observation of such a system: once it holds it holds in every later state.\<close>

locale stable_system = inv_system +
  fixes stable :: "'s \<Rightarrow> bool"
  assumes stable_step: "inv s \<Longrightarrow> step s t \<Longrightarrow> stable s \<Longrightarrow> stable t"
begin

lemma steps_stable: "step\<^sup>*\<^sup>* s t \<Longrightarrow> inv s \<Longrightarrow> stable s \<Longrightarrow> stable t"
proof (induction rule: rtranclp_induct)
  case base
  then show ?case by simp
next
  case (step y z)
  then have "inv y" by (blast intro: steps_inv)
  with step show ?case by (blast intro: stable_step)
qed

end

end
