(* ===== verification/Py_Runtime.thy ===== *)
theory Py_Runtime
  imports Prelude
begin

text \<open>
  The parts of the Python standard library the services compute with: \<open>str.strip\<close>,
  \<open>str.split\<close>, \<open>str.replace\<close>, \<open>int(text, base)\<close>, \<open>uuid.UUID\<close> with its parser and
  printer, and \<open>datetime\<close> with naive and aware values. Strings hold code points up to 255,
  one \<^typ>\<open>char\<close> each. Operations that raise return \<open>None\<close>.
\<close>

section \<open>Strings\<close>

definition py_isspace :: "char \<Rightarrow> bool" where
  "py_isspace c = (let n = (of_char c :: nat) in
     (9 \<le> n \<and> n \<le> 13) \<or> (28 \<le> n \<and> n \<le> 32) \<or> n = 133 \<or> n = 160)"

definition py_strip_by :: "(char \<Rightarrow> bool) \<Rightarrow> string \<Rightarrow> string" where
  "py_strip_by P s = rev (dropWhile P (rev (dropWhile P s)))"

definition py_strip :: "string \<Rightarrow> string" where
  "py_strip s = py_strip_by py_isspace s"

definition py_rstrip_char :: "char \<Rightarrow> string \<Rightarrow> string" where
  "py_rstrip_char c s = rev (dropWhile (\<lambda>x. x = c) (rev s))"

text \<open>\<open>s.split(c)\<close> keeps empty pieces; \<open>s.split(c, 1)\<close> cuts at the first separator only.\<close>

fun py_split :: "char \<Rightarrow> string \<Rightarrow> string list" where
  "py_split c [] = [[]]"
| "py_split c (x # xs) =
     (if x = c then [] # py_split c xs
      else (case py_split c xs of [] \<Rightarrow> [[x]] | p # ps \<Rightarrow> (x # p) # ps))"

definition py_split1 :: "char \<Rightarrow> string \<Rightarrow> string \<times> string" where
  "py_split1 c s = (takeWhile (\<lambda>x. x \<noteq> c) s, tl (dropWhile (\<lambda>x. x \<noteq> c) s))"

text \<open>\<open>s.replace(pat, '')\<close>: removal of the occurrences found from left to right.\<close>

function remove_sub :: "string \<Rightarrow> string \<Rightarrow> string" where
  "remove_sub pat [] = []"
| "remove_sub pat (c # cs) =
     (if pat \<noteq> [] \<and> take (length pat) (c # cs) = pat
      then remove_sub pat (drop (length pat - 1) cs)
      else c # remove_sub pat cs)"
  by pat_completeness auto
termination
  by (relation "measure (\<lambda>(pat, s). length s)") auto

lemma py_split_nonempty: "py_split c s \<noteq> []"
  by (induction s) (auto split: list.splits)

lemma py_strip_by_id:
  "s \<noteq> [] \<Longrightarrow> \<not> P (hd s) \<Longrightarrow> \<not> P (last s) \<Longrightarrow> py_strip_by P s = s"
  by (simp add: py_strip_by_def dropWhile_eq_self_iff [THEN iffD2] hd_rev)

lemma py_strip_by_all: "\<forall>c \<in> set s. \<not> P c \<Longrightarrow> py_strip_by P s = s"
  by (cases "s = []") (simp_all add: py_strip_by_id, simp add: py_strip_by_def)

lemma remove_sub_absent: "c \<in> set pat \<Longrightarrow> c \<notin> set s \<Longrightarrow> remove_sub pat s = s"
proof (induction pat s rule: remove_sub.induct)
  case (1 pat)
  then show ?case by simp
next
  case (2 pat x xs)
  have "take (length pat) (x # xs) \<noteq> pat"
    using "2.prems" by (metis in_set_takeD)
  with 2 show ?case by auto
qed

section \<open>\<open>int(text, base)\<close>\<close>

definition digit_val :: "nat \<Rightarrow> char \<Rightarrow> nat option" where
  "digit_val b c =
     (let n = (of_char c :: nat);
          d = (if 48 \<le> n \<and> n \<le> 57 then Some (n - 48)
               else if 97 \<le> n \<and> n \<le> 122 then Some (n - 87)
               else if 65 \<le> n \<and> n \<le> 90 then Some (n - 55) else None)
      in case d of None \<Rightarrow> None | Some v \<Rightarrow> if v < b then Some v else None)"

text \<open>Digits after the first one; a single underscore may stand between two digits.\<close>

fun digits_value :: "nat \<Rightarrow> nat \<Rightarrow> string \<Rightarrow> nat option" where
  "digits_value b acc [] = Some acc"
| "digits_value b acc [c] =
     (case digit_val b c of None \<Rightarrow> None | Some v \<Rightarrow> Some (acc * b + v))"
| "digits_value b acc (c # d # ds) =
     (if c = CHR 0x5F
      then (case digit_val b d of None \<Rightarrow> None | Some v \<Rightarrow> digits_value b (acc * b + v) ds)
      else (case digit_val b c of None \<Rightarrow> None
            | Some v \<Rightarrow> digits_value b (acc * b + v) (d # ds)))"

definition py_nat :: "nat \<Rightarrow> string \<Rightarrow> nat option" where
  "py_nat b s = (case s of [] \<Rightarrow> None
     | c # cs \<Rightarrow> (case digit_val b c of None \<Rightarrow> None | Some v \<Rightarrow> digits_value b v cs))"

definition int_space :: "char \<Rightarrow> bool" where
  "int_space c = (let n = (of_char c :: nat) in (9 \<le> n \<and> n \<le> 13) \<or> n = 32 \<or> n = 133 \<or> n = 160)"

definition drop_hex_prefix :: "nat \<Rightarrow> string \<Rightarrow> string" where
  "drop_hex_prefix b s =
     (case s of c # d # ds \<Rightarrow>
        if b = 16 \<and> c = CHR ''0'' \<and> (d = CHR ''x'' \<or> d = CHR ''X'')
        then (case ds of [] \<Rightarrow> [] | e # es \<Rightarrow> if e = CHR 0x5F then es else ds) else s
      | _ \<Rightarrow> s)"

text \<open>
  The sign, the hexadecimal prefix, and the interpreter's limit of 4300 decimal digits
  (\<open>sys.get_int_max_str_digits\<close>, which does not apply to bases that are powers of two).
\<close>

definition py_int :: "nat \<Rightarrow> string \<Rightarrow> int option" where
  "py_int b s =
     (let t = py_strip_by int_space s;
          neg = (t \<noteq> [] \<and> hd t = CHR ''-'');
          u = (if t \<noteq> [] \<and> (hd t = CHR ''-'' \<or> hd t = CHR ''+'') then tl t else t);
          ds = drop_hex_prefix b u
      in if b = 10 \<and> 4300 < length (filter (\<lambda>c. c \<noteq> CHR 0x5F) ds) then None
         else (case py_nat b ds of None \<Rightarrow> None
               | Some n \<Rightarrow> Some (if neg then - int n else int n)))"

section \<open>UUIDs\<close>

type_synonym uuid = "128 word"

definition hex_char :: "nat \<Rightarrow> char" where
  "hex_char n = (if n < 10 then char_of (48 + n) else char_of (87 + n))"

primrec hexn :: "nat \<Rightarrow> nat \<Rightarrow> string" where
  "hexn 0 x = []"
| "hexn (Suc n) x = hexn n (x div 16) @ [hex_char (x mod 16)]"

text \<open>\<open>str(u)\<close>: 32 hexadecimal digits in groups of 8, 4, 4, 4 and 12.\<close>

definition uuid_str :: "uuid \<Rightarrow> string" where
  "uuid_str u =
     (let h = hexn 32 (unat u)
      in take 8 h @ ''-'' @ take 4 (drop 8 h) @ ''-'' @ take 4 (drop 12 h) @ ''-''
         @ take 4 (drop 16 h) @ ''-'' @ drop 20 h)"

text \<open>\<open>uuid.UUID(text)\<close>, which raises \<open>ValueError\<close> for a malformed text.\<close>

definition uuid_parse :: "string \<Rightarrow> uuid option" where
  "uuid_parse s =
     (let t = remove_sub ''uuid:'' (remove_sub ''urn:'' s);
          h = filter (\<lambda>c. c \<noteq> CHR ''-'') (py_strip_by (\<lambda>c. c = CHR 0x7B \<or> c = CHR 0x7D) t)
      in if length h \<noteq> 32 then None
         else (case py_int 16 h of None \<Rightarrow> None
               | Some i \<Rightarrow> if 0 \<le> i \<and> i < 2 ^ 128 then Some (word_of_int i) else None))"

lemma of_char_hex_char: "n < 16 \<Longrightarrow> (of_char (hex_char n) :: nat) = (if n < 10 then 48 + n else 87 + n)"
  by (simp add: hex_char_def)

lemma digit_val_hex_char: "n < 16 \<Longrightarrow> digit_val 16 (hex_char n) = Some n"
  by (simp add: digit_val_def of_char_hex_char Let_def)

lemma length_hexn [simp]: "length (hexn n x) = n"
  by (induction n arbitrary: x) auto

lemma set_hexn: "c \<in> set (hexn n x) \<Longrightarrow> \<exists>d < 16. c = hex_char d"
proof (induction n arbitrary: x)
  case 0
  then show ?case by simp
next
  case (Suc n)
  have "x mod 16 < 16" by simp
  moreover have "c \<in> set (hexn n (x div 16)) \<or> c = hex_char (x mod 16)"
    using Suc.prems by auto
  ultimately show ?case using Suc.IH by blast
qed

lemma hex_char_not:
  assumes "d < 16"
  shows "hex_char d \<noteq> CHR ''-''" "hex_char d \<noteq> CHR 0x5F" "hex_char d \<noteq> CHR '':''"
    "hex_char d \<noteq> CHR ''x''" "hex_char d \<noteq> CHR ''X''" "hex_char d \<noteq> CHR ''+''"
    "hex_char d \<noteq> CHR 0x7B" "hex_char d \<noteq> CHR 0x7D" "\<not> int_space (hex_char d)"
proof -
  have neq: "hex_char d \<noteq> c" if "(of_char c :: nat) \<notin> {48..57} \<union> {97..102}" for c
    using that of_char_hex_char [OF assms] assms by (auto split: if_splits)
  show "hex_char d \<noteq> CHR ''-''" "hex_char d \<noteq> CHR 0x5F" "hex_char d \<noteq> CHR '':''"
    "hex_char d \<noteq> CHR ''x''" "hex_char d \<noteq> CHR ''X''" "hex_char d \<noteq> CHR ''+''"
    "hex_char d \<noteq> CHR 0x7B" "hex_char d \<noteq> CHR 0x7D"
    by (rule neq, simp)+
  show "\<not> int_space (hex_char d)"
    using of_char_hex_char [OF assms] assms by (auto simp: int_space_def Let_def)
qed

lemma digits_value_Cons:
  "c \<noteq> CHR 0x5F \<Longrightarrow> digit_val b c = Some v \<Longrightarrow>
     digits_value b acc (c # cs) = digits_value b (acc * b + v) cs"
  by (cases cs) auto

lemma digits_value_hexn:
  "digits_value 16 acc (hexn n x @ rest) = digits_value 16 (acc * 16 ^ n + x mod 16 ^ n) rest"
proof (induction n arbitrary: x rest)
  case 0
  then show ?case by simp
next
  case (Suc n)
  have d: "x mod 16 < 16" by simp
  have "digits_value 16 acc (hexn (Suc n) x @ rest)
      = digits_value 16 (acc * 16 ^ n + (x div 16) mod 16 ^ n) (hex_char (x mod 16) # rest)"
    by (simp add: Suc.IH)
  also have "\<dots> = digits_value 16 ((acc * 16 ^ n + (x div 16) mod 16 ^ n) * 16 + x mod 16) rest"
    by (rule digits_value_Cons) (simp_all add: hex_char_not [OF d] digit_val_hex_char)
  also have "(acc * 16 ^ n + (x div 16) mod 16 ^ n) * 16 + x mod 16
      = acc * 16 ^ Suc n + x mod 16 ^ Suc n"
    by (simp add: mod_mult2_eq algebra_simps)
  finally show ?case .
qed

lemma py_nat_hexn:
  assumes "0 < n"
  shows "py_nat 16 (hexn n x) = Some (x mod 16 ^ n)"
proof (cases "hexn n x")
  case Nil
  with assms show ?thesis by (metis length_hexn list.size(3) less_irrefl)
next
  case (Cons c cs)
  then obtain d where d: "d < 16" "c = hex_char d" using set_hexn [of c n x] by auto
  have "digits_value 16 0 (c # cs) = digits_value 16 d cs"
    using d by (subst digits_value_Cons [where v = d]) (auto simp: hex_char_not digit_val_hex_char)
  with Cons d show ?thesis
    using digits_value_hexn [of 0 n x "[]"] by (simp add: py_nat_def digit_val_hex_char)
qed

lemma drop_hex_prefix_hexn: "drop_hex_prefix b (hexn n x) = hexn n x"
proof -
  have "d \<noteq> CHR ''x'' \<and> d \<noteq> CHR ''X''" if "hexn n x = c # d # ds" for c d ds
  proof -
    from that have "d \<in> set (hexn n x)" by simp
    then obtain v where v: "v < 16" "d = hex_char v" by (metis set_hexn)
    then show ?thesis using hex_char_not(4,5) [OF v(1)] by simp
  qed
  then show ?thesis by (auto simp: drop_hex_prefix_def split: list.splits)
qed

lemma py_int_hexn:
  assumes "0 < n"
  shows "py_int 16 (hexn n x) = Some (int (x mod 16 ^ n))"
proof -
  have strip: "py_strip_by int_space (hexn n x) = hexn n x"
    by (rule py_strip_by_all) (metis set_hexn hex_char_not(9))
  obtain c cs where h: "hexn n x = c # cs" using assms by (metis length_hexn list.size(3) less_irrefl neq_Nil_conv)
  then obtain d where d: "d < 16" "c = hex_char d" using set_hexn [of c n x] by auto
  then have "c \<noteq> CHR ''-'' \<and> c \<noteq> CHR ''+''"
    using hex_char_not(1,6) [OF d(1)] by simp
  then show ?thesis
    using h strip drop_hex_prefix_hexn [of 16 n x] py_nat_hexn [OF assms, of x]
    by (simp add: py_int_def Let_def)
qed

lemma set_uuid_str: "c \<in> set (uuid_str u) \<Longrightarrow> c = CHR ''-'' \<or> (\<exists>d < 16. c = hex_char d)"
  using set_hexn [of c 32 "unat u"]
  by (auto simp: uuid_str_def Let_def dest: in_set_takeD in_set_dropD)

lemma filter_uuid_str: "filter (\<lambda>c. c \<noteq> CHR ''-'') (uuid_str u) = hexn 32 (unat u)"
proof -
  let ?h = "hexn 32 (unat u)"
  have keep: "filter (\<lambda>c. c \<noteq> CHR ''-'') s = s" if "set s \<subseteq> set ?h" for s
  proof (rule filter_True, rule ballI)
    fix c assume "c \<in> set s"
    with that obtain d where d: "d < 16" "c = hex_char d" by (meson set_hexn subsetD)
    then show "c \<noteq> CHR ''-''" using hex_char_not(1) [OF d(1)] by simp
  qed
  have sub: "set (take n (drop m ?h)) \<subseteq> set ?h" for n m
    using set_take_subset set_drop_subset by (rule order_trans)
  have "filter (\<lambda>c. c \<noteq> CHR ''-'') (uuid_str u)
      = take 8 ?h @ take 4 (drop 8 ?h) @ take 4 (drop 12 ?h) @ take 4 (drop 16 ?h) @ drop 20 ?h"
    unfolding uuid_str_def Let_def
    by (simp only: filter_append keep [OF sub] keep [OF set_take_subset] keep [OF set_drop_subset])
      simp
  also have "\<dots> = ?h"
    using take_add [of 8 4 ?h] take_add [of 12 4 ?h] take_add [of 16 4 ?h]
      append_take_drop_id [of 20 ?h] by simp
  finally show ?thesis .
qed

lemma uuid_parse_str [simp]: "uuid_parse (uuid_str u) = Some u"
proof -
  have nocolon: "CHR '':'' \<notin> set (uuid_str u)"
    using set_uuid_str [of "CHR '':''" u] hex_char_not(3) by fastforce
  have strip: "py_strip_by (\<lambda>c. c = CHR 0x7B \<or> c = CHR 0x7D) (uuid_str u) = uuid_str u"
  proof (rule py_strip_by_all, rule ballI)
    fix c assume "c \<in> set (uuid_str u)"
    then consider "c = CHR ''-''" | d where "d < 16" "c = hex_char d" by (metis set_uuid_str)
    then show "\<not> (c = CHR 0x7B \<or> c = CHR 0x7D)"
      by cases (simp_all add: hex_char_not(7,8))
  qed
  have rs: "remove_sub ''uuid:'' (remove_sub ''urn:'' (uuid_str u)) = uuid_str u"
    using nocolon by (simp add: remove_sub_absent [of "CHR '':''"])
  have bound: "unat u < 2 ^ LENGTH(128)" by (rule unsigned_less)
  then have "unat u < 16 ^ 32" by simp
  then have "py_int 16 (hexn 32 (unat u)) = Some (int (unat u))"
    using py_int_hexn [of 32 "unat u"] by simp
  moreover have "int (unat u) < 2 ^ 128"
    using bound by (subst of_nat_less_numeral_power_cancel_iff) simp
  ultimately show ?thesis
    unfolding uuid_parse_def Let_def rs strip filter_uuid_str by simp
qed

lemma uuid_str_inj [simp]: "uuid_str u = uuid_str v \<longleftrightarrow> u = v"
  by (metis option.inject uuid_parse_str)

lemma length_uuid_str [simp]: "length (uuid_str u) = 36"
  by (simp add: uuid_str_def Let_def)

lemma uuid_str_no_nul [simp]: "CHR 0x00 \<notin> set (uuid_str u)"
proof
  assume "CHR 0x00 \<in> set (uuid_str u)"
  then obtain d where d: "d < 16" "CHR 0x00 = hex_char d" using set_uuid_str by blast
  from d(2) have "(of_char (CHR 0x00) :: nat) = of_char (hex_char d)" by simp
  with d(1) show False by (simp add: of_char_hex_char split: if_splits)
qed

text \<open>\<open>str(n)\<close> of an integer.\<close>

fun nat_str :: "nat \<Rightarrow> string" where
  "nat_str n = (if n < 10 then [char_of (48 + n)] else nat_str (n div 10) @ [char_of (48 + n mod 10)])"

declare nat_str.simps [simp del]

definition int_str :: "int \<Rightarrow> string" where
  "int_str i = (if i < 0 then CHR ''-'' # nat_str (nat (- i)) else nat_str (nat i))"

section \<open>Datetimes\<close>

text \<open>
  A \<open>datetime\<close> is its wall clock in microseconds since 0001-01-01T00:00:00 and, when it is
  aware, its UTC offset in microseconds. Arithmetic that leaves the years 1 to 9999 raises
  \<open>OverflowError\<close>.
\<close>

record pydatetime =
  dt_us :: int
  dt_off :: "int option"

definition dt_max_us :: int where
  "dt_max_us = 3652059 * 86400 * 1000000 - 1"

definition dt_in_range :: "int \<Rightarrow> bool" where
  "dt_in_range us = (0 \<le> us \<and> us \<le> dt_max_us)"

definition dt_instant :: "pydatetime \<Rightarrow> int" where
  "dt_instant d = dt_us d - (case dt_off d of None \<Rightarrow> 0 | Some off \<Rightarrow> off)"

definition dt_utc :: "int \<Rightarrow> pydatetime" where
  "dt_utc us = \<lparr>dt_us = us, dt_off = Some 0\<rparr>"

text \<open>\<open>d + timedelta(seconds=n)\<close> keeps the time zone.\<close>

definition dt_add_seconds :: "pydatetime \<Rightarrow> int \<Rightarrow> pydatetime option" where
  "dt_add_seconds d n =
     (let us = dt_us d + n * 1000000
      in if dt_in_range us then Some (d\<lparr>dt_us := us\<rparr>) else None)"

text \<open>
  \<open>int((a - b).total_seconds())\<close> of two values in the same zone, from the difference in
  microseconds: truncation towards zero. (\<open>total_seconds\<close> rounds to binary64, which is
  below the next whole second for differences up to 272 years.)
\<close>

definition int_total_seconds :: "int \<Rightarrow> int" where
  "int_total_seconds us = (if 0 \<le> us then us div 1000000 else - ((- us) div 1000000))"

lemma int_total_seconds_nonneg: "0 \<le> us \<Longrightarrow> 0 \<le> int_total_seconds us"
  by (simp add: int_total_seconds_def)

lemma int_total_seconds_bounds:
  "0 \<le> us \<Longrightarrow> int_total_seconds us * 1000000 \<le> us \<and> us < (int_total_seconds us + 1) * 1000000"
  unfolding int_total_seconds_def by presburger

lemma dt_instant_utc [simp]: "dt_instant (dt_utc us) = us"
  by (simp add: dt_instant_def dt_utc_def)

lemma dt_add_seconds_instant:
  "dt_add_seconds d n = Some e \<Longrightarrow> dt_instant e = dt_instant d + n * 1000000"
  by (auto simp: dt_add_seconds_def dt_instant_def Let_def split: if_splits)

end
