(* ===== verification/Effects.thy ===== *)
theory Effects
  imports Py_Runtime Complex_Main
begin

text \<open>
  The effects the services share: JSON-like documents and the Mongo database they are
  inserted into, Prometheus counters, gauges and histograms, results of an HTTP exchange,
  and the checks PostgreSQL makes on the values of a column.
\<close>

section \<open>Documents and the Mongo database\<close>

text \<open>
  \<open>JIso d\<close> is the string \<open>d.isoformat()\<close>, \<open>JTime d\<close> a BSON datetime. A document is the
  list of its fields in the order of the source's dictionary literal.
\<close>

datatype jval =
    JNull
  | JBool bool
  | JInt int
  | JStr string
  | JIso pydatetime
  | JTime pydatetime
  | JObj "(string \<times> jval) list"

type_synonym jdoc = "(string \<times> jval) list"

definition jopt :: "('a \<Rightarrow> jval) \<Rightarrow> 'a option \<Rightarrow> jval" where
  "jopt f v = (case v of None \<Rightarrow> JNull | Some x \<Rightarrow> f x)"

text \<open>
  Whether an \<open>insert_one\<close> succeeds is decided by the Mongo server: the state carries the
  outcomes of the coming insertions (an exhausted script means success) and the
  documents stored so far with their collection.
\<close>

datatype insert_outcome = Inserted | Insert_raises string

record mongo =
  m_docs :: "(string \<times> jdoc) list"
  m_script :: "insert_outcome list"

definition insert_one :: "string \<Rightarrow> jdoc \<Rightarrow> mongo \<Rightarrow> string option \<times> mongo" where
  "insert_one coll d m =
     (case m_script m of
        [] \<Rightarrow> (None, m\<lparr>m_docs := m_docs m @ [(coll, d)]\<rparr>)
      | Inserted # os \<Rightarrow> (None, m\<lparr>m_docs := m_docs m @ [(coll, d)], m_script := os\<rparr>)
      | Insert_raises e # os \<Rightarrow> (Some e, m\<lparr>m_script := os\<rparr>))"

definition mongo_up :: "mongo \<Rightarrow> bool" where
  "mongo_up m = (m_script m = [])"

definition docs_of :: "string \<Rightarrow> mongo \<Rightarrow> jdoc list" where
  "docs_of coll m = map snd (filter (\<lambda>(c, _). c = coll) (m_docs m))"

definition event_type_of :: "jdoc \<Rightarrow> jval option" where
  "event_type_of d = map_of d ''event_type''"

text \<open>The documents of a later state extend those of an earlier one.\<close>

definition mongo_extends :: "mongo \<Rightarrow> mongo \<Rightarrow> bool" where
  "mongo_extends m m' = (\<exists>ds. m_docs m' = m_docs m @ ds)"

lemma mongo_extends_refl [simp, intro]: "mongo_extends m m"
  by (simp add: mongo_extends_def)

lemma mongo_extends_trans [trans]: "mongo_extends a b \<Longrightarrow> mongo_extends b c \<Longrightarrow> mongo_extends a c"
  by (auto simp: mongo_extends_def)

lemma insert_one_extends: "insert_one coll d m = (r, m') \<Longrightarrow> mongo_extends m m'"
  by (auto simp: insert_one_def mongo_extends_def split: list.splits insert_outcome.splits)

lemma insert_one_up: "mongo_up m \<Longrightarrow> insert_one coll d m = (None, m\<lparr>m_docs := m_docs m @ [(coll, d)]\<rparr>)"
  by (simp add: insert_one_def mongo_up_def)

text \<open>
  The interface of an event writer as the services use it: a call that takes an event and
  returns (it never raises), and that never removes a stored document.
\<close>

locale event_sink =
  fixes emit :: "'ev \<Rightarrow> mongo \<Rightarrow> mongo"
  assumes emit_extends: "mongo_extends m (emit ev m)"
begin

lemma emit_all_extends: "mongo_extends m (fold emit evs m)"
proof (induction evs arbitrary: m)
  case Nil
  then show ?case by simp
next
  case (Cons ev evs)
  then show ?case using emit_extends mongo_extends_trans by fastforce
qed

lemma emit_keeps: "d \<in> set (m_docs m) \<Longrightarrow> d \<in> set (m_docs (fold emit evs m))"
  using emit_all_extends [of m evs] by (auto simp: mongo_extends_def)

end

section \<open>Prometheus metrics\<close>

type_synonym series = "string \<times> string list"

record metrics =
  mt_counters :: "series \<Rightarrow> nat"
  mt_gauges :: "series \<Rightarrow> real option"
  mt_observations :: "series \<Rightarrow> real list"

definition empty_metrics :: metrics where
  "empty_metrics = \<lparr>mt_counters = (\<lambda>_. 0), mt_gauges = (\<lambda>_. None), mt_observations = (\<lambda>_. [])\<rparr>"

definition inc_counter :: "string \<Rightarrow> string list \<Rightarrow> metrics \<Rightarrow> metrics" where
  "inc_counter n ls m = m\<lparr>mt_counters := (mt_counters m)((n, ls) := Suc (mt_counters m (n, ls)))\<rparr>"

definition set_gauge :: "string \<Rightarrow> string list \<Rightarrow> real \<Rightarrow> metrics \<Rightarrow> metrics" where
  "set_gauge n ls v m = m\<lparr>mt_gauges := (mt_gauges m)((n, ls) \<mapsto> v)\<rparr>"

definition observe_hist :: "string \<Rightarrow> string list \<Rightarrow> real \<Rightarrow> metrics \<Rightarrow> metrics" where
  "observe_hist n ls v m =
     m\<lparr>mt_observations := (mt_observations m)((n, ls) := mt_observations m (n, ls) @ [v])\<rparr>"

lemma counters_inc [simp]:
  "mt_counters (inc_counter n ls m) s = (if s = (n, ls) then Suc (mt_counters m s) else mt_counters m s)"
  by (simp add: inc_counter_def)

lemma counters_other [simp]:
  "mt_counters (set_gauge n ls v m) = mt_counters m"
  "mt_counters (observe_hist n ls v m) = mt_counters m"
  by (simp_all add: set_gauge_def observe_hist_def)

lemma gauges_set [simp]:
  "mt_gauges (set_gauge n ls v m) s = (if s = (n, ls) then Some v else mt_gauges m s)"
  by (simp add: set_gauge_def)

lemma gauges_other [simp]:
  "mt_gauges (inc_counter n ls m) = mt_gauges m"
  "mt_gauges (observe_hist n ls v m) = mt_gauges m"
  by (simp_all add: inc_counter_def observe_hist_def)

section \<open>HTTP exchanges\<close>

text \<open>
  What a client of \<open>httpx\<close> sees of one request: a timeout, another transport error, a
  request error that is no transport error (a body that cannot be decoded, too many
  redirects), or a response with its status code and decoded body.
\<close>

datatype 'b http_result =
    Http_timeout
  | Http_transport_error
  | Http_other_error
  | Http_response nat 'b

text \<open>\<open>response.raise_for_status()\<close> accepts exactly the 2xx codes.\<close>

definition raises_for_status :: "nat \<Rightarrow> bool" where
  "raises_for_status c = (\<not> (200 \<le> c \<and> c < 300))"

section \<open>Replies of a service\<close>

text \<open>
  \<open>Unprocessable\<close> is the framework's 422 for a body or query that fails its schema,
  \<open>Server_error\<close> its 500 for an exception without a handler.
\<close>

datatype 'b reply =
    Reply nat 'b
  | Error_reply nat jdoc
  | Unprocessable
  | Server_error

fun reply_status :: "'b reply \<Rightarrow> nat" where
  "reply_status (Reply c _) = c"
| "reply_status (Error_reply c _) = c"
| "reply_status Unprocessable = 422"
| "reply_status Server_error = 500"

section \<open>Column checks of PostgreSQL\<close>

text \<open>
  A \<open>DateTime(timezone=True)\<close> column keeps the instant; a later read gives it back in UTC.
  A value without an offset is taken in the server's zone, which is UTC.
\<close>

definition pg_timestamptz :: "pydatetime \<Rightarrow> pydatetime" where
  "pg_timestamptz d = dt_utc (dt_instant d)"

text \<open>
  A statement fails with an \<open>IntegrityError\<close> when it violates a unique, foreign-key or
  check constraint, and with another \<open>DBAPIError\<close> (here \<open>DataError\<close>) when a value does
  not fit its column: an integer outside 32 bits, a text longer than its \<open>String(n)\<close> or
  with a NUL character. The second kind is raised first.
\<close>

datatype db_error = IntegrityError | DataError

definition pg_int4 :: "int \<Rightarrow> bool" where
  "pg_int4 n = (- (2 ^ 31) \<le> n \<and> n < 2 ^ 31)"

definition pg_text :: "nat \<Rightarrow> string \<Rightarrow> bool" where
  "pg_text n s = (length s \<le> n \<and> CHR 0x00 \<notin> set s)"

lemma pg_text_uuid [simp]: "pg_text 36 (uuid_str u)"
  by (simp add: pg_text_def)

definition opt_ok :: "('a \<Rightarrow> bool) \<Rightarrow> 'a option \<Rightarrow> bool" where
  "opt_ok P v = (case v of None \<Rightarrow> True | Some x \<Rightarrow> P x)"

lemma opt_ok_simps [simp]: "opt_ok P None" "opt_ok P (Some x) = P x"
  by (simp_all add: opt_ok_def)

end
