(* ===== verification/Kitchen_Model.thy ===== *)
theory Kitchen_Model
  imports Effects
begin

text \<open>
  Kitchen service: the tables of \<open>app/models.py\<close>, the request schemas of
  \<open>app/schemas.py\<close>, the insertions and updates with the constraints the tables declare,
  and the invariant of the database.
\<close>

section \<open>Enumerations\<close>

datatype kitchen_status = Kitchen_active | Kitchen_inactive

datatype station_type = Grill | Fryer | Packaging | Cold | Drinks | Assembly

datatype station_status = St_available | St_unavailable | St_maintenance

datatype kds_task_status = Kds_displayed | Kds_claimed | Kds_completed | Kds_failed | Kds_removed

fun kitchen_status_str :: "kitchen_status \<Rightarrow> string" where
  "kitchen_status_str Kitchen_active = ''active''"
| "kitchen_status_str Kitchen_inactive = ''inactive''"

fun station_type_str :: "station_type \<Rightarrow> string" where
  "station_type_str Grill = ''grill''"
| "station_type_str Fryer = ''fryer''"
| "station_type_str Packaging = ''packaging''"
| "station_type_str Cold = ''cold''"
| "station_type_str Drinks = ''drinks''"
| "station_type_str Assembly = ''assembly''"

fun station_status_str :: "station_status \<Rightarrow> string" where
  "station_status_str St_available = ''available''"
| "station_status_str St_unavailable = ''unavailable''"
| "station_status_str St_maintenance = ''maintenance''"

fun kds_task_status_str :: "kds_task_status \<Rightarrow> string" where
  "kds_task_status_str Kds_displayed = ''displayed''"
| "kds_task_status_str Kds_claimed = ''claimed''"
| "kds_task_status_str Kds_completed = ''completed''"
| "kds_task_status_str Kds_failed = ''failed''"
| "kds_task_status_str Kds_removed = ''removed''"

section \<open>Tables\<close>

record kitchen =
  k_id :: uuid
  k_name :: string
  k_status :: kitchen_status
  k_created_at :: pydatetime
  k_updated_at :: pydatetime

record station =
  st_id :: uuid
  st_kitchen_id :: uuid
  st_name :: string
  st_type :: station_type
  st_status :: station_status
  st_capacity :: int
  st_busy_slots :: int
  st_backlog_limit :: int
  st_created_at :: pydatetime
  st_updated_at :: pydatetime

record kds_task =
  kt_id :: uuid
  kt_task_id :: string
  kt_order_id :: string
  kt_kitchen_id :: uuid
  kt_station_id :: uuid
  kt_station_type :: station_type
  kt_operation :: string
  kt_menu_item_name :: "string option"
  kt_status :: kds_task_status
  kt_duration :: int
  kt_pickup_deadline :: "pydatetime option"
  kt_displayed_at :: pydatetime
  kt_claimed_by :: "string option"
  kt_claimed_at :: "pydatetime option"
  kt_completed_at :: "pydatetime option"
  kt_idempotency_key :: string
  kt_created_at :: pydatetime
  kt_updated_at :: pydatetime

record kdb =
  kitchens :: "kitchen list"
  stations :: "station list"
  kds_tasks :: "kds_task list"

definition empty_kdb :: kdb where
  "empty_kdb = \<lparr>kitchens = [], stations = [], kds_tasks = []\<rparr>"

section \<open>Request schemas\<close>

record kitchen_create =
  kc_id :: "uuid option"
  kc_name :: string

record station_create =
  sc_id :: "uuid option"
  sc_name :: string
  sc_type :: station_type
  sc_capacity :: int
  sc_backlog_limit :: int

record delivery_request =
  dr_task_id :: uuid
  dr_order_id :: uuid
  dr_kitchen_id :: uuid
  dr_station_type :: station_type
  dr_operation :: string
  dr_menu_item_name :: "string option"
  dr_duration :: int
  dr_pickup_deadline :: "pydatetime option"
  dr_idempotency_key :: string

record claim_request =
  cr_worker :: string
  cr_claimed_at :: "pydatetime option"

record complete_request =
  co_worker :: string
  co_completed_at :: "pydatetime option"

definition len_between :: "nat \<Rightarrow> nat \<Rightarrow> string \<Rightarrow> bool" where
  "len_between a b s = (a \<le> length s \<and> length s \<le> b)"

definition valid_kitchen_create :: "kitchen_create \<Rightarrow> bool" where
  "valid_kitchen_create p = len_between 1 120 (kc_name p)"

definition valid_station_create :: "station_create \<Rightarrow> bool" where
  "valid_station_create p =
     (len_between 1 120 (sc_name p) \<and> 1 \<le> sc_capacity p \<and> 1 \<le> sc_backlog_limit p)"

definition valid_capacity_update :: "int \<Rightarrow> bool" where
  "valid_capacity_update c = (1 \<le> c)"

definition valid_delivery :: "delivery_request \<Rightarrow> bool" where
  "valid_delivery p =
     (len_between 1 120 (dr_operation p)
      \<and> opt_ok (\<lambda>s. length s \<le> 120) (dr_menu_item_name p)
      \<and> 0 < dr_duration p
      \<and> len_between 1 200 (dr_idempotency_key p))"

definition valid_claim_request :: "claim_request \<Rightarrow> bool" where
  "valid_claim_request p = len_between 1 120 (cr_worker p)"

definition valid_complete_request :: "complete_request \<Rightarrow> bool" where
  "valid_complete_request p = len_between 1 120 (co_worker p)"

section \<open>Insertions\<close>

definition kitchen_fits :: "kitchen \<Rightarrow> bool" where
  "kitchen_fits k = pg_text 120 (k_name k)"

definition insert_kitchen :: "kitchen \<Rightarrow> kdb \<Rightarrow> db_error + kdb" where
  "insert_kitchen k db =
     (if \<not> kitchen_fits k then Inl DataError
      else if (\<exists>x \<in> set (kitchens db). k_id x = k_id k \<or> k_name x = k_name k)
      then Inl IntegrityError
      else Inr (db\<lparr>kitchens := kitchens db @ [k]\<rparr>))"

definition station_fits :: "station \<Rightarrow> bool" where
  "station_fits s =
     (pg_text 120 (st_name s) \<and> pg_int4 (st_capacity s) \<and> pg_int4 (st_busy_slots s)
      \<and> pg_int4 (st_backlog_limit s))"

definition insert_station :: "station \<Rightarrow> kdb \<Rightarrow> db_error + kdb" where
  "insert_station s db =
     (if \<not> station_fits s then Inl DataError
      else if (\<exists>x \<in> set (stations db). st_id x = st_id s
                 \<or> (st_kitchen_id x = st_kitchen_id s \<and> st_name x = st_name s))
           \<or> \<not> (\<exists>k \<in> set (kitchens db). k_id k = st_kitchen_id s)
      then Inl IntegrityError
      else Inr (db\<lparr>stations := stations db @ [s]\<rparr>))"

definition kds_task_fits :: "kds_task \<Rightarrow> bool" where
  "kds_task_fits t =
     (pg_text 36 (kt_task_id t) \<and> pg_text 36 (kt_order_id t) \<and> pg_text 120 (kt_operation t)
      \<and> opt_ok (pg_text 120) (kt_menu_item_name t) \<and> pg_int4 (kt_duration t)
      \<and> opt_ok (pg_text 120) (kt_claimed_by t) \<and> pg_text 200 (kt_idempotency_key t))"

definition insert_kds_task :: "kds_task \<Rightarrow> kdb \<Rightarrow> db_error + kdb" where
  "insert_kds_task t db =
     (if \<not> kds_task_fits t then Inl DataError
      else if \<not> 0 < kt_duration t
           \<or> (\<exists>x \<in> set (kds_tasks db). kt_id x = kt_id t \<or> kt_task_id x = kt_task_id t
                 \<or> kt_idempotency_key x = kt_idempotency_key t)
           \<or> \<not> (\<exists>s \<in> set (stations db). st_id s = kt_station_id t)
      then Inl IntegrityError
      else Inr (db\<lparr>kds_tasks := kds_tasks db @ [t]\<rparr>))"

section \<open>Updates by primary key\<close>

definition upd_station :: "uuid \<Rightarrow> (station \<Rightarrow> station) \<Rightarrow> kdb \<Rightarrow> kdb" where
  "upd_station sid f db = db\<lparr>stations := update_row st_id sid f (stations db)\<rparr>"

definition upd_kds_task :: "uuid \<Rightarrow> (kds_task \<Rightarrow> kds_task) \<Rightarrow> kdb \<Rightarrow> kdb" where
  "upd_kds_task i f db = db\<lparr>kds_tasks := update_row kt_id i f (kds_tasks db)\<rparr>"

definition get_station_row :: "kdb \<Rightarrow> uuid \<Rightarrow> station option" where
  "get_station_row db sid = find_row st_id sid (stations db)"

definition get_kds_row :: "kdb \<Rightarrow> uuid \<Rightarrow> kds_task option" where
  "get_kds_row db i = find_row kt_id i (kds_tasks db)"

interpretation station_tab: row_store stations st_id get_station_row upd_station
  by unfold_locales (simp_all add: get_station_row_def upd_station_def)

interpretation kds_tab: row_store kds_tasks kt_id get_kds_row upd_kds_task
  by unfold_locales (simp_all add: get_kds_row_def upd_kds_task_def)

lemma upd_station_frame [simp]:
  "kitchens (upd_station sid f db) = kitchens db"
  "kds_tasks (upd_station sid f db) = kds_tasks db"
  by (simp_all add: upd_station_def)

lemma upd_kds_task_frame [simp]:
  "kitchens (upd_kds_task i f db) = kitchens db"
  "stations (upd_kds_task i f db) = stations db"
  by (simp_all add: upd_kds_task_def)

section \<open>The invariant of the database\<close>

text \<open>What the declared constraints give, row by row and key by key.\<close>

definition station_row_ok :: "station \<Rightarrow> bool" where
  "station_row_ok s = (station_fits s \<and> 1 \<le> st_capacity s \<and> 1 \<le> st_backlog_limit s)"

definition kds_row_ok :: "kds_task \<Rightarrow> bool" where
  "kds_row_ok t =
     (kds_task_fits t \<and> 0 < kt_duration t
      \<and> uuid_parse (kt_task_id t) \<noteq> None \<and> uuid_parse (kt_order_id t) \<noteq> None
      \<and> (kt_status t = Kds_displayed \<longrightarrow> kt_claimed_by t = None \<and> kt_claimed_at t = None)
      \<and> (kt_status t = Kds_claimed \<longrightarrow> kt_claimed_by t \<noteq> None \<and> kt_claimed_at t \<noteq> None)
      \<and> (kt_status t = Kds_completed \<longrightarrow> kt_claimed_by t \<noteq> None \<and> kt_completed_at t \<noteq> None))"

definition kdb_ok :: "kdb \<Rightarrow> bool" where
  "kdb_ok db =
     (distinct (map k_id (kitchens db)) \<and> distinct (map k_name (kitchens db))
      \<and> distinct (map st_id (stations db))
      \<and> distinct (map (\<lambda>s. (st_kitchen_id s, st_name s)) (stations db))
      \<and> distinct (map kt_id (kds_tasks db)) \<and> distinct (map kt_task_id (kds_tasks db))
      \<and> distinct (map kt_idempotency_key (kds_tasks db))
      \<and> (\<forall>k \<in> set (kitchens db). kitchen_fits k)
      \<and> (\<forall>s \<in> set (stations db). station_row_ok s \<and> st_kitchen_id s \<in> k_id ` set (kitchens db))
      \<and> (\<forall>t \<in> set (kds_tasks db). kds_row_ok t \<and> kt_station_id t \<in> st_id ` set (stations db)))"

text \<open>
  The slot accounting the claim guard rests on: a station's \<open>busy_slots\<close> is the number of
  its tasks that are claimed.
\<close>

definition claimed_at_station :: "uuid \<Rightarrow> kds_task \<Rightarrow> bool" where
  "claimed_at_station sid t = (kt_station_id t = sid \<and> kt_status t = Kds_claimed)"

definition claimed_count :: "kdb \<Rightarrow> uuid \<Rightarrow> nat" where
  "claimed_count db sid = count_rows (claimed_at_station sid) (kds_tasks db)"

definition busy_ok :: "kdb \<Rightarrow> bool" where
  "busy_ok db = (\<forall>s \<in> set (stations db). st_busy_slots s = int (claimed_count db (st_id s)))"

end
