(* ===== verification/Kitchen_Repository.thy ===== *)
theory Kitchen_Repository
  imports Kitchen_Model
begin

text \<open>
  Kitchen service: the statements of \<open>app/repositories.py\<close> as functions of the committed
  database, and the ORM session of a request.

  A request works on one session. The session keeps an identity map: the instance of a row
  it has loaded stays the Python object for that row until the session is rolled back, and
  \<open>app/db.py\<close> keeps its attributes across a commit (\<open>expire_on_commit=False\<close>). Whether a
  second \<open>SELECT ... FOR UPDATE\<close> overwrites the attributes of an instance that is already
  in the map is the parameter \<open>populate\<close> (SQLAlchemy's \<open>populate_existing\<close>, which the
  statements of this file leave at its default, \<open>False\<close>).
\<close>

section \<open>Creating rows\<close>

text \<open>The values of one request: \<open>datetime.now(UTC)\<close>, the database's \<open>now()\<close>, and \<open>uuid4()\<close>.\<close>

record kenv =
  ke_now :: pydatetime
  ke_db_now :: pydatetime
  ke_uuid :: uuid

definition create_kitchen_row :: "kenv \<Rightarrow> kitchen_create \<Rightarrow> kdb \<Rightarrow> db_error + (kitchen \<times> kdb)" where
  "create_kitchen_row env p db =
     (let k = \<lparr>k_id = (case kc_id p of Some i \<Rightarrow> i | None \<Rightarrow> ke_uuid env), k_name = kc_name p,
               k_status = Kitchen_active, k_created_at = ke_db_now env, k_updated_at = ke_db_now env\<rparr>
      in case insert_kitchen k db of Inl e \<Rightarrow> Inl e | Inr db' \<Rightarrow> Inr (k, db'))"

definition create_station_row ::
    "kenv \<Rightarrow> uuid \<Rightarrow> station_create \<Rightarrow> kdb \<Rightarrow> db_error + (station \<times> kdb)" where
  "create_station_row env kid p db =
     (let s = \<lparr>st_id = (case sc_id p of Some i \<Rightarrow> i | None \<Rightarrow> ke_uuid env), st_kitchen_id = kid,
               st_name = sc_name p, st_type = sc_type p, st_status = St_available,
               st_capacity = sc_capacity p, st_busy_slots = 0, st_backlog_limit = sc_backlog_limit p,
               st_created_at = ke_db_now env, st_updated_at = ke_db_now env\<rparr>
      in case insert_station s db of Inl e \<Rightarrow> Inl e | Inr db' \<Rightarrow> Inr (s, db'))"

definition create_kds_row ::
    "kenv \<Rightarrow> uuid \<Rightarrow> delivery_request \<Rightarrow> kdb \<Rightarrow> db_error + (kds_task \<times> kdb)" where
  "create_kds_row env sid p db =
     (let t = \<lparr>kt_id = ke_uuid env, kt_task_id = uuid_str (dr_task_id p),
               kt_order_id = uuid_str (dr_order_id p), kt_kitchen_id = dr_kitchen_id p,
               kt_station_id = sid, kt_station_type = dr_station_type p,
               kt_operation = dr_operation p, kt_menu_item_name = dr_menu_item_name p,
               kt_status = Kds_displayed, kt_duration = dr_duration p,
               kt_pickup_deadline = map_option pg_timestamptz (dr_pickup_deadline p), kt_displayed_at = ke_db_now env,
               kt_claimed_by = None, kt_claimed_at = None, kt_completed_at = None,
               kt_idempotency_key = dr_idempotency_key p, kt_created_at = ke_db_now env,
               kt_updated_at = ke_db_now env\<rparr>
      in case insert_kds_task t db of Inl e \<Rightarrow> Inl e | Inr db' \<Rightarrow> Inr (t, db'))"

section \<open>Queries\<close>

definition list_kitchens_rows :: "kdb \<Rightarrow> kitchen list" where
  "list_kitchens_rows db = sort_key k_id (kitchens db)"

definition get_kitchen_row :: "kdb \<Rightarrow> uuid \<Rightarrow> kitchen option" where
  "get_kitchen_row db i = find_row k_id i (kitchens db)"

definition list_by_kitchen :: "kdb \<Rightarrow> uuid \<Rightarrow> station_type option \<Rightarrow> station list" where
  "list_by_kitchen db kid ty =
     sort_key st_id (filter (\<lambda>s. st_kitchen_id s = kid
        \<and> (case ty of None \<Rightarrow> True | Some t \<Rightarrow> st_type s = t)) (stations db))"

definition displayed_at_station :: "uuid \<Rightarrow> kds_task \<Rightarrow> bool" where
  "displayed_at_station sid t = (kt_station_id t = sid \<and> kt_status t = Kds_displayed)"

definition visible_backlog_size :: "kdb \<Rightarrow> uuid \<Rightarrow> int" where
  "visible_backlog_size db sid = int (count_rows (displayed_at_station sid) (kds_tasks db))"

text \<open>
  \<open>dispatch_candidates\<close>: the grouped subquery yields no row for a station without displayed
  tasks, \<open>coalesce\<close> turns the missing count into 0.
\<close>

definition backlog_subquery :: "kdb \<Rightarrow> uuid \<Rightarrow> int option" where
  "backlog_subquery db sid =
     (let n = count_rows (displayed_at_station sid) (kds_tasks db)
      in if n = 0 then None else Some (int n))"

definition coalesce0 :: "int option \<Rightarrow> int" where
  "coalesce0 v = (case v of None \<Rightarrow> 0 | Some n \<Rightarrow> n)"

definition dispatch_candidates_rows :: "kdb \<Rightarrow> uuid \<Rightarrow> station_type \<Rightarrow> (station \<times> int) list" where
  "dispatch_candidates_rows db kid ty =
     map (\<lambda>s. (s, coalesce0 (backlog_subquery db (st_id s))))
       (sort_key st_id (filter (\<lambda>s. st_kitchen_id s = kid \<and> st_type s = ty
            \<and> st_status s = St_available
            \<and> coalesce0 (backlog_subquery db (st_id s)) < st_backlog_limit s) (stations db)))"

definition get_by_idempotency_key :: "kdb \<Rightarrow> string \<Rightarrow> kds_task option" where
  "get_by_idempotency_key db key = find_row kt_idempotency_key key (kds_tasks db)"

definition get_by_task_id :: "kdb \<Rightarrow> string \<Rightarrow> kds_task option" where
  "get_by_task_id db tid = find_row kt_task_id tid (kds_tasks db)"

text \<open>
  \<open>ORDER BY displayed_at, created_at LIMIT limit OFFSET offset\<close>. Rows that agree on both
  columns come in the order of the table.
\<close>

definition list_station_tasks_rows ::
    "kdb \<Rightarrow> uuid \<Rightarrow> kds_task_status \<Rightarrow> nat \<Rightarrow> nat \<Rightarrow> kds_task list" where
  "list_station_tasks_rows db sid stat limit offset =
     take limit (drop offset
       (sort_key (\<lambda>t. dt_instant (kt_displayed_at t))
         (sort_key (\<lambda>t. dt_instant (kt_created_at t))
           (filter (\<lambda>t. kt_station_id t = sid \<and> kt_status t = stat) (kds_tasks db)))))"

lemma backlog_subquery_size: "coalesce0 (backlog_subquery db sid) = visible_backlog_size db sid"
  by (simp add: coalesce0_def backlog_subquery_def visible_backlog_size_def Let_def)

lemma visible_backlog_nonneg [simp]: "0 \<le> visible_backlog_size db sid"
  by (simp add: visible_backlog_size_def)

section \<open>The session and its identity map\<close>

record ksession =
  se_stations :: "uuid \<rightharpoonup> station"
  se_tasks :: "uuid \<rightharpoonup> kds_task"

definition new_ksession :: ksession where
  "new_ksession = \<lparr>se_stations = Map.empty, se_tasks = Map.empty\<rparr>"

definition orm_instance :: "bool \<Rightarrow> 'r option \<Rightarrow> 'r \<Rightarrow> 'r" where
  "orm_instance populate held row =
     (case held of None \<Rightarrow> row | Some inst \<Rightarrow> if populate then row else inst)"

definition get_station_for_update ::
    "bool \<Rightarrow> uuid \<Rightarrow> kdb \<Rightarrow> ksession \<Rightarrow> station option \<times> ksession" where
  "get_station_for_update populate sid db se =
     (case get_station_row db sid of
        None \<Rightarrow> (None, se)
      | Some row \<Rightarrow>
          (let inst = orm_instance populate (se_stations se sid) row
           in (Some inst, se\<lparr>se_stations := (se_stations se)(sid \<mapsto> inst)\<rparr>)))"

definition get_task_for_update ::
    "bool \<Rightarrow> string \<Rightarrow> kdb \<Rightarrow> ksession \<Rightarrow> kds_task option \<times> ksession" where
  "get_task_for_update populate tid db se =
     (case get_by_task_id db tid of
        None \<Rightarrow> (None, se)
      | Some row \<Rightarrow>
          (let inst = orm_instance populate (se_tasks se (kt_id row)) row
           in (Some inst, se\<lparr>se_tasks := (se_tasks se)(kt_id row \<mapsto> inst)\<rparr>)))"

text \<open>\<open>session.refresh(instance)\<close>: the attributes are read again from the row.\<close>

definition refresh_station :: "uuid \<Rightarrow> kdb \<Rightarrow> ksession \<Rightarrow> ksession" where
  "refresh_station sid db se =
     se\<lparr>se_stations := (se_stations se)(sid := get_station_row db sid)\<rparr>"

definition refresh_task :: "uuid \<Rightarrow> kdb \<Rightarrow> ksession \<Rightarrow> ksession" where
  "refresh_task i db se = se\<lparr>se_tasks := (se_tasks se)(i := get_kds_row db i)\<rparr>"

text \<open>
  The flush of a changed \<open>busy_slots\<close>: the column is written with the absolute value the
  instance holds, and only when it differs from the value the instance was loaded with.
\<close>

definition flush_busy_slots :: "pydatetime \<Rightarrow> station \<Rightarrow> int \<Rightarrow> kdb \<Rightarrow> kdb" where
  "flush_busy_slots now inst v db =
     (if v = st_busy_slots inst then db
      else upd_station (st_id inst) (\<lambda>s. s\<lparr>st_busy_slots := v, st_updated_at := now\<rparr>) db)"

lemma get_by_task_id_SomeD:
  "get_by_task_id db tid = Some t \<Longrightarrow> t \<in> set (kds_tasks db) \<and> kt_task_id t = tid"
  unfolding get_by_task_id_def by (rule find_row_SomeD)

lemma get_by_task_id_row:
  "kdb_ok db \<Longrightarrow> get_by_task_id db tid = Some t \<Longrightarrow> get_kds_row db (kt_id t) = Some t"
  by (auto simp: kdb_ok_def get_kds_row_def find_row_Some_iff dest: get_by_task_id_SomeD)

lemma get_station_new [simp]:
  "fst (get_station_for_update populate sid db new_ksession) = get_station_row db sid"
  by (auto simp: get_station_for_update_def new_ksession_def orm_instance_def Let_def split: option.splits)

lemma get_station_populate [simp]: "fst (get_station_for_update True sid db se) = get_station_row db sid"
  by (auto simp: get_station_for_update_def orm_instance_def Let_def split: option.splits)

lemma get_task_populate [simp]: "fst (get_task_for_update True tid db se) = get_by_task_id db tid"
  by (auto simp: get_task_for_update_def orm_instance_def Let_def split: option.splits)

lemma flush_busy_slots_frame [simp]:
  "kitchens (flush_busy_slots now inst v db) = kitchens db"
  "kds_tasks (flush_busy_slots now inst v db) = kds_tasks db"
  by (simp_all add: flush_busy_slots_def)

end
