(* ===== verification/Kitchen_Events.thy ===== *)
theory Kitchen_Events
  imports Kitchen_Repository
begin

text \<open>
  Kitchen service: the Mongo event writer of \<open>app/events.py\<close> and the business metrics of
  \<open>app/metrics/business_metrics.py\<close>. A failed insertion is logged, and for the event
  collections a \<open>MongoEventWriteFailed\<close> document is tried in \<open>app_audit_events\<close>; no failure
  reaches the caller. One reading of the clock stamps the documents of a call.
\<close>

record ksettings =
  ks_service_name :: string
  ks_mongo_enabled :: bool

section \<open>Documents\<close>

definition task_displayed_doc :: "ksettings \<Rightarrow> pydatetime \<Rightarrow> kds_task \<Rightarrow> string option \<Rightarrow> jdoc" where
  "task_displayed_doc cfg now t corr =
     [(''event_type'', JStr ''KdsTaskDisplayed''),
      (''task_id'', JStr (kt_task_id t)),
      (''order_id'', JStr (kt_order_id t)),
      (''kitchen_id'', JStr (uuid_str (kt_kitchen_id t))),
      (''station_id'', JStr (uuid_str (kt_station_id t))),
      (''station_type'', JStr (station_type_str (kt_station_type t))),
      (''kds_task_id'', JStr (uuid_str (kt_id t))),
      (''payload'', JObj
         [(''operation'', JStr (kt_operation t)),
          (''menu_item_name'', jopt JStr (kt_menu_item_name t)),
          (''estimated_duration_seconds'', JInt (kt_duration t)),
          (''idempotency_key'', JStr (kt_idempotency_key t))]),
      (''correlation_id'', jopt JStr corr),
      (''service'', JStr (ks_service_name cfg)),
      (''created_at'', JTime now)]"

definition kds_event_doc ::
    "ksettings \<Rightarrow> pydatetime \<Rightarrow> string \<Rightarrow> kds_task \<Rightarrow> string \<Rightarrow> string option \<Rightarrow> jdoc \<Rightarrow> jdoc" where
  "kds_event_doc cfg now ty t worker corr payload =
     [(''event_type'', JStr ty),
      (''task_id'', JStr (kt_task_id t)),
      (''kds_task_id'', JStr (uuid_str (kt_id t))),
      (''order_id'', JStr (kt_order_id t)),
      (''kitchen_id'', JStr (uuid_str (kt_kitchen_id t))),
      (''station_id'', JStr (uuid_str (kt_station_id t))),
      (''station_type'', JStr (station_type_str (kt_station_type t))),
      (''station_worker_id'', JStr worker),
      (''payload'', JObj payload),
      (''correlation_id'', jopt JStr corr),
      (''service'', JStr (ks_service_name cfg)),
      (''created_at'', JTime now)]"

definition station_event_doc ::
    "ksettings \<Rightarrow> pydatetime \<Rightarrow> string \<Rightarrow> station \<Rightarrow> string option \<Rightarrow> jdoc \<Rightarrow> jdoc" where
  "station_event_doc cfg now ty s corr payload =
     [(''event_type'', JStr ty),
      (''kitchen_id'', JStr (uuid_str (st_kitchen_id s))),
      (''station_id'', JStr (uuid_str (st_id s))),
      (''station_type'', JStr (station_type_str (st_type s))),
      (''payload'', JObj payload),
      (''correlation_id'', jopt JStr corr),
      (''service'', JStr (ks_service_name cfg)),
      (''created_at'', JTime now)]"

definition audit_event_doc ::
    "ksettings \<Rightarrow> pydatetime \<Rightarrow> string \<Rightarrow> kds_task \<Rightarrow> station \<Rightarrow> string option \<Rightarrow> jdoc \<Rightarrow> jdoc" where
  "audit_event_doc cfg now ty t s corr payload =
     [(''event_type'', JStr ty),
      (''task_id'', JStr (kt_task_id t)),
      (''order_id'', JStr (kt_order_id t)),
      (''station_id'', JStr (uuid_str (st_id s))),
      (''station_type'', JStr (station_type_str (st_type s))),
      (''kds_task_id'', JStr (uuid_str (kt_id t))),
      (''payload'', JObj payload),
      (''correlation_id'', jopt JStr corr),
      (''service'', JStr (ks_service_name cfg)),
      (''created_at'', JTime now)]"

definition write_failed_doc ::
    "ksettings \<Rightarrow> pydatetime \<Rightarrow> string \<Rightarrow> string \<Rightarrow> string \<Rightarrow> string option \<Rightarrow> uuid option \<Rightarrow> string option \<Rightarrow> jdoc" where
  "write_failed_doc cfg now coll ty err tid sid corr =
     [(''event_type'', JStr ''MongoEventWriteFailed''),
      (''task_id'', jopt JStr tid),
      (''station_id'', jopt (\<lambda>u. JStr (uuid_str u)) sid),
      (''payload'', JObj
         [(''collection'', JStr coll), (''event_type'', JStr ty), (''error'', JStr err)]),
      (''correlation_id'', jopt JStr corr),
      (''service'', JStr (ks_service_name cfg)),
      (''created_at'', JTime now)]"

section \<open>Writing\<close>

definition safe_insert ::
    "ksettings \<Rightarrow> pydatetime \<Rightarrow> string \<Rightarrow> jdoc \<Rightarrow> string \<Rightarrow> string option \<Rightarrow> uuid option \<Rightarrow> string option
      \<Rightarrow> mongo \<Rightarrow> mongo" where
  "safe_insert cfg now coll d ty tid sid corr m =
     (case insert_one coll d m of
        (None, m') \<Rightarrow> m'
      | (Some err, m') \<Rightarrow>
          if coll \<noteq> ''app_audit_events''
          then snd (insert_one ''app_audit_events'' (write_failed_doc cfg now coll ty err tid sid corr) m')
          else m')"

definition write_task_displayed ::
    "ksettings \<Rightarrow> pydatetime \<Rightarrow> kds_task \<Rightarrow> string option \<Rightarrow> mongo \<Rightarrow> mongo" where
  "write_task_displayed cfg now t corr m =
     (if \<not> ks_mongo_enabled cfg then m
      else snd (insert_one ''kds_events'' (task_displayed_doc cfg now t corr) m))"

definition write_kds_event ::
    "ksettings \<Rightarrow> pydatetime \<Rightarrow> string \<Rightarrow> kds_task \<Rightarrow> string \<Rightarrow> string option \<Rightarrow> jdoc \<Rightarrow> mongo \<Rightarrow> mongo" where
  "write_kds_event cfg now ty t worker corr payload m =
     (if \<not> ks_mongo_enabled cfg then m
      else safe_insert cfg now ''kds_events'' (kds_event_doc cfg now ty t worker corr payload)
             ty (Some (kt_task_id t)) (Some (kt_station_id t)) corr m)"

definition write_station_event ::
    "ksettings \<Rightarrow> pydatetime \<Rightarrow> string \<Rightarrow> station \<Rightarrow> string option \<Rightarrow> jdoc \<Rightarrow> mongo \<Rightarrow> mongo" where
  "write_station_event cfg now ty s corr payload m =
     (if \<not> ks_mongo_enabled cfg then m
      else safe_insert cfg now ''station_events'' (station_event_doc cfg now ty s corr payload)
             ty None (Some (st_id s)) corr m)"

definition write_kitchen_audit_event ::
    "ksettings \<Rightarrow> pydatetime \<Rightarrow> string \<Rightarrow> kds_task \<Rightarrow> station \<Rightarrow> string option \<Rightarrow> jdoc \<Rightarrow> mongo \<Rightarrow> mongo" where
  "write_kitchen_audit_event cfg now ty t s corr payload m =
     (if \<not> ks_mongo_enabled cfg then m
      else safe_insert cfg now ''app_audit_events'' (audit_event_doc cfg now ty t s corr payload)
             ty (Some (kt_task_id t)) (Some (st_id s)) corr m)"

lemma safe_insert_extends: "mongo_extends m (safe_insert cfg now coll d ty tid sid corr m)"
proof (cases "insert_one coll d m")
  case (Pair r m')
  then have "mongo_extends m m'" by (rule insert_one_extends)
  moreover have "mongo_extends m' (snd (insert_one c e m'))" for c e
    using insert_one_extends [of c e m'] by (cases "insert_one c e m'") simp
  ultimately show ?thesis
    using Pair by (auto simp: safe_insert_def split: option.splits intro: mongo_extends_trans)
qed

lemma write_task_displayed_extends: "mongo_extends m (write_task_displayed cfg now t corr m)"
  by (simp add: write_task_displayed_def)
    (metis insert_one_extends prod.collapse)

text \<open>The four calls of the writer as one event type, which is an event sink.\<close>

datatype kds_writer_call =
    Task_displayed kds_task
  | Kds_event string kds_task string jdoc
  | Station_event string station jdoc
  | Audit_event string kds_task station jdoc

fun emit_call :: "ksettings \<Rightarrow> pydatetime \<Rightarrow> string option \<Rightarrow> kds_writer_call \<Rightarrow> mongo \<Rightarrow> mongo" where
  "emit_call cfg now corr (Task_displayed t) m = write_task_displayed cfg now t corr m"
| "emit_call cfg now corr (Kds_event ty t w p) m = write_kds_event cfg now ty t w corr p m"
| "emit_call cfg now corr (Station_event ty s p) m = write_station_event cfg now ty s corr p m"
| "emit_call cfg now corr (Audit_event ty t s p) m = write_kitchen_audit_event cfg now ty t s corr p m"

interpretation kds_writer: event_sink "emit_call cfg now corr"
proof unfold_locales
  fix m :: mongo and ev :: kds_writer_call
  show "mongo_extends m (emit_call cfg now corr ev m)"
    by (cases ev) (simp_all add: write_task_displayed_extends write_kds_event_def
        write_station_event_def write_kitchen_audit_event_def safe_insert_extends)
qed

section \<open>Metrics\<close>

definition station_labels :: "station \<Rightarrow> string list" where
  "station_labels s = [uuid_str (st_kitchen_id s), uuid_str (st_id s), station_type_str (st_type s)]"

definition update_station_gauges :: "station \<Rightarrow> int option \<Rightarrow> metrics \<Rightarrow> metrics" where
  "update_station_gauges s backlog m =
     (let ls = station_labels s;
          ratio = (if st_capacity s \<noteq> 0 then real_of_int (st_busy_slots s) / real_of_int (st_capacity s) else 0);
          m1 = set_gauge ''station_busy_slots'' ls (real_of_int (st_busy_slots s)) m;
          m2 = set_gauge ''station_capacity'' ls (real_of_int (st_capacity s)) m1;
          m3 = set_gauge ''station_utilization_ratio'' ls ratio m2
      in case backlog of None \<Rightarrow> m3
         | Some b \<Rightarrow> set_gauge ''kds_visible_backlog_size'' ls (real_of_int b) m3)"

lemma update_station_gauges_counters [simp]:
  "mt_counters (update_station_gauges s b m) = mt_counters m"
  by (simp add: update_station_gauges_def Let_def split: option.splits)

end
