(* ===== verification/Kitchen_Client.thy ===== *)
theory Kitchen_Client
  imports Effects
begin

text \<open>
  Kitchen service: the fulfillment client of \<open>app/clients.py\<close>. The other service answers
  through \<open>remote\<close>, a function of its own state; what the client sees of an exchange is
  an \<^typ>\<open>unit http_result\<close>.
\<close>

datatype transition_op = Start_op | Complete_op

record transition_call =
  tc_op :: transition_op
  tc_task_id :: string
  tc_station_id :: string
  tc_kds_task_id :: string
  tc_worker :: string
  tc_at :: pydatetime

type_synonym 'f remote = "transition_call \<Rightarrow> 'f \<Rightarrow> unit http_result \<times> 'f"

datatype client_error = FulfillmentClientError string | Httpx_escapes

definition fulfillment_unavailable :: string where
  "fulfillment_unavailable = ''fulfillment_service_unavailable''"

definition transition_path :: "transition_call \<Rightarrow> string" where
  "transition_path c =
     ''/internal/tasks/'' @ tc_task_id c @ (case tc_op c of Start_op \<Rightarrow> ''/start'' | Complete_op \<Rightarrow> ''/complete'')"

definition transition_payload :: "transition_call \<Rightarrow> jdoc" where
  "transition_payload c =
     [(''station_id'', JStr (tc_station_id c)),
      (''kds_task_id'', JStr (tc_kds_task_id c)),
      (''station_worker_id'', JStr (tc_worker c)),
      (case tc_op c of Start_op \<Rightarrow> ''started_at'' | Complete_op \<Rightarrow> ''completed_at'', JIso (tc_at c))]"

definition rejected_code :: "transition_op \<Rightarrow> string" where
  "rejected_code op =
     (case op of Start_op \<Rightarrow> ''fulfillment_start_rejected'' | Complete_op \<Rightarrow> ''fulfillment_complete_rejected'')"

text \<open>
  \<open>_post_transition\<close>: timeouts and transport errors, every 5xx and every other status that
  is neither 2xx nor 409 become \<open>fulfillment_service_unavailable\<close>; a 409 becomes the
  operation's rejection; a request error outside \<open>TransportError\<close> is not caught.
\<close>

definition post_transition :: "transition_op \<Rightarrow> unit http_result \<Rightarrow> client_error + unit" where
  "post_transition op r =
     (case r of
        Http_timeout \<Rightarrow> Inl (FulfillmentClientError fulfillment_unavailable)
      | Http_transport_error \<Rightarrow> Inl (FulfillmentClientError fulfillment_unavailable)
      | Http_other_error \<Rightarrow> Inl Httpx_escapes
      | Http_response c _ \<Rightarrow>
          if c = 409 then Inl (FulfillmentClientError (rejected_code op))
          else if 500 \<le> c then Inl (FulfillmentClientError fulfillment_unavailable)
          else if raises_for_status c then Inl (FulfillmentClientError fulfillment_unavailable)
          else Inr ())"

lemma post_transition_ok_iff:
  "post_transition op r = Inr () \<longleftrightarrow> (\<exists>c b. r = Http_response c b \<and> 200 \<le> c \<and> c < 300)"
  by (cases r) (auto simp: post_transition_def raises_for_status_def)

lemma post_transition_error_codes:
  "post_transition op r = Inl (FulfillmentClientError code) \<Longrightarrow>
     code = fulfillment_unavailable \<or> code = rejected_code op"
  by (cases r) (auto simp: post_transition_def split: if_splits)

lemma rejected_not_unavailable [simp]: "rejected_code op \<noteq> fulfillment_unavailable"
  by (cases op) (simp_all add: rejected_code_def fulfillment_unavailable_def)

end
