(* ===== verification/Kitchen_Service.thy ===== *)
theory Kitchen_Service
  imports Kitchen_Events Kitchen_Client
begin

text \<open>
  Kitchen service: \<open>KitchenService\<close> and \<open>KdsService\<close> of \<open>app/services.py\<close>. A handler takes
  the world (committed database, Mongo, metrics) and returns its result with the new world.
  \<open>claim_task\<close> and \<open>complete_task\<close> work in more than one transaction with a call to the
  fulfillment service in between; each transaction is a definition of its own, so that the
  concurrency theory can interleave them, and the handler composes them.
\<close>

section \<open>Errors and the world\<close>

datatype k_error =
    KNotFoundError string
  | KConflictError string
  | KdsDomainError string string nat
  | KDatabaseError db_error
  | KHttpxError

record kworld =
  kw_db :: kdb
  kw_mongo :: mongo
  kw_metrics :: metrics

definition kds_error :: "string \<Rightarrow> string \<Rightarrow> k_error" where
  "kds_error code msg = KdsDomainError code msg 409"

definition station_not_found :: k_error where
  "station_not_found = KdsDomainError ''station_not_found'' ''Station not found'' 404"

definition kds_task_not_found :: k_error where
  "kds_task_not_found = KdsDomainError ''kds_task_not_found'' ''KDS task not found'' 404"

section \<open>KitchenService\<close>

definition create_kitchen :: "kenv \<Rightarrow> kitchen_create \<Rightarrow> kworld \<Rightarrow> (k_error + kitchen) \<times> kworld" where
  "create_kitchen env p w =
     (case create_kitchen_row env p (kw_db w) of
        Inr (k, db) \<Rightarrow> (Inr k, w\<lparr>kw_db := db\<rparr>)
      | Inl IntegrityError \<Rightarrow> (Inl (KConflictError ''kitchen_already_exists''), w)
      | Inl DataError \<Rightarrow> (Inl (KDatabaseError DataError), w))"

definition list_kitchens :: "kworld \<Rightarrow> kitchen list" where
  "list_kitchens w = list_kitchens_rows (kw_db w)"

definition get_kitchen :: "uuid \<Rightarrow> kworld \<Rightarrow> k_error + kitchen" where
  "get_kitchen i w =
     (case get_kitchen_row (kw_db w) i of
        None \<Rightarrow> Inl (KNotFoundError ''kitchen_not_found'') | Some k \<Rightarrow> Inr k)"

definition create_station ::
    "ksettings \<Rightarrow> kenv \<Rightarrow> uuid \<Rightarrow> station_create \<Rightarrow> kworld \<Rightarrow> (k_error + station) \<times> kworld" where
  "create_station cfg env kid p w =
     (case get_kitchen kid w of
        Inl e \<Rightarrow> (Inl e, w)
      | Inr _ \<Rightarrow>
          (case create_station_row env kid p (kw_db w) of
             Inr (s, db) \<Rightarrow>
               (Inr s, w\<lparr>kw_db := db,
                  kw_metrics := update_station_gauges s (Some 0) (kw_metrics w),
                  kw_mongo := write_station_event cfg (ke_now env) ''StationCreated'' s None
                    [(''status'', JStr (station_status_str (st_status s))),
                     (''capacity'', JInt (st_capacity s)),
                     (''visible_backlog_limit'', JInt (st_backlog_limit s))] (kw_mongo w)\<rparr>)
           | Inl IntegrityError \<Rightarrow> (Inl (KConflictError ''station_already_exists''), w)
           | Inl DataError \<Rightarrow> (Inl (KDatabaseError DataError), w)))"

definition list_stations :: "uuid \<Rightarrow> station_type option \<Rightarrow> kworld \<Rightarrow> k_error + station list" where
  "list_stations kid ty w =
     (case get_kitchen kid w of Inl e \<Rightarrow> Inl e | Inr _ \<Rightarrow> Inr (list_by_kitchen (kw_db w) kid ty))"

definition get_station :: "uuid \<Rightarrow> kworld \<Rightarrow> k_error + station" where
  "get_station sid w =
     (case get_station_row (kw_db w) sid of
        None \<Rightarrow> Inl (KNotFoundError ''station_not_found'') | Some s \<Rightarrow> Inr s)"

definition refreshed :: "'r \<Rightarrow> 'r option \<Rightarrow> 'r" where
  "refreshed old row = (case row of None \<Rightarrow> old | Some r \<Rightarrow> r)"

definition update_station_capacity ::
    "ksettings \<Rightarrow> kenv \<Rightarrow> uuid \<Rightarrow> int \<Rightarrow> kworld \<Rightarrow> (k_error + station) \<times> kworld" where
  "update_station_capacity cfg env sid cap w =
     (case get_station sid w of
        Inl e \<Rightarrow> (Inl e, w)
      | Inr s0 \<Rightarrow>
          if \<not> pg_int4 cap then (Inl (KDatabaseError DataError), w)
          else
            (let db = (if cap = st_capacity s0 then kw_db w
                       else upd_station sid
                         (\<lambda>s. s\<lparr>st_capacity := cap, st_updated_at := ke_db_now env\<rparr>) (kw_db w));
                 s = refreshed s0 (get_station_row db sid)
             in (Inr s, w\<lparr>kw_db := db,
                   kw_metrics := update_station_gauges s None (kw_metrics w),
                   kw_mongo := write_station_event cfg (ke_now env) ''StationCapacityChanged'' s None
                     [(''capacity'', JInt (st_capacity s))] (kw_mongo w)\<rparr>)))"

definition update_station_status ::
    "ksettings \<Rightarrow> kenv \<Rightarrow> uuid \<Rightarrow> station_status \<Rightarrow> kworld \<Rightarrow> (k_error + station) \<times> kworld" where
  "update_station_status cfg env sid stat w =
     (case get_station sid w of
        Inl e \<Rightarrow> (Inl e, w)
      | Inr s0 \<Rightarrow>
          (let db = (if stat = st_status s0 then kw_db w
                     else upd_station sid
                       (\<lambda>s. s\<lparr>st_status := stat, st_updated_at := ke_db_now env\<rparr>) (kw_db w));
               s = refreshed s0 (get_station_row db sid)
           in (Inr s, w\<lparr>kw_db := db,
                 kw_metrics := update_station_gauges s None (kw_metrics w),
                 kw_mongo := write_station_event cfg (ke_now env) ''StationStatusChanged'' s None
                   [(''status'', JStr (station_status_str (st_status s)))] (kw_mongo w)\<rparr>)))"

section \<open>KdsService: queries and validation\<close>

record dispatch_candidate =
  dc_station_id :: uuid
  dc_station_type :: station_type
  dc_status :: station_status
  dc_capacity :: int
  dc_busy_slots :: int
  dc_backlog_size :: int
  dc_backlog_limit :: int
  dc_health :: string

definition dispatch_candidates :: "uuid \<Rightarrow> station_type \<Rightarrow> kworld \<Rightarrow> dispatch_candidate list" where
  "dispatch_candidates kid ty w =
     map (\<lambda>(s, n). \<lparr>dc_station_id = st_id s, dc_station_type = st_type s, dc_status = st_status s,
             dc_capacity = st_capacity s, dc_busy_slots = st_busy_slots s, dc_backlog_size = n,
             dc_backlog_limit = st_backlog_limit s, dc_health = ''ok''\<rparr>)
       (dispatch_candidates_rows (kw_db w) kid ty)"

definition validate_delivery_station :: "station \<Rightarrow> delivery_request \<Rightarrow> k_error option" where
  "validate_delivery_station s p =
     (if st_status s \<noteq> St_available
      then Some (kds_error ''station_not_available'' ''Station is not available'')
      else if st_kitchen_id s \<noteq> dr_kitchen_id p
      then Some (kds_error ''station_kitchen_mismatch'' ''Station belongs to another kitchen'')
      else if st_type s \<noteq> dr_station_type p
      then Some (kds_error ''station_type_mismatch'' ''Station type does not match task station type'')
      else None)"

definition validate_claim :: "station \<Rightarrow> kds_task \<Rightarrow> (string \<times> string) option" where
  "validate_claim s t =
     (if kt_station_id t \<noteq> st_id s
      then Some (''kds_task_station_mismatch'', ''KDS task belongs to another station'')
      else if st_status s \<noteq> St_available
      then Some (''station_not_available'', ''Station is not available'')
      else if kt_status t = Kds_claimed
      then Some (''task_already_claimed'', ''Task is already claimed'')
      else if kt_status t \<noteq> Kds_displayed
      then Some (''task_not_displayed'', ''Task is not displayed'')
      else if st_capacity s \<le> st_busy_slots s
      then Some (''station_capacity_exceeded'', ''Station capacity is exceeded'')
      else None)"

definition validate_complete :: "station \<Rightarrow> kds_task \<Rightarrow> string \<Rightarrow> k_error option" where
  "validate_complete s t worker =
     (if kt_station_id t \<noteq> st_id s
      then Some (kds_error ''kds_task_station_mismatch'' ''KDS task belongs to another station'')
      else if kt_status t = Kds_completed
      then Some (kds_error ''task_already_completed'' ''Task is already completed'')
      else if kt_status t \<noteq> Kds_claimed
      then Some (kds_error ''task_not_claimed'' ''Task is not claimed'')
      else if kt_claimed_by t \<noteq> Some worker
      then Some (kds_error ''task_claimed_by_another_worker'' ''Task is claimed by another worker'')
      else None)"

definition list_station_tasks ::
    "uuid \<Rightarrow> kds_task_status \<Rightarrow> nat \<Rightarrow> nat \<Rightarrow> kworld \<Rightarrow> k_error + kds_task list" where
  "list_station_tasks sid stat limit offset w =
     (case get_station_row (kw_db w) sid of
        None \<Rightarrow> Inl station_not_found
      | Some _ \<Rightarrow> Inr (list_station_tasks_rows (kw_db w) sid stat limit offset))"

section \<open>KdsService: delivery\<close>

text \<open>
  The first statement looks the idempotency key up; the second part locks the station and
  inserts. An \<open>IntegrityError\<close> at the insertion is answered from a second lookup.
\<close>

definition deliver_lookup :: "delivery_request \<Rightarrow> kworld \<Rightarrow> kds_task option" where
  "deliver_lookup p w = get_by_idempotency_key (kw_db w) (dr_idempotency_key p)"

definition deliver_insert ::
    "ksettings \<Rightarrow> kenv \<Rightarrow> string option \<Rightarrow> uuid \<Rightarrow> delivery_request \<Rightarrow> kworld
      \<Rightarrow> (k_error + (kds_task \<times> bool)) \<times> kworld" where
  "deliver_insert cfg env corr sid p w =
     (case get_station_row (kw_db w) sid of
        None \<Rightarrow> (Inl station_not_found, w)
      | Some s \<Rightarrow>
          (case validate_delivery_station s p of
             Some e \<Rightarrow> (Inl e, w)
           | None \<Rightarrow>
               if st_backlog_limit s \<le> visible_backlog_size (kw_db w) sid
               then (Inl (kds_error ''visible_backlog_limit_exceeded''
                       ''Station visible backlog limit exceeded''), w)
               else
                 (case create_kds_row env sid p (kw_db w) of
                    Inl DataError \<Rightarrow> (Inl (KDatabaseError DataError), w)
                  | Inl IntegrityError \<Rightarrow>
                      (case get_by_idempotency_key (kw_db w) (dr_idempotency_key p) of
                         Some replay \<Rightarrow> (Inr (replay, False), w)
                       | None \<Rightarrow>
                           (case get_by_task_id (kw_db w) (uuid_str (dr_task_id p)) of
                              Some _ \<Rightarrow> (Inl (kds_error ''kds_task_already_exists'' ''KDS task already exists''), w)
                            | None \<Rightarrow> (Inl (KDatabaseError IntegrityError), w)))
                  | Inr (t, db) \<Rightarrow>
                      (Inr (t, True), w\<lparr>kw_db := db,
                         kw_mongo := write_task_displayed cfg (ke_now env) t corr (kw_mongo w),
                         kw_metrics := update_station_gauges s (Some (visible_backlog_size db sid))
                           (kw_metrics w)\<rparr>))))"

definition deliver_task ::
    "ksettings \<Rightarrow> kenv \<Rightarrow> string option \<Rightarrow> uuid \<Rightarrow> delivery_request \<Rightarrow> kworld
      \<Rightarrow> (k_error + (kds_task \<times> bool)) \<times> kworld" where
  "deliver_task cfg env corr sid p w =
     (case deliver_lookup p w of
        Some t \<Rightarrow> (Inr (t, False), w)
      | None \<Rightarrow> deliver_insert cfg env corr sid p w)"

section \<open>KdsService: claim\<close>

text \<open>The columns the three transitions write.\<close>

definition claim_row :: "string \<Rightarrow> pydatetime \<Rightarrow> pydatetime \<Rightarrow> kds_task \<Rightarrow> kds_task" where
  "claim_row worker claimed_at now t =
     t\<lparr>kt_status := Kds_claimed, kt_claimed_by := Some worker,
       kt_claimed_at := Some (pg_timestamptz claimed_at), kt_updated_at := now\<rparr>"

definition release_row :: "pydatetime \<Rightarrow> kds_task \<Rightarrow> kds_task" where
  "release_row now t =
     t\<lparr>kt_status := Kds_displayed, kt_claimed_by := None,
       kt_claimed_at := None, kt_updated_at := now\<rparr>"

definition complete_row :: "pydatetime \<Rightarrow> pydatetime \<Rightarrow> kds_task \<Rightarrow> kds_task" where
  "complete_row completed_at now t =
     t\<lparr>kt_status := Kds_completed, kt_completed_at := Some (pg_timestamptz completed_at), kt_updated_at := now\<rparr>"

text \<open>What a request keeps between its transactions: its session and the loaded instances.\<close>

record pending =
  pd_session :: ksession
  pd_station :: station
  pd_task :: kds_task
  pd_at :: pydatetime

definition claim_begin ::
    "bool \<Rightarrow> ksettings \<Rightarrow> kenv \<Rightarrow> string option \<Rightarrow> uuid \<Rightarrow> string \<Rightarrow> claim_request \<Rightarrow> kworld
      \<Rightarrow> (k_error + pending) \<times> kworld" where
  "claim_begin populate cfg env corr sid tid p w =
     (let claimed_at = (case cr_claimed_at p of Some d \<Rightarrow> d | None \<Rightarrow> ke_now env);
          db = kw_db w
      in case get_station_for_update populate sid db new_ksession of
           (None, _) \<Rightarrow> (Inl station_not_found, w)
         | (Some s, se1) \<Rightarrow>
             (case get_task_for_update populate tid db se1 of
                (None, _) \<Rightarrow> (Inl kds_task_not_found, w)
              | (Some t, se2) \<Rightarrow>
                  (let w1 = w\<lparr>kw_metrics := inc_counter ''kds_claim_attempts_total'' (station_labels s) (kw_metrics w)\<rparr>
                   in case validate_claim s t of
                        Some (code, msg) \<Rightarrow>
                          (Inl (kds_error code msg),
                           w1\<lparr>kw_metrics := inc_counter ''kds_claim_conflicts_total'' (station_labels s @ [code]) (kw_metrics w1),
                              kw_mongo := write_kds_event cfg (ke_now env) ''KdsTaskClaimRejected'' t (cr_worker p) corr
                                [(''reason'', JStr code)] (kw_mongo w1)\<rparr>)
                      | None \<Rightarrow>
                          if \<not> pg_text 120 (cr_worker p) then (Inl (KDatabaseError DataError), w1)
                          else
                            (let db1 = upd_kds_task (kt_id t) (claim_row (cr_worker p) claimed_at (ke_db_now env)) db;
                                 db2 = flush_busy_slots (ke_db_now env) s (st_busy_slots s + 1) db1;
                                 se3 = refresh_station (st_id s) db2 (refresh_task (kt_id t) db2 se2)
                             in (Inr \<lparr>pd_session = se3,
                                      pd_station = refreshed s (get_station_row db2 (st_id s)),
                                      pd_task = refreshed t (get_kds_row db2 (kt_id t)),
                                      pd_at = claimed_at\<rparr>,
                                 w1\<lparr>kw_db := db2\<rparr>)))))"

definition start_call :: "string \<Rightarrow> pending \<Rightarrow> transition_call" where
  "start_call worker pd =
     \<lparr>tc_op = Start_op, tc_task_id = kt_task_id (pd_task pd), tc_station_id = uuid_str (st_id (pd_station pd)),
      tc_kds_task_id = uuid_str (kt_id (pd_task pd)), tc_worker = worker, tc_at = pd_at pd\<rparr>"

definition claim_success ::
    "ksettings \<Rightarrow> kenv \<Rightarrow> string option \<Rightarrow> uuid \<Rightarrow> claim_request \<Rightarrow> pending \<Rightarrow> kworld \<Rightarrow> kds_task \<times> kworld" where
  "claim_success cfg env corr sid p pd w =
     (let s = pd_station pd; t = pd_task pd;
          mt1 = inc_counter ''kds_claim_success_total'' (station_labels s) (kw_metrics w);
          mt2 = update_station_gauges s (Some (visible_backlog_size (kw_db w) sid)) mt1;
          mo1 = write_kds_event cfg (ke_now env) ''KdsTaskClaimed'' t (cr_worker p) corr
                  [(''claimed_at'', JIso (pd_at pd))] (kw_mongo w);
          mo2 = write_station_event cfg (ke_now env) ''StationBusySlotOccupied'' s corr
                  [(''busy_slots'', JInt (st_busy_slots s)), (''capacity'', JInt (st_capacity s))] mo1
      in (t, w\<lparr>kw_metrics := mt2, kw_mongo := mo2\<rparr>))"

definition compensate_claim ::
    "bool \<Rightarrow> ksettings \<Rightarrow> kenv \<Rightarrow> string option \<Rightarrow> string \<Rightarrow> string \<Rightarrow> string \<Rightarrow> ksession \<Rightarrow> kworld \<Rightarrow> kworld" where
  "compensate_claim populate cfg env corr tid worker reason se w =
     (let db = kw_db w
      in case get_task_for_update populate tid db se of
           (None, _) \<Rightarrow> w
         | (Some t, se1) \<Rightarrow>
             (case get_station_for_update populate (kt_station_id t) db se1 of
                (None, _) \<Rightarrow> w
              | (Some s, _) \<Rightarrow>
                  if kt_status t = Kds_claimed \<and> kt_claimed_by t = Some worker
                  then
                    (let db1 = upd_kds_task (kt_id t) (release_row (ke_db_now env)) db;
                         db2 = flush_busy_slots (ke_db_now env) s (max 0 (st_busy_slots s - 1)) db1;
                         t' = refreshed t (get_kds_row db2 (kt_id t));
                         s' = refreshed s (get_station_row db2 (st_id s));
                         mo1 = write_kds_event cfg (ke_now env) ''KdsTaskClaimRejected'' t' worker corr
                                 [(''reason'', JStr reason)] (kw_mongo w);
                         mo2 = write_station_event cfg (ke_now env) ''StationBusySlotReleased'' s' corr
                                 [(''busy_slots'', JInt (st_busy_slots s')), (''capacity'', JInt (st_capacity s')),
                                  (''reason'', JStr ''claim_compensation'')] mo1
                     in w\<lparr>kw_db := db2, kw_mongo := mo2\<rparr>)
                  else w))"

definition callback_audit_type :: "string \<Rightarrow> string" where
  "callback_audit_type code =
     (if code = fulfillment_unavailable then ''ExternalServiceUnavailable'' else ''FulfillmentCallbackFailed'')"

definition callback_audit_payload :: "transition_op \<Rightarrow> string \<Rightarrow> jdoc" where
  "callback_audit_payload op code =
     [(''external_service'', JStr ''fulfillment-service''),
      (''operation'', JStr (case op of Start_op \<Rightarrow> ''POST /internal/tasks/{task_id}/start''
                                     | Complete_op \<Rightarrow> ''POST /internal/tasks/{task_id}/complete'')),
      (''error'', JStr code)]"

definition callback_error :: "transition_op \<Rightarrow> string \<Rightarrow> k_error" where
  "callback_error op code =
     (if code = fulfillment_unavailable
      then KdsDomainError code ''Fulfillment Service is unavailable'' 503
      else KdsDomainError code (case op of Start_op \<Rightarrow> ''Fulfillment rejected task start''
                                         | Complete_op \<Rightarrow> ''Fulfillment rejected task complete'') 409)"

definition claim_failure ::
    "bool \<Rightarrow> ksettings \<Rightarrow> kenv \<Rightarrow> string option \<Rightarrow> claim_request \<Rightarrow> string \<Rightarrow> pending \<Rightarrow> kworld \<Rightarrow> k_error \<times> kworld" where
  "claim_failure populate cfg env corr p code pd w =
     (let w1 = w\<lparr>kw_mongo := write_kitchen_audit_event cfg (ke_now env) (callback_audit_type code)
                   (pd_task pd) (pd_station pd) corr (callback_audit_payload Start_op code) (kw_mongo w)\<rparr>
      in (callback_error Start_op code,
          compensate_claim populate cfg env corr (kt_task_id (pd_task pd)) (cr_worker p) code (pd_session pd) w1))"

definition claim_task ::
    "bool \<Rightarrow> 'f remote \<Rightarrow> ksettings \<Rightarrow> kenv \<Rightarrow> string option \<Rightarrow> uuid \<Rightarrow> string \<Rightarrow> claim_request
      \<Rightarrow> kworld \<Rightarrow> 'f \<Rightarrow> (k_error + kds_task) \<times> kworld \<times> 'f" where
  "claim_task populate remote cfg env corr sid tid p w f =
     (case claim_begin populate cfg env corr sid tid p w of
        (Inl e, w1) \<Rightarrow> (Inl e, w1, f)
      | (Inr pd, w1) \<Rightarrow>
          (case remote (start_call (cr_worker p) pd) f of
             (r, f1) \<Rightarrow>
               (case post_transition Start_op r of
                  Inr _ \<Rightarrow> (let (t, w2) = claim_success cfg env corr sid p pd w1 in (Inr t, w2, f1))
                | Inl (FulfillmentClientError code) \<Rightarrow>
                    (let (e, w2) = claim_failure populate cfg env corr p code pd w1 in (Inl e, w2, f1))
                | Inl Httpx_escapes \<Rightarrow> (Inl KHttpxError, w1, f1))))"

section \<open>KdsService: complete\<close>

definition complete_begin ::
    "bool \<Rightarrow> kenv \<Rightarrow> uuid \<Rightarrow> string \<Rightarrow> complete_request \<Rightarrow> kworld \<Rightarrow> k_error + pending" where
  "complete_begin populate env sid tid p w =
     (let completed_at = (case co_completed_at p of Some d \<Rightarrow> d | None \<Rightarrow> ke_now env);
          db = kw_db w
      in case get_station_for_update populate sid db new_ksession of
           (None, _) \<Rightarrow> Inl station_not_found
         | (Some s, se1) \<Rightarrow>
             (case get_task_for_update populate tid db se1 of
                (None, _) \<Rightarrow> Inl kds_task_not_found
              | (Some t, se2) \<Rightarrow>
                  (case validate_complete s t (co_worker p) of
                     Some e \<Rightarrow> Inl e
                   | None \<Rightarrow> Inr \<lparr>pd_session = se2, pd_station = s, pd_task = t, pd_at = completed_at\<rparr>)))"

definition complete_call :: "string \<Rightarrow> pending \<Rightarrow> transition_call" where
  "complete_call worker pd =
     \<lparr>tc_op = Complete_op, tc_task_id = kt_task_id (pd_task pd), tc_station_id = uuid_str (st_id (pd_station pd)),
      tc_kds_task_id = uuid_str (kt_id (pd_task pd)), tc_worker = worker, tc_at = pd_at pd\<rparr>"

definition complete_failure ::
    "ksettings \<Rightarrow> kenv \<Rightarrow> string option \<Rightarrow> string \<Rightarrow> pending \<Rightarrow> kworld \<Rightarrow> k_error \<times> kworld" where
  "complete_failure cfg env corr code pd w =
     (callback_error Complete_op code,
      w\<lparr>kw_mongo := write_kitchen_audit_event cfg (ke_now env) (callback_audit_type code)
          (pd_task pd) (pd_station pd) corr (callback_audit_payload Complete_op code) (kw_mongo w)\<rparr>)"

definition complete_commit ::
    "bool \<Rightarrow> ksettings \<Rightarrow> kenv \<Rightarrow> string option \<Rightarrow> uuid \<Rightarrow> string \<Rightarrow> complete_request \<Rightarrow> pending \<Rightarrow> kworld
      \<Rightarrow> (k_error + kds_task) \<times> kworld" where
  "complete_commit populate cfg env corr sid tid p pd w =
     (let db = kw_db w
      in case get_station_for_update populate sid db (pd_session pd) of
           (so, se1) \<Rightarrow>
             (case get_task_for_update populate tid db se1 of
                (to, _) \<Rightarrow>
                  (case (so, to) of
                     (Some s, Some t) \<Rightarrow>
                       (case validate_complete s t (co_worker p) of
                          Some e \<Rightarrow> (Inl e, w)
                        | None \<Rightarrow>
                            (let db1 = upd_kds_task (kt_id t) (complete_row (pd_at pd) (ke_db_now env)) db;
                                 db2 = flush_busy_slots (ke_db_now env) s (max 0 (st_busy_slots s - 1)) db1;
                                 t' = refreshed t (get_kds_row db2 (kt_id t));
                                 s' = refreshed s (get_station_row db2 (st_id s));
                                 mt = update_station_gauges s' (Some (visible_backlog_size db2 sid)) (kw_metrics w);
                                 mo1 = write_kds_event cfg (ke_now env) ''KdsTaskCompleted'' t' (co_worker p) corr
                                         [(''completed_at'', JIso (pd_at pd))] (kw_mongo w);
                                 mo2 = write_station_event cfg (ke_now env) ''StationBusySlotReleased'' s' corr
                                         [(''busy_slots'', JInt (st_busy_slots s')), (''capacity'', JInt (st_capacity s')),
                                          (''reason'', JStr ''task_completed'')] mo1
                             in (Inr t', w\<lparr>kw_db := db2, kw_metrics := mt, kw_mongo := mo2\<rparr>)))
                   | _ \<Rightarrow> (Inl kds_task_not_found, w))))"

definition complete_task ::
    "bool \<Rightarrow> 'f remote \<Rightarrow> ksettings \<Rightarrow> kenv \<Rightarrow> string option \<Rightarrow> uuid \<Rightarrow> string \<Rightarrow> complete_request
      \<Rightarrow> kworld \<Rightarrow> 'f \<Rightarrow> (k_error + kds_task) \<times> kworld \<times> 'f" where
  "complete_task populate remote cfg env corr sid tid p w f =
     (case complete_begin populate env sid tid p w of
        Inl e \<Rightarrow> (Inl e, w, f)
      | Inr pd \<Rightarrow>
          (case remote (complete_call (co_worker p) pd) f of
             (r, f1) \<Rightarrow>
               (case post_transition Complete_op r of
                  Inr _ \<Rightarrow>
                    (let (res, w1) = complete_commit populate cfg env corr sid tid p pd w
                     in (res, w1, f1))
                | Inl (FulfillmentClientError code) \<Rightarrow>
                    (let (e, w1) = complete_failure cfg env corr code pd w in (Inl e, w1, f1))
                | Inl Httpx_escapes \<Rightarrow> (Inl KHttpxError, w, f1))))"

end
