(* ===== verification/Kitchen_Routes.thy ===== *)
theory Kitchen_Routes
  imports Kitchen_Service
begin

text \<open>
  Kitchen service: the HTTP surface of \<open>app/api/routes.py\<close> and the exception handlers of
  \<open>app/errors.py\<close>. A route checks its body and query against the schemas, parses the
  identifiers of its path, calls the service and builds the response model.
\<close>

section \<open>Errors as replies\<close>

fun k_error_reply :: "k_error \<Rightarrow> 'b reply" where
  "k_error_reply (KNotFoundError code) = Error_reply 404 [(''detail'', JStr code)]"
| "k_error_reply (KConflictError code) = Error_reply 409 [(''detail'', JStr code)]"
| "k_error_reply (KdsDomainError code msg st) =
     Error_reply st [(''error'', JStr code), (''message'', JStr msg), (''details'', JObj [])]"
| "k_error_reply (KDatabaseError _) = Server_error"
| "k_error_reply KHttpxError = Server_error"

text \<open>A result as a reply: a response model that rejects its values is a server error.\<close>

definition k_reply :: "nat \<Rightarrow> ('a \<Rightarrow> 'b option) \<Rightarrow> k_error + 'a \<Rightarrow> 'b reply" where
  "k_reply code build r =
     (case r of
        Inl e \<Rightarrow> k_error_reply e
      | Inr a \<Rightarrow> (case build a of None \<Rightarrow> Server_error | Some b \<Rightarrow> Reply code b))"

definition parse_uuid :: "string \<Rightarrow> string \<Rightarrow> k_error + uuid" where
  "parse_uuid value code =
     (case uuid_parse value of None \<Rightarrow> Inl (KNotFoundError code) | Some u \<Rightarrow> Inr u)"

definition parse_kds_station_uuid :: "string \<Rightarrow> k_error + uuid" where
  "parse_kds_station_uuid value =
     (case uuid_parse value of None \<Rightarrow> Inl station_not_found | Some u \<Rightarrow> Inr u)"

section \<open>Response models\<close>

record delivery_response =
  dl_kds_task_id :: uuid
  dl_task_id :: uuid
  dl_station_id :: uuid
  dl_status :: kds_task_status

record station_task_response =
  sr_kds_task_id :: uuid
  sr_task_id :: uuid
  sr_order_id :: uuid
  sr_station_id :: uuid
  sr_operation :: string
  sr_menu_item_name :: "string option"
  sr_status :: kds_task_status
  sr_duration :: int
  sr_pickup_deadline :: "pydatetime option"
  sr_displayed_at :: pydatetime

record claim_response =
  cl_kds_task_id :: uuid
  cl_task_id :: uuid
  cl_station_id :: uuid
  cl_status :: kds_task_status
  cl_claimed_by :: string
  cl_claimed_at :: pydatetime

record complete_response =
  cp_kds_task_id :: uuid
  cp_task_id :: uuid
  cp_station_id :: uuid
  cp_status :: kds_task_status
  cp_claimed_by :: string
  cp_completed_at :: pydatetime

definition kds_task_delivery_response :: "kds_task \<Rightarrow> delivery_response option" where
  "kds_task_delivery_response t =
     (case uuid_parse (kt_task_id t) of
        None \<Rightarrow> None
      | Some tid \<Rightarrow> Some \<lparr>dl_kds_task_id = kt_id t, dl_task_id = tid,
            dl_station_id = kt_station_id t, dl_status = kt_status t\<rparr>)"

definition kds_station_task_response :: "kds_task \<Rightarrow> station_task_response option" where
  "kds_station_task_response t =
     (case (uuid_parse (kt_task_id t), uuid_parse (kt_order_id t)) of
        (Some tid, Some oid) \<Rightarrow>
          Some \<lparr>sr_kds_task_id = kt_id t, sr_task_id = tid, sr_order_id = oid,
            sr_station_id = kt_station_id t, sr_operation = kt_operation t,
            sr_menu_item_name = kt_menu_item_name t, sr_status = kt_status t,
            sr_duration = kt_duration t, sr_pickup_deadline = kt_pickup_deadline t,
            sr_displayed_at = kt_displayed_at t\<rparr>
      | _ \<Rightarrow> None)"

definition kds_task_claim_response :: "kds_task \<Rightarrow> claim_response option" where
  "kds_task_claim_response t =
     (case (uuid_parse (kt_task_id t), kt_claimed_at t) of
        (Some tid, Some ca) \<Rightarrow>
          Some \<lparr>cl_kds_task_id = kt_id t, cl_task_id = tid, cl_station_id = kt_station_id t,
            cl_status = kt_status t,
            cl_claimed_by = (case kt_claimed_by t of None \<Rightarrow> [] | Some w \<Rightarrow> w),
            cl_claimed_at = ca\<rparr>
      | _ \<Rightarrow> None)"

definition kds_task_complete_response :: "kds_task \<Rightarrow> complete_response option" where
  "kds_task_complete_response t =
     (case (uuid_parse (kt_task_id t), kt_completed_at t) of
        (Some tid, Some ca) \<Rightarrow>
          Some \<lparr>cp_kds_task_id = kt_id t, cp_task_id = tid, cp_station_id = kt_station_id t,
            cp_status = kt_status t,
            cp_claimed_by = (case kt_claimed_by t of None \<Rightarrow> [] | Some w \<Rightarrow> w),
            cp_completed_at = ca\<rparr>
      | _ \<Rightarrow> None)"

text \<open>A list response is built when each of its elements is.\<close>

fun build_all :: "('a \<Rightarrow> 'b option) \<Rightarrow> 'a list \<Rightarrow> 'b list option" where
  "build_all build [] = Some []"
| "build_all build (x # xs) =
     (case build x of
        None \<Rightarrow> None
      | Some y \<Rightarrow> (case build_all build xs of None \<Rightarrow> None | Some ys \<Rightarrow> Some (y # ys)))"

section \<open>Kitchen and station routes\<close>

definition route_create_kitchen :: "kenv \<Rightarrow> kitchen_create \<Rightarrow> kworld \<Rightarrow> kitchen reply \<times> kworld" where
  "route_create_kitchen env p w =
     (if \<not> valid_kitchen_create p then (Unprocessable, w)
      else apfst (k_reply 201 Some) (create_kitchen env p w))"

definition route_list_kitchens :: "kworld \<Rightarrow> kitchen list reply" where
  "route_list_kitchens w = Reply 200 (list_kitchens w)"

definition route_get_kitchen :: "string \<Rightarrow> kworld \<Rightarrow> kitchen reply" where
  "route_get_kitchen kid w =
     (case parse_uuid kid ''kitchen_not_found'' of
        Inl e \<Rightarrow> k_error_reply e
      | Inr i \<Rightarrow> k_reply 200 Some (get_kitchen i w))"

definition route_create_station ::
    "ksettings \<Rightarrow> kenv \<Rightarrow> string \<Rightarrow> station_create \<Rightarrow> kworld \<Rightarrow> station reply \<times> kworld" where
  "route_create_station cfg env kid p w =
     (if \<not> valid_station_create p then (Unprocessable, w)
      else (case parse_uuid kid ''kitchen_not_found'' of
              Inl e \<Rightarrow> (k_error_reply e, w)
            | Inr i \<Rightarrow> apfst (k_reply 201 Some) (create_station cfg env i p w)))"

definition route_list_stations :: "string \<Rightarrow> station_type option \<Rightarrow> kworld \<Rightarrow> station list reply" where
  "route_list_stations kid ty w =
     (case parse_uuid kid ''kitchen_not_found'' of
        Inl e \<Rightarrow> k_error_reply e
      | Inr i \<Rightarrow> k_reply 200 Some (list_stations i ty w))"

definition route_update_capacity ::
    "ksettings \<Rightarrow> kenv \<Rightarrow> string \<Rightarrow> int \<Rightarrow> kworld \<Rightarrow> station reply \<times> kworld" where
  "route_update_capacity cfg env sid cap w =
     (if \<not> valid_capacity_update cap then (Unprocessable, w)
      else (case parse_uuid sid ''station_not_found'' of
              Inl e \<Rightarrow> (k_error_reply e, w)
            | Inr i \<Rightarrow> apfst (k_reply 200 Some) (update_station_capacity cfg env i cap w)))"

definition route_update_status ::
    "ksettings \<Rightarrow> kenv \<Rightarrow> string \<Rightarrow> station_status \<Rightarrow> kworld \<Rightarrow> station reply \<times> kworld" where
  "route_update_status cfg env sid stat w =
     (case parse_uuid sid ''station_not_found'' of
        Inl e \<Rightarrow> (k_error_reply e, w)
      | Inr i \<Rightarrow> apfst (k_reply 200 Some) (update_station_status cfg env i stat w))"

section \<open>KDS routes\<close>

definition route_dispatch_candidates ::
    "string \<Rightarrow> station_type \<Rightarrow> kworld \<Rightarrow> dispatch_candidate list reply" where
  "route_dispatch_candidates kid ty w =
     (case parse_uuid kid ''kitchen_not_found'' of
        Inl e \<Rightarrow> k_error_reply e
      | Inr i \<Rightarrow> Reply 200 (dispatch_candidates i ty w))"

definition route_deliver ::
    "ksettings \<Rightarrow> kenv \<Rightarrow> string option \<Rightarrow> string \<Rightarrow> delivery_request \<Rightarrow> kworld
      \<Rightarrow> delivery_response reply \<times> kworld" where
  "route_deliver cfg env corr sid p w =
     (if \<not> valid_delivery p then (Unprocessable, w)
      else (case parse_kds_station_uuid sid of
              Inl e \<Rightarrow> (k_error_reply e, w)
            | Inr i \<Rightarrow>
                (case deliver_task cfg env corr i p w of
                   (Inl e, w1) \<Rightarrow> (k_error_reply e, w1)
                 | (Inr (t, created), w1) \<Rightarrow>
                     (k_reply (if created then 201 else 200) kds_task_delivery_response (Inr t), w1))))"

definition route_list_tasks ::
    "string \<Rightarrow> kds_task_status \<Rightarrow> int \<Rightarrow> int \<Rightarrow> kworld \<Rightarrow> station_task_response list reply" where
  "route_list_tasks sid stat limit offset w =
     (if \<not> (1 \<le> limit \<and> limit \<le> 500 \<and> 0 \<le> offset) then Unprocessable
      else (case parse_kds_station_uuid sid of
              Inl e \<Rightarrow> k_error_reply e
            | Inr i \<Rightarrow>
                k_reply 200 (build_all kds_station_task_response)
                  (list_station_tasks i stat (nat limit) (nat offset) w)))"

definition route_claim ::
    "bool \<Rightarrow> 'f remote \<Rightarrow> ksettings \<Rightarrow> kenv \<Rightarrow> string option \<Rightarrow> string \<Rightarrow> string \<Rightarrow> claim_request
      \<Rightarrow> kworld \<Rightarrow> 'f \<Rightarrow> claim_response reply \<times> kworld \<times> 'f" where
  "route_claim populate remote cfg env corr sid tid p w f =
     (if \<not> valid_claim_request p then (Unprocessable, w, f)
      else (case parse_kds_station_uuid sid of
              Inl e \<Rightarrow> (k_error_reply e, w, f)
            | Inr i \<Rightarrow>
                apfst (k_reply 200 kds_task_claim_response)
                  (claim_task populate remote cfg env corr i tid p w f)))"

definition route_complete ::
    "bool \<Rightarrow> 'f remote \<Rightarrow> ksettings \<Rightarrow> kenv \<Rightarrow> string option \<Rightarrow> string \<Rightarrow> string \<Rightarrow> complete_request
      \<Rightarrow> kworld \<Rightarrow> 'f \<Rightarrow> complete_response reply \<times> kworld \<times> 'f" where
  "route_complete populate remote cfg env corr sid tid p w f =
     (if \<not> valid_complete_request p then (Unprocessable, w, f)
      else (case parse_kds_station_uuid sid of
              Inl e \<Rightarrow> (k_error_reply e, w, f)
            | Inr i \<Rightarrow>
                apfst (k_reply 200 kds_task_complete_response)
                  (complete_task populate remote cfg env corr i tid p w f)))"

end
