(* ===== verification/Kitchen_Invariants.thy ===== *)
theory Kitchen_Invariants
  imports Kitchen_Service
begin

text \<open>
  Kitchen service: every operation keeps the database invariant (\<open>kdb_ok\<close>: keys, foreign
  keys, column ranges) and the slot accounting (\<open>busy_ok\<close>), as long as the instances a
  transaction works on are the rows of the database it commits to.
\<close>

section \<open>Coherent sessions\<close>

definition session_fresh :: "ksession \<Rightarrow> kdb \<Rightarrow> bool" where
  "session_fresh se db =
     ((\<forall>i s. se_stations se i = Some s \<longrightarrow> get_station_row db i = Some s)
      \<and> (\<forall>i t. se_tasks se i = Some t \<longrightarrow> get_kds_row db i = Some t))"

definition coherent :: "bool \<Rightarrow> ksession \<Rightarrow> kdb \<Rightarrow> bool" where
  "coherent populate se db = (populate \<or> session_fresh se db)"

lemma session_fresh_new [simp]: "session_fresh new_ksession db"
  by (simp add: session_fresh_def new_ksession_def)

lemma coherent_new [simp]: "coherent populate new_ksession db"
  by (simp add: coherent_def)

lemma coherent_True [simp]: "coherent True se db"
  by (simp add: coherent_def)

lemma get_station_coherent:
  assumes "coherent populate se db"
  obtains se' where "get_station_for_update populate sid db se = (get_station_row db sid, se')"
    "coherent populate se' db" "session_fresh se db \<Longrightarrow> session_fresh se' db"
proof (cases "get_station_row db sid")
  case None
  then show ?thesis using assms that by (simp add: get_station_for_update_def)
next
  case (Some row)
  have inst: "orm_instance populate (se_stations se sid) row = row"
    using assms Some by (auto simp: orm_instance_def coherent_def session_fresh_def split: option.splits)
  show ?thesis
    using assms Some
    by (intro that [of "se\<lparr>se_stations := (se_stations se)(sid \<mapsto> row)\<rparr>"])
      (auto simp: get_station_for_update_def inst Let_def coherent_def session_fresh_def)
qed

lemma get_task_coherent:
  assumes "coherent populate se db" and "kdb_ok db"
  obtains se' where "get_task_for_update populate tid db se = (get_by_task_id db tid, se')"
    "coherent populate se' db" "session_fresh se db \<Longrightarrow> session_fresh se' db"
proof (cases "get_by_task_id db tid")
  case None
  then show ?thesis using assms that by (simp add: get_task_for_update_def)
next
  case (Some row)
  then have row: "get_kds_row db (kt_id row) = Some row"
    using assms(2) by (intro get_by_task_id_row)
  then have inst: "orm_instance populate (se_tasks se (kt_id row)) row = row"
    using assms by (auto simp: orm_instance_def coherent_def session_fresh_def split: option.splits)
  show ?thesis
    using assms Some row
    by (intro that [of "se\<lparr>se_tasks := (se_tasks se)(kt_id row \<mapsto> row)\<rparr>"])
      (auto simp: get_task_for_update_def inst Let_def coherent_def session_fresh_def)
qed

text \<open>The first loads of a new session return the rows and fill the identity map with them.\<close>

lemma get_station_none: "get_station_row db sid = None \<Longrightarrow> get_station_for_update populate sid db se = (None, se)"
  by (simp add: get_station_for_update_def)

lemma get_task_none: "get_by_task_id db tid = None \<Longrightarrow> get_task_for_update populate tid db se = (None, se)"
  by (simp add: get_task_for_update_def)

lemma first_station_load:
  "get_station_row db sid = Some s \<Longrightarrow>
     get_station_for_update populate sid db new_ksession
       = (Some s, new_ksession\<lparr>se_stations := [sid \<mapsto> s]\<rparr>)"
  by (simp add: get_station_for_update_def orm_instance_def new_ksession_def)

lemma first_task_load:
  "get_by_task_id db tid = Some t \<Longrightarrow>
     get_task_for_update populate tid db (new_ksession\<lparr>se_stations := m\<rparr>)
       = (Some t, new_ksession\<lparr>se_stations := m, se_tasks := [kt_id t \<mapsto> t]\<rparr>)"
  by (simp add: get_task_for_update_def orm_instance_def new_ksession_def)

section \<open>Parts of the invariant\<close>

lemma kdb_okD:
  assumes "kdb_ok db"
  shows "distinct (map st_id (stations db))" "distinct (map kt_id (kds_tasks db))"
    "distinct (map kt_task_id (kds_tasks db))" "distinct (map kt_idempotency_key (kds_tasks db))"
    "s \<in> set (stations db) \<Longrightarrow> station_row_ok s" "t \<in> set (kds_tasks db) \<Longrightarrow> kds_row_ok t"
    "t \<in> set (kds_tasks db) \<Longrightarrow> kt_station_id t \<in> st_id ` set (stations db)"
  using assms by (auto simp: kdb_ok_def)

lemma empty_kdb_ok: "kdb_ok empty_kdb" "busy_ok empty_kdb"
  by (simp_all add: kdb_ok_def empty_kdb_def busy_ok_def)

lemma busy_okD: "busy_ok db \<Longrightarrow> get_station_row db sid = Some s \<Longrightarrow> st_busy_slots s = int (claimed_count db sid)"
  using station_tab.get_key station_tab.get_member by (fastforce simp: busy_ok_def)

lemma claimed_count_pos:
  "t \<in> set (kds_tasks db) \<Longrightarrow> kt_status t = Kds_claimed \<Longrightarrow> 0 < claimed_count db (kt_station_id t)"
  unfolding claimed_count_def by (rule count_rows_pos) (auto simp: claimed_at_station_def)

section \<open>Moving a task in or out of a slot\<close>

text \<open>
  Claim, completion and compensation have one shape: the task row is updated and the
  station's \<open>busy_slots\<close> is written.
\<close>

definition slot_move ::
    "pydatetime \<Rightarrow> uuid \<Rightarrow> (kds_task \<Rightarrow> kds_task) \<Rightarrow> station \<Rightarrow> int \<Rightarrow> kdb \<Rightarrow> kdb" where
  "slot_move now i f s v db = flush_busy_slots now s v (upd_kds_task i f db)"

definition keeps_keys :: "(kds_task \<Rightarrow> kds_task) \<Rightarrow> bool" where
  "keeps_keys f = (\<forall>r. kt_id (f r) = kt_id r \<and> kt_task_id (f r) = kt_task_id r
     \<and> kt_idempotency_key (f r) = kt_idempotency_key r \<and> kt_station_id (f r) = kt_station_id r)"

lemma keeps_keysD:
  "keeps_keys f \<Longrightarrow> kt_id (f r) = kt_id r" "keeps_keys f \<Longrightarrow> kt_task_id (f r) = kt_task_id r"
  "keeps_keys f \<Longrightarrow> kt_idempotency_key (f r) = kt_idempotency_key r"
  "keeps_keys f \<Longrightarrow> kt_station_id (f r) = kt_station_id r"
  by (simp_all add: keeps_keys_def)

lemma stations_slot_move:
  "st_id s = sid \<Longrightarrow> get_station_row db sid = Some s \<Longrightarrow> kdb_ok db \<Longrightarrow>
     stations (slot_move now i f s v db)
       = (if v = st_busy_slots s then stations db
          else update_row st_id sid (\<lambda>s. s\<lparr>st_busy_slots := v, st_updated_at := now\<rparr>) (stations db))"
  by (simp add: slot_move_def flush_busy_slots_def upd_station_def)

lemma kds_tasks_slot_move [simp]:
  "kds_tasks (slot_move now i f s v db) = update_row kt_id i f (kds_tasks db)"
  by (simp add: slot_move_def upd_kds_task_def)

lemma kitchens_slot_move [simp]: "kitchens (slot_move now i f s v db) = kitchens db"
  by (simp add: slot_move_def)

lemma slot_move_station_ids:
  "map st_id (stations (slot_move now i f s v db)) = map st_id (stations db)"
  "map (\<lambda>s. (st_kitchen_id s, st_name s)) (stations (slot_move now i f s v db))
     = map (\<lambda>s. (st_kitchen_id s, st_name s)) (stations db)"
  by (simp_all add: slot_move_def flush_busy_slots_def upd_station_def update_row_def)

lemma slot_move_member:
  assumes "s' \<in> set (stations (slot_move now i f s v db))"
  obtains s0 where "s0 \<in> set (stations db)" "st_id s' = st_id s0" "st_kitchen_id s' = st_kitchen_id s0"
    "st_name s' = st_name s0" "st_capacity s' = st_capacity s0" "st_backlog_limit s' = st_backlog_limit s0"
    "st_busy_slots s' = (if st_id s0 = st_id s \<and> v \<noteq> st_busy_slots s then v else st_busy_slots s0)"
  using assms
  by (auto simp: slot_move_def flush_busy_slots_def upd_station_def update_row_def split: if_splits)

lemma kdb_ok_slot_move:
  assumes ok: "kdb_ok db" and keys: "keeps_keys f"
    and row: "get_kds_row db i = Some t" and fok: "kds_row_ok (f t)" and v: "pg_int4 v"
  shows "kdb_ok (slot_move now i f s v db)"
proof -
  let ?db = "slot_move now i f s v db"
  have maps: "map kt_id (kds_tasks ?db) = map kt_id (kds_tasks db)"
    "map kt_task_id (kds_tasks ?db) = map kt_task_id (kds_tasks db)"
    "map kt_idempotency_key (kds_tasks ?db) = map kt_idempotency_key (kds_tasks db)"
    using keys by (simp_all add: update_row_def keeps_keysD)
  have sts: "station_row_ok s' \<and> st_kitchen_id s' \<in> k_id ` set (kitchens ?db)"
    if "s' \<in> set (stations ?db)" for s'
    using that ok v
    by (auto elim!: slot_move_member simp: kdb_ok_def station_row_ok_def station_fits_def)
  have tks: "kds_row_ok t' \<and> kt_station_id t' \<in> st_id ` set (stations ?db)"
    if "t' \<in> set (kds_tasks ?db)" for t'
  proof -
    have ids: "st_id ` set (stations ?db) = st_id ` set (stations db)"
      using slot_move_station_ids(1) [of now i f s v db] by (metis list.set_map)
    from that have "t' \<in> set (update_row kt_id i f (kds_tasks db))" by simp
    then show ?thesis
    proof (cases rule: set_update_rowE)
      case 1
      then show ?thesis using ok ids by (auto simp: kdb_ok_def)
    next
      case (2 r0)
      then have "r0 = t"
        using ok row by (auto simp: kdb_ok_def get_kds_row_def find_row_Some_iff inj_on_def distinct_map)
      with 2 fok ok ids keys show ?thesis by (auto simp: kdb_ok_def keeps_keysD)
    qed
  qed
  show ?thesis
    using ok sts tks by (simp add: kdb_ok_def maps slot_move_station_ids del: kds_tasks_slot_move)
qed

lemma claimed_count_slot_move:
  assumes ok: "kdb_ok db" and keys: "keeps_keys f" and row: "get_kds_row db i = Some t"
  shows "int (claimed_count (slot_move now i f s v db) sid) =
    int (claimed_count db sid) + (if sid = kt_station_id t
      then of_bool (kt_status (f t) = Kds_claimed) - of_bool (kt_status t = Kds_claimed) else 0)"
proof -
  let ?P = "claimed_at_station sid"
  have "count_rows ?P (update_row kt_id i f (kds_tasks db)) + of_bool (?P t)
      = count_rows ?P (kds_tasks db) + of_bool (?P (f t))"
    using kdb_okD(2) [OF ok] row unfolding get_kds_row_def by (rule count_rows_update)
  then show ?thesis
    using keys by (auto simp: claimed_count_def claimed_at_station_def keeps_keysD split: if_splits)
qed

lemma busy_ok_slot_move:
  assumes ok: "kdb_ok db" and busy: "busy_ok db" and keys: "keeps_keys f"
    and row: "get_kds_row db i = Some t" and st: "get_station_row db (kt_station_id t) = Some s"
    and v: "v = st_busy_slots s + of_bool (kt_status (f t) = Kds_claimed) - of_bool (kt_status t = Kds_claimed)"
  shows "busy_ok (slot_move now i f s v db)"
  unfolding busy_ok_def
proof
  fix s' assume "s' \<in> set (stations (slot_move now i f s v db))"
  then obtain s0 where s0: "s0 \<in> set (stations db)" "st_id s' = st_id s0"
    "st_busy_slots s' = (if st_id s0 = st_id s \<and> v \<noteq> st_busy_slots s then v else st_busy_slots s0)"
    by (rule slot_move_member)
  have s_id: "st_id s = kt_station_id t" using st by (rule station_tab.get_key)
  have "s0 = s" if "st_id s0 = st_id s"
    using that s0(1) st station_tab.get_member [OF st] kdb_okD(1) [OF ok]
    by (auto simp: distinct_map inj_on_def)
  moreover have "st_busy_slots s0 = int (claimed_count db (st_id s0))"
    using busy s0(1) by (simp add: busy_ok_def)
  ultimately show "st_busy_slots s' = int (claimed_count (slot_move now i f s v db) (st_id s'))"
    using s0 s_id v claimed_count_slot_move [OF ok keys row] by (auto split: if_splits)
qed

section \<open>What each transaction does to the database\<close>

lemma keeps_keys_rows [simp]:
  "keeps_keys (claim_row wk ca now)" "keeps_keys (release_row now)" "keeps_keys (complete_row ca now)"
  by (simp_all add: keeps_keys_def claim_row_def release_row_def complete_row_def)

lemma get_kds_row_slot_move:
  "keeps_keys f \<Longrightarrow> get_kds_row (slot_move now i f s v db) j
     = (if j = i then map_option f (get_kds_row db i) else get_kds_row db j)"
  by (auto simp: get_kds_row_def row_simps keeps_keysD)

lemma get_by_task_id_slot_move:
  assumes ok: "kdb_ok db" and keys: "keeps_keys f" and row: "get_by_task_id db tid = Some t"
  shows "get_by_task_id (slot_move now (kt_id t) f s v db) tid = Some (f t)"
proof -
  have t: "t \<in> set (kds_tasks db)" "kt_task_id t = tid" using get_by_task_id_SomeD [OF row] by auto
  have "distinct (map kt_task_id (update_row kt_id (kt_id t) f (kds_tasks db)))"
    using kdb_okD(3) [OF ok] keys
    by (subst map_key_update_row [where g = kt_task_id]) (simp_all add: keeps_keysD)
  moreover have "f t \<in> set (update_row kt_id (kt_id t) f (kds_tasks db))"
    using t by (auto simp: update_row_def)
  ultimately show ?thesis
    using t keys by (simp add: get_by_task_id_def find_row_Some_iff keeps_keysD)
qed

lemma claim_begin_error_db: "claim_begin populate cfg env corr sid tid p w = (Inl e, w') \<Longrightarrow> kw_db w' = kw_db w"
  by (auto simp: claim_begin_def Let_def split: prod.splits option.splits if_splits)

lemma validate_claim_NoneD:
  assumes "validate_claim s t = None"
  shows "kt_station_id t = st_id s" "st_status s = St_available" "kt_status t = Kds_displayed"
    "st_busy_slots s < st_capacity s"
  using assms by (auto simp: validate_claim_def split: if_splits)

lemma validate_complete_NoneD:
  assumes "validate_complete s t worker = None"
  shows "kt_station_id t = st_id s" "kt_status t = Kds_claimed" "kt_claimed_by t = Some worker"
  using assms by (auto simp: validate_complete_def split: if_splits)

lemma claim_begin_ok:
  assumes ok: "kdb_ok (kw_db w)"
    and run: "claim_begin populate cfg env corr sid tid p w = (Inr pd, w')"
  obtains s t where "get_station_row (kw_db w) sid = Some s" "get_by_task_id (kw_db w) tid = Some t"
    "validate_claim s t = None" "pg_text 120 (cr_worker p)"
    "kw_db w' = slot_move (ke_db_now env) (kt_id t) (claim_row (cr_worker p) (pd_at pd) (ke_db_now env)) s
       (st_busy_slots s + 1) (kw_db w)"
    "pd_at pd = (case cr_claimed_at p of Some d \<Rightarrow> d | None \<Rightarrow> ke_now env)"
    "get_station_row (kw_db w') sid = Some (pd_station pd)" "get_kds_row (kw_db w') (kt_id t) = Some (pd_task pd)"
    "session_fresh (pd_session pd) (kw_db w')"
proof -
  let ?db = "kw_db w"
  obtain s where s: "get_station_row ?db sid = Some s"
    using run by (cases "get_station_row ?db sid") (auto simp: claim_begin_def get_station_none Let_def)
  note first = first_station_load [OF s, of populate]
  obtain t where t: "get_by_task_id ?db tid = Some t"
    using run s by (cases "get_by_task_id ?db tid") (auto simp: claim_begin_def first get_task_none Let_def)
  note second = first_task_load [OF t, of populate]
  have valid: "validate_claim s t = None" and ptext: "pg_text 120 (cr_worker p)"
    using run s t by (auto simp: claim_begin_def first second Let_def split: option.splits if_splits prod.splits)
  let ?at = "case cr_claimed_at p of Some d \<Rightarrow> d | None \<Rightarrow> ke_now env"
  let ?db2 = "slot_move (ke_db_now env) (kt_id t) (claim_row (cr_worker p) ?at (ke_db_now env)) s
       (st_busy_slots s + 1) ?db"
  have pd: "kw_db w' = ?db2" "pd_at pd = ?at"
    "pd_station pd = refreshed s (get_station_row ?db2 (st_id s))"
    "pd_task pd = refreshed t (get_kds_row ?db2 (kt_id t))"
    "pd_session pd = refresh_station (st_id s) ?db2 (refresh_task (kt_id t) ?db2
       (new_ksession\<lparr>se_stations := [sid \<mapsto> s], se_tasks := [kt_id t \<mapsto> t]\<rparr>))"
    using run s t valid ptext
    by (auto simp: claim_begin_def first second Let_def slot_move_def)
  have sid: "st_id s = sid" using s by (rule station_tab.get_key)
  have kds: "get_kds_row ?db (kt_id t) = Some t" using ok t by (rule get_by_task_id_row)
  have st: "get_station_row ?db2 sid \<noteq> None"
    using s by (auto simp: slot_move_def flush_busy_slots_def get_station_row_def upd_station_def
        sid row_simps split: if_splits)
  have tk: "get_kds_row ?db2 (kt_id t) = Some (claim_row (cr_worker p) ?at (ke_db_now env) t)"
    using kds by (simp add: get_kds_row_slot_move)
  show ?thesis
  proof (rule that [OF s t valid ptext])
    show "kw_db w' = slot_move (ke_db_now env) (kt_id t) (claim_row (cr_worker p) (pd_at pd) (ke_db_now env)) s
       (st_busy_slots s + 1) ?db" and "pd_at pd = ?at" by (simp_all add: pd)
    show "get_station_row (kw_db w') sid = Some (pd_station pd)" using st by (auto simp: pd sid refreshed_def)
    show "get_kds_row (kw_db w') (kt_id t) = Some (pd_task pd)" using tk by (simp add: pd refreshed_def)
    show "session_fresh (pd_session pd) (kw_db w')"
      by (auto simp: pd refresh_station_def refresh_task_def session_fresh_def new_ksession_def sid
          split: if_splits)
  qed
qed

lemma complete_begin_ok:
  assumes run: "complete_begin populate env sid tid p w = Inr pd"
  shows "get_station_row (kw_db w) sid = Some (pd_station pd)"
    "get_by_task_id (kw_db w) tid = Some (pd_task pd)"
    "validate_complete (pd_station pd) (pd_task pd) (co_worker p) = None"
    "pd_session pd = new_ksession\<lparr>se_stations := [sid \<mapsto> pd_station pd],
                       se_tasks := [kt_id (pd_task pd) \<mapsto> pd_task pd]\<rparr>"
    "pd_at pd = (case co_completed_at p of Some d \<Rightarrow> d | None \<Rightarrow> ke_now env)"
proof -
  obtain s where s: "get_station_row (kw_db w) sid = Some s"
    using run by (cases "get_station_row (kw_db w) sid") (auto simp: complete_begin_def get_station_none Let_def)
  note first = first_station_load [OF s, of populate]
  obtain t where t: "get_by_task_id (kw_db w) tid = Some t"
    using run s by (cases "get_by_task_id (kw_db w) tid")
      (auto simp: complete_begin_def first get_task_none Let_def)
  note second = first_task_load [OF t, of populate]
  have "validate_complete s t (co_worker p) = None"
    and "pd = \<lparr>pd_session = new_ksession\<lparr>se_stations := [sid \<mapsto> s], se_tasks := [kt_id t \<mapsto> t]\<rparr>,
               pd_station = s, pd_task = t,
               pd_at = (case co_completed_at p of Some d \<Rightarrow> d | None \<Rightarrow> ke_now env)\<rparr>"
    using run by (auto simp: complete_begin_def first second Let_def split: option.splits)
  with s t show "get_station_row (kw_db w) sid = Some (pd_station pd)"
    "get_by_task_id (kw_db w) tid = Some (pd_task pd)"
    "validate_complete (pd_station pd) (pd_task pd) (co_worker p) = None"
    "pd_session pd = new_ksession\<lparr>se_stations := [sid \<mapsto> pd_station pd],
                       se_tasks := [kt_id (pd_task pd) \<mapsto> pd_task pd]\<rparr>"
    "pd_at pd = (case co_completed_at p of Some d \<Rightarrow> d | None \<Rightarrow> ke_now env)"
    by simp_all
qed

lemma complete_begin_fresh:
  assumes "kdb_ok (kw_db w)" and "complete_begin populate env sid tid p w = Inr pd"
  shows "session_fresh (pd_session pd) (kw_db w)"
  using complete_begin_ok(1,2,4) [OF assms(2)] get_by_task_id_row [OF assms(1)]
  by (auto simp: session_fresh_def new_ksession_def split: if_splits)

text \<open>The committing half of a completion, on instances that are the rows of the database.\<close>

lemma complete_commit_ok:
  assumes ok: "kdb_ok (kw_db w)" and coh: "coherent populate (pd_session pd) (kw_db w)"
    and run: "complete_commit populate cfg env corr sid tid p pd w = (Inr t', w')"
  obtains s t where "get_station_row (kw_db w) sid = Some s" "get_by_task_id (kw_db w) tid = Some t"
    "validate_complete s t (co_worker p) = None" "t' = complete_row (pd_at pd) (ke_db_now env) t"
    "kw_db w' = slot_move (ke_db_now env) (kt_id t) (complete_row (pd_at pd) (ke_db_now env)) s
       (max 0 (st_busy_slots s - 1)) (kw_db w)"
proof -
  let ?db = "kw_db w"
  obtain se1 where se1: "get_station_for_update populate sid ?db (pd_session pd) = (get_station_row ?db sid, se1)"
    "coherent populate se1 ?db"
    by (rule get_station_coherent [OF coh]) auto
  obtain se2 where se2: "get_task_for_update populate tid ?db se1 = (get_by_task_id ?db tid, se2)"
    by (rule get_task_coherent [OF se1(2) ok, of tid]) auto
  obtain s t where st: "get_station_row ?db sid = Some s" "get_by_task_id ?db tid = Some t"
    "validate_complete s t (co_worker p) = None"
    using run by (auto simp: complete_commit_def se1 se2 Let_def split: option.splits)
  have kds: "get_kds_row ?db (kt_id t) = Some t" using ok st(2) by (rule get_by_task_id_row)
  have "kw_db w' = slot_move (ke_db_now env) (kt_id t) (complete_row (pd_at pd) (ke_db_now env)) s
       (max 0 (st_busy_slots s - 1)) ?db"
    and "t' = refreshed t (get_kds_row (kw_db w') (kt_id t))"
    using run st by (auto simp: complete_commit_def se1 se2 Let_def slot_move_def)
  with kds st show ?thesis
    by (intro that [of s t]) (simp_all add: refreshed_def get_kds_row_slot_move)
qed

lemma complete_commit_error:
  "complete_commit populate cfg env corr sid tid p pd w = (Inl e, w') \<Longrightarrow> w' = w"
  by (auto simp: complete_commit_def Let_def split: prod.splits option.splits)

lemma complete_failure_db [simp]: "kw_db (snd (complete_failure cfg env corr code pd w)) = kw_db w"
  by (simp add: complete_failure_def)

lemma claim_success_db [simp]: "kw_db (snd (claim_success cfg env corr sid p pd w)) = kw_db w"
  by (simp add: claim_success_def Let_def)

text \<open>The compensation either undoes the worker's claim or leaves the database alone.\<close>

definition undo_claim :: "pydatetime \<Rightarrow> string \<Rightarrow> string \<Rightarrow> kdb \<Rightarrow> kdb" where
  "undo_claim now tid worker db =
     (case get_by_task_id db tid of
        None \<Rightarrow> db
      | Some t \<Rightarrow>
          (case get_station_row db (kt_station_id t) of
             None \<Rightarrow> db
           | Some s \<Rightarrow>
               if kt_status t = Kds_claimed \<and> kt_claimed_by t = Some worker
               then slot_move now (kt_id t) (release_row now) s (max 0 (st_busy_slots s - 1)) db
               else db))"

lemma compensate_claim_db:
  assumes ok: "kdb_ok (kw_db w)" and coh: "coherent populate se (kw_db w)"
  shows "kw_db (compensate_claim populate cfg env corr tid worker reason se w)
           = undo_claim (ke_db_now env) tid worker (kw_db w)"
proof -
  let ?db = "kw_db w"
  obtain se1 where se1: "get_task_for_update populate tid ?db se = (get_by_task_id ?db tid, se1)"
    "coherent populate se1 ?db"
    by (rule get_task_coherent [OF coh ok, of tid]) auto
  show ?thesis
  proof (cases "get_by_task_id ?db tid")
    case None
    then show ?thesis by (simp add: compensate_claim_def se1 undo_claim_def Let_def)
  next
    case (Some t)
    obtain se2 where se2: "get_station_for_update populate (kt_station_id t) ?db se1
        = (get_station_row ?db (kt_station_id t), se2)"
      by (rule get_station_coherent [OF se1(2)]) auto
    with Some show ?thesis
      by (auto simp: compensate_claim_def se1 se2 undo_claim_def slot_move_def Let_def split: option.splits)
  qed
qed

lemma claim_failure_db:
  assumes "kdb_ok (kw_db w)" and "coherent populate (pd_session pd) (kw_db w)"
  shows "kw_db (snd (claim_failure populate cfg env corr p code pd w))
           = undo_claim (ke_db_now env) (kt_task_id (pd_task pd)) (cr_worker p) (kw_db w)"
  using assms by (simp add: claim_failure_def Let_def compensate_claim_db)

section \<open>Preservation\<close>

definition db_inv :: "kdb \<Rightarrow> bool" where
  "db_inv db = (kdb_ok db \<and> busy_ok db)"

lemma db_inv_slot_move:
  assumes "db_inv db" "keeps_keys f" "get_kds_row db i = Some t" "kds_row_ok (f t)"
    "get_station_row db (kt_station_id t) = Some s" "pg_int4 v"
    "v = st_busy_slots s + of_bool (kt_status (f t) = Kds_claimed) - of_bool (kt_status t = Kds_claimed)"
  shows "db_inv (slot_move now i f s v db)"
  using assms kdb_ok_slot_move [of db f i t v now s] busy_ok_slot_move [of db f i t s v now]
  by (simp add: db_inv_def)

lemma station_row_int4: "kdb_ok db \<Longrightarrow> get_station_row db sid = Some s \<Longrightarrow>
    pg_int4 (st_capacity s) \<and> pg_int4 (st_busy_slots s) \<and> 1 \<le> st_capacity s"
  using kdb_okD(5) station_tab.get_member by (fastforce simp: station_row_ok_def station_fits_def)

lemma db_inv_claim:
  assumes inv: "db_inv db" and s: "get_station_row db sid = Some s" and t: "get_by_task_id db tid = Some t"
    and valid: "validate_claim s t = None" and ptext: "pg_text 120 worker"
  shows "db_inv (slot_move now (kt_id t) (claim_row worker ca now) s (st_busy_slots s + 1) db)"
proof -
  have ok: "kdb_ok db" and busy: "busy_ok db" using inv by (simp_all add: db_inv_def)
  note v = validate_claim_NoneD [OF valid]
  have sid: "st_id s = sid" using s by (rule station_tab.get_key)
  have "0 \<le> st_busy_slots s" using busy_okD [OF busy s] by simp
  then have "pg_int4 (st_busy_slots s + 1)"
    using v(4) station_row_int4 [OF ok s] by (auto simp: pg_int4_def)
  moreover have "kds_row_ok (claim_row worker ca now t)"
    using kdb_okD(6) [OF ok] get_by_task_id_SomeD [OF t] ptext
    by (auto simp: kds_row_ok_def kds_task_fits_def claim_row_def)
  ultimately show ?thesis
    using inv s v sid get_by_task_id_row [OF ok t]
    by (intro db_inv_slot_move) (auto simp: claim_row_def)
qed

lemma db_inv_leave:
  assumes inv: "db_inv db" and s: "get_station_row db sid = Some s" and t: "get_by_task_id db tid = Some t"
    and claimed: "kt_status t = Kds_claimed" "kt_station_id t = sid"
    and f: "keeps_keys f" "kds_row_ok (f t)" "kt_status (f t) \<noteq> Kds_claimed"
  shows "db_inv (slot_move now (kt_id t) f s (max 0 (st_busy_slots s - 1)) db)"
proof -
  have ok: "kdb_ok db" and busy: "busy_ok db" using inv by (simp_all add: db_inv_def)
  have "1 \<le> st_busy_slots s"
    using busy_okD [OF busy s] claimed_count_pos [of t db] get_by_task_id_SomeD [OF t] claimed by simp
  moreover from this have "pg_int4 (max 0 (st_busy_slots s - 1))"
    using station_row_int4 [OF ok s] by (auto simp: pg_int4_def)
  ultimately show ?thesis
    using inv s claimed f get_by_task_id_row [OF ok t] by (intro db_inv_slot_move) auto
qed

lemma db_inv_undo_claim:
  assumes inv: "db_inv db"
  shows "db_inv (undo_claim now tid worker db)"
proof -
  have ok: "kdb_ok db" using inv by (simp add: db_inv_def)
  have "db_inv (slot_move now (kt_id t) (release_row now) s (max 0 (st_busy_slots s - 1)) db)"
    if t: "get_by_task_id db tid = Some t" and s: "get_station_row db (kt_station_id t) = Some s"
      and cl: "kt_status t = Kds_claimed" for t s
    using kdb_okD(6) [OF ok] get_by_task_id_SomeD [OF t] cl
    by (intro db_inv_leave [OF inv s t]) (auto simp: kds_row_ok_def kds_task_fits_def release_row_def)
  then show ?thesis
    using inv by (auto simp: undo_claim_def split: option.splits)
qed

lemma db_inv_complete:
  assumes inv: "db_inv db" and s: "get_station_row db sid = Some s" and t: "get_by_task_id db tid = Some t"
    and valid: "validate_complete s t worker = None"
  shows "db_inv (slot_move now (kt_id t) (complete_row ca now) s (max 0 (st_busy_slots s - 1)) db)"
proof -
  have ok: "kdb_ok db" using inv by (simp add: db_inv_def)
  note v = validate_complete_NoneD [OF valid]
  have "kds_row_ok t" using kdb_okD(6) [OF ok] get_by_task_id_SomeD [OF t] by blast
  then show ?thesis
    using v station_tab.get_key [OF s]
    by (intro db_inv_leave [OF inv s t]) (auto simp: kds_row_ok_def kds_task_fits_def complete_row_def)
qed

lemma claim_begin_inv:
  assumes inv: "db_inv (kw_db w)"
  shows "db_inv (kw_db (snd (claim_begin populate cfg env corr sid tid p w)))"
proof (cases "claim_begin populate cfg env corr sid tid p w")
  case (Pair r w')
  show ?thesis
  proof (cases r)
    case (Inl e)
    then show ?thesis using Pair inv claim_begin_error_db by fastforce
  next
    case (Inr pd)
    have ok: "kdb_ok (kw_db w)" using inv by (simp add: db_inv_def)
    show ?thesis
      by (rule claim_begin_ok [OF ok, of populate cfg env corr sid tid p pd w'])
        (use Pair Inr inv db_inv_claim in auto)
  qed
qed

lemma claim_failure_inv:
  "db_inv (kw_db w) \<Longrightarrow> coherent populate (pd_session pd) (kw_db w) \<Longrightarrow>
     db_inv (kw_db (snd (claim_failure populate cfg env corr p code pd w)))"
  by (simp add: claim_failure_db db_inv_undo_claim db_inv_def [of "kw_db w"])

lemma complete_commit_inv:
  assumes inv: "db_inv (kw_db w)" and coh: "coherent populate (pd_session pd) (kw_db w)"
  shows "db_inv (kw_db (snd (complete_commit populate cfg env corr sid tid p pd w)))"
proof (cases "complete_commit populate cfg env corr sid tid p pd w")
  case (Pair r w')
  show ?thesis
  proof (cases r)
    case (Inl e)
    then show ?thesis using Pair inv complete_commit_error by fastforce
  next
    case (Inr t')
    have ok: "kdb_ok (kw_db w)" using inv by (simp add: db_inv_def)
    show ?thesis
      by (rule complete_commit_ok [OF ok coh, of cfg env corr sid tid p t' w'])
        (use Pair Inr inv db_inv_complete in auto)
  qed
qed

text \<open>Insertions and the two station updates.\<close>

lemma insert_kitchen_inv:
  assumes inv: "db_inv db" and ins: "insert_kitchen k db = Inr db'"
  shows "db_inv db'"
proof -
  have db': "db' = db\<lparr>kitchens := kitchens db @ [k]\<rparr>" and fits: "kitchen_fits k"
    and uniq: "k_id k \<notin> k_id ` set (kitchens db)" "k_name k \<notin> k_name ` set (kitchens db)"
    using ins by (auto simp: insert_kitchen_def split: if_splits)
  then show ?thesis using inv by (auto simp: db_inv_def kdb_ok_def busy_ok_def claimed_count_def)
qed

lemma insert_station_inv:
  assumes inv: "db_inv db" and ins: "insert_station s db = Inr db'"
    and new: "station_row_ok s" "st_busy_slots s = 0"
  shows "db_inv db'"
proof -
  have ok: "kdb_ok db" and busy: "busy_ok db" using inv by (simp_all add: db_inv_def)
  have db': "db' = db\<lparr>stations := stations db @ [s]\<rparr>"
    and uniq: "st_id s \<notin> st_id ` set (stations db)"
      "(st_kitchen_id s, st_name s) \<notin> (\<lambda>s. (st_kitchen_id s, st_name s)) ` set (stations db)"
    and fk: "st_kitchen_id s \<in> k_id ` set (kitchens db)"
    using ins by (auto simp: insert_station_def split: if_splits intro: image_eqI [OF sym])
  have "claimed_count db (st_id s) = 0"
    using kdb_okD(7) [OF ok] uniq(1)
    unfolding claimed_count_def count_rows_zero_iff claimed_at_station_def by metis
  then have "busy_ok db'" using busy new(2) by (simp add: busy_ok_def db' claimed_count_def)
  moreover have "kdb_ok db'"
    using ok new(1) uniq fk by (auto simp: kdb_ok_def db')
  ultimately show ?thesis by (simp add: db_inv_def)
qed

lemma insert_kds_task_inv:
  assumes inv: "db_inv db" and ins: "insert_kds_task t db = Inr db'"
    and new: "kt_status t = Kds_displayed" "kt_claimed_by t = None" "kt_claimed_at t = None"
      "uuid_parse (kt_task_id t) \<noteq> None" "uuid_parse (kt_order_id t) \<noteq> None"
  shows "db_inv db'"
proof -
  have ok: "kdb_ok db" and busy: "busy_ok db" using inv by (simp_all add: db_inv_def)
  have db': "db' = db\<lparr>kds_tasks := kds_tasks db @ [t]\<rparr>"
    and row: "kds_row_ok t" "kt_station_id t \<in> st_id ` set (stations db)"
    and uniq: "kt_id t \<notin> kt_id ` set (kds_tasks db)" "kt_task_id t \<notin> kt_task_id ` set (kds_tasks db)"
      "kt_idempotency_key t \<notin> kt_idempotency_key ` set (kds_tasks db)"
    using ins new
    by (auto simp: insert_kds_task_def kds_row_ok_def split: if_splits intro: image_eqI [OF sym])
  have "busy_ok db'"
    using busy new by (simp add: busy_ok_def db' claimed_count_def claimed_at_station_def)
  moreover have "kdb_ok db'" using ok row uniq by (auto simp: kdb_ok_def db')
  ultimately show ?thesis by (simp add: db_inv_def)
qed

lemma upd_station_inv:
  assumes inv: "db_inv db"
    and f: "\<And>s. st_id (f s) = st_id s" "\<And>s. st_kitchen_id (f s) = st_kitchen_id s"
      "\<And>s. st_name (f s) = st_name s" "\<And>s. st_busy_slots (f s) = st_busy_slots s"
      "\<And>s. station_row_ok s \<Longrightarrow> station_row_ok (f s)"
  shows "db_inv (upd_station sid f db)"
proof -
  let ?db = "upd_station sid f db"
  have ok: "kdb_ok db" and busy: "busy_ok db" using inv by (simp_all add: db_inv_def)
  have maps: "map st_id (stations ?db) = map st_id (stations db)"
    "map (\<lambda>s. (st_kitchen_id s, st_name s)) (stations ?db)
       = map (\<lambda>s. (st_kitchen_id s, st_name s)) (stations db)"
    by (simp_all add: upd_station_def update_row_def f)
  then have ids: "st_id ` set (stations ?db) = st_id ` set (stations db)"
    by (metis list.set_map)
  have mem: "\<exists>s0 \<in> set (stations db). s = s0 \<or> s = f s0" if "s \<in> set (stations ?db)" for s
    using that by (auto elim: station_tab.member_updE)
  have "station_row_ok s \<and> st_kitchen_id s \<in> k_id ` set (kitchens ?db)"
    if "s \<in> set (stations ?db)" for s
    using mem [OF that] ok by (auto simp: kdb_ok_def f)
  then have "kdb_ok ?db" using ok by (simp add: kdb_ok_def maps ids)
  moreover have "busy_ok ?db"
    using mem busy by (fastforce simp: busy_ok_def claimed_count_def f)
  ultimately show ?thesis by (simp add: db_inv_def)
qed

lemma create_kitchen_inv: "db_inv (kw_db w) \<Longrightarrow> db_inv (kw_db (snd (create_kitchen env p w)))"
  using insert_kitchen_inv
  by (auto simp: create_kitchen_def create_kitchen_row_def Let_def split: sum.splits db_error.splits)

lemma create_station_inv:
  assumes "db_inv (kw_db w)" and "valid_station_create p"
  shows "db_inv (kw_db (snd (create_station cfg env kid p w)))"
proof -
  have "station_row_ok s \<and> st_busy_slots s = 0 \<and> insert_station s (kw_db w) = Inr db"
    if "create_station_row env kid p (kw_db w) = Inr (s, db)" for s db
    using that assms(2)
    by (auto simp: create_station_row_def Let_def insert_station_def station_row_ok_def valid_station_create_def
        split: sum.splits if_splits)
  then show ?thesis
    using assms(1) insert_station_inv
    by (fastforce simp: create_station_def split: sum.splits db_error.splits)
qed

lemma update_station_capacity_inv:
  assumes "db_inv (kw_db w)" and "valid_capacity_update cap"
  shows "db_inv (kw_db (snd (update_station_capacity cfg env sid cap w)))"
  using assms
  by (auto simp: update_station_capacity_def Let_def valid_capacity_update_def station_row_ok_def
      station_fits_def split: sum.splits intro!: upd_station_inv)

lemma update_station_status_inv:
  assumes "db_inv (kw_db w)"
  shows "db_inv (kw_db (snd (update_station_status cfg env sid stat w)))"
  using assms
  by (auto simp: update_station_status_def Let_def station_row_ok_def station_fits_def
      split: sum.splits intro!: upd_station_inv)

lemma create_kds_row_Inr:
  assumes "create_kds_row env sid p db = Inr (t, db')"
  shows "insert_kds_task t db = Inr db'" "kt_status t = Kds_displayed" "kt_station_id t = sid"
    "kt_task_id t = uuid_str (dr_task_id p)" "kt_idempotency_key t = dr_idempotency_key p"
    "kt_id t = ke_uuid env" "kt_claimed_by t = None" "kt_claimed_at t = None"
    "uuid_parse (kt_task_id t) \<noteq> None" "uuid_parse (kt_order_id t) \<noteq> None" "db' = db\<lparr>kds_tasks := kds_tasks db @ [t]\<rparr>"
  using assms
  by (auto simp: create_kds_row_def Let_def insert_kds_task_def split: sum.splits if_splits)

lemma deliver_insert_inv:
  assumes "db_inv (kw_db w)"
  shows "db_inv (kw_db (snd (deliver_insert cfg env corr sid p w)))"
  using assms insert_kds_task_inv [OF assms create_kds_row_Inr(1,2,7-10)]
  by (auto simp: deliver_insert_def split: option.splits sum.splits db_error.splits prod.splits)

lemma deliver_task_inv:
  "db_inv (kw_db w) \<Longrightarrow> db_inv (kw_db (snd (deliver_task cfg env corr sid p w)))"
  by (simp add: deliver_task_def deliver_insert_inv split: option.split)

lemma claim_task_inv:
  assumes inv: "db_inv (kw_db w)"
  shows "db_inv (kw_db (fst (snd (claim_task populate remote cfg env corr sid tid p w f))))"
proof (cases "claim_begin populate cfg env corr sid tid p w")
  case (Pair r w1)
  have inv1: "db_inv (kw_db w1)"
    using claim_begin_inv [OF inv, of populate cfg env corr sid tid p] Pair by simp
  have fresh: "coherent populate (pd_session pd) (kw_db w1)" if "r = Inr pd" for pd
  proof -
    have ok: "kdb_ok (kw_db w)" using inv by (simp add: db_inv_def)
    have run: "claim_begin populate cfg env corr sid tid p w = (Inr pd, w1)" using Pair that by simp
    show ?thesis by (rule claim_begin_ok [OF ok run]) (simp add: coherent_def)
  qed
  show ?thesis
  proof (cases r)
    case (Inl e)
    then show ?thesis using Pair inv1 by (simp add: claim_task_def)
  next
    case (Inr pd)
    have fail: "db_inv (kw_db w2)" if "claim_failure populate cfg env corr p code pd w1 = (e, w2)" for code e w2
      using claim_failure_inv [OF inv1 fresh [OF Inr], of cfg env corr p code] that by simp
    have succ: "kw_db w2 = kw_db w1" if "claim_success cfg env corr sid p pd w1 = (t, w2)" for t w2
      using claim_success_db [of cfg env corr sid p pd w1] that by simp
    obtain a f1 where rm: "remote (start_call (cr_worker p) pd) f = (a, f1)" by fastforce
    consider "post_transition Start_op a = Inr ()" | "post_transition Start_op a = Inl Httpx_escapes"
      | code where "post_transition Start_op a = Inl (FulfillmentClientError code)"
      by (metis (full_types) client_error.exhaust old.sum.exhaust unit.exhaust)
    then show ?thesis
    proof cases
      case 1
      obtain t w2 where cs: "claim_success cfg env corr sid p pd w1 = (t, w2)" by fastforce
      show ?thesis using Pair Inr rm 1 cs succ [OF cs] inv1 by (simp add: claim_task_def)
    next
      case 2
      then show ?thesis using Pair Inr inv1 rm by (simp add: claim_task_def)
    next
      case 3
      obtain e w2 where cf: "claim_failure populate cfg env corr p code pd w1 = (e, w2)" by fastforce
      show ?thesis using Pair Inr rm 3 cf fail [OF cf] by (simp add: claim_task_def)
    qed
  qed
qed

lemma complete_task_inv:
  assumes inv: "db_inv (kw_db w)"
  shows "db_inv (kw_db (fst (snd (complete_task populate remote cfg env corr sid tid p w f))))"
proof (cases "complete_begin populate env sid tid p w")
  case (Inl e)
  then show ?thesis using inv by (simp add: complete_task_def)
next
  case (Inr pd)
  have "coherent populate (pd_session pd) (kw_db w)"
    using inv complete_begin_fresh Inr by (simp add: db_inv_def coherent_def)
  then have c: "db_inv (kw_db (snd (complete_commit populate cfg env corr sid tid p pd w)))"
    using inv by (rule complete_commit_inv [rotated])
  have fail: "kw_db w2 = kw_db w" if "complete_failure cfg env corr code pd w = (e, w2)" for code e w2
    using complete_failure_db [of cfg env corr code pd w] that by simp
  show ?thesis
    using Inr inv c
    by (auto simp: complete_task_def fail split: prod.splits sum.splits client_error.splits)
qed

end
