(* ===== verification/Kitchen_Facts.thy ===== *)
theory Kitchen_Facts
  imports Kitchen_Routes Kitchen_Invariants
begin

text \<open>
  Kitchen service: facts shared by its properties. Lookups after a slot move, the shape of a
  whole claim and a whole completion, what a rolled back claim leaves behind, and the row
  that a delivery adds.
\<close>

section \<open>Lookups after a slot move\<close>

lemma get_station_slot_move:
  assumes "get_station_row db sid = Some s"
  shows "get_station_row (slot_move now i f s v db) j =
     (if j = sid \<and> v \<noteq> st_busy_slots s then Some (s\<lparr>st_busy_slots := v, st_updated_at := now\<rparr>)
      else get_station_row db j)"
proof -
  have "st_id s = sid" using assms by (rule station_tab.get_key)
  then show ?thesis
    using assms
    by (auto simp: slot_move_def flush_busy_slots_def upd_station_def get_station_row_def
        upd_kds_task_def row_simps)
qed

lemma stations_after_slot_move:
  "stations (slot_move now i f s v db) =
     (if v = st_busy_slots s then stations db
      else update_row st_id (st_id s) (\<lambda>s. s\<lparr>st_busy_slots := v, st_updated_at := now\<rparr>) (stations db))"
  by (simp add: slot_move_def flush_busy_slots_def upd_station_def)

lemma claimed_count_claim:
  assumes "kdb_ok db" and "get_by_task_id db tid = Some t" and "kt_status t = Kds_displayed"
  shows "claimed_count (slot_move now (kt_id t) (claim_row wk ca now') s v db) (kt_station_id t)
     = Suc (claimed_count db (kt_station_id t))"
proof -
  have "int (claimed_count (slot_move now (kt_id t) (claim_row wk ca now') s v db) (kt_station_id t))
      = int (claimed_count db (kt_station_id t)) + 1"
    using assms get_by_task_id_row [OF assms(1,2)]
    by (subst claimed_count_slot_move [where t = t]) (auto simp: claim_row_def claimed_at_station_def)
  then show ?thesis by linarith
qed

section \<open>The database without its update stamps\<close>

text \<open>
  \<open>updated_at\<close> is written by every UPDATE (\<open>onupdate=func.now()\<close>); two databases that agree
  up to these columns are the same to every handler.
\<close>

definition unstamp :: "pydatetime \<Rightarrow> kdb \<Rightarrow> kdb" where
  "unstamp z db = db\<lparr>stations := map (\<lambda>s. s\<lparr>st_updated_at := z\<rparr>) (stations db),
     kds_tasks := map (\<lambda>t. t\<lparr>kt_updated_at := z\<rparr>) (kds_tasks db)\<rparr>"

text \<open>Undoing a claim gives the database back, up to the stamps.\<close>

lemma undo_claim_restores:
  assumes inv: "db_inv db" and s: "get_station_row db sid = Some s" and t: "get_by_task_id db tid = Some t"
    and valid: "validate_claim s t = None"
  shows "unstamp z (undo_claim now' tid wk
            (slot_move now (kt_id t) (claim_row wk ca now) s (st_busy_slots s + 1) db)) = unstamp z db"
    (is "unstamp z (undo_claim now' tid wk ?db1) = _")
proof -
  have ok: "kdb_ok db" and busy: "busy_ok db" using inv by (simp_all add: db_inv_def)
  note v = validate_claim_NoneD [OF valid]
  have unclaimed: "kt_claimed_by t = None" "kt_claimed_at t = None"
    using kdb_okD(6) [OF ok] get_by_task_id_SomeD [OF t] v(3) by (auto simp: kds_row_ok_def)
  have sid: "st_id s = sid" using s by (rule station_tab.get_key)
  have pos: "0 \<le> st_busy_slots s" using busy_okD [OF busy s] by simp
  let ?s1 = "s\<lparr>st_busy_slots := st_busy_slots s + 1, st_updated_at := now\<rparr>"
  have t1: "get_by_task_id ?db1 tid = Some (claim_row wk ca now t)"
    using ok t by (simp add: get_by_task_id_slot_move)
  have s1: "get_station_row ?db1 sid = Some ?s1" using s by (simp add: get_station_slot_move)
  have undo: "undo_claim now' tid wk ?db1
      = slot_move now' (kt_id t) (release_row now') ?s1 (st_busy_slots s) ?db1"
    using t1 s1 v sid pos by (simp add: undo_claim_def claim_row_def max_def)
  have st1: "stations ?db1 = update_row st_id sid (\<lambda>s'. s'\<lparr>st_busy_slots := st_busy_slots s + 1, st_updated_at := now\<rparr>) (stations db)"
    by (simp add: stations_after_slot_move sid)
  have tasks: "map (\<lambda>t. t\<lparr>kt_updated_at := z\<rparr>) (kds_tasks (undo_claim now' tid wk ?db1))
      = map (\<lambda>t. t\<lparr>kt_updated_at := z\<rparr>) (kds_tasks db)"
  proof -
    have row: "find_row kt_id (kt_id t) (kds_tasks db) = Some t"
      using get_by_task_id_row [OF ok t] by (simp add: get_kds_row_def)
    have "kds_tasks (undo_claim now' tid wk ?db1)
        = update_row kt_id (kt_id t) (\<lambda>r. release_row now' (claim_row wk ca now r)) (kds_tasks db)"
      by (simp add: undo update_row_twice claim_row_def)
    moreover have "(release_row now' (claim_row wk ca now t))\<lparr>kt_updated_at := z\<rparr> = t\<lparr>kt_updated_at := z\<rparr>"
      using v(3) unclaimed by (cases t) (simp add: release_row_def claim_row_def)
    ultimately show ?thesis using kdb_okD(2) [OF ok] row by (simp add: map_update_row_id)
  qed
  have stats: "map (\<lambda>s. s\<lparr>st_updated_at := z\<rparr>) (stations (undo_claim now' tid wk ?db1))
      = map (\<lambda>s. s\<lparr>st_updated_at := z\<rparr>) (stations db)"
  proof -
    have row: "find_row st_id sid (stations db) = Some s" using s by (simp add: get_station_row_def)
    have "stations (undo_claim now' tid wk ?db1)
        = update_row st_id sid (\<lambda>r. r\<lparr>st_busy_slots := st_busy_slots s, st_updated_at := now'\<rparr>) (stations ?db1)"
      unfolding undo by (simp add: stations_after_slot_move [where s = ?s1] sid)
    also have "\<dots> = update_row st_id sid (\<lambda>r. r\<lparr>st_busy_slots := st_busy_slots s, st_updated_at := now'\<rparr>) (stations db)"
      by (simp add: st1 update_row_twice)
    finally show ?thesis
      using kdb_okD(1) [OF ok] row by (simp add: map_update_row_id)
  qed
  have "kitchens (undo_claim now' tid wk ?db1) = kitchens db" by (simp add: undo)
  with tasks stats show ?thesis by (simp add: unstamp_def)
qed

section \<open>Requests with nothing in between\<close>

lemma claim_begin_populate:
  "claim_begin populate cfg env corr sid tid p w = claim_begin True cfg env corr sid tid p w"
proof (cases "get_station_row (kw_db w) sid")
  case None
  then show ?thesis by (simp add: claim_begin_def get_station_none Let_def)
next
  case (Some s)
  note s = first_station_load [OF Some]
  show ?thesis
  proof (cases "get_by_task_id (kw_db w) tid")
    case None
    then show ?thesis by (simp add: claim_begin_def s get_task_none Let_def)
  next
    case (Some t)
    show ?thesis by (simp add: claim_begin_def s first_task_load [OF Some] Let_def cong: option.case_cong)
  qed
qed

lemma complete_begin_populate:
  "complete_begin populate env sid tid p w = complete_begin True env sid tid p w"
proof (cases "get_station_row (kw_db w) sid")
  case None
  then show ?thesis by (simp add: complete_begin_def get_station_none Let_def)
next
  case (Some s)
  note s = first_station_load [OF Some]
  show ?thesis
  proof (cases "get_by_task_id (kw_db w) tid")
    case None
    then show ?thesis by (simp add: complete_begin_def s get_task_none Let_def)
  next
    case (Some t)
    show ?thesis by (simp add: complete_begin_def s first_task_load [OF Some] Let_def)
  qed
qed

lemma complete_commit_populate:
  assumes ok: "kdb_ok (kw_db w)" and coh: "coherent populate (pd_session pd) (kw_db w)"
  shows "complete_commit populate cfg env corr sid tid p pd w = complete_commit True cfg env corr sid tid p pd w"
proof -
  let ?db = "kw_db w"
  obtain se1 where se1: "get_station_for_update populate sid ?db (pd_session pd) = (get_station_row ?db sid, se1)"
    "coherent populate se1 ?db"
    by (rule get_station_coherent [OF coh]) auto
  obtain se2 where se2: "get_task_for_update populate tid ?db se1 = (get_by_task_id ?db tid, se2)"
    by (rule get_task_coherent [OF se1(2) ok, of tid]) auto
  obtain se1' where se1': "get_station_for_update True sid ?db (pd_session pd) = (get_station_row ?db sid, se1')"
    by (metis get_station_populate prod.collapse)
  obtain se2' where se2': "get_task_for_update True tid ?db se1' = (get_by_task_id ?db tid, se2')"
    by (metis get_task_populate prod.collapse)
  show ?thesis by (simp add: complete_commit_def se1 se2 se1' se2' Let_def)
qed

lemma compensate_claim_populate:
  assumes ok: "kdb_ok (kw_db w)" and coh: "coherent populate se (kw_db w)"
  shows "compensate_claim populate cfg env corr tid worker reason se w
           = compensate_claim True cfg env corr tid worker reason se w"
proof -
  let ?db = "kw_db w"
  obtain se1 where se1: "get_task_for_update populate tid ?db se = (get_by_task_id ?db tid, se1)"
    "coherent populate se1 ?db"
    by (rule get_task_coherent [OF coh ok, of tid]) auto
  obtain se1' where se1': "get_task_for_update True tid ?db se = (get_by_task_id ?db tid, se1')"
    by (metis get_task_populate prod.collapse)
  show ?thesis
  proof (cases "get_by_task_id ?db tid")
    case None
    then show ?thesis by (simp add: compensate_claim_def se1 se1' Let_def)
  next
    case (Some t)
    obtain se2 where se2: "get_station_for_update populate (kt_station_id t) ?db se1
        = (get_station_row ?db (kt_station_id t), se2)"
      by (rule get_station_coherent [OF se1(2)]) auto
    obtain se2' where se2': "get_station_for_update True (kt_station_id t) ?db se1'
        = (get_station_row ?db (kt_station_id t), se2')"
      by (metis get_station_populate prod.collapse)
    show ?thesis using Some by (simp add: compensate_claim_def se1 se1' se2 se2' Let_def)
  qed
qed

lemma claim_failure_populate:
  "kdb_ok (kw_db w) \<Longrightarrow> coherent populate (pd_session pd) (kw_db w) \<Longrightarrow>
     claim_failure populate cfg env corr p code pd w = claim_failure True cfg env corr p code pd w"
  unfolding claim_failure_def Let_def by (subst compensate_claim_populate) simp_all

text \<open>A sequential request finds its own session coherent.\<close>

lemma claim_begin_fresh:
  "db_inv (kw_db w) \<Longrightarrow> claim_begin populate cfg env corr sid tid p w = (Inr pd, w1) \<Longrightarrow>
     session_fresh (pd_session pd) (kw_db w1)"
  by (auto simp: db_inv_def elim: claim_begin_ok)

lemma claim_begin_db_inv:
  "db_inv (kw_db w) \<Longrightarrow> claim_begin populate cfg env corr sid tid p w = (r, w1) \<Longrightarrow> db_inv (kw_db w1)"
  using claim_begin_inv [of w populate cfg env corr sid tid p] by simp

lemma claim_task_populate:
  assumes inv: "db_inv (kw_db w)"
  shows "claim_task populate remote cfg env corr sid tid p w f = claim_task True remote cfg env corr sid tid p w f"
proof (cases "claim_begin True cfg env corr sid tid p w")
  case (Pair r w1)
  have ok1: "kdb_ok (kw_db w1)" using claim_begin_db_inv [OF inv Pair] by (simp add: db_inv_def)
  have fail: "claim_failure populate cfg env corr p code pd w1 = claim_failure True cfg env corr p code pd w1"
    if "r = Inr pd" for code pd
    using claim_begin_fresh [OF inv, of True cfg env corr sid tid p pd w1] Pair that ok1
    by (intro claim_failure_populate) (simp_all add: coherent_def)
  show ?thesis
    by (simp add: claim_task_def claim_begin_populate [of populate] Pair fail
        split: sum.split prod.split client_error.split)
qed

lemma complete_task_populate:
  assumes inv: "db_inv (kw_db w)"
  shows "complete_task populate remote cfg env corr sid tid p w f
           = complete_task True remote cfg env corr sid tid p w f"
proof (cases "complete_begin True env sid tid p w")
  case (Inl e)
  then show ?thesis by (simp add: complete_task_def complete_begin_populate [of populate])
next
  case (Inr pd)
  have ok: "kdb_ok (kw_db w)" using inv by (simp add: db_inv_def)
  have "coherent populate (pd_session pd) (kw_db w)"
    using complete_begin_fresh [OF ok Inr] by (simp add: coherent_def)
  from complete_commit_populate [OF ok this] Inr show ?thesis
    by (simp add: complete_task_def complete_begin_populate [of populate]
        split: sum.split prod.split client_error.split)
qed

end
