(* ===== verification/Kitchen_Concurrency.thy ===== *)
theory Kitchen_Concurrency
  imports Kitchen_Invariants
begin

text \<open>
  Kitchen service: requests that run at the same time. Each transaction of
  \<open>app/services.py\<close> is one step (the row locks it takes are held until it commits, so
  transactions on one station do not overlap), and between the transactions of a request
  any other request may run. A request that waits for the fulfillment service is a
  continuation with the session it holds; the refresh after a claim belongs to the step
  of its commit. A continuation may also be dropped: the process stopped, or the call
  raised an exception the handler does not catch.
\<close>

section \<open>States and steps\<close>

datatype kcont =
    Claim_cont uuid claim_request pending
  | Complete_cont uuid string complete_request pending
  | Deliver_cont uuid delivery_request

fun kcont_pending :: "kcont \<Rightarrow> pending option" where
  "kcont_pending (Claim_cont _ _ pd) = Some pd"
| "kcont_pending (Complete_cont _ _ _ pd) = Some pd"
| "kcont_pending (Deliver_cont _ _) = None"

record kconc =
  kx_world :: kworld
  kx_conts :: "kcont list"

inductive kstep :: "bool \<Rightarrow> ksettings \<Rightarrow> kconc \<Rightarrow> kconc \<Rightarrow> bool"
  for populate :: bool and cfg :: ksettings where
  k_create_kitchen:
    "create_kitchen env p (kx_world k) = (r, w) \<Longrightarrow> kstep populate cfg k (k\<lparr>kx_world := w\<rparr>)"
| k_create_station:
    "valid_station_create p \<Longrightarrow> create_station cfg env kid p (kx_world k) = (r, w) \<Longrightarrow>
       kstep populate cfg k (k\<lparr>kx_world := w\<rparr>)"
| k_update_capacity:
    "valid_capacity_update cap \<Longrightarrow> update_station_capacity cfg env sid cap (kx_world k) = (r, w) \<Longrightarrow>
       kstep populate cfg k (k\<lparr>kx_world := w\<rparr>)"
| k_update_status:
    "update_station_status cfg env sid stat (kx_world k) = (r, w) \<Longrightarrow>
       kstep populate cfg k (k\<lparr>kx_world := w\<rparr>)"
| k_deliver_lookup:
    "deliver_lookup p (kx_world k) = None \<Longrightarrow>
       kstep populate cfg k (k\<lparr>kx_conts := Deliver_cont sid p # kx_conts k\<rparr>)"
| k_deliver_insert:
    "kx_conts k = xs @ Deliver_cont sid p # ys \<Longrightarrow>
       deliver_insert cfg env corr sid p (kx_world k) = (r, w) \<Longrightarrow>
       kstep populate cfg k (k\<lparr>kx_world := w, kx_conts := xs @ ys\<rparr>)"
| k_claim_refused:
    "claim_begin populate cfg env corr sid tid p (kx_world k) = (Inl e, w) \<Longrightarrow>
       kstep populate cfg k (k\<lparr>kx_world := w\<rparr>)"
| k_claim_begin:
    "claim_begin populate cfg env corr sid tid p (kx_world k) = (Inr pd, w) \<Longrightarrow>
       kstep populate cfg k (k\<lparr>kx_world := w, kx_conts := Claim_cont sid p pd # kx_conts k\<rparr>)"
| k_claim_success:
    "kx_conts k = xs @ Claim_cont sid p pd # ys \<Longrightarrow>
       claim_success cfg env corr sid p pd (kx_world k) = (t, w) \<Longrightarrow>
       kstep populate cfg k (k\<lparr>kx_world := w, kx_conts := xs @ ys\<rparr>)"
| k_claim_failure:
    "kx_conts k = xs @ Claim_cont sid p pd # ys \<Longrightarrow>
       claim_failure populate cfg env corr p code pd (kx_world k) = (e, w) \<Longrightarrow>
       kstep populate cfg k (k\<lparr>kx_world := w, kx_conts := xs @ ys\<rparr>)"
| k_complete_begin:
    "complete_begin populate env sid tid p (kx_world k) = Inr pd \<Longrightarrow>
       kstep populate cfg k (k\<lparr>kx_conts := Complete_cont sid tid p pd # kx_conts k\<rparr>)"
| k_complete_failure:
    "kx_conts k = xs @ Complete_cont sid tid p pd # ys \<Longrightarrow>
       complete_failure cfg env corr code pd (kx_world k) = (e, w) \<Longrightarrow>
       kstep populate cfg k (k\<lparr>kx_world := w, kx_conts := xs @ ys\<rparr>)"
| k_complete_commit:
    "kx_conts k = xs @ Complete_cont sid tid p pd # ys \<Longrightarrow>
       complete_commit populate cfg env corr sid tid p pd (kx_world k) = (r, w) \<Longrightarrow>
       kstep populate cfg k (k\<lparr>kx_world := w, kx_conts := xs @ ys\<rparr>)"
| k_drop:
    "kx_conts k = xs @ c # ys \<Longrightarrow> kstep populate cfg k (k\<lparr>kx_conts := xs @ ys\<rparr>)"

definition kinit :: "kconc \<Rightarrow> bool" where
  "kinit k = (db_inv (kw_db (kx_world k)) \<and> kx_conts k = [])"

definition kconc_inv :: "kconc \<Rightarrow> bool" where
  "kconc_inv k = db_inv (kw_db (kx_world k))"

section \<open>With instances that are read again under the lock\<close>

lemma kstep_inv: "kstep True cfg k k' \<Longrightarrow> kconc_inv k \<Longrightarrow> kconc_inv k'"
proof (induction rule: kstep.induct)
  case (k_create_kitchen env p k r w)
  then show ?case using create_kitchen_inv [of "kx_world k" env p] by (simp add: kconc_inv_def)
next
  case (k_create_station p env kid k r w)
  then show ?case using create_station_inv [of "kx_world k" p cfg env kid] by (simp add: kconc_inv_def)
next
  case (k_update_capacity cap env sid k r w)
  then show ?case
    using update_station_capacity_inv [of "kx_world k" cap cfg env sid] by (simp add: kconc_inv_def)
next
  case (k_update_status env sid stat k r w)
  then show ?case using update_station_status_inv [of "kx_world k" cfg env sid stat] by (simp add: kconc_inv_def)
next
  case (k_deliver_insert k xs sid p ys env corr r w)
  then show ?case using deliver_insert_inv [of "kx_world k" cfg env corr sid p] by (simp add: kconc_inv_def)
next
  case (k_claim_refused env corr sid tid p k e w)
  then show ?case using claim_begin_inv [of "kx_world k" True cfg env corr sid tid p] by (simp add: kconc_inv_def)
next
  case (k_claim_begin env corr sid tid p k pd w)
  then show ?case using claim_begin_inv [of "kx_world k" True cfg env corr sid tid p] by (simp add: kconc_inv_def)
next
  case (k_claim_success k xs sid p pd ys env corr t w)
  then show ?case using claim_success_db [of cfg env corr sid p pd "kx_world k"] by (simp add: kconc_inv_def)
next
  case (k_claim_failure k xs sid p pd ys env corr code e w)
  then show ?case
    using claim_failure_inv [of "kx_world k" True pd cfg env corr p code] by (simp add: kconc_inv_def)
next
  case (k_complete_failure k xs sid tid p pd ys env corr code e w)
  then show ?case using complete_failure_db [of cfg env corr code pd "kx_world k"] by (simp add: kconc_inv_def)
next
  case (k_complete_commit k xs sid tid p pd ys env corr r w)
  then show ?case
    using complete_commit_inv [of "kx_world k" True pd cfg env corr sid tid p] by (simp add: kconc_inv_def)
qed (simp_all add: kconc_inv_def)

interpretation kitchen_sys: inv_system kinit "kstep True cfg" kconc_inv
  by unfold_locales (auto simp: kinit_def kconc_inv_def intro: kstep_inv [unfolded kconc_inv_def])

section \<open>Runs of single transactions\<close>

text \<open>The successful branch of each transaction, as an equation on the database.\<close>

lemma claim_begin_run:
  assumes s: "get_station_row (kw_db w) sid = Some s" and t: "get_by_task_id (kw_db w) tid = Some t"
    and valid: "validate_claim s t = None" and ptext: "pg_text 120 (cr_worker p)"
  shows "\<exists>pd w'. claim_begin populate cfg env corr sid tid p w = (Inr pd, w')
    \<and> kw_db w' = slot_move (ke_db_now env) (kt_id t)
        (claim_row (cr_worker p) (case cr_claimed_at p of Some d \<Rightarrow> d | None \<Rightarrow> ke_now env) (ke_db_now env)) s
        (st_busy_slots s + 1) (kw_db w)"
  using first_station_load [OF s, of populate] first_task_load [OF t, of populate] s t valid ptext
  by (auto simp: claim_begin_def Let_def slot_move_def)

lemma complete_begin_run:
  assumes s: "get_station_row (kw_db w) sid = Some s" and t: "get_by_task_id (kw_db w) tid = Some t"
    and valid: "validate_complete s t (co_worker p) = None"
  shows "\<exists>pd. complete_begin populate env sid tid p w = Inr pd \<and> pd_station pd = s \<and> pd_task pd = t
    \<and> pd_session pd = new_ksession\<lparr>se_stations := [sid \<mapsto> s], se_tasks := [kt_id t \<mapsto> t]\<rparr>"
  using first_station_load [OF s, of populate] first_task_load [OF t, of populate] valid
  by (auto simp: complete_begin_def Let_def)

text \<open>
  The committing half on a session that already holds the two instances, when a second
  load does not overwrite them: it validates and writes the held values.
\<close>

lemma complete_commit_held_run:
  assumes ses: "pd_session pd = new_ksession\<lparr>se_stations := [sid \<mapsto> s], se_tasks := [kt_id t \<mapsto> t]\<rparr>"
    and st: "get_station_row (kw_db w) sid \<noteq> None"
    and tk: "get_by_task_id (kw_db w) tid = Some t'" "kt_id t' = kt_id t"
    and valid: "validate_complete s t (co_worker p) = None"
  shows "\<exists>r w'. complete_commit False cfg env corr sid tid p pd w = (Inr r, w')
    \<and> kw_db w' = slot_move (ke_db_now env) (kt_id t) (complete_row (pd_at pd) (ke_db_now env)) s
        (max 0 (st_busy_slots s - 1)) (kw_db w)"
  using assms
  by (auto simp: complete_commit_def get_station_for_update_def get_task_for_update_def
      orm_instance_def new_ksession_def Let_def slot_move_def)

end
