(* ===== verification/Kitchen_Overcommit.thy ===== *)
theory Kitchen_Overcommit
  imports Kitchen_Concurrency
begin

text \<open>
  Kitchen service: what the second row lock of \<open>complete_task\<close> does not protect. With
  instances that keep their attributes when they are selected again, a completion writes a
  slot count it read before its callback, and claims that commit in between are forgotten.
\<close>

section \<open>Whole requests as steps\<close>

text \<open>A claim whose callback succeeds, with nothing in between.\<close>

lemma reach_claim:
  fixes env :: kenv and corr :: "string option" and p :: claim_request
  assumes reach: "reach kinit (kstep populate cfg) k"
    and s: "get_station_row (kw_db (kx_world k)) sid = Some s"
    and t: "get_by_task_id (kw_db (kx_world k)) tid = Some t"
    and valid: "validate_claim s t = None" and ptext: "pg_text 120 (cr_worker p)"
  shows "\<exists>k'. reach kinit (kstep populate cfg) k' \<and> kx_conts k' = kx_conts k
    \<and> kw_db (kx_world k') = slot_move (ke_db_now env) (kt_id t)
        (claim_row (cr_worker p) (case cr_claimed_at p of Some d \<Rightarrow> d | None \<Rightarrow> ke_now env) (ke_db_now env)) s
        (st_busy_slots s + 1) (kw_db (kx_world k))"
proof -
  obtain pd w where run: "claim_begin populate cfg env corr sid tid p (kx_world k) = (Inr pd, w)"
    and db: "kw_db w = slot_move (ke_db_now env) (kt_id t)
        (claim_row (cr_worker p) (case cr_claimed_at p of Some d \<Rightarrow> d | None \<Rightarrow> ke_now env) (ke_db_now env)) s
        (st_busy_slots s + 1) (kw_db (kx_world k))"
    using claim_begin_run [OF s t valid ptext] by metis
  obtain t1 w1 where succ: "claim_success cfg env corr sid p pd w = (t1, w1)" by fastforce
  let ?k1 = "k\<lparr>kx_world := w, kx_conts := Claim_cont sid p pd # kx_conts k\<rparr>"
  have "reach kinit (kstep populate cfg) ?k1"
    using reach run by (blast intro: reach_step k_claim_begin)
  moreover have "kstep populate cfg ?k1 (?k1\<lparr>kx_world := w1, kx_conts := [] @ kx_conts k\<rparr>)"
    using succ by (intro k_claim_success) simp_all
  ultimately have "reach kinit (kstep populate cfg) (k\<lparr>kx_world := w1\<rparr>)"
    by (auto dest: reach_step)
  moreover have "kw_db w1 = kw_db w"
    using claim_success_db [of cfg env corr sid p pd w] by (simp add: succ)
  ultimately show ?thesis using db by (intro exI [of _ "k\<lparr>kx_world := w1\<rparr>"]) simp
qed

text \<open>The first half of a completion: the request holds what it read.\<close>

lemma reach_complete_begin:
  fixes env :: kenv
  assumes reach: "reach kinit (kstep populate cfg) k"
    and s: "get_station_row (kw_db (kx_world k)) sid = Some s"
    and t: "get_by_task_id (kw_db (kx_world k)) tid = Some t"
    and valid: "validate_complete s t (co_worker p) = None"
  shows "\<exists>pd. reach kinit (kstep populate cfg) (k\<lparr>kx_conts := Complete_cont sid tid p pd # kx_conts k\<rparr>)
    \<and> pd_session pd = new_ksession\<lparr>se_stations := [sid \<mapsto> s], se_tasks := [kt_id t \<mapsto> t]\<rparr>"
  using complete_begin_run [OF s t valid] reach
  by (metis k_complete_begin reach_step)

text \<open>The second half on the values it holds.\<close>

lemma reach_complete_commit_held:
  fixes env :: kenv and corr :: "string option"
  assumes reach: "reach kinit (kstep False cfg) k"
    and conts: "kx_conts k = Complete_cont sid tid p pd # ys"
    and ses: "pd_session pd = new_ksession\<lparr>se_stations := [sid \<mapsto> s], se_tasks := [kt_id t \<mapsto> t]\<rparr>"
    and st: "get_station_row (kw_db (kx_world k)) sid \<noteq> None"
    and tk: "get_by_task_id (kw_db (kx_world k)) tid = Some t'" "kt_id t' = kt_id t"
    and valid: "validate_complete s t (co_worker p) = None"
  shows "\<exists>k'. reach kinit (kstep False cfg) k' \<and> kx_conts k' = ys
    \<and> kw_db (kx_world k') = slot_move (ke_db_now env) (kt_id t) (complete_row (pd_at pd) (ke_db_now env)) s
        (max 0 (st_busy_slots s - 1)) (kw_db (kx_world k))"
proof -
  obtain r w where run: "complete_commit False cfg env corr sid tid p pd (kx_world k) = (Inr r, w)"
    and db: "kw_db w = slot_move (ke_db_now env) (kt_id t) (complete_row (pd_at pd) (ke_db_now env)) s
        (max 0 (st_busy_slots s - 1)) (kw_db (kx_world k))"
    using complete_commit_held_run [OF ses st tk valid] by metis
  have "kstep False cfg k (k\<lparr>kx_world := w, kx_conts := [] @ ys\<rparr>)"
    by (rule k_complete_commit [OF _ run]) (simp add: conts)
  with reach db show ?thesis
    by (intro exI [of _ "k\<lparr>kx_world := w, kx_conts := ys\<rparr>"]) (auto intro: reach_step)
qed

section \<open>A station with two slots and four displayed tasks\<close>

definition race_time :: pydatetime where
  "race_time = \<lparr>dt_us = 63900000000000000, dt_off = Some 0\<rparr>"

definition race_kitchen :: kitchen where
  "race_kitchen = \<lparr>k_id = 1, k_name = ''demo'', k_status = Kitchen_active,
     k_created_at = race_time, k_updated_at = race_time\<rparr>"

definition race_station :: station where
  "race_station = \<lparr>st_id = 2, st_kitchen_id = 1, st_name = ''grill'', st_type = Grill,
     st_status = St_available, st_capacity = 2, st_busy_slots = 0, st_backlog_limit = 10,
     st_created_at = race_time, st_updated_at = race_time\<rparr>"

definition race_task :: "uuid \<Rightarrow> string \<Rightarrow> kds_task" where
  "race_task i tid = \<lparr>kt_id = i, kt_task_id = tid, kt_order_id = uuid_str 3, kt_kitchen_id = 1,
     kt_station_id = 2, kt_station_type = Grill, kt_operation = ''cook'', kt_menu_item_name = None,
     kt_status = Kds_displayed, kt_duration = 60, kt_pickup_deadline = None,
     kt_displayed_at = race_time, kt_claimed_by = None, kt_claimed_at = None,
     kt_completed_at = None, kt_idempotency_key = tid, kt_created_at = race_time,
     kt_updated_at = race_time\<rparr>"

definition race_db :: kdb where
  "race_db = \<lparr>kitchens = [race_kitchen], stations = [race_station],
     kds_tasks = [race_task 11 (uuid_str 21), race_task 12 (uuid_str 22), race_task 13 (uuid_str 23), race_task 14 (uuid_str 24)]\<rparr>"

definition race_env :: kenv where
  "race_env = \<lparr>ke_now = race_time, ke_db_now = race_time, ke_uuid = 99\<rparr>"

lemma race_db_inv: "db_inv race_db"
  by (simp add: db_inv_def kdb_ok_def busy_ok_def race_db_def race_kitchen_def race_station_def
      race_task_def kitchen_fits_def station_row_ok_def station_fits_def kds_row_ok_def
      kds_task_fits_def pg_text_def pg_int4_def opt_ok_def claimed_count_def claimed_at_station_def)

section \<open>The interleaving\<close>

text \<open>
  The database after the claims and completions so far: the slots of the station and what
  has become of the four tasks.
\<close>

definition race_claimed :: "kds_task \<Rightarrow> kds_task" where
  "race_claimed = claim_row ''w'' race_time race_time"

definition race_state :: "int \<Rightarrow> kds_task list \<Rightarrow> kdb" where
  "race_state busy ts = race_db\<lparr>stations := [race_station\<lparr>st_busy_slots := busy\<rparr>], kds_tasks := ts\<rparr>"

lemmas race_simps = race_state_def race_db_def race_station_def race_task_def race_claimed_def
  race_env_def slot_move_def flush_busy_slots_def upd_station_def upd_kds_task_def
  claim_row_def complete_row_def get_station_row_def get_by_task_id_def
  validate_claim_def validate_complete_def pg_text_def

lemma race_task_simps [simp]:
  "kt_id (race_task i tid) = i" "kt_task_id (race_task i tid) = tid"
  "kt_status (race_task i tid) = Kds_displayed" "kt_station_id (race_task i tid) = 2"
  "kt_id (race_claimed t) = kt_id t" "kt_task_id (race_claimed t) = kt_task_id t"
  "kt_id (complete_row at0 now t) = kt_id t" "kt_task_id (complete_row at0 now t) = kt_task_id t"
  by (simp_all add: race_task_def race_claimed_def claim_row_def complete_row_def)

text \<open>A claim by the worker \<open>w\<close> while the station still shows a free slot.\<close>

lemma race_claim:
  assumes reach: "reach kinit (kstep populate cfg) k"
    and db: "kw_db (kx_world k) = race_state busy ts" and free: "busy < 2"
    and t: "find_row kt_task_id tid ts = Some t" "kt_status t = Kds_displayed" "kt_station_id t = 2"
  shows "\<exists>k'. reach kinit (kstep populate cfg) k' \<and> kx_conts k' = kx_conts k
    \<and> kw_db (kx_world k') = race_state (busy + 1) (update_row kt_id (kt_id t) race_claimed ts)"
proof -
  let ?s = "race_station\<lparr>st_busy_slots := busy\<rparr>"
  let ?p = "\<lparr>cr_worker = ''w'', cr_claimed_at = None\<rparr>"
  have s: "get_station_row (kw_db (kx_world k)) 2 = Some ?s" by (simp add: db race_simps)
  have t': "get_by_task_id (kw_db (kx_world k)) tid = Some t" using t by (simp add: db race_simps)
  have "validate_claim ?s t = None" using t free by (simp add: race_simps)
  with reach_claim [OF reach s t', of ?p race_env] obtain k' where
    k': "reach kinit (kstep populate cfg) k'" "kx_conts k' = kx_conts k"
    "kw_db (kx_world k') = slot_move race_time (kt_id t) (claim_row ''w'' race_time race_time) ?s
        (busy + 1) (race_state busy ts)"
    by (auto simp: db pg_text_def race_env_def)
  then show ?thesis
    by (intro exI [of _ k'])
      (simp add: race_state_def race_claimed_def slot_move_def flush_busy_slots_def upd_station_def
        upd_kds_task_def race_db_def race_station_def race_time_def)
qed

lemma race_start:
  obtains k where "reach kinit (kstep False cfg) k" "kx_conts k = []"
    "kw_db (kx_world k) = race_state 0 [race_task 11 (uuid_str 21), race_task 12 (uuid_str 22),
       race_task 13 (uuid_str 23), race_task 14 (uuid_str 24)]"
proof
  let ?k = "\<lparr>kx_world = \<lparr>kw_db = race_db, kw_mongo = undefined, kw_metrics = undefined\<rparr>, kx_conts = []\<rparr>"
  show "reach kinit (kstep False cfg) ?k" by (rule reach_init) (simp add: kinit_def race_db_inv)
  show "kx_conts ?k = []" by simp
  show "kw_db (kx_world ?k) = race_state 0 [race_task 11 (uuid_str 21), race_task 12 (uuid_str 22),
       race_task 13 (uuid_str 23), race_task 14 (uuid_str 24)]"
    by (simp add: race_state_def race_db_def race_station_def)
qed

text \<open>
  C23. With the statements as the code has them (\<open>populate = False\<close>: a second
  \<open>SELECT ... FOR UPDATE\<close> keeps the attributes an instance already has) the accounting is
  lost: a claim between the two halves of a completion is forgotten, and a station with
  capacity 2 ends up with 3 claimed tasks and \<open>busy_slots = 2\<close>.
\<close>

theorem stale_completion_overcommits:
  "\<exists>k. reach kinit (kstep False cfg) k \<and> kx_conts k = []
     \<and> (\<exists>s \<in> set (stations (kw_db (kx_world k))).
          st_busy_slots s = 2 \<and> st_capacity s = 2 \<and> claimed_count (kw_db (kx_world k)) (st_id s) = 3)"
proof -
  let ?R = "reach kinit (kstep False cfg)"
  let ?a = "race_task 11 (uuid_str 21)" and ?b = "race_task 12 (uuid_str 22)" and ?c = "race_task 13 (uuid_str 23)" and ?d = "race_task 14 (uuid_str 24)"
  obtain k0 where k0: "?R k0" "kx_conts k0 = []" "kw_db (kx_world k0) = race_state 0 [?a, ?b, ?c, ?d]"
    using race_start .
  obtain k1 where k1: "?R k1" "kx_conts k1 = []"
    "kw_db (kx_world k1) = race_state 1 [race_claimed ?a, ?b, ?c, ?d]"
    using race_claim [OF k0(1,3), of "uuid_str 21" ?a] k0(2) by auto
  have s1: "get_station_row (kw_db (kx_world k1)) 2 = Some (race_station\<lparr>st_busy_slots := 1\<rparr>)"
    and t1: "get_by_task_id (kw_db (kx_world k1)) (uuid_str 21) = Some (race_claimed ?a)"
    and v1: "validate_complete (race_station\<lparr>st_busy_slots := 1\<rparr>) (race_claimed ?a) ''w'' = None"
    by (simp_all add: k1 race_simps)
  let ?p = "\<lparr>co_worker = ''w'', co_completed_at = None\<rparr>"
  obtain pd where pd: "?R (k1\<lparr>kx_conts := Complete_cont 2 (uuid_str 21) ?p pd # []\<rparr>)"
    "pd_session pd = new_ksession\<lparr>se_stations := [2 \<mapsto> race_station\<lparr>st_busy_slots := 1\<rparr>],
       se_tasks := [kt_id (race_claimed ?a) \<mapsto> race_claimed ?a]\<rparr>"
    using reach_complete_begin [OF k1(1) s1 t1, of ?p] v1 k1(2) by auto
  obtain k2 where k2: "?R k2" "kx_conts k2 = Complete_cont 2 (uuid_str 21) ?p pd # []"
    "kw_db (kx_world k2) = race_state 2 [race_claimed ?a, race_claimed ?b, ?c, ?d]"
    using race_claim [OF pd(1), of 1 "[race_claimed ?a, ?b, ?c, ?d]" "uuid_str 22" ?b] k1(3)
    by auto
  have "\<exists>k3. ?R k3 \<and> kx_conts k3 = [] \<and> kw_db (kx_world k3) =
      slot_move race_time 11 (complete_row (pd_at pd) race_time) (race_station\<lparr>st_busy_slots := 1\<rparr>) 0
        (kw_db (kx_world k2))"
    using reach_complete_commit_held [OF k2(1,2) pd(2), of "race_claimed ?a" race_env] v1
    by (simp add: k2 race_simps)
  then obtain k3 where k3: "?R k3" "kx_conts k3 = []"
    "kw_db (kx_world k3) = race_state 0 [complete_row (pd_at pd) race_time (race_claimed ?a), race_claimed ?b, ?c, ?d]"
    using k2 by (auto simp: race_state_def slot_move_def flush_busy_slots_def upd_station_def upd_kds_task_def race_station_def race_db_def)
  obtain k4 where k4: "?R k4" "kx_conts k4 = []"
    "kw_db (kx_world k4) = race_state 1 [complete_row (pd_at pd) race_time (race_claimed ?a), race_claimed ?b, race_claimed ?c, ?d]"
    using race_claim [OF k3(1,3), of "uuid_str 23" ?c] k3(2)
    by auto
  obtain k5 where k5: "?R k5" "kx_conts k5 = []"
    "kw_db (kx_world k5) = race_state 2 [complete_row (pd_at pd) race_time (race_claimed ?a), race_claimed ?b, race_claimed ?c, race_claimed ?d]"
    using race_claim [OF k4(1,3), of "uuid_str 24" ?d] k4(2)
    by auto
  have "claimed_count (kw_db (kx_world k5)) 2 = 3"
    by (simp add: k5 claimed_count_def claimed_at_station_def race_simps)
  moreover have "stations (kw_db (kx_world k5)) = [race_station\<lparr>st_busy_slots := 2\<rparr>]"
    by (simp add: k5 race_state_def)
  ultimately show ?thesis using k5 by (intro exI [of _ k5]) (simp add: race_station_def)
qed

end
