(* ===== verification/Kitchen_Properties.thy ===== *)
theory Kitchen_Properties
  imports Kitchen_Facts Kitchen_Overcommit
begin

text \<open>
  Kitchen service: the properties of delivery, claim and completion, each with a witness on
  the demo station of two slots where it has hypotheses.
\<close>

section \<open>The demo station at work\<close>

definition demo_cfg :: ksettings where
  "demo_cfg = \<lparr>ks_service_name = ''kitchen-service'', ks_mongo_enabled = True\<rparr>"

definition demo_world :: kworld where
  "demo_world = \<lparr>kw_db = race_db, kw_mongo = \<lparr>m_docs = [], m_script = []\<rparr>, kw_metrics = empty_metrics\<rparr>"

definition demo_claim :: claim_request where
  "demo_claim = \<lparr>cr_worker = ''w'', cr_claimed_at = None\<rparr>"

definition demo_complete :: complete_request where
  "demo_complete = \<lparr>co_worker = ''w'', co_completed_at = None\<rparr>"

definition demo_remote :: "nat \<Rightarrow> transition_call list remote" where
  "demo_remote code c calls = (Http_response code (), calls @ [c])"

definition demo_task :: kds_task where
  "demo_task = race_task 11 (uuid_str 21)"

lemma demo_world_inv: "db_inv (kw_db demo_world)"
  by (simp add: demo_world_def race_db_inv)

lemma demo_rows:
  "get_station_row (kw_db demo_world) 2 = Some race_station"
  "get_by_task_id (kw_db demo_world) (uuid_str 21) = Some demo_task"
  "validate_claim race_station demo_task = None"
  "pg_text 120 (cr_worker demo_claim)"
  by (simp_all add: demo_world_def demo_task_def demo_claim_def race_simps)

lemma demo_claim_begin:
  "\<exists>pd w1. claim_begin populate demo_cfg race_env None 2 (uuid_str 21) demo_claim demo_world = (Inr pd, w1)"
  using claim_begin_run [OF demo_rows, of populate demo_cfg race_env None] by blast

section \<open>Slots\<close>





text \<open>
  A claimed task is not claimed a second time: whoever asks, at whichever station, gets an
  error and the database stays as the first claim left it.
\<close>

theorem second_claim_refused:
  assumes ok: "kdb_ok (kw_db w)"
    and run: "claim_begin populate cfg env corr sid tid p w = (Inr pd, w1)"
  shows "\<exists>e w2. claim_begin populate cfg' env' corr' sid' tid p' w1 = (Inl e, w2) \<and> kw_db w2 = kw_db w1
    \<and> e = (if sid' = sid then kds_error ''task_already_claimed'' ''Task is already claimed''
           else if get_station_row (kw_db w1) sid' = None then station_not_found
           else kds_error ''kds_task_station_mismatch'' ''KDS task belongs to another station'')"
proof -
  let ?db = "kw_db w1"
  obtain s t where s: "get_station_row (kw_db w) sid = Some s"
    and t: "get_by_task_id (kw_db w) tid = Some t" and valid: "validate_claim s t = None"
    and db: "kw_db w1 = slot_move (ke_db_now env) (kt_id t) (claim_row (cr_worker p) (pd_at pd) (ke_db_now env)) s
       (st_busy_slots s + 1) (kw_db w)"
    by (rule claim_begin_ok [OF ok run])
  note v = validate_claim_NoneD [OF valid]
  have sid: "st_id s = sid" using s by (rule station_tab.get_key)
  have t1: "get_by_task_id ?db tid = Some (claim_row (cr_worker p) (pd_at pd) (ke_db_now env) t)" (is "_ = Some ?t1")
    using ok t by (simp add: db get_by_task_id_slot_move)
  show ?thesis
  proof (cases "get_station_row ?db sid'")
    case None
    then have "sid' \<noteq> sid" using s by (auto simp: db get_station_slot_move)
    with None show ?thesis by (simp add: claim_begin_def get_station_none Let_def)
  next
    case (Some s')
    have id: "st_id s' = sid'" using Some by (rule station_tab.get_key)
    have stat: "st_status s' = St_available" if "sid' = sid"
      using Some that v(2) by (auto simp: db get_station_slot_move [OF s])
    have "validate_claim s' ?t1 = Some (if sid' = sid then (''task_already_claimed'', ''Task is already claimed'')
        else (''kds_task_station_mismatch'', ''KDS task belongs to another station''))"
      using v(1) sid id stat by (auto simp: validate_claim_def claim_row_def)
    with Some show ?thesis
      by (simp add: claim_begin_def first_station_load [OF Some] first_task_load [OF t1] Let_def)
  qed
qed

theorem second_claim_refused_witness:
  "\<exists>w1 w2. claim_begin False demo_cfg race_env None 2 (uuid_str 21) (demo_claim\<lparr>cr_worker := ''v''\<rparr>) w1
     = (Inl (kds_error ''task_already_claimed'' ''Task is already claimed''), w2) \<and> kw_db w2 = kw_db w1"
proof -
  obtain pd w1 where run: "claim_begin False demo_cfg race_env None 2 (uuid_str 21) demo_claim demo_world = (Inr pd, w1)"
    using demo_claim_begin by blast
  have "kdb_ok (kw_db demo_world)" using demo_world_inv by (simp add: db_inv_def)
  from second_claim_refused [OF this run, of demo_cfg race_env None 2 "demo_claim\<lparr>cr_worker := ''v''\<rparr>"]
  show ?thesis by auto
qed

section \<open>Callbacks\<close>

text \<open>
  C24. A claim whose callback fails is rolled back: the request answers with the callback's
  error (503 when the fulfillment service is unavailable, otherwise 409), and the database is
  the one before the claim up to its update stamps.
\<close>

theorem failed_claim_restores:
  assumes inv: "db_inv (kw_db w)"
    and run: "claim_begin populate cfg env corr sid tid p w = (Inr pd, w1)"
    and call: "remote (start_call (cr_worker p) pd) f = (r, f1)"
    and fail: "post_transition Start_op r = Inl (FulfillmentClientError code)"
  shows "\<exists>w2. claim_task populate remote cfg env corr sid tid p w f = (Inl (callback_error Start_op code), w2, f1)
    \<and> unstamp z (kw_db w2) = unstamp z (kw_db w)"
proof -
  have ok: "kdb_ok (kw_db w)" using inv by (simp add: db_inv_def)
  obtain s t where s: "get_station_row (kw_db w) sid = Some s"
    and t: "get_by_task_id (kw_db w) tid = Some t" and valid: "validate_claim s t = None"
    and db: "kw_db w1 = slot_move (ke_db_now env) (kt_id t) (claim_row (cr_worker p) (pd_at pd) (ke_db_now env)) s
       (st_busy_slots s + 1) (kw_db w)"
    and task: "get_kds_row (kw_db w1) (kt_id t) = Some (pd_task pd)"
    by (rule claim_begin_ok [OF ok run])
  have ok1: "kdb_ok (kw_db w1)" using claim_begin_db_inv [OF inv run] by (simp add: db_inv_def)
  have "pd_task pd = claim_row (cr_worker p) (pd_at pd) (ke_db_now env) t"
    using task get_by_task_id_row [OF ok t] by (simp add: db get_kds_row_slot_move)
  then have tid: "kt_task_id (pd_task pd) = tid"
    using get_by_task_id_SomeD [OF t] by (simp add: claim_row_def)
  have coh: "coherent populate (pd_session pd) (kw_db w1)"
    using claim_begin_fresh [OF inv run] by (simp add: coherent_def)
  obtain e w2 where cf: "claim_failure populate cfg env corr p code pd w1 = (e, w2)" by fastforce
  have "e = callback_error Start_op code" using cf by (auto simp: claim_failure_def Let_def)
  moreover have "kw_db w2 = undo_claim (ke_db_now env) tid (cr_worker p) (kw_db w1)"
    using claim_failure_db [OF ok1 coh, of cfg env corr p code] by (simp add: cf tid)
  ultimately show ?thesis
    using undo_claim_restores [OF inv s t valid] by (simp add: claim_task_def run call fail cf db)
qed

theorem failed_claim_restores_witness:
  "\<exists>w2 calls. claim_task False (demo_remote 409) demo_cfg race_env None 2 (uuid_str 21) demo_claim demo_world []
     = (Inl (callback_error Start_op ''fulfillment_start_rejected''), w2, calls)
     \<and> unstamp race_time (kw_db w2) = unstamp race_time race_db"
proof -
  obtain pd w1 where run: "claim_begin False demo_cfg race_env None 2 (uuid_str 21) demo_claim demo_world = (Inr pd, w1)"
    using demo_claim_begin by blast
  have "post_transition Start_op (Http_response 409 ()) = Inl (FulfillmentClientError ''fulfillment_start_rejected'')"
    by (simp add: post_transition_def rejected_code_def)
  from failed_claim_restores [OF demo_world_inv run _ this,
      where remote = "demo_remote 409" and f = "[]" and z = race_time]
  show ?thesis by (auto simp: demo_remote_def demo_world_def)
qed

text \<open>
  Requests that do not overlap do not see the difference the row locks make: with nothing
  between its transactions, a claim or a completion gives the same result, world and calls
  whether or not locked instances are read again.
\<close>

theorem sequential_requests_never_stale:
  assumes "db_inv (kw_db w)"
  shows "claim_task False remote cfg env corr sid tid p w f = claim_task True remote cfg env corr sid tid p w f
    \<and> complete_task False remote cfg env corr sid tid q w f = complete_task True remote cfg env corr sid tid q w f"
  by (simp add: claim_task_populate [OF assms, of False] complete_task_populate [OF assms, of False])

theorem sequential_requests_never_stale_witness:
  "claim_task False (demo_remote 200) demo_cfg race_env None 2 (uuid_str 21) demo_claim demo_world []
     = claim_task True (demo_remote 200) demo_cfg race_env None 2 (uuid_str 21) demo_claim demo_world []"
  by (rule sequential_requests_never_stale [OF demo_world_inv, THEN conjunct1])

text \<open>
  C25. A completion that succeeds was accepted by the fulfillment service first: the service
  answered 2xx to the one call about this task, station and worker. The task was claimed by
  this worker at this station, its row becomes completed, and one slot is released.
\<close>

theorem completion_accepted_and_released:
  assumes inv: "db_inv (kw_db w)"
    and run: "complete_task populate remote cfg env corr sid tid p w f = (Inr t', w', f')"
  shows "\<exists>s t c b at0. get_station_row (kw_db w) sid = Some s \<and> get_by_task_id (kw_db w) tid = Some t
    \<and> kt_station_id t = sid \<and> kt_status t = Kds_claimed \<and> kt_claimed_by t = Some (co_worker p)
    \<and> remote \<lparr>tc_op = Complete_op, tc_task_id = tid, tc_station_id = uuid_str sid,
         tc_kds_task_id = uuid_str (kt_id t), tc_worker = co_worker p, tc_at = at0\<rparr> f = (Http_response c b, f')
    \<and> 200 \<le> c \<and> c < 300
    \<and> t' = complete_row at0 (ke_db_now env) t \<and> get_by_task_id (kw_db w') tid = Some t'
    \<and> map_option st_busy_slots (get_station_row (kw_db w') sid) = Some (st_busy_slots s - 1)"
proof -
  have ok: "kdb_ok (kw_db w)" and busy: "busy_ok (kw_db w)" using inv by (simp_all add: db_inv_def)
  obtain pd where pd: "complete_begin populate env sid tid p w = Inr pd"
    using run by (auto simp: complete_task_def split: sum.splits)
  note b = complete_begin_ok [OF pd]
  let ?s = "pd_station pd" and ?t = "pd_task pd"
  note v = validate_complete_NoneD [OF b(3)]
  have sid: "st_id ?s = sid" using b(1) by (rule station_tab.get_key)
  have tid: "kt_task_id ?t = tid" using get_by_task_id_SomeD [OF b(2)] by blast
  obtain r where r: "remote (complete_call (co_worker p) pd) f = (r, f')"
    and acc: "post_transition Complete_op r = Inr ()"
    and commit: "complete_commit populate cfg env corr sid tid p pd w = (Inr t', w')"
    using run pd by (auto simp: complete_task_def split: sum.splits prod.splits client_error.splits)
  obtain c u where c: "r = Http_response c u" "200 \<le> c" "c < 300"
    using acc by (auto simp: post_transition_ok_iff)
  have coh: "coherent populate (pd_session pd) (kw_db w)"
    using complete_begin_fresh [OF ok pd] by (simp add: coherent_def)
  have t': "t' = complete_row (pd_at pd) (ke_db_now env) ?t"
    and db: "kw_db w' = slot_move (ke_db_now env) (kt_id ?t) (complete_row (pd_at pd) (ke_db_now env)) ?s
       (max 0 (st_busy_slots ?s - 1)) (kw_db w)"
    using complete_commit_ok [OF ok coh commit] b(1,2) by auto
  have "1 \<le> st_busy_slots ?s"
    using busy_okD [OF busy b(1)] claimed_count_pos [of ?t "kw_db w"] get_by_task_id_SomeD [OF b(2)] v sid
    by simp
  then have "map_option st_busy_slots (get_station_row (kw_db w') sid) = Some (st_busy_slots ?s - 1)"
    by (simp add: db get_station_slot_move [OF b(1)])
  moreover have "get_by_task_id (kw_db w') tid = Some t'"
    using ok b(2) by (simp add: db t' get_by_task_id_slot_move)
  ultimately show ?thesis
    using b v sid tid r c t' by (auto simp: complete_call_def)
qed

lemma demo_worker [simp]: "cr_worker demo_claim = ''w''" "co_worker demo_complete = ''w''"
  by (simp_all add: demo_claim_def demo_complete_def)

lemma demo_claimed:
  "\<exists>t' w' calls. claim_task False (demo_remote 200) demo_cfg race_env None 2 (uuid_str 21) demo_claim demo_world []
     = (Inr t', w', calls) \<and> get_station_row (kw_db w') 2 = Some (race_station\<lparr>st_busy_slots := 1\<rparr>)
     \<and> get_by_task_id (kw_db w') (uuid_str 21) = Some (race_claimed demo_task) \<and> db_inv (kw_db w')"
proof -
  obtain pd w1 where run: "claim_begin False demo_cfg race_env None 2 (uuid_str 21) demo_claim demo_world = (Inr pd, w1)"
    and db: "kw_db w1 = slot_move race_time 11 (claim_row ''w'' race_time race_time) race_station 1 race_db"
    using claim_begin_run [OF demo_rows, of False demo_cfg race_env None]
    by (auto simp: race_env_def demo_claim_def demo_task_def demo_world_def race_station_def)
  obtain t' w' where succ: "claim_success demo_cfg race_env None 2 demo_claim pd w1 = (t', w')" by fastforce
  have "claim_task False (demo_remote 200) demo_cfg race_env None 2 (uuid_str 21) demo_claim demo_world []
      = (Inr t', w', [start_call ''w'' pd])"
    by (simp add: claim_task_def run demo_remote_def post_transition_def raises_for_status_def succ demo_worker)
  moreover have "kw_db w' = kw_db w1"
    using claim_success_db [of demo_cfg race_env None 2 demo_claim pd w1] by (simp add: succ)
  moreover have "db_inv (kw_db w1)" using claim_begin_db_inv [OF demo_world_inv run] .
  moreover have "get_station_row (kw_db w1) 2 = Some (race_station\<lparr>st_busy_slots := 1\<rparr>)"
    "get_by_task_id (kw_db w1) (uuid_str 21) = Some (race_claimed demo_task)"
    by (simp_all add: db race_simps demo_task_def)
  ultimately show ?thesis by auto
qed

theorem completion_accepted_and_released_witness:
  "\<exists>w w' t' calls. complete_task False (demo_remote 200) demo_cfg race_env None 2 (uuid_str 21) demo_complete w []
     = (Inr t', w', calls) \<and> get_by_task_id (kw_db w') (uuid_str 21) = Some t'
     \<and> map_option st_busy_slots (get_station_row (kw_db w') 2) = Some 0"
proof -
  obtain w :: kworld where s: "get_station_row (kw_db w) 2 = Some (race_station\<lparr>st_busy_slots := 1\<rparr>)"
    and t: "get_by_task_id (kw_db w) (uuid_str 21) = Some (race_claimed demo_task)" and inv: "db_inv (kw_db w)"
    using demo_claimed by blast
  have valid: "validate_complete (race_station\<lparr>st_busy_slots := 1\<rparr>) (race_claimed demo_task) (co_worker demo_complete) = None"
    by (simp add: race_simps demo_task_def)
  then obtain pd where pd: "complete_begin False race_env 2 (uuid_str 21) demo_complete w = Inr pd"
    and ses: "pd_session pd = new_ksession\<lparr>se_stations := [2 \<mapsto> race_station\<lparr>st_busy_slots := 1\<rparr>],
      se_tasks := [kt_id (race_claimed demo_task) \<mapsto> race_claimed demo_task]\<rparr>"
    using complete_begin_run [OF s t] by blast
  obtain t' w' where commit: "complete_commit False demo_cfg race_env None 2 (uuid_str 21) demo_complete pd w = (Inr t', w')"
    using complete_commit_held_run [OF ses _ t _ valid, of demo_cfg race_env None] s by auto
  have run: "complete_task False (demo_remote 200) demo_cfg race_env None 2 (uuid_str 21) demo_complete w []
     = (Inr t', w', [complete_call ''w'' pd])"
    by (simp add: complete_task_def pd demo_remote_def post_transition_def raises_for_status_def commit)
  from completion_accepted_and_released [OF inv run] s run show ?thesis by auto
qed

end
