(* ===== verification/Kitchen_Delivery.thy ===== *)
theory Kitchen_Delivery
  imports Kitchen_Properties
begin

text \<open>
  Kitchen service: the properties of delivery, dispatch candidates, listings, replies and
  events, and the finality of a completed task.
\<close>

section \<open>Delivery\<close>

lemma deliver_created:
  assumes "deliver_task cfg env corr sid p w = (Inr (t, True), w1)"
  obtains s where "get_by_idempotency_key (kw_db w) (dr_idempotency_key p) = None"
    "get_station_row (kw_db w) sid = Some s" "validate_delivery_station s p = None"
    "visible_backlog_size (kw_db w) sid < st_backlog_limit s"
    "create_kds_row env sid p (kw_db w) = Inr (t, kw_db w1)"
  using assms
  by (auto simp: deliver_task_def deliver_lookup_def deliver_insert_def
      split: option.splits if_splits sum.splits db_error.splits prod.splits)

text \<open>
  C27. Delivery is idempotent: once a delivery with some idempotency key has been answered,
  every later delivery with this key, at any station and with any other content, answers with
  the same task, says that nothing was created, and changes nothing.
\<close>

theorem delivery_idempotent:
  assumes first: "deliver_task cfg env corr sid p w = (Inr (t, created), w1)"
    and key: "dr_idempotency_key q = dr_idempotency_key p"
  shows "deliver_task cfg' env' corr' sid' q w1 = (Inr (t, False), w1)"
proof -
  have "get_by_idempotency_key (kw_db w1) (dr_idempotency_key p) = Some t"
  proof (cases created)
    case True
    then obtain s where none: "get_by_idempotency_key (kw_db w) (dr_idempotency_key p) = None"
      and row: "create_kds_row env sid p (kw_db w) = Inr (t, kw_db w1)"
      using first by (auto elim: deliver_created)
    show ?thesis
      using none create_kds_row_Inr(5,11) [OF row] by (simp add: get_by_idempotency_key_def row_simps)
  next
    case False
    then show ?thesis
      using first
      by (auto simp: deliver_task_def deliver_lookup_def deliver_insert_def
          split: option.splits if_splits sum.splits db_error.splits prod.splits)
  qed
  then show ?thesis by (simp add: deliver_task_def deliver_lookup_def key)
qed

definition demo_delivery :: delivery_request where
  "demo_delivery = \<lparr>dr_task_id = 31, dr_order_id = 3, dr_kitchen_id = 1, dr_station_type = Grill,
     dr_operation = ''cook'', dr_menu_item_name = None, dr_duration = 60,
     dr_pickup_deadline = None, dr_idempotency_key = ''key''\<rparr>"

lemma race_keys [simp]: "kt_idempotency_key (race_task i x) = x"
  by (simp add: race_task_def)

lemma demo_key_fresh [simp]: "uuid_str u \<noteq> ''key''"
proof
  assume "uuid_str u = ''key''"
  then have "length (uuid_str u) = length ''key''" by (rule arg_cong)
  then show False by simp
qed

lemmas demo_key_fresh' [simp] = demo_key_fresh [symmetric]

lemma demo_delivered:
  "\<exists>t w1. deliver_task demo_cfg race_env None 2 demo_delivery demo_world = (Inr (t, True), w1)"
  by (simp add: deliver_task_def deliver_lookup_def deliver_insert_def get_by_idempotency_key_def
      demo_world_def race_db_def get_station_row_def race_station_def validate_delivery_station_def
      demo_delivery_def visible_backlog_size_def displayed_at_station_def create_kds_row_def
      insert_kds_task_def kds_task_fits_def race_env_def pg_int4_def pg_text_def Let_def)

theorem delivery_idempotent_witness:
  "\<exists>t w1. deliver_task demo_cfg race_env None 2 demo_delivery demo_world = (Inr (t, True), w1)
     \<and> deliver_task demo_cfg race_env None 5 (demo_delivery\<lparr>dr_duration := 7\<rparr>) w1 = (Inr (t, False), w1)"
  using demo_delivered delivery_idempotent [of demo_cfg race_env None 2 demo_delivery demo_world _ True]
  by (metis delivery_request.select_convs(9) delivery_request.surjective delivery_request.update_convs(7))

text \<open>
  C28. A delivery that creates a task went to an available station of the requested kitchen and
  type, raises its visible backlog by exactly one and keeps it within the station's limit.
\<close>

theorem delivery_within_backlog:
  assumes run: "deliver_task cfg env corr sid p w = (Inr (t, True), w1)"
  shows "\<exists>s. get_station_row (kw_db w) sid = Some s \<and> st_status s = St_available
    \<and> st_kitchen_id s = dr_kitchen_id p \<and> st_type s = dr_station_type p
    \<and> kt_status t = Kds_displayed \<and> kds_tasks (kw_db w1) = kds_tasks (kw_db w) @ [t]
    \<and> visible_backlog_size (kw_db w1) sid = visible_backlog_size (kw_db w) sid + 1
    \<and> visible_backlog_size (kw_db w1) sid \<le> st_backlog_limit s"
proof -
  obtain s where s: "get_station_row (kw_db w) sid = Some s" "validate_delivery_station s p = None"
    "visible_backlog_size (kw_db w) sid < st_backlog_limit s"
    and row: "create_kds_row env sid p (kw_db w) = Inr (t, kw_db w1)"
    by (rule deliver_created [OF run])
  note r = create_kds_row_Inr [OF row]
  have "visible_backlog_size (kw_db w1) sid = visible_backlog_size (kw_db w) sid + 1"
    using r(2,3,11) by (simp add: visible_backlog_size_def displayed_at_station_def)
  moreover have "kds_tasks (kw_db w1) = kds_tasks (kw_db w) @ [t]" by (subst r(11)) simp
  ultimately show ?thesis
    using s r(2) by (auto simp: validate_delivery_station_def split: if_splits)
qed

theorem delivery_within_backlog_witness:
  "\<exists>t (w1 :: kworld). kds_tasks (kw_db w1) = kds_tasks (kw_db demo_world) @ [t]
     \<and> visible_backlog_size (kw_db w1) 2 \<le> 10"
proof -
  obtain t w1 where "deliver_task demo_cfg race_env None 2 demo_delivery demo_world = (Inr (t, True), w1)"
    using demo_delivered by blast
  from delivery_within_backlog [OF this] show ?thesis
    by (auto simp: demo_rows race_station_def)
qed

section \<open>Dispatch candidates\<close>

lemma dispatch_candidate_iff:
  "c \<in> set (dispatch_candidates kid ty w) \<longleftrightarrow>
     (\<exists>s \<in> set (stations (kw_db w)). st_kitchen_id s = kid \<and> st_type s = ty \<and> st_status s = St_available
        \<and> visible_backlog_size (kw_db w) (st_id s) < st_backlog_limit s
        \<and> c = \<lparr>dc_station_id = st_id s, dc_station_type = ty, dc_status = St_available,
               dc_capacity = st_capacity s, dc_busy_slots = st_busy_slots s,
               dc_backlog_size = visible_backlog_size (kw_db w) (st_id s),
               dc_backlog_limit = st_backlog_limit s, dc_health = ''ok''\<rparr>)"
  by (auto simp: dispatch_candidates_def dispatch_candidates_rows_def backlog_subquery_size)

text \<open>
  A dispatch candidate is a station that accepts the task: a delivery of a fresh, well
  formed task to any listed candidate of its kitchen and station type creates the task.
\<close>

theorem candidate_accepts_delivery:
  assumes ok: "kdb_ok (kw_db w)"
    and cand: "c \<in> set (dispatch_candidates (dr_kitchen_id p) (dr_station_type p) w)"
    and valid: "valid_delivery p" and int4: "pg_int4 (dr_duration p)"
    and text_ok: "CHR 0x00 \<notin> set (dr_operation p @ dr_idempotency_key p)"
      "\<forall>m. dr_menu_item_name p = Some m \<longrightarrow> CHR 0x00 \<notin> set m"
    and fresh: "ke_uuid env \<notin> kt_id ` set (kds_tasks (kw_db w))"
      "uuid_str (dr_task_id p) \<notin> kt_task_id ` set (kds_tasks (kw_db w))"
      "dr_idempotency_key p \<notin> kt_idempotency_key ` set (kds_tasks (kw_db w))"
  shows "\<exists>t w1. deliver_task cfg env corr (dc_station_id c) p w = (Inr (t, True), w1)"
proof -
  obtain s where s: "s \<in> set (stations (kw_db w))" "st_kitchen_id s = dr_kitchen_id p"
    "st_type s = dr_station_type p" "st_status s = St_available"
    "visible_backlog_size (kw_db w) (st_id s) < st_backlog_limit s" "dc_station_id c = st_id s"
    using cand unfolding dispatch_candidate_iff by auto
  have row: "get_station_row (kw_db w) (dc_station_id c) = Some s"
    using station_tab.member_get [OF kdb_okD(1) [OF ok] s(1)] s(6) by simp
  have none: "get_by_idempotency_key (kw_db w) (dr_idempotency_key p) = None"
    using fresh(3) unfolding get_by_idempotency_key_def find_row_None_iff by (metis imageI)
  have "validate_delivery_station s p = None" using s by (simp add: validate_delivery_station_def)
  moreover have "\<exists>t db. create_kds_row env (dc_station_id c) p (kw_db w) = Inr (t, db)"
    using valid int4 text_ok fresh s
    by (auto simp: create_kds_row_def insert_kds_task_def Let_def kds_task_fits_def valid_delivery_def
        pg_text_def len_between_def opt_ok_def image_iff split: option.splits)
  ultimately show ?thesis
    using row none s(5,6) by (auto simp: deliver_task_def deliver_lookup_def deliver_insert_def)
qed

theorem candidate_accepts_delivery_witness:
  "\<exists>c t w1. c \<in> set (dispatch_candidates 1 Grill demo_world)
     \<and> deliver_task demo_cfg race_env None (dc_station_id c) demo_delivery demo_world = (Inr (t, True), w1)"
proof -
  have "\<exists>c. c \<in> set (dispatch_candidates 1 Grill demo_world)"
    by (auto simp: dispatch_candidate_iff demo_world_def race_db_def race_station_def
        visible_backlog_size_def displayed_at_station_def)
  then obtain c where c: "c \<in> set (dispatch_candidates (dr_kitchen_id demo_delivery) (dr_station_type demo_delivery) demo_world)"
    by (auto simp: demo_delivery_def)
  have "\<exists>t w1. deliver_task demo_cfg race_env None (dc_station_id c) demo_delivery demo_world = (Inr (t, True), w1)"
    using demo_world_inv
    by (intro candidate_accepts_delivery [OF _ c])
      (auto simp: db_inv_def demo_delivery_def valid_delivery_def len_between_def pg_int4_def
        demo_world_def race_db_def race_env_def)
  with c show ?thesis by (auto simp: demo_delivery_def)
qed

section \<open>A completed task is final\<close>

text \<open>
  The row of a completed task, as an observation of the concurrent system that no step
  changes.
\<close>

definition done_row :: "kds_task \<Rightarrow> kconc \<Rightarrow> bool" where
  "done_row t k = (t \<in> set (kds_tasks (kw_db (kx_world k))) \<and> kt_status t = Kds_completed)"

lemma slot_move_keeps_done:
  assumes "kdb_ok db" and "get_kds_row db i = Some t" and "kt_status t \<noteq> Kds_completed"
    and "d \<in> set (kds_tasks db)" and "kt_status d = Kds_completed"
  shows "d \<in> set (kds_tasks (slot_move now i f s v db))"
proof -
  have "kt_id d \<noteq> i"
    using assms kds_tab.member_get [OF kdb_okD(2) [OF assms(1)] assms(4)] by auto
  then show ?thesis using assms(4) by (auto simp: update_row_def image_iff)
qed

lemma undo_claim_keeps_done:
  assumes "kdb_ok db" and "d \<in> set (kds_tasks db)" and "kt_status d = Kds_completed"
  shows "d \<in> set (kds_tasks (undo_claim now tid wk db))"
proof -
  have "d \<in> set (kds_tasks (slot_move now (kt_id t) (release_row now) s v db))"
    if "get_by_task_id db tid = Some t" "kt_status t = Kds_claimed" for t s v
    using that get_by_task_id_row [OF assms(1)] by (intro slot_move_keeps_done [OF assms(1) _ _ assms(2,3)]) auto
  then show ?thesis using assms(2) by (auto simp: undo_claim_def split: option.splits)
qed

lemma kitchen_ops_tasks:
  "create_kitchen env c w = (r1, w1) \<Longrightarrow> kds_tasks (kw_db w1) = kds_tasks (kw_db w)"
  "create_station cfg env kid p w = (r2, w1) \<Longrightarrow> kds_tasks (kw_db w1) = kds_tasks (kw_db w)"
  "update_station_capacity cfg env sid cap w = (r3, w1) \<Longrightarrow> kds_tasks (kw_db w1) = kds_tasks (kw_db w)"
  "update_station_status cfg env sid stat w = (r4, w1) \<Longrightarrow> kds_tasks (kw_db w1) = kds_tasks (kw_db w)"
  by (auto simp: create_kitchen_def create_kitchen_row_def insert_kitchen_def create_station_def
      create_station_row_def insert_station_def update_station_capacity_def update_station_status_def Let_def
      split: sum.splits db_error.splits if_splits)

lemma deliver_insert_tasks:
  assumes "deliver_insert cfg env corr sid p w = (r, w1)"
  shows "set (kds_tasks (kw_db w)) \<subseteq> set (kds_tasks (kw_db w1))"
proof -
  have "set (kds_tasks (kw_db w)) \<subseteq> set (kds_tasks db)"
    if "create_kds_row env sid p (kw_db w) = Inr (t, db)" for t db
    by (subst create_kds_row_Inr(11) [OF that]) auto
  then show ?thesis
    using assms
    by (auto simp: deliver_insert_def split: option.splits if_splits sum.splits db_error.splits)
qed

lemma claim_begin_keeps_done:
  assumes inv: "db_inv (kw_db w)" and run: "claim_begin populate cfg env corr sid tid p w = (r, w1)"
    and d: "d \<in> set (kds_tasks (kw_db w))" "kt_status d = Kds_completed"
  shows "d \<in> set (kds_tasks (kw_db w1))"
proof (cases r)
  case (Inl e)
  then show ?thesis using run d claim_begin_error_db by metis
next
  case (Inr pd)
  have ok: "kdb_ok (kw_db w)" using inv by (simp add: db_inv_def)
  show ?thesis
    by (rule claim_begin_ok [OF ok run [unfolded Inr]])
      (use slot_move_keeps_done [OF ok _ _ d] get_by_task_id_row [OF ok] in \<open>auto dest: validate_claim_NoneD(3)\<close>)
qed

lemma complete_commit_keeps_done:
  assumes inv: "db_inv (kw_db w)"
    and run: "complete_commit True cfg env corr sid tid p pd w = (r, w1)"
    and d: "d \<in> set (kds_tasks (kw_db w))" "kt_status d = Kds_completed"
  shows "d \<in> set (kds_tasks (kw_db w1))"
proof (cases r)
  case (Inl e)
  then show ?thesis using run d complete_commit_error by metis
next
  case (Inr t')
  have ok: "kdb_ok (kw_db w)" using inv by (simp add: db_inv_def)
  show ?thesis
    by (rule complete_commit_ok [OF ok coherent_True run [unfolded Inr]])
      (use slot_move_keeps_done [OF ok _ _ d] get_by_task_id_row [OF ok] in \<open>auto dest: validate_complete_NoneD(2)\<close>)
qed

lemma kstep_keeps_done: "kstep True cfg k k' \<Longrightarrow> kconc_inv k \<Longrightarrow> done_row d k \<Longrightarrow> done_row d k'"
proof (induction rule: kstep.induct)
  case (k_deliver_insert k xs sid p ys env corr r w)
  then show ?case using deliver_insert_tasks [OF k_deliver_insert(2)] by (auto simp: done_row_def)
next
  case (k_claim_refused env corr sid tid p k e w)
  then show ?case
    using claim_begin_keeps_done [OF _ k_claim_refused(1)] by (simp add: done_row_def kconc_inv_def)
next
  case (k_claim_begin env corr sid tid p k pd w)
  then show ?case
    using claim_begin_keeps_done [OF _ k_claim_begin(1)] by (simp add: done_row_def kconc_inv_def)
next
  case (k_claim_success k xs sid p pd ys env corr t w)
  then show ?case using claim_success_db [of cfg env corr sid p pd "kx_world k"] by (simp add: done_row_def)
next
  case (k_claim_failure k xs sid p pd ys env corr code e w)
  then have "kw_db w = undo_claim (ke_db_now env) (kt_task_id (pd_task pd)) (cr_worker p) (kw_db (kx_world k))"
    using claim_failure_db [of "kx_world k" True pd cfg env corr p code] by (simp add: kconc_inv_def db_inv_def)
  then show ?case
    using k_claim_failure undo_claim_keeps_done by (simp add: done_row_def kconc_inv_def db_inv_def)
next
  case (k_complete_failure k xs sid tid p pd ys env corr code e w)
  then show ?case using complete_failure_db [of cfg env corr code pd "kx_world k"] by (simp add: done_row_def)
next
  case (k_complete_commit k xs sid tid p pd ys env corr r w)
  then show ?case
    using complete_commit_keeps_done [OF _ k_complete_commit(2)] by (simp add: done_row_def kconc_inv_def)
qed (auto simp: done_row_def kitchen_ops_tasks)

interpretation done_final: stable_system kinit "kstep True cfg" kconc_inv "done_row d"
  by unfold_locales (rule kstep_keeps_done)


definition demo_done :: kds_task where
  "demo_done = complete_row race_time race_time (race_claimed demo_task)"

definition demo_done_world :: kworld where
  "demo_done_world = demo_world\<lparr>kw_db := race_db\<lparr>kds_tasks := [demo_done, race_task 12 (uuid_str 22)]\<rparr>\<rparr>"

lemma demo_done_inv: "db_inv (kw_db demo_done_world)"
  by (simp add: db_inv_def kdb_ok_def busy_ok_def demo_done_world_def demo_done_def demo_task_def
      race_db_def race_kitchen_def race_station_def race_task_def kitchen_fits_def station_row_ok_def
      station_fits_def kds_row_ok_def kds_task_fits_def pg_text_def pg_int4_def opt_ok_def
      claimed_count_def claimed_at_station_def complete_row_def race_claimed_def claim_row_def)


section \<open>Replies\<close>

lemma build_all_total: "(\<And>x. x \<in> set xs \<Longrightarrow> build x \<noteq> None) \<Longrightarrow> build_all build xs \<noteq> None"
  by (induction xs) (auto split: option.splits)

lemma build_all_member: "build_all build xs = Some ys \<Longrightarrow> x \<in> set xs \<Longrightarrow> build x = Some y \<Longrightarrow> y \<in> set ys"
  by (induction xs arbitrary: ys) (auto split: option.splits)

lemma list_all_tasks:
  assumes "visible_backlog_size db sid \<le> int limit"
  shows "set (list_station_tasks_rows db sid Kds_displayed limit 0)
    = {t \<in> set (kds_tasks db). displayed_at_station sid t}"
proof -
  let ?xs = "filter (\<lambda>t. kt_station_id t = sid \<and> kt_status t = Kds_displayed) (kds_tasks db)"
  have "length ?xs \<le> limit"
    using assms by (simp add: visible_backlog_size_def count_rows_def displayed_at_station_def [abs_def])
  then show ?thesis by (auto simp: list_station_tasks_rows_def displayed_at_station_def)
qed

lemma list_tasks_member:
  "t \<in> set (list_station_tasks_rows db sid stat limit offset) \<Longrightarrow>
     t \<in> set (kds_tasks db) \<and> kt_station_id t = sid \<and> kt_status t = stat"
  unfolding list_station_tasks_rows_def by (auto dest!: in_set_takeD in_set_dropD)

lemma validate_claim_code: "validate_claim s t = Some (code, msg) \<Longrightarrow> reply_status (k_error_reply (kds_error code msg)) = 409"
  by (simp add: kds_error_def)

lemma claim_begin_status:
  assumes "claim_begin populate cfg env corr sid tid p w = (Inl e, w1)"
  shows "reply_status (k_error_reply e) \<in> {404, 409} \<or> \<not> pg_text 120 (cr_worker p) \<and> e = KDatabaseError DataError"
  using assms
  by (auto simp: claim_begin_def Let_def station_not_found_def kds_task_not_found_def kds_error_def
      split: option.splits prod.splits if_splits)

lemma claim_begin_task:
  assumes inv: "db_inv (kw_db w)"
    and run: "claim_begin populate cfg env corr sid tid p w = (Inr pd, w1)"
  shows "get_kds_row (kw_db w1) (kt_id (pd_task pd)) = Some (pd_task pd)" "kt_status (pd_task pd) = Kds_claimed"
proof -
  have ok: "kdb_ok (kw_db w)" using inv by (simp add: db_inv_def)
  obtain s t where t: "get_by_task_id (kw_db w) tid = Some t"
    and db: "kw_db w1 = slot_move (ke_db_now env) (kt_id t) (claim_row (cr_worker p) (pd_at pd) (ke_db_now env)) s
       (st_busy_slots s + 1) (kw_db w)"
    and task: "get_kds_row (kw_db w1) (kt_id t) = Some (pd_task pd)"
    by (rule claim_begin_ok [OF ok run])
  have "pd_task pd = claim_row (cr_worker p) (pd_at pd) (ke_db_now env) t"
    using task get_by_task_id_row [OF ok t] by (simp add: db get_kds_row_slot_move)
  then show "get_kds_row (kw_db w1) (kt_id (pd_task pd)) = Some (pd_task pd)" "kt_status (pd_task pd) = Kds_claimed"
    using task by (simp_all add: claim_row_def)
qed

lemma claim_success_task: "claim_success cfg env corr sid p pd w = (t, w') \<Longrightarrow> t = pd_task pd"
  by (simp add: claim_success_def Let_def)

lemma claim_failure_error: "claim_failure populate cfg env corr p code pd w = (e, w') \<Longrightarrow> e = callback_error Start_op code"
  by (simp add: claim_failure_def Let_def)

lemma callback_error_status:
  "reply_status (k_error_reply (callback_error op code)) = (if code = fulfillment_unavailable then 503 else 409)"
  by (simp add: callback_error_def)

lemma post_transition_escapes: "post_transition op r = Inl Httpx_escapes \<longleftrightarrow> r = Http_other_error"
  by (cases r) (auto simp: post_transition_def)

lemma begun_claim_outcome:
  assumes inv: "db_inv (kw_db w)" and begun: "claim_begin populate cfg env corr i tid p w = (Inr pd, w1)"
    and run: "claim_task populate remote cfg env corr i tid p w f = (r, w', f')"
  shows "(r = Inr (pd_task pd) \<and> kds_task_claim_response (pd_task pd) \<noteq> None) \<or> (\<exists>code. r = Inl (callback_error Start_op code))
    \<or> (r = Inl KHttpxError \<and> (\<exists>c. fst (remote c f) = Http_other_error))"
proof -
  have ok1: "kdb_ok (kw_db w1)" using claim_begin_db_inv [OF inv begun] by (simp add: db_inv_def)
  have "kds_row_ok (pd_task pd)"
    using kdb_okD(6) [OF ok1] kds_tab.get_member claim_begin_task(1) [OF inv begun] by blast
  then have built: "kds_task_claim_response (pd_task pd) \<noteq> None"
    using claim_begin_task(2) [OF inv begun] by (auto simp: kds_row_ok_def kds_task_claim_response_def)
  obtain a f1 where call: "remote (start_call (cr_worker p) pd) f = (a, f1)" by fastforce
  consider (accepted) "r = Inr (pd_task pd)" | (refused) code where "r = Inl (callback_error Start_op code)"
    | (escaped) "r = Inl KHttpxError" "a = Http_other_error"
    using run begun call
    by (auto simp: claim_task_def post_transition_escapes dest!: claim_success_task claim_failure_error
        split: prod.splits sum.splits client_error.splits)
  then show ?thesis
    using built call by cases (auto intro!: exI [of _ "start_call (cr_worker p) pd"])
qed

text \<open>
  A claim request is answered with 200, 404, 409, 422 or 503, except in two cases the
  code does not handle (500): a worker id that PostgreSQL cannot store, and an \<open>httpx\<close> error
  that is neither a timeout nor a transport error.
\<close>

theorem claim_reply_codes:
  assumes inv: "db_inv (kw_db w)"
    and run: "route_claim populate remote cfg env corr sid tid p w f = (reply, w', f')"
  shows "reply_status reply \<in> {200, 404, 409, 422, 503}
    \<or> reply_status reply = 500 \<and> (CHR 0x00 \<in> set (cr_worker p) \<or> (\<exists>c. fst (remote c f) = Http_other_error))"
proof (cases "valid_claim_request p")
  case False
  then show ?thesis using run by (auto simp: route_claim_def)
next
  case valid: True
  show ?thesis
  proof (cases "uuid_parse sid")
    case None
    then show ?thesis
      using run valid by (auto simp: route_claim_def parse_kds_station_uuid_def station_not_found_def)
  next
    case (Some i)
    obtain r where task: "claim_task populate remote cfg env corr i tid p w f = (r, w', f')"
      and reply: "reply = k_reply 200 kds_task_claim_response r"
      using run valid Some by (cases "claim_task populate remote cfg env corr i tid p w f")
        (auto simp: route_claim_def parse_kds_station_uuid_def)
    show ?thesis
    proof (cases "claim_begin populate cfg env corr i tid p w")
      case (Pair b w1)
      show ?thesis
      proof (cases b)
        case (Inl e)
        then have "r = Inl e" using task Pair by (simp add: claim_task_def)
        then show ?thesis
          using claim_begin_status [OF Pair [unfolded Inl]] valid
          by (auto simp: reply k_reply_def valid_claim_request_def len_between_def pg_text_def)
      next
        case (Inr pd)
        from begun_claim_outcome [OF inv Pair [unfolded Inr] task] show ?thesis
          by (auto simp: reply k_reply_def callback_error_status split: if_splits)
      qed
    qed
  qed
qed

theorem claim_reply_codes_witness:
  "\<exists>reply w' f'. route_claim False (demo_remote 503) demo_cfg race_env None (uuid_str 2) (uuid_str 21) demo_claim demo_world []
     = (reply, w', f') \<and> reply_status reply \<in> {200, 404, 409, 422, 503}"
proof -
  obtain reply w' f' where run: "route_claim False (demo_remote 503) demo_cfg race_env None (uuid_str 2) (uuid_str 21)
      demo_claim demo_world [] = (reply, w', f')" by (metis prod_cases3)
  from claim_reply_codes [OF demo_world_inv run] run show ?thesis
    by (simp add: demo_remote_def)
qed

text \<open>
  What a delivery answers and what the station's screen then shows name the task by the
  identifier of the request: the reply of a creating delivery is 201 with its task id, station
  and the status \<open>displayed\<close>, and listing the displayed tasks of that station (from the
  first, with room for all) shows an entry with the same ids and the requested work.
\<close>

theorem delivered_task_is_listed:
  assumes ok: "db_inv (kw_db w)" and valid: "valid_delivery p"
    and run: "deliver_task cfg env corr sid p w = (Inr (t, True), w1)"
    and room: "visible_backlog_size (kw_db w1) sid \<le> int limit" "limit \<le> 500" "1 \<le> limit"
  shows "fst (route_deliver cfg env corr (uuid_str sid) p w)
      = Reply 201 \<lparr>dl_kds_task_id = kt_id t, dl_task_id = dr_task_id p, dl_station_id = sid, dl_status = Kds_displayed\<rparr>
    \<and> (\<exists>rs. route_list_tasks (uuid_str sid) Kds_displayed (int limit) 0 w1 = Reply 200 rs
        \<and> \<lparr>sr_kds_task_id = kt_id t, sr_task_id = dr_task_id p, sr_order_id = dr_order_id p,
            sr_station_id = sid, sr_operation = dr_operation p, sr_menu_item_name = dr_menu_item_name p,
            sr_status = Kds_displayed, sr_duration = dr_duration p,
            sr_pickup_deadline = map_option pg_timestamptz (dr_pickup_deadline p), sr_displayed_at = ke_db_now env\<rparr> \<in> set rs)"
proof -
  obtain s where s: "get_station_row (kw_db w) sid = Some s" and row: "create_kds_row env sid p (kw_db w) = Inr (t, kw_db w1)"
    by (rule deliver_created [OF run])
  note r = create_kds_row_Inr [OF row]
  have t: "t = \<lparr>kt_id = ke_uuid env, kt_task_id = uuid_str (dr_task_id p),
               kt_order_id = uuid_str (dr_order_id p), kt_kitchen_id = dr_kitchen_id p,
               kt_station_id = sid, kt_station_type = dr_station_type p,
               kt_operation = dr_operation p, kt_menu_item_name = dr_menu_item_name p,
               kt_status = Kds_displayed, kt_duration = dr_duration p,
               kt_pickup_deadline = map_option pg_timestamptz (dr_pickup_deadline p), kt_displayed_at = ke_db_now env,
               kt_claimed_by = None, kt_claimed_at = None, kt_completed_at = None,
               kt_idempotency_key = dr_idempotency_key p, kt_created_at = ke_db_now env,
               kt_updated_at = ke_db_now env\<rparr>"
    using row by (auto simp: create_kds_row_def Let_def split: sum.splits)
  have reply: "fst (route_deliver cfg env corr (uuid_str sid) p w)
      = Reply 201 \<lparr>dl_kds_task_id = kt_id t, dl_task_id = dr_task_id p, dl_station_id = sid, dl_status = Kds_displayed\<rparr>"
    by (simp add: route_deliver_def valid parse_kds_station_uuid_def run k_reply_def
        kds_task_delivery_response_def t)
  have inv1: "kdb_ok (kw_db w1)"
    using deliver_task_inv [OF ok, of cfg env corr sid p] by (simp add: run db_inv_def)
  have st: "get_station_row (kw_db w1) sid = Some s"
    using s by (subst r(11)) (simp add: get_station_row_def)
  let ?rows = "list_station_tasks_rows (kw_db w1) sid Kds_displayed limit 0"
  have "t \<in> set ?rows"
    unfolding list_all_tasks [OF room(1)] by (subst r(11)) (simp add: displayed_at_station_def t)
  moreover obtain rs where rs: "build_all kds_station_task_response ?rows = Some rs"
    using build_all_total [of ?rows kds_station_task_response] kdb_okD(6) [OF inv1]
    by (fastforce simp: kds_station_task_response_def kds_row_ok_def dest: list_tasks_member split: option.splits)
  moreover have "route_list_tasks (uuid_str sid) Kds_displayed (int limit) 0 w1 = Reply 200 rs"
    using room st rs
    by (simp add: route_list_tasks_def parse_kds_station_uuid_def list_station_tasks_def k_reply_def)
  ultimately show ?thesis
    using reply build_all_member [OF rs, of t] by (simp add: kds_station_task_response_def t)
qed

theorem delivered_task_is_listed_witness:
  "\<exists>w1 rs. route_list_tasks (uuid_str 2) Kds_displayed 100 0 w1 = Reply 200 rs
     \<and> 31 \<in> sr_task_id ` set rs"
proof -
  obtain t w1 where run: "deliver_task demo_cfg race_env None 2 demo_delivery demo_world = (Inr (t, True), w1)"
    using demo_delivered by blast
  have row: "create_kds_row race_env 2 demo_delivery (kw_db demo_world) = Inr (t, kw_db w1)"
    by (rule deliver_created [OF run])
  have "visible_backlog_size (kw_db w1) 2 \<le> int 100"
    by (subst create_kds_row_Inr(11) [OF row]) (simp add: visible_backlog_size_def demo_world_def race_db_def)
  moreover have "valid_delivery demo_delivery" by (simp add: valid_delivery_def demo_delivery_def len_between_def)
  ultimately show ?thesis
    using delivered_task_is_listed [OF demo_world_inv _ run, of 100]
    by (auto simp: demo_delivery_def image_iff) (metis station_task_response.select_convs(2))
qed

end
