(* ===== verification/Kitchen_Events_Props.thy ===== *)
theory Kitchen_Events_Props
  imports Kitchen_Delivery
begin

text \<open>
  Kitchen service: what the event log shows of a claim, that no failure of Mongo reaches a
  request, and the paging of a station's task list.
\<close>

section \<open>The event log of a claim\<close>

lemma safe_insert_up:
  "mongo_up m \<Longrightarrow> safe_insert cfg now coll d ty tid sid corr m = m\<lparr>m_docs := m_docs m @ [(coll, d)]\<rparr>"
  by (simp add: safe_insert_def insert_one_up)

lemma mongo_up_docs [simp]: "mongo_up (m\<lparr>m_docs := ds\<rparr>) = mongo_up m"
  by (simp add: mongo_up_def)

lemma write_up:
  assumes "mongo_up m" and "ks_mongo_enabled cfg"
  shows "write_kds_event cfg now ty t wk corr pl m
      = m\<lparr>m_docs := m_docs m @ [(''kds_events'', kds_event_doc cfg now ty t wk corr pl)]\<rparr>"
    "write_station_event cfg now ty s corr pl m
      = m\<lparr>m_docs := m_docs m @ [(''station_events'', station_event_doc cfg now ty s corr pl)]\<rparr>"
    "write_kitchen_audit_event cfg now ty t s corr pl m
      = m\<lparr>m_docs := m_docs m @ [(''app_audit_events'', audit_event_doc cfg now ty t s corr pl)]\<rparr>"
  using assms
  by (simp_all add: write_kds_event_def write_station_event_def write_kitchen_audit_event_def safe_insert_up)

text \<open>The kinds of the documents a request adds, with the collection of each.\<close>

definition doc_kinds :: "mongo \<Rightarrow> (string \<times> jval option) list" where
  "doc_kinds m = map (\<lambda>(c, d). (c, event_type_of d)) (m_docs m)"

lemma doc_kinds_append [simp]:
  "doc_kinds (m\<lparr>m_docs := m_docs m @ ds\<rparr>) = doc_kinds m @ map (\<lambda>(c, d). (c, event_type_of d)) ds"
  by (simp add: doc_kinds_def)

lemma event_types [simp]:
  "event_type_of (kds_event_doc cfg now ty t wk corr pl) = Some (JStr ty)"
  "event_type_of (station_event_doc cfg now ty s corr pl) = Some (JStr ty)"
  "event_type_of (audit_event_doc cfg now ty t s corr pl) = Some (JStr ty)"
  by (simp_all add: event_type_of_def kds_event_doc_def station_event_doc_def audit_event_doc_def)

lemma claim_begin_mongo:
  "claim_begin populate cfg env corr sid tid p w = (Inr pd, w1) \<Longrightarrow> kw_mongo w1 = kw_mongo w"
  by (auto simp: claim_begin_def Let_def split: option.splits prod.splits if_splits)

lemma compensate_claim_mongo:
  assumes ok: "kdb_ok (kw_db w)" and coh: "coherent populate se (kw_db w)"
    and t: "get_by_task_id (kw_db w) tid = Some t" "kt_status t = Kds_claimed" "kt_claimed_by t = Some worker"
    and s: "get_station_row (kw_db w) (kt_station_id t) = Some s"
  shows "\<exists>t' s' pl. kw_mongo (compensate_claim populate cfg env corr tid worker reason se w)
    = write_station_event cfg (ke_now env) ''StationBusySlotReleased'' s' corr pl
        (write_kds_event cfg (ke_now env) ''KdsTaskClaimRejected'' t' worker corr [(''reason'', JStr reason)] (kw_mongo w))"
proof -
  let ?db = "kw_db w"
  obtain se1 where se1: "get_task_for_update populate tid ?db se = (Some t, se1)" "coherent populate se1 ?db"
    by (rule get_task_coherent [OF coh ok, of tid]) (auto simp: t)
  obtain se2 where se2: "get_station_for_update populate (kt_station_id t) ?db se1 = (Some s, se2)"
    by (rule get_station_coherent [OF se1(2), of "kt_station_id t"]) (auto simp: s)
  show ?thesis
    using t by (simp add: compensate_claim_def se1 se2 Let_def) blast
qed

lemma claim_begin_rows:
  assumes inv: "db_inv (kw_db w)"
    and run: "claim_begin populate cfg env corr sid tid p w = (Inr pd, w1)"
  shows "get_by_task_id (kw_db w1) (kt_task_id (pd_task pd)) = Some (pd_task pd)"
    "kt_claimed_by (pd_task pd) = Some (cr_worker p)" "kt_station_id (pd_task pd) = sid"
    "get_station_row (kw_db w1) sid = Some (pd_station pd)"
proof -
  have ok: "kdb_ok (kw_db w)" using inv by (simp add: db_inv_def)
  obtain s t where s: "get_station_row (kw_db w) sid = Some s" and t: "get_by_task_id (kw_db w) tid = Some t"
    and valid: "validate_claim s t = None"
    and db: "kw_db w1 = slot_move (ke_db_now env) (kt_id t) (claim_row (cr_worker p) (pd_at pd) (ke_db_now env)) s
       (st_busy_slots s + 1) (kw_db w)"
    and task: "get_kds_row (kw_db w1) (kt_id t) = Some (pd_task pd)"
    and st: "get_station_row (kw_db w1) sid = Some (pd_station pd)"
    by (rule claim_begin_ok [OF ok run])
  have pd: "pd_task pd = claim_row (cr_worker p) (pd_at pd) (ke_db_now env) t"
    using task get_by_task_id_row [OF ok t] by (simp add: db get_kds_row_slot_move)
  have "kt_task_id (pd_task pd) = tid" using get_by_task_id_SomeD [OF t] by (simp add: pd claim_row_def)
  then show "get_by_task_id (kw_db w1) (kt_task_id (pd_task pd)) = Some (pd_task pd)"
    using ok t by (simp add: db get_by_task_id_slot_move pd)
  show "kt_claimed_by (pd_task pd) = Some (cr_worker p)" by (simp add: pd claim_row_def)
  show "kt_station_id (pd_task pd) = sid"
    using validate_claim_NoneD(1) [OF valid] station_tab.get_key [OF s] by (simp add: pd claim_row_def)
  show "get_station_row (kw_db w1) sid = Some (pd_station pd)" by (rule st)
qed

lemma claim_failure_mongo:
  assumes inv: "db_inv (kw_db w)" and begun: "claim_begin populate cfg env corr sid tid p w = (Inr pd, w1)"
    and fail: "claim_failure populate cfg env corr p code pd w1 = (e, w2)"
  shows "\<exists>t s t' s' pl pl'. kw_mongo w2 = write_station_event cfg (ke_now env) ''StationBusySlotReleased'' s' corr pl
        (write_kds_event cfg (ke_now env) ''KdsTaskClaimRejected'' t' (cr_worker p) corr [(''reason'', JStr code)]
          (write_kitchen_audit_event cfg (ke_now env) (callback_audit_type code) t s corr pl' (kw_mongo w)))"
proof -
  note rows = claim_begin_rows [OF inv begun]
  have ok1: "kdb_ok (kw_db w1)" using claim_begin_db_inv [OF inv begun] by (simp add: db_inv_def)
  have coh: "coherent populate (pd_session pd) (kw_db w1)"
    using claim_begin_fresh [OF inv begun] by (simp add: coherent_def)
  let ?wa = "w1\<lparr>kw_mongo := write_kitchen_audit_event cfg (ke_now env) (callback_audit_type code)
                   (pd_task pd) (pd_station pd) corr (callback_audit_payload Start_op code) (kw_mongo w1)\<rparr>"
  have "w2 = compensate_claim populate cfg env corr (kt_task_id (pd_task pd)) (cr_worker p) code (pd_session pd) ?wa"
    using fail by (simp add: claim_failure_def Let_def)
  moreover have "\<exists>t' s' pl. kw_mongo (compensate_claim populate cfg env corr (kt_task_id (pd_task pd)) (cr_worker p) code
        (pd_session pd) ?wa)
    = write_station_event cfg (ke_now env) ''StationBusySlotReleased'' s' corr pl
        (write_kds_event cfg (ke_now env) ''KdsTaskClaimRejected'' t' (cr_worker p) corr [(''reason'', JStr code)] (kw_mongo ?wa))"
    using ok1 coh rows claim_begin_task(2) [OF inv begun]
    by (intro compensate_claim_mongo [where t = "pd_task pd" and s = "pd_station pd"]) simp_all
  ultimately show ?thesis using claim_begin_mongo [OF begun] by fastforce
qed

text \<open>
  With Mongo up, a claim leaves exactly one of two traces: a granted claim adds
  \<open>KdsTaskClaimed\<close> and then \<open>StationBusySlotOccupied\<close>; a claim whose callback fails adds the
  audit event of the failure, then \<open>KdsTaskClaimRejected\<close>, then \<open>StationBusySlotReleased\<close>.
\<close>

theorem claim_event_trace:
  assumes inv: "db_inv (kw_db w)" and up: "mongo_up (kw_mongo w)" "ks_mongo_enabled cfg"
    and begun: "claim_begin populate cfg env corr sid tid p w = (Inr pd, w1)"
    and task: "claim_task populate remote cfg env corr sid tid p w f = (r, w2, f2)" and "r \<noteq> Inl KHttpxError"
  shows "doc_kinds (kw_mongo w2) = doc_kinds (kw_mongo w) @
    (if is_ok r
     then [(''kds_events'', Some (JStr ''KdsTaskClaimed'')),
           (''station_events'', Some (JStr ''StationBusySlotOccupied''))]
     else [(''app_audit_events'', Some (JStr (if r = Inl (callback_error Start_op fulfillment_unavailable)
              then ''ExternalServiceUnavailable'' else ''FulfillmentCallbackFailed''))),
           (''kds_events'', Some (JStr ''KdsTaskClaimRejected'')),
           (''station_events'', Some (JStr ''StationBusySlotReleased''))])"
proof -
  obtain a f1 where call: "remote (start_call (cr_worker p) pd) f = (a, f1)" by fastforce
  obtain ws where ws: "claim_success cfg env corr sid p pd w1 = (pd_task pd, ws)"
    by (simp add: claim_success_def Let_def)
  obtain wf where wf: "\<And>code. claim_failure populate cfg env corr p code pd w1 = (callback_error Start_op code, wf code)"
    by (rule that [of "\<lambda>code. snd (claim_failure populate cfg env corr p code pd w1)"])
      (simp add: claim_failure_def Let_def)
  consider (granted) "claim_success cfg env corr sid p pd w1 = (pd_task pd, w2)" "r = Inr (pd_task pd)"
    | (failed) code where "claim_failure populate cfg env corr p code pd w1 = (callback_error Start_op code, w2)"
        "r = Inl (callback_error Start_op code)"
    using task \<open>r \<noteq> Inl KHttpxError\<close>
    by (auto simp: claim_task_def begun call ws wf split: sum.splits client_error.splits)
  then show ?thesis
  proof cases
    case granted
    then have "kw_mongo w2 = write_station_event cfg (ke_now env) ''StationBusySlotOccupied'' (pd_station pd) corr
          [(''busy_slots'', JInt (st_busy_slots (pd_station pd))), (''capacity'', JInt (st_capacity (pd_station pd)))]
        (write_kds_event cfg (ke_now env) ''KdsTaskClaimed'' (pd_task pd) (cr_worker p) corr
          [(''claimed_at'', JIso (pd_at pd))] (kw_mongo w))"
      using claim_begin_mongo [OF begun] by (auto simp: claim_success_def Let_def)
    then show ?thesis using up granted(2) by (simp add: write_up)
  next
    case (failed code)
    have "callback_error Start_op code = callback_error Start_op fulfillment_unavailable \<longleftrightarrow> code = fulfillment_unavailable"
      by (auto simp: callback_error_def)
    with claim_failure_mongo [OF inv begun failed(1)] up failed(2) show ?thesis
      by (auto simp: write_up callback_audit_type_def)
  qed
qed

theorem claim_event_trace_witness:
  "\<exists>r w2 f2. claim_task False (demo_remote 500) demo_cfg race_env None 2 (uuid_str 21) demo_claim demo_world [] = (r, w2, f2)
     \<and> doc_kinds (kw_mongo w2) =
       [(''app_audit_events'', Some (JStr ''ExternalServiceUnavailable'')),
        (''kds_events'', Some (JStr ''KdsTaskClaimRejected'')),
        (''station_events'', Some (JStr ''StationBusySlotReleased''))]"
proof -
  obtain pd w1 where begun: "claim_begin False demo_cfg race_env None 2 (uuid_str 21) demo_claim demo_world = (Inr pd, w1)"
    using demo_claim_begin by blast
  obtain e w2 where cf: "claim_failure False demo_cfg race_env None demo_claim fulfillment_unavailable pd w1 = (e, w2)"
    by fastforce
  have e: "e = callback_error Start_op fulfillment_unavailable" using cf by (rule claim_failure_error)
  have task: "claim_task False (demo_remote 500) demo_cfg race_env None 2 (uuid_str 21) demo_claim demo_world []
      = (Inl e, w2, [start_call ''w'' pd])"
    using cf by (simp add: claim_task_def begun demo_remote_def post_transition_def)
  have "mongo_up (kw_mongo demo_world)" "ks_mongo_enabled demo_cfg" "doc_kinds (kw_mongo demo_world) = []"
    by (simp_all add: demo_world_def demo_cfg_def mongo_up_def doc_kinds_def)
  moreover have "Inl e \<noteq> (Inl KHttpxError :: k_error + kds_task)" by (simp add: e callback_error_def)
  ultimately have "doc_kinds (kw_mongo w2) =
       [(''app_audit_events'', Some (JStr ''ExternalServiceUnavailable'')),
        (''kds_events'', Some (JStr ''KdsTaskClaimRejected'')),
        (''station_events'', Some (JStr ''StationBusySlotReleased''))]"
    using claim_event_trace [OF demo_world_inv _ _ begun task] by (simp add: e)
  with task show ?thesis by blast
qed

section \<open>No failure of Mongo reaches a request\<close>

lemma claim_begin_mongo_free:
  "\<exists>m'. claim_begin populate cfg env corr sid tid p (w\<lparr>kw_mongo := m\<rparr>)
     = apsnd (\<lambda>w1. w1\<lparr>kw_mongo := m'\<rparr>) (claim_begin populate cfg env corr sid tid p w)"
proof -
  obtain db mo mt where w: "w = \<lparr>kw_db = db, kw_mongo = mo, kw_metrics = mt\<rparr>" by (cases w)
  show ?thesis
  proof (cases "get_station_row db sid")
    case None
    then show ?thesis by (auto simp: w claim_begin_def get_station_none Let_def)
  next
    case (Some s)
    note s = first_station_load [OF Some]
    show ?thesis
    proof (cases "get_by_task_id db tid")
      case None
      then show ?thesis by (auto simp: w claim_begin_def s get_task_none Let_def)
    next
      case (Some t)
      note t = first_task_load [OF Some]
      show ?thesis
      proof (cases "validate_claim s t")
        case None
        then show ?thesis by (auto simp: w claim_begin_def s t Let_def)
      next
        case (Some e)
        then show ?thesis by (cases e) (simp add: w claim_begin_def s t Let_def)
      qed
    qed
  qed
qed

lemma claim_success_mongo_free:
  "\<exists>m'. claim_success cfg env corr sid p pd (w\<lparr>kw_mongo := m\<rparr>)
     = apsnd (\<lambda>w1. w1\<lparr>kw_mongo := m'\<rparr>) (claim_success cfg env corr sid p pd w)"
  by (cases w) (simp add: claim_success_def Let_def)

lemma compensate_claim_mongo_free:
  "\<exists>m'. compensate_claim populate cfg env corr tid worker reason se (w\<lparr>kw_mongo := m\<rparr>)
     = (compensate_claim populate cfg env corr tid worker reason se w)\<lparr>kw_mongo := m'\<rparr>"
proof -
  obtain db mo mt where w: "w = \<lparr>kw_db = db, kw_mongo = mo, kw_metrics = mt\<rparr>" by (cases w)
  obtain to se1 where t: "get_task_for_update populate tid db se = (to, se1)" by fastforce
  show ?thesis
  proof (cases to)
    case None
    then show ?thesis by (auto simp: w compensate_claim_def t Let_def)
  next
    case (Some task)
    obtain so se2 where s: "get_station_for_update populate (kt_station_id task) db se1 = (so, se2)" by fastforce
    show ?thesis
      by (cases so) (auto simp: w compensate_claim_def t s Some Let_def)
  qed
qed

lemma claim_failure_mongo_free:
  "\<exists>m'. claim_failure populate cfg env corr p code pd (w\<lparr>kw_mongo := m\<rparr>)
     = apsnd (\<lambda>w1. w1\<lparr>kw_mongo := m'\<rparr>) (claim_failure populate cfg env corr p code pd w)"
proof -
  let ?tid = "kt_task_id (pd_task pd)"
  have "\<exists>m'. compensate_claim populate cfg env corr ?tid (cr_worker p) code (pd_session pd) (w\<lparr>kw_mongo := m1\<rparr>)
      = (compensate_claim populate cfg env corr ?tid (cr_worker p) code (pd_session pd) (w\<lparr>kw_mongo := m2\<rparr>))\<lparr>kw_mongo := m'\<rparr>"
    for m1 m2
    using compensate_claim_mongo_free [where w = "w\<lparr>kw_mongo := m2\<rparr>" and m = m1] by simp
  then show ?thesis by (simp add: claim_failure_def Let_def)
qed

lemma complete_begin_mongo_free:
  "complete_begin populate env sid tid p (w\<lparr>kw_mongo := m\<rparr>) = complete_begin populate env sid tid p w"
  by (simp add: complete_begin_def)

lemma complete_commit_mongo_free:
  "\<exists>m'. complete_commit populate cfg env corr sid tid p pd (w\<lparr>kw_mongo := m\<rparr>)
     = apsnd (\<lambda>w1. w1\<lparr>kw_mongo := m'\<rparr>) (complete_commit populate cfg env corr sid tid p pd w)"
proof -
  obtain db mo mt where w: "w = \<lparr>kw_db = db, kw_mongo = mo, kw_metrics = mt\<rparr>" by (cases w)
  obtain so se1 where s: "get_station_for_update populate sid db (pd_session pd) = (so, se1)" by fastforce
  obtain to se2 where t: "get_task_for_update populate tid db se1 = (to, se2)" by fastforce
  show ?thesis
  proof (cases so)
    case None
    then show ?thesis by (auto simp: w complete_commit_def s t Let_def)
  next
    case (Some sr)
    note so = this
    show ?thesis
    proof (cases to)
      case None
      then show ?thesis by (auto simp: w complete_commit_def s t so Let_def)
    next
      case (Some tr)
      then show ?thesis
        by (cases "validate_complete sr tr (co_worker p)") (auto simp: w complete_commit_def s t so Let_def)
    qed
  qed
qed

lemma claim_task_mongo_free:
  "\<exists>m'. claim_task populate remote cfg env corr sid tid p (w\<lparr>kw_mongo := m\<rparr>) f
      = apsnd (apfst (\<lambda>w1. w1\<lparr>kw_mongo := m'\<rparr>)) (claim_task populate remote cfg env corr sid tid p w f)"
proof -
  obtain r w1 where b: "claim_begin populate cfg env corr sid tid p w = (r, w1)" by fastforce
  obtain m1 where b': "claim_begin populate cfg env corr sid tid p (w\<lparr>kw_mongo := m\<rparr>) = (r, w1\<lparr>kw_mongo := m1\<rparr>)"
    using claim_begin_mongo_free [where w = w and m = m and p = p and cfg = cfg and env = env
        and corr = corr and sid = sid and tid = tid and populate = populate] by (auto simp: b)
  show ?thesis
  proof (cases r)
    case (Inl e)
    then show ?thesis by (auto simp: claim_task_def b b')
  next
    case (Inr pd)
    obtain a f1 where call: "remote (start_call (cr_worker p) pd) f = (a, f1)" by fastforce
    note head = claim_task_def b b' Inr call
    show ?thesis
    proof (cases "post_transition Start_op a")
      case ok: (Inr u)
      obtain t w2 where cs: "claim_success cfg env corr sid p pd w1 = (t, w2)" by fastforce
      obtain m2 where "claim_success cfg env corr sid p pd (w1\<lparr>kw_mongo := m1\<rparr>) = (t, w2\<lparr>kw_mongo := m2\<rparr>)"
        using claim_success_mongo_free [where w = w1 and m = m1 and p = p and pd = pd and cfg = cfg and env = env
          and corr = corr and sid = sid] by (auto simp: cs)
      then show ?thesis by (auto simp: head ok cs)
    next
      case err: (Inl ce)
      show ?thesis
      proof (cases ce)
        case (FulfillmentClientError code)
        obtain e w2 where cf: "claim_failure populate cfg env corr p code pd w1 = (e, w2)" by fastforce
        obtain m2 where "claim_failure populate cfg env corr p code pd (w1\<lparr>kw_mongo := m1\<rparr>) = (e, w2\<lparr>kw_mongo := m2\<rparr>)"
          using claim_failure_mongo_free [where w = w1 and m = m1 and p = p and pd = pd and cfg = cfg and env = env
            and corr = corr and populate = populate and code = code] by (auto simp: cf)
        then show ?thesis by (auto simp: head err FulfillmentClientError cf)
      next
        case Httpx_escapes
        then show ?thesis by (auto simp: head err)
      qed
    qed
  qed
qed

lemma complete_task_mongo_free:
  "\<exists>m'. complete_task populate remote cfg env corr sid tid q (w\<lparr>kw_mongo := m\<rparr>) f
      = apsnd (apfst (\<lambda>w1. w1\<lparr>kw_mongo := m'\<rparr>)) (complete_task populate remote cfg env corr sid tid q w f)"
proof (cases "complete_begin populate env sid tid q w")
  case (Inl e)
  then show ?thesis by (auto simp: complete_task_def complete_begin_mongo_free)
next
  case (Inr pd)
  obtain a f1 where call: "remote (complete_call (co_worker q) pd) f = (a, f1)" by fastforce
  note head = complete_task_def complete_begin_mongo_free Inr call
  show ?thesis
  proof (cases "post_transition Complete_op a")
    case ok: (Inr u)
    obtain t w2 where cc: "complete_commit populate cfg env corr sid tid q pd w = (t, w2)" by fastforce
    obtain m2 where "complete_commit populate cfg env corr sid tid q pd (w\<lparr>kw_mongo := m\<rparr>) = (t, w2\<lparr>kw_mongo := m2\<rparr>)"
      using complete_commit_mongo_free [where w = w and m = m and p = q and pd = pd and cfg = cfg and env = env
        and corr = corr and sid = sid and tid = tid and populate = populate] by (auto simp: cc)
    then show ?thesis by (auto simp: head ok cc)
  next
    case err: (Inl ce)
    show ?thesis
      by (cases ce) (auto simp: head err complete_failure_def intro: exI [of _ m])
  qed
qed

text \<open>
  Whatever the Mongo server answers to the insertions of events (or whatever is stored
  there already), a claim and a completion give the same result, the same database and
  metrics, and make the same calls to the fulfillment service.
\<close>

theorem mongo_failures_invisible:
  "(\<exists>m'. claim_task populate remote cfg env corr sid tid p (w\<lparr>kw_mongo := m\<rparr>) f
      = apsnd (apfst (\<lambda>w1. w1\<lparr>kw_mongo := m'\<rparr>)) (claim_task populate remote cfg env corr sid tid p w f))
   \<and> (\<exists>m'. complete_task populate remote cfg env corr sid tid q (w\<lparr>kw_mongo := m\<rparr>) f
      = apsnd (apfst (\<lambda>w1. w1\<lparr>kw_mongo := m'\<rparr>)) (complete_task populate remote cfg env corr sid tid q w f))"
  by (intro conjI claim_task_mongo_free complete_task_mongo_free)

section \<open>Paging\<close>

text \<open>
  The task list of a station is ordered by \<open>displayed_at\<close>, and pages fit together: a page
  of \<open>a\<close> entries followed by the next page of \<open>b\<close> is the page of \<open>a + b\<close> entries.
\<close>

theorem task_pages:
  "list_station_tasks_rows db sid stat (a + b) off
     = list_station_tasks_rows db sid stat a off @ list_station_tasks_rows db sid stat b (off + a)
   \<and> sorted (map (\<lambda>t. dt_instant (kt_displayed_at t)) (list_station_tasks_rows db sid stat a off))"
  by (simp add: list_station_tasks_rows_def take_add add.commute [of a off] take_map [symmetric] drop_map [symmetric]
      sorted_wrt_take sorted_wrt_drop)

end
