(* ===== verification/Fulfillment_Model.thy ===== *)
theory Fulfillment_Model
  imports Effects
begin

text \<open>
  Fulfillment service: the statuses and transitions of \<open>app/domain\<close>, the tables of
  \<open>app/models.py\<close> with the constraints of the migrations, the request schemas, and the
  errors the service raises.
\<close>

section \<open>Statuses and transitions\<close>

datatype order_status =
    Ord_created | Ord_accepted | Ord_scheduled | Ord_cooking | Ord_assembling
  | Ord_ready_for_pickup | Ord_handed_off | Ord_delayed | Ord_cancelled | Ord_failed

datatype task_status =
    Tk_created | Tk_queued | Tk_displayed | Tk_in_progress | Tk_done | Tk_failed
  | Tk_retrying | Tk_cancelled

fun order_status_str :: "order_status \<Rightarrow> string" where
  "order_status_str Ord_created = ''created''"
| "order_status_str Ord_accepted = ''accepted''"
| "order_status_str Ord_scheduled = ''scheduled''"
| "order_status_str Ord_cooking = ''cooking''"
| "order_status_str Ord_assembling = ''assembling''"
| "order_status_str Ord_ready_for_pickup = ''ready_for_pickup''"
| "order_status_str Ord_handed_off = ''handed_off''"
| "order_status_str Ord_delayed = ''delayed''"
| "order_status_str Ord_cancelled = ''cancelled''"
| "order_status_str Ord_failed = ''failed''"

fun task_status_str :: "task_status \<Rightarrow> string" where
  "task_status_str Tk_created = ''created''"
| "task_status_str Tk_queued = ''queued''"
| "task_status_str Tk_displayed = ''displayed''"
| "task_status_str Tk_in_progress = ''in_progress''"
| "task_status_str Tk_done = ''done''"
| "task_status_str Tk_failed = ''failed''"
| "task_status_str Tk_retrying = ''retrying''"
| "task_status_str Tk_cancelled = ''cancelled''"

definition allowed_transitions :: "(task_status \<times> task_status) list" where
  "allowed_transitions =
     [(Tk_queued, Tk_displayed), (Tk_retrying, Tk_displayed), (Tk_displayed, Tk_in_progress),
      (Tk_in_progress, Tk_done), (Tk_queued, Tk_failed), (Tk_retrying, Tk_failed)]"

definition can_transition :: "task_status \<Rightarrow> task_status \<Rightarrow> bool" where
  "can_transition current target = ((current, target) \<in> set allowed_transitions)"

lemma can_transition_simps [simp]:
  "can_transition s Tk_displayed \<longleftrightarrow> s = Tk_queued \<or> s = Tk_retrying"
  "can_transition s Tk_in_progress \<longleftrightarrow> s = Tk_displayed"
  "can_transition s Tk_done \<longleftrightarrow> s = Tk_in_progress"
  "can_transition s Tk_failed \<longleftrightarrow> s = Tk_queued \<or> s = Tk_retrying"
  by (auto simp: can_transition_def allowed_transitions_def)

section \<open>Tables\<close>

record order =
  o_id :: uuid
  o_kitchen_id :: uuid
  o_status :: order_status
  o_pickup_deadline :: "pydatetime option"
  o_created_at :: pydatetime
  o_updated_at :: pydatetime

record order_item =
  oi_id :: uuid
  oi_order_id :: uuid
  oi_menu_item_id :: uuid
  oi_quantity :: int
  oi_created_at :: pydatetime
  oi_updated_at :: pydatetime

record ftask =
  ft_id :: uuid
  ft_order_id :: uuid
  ft_order_item_id :: uuid
  ft_menu_item_id :: uuid
  ft_station_type :: string
  ft_station_id :: "uuid option"
  ft_kds_task_id :: "uuid option"
  ft_operation :: string
  ft_status :: task_status
  ft_duration :: int
  ft_displayed_at :: "pydatetime option"
  ft_started_at :: "pydatetime option"
  ft_sla_deadline_at :: "pydatetime option"
  ft_completed_at :: "pydatetime option"
  ft_actual_duration :: "int option"
  ft_delay :: "int option"
  ft_attempts :: int
  ft_queued_at :: "pydatetime option"
  ft_redis_stream :: "string option"
  ft_redis_message_id :: "string option"
  ft_step_order :: int
  ft_unit_index :: int
  ft_created_at :: pydatetime
  ft_updated_at :: pydatetime

record tdep =
  td_task :: uuid
  td_depends_on :: uuid

record fdb =
  f_orders :: "order list"
  f_items :: "order_item list"
  f_tasks :: "ftask list"
  f_deps :: "tdep list"

definition empty_fdb :: fdb where
  "empty_fdb = \<lparr>f_orders = [], f_items = [], f_tasks = [], f_deps = []\<rparr>"

section \<open>Insertions\<close>

definition insert_order :: "order \<Rightarrow> fdb \<Rightarrow> db_error + fdb" where
  "insert_order r db =
     (if \<exists>x \<in> set (f_orders db). o_id x = o_id r then Inl IntegrityError
      else Inr (db\<lparr>f_orders := f_orders db @ [r]\<rparr>))"

definition insert_item :: "order_item \<Rightarrow> fdb \<Rightarrow> db_error + fdb" where
  "insert_item r db =
     (if \<not> pg_int4 (oi_quantity r) then Inl DataError
      else if \<not> 0 < oi_quantity r \<or> (\<exists>x \<in> set (f_items db). oi_id x = oi_id r)
           \<or> \<not> (\<exists>x \<in> set (f_orders db). o_id x = oi_order_id r)
      then Inl IntegrityError
      else Inr (db\<lparr>f_items := f_items db @ [r]\<rparr>))"

definition ftask_fits :: "ftask \<Rightarrow> bool" where
  "ftask_fits t =
     (pg_text 32 (ft_station_type t) \<and> pg_text 120 (ft_operation t) \<and> pg_int4 (ft_duration t)
      \<and> opt_ok pg_int4 (ft_actual_duration t) \<and> opt_ok pg_int4 (ft_delay t)
      \<and> pg_int4 (ft_attempts t) \<and> opt_ok (pg_text 255) (ft_redis_stream t)
      \<and> opt_ok (pg_text 128) (ft_redis_message_id t) \<and> pg_int4 (ft_step_order t)
      \<and> pg_int4 (ft_unit_index t))"

definition ftask_checks :: "ftask \<Rightarrow> bool" where
  "ftask_checks t =
     (0 < ft_duration t \<and> 0 \<le> ft_attempts t \<and> 0 < ft_step_order t \<and> 0 < ft_unit_index t)"

definition insert_ftask :: "ftask \<Rightarrow> fdb \<Rightarrow> db_error + fdb" where
  "insert_ftask t db =
     (if \<not> ftask_fits t then Inl DataError
      else if \<not> ftask_checks t \<or> (\<exists>x \<in> set (f_tasks db). ft_id x = ft_id t)
           \<or> \<not> (\<exists>x \<in> set (f_orders db). o_id x = ft_order_id t)
           \<or> \<not> (\<exists>x \<in> set (f_items db). oi_id x = ft_order_item_id t)
      then Inl IntegrityError
      else Inr (db\<lparr>f_tasks := f_tasks db @ [t]\<rparr>))"

definition insert_tdep :: "tdep \<Rightarrow> fdb \<Rightarrow> db_error + fdb" where
  "insert_tdep d db =
     (if td_task d = td_depends_on d \<or> d \<in> set (f_deps db)
         \<or> \<not> (\<exists>x \<in> set (f_tasks db). ft_id x = td_task d)
         \<or> \<not> (\<exists>x \<in> set (f_tasks db). ft_id x = td_depends_on d)
      then Inl IntegrityError
      else Inr (db\<lparr>f_deps := f_deps db @ [d]\<rparr>))"

text \<open>A flush that inserts several rows in turn.\<close>

fun insert_all :: "('r \<Rightarrow> fdb \<Rightarrow> db_error + fdb) \<Rightarrow> 'r list \<Rightarrow> fdb \<Rightarrow> db_error + fdb" where
  "insert_all ins [] db = Inr db"
| "insert_all ins (r # rs) db =
     (case ins r db of Inl e \<Rightarrow> Inl e | Inr db' \<Rightarrow> insert_all ins rs db')"

section \<open>Lookups and updates by primary key\<close>

definition get_order_row :: "fdb \<Rightarrow> uuid \<Rightarrow> order option" where
  "get_order_row db i = find_row o_id i (f_orders db)"

definition get_ftask_row :: "fdb \<Rightarrow> uuid \<Rightarrow> ftask option" where
  "get_ftask_row db i = find_row ft_id i (f_tasks db)"

definition upd_order :: "uuid \<Rightarrow> (order \<Rightarrow> order) \<Rightarrow> fdb \<Rightarrow> fdb" where
  "upd_order i g db = db\<lparr>f_orders := update_row o_id i g (f_orders db)\<rparr>"

definition upd_ftask :: "uuid \<Rightarrow> (ftask \<Rightarrow> ftask) \<Rightarrow> fdb \<Rightarrow> fdb" where
  "upd_ftask i g db = db\<lparr>f_tasks := update_row ft_id i g (f_tasks db)\<rparr>"

interpretation order_tab: row_store f_orders o_id get_order_row upd_order
  by unfold_locales (simp_all add: get_order_row_def upd_order_def)

interpretation ftask_tab: row_store f_tasks ft_id get_ftask_row upd_ftask
  by unfold_locales (simp_all add: get_ftask_row_def upd_ftask_def)

lemma upd_order_frame [simp]:
  "f_tasks (upd_order i g db) = f_tasks db" "f_items (upd_order i g db) = f_items db"
  "f_deps (upd_order i g db) = f_deps db"
  by (simp_all add: upd_order_def)

lemma upd_ftask_frame [simp]:
  "f_orders (upd_ftask i g db) = f_orders db" "f_items (upd_ftask i g db) = f_items db"
  "f_deps (upd_ftask i g db) = f_deps db"
  by (simp_all add: upd_ftask_def)

section \<open>Request schemas\<close>

record item_create =
  ic_menu_item_id :: uuid
  ic_quantity :: int

record order_create =
  oc_kitchen_id :: uuid
  oc_pickup_deadline :: "pydatetime option"
  oc_items :: "item_create list"

definition valid_order_create :: "order_create \<Rightarrow> bool" where
  "valid_order_create p = (oc_items p \<noteq> [] \<and> (\<forall>i \<in> set (oc_items p). 0 < ic_quantity i))"

record displayed_request =
  md_station_id :: uuid
  md_kds_task_id :: uuid
  md_displayed_at :: pydatetime
  md_dispatcher_id :: string

record start_request =
  sq_station_id :: uuid
  sq_kds_task_id :: uuid
  sq_worker :: string
  sq_started_at :: pydatetime

record finish_request =
  fq_station_id :: uuid
  fq_kds_task_id :: uuid
  fq_worker :: string
  fq_completed_at :: pydatetime

record dispatch_failed_request =
  df_reason :: string
  df_failed_at :: pydatetime
  df_dispatcher_id :: string
  df_attempts :: "int option"

definition valid_displayed :: "displayed_request \<Rightarrow> bool" where
  "valid_displayed p = (md_dispatcher_id p \<noteq> [])"

definition valid_start :: "start_request \<Rightarrow> bool" where
  "valid_start p = (sq_worker p \<noteq> [])"

definition valid_finish :: "finish_request \<Rightarrow> bool" where
  "valid_finish p = (fq_worker p \<noteq> [])"

definition valid_dispatch_failed :: "dispatch_failed_request \<Rightarrow> bool" where
  "valid_dispatch_failed p =
     (df_reason p \<noteq> [] \<and> df_dispatcher_id p \<noteq> [] \<and> opt_ok (\<lambda>n. 0 \<le> n) (df_attempts p))"

section \<open>Errors\<close>

datatype f_error =
    OrderNotFoundError
  | TaskNotFoundError
  | InvalidTaskStatusTransitionError task_status task_status
  | TaskAlreadyDisplayedError
  | TaskAlreadyStartedError
  | TaskAlreadyCompletedError
  | StationMismatchError
  | KdsTaskMismatchError
  | InvalidCompletionTimeError
  | KitchenNotFoundError
  | KitchenNotActiveError
  | KitchenServiceUnavailableError
  | MenuItemNotFoundError
  | MenuItemNotAvailableError
  | RecipeStepsNotFoundError
  | MenuServiceUnavailableError
  | TaskPublishFailedError
  | FDatabaseError db_error
  | FOverflowError
  | FKeyError

text \<open>\<open>status_code\<close> and \<open>error\<close> of the exception classes; the last three are not handled.\<close>

fun f_status_code :: "f_error \<Rightarrow> nat" where
  "f_status_code OrderNotFoundError = 404"
| "f_status_code TaskNotFoundError = 404"
| "f_status_code (InvalidTaskStatusTransitionError _ _) = 409"
| "f_status_code TaskAlreadyDisplayedError = 409"
| "f_status_code TaskAlreadyStartedError = 409"
| "f_status_code TaskAlreadyCompletedError = 409"
| "f_status_code StationMismatchError = 409"
| "f_status_code KdsTaskMismatchError = 409"
| "f_status_code InvalidCompletionTimeError = 409"
| "f_status_code KitchenNotFoundError = 404"
| "f_status_code KitchenNotActiveError = 409"
| "f_status_code KitchenServiceUnavailableError = 503"
| "f_status_code MenuItemNotFoundError = 404"
| "f_status_code MenuItemNotAvailableError = 409"
| "f_status_code RecipeStepsNotFoundError = 409"
| "f_status_code MenuServiceUnavailableError = 503"
| "f_status_code TaskPublishFailedError = 503"
| "f_status_code (FDatabaseError _) = 500"
| "f_status_code FOverflowError = 500"
| "f_status_code FKeyError = 500"

fun f_error_code :: "f_error \<Rightarrow> string" where
  "f_error_code OrderNotFoundError = ''order_not_found''"
| "f_error_code TaskNotFoundError = ''task_not_found''"
| "f_error_code (InvalidTaskStatusTransitionError _ _) = ''invalid_task_status_transition''"
| "f_error_code TaskAlreadyDisplayedError = ''task_already_displayed''"
| "f_error_code TaskAlreadyStartedError = ''task_already_started''"
| "f_error_code TaskAlreadyCompletedError = ''task_already_completed''"
| "f_error_code StationMismatchError = ''station_mismatch''"
| "f_error_code KdsTaskMismatchError = ''kds_task_mismatch''"
| "f_error_code InvalidCompletionTimeError = ''invalid_completion_time''"
| "f_error_code KitchenNotFoundError = ''kitchen_not_found''"
| "f_error_code KitchenNotActiveError = ''kitchen_not_active''"
| "f_error_code KitchenServiceUnavailableError = ''kitchen_service_unavailable''"
| "f_error_code MenuItemNotFoundError = ''menu_item_not_found''"
| "f_error_code MenuItemNotAvailableError = ''menu_item_not_available''"
| "f_error_code RecipeStepsNotFoundError = ''recipe_steps_not_found''"
| "f_error_code MenuServiceUnavailableError = ''menu_service_unavailable''"
| "f_error_code TaskPublishFailedError = ''task_publish_failed''"
| "f_error_code _ = ''internal_error''"

end
