(* ===== verification/Fulfillment_Builder.thy ===== *)
theory Fulfillment_Builder
  imports Fulfillment_Model
begin

text \<open>
  Fulfillment service: \<open>TaskBuilder\<close> of \<open>app/task_builder.py\<close>, which turns the items of an
  order and their recipes into kitchen tasks, and the shape of what it builds: every unit of
  an item is a chain of tasks in recipe order.
\<close>

section \<open>Building\<close>

record recipe_step =
  rp_station_type :: string
  rp_operation :: string
  rp_duration :: int
  rp_step_order :: int

record recipe =
  rc_menu_item_id :: uuid
  rc_steps :: "recipe_step list"

text \<open>\<open>uuid4()\<close> is a supply of identifiers; \<open>now\<close> is the database's \<open>now()\<close> at the insertion.\<close>

definition new_task :: "uuid \<Rightarrow> pydatetime \<Rightarrow> uuid \<Rightarrow> order_item \<Rightarrow> int \<Rightarrow> recipe_step \<Rightarrow> ftask" where
  "new_task i now oid it unit s =
     \<lparr>ft_id = i, ft_order_id = oid, ft_order_item_id = oi_id it, ft_menu_item_id = oi_menu_item_id it,
      ft_station_type = rp_station_type s, ft_station_id = None, ft_kds_task_id = None,
      ft_operation = rp_operation s, ft_status = Tk_created, ft_duration = rp_duration s,
      ft_displayed_at = None, ft_started_at = None, ft_sla_deadline_at = None,
      ft_completed_at = None, ft_actual_duration = None, ft_delay = None, ft_attempts = 0,
      ft_queued_at = None, ft_redis_stream = None, ft_redis_message_id = None,
      ft_step_order = rp_step_order s, ft_unit_index = unit, ft_created_at = now, ft_updated_at = now\<rparr>"

type_synonym built = "ftask list \<times> tdep list"

text \<open>The inner loop over the steps of one unit; \<open>n\<close> counts the identifiers drawn so far.\<close>

fun build_steps ::
    "(nat \<Rightarrow> uuid) \<Rightarrow> pydatetime \<Rightarrow> uuid \<Rightarrow> order_item \<Rightarrow> int \<Rightarrow> uuid option \<Rightarrow> nat \<Rightarrow> recipe_step list \<Rightarrow> built" where
  "build_steps ids now oid it unit prev n [] = ([], [])"
| "build_steps ids now oid it unit prev n (s # ss) =
     (let t = new_task (ids n) now oid it unit s;
          (ts, ds) = build_steps ids now oid it unit (Some (ft_id t)) (Suc n) ss
      in (t # ts,
          (case prev of None \<Rightarrow> ds | Some p \<Rightarrow> \<lparr>td_task = ft_id t, td_depends_on = p\<rparr> # ds)))"

text \<open>The loop over \<open>range(1, quantity + 1)\<close>.\<close>

fun build_units ::
    "(nat \<Rightarrow> uuid) \<Rightarrow> pydatetime \<Rightarrow> uuid \<Rightarrow> order_item \<Rightarrow> recipe_step list \<Rightarrow> nat \<Rightarrow> int list \<Rightarrow> built" where
  "build_units ids now oid it steps n [] = ([], [])"
| "build_units ids now oid it steps n (u # us) =
     (let (ts, ds) = build_steps ids now oid it u None n steps;
          (ts', ds') = build_units ids now oid it steps (n + length ts) us
      in (ts @ ts', ds @ ds'))"

text \<open>The loop over the order items; a missing recipe is a \<open>KeyError\<close> (\<open>None\<close>).\<close>

fun build_items ::
    "(nat \<Rightarrow> uuid) \<Rightarrow> pydatetime \<Rightarrow> uuid \<Rightarrow> (uuid \<rightharpoonup> recipe) \<Rightarrow> nat \<Rightarrow> order_item list \<Rightarrow> built option" where
  "build_items ids now oid recipes n [] = Some ([], [])"
| "build_items ids now oid recipes n (it # its) =
     (case recipes (oi_menu_item_id it) of
        None \<Rightarrow> None
      | Some r \<Rightarrow>
          (let steps = sort_key rp_step_order (rc_steps r);
               (ts, ds) = build_units ids now oid it steps n [1..oi_quantity it]
           in case build_items ids now oid recipes (n + length ts) its of
                None \<Rightarrow> None
              | Some (ts', ds') \<Rightarrow> Some (ts @ ts', ds @ ds')))"

section \<open>The shape of what is built\<close>

text \<open>
  The reference: a list of chains, one per unit, each the tasks of the sorted steps; the
  dependencies are the neighbouring pairs within a chain.
\<close>

fun chain_deps :: "ftask list \<Rightarrow> tdep list" where
  "chain_deps (a # b # ts) = \<lparr>td_task = ft_id b, td_depends_on = ft_id a\<rparr> # chain_deps (b # ts)"
| "chain_deps ts = []"

fun unit_chain ::
    "(nat \<Rightarrow> uuid) \<Rightarrow> pydatetime \<Rightarrow> uuid \<Rightarrow> order_item \<Rightarrow> int \<Rightarrow> nat \<Rightarrow> recipe_step list \<Rightarrow> ftask list" where
  "unit_chain ids now oid it unit n [] = []"
| "unit_chain ids now oid it unit n (s # ss) =
     new_task (ids n) now oid it unit s # unit_chain ids now oid it unit (Suc n) ss"

lemma length_unit_chain [simp]: "length (unit_chain ids now oid it unit n steps) = length steps"
  by (induction steps arbitrary: n) simp_all

lemma new_task_id [simp]: "ft_id (new_task i now oid it unit s) = i"
  by (simp add: new_task_def)

lemma build_steps_chain:
  "build_steps ids now oid it unit prev n steps =
     (unit_chain ids now oid it unit n steps,
      (case (prev, steps) of
         (Some p, _ # _) \<Rightarrow> \<lparr>td_task = ids n, td_depends_on = p\<rparr> # chain_deps (unit_chain ids now oid it unit n steps)
       | _ \<Rightarrow> chain_deps (unit_chain ids now oid it unit n steps)))"
proof (induction steps arbitrary: prev n)
  case Nil
  then show ?case by (cases prev) simp_all
next
  case (Cons s ss)
  show ?case
    by (simp add: Cons.IH Let_def, cases ss; cases prev; simp)
qed

text \<open>The chains of the units of one item, and of all items.\<close>

fun item_chains ::
    "(nat \<Rightarrow> uuid) \<Rightarrow> pydatetime \<Rightarrow> uuid \<Rightarrow> order_item \<Rightarrow> recipe_step list \<Rightarrow> nat \<Rightarrow> int list \<Rightarrow> ftask list list" where
  "item_chains ids now oid it steps n [] = []"
| "item_chains ids now oid it steps n (u # us) =
     unit_chain ids now oid it u n steps # item_chains ids now oid it steps (n + length steps) us"

fun order_chains ::
    "(nat \<Rightarrow> uuid) \<Rightarrow> pydatetime \<Rightarrow> uuid \<Rightarrow> (uuid \<rightharpoonup> recipe) \<Rightarrow> nat \<Rightarrow> order_item list \<Rightarrow> ftask list list" where
  "order_chains ids now oid recipes n [] = []"
| "order_chains ids now oid recipes n (it # its) =
     (let steps = (case recipes (oi_menu_item_id it) of None \<Rightarrow> [] | Some r \<Rightarrow> sort_key rp_step_order (rc_steps r))
      in item_chains ids now oid it steps n [1..oi_quantity it]
         @ order_chains ids now oid recipes (n + length steps * length [1..oi_quantity it]) its)"

lemma build_units_chains:
  "build_units ids now oid it steps n us =
     (concat (item_chains ids now oid it steps n us), concat (map chain_deps (item_chains ids now oid it steps n us)))"
  by (induction us arbitrary: n) (simp_all add: build_steps_chain)

lemma length_item_chains: "length (concat (item_chains ids now oid it steps n us)) = length steps * length us"
  by (induction us arbitrary: n) simp_all

lemma build_items_chains:
  assumes "\<forall>it \<in> set its. recipes (oi_menu_item_id it) \<noteq> None"
  shows "build_items ids now oid recipes n its =
     Some (concat (order_chains ids now oid recipes n its), concat (map chain_deps (order_chains ids now oid recipes n its)))"
  using assms
  by (induction its arbitrary: n)
    (auto simp: build_units_chains length_item_chains Let_def simp del: upto.simps)

text \<open>What holds of each chain.\<close>

lemma item_chain_members:
  "c \<in> set (item_chains ids now oid it steps n us) \<Longrightarrow> \<exists>u m. u \<in> set us \<and> n \<le> m \<and> c = unit_chain ids now oid it u m steps"
proof (induction us arbitrary: n)
  case Nil
  then show ?case by simp
next
  case (Cons u us)
  then consider "c = unit_chain ids now oid it u n steps"
    | "c \<in> set (item_chains ids now oid it steps (n + length steps) us)" by auto
  then show ?case
  proof cases
    case 1
    then show ?thesis by (intro exI [of _ u] exI [of _ n]) simp
  next
    case 2
    from Cons.IH [OF this] obtain v m where "v \<in> set us" "n + length steps \<le> m"
      "c = unit_chain ids now oid it v m steps" by blast
    then show ?thesis by (intro exI [of _ v] exI [of _ m]) simp
  qed
qed

lemma chain_members:
  assumes "c \<in> set (order_chains ids now oid recipes n its)"
  obtains it r u m where "it \<in> set its" "recipes (oi_menu_item_id it) = None \<or> recipes (oi_menu_item_id it) = Some r"
    "1 \<le> u" "u \<le> oi_quantity it" "n \<le> m"
    "c = unit_chain ids now oid it u m
       (case recipes (oi_menu_item_id it) of None \<Rightarrow> [] | Some r \<Rightarrow> sort_key rp_step_order (rc_steps r))"
proof -
  have "\<exists>it \<in> set its. \<exists>u m. 1 \<le> u \<and> u \<le> oi_quantity it \<and> n \<le> m \<and> c = unit_chain ids now oid it u m
       (case recipes (oi_menu_item_id it) of None \<Rightarrow> [] | Some r \<Rightarrow> sort_key rp_step_order (rc_steps r))"
    using assms
  proof (induction its arbitrary: n)
    case Nil
    then show ?case by simp
  next
    case (Cons it its)
    then consider "c \<in> set (item_chains ids now oid it (case recipes (oi_menu_item_id it) of None \<Rightarrow> []
          | Some r \<Rightarrow> sort_key rp_step_order (rc_steps r)) n [1..oi_quantity it])"
      | "c \<in> set (order_chains ids now oid recipes (n + length (case recipes (oi_menu_item_id it) of None \<Rightarrow> []
          | Some r \<Rightarrow> sort_key rp_step_order (rc_steps r)) * length [1..oi_quantity it]) its)"
      by (auto simp: Let_def simp del: upto.simps)
    then show ?case
    proof cases
      case 1
      from item_chain_members [OF this] show ?thesis by fastforce
    next
      case 2
      from Cons.IH [OF 2] show ?thesis by (meson add_leD1 list.set_intros(2))
    qed
  qed
  then show ?thesis using that by (metis option.exhaust)
qed

lemma unit_chain_columns:
  "map ft_step_order (unit_chain ids now oid it u m steps) = map rp_step_order steps"
  "map ft_id (unit_chain ids now oid it u m steps) = map ids [m..<m + length steps]"
  by (induction steps arbitrary: m) (simp_all add: new_task_def upt_rec)

lemma unit_chain_rows:
  assumes "t \<in> set (unit_chain ids now oid it u m steps)"
  shows "\<exists>k s. s \<in> set steps \<and> m \<le> k \<and> k < m + length steps \<and> t = new_task (ids k) now oid it u s"
  using assms
proof (induction steps arbitrary: m)
  case Nil
  then show ?case by simp
next
  case (Cons s ss)
  then consider "t = new_task (ids m) now oid it u s" | "t \<in> set (unit_chain ids now oid it u (Suc m) ss)" by auto
  then show ?case
  proof cases
    case 1
    then show ?thesis by (intro exI [of _ m] exI [of _ s]) simp
  next
    case 2
    from Cons.IH [OF this] obtain k r where "r \<in> set ss" "Suc m \<le> k" "k < Suc m + length ss"
      "t = new_task (ids k) now oid it u r" by blast
    then show ?thesis by (intro exI [of _ k] exI [of _ r]) simp
  qed
qed

end
