(* ===== verification/Fulfillment_Gateways.thy ===== *)
theory Fulfillment_Gateways
  imports Fulfillment_Builder
begin

text \<open>
  Fulfillment service: what it reads from the kitchen and menu services
  (\<open>app/clients\<close>), what it publishes to Redis streams (\<open>app/redis/streams.py\<close>), and its Mongo
  event writers (\<open>app/events/task_events.py\<close>).
\<close>

section \<open>Clients\<close>

text \<open>
  A response carries its status code and its decoded body, \<open>None\<close> when the body is no JSON or
  fails the schema.
\<close>

record kitchen_snapshot =
  kn_status :: string

record menu_item_snapshot =
  ms_id :: uuid
  ms_name :: string
  ms_status :: string
  ms_is_available :: bool

definition client_get_kitchen :: "kitchen_snapshot option http_result \<Rightarrow> f_error + kitchen_snapshot" where
  "client_get_kitchen r =
     (case r of
        Http_response c body \<Rightarrow>
          if c = 404 then Inl KitchenNotFoundError
          else if 500 \<le> c then Inl KitchenServiceUnavailableError
          else if raises_for_status c then Inl KitchenServiceUnavailableError
          else (case body of
                  None \<Rightarrow> Inl KitchenServiceUnavailableError
                | Some k \<Rightarrow> if kn_status k \<noteq> ''active'' then Inl KitchenNotActiveError else Inr k)
      | _ \<Rightarrow> Inl KitchenServiceUnavailableError)"

definition client_get_menu :: "menu_item_snapshot list option http_result \<Rightarrow> f_error + menu_item_snapshot list" where
  "client_get_menu r =
     (case r of
        Http_response c body \<Rightarrow>
          if 500 \<le> c then Inl MenuServiceUnavailableError
          else if raises_for_status c then Inl MenuServiceUnavailableError
          else (case body of None \<Rightarrow> Inl MenuServiceUnavailableError | Some items \<Rightarrow> Inr items)
      | _ \<Rightarrow> Inl MenuServiceUnavailableError)"

text \<open>The schema of a recipe asks for positive durations and step orders.\<close>

definition valid_recipe :: "recipe \<Rightarrow> bool" where
  "valid_recipe r = (\<forall>s \<in> set (rc_steps r). 0 < rp_duration s \<and> 0 < rp_step_order s)"

definition client_get_recipe :: "recipe option http_result \<Rightarrow> f_error + recipe" where
  "client_get_recipe r =
     (case r of
        Http_response c body \<Rightarrow>
          if c = 404 then Inl MenuItemNotFoundError
          else if 500 \<le> c then Inl MenuServiceUnavailableError
          else if raises_for_status c then Inl MenuServiceUnavailableError
          else (case body of
                  None \<Rightarrow> Inl MenuServiceUnavailableError
                | Some rec \<Rightarrow>
                    if \<not> valid_recipe rec then Inl MenuServiceUnavailableError
                    else if rc_steps rec = [] then Inl RecipeStepsNotFoundError else Inr rec)
      | _ \<Rightarrow> Inl MenuServiceUnavailableError)"

lemma client_get_recipe_ok:
  "client_get_recipe r = Inr rec \<Longrightarrow> rc_steps rec \<noteq> [] \<and> valid_recipe rec"
  by (auto simp: client_get_recipe_def split: http_result.splits if_splits option.splits)

section \<open>Redis streams\<close>

text \<open>
  The server answers the n-th \<open>XADD\<close> with an entry id, or the call raises, with the entry
  lost or (a reply that did not arrive) stored all the same.
\<close>

datatype xadd_outcome = Xadd_ok string | Xadd_unanswered string | Xadd_refused

record redis =
  rd_entries :: "(string \<times> string \<times> jdoc) list"
  rd_calls :: nat
  rd_script :: "nat \<Rightarrow> xadd_outcome"

definition xadd :: "string \<Rightarrow> jdoc \<Rightarrow> redis \<Rightarrow> string option \<times> redis" where
  "xadd stream msg rd =
     (let rd1 = rd\<lparr>rd_calls := Suc (rd_calls rd)\<rparr>
      in case rd_script rd (rd_calls rd) of
           Xadd_ok i \<Rightarrow> (Some i, rd1\<lparr>rd_entries := rd_entries rd @ [(stream, i, msg)]\<rparr>)
         | Xadd_unanswered i \<Rightarrow> (None, rd1\<lparr>rd_entries := rd_entries rd @ [(stream, i, msg)]\<rparr>)
         | Xadd_refused \<Rightarrow> (None, rd1))"

record fsettings =
  fs_service_name :: string
  fs_mongo_enabled :: bool
  fs_redis_publish_enabled :: bool
  fs_stream_prefix :: string

definition build_task_stream_name :: "uuid \<Rightarrow> string \<Rightarrow> string \<Rightarrow> string" where
  "build_task_stream_name kid station_ty prefix =
     prefix @ '':'' @ uuid_str kid @ '':station:'' @ station_ty"

definition serialize_datetime :: "pydatetime option \<Rightarrow> jval" where
  "serialize_datetime v = (case v of None \<Rightarrow> JStr [] | Some d \<Rightarrow> JIso d)"

definition build_redis_task_message :: "ftask \<Rightarrow> order \<Rightarrow> string option \<Rightarrow> string option \<Rightarrow> jdoc" where
  "build_redis_task_message t ord name corr =
     [(''task_id'', JStr (uuid_str (ft_id t))),
      (''order_id'', JStr (uuid_str (ft_order_id t))),
      (''kitchen_id'', JStr (uuid_str (o_kitchen_id ord))),
      (''station_type'', JStr (ft_station_type t)),
      (''operation'', JStr (ft_operation t)),
      (''menu_item_id'', JStr (uuid_str (ft_menu_item_id t))),
      (''menu_item_name'', JStr (case name of None \<Rightarrow> [] | Some n \<Rightarrow> n)),
      (''estimated_duration_seconds'', JStr (int_str (ft_duration t))),
      (''pickup_deadline'', serialize_datetime (o_pickup_deadline ord)),
      (''attempt'', JStr ''1''),
      (''created_at'', serialize_datetime (Some (ft_created_at t))),
      (''recipe_step_order'', JStr (int_str (ft_step_order t))),
      (''item_unit_index'', JStr (int_str (ft_unit_index t)))]
     @ (case corr of None \<Rightarrow> [] | Some c \<Rightarrow> if c = [] then [] else [(''correlation_id'', JStr c)])"

definition publish_task ::
    "fsettings \<Rightarrow> string option \<Rightarrow> ftask \<Rightarrow> order \<Rightarrow> string option \<Rightarrow> redis \<Rightarrow> (f_error + (string \<times> string)) \<times> redis" where
  "publish_task cfg corr t ord name rd =
     (let stream = build_task_stream_name (o_kitchen_id ord) (ft_station_type t) (fs_stream_prefix cfg)
      in case xadd stream (build_redis_task_message t ord name corr) rd of
           (None, rd1) \<Rightarrow> (Inl TaskPublishFailedError, rd1)
         | (Some i, rd1) \<Rightarrow> (Inr (stream, i), rd1))"

section \<open>Events of order creation\<close>

text \<open>\<open>TaskQueuedEventWriter.write_audit_event\<close>: a failure is logged only.\<close>

definition creation_audit ::
    "fsettings \<Rightarrow> pydatetime \<Rightarrow> string option \<Rightarrow> string \<Rightarrow> jdoc \<Rightarrow> uuid option \<Rightarrow> uuid option \<Rightarrow> uuid option \<Rightarrow> mongo \<Rightarrow> mongo" where
  "creation_audit cfg now corr ty payload oid tid kid m =
     (if \<not> fs_mongo_enabled cfg then m
      else snd (insert_one ''app_audit_events''
        [(''event_type'', JStr ty),
         (''order_id'', jopt (\<lambda>u. JStr (uuid_str u)) oid),
         (''task_id'', jopt (\<lambda>u. JStr (uuid_str u)) tid),
         (''kitchen_id'', jopt (\<lambda>u. JStr (uuid_str u)) kid),
         (''payload'', JObj payload),
         (''correlation_id'', jopt JStr corr),
         (''service'', JStr (fs_service_name cfg)),
         (''created_at'', JIso now)] m))"

definition write_order_event ::
    "fsettings \<Rightarrow> pydatetime \<Rightarrow> string option \<Rightarrow> string \<Rightarrow> order \<Rightarrow> jdoc \<Rightarrow> mongo \<Rightarrow> mongo" where
  "write_order_event cfg now corr ty ord payload m =
     (if \<not> fs_mongo_enabled cfg then m
      else case insert_one ''order_events''
             [(''event_type'', JStr ty),
              (''order_id'', JStr (uuid_str (o_id ord))),
              (''kitchen_id'', JStr (uuid_str (o_kitchen_id ord))),
              (''payload'', JObj payload),
              (''correlation_id'', jopt JStr corr),
              (''service'', JStr (fs_service_name cfg)),
              (''created_at'', JIso now)] m of
           (None, m1) \<Rightarrow> m1
         | (Some err, m1) \<Rightarrow>
             creation_audit cfg now corr ''MongoEventWriteFailed''
               [(''collection'', JStr ''order_events''), (''event_type'', JStr ty), (''error'', JStr err)]
               (Some (o_id ord)) None (Some (o_kitchen_id ord)) m1)"

definition write_order_created ::
    "fsettings \<Rightarrow> pydatetime \<Rightarrow> string option \<Rightarrow> order \<Rightarrow> nat \<Rightarrow> mongo \<Rightarrow> mongo" where
  "write_order_created cfg now corr ord n =
     write_order_event cfg now corr ''OrderCreated'' ord
       [(''tasks_count'', JInt (int n)), (''status'', JStr (order_status_str (o_status ord)))]"

definition write_kitchen_tasks_created ::
    "fsettings \<Rightarrow> pydatetime \<Rightarrow> string option \<Rightarrow> order \<Rightarrow> nat \<Rightarrow> mongo \<Rightarrow> mongo" where
  "write_kitchen_tasks_created cfg now corr ord n =
     write_order_event cfg now corr ''KitchenTasksCreated'' ord [(''tasks_count'', JInt (int n))]"

definition write_task_queued ::
    "fsettings \<Rightarrow> pydatetime \<Rightarrow> string option \<Rightarrow> ftask \<Rightarrow> order \<Rightarrow> string \<Rightarrow> string \<Rightarrow> mongo \<Rightarrow> mongo" where
  "write_task_queued cfg now corr t ord stream msg_id m =
     (if \<not> fs_mongo_enabled cfg then m
      else case insert_one ''task_events''
             [(''event_type'', JStr ''TaskQueued''),
              (''task_id'', JStr (uuid_str (ft_id t))),
              (''order_id'', JStr (uuid_str (ft_order_id t))),
              (''kitchen_id'', JStr (uuid_str (o_kitchen_id ord))),
              (''station_type'', JStr (ft_station_type t)),
              (''payload'', JObj
                 [(''stream'', JStr stream), (''redis_message_id'', JStr msg_id),
                  (''operation'', JStr (ft_operation t)),
                  (''estimated_duration_seconds'', JInt (ft_duration t))]),
              (''correlation_id'', jopt JStr corr),
              (''service'', JStr (fs_service_name cfg)),
              (''created_at'', JIso now)] m of
           (None, m1) \<Rightarrow> m1
         | (Some err, m1) \<Rightarrow>
             creation_audit cfg now corr ''MongoEventWriteFailed''
               [(''collection'', JStr ''task_events''), (''event_type'', JStr ''TaskQueued''), (''error'', JStr err)]
               (Some (ft_order_id t)) (Some (ft_id t)) (Some (o_kitchen_id ord)) m1)"

section \<open>Events of task transitions\<close>

definition task_event_doc ::
    "fsettings \<Rightarrow> pydatetime \<Rightarrow> string option \<Rightarrow> string \<Rightarrow> ftask \<Rightarrow> order \<Rightarrow> jdoc \<Rightarrow> jdoc" where
  "task_event_doc cfg at0 corr ty t ord payload =
     [(''event_type'', JStr ty),
      (''task_id'', JStr (uuid_str (ft_id t))),
      (''order_id'', JStr (uuid_str (ft_order_id t))),
      (''kitchen_id'', JStr (uuid_str (o_kitchen_id ord))),
      (''station_type'', JStr (ft_station_type t)),
      (''station_id'', jopt (\<lambda>u. JStr (uuid_str u)) (ft_station_id t)),
      (''kds_task_id'', jopt (\<lambda>u. JStr (uuid_str u)) (ft_kds_task_id t)),
      (''payload'', JObj payload),
      (''correlation_id'', jopt JStr corr),
      (''service'', JStr (fs_service_name cfg)),
      (''created_at'', JIso at0)]"

definition transition_audit ::
    "fsettings \<Rightarrow> pydatetime \<Rightarrow> string option \<Rightarrow> string \<Rightarrow> ftask \<Rightarrow> order \<Rightarrow> jdoc \<Rightarrow> mongo \<Rightarrow> mongo" where
  "transition_audit cfg now corr ty t ord payload m =
     (if \<not> fs_mongo_enabled cfg then m
      else snd (insert_one ''app_audit_events'' (task_event_doc cfg now corr ty t ord payload) m))"

definition write_task_event ::
    "fsettings \<Rightarrow> pydatetime \<Rightarrow> string option \<Rightarrow> string \<Rightarrow> ftask \<Rightarrow> order \<Rightarrow> jdoc \<Rightarrow> pydatetime option \<Rightarrow> mongo \<Rightarrow> mongo" where
  "write_task_event cfg now corr ty t ord payload created_at m =
     (if \<not> fs_mongo_enabled cfg then m
      else case insert_one ''task_events''
             (task_event_doc cfg (case created_at of None \<Rightarrow> now | Some d \<Rightarrow> d) corr ty t ord payload) m of
           (None, m1) \<Rightarrow> m1
         | (Some err, m1) \<Rightarrow>
             transition_audit cfg now corr ''MongoEventWriteFailed'' t ord
               [(''collection'', JStr ''task_events''), (''event_type'', JStr ty), (''error'', JStr err)] m1)"

definition write_ft_displayed where
  "write_ft_displayed cfg now corr t ord dispatcher =
     write_task_event cfg now corr ''TaskDisplayed'' t ord [(''dispatcher_id'', JStr dispatcher)] (ft_displayed_at t)"

definition write_ft_started where
  "write_ft_started cfg now corr t ord worker =
     write_task_event cfg now corr ''TaskStarted'' t ord
       [(''station_worker_id'', JStr worker), (''started_at'', jopt JIso (ft_started_at t)),
        (''sla_deadline_at'', jopt JIso (ft_sla_deadline_at t))] (ft_started_at t)"

definition write_ft_completed where
  "write_ft_completed cfg now corr t ord worker =
     write_task_event cfg now corr ''TaskCompleted'' t ord
       [(''station_worker_id'', JStr worker), (''completed_at'', jopt JIso (ft_completed_at t)),
        (''actual_duration_seconds'', jopt JInt (ft_actual_duration t)),
        (''delay_seconds'', jopt JInt (ft_delay t))] (ft_completed_at t)"

definition write_ft_dispatch_failed where
  "write_ft_dispatch_failed cfg now corr t ord reason dispatcher m =
     (let payload = [(''reason'', JStr reason), (''dispatcher_id'', JStr dispatcher), (''attempts'', JInt (ft_attempts t))]
      in transition_audit cfg now corr ''DispatchFailed'' t ord payload
           (write_task_event cfg now corr ''TaskDispatchFailed'' t ord payload None m))"

definition write_order_ready ::
    "fsettings \<Rightarrow> pydatetime \<Rightarrow> string option \<Rightarrow> order \<Rightarrow> int \<Rightarrow> mongo \<Rightarrow> mongo" where
  "write_order_ready cfg now corr ord n m =
     (if \<not> fs_mongo_enabled cfg then m
      else case insert_one ''order_events''
             [(''event_type'', JStr ''OrderReadyForPickup''),
              (''order_id'', JStr (uuid_str (o_id ord))),
              (''kitchen_id'', JStr (uuid_str (o_kitchen_id ord))),
              (''payload'', JObj [(''completed_tasks_count'', JInt n)]),
              (''correlation_id'', jopt JStr corr),
              (''service'', JStr (fs_service_name cfg)),
              (''created_at'', JIso now)] m of
           (None, m1) \<Rightarrow> m1
         | (Some err, m1) \<Rightarrow>
             snd (insert_one ''app_audit_events''
               [(''event_type'', JStr ''MongoEventWriteFailed''),
                (''task_id'', JNull),
                (''order_id'', JStr (uuid_str (o_id ord))),
                (''kitchen_id'', JStr (uuid_str (o_kitchen_id ord))),
                (''station_type'', JNull), (''station_id'', JNull), (''kds_task_id'', JNull),
                (''payload'', JObj
                   [(''collection'', JStr ''order_events''), (''event_type'', JStr ''OrderReadyForPickup''),
                    (''error'', JStr err), (''order_id'', JStr (uuid_str (o_id ord))),
                    (''kitchen_id'', JStr (uuid_str (o_kitchen_id ord)))]),
                (''correlation_id'', jopt JStr corr),
                (''service'', JStr (fs_service_name cfg)),
                (''created_at'', JIso now)] m1))"

text \<open>The writers of both kinds as one event sink.\<close>

datatype ful_event =
    Ev_order string order jdoc
  | Ev_queued ftask order string string
  | Ev_task string ftask order jdoc "pydatetime option"
  | Ev_ready order int
  | Ev_audit string ftask order jdoc

fun emit_ful :: "fsettings \<Rightarrow> pydatetime \<Rightarrow> string option \<Rightarrow> ful_event \<Rightarrow> mongo \<Rightarrow> mongo" where
  "emit_ful cfg now corr (Ev_order ty ord pl) m = write_order_event cfg now corr ty ord pl m"
| "emit_ful cfg now corr (Ev_queued t ord s i) m = write_task_queued cfg now corr t ord s i m"
| "emit_ful cfg now corr (Ev_task ty t ord pl at0) m = write_task_event cfg now corr ty t ord pl at0 m"
| "emit_ful cfg now corr (Ev_ready ord n) m = write_order_ready cfg now corr ord n m"
| "emit_ful cfg now corr (Ev_audit ty t ord pl) m = transition_audit cfg now corr ty t ord pl m"

lemma insert_one_snd_extends: "mongo_extends m (snd (insert_one c d m))"
  by (metis insert_one_extends prod.collapse)

lemma insert_one_step: "insert_one c d m = (r, m1) \<Longrightarrow> mongo_extends m1 m2 \<Longrightarrow> mongo_extends m m2"
  by (blast intro: mongo_extends_trans insert_one_extends)

lemma audit_extends:
  "mongo_extends m (creation_audit cfg now corr ty pl a b c m)"
  "mongo_extends m (transition_audit cfg now corr ty t ord pl m)"
  by (simp_all add: creation_audit_def transition_audit_def insert_one_snd_extends)

interpretation ful_writer: event_sink "emit_ful cfg now corr"
proof unfold_locales
  fix m :: mongo and ev :: ful_event
  show "mongo_extends m (emit_ful cfg now corr ev m)"
    by (cases ev)
      (auto simp: write_order_event_def write_task_queued_def write_task_event_def write_order_ready_def audit_extends
        split: prod.split option.split intro: insert_one_extends insert_one_step insert_one_snd_extends audit_extends)
qed

end
