(* ===== verification/Fulfillment_Orders.thy ===== *)
theory Fulfillment_Orders
  imports Fulfillment_Gateways
begin

text \<open>
  Fulfillment service: \<open>OrderCreationService\<close> of \<open>app/services.py\<close> and the statements of
  \<open>app/repositories.py\<close> it uses. Creation runs in two transactions with the publishing to
  Redis in between; each part is a definition of its own.
\<close>

section \<open>The world and the environment\<close>

record fworld =
  fw_db :: fdb
  fw_mongo :: mongo
  fw_metrics :: metrics
  fw_redis :: redis

record fenv =
  fe_now :: pydatetime
  fe_db_now :: pydatetime
  fe_ids :: "nat \<Rightarrow> uuid"

record upstream =
  up_kitchen :: "uuid \<Rightarrow> kitchen_snapshot option http_result"
  up_menu :: "uuid \<Rightarrow> menu_item_snapshot list option http_result"
  up_recipe :: "nat \<Rightarrow> uuid \<Rightarrow> recipe option http_result"

section \<open>Before the order is stored\<close>

definition menu_item_names :: "menu_item_snapshot list \<Rightarrow> uuid \<rightharpoonup> string" where
  "menu_item_names menu = map_of (rev (map (\<lambda>m. (ms_id m, ms_name m)) menu))"

definition available_ids :: "menu_item_snapshot list \<Rightarrow> uuid list" where
  "available_ids menu = map ms_id (filter (\<lambda>m. ms_status m = ''active'' \<and> ms_is_available m) menu)"

fun fetch_recipes ::
    "(nat \<Rightarrow> uuid \<Rightarrow> recipe option http_result) \<Rightarrow> uuid list \<Rightarrow> nat \<Rightarrow> item_create list \<Rightarrow> (uuid \<rightharpoonup> recipe)
      \<Rightarrow> f_error + (uuid \<rightharpoonup> recipe)" where
  "fetch_recipes remote avail n [] recipes = Inr recipes"
| "fetch_recipes remote avail n (i # is) recipes =
     (if ic_menu_item_id i \<notin> set avail then Inl MenuItemNotAvailableError
      else case client_get_recipe (remote n (ic_menu_item_id i)) of
             Inl e \<Rightarrow> Inl e
           | Inr r \<Rightarrow>
               if rc_steps r = [] then Inl RecipeStepsNotFoundError
               else fetch_recipes remote avail (Suc n) is (recipes(ic_menu_item_id i \<mapsto> r)))"

definition order_checks ::
    "upstream \<Rightarrow> order_create \<Rightarrow> f_error + ((uuid \<rightharpoonup> recipe) \<times> (uuid \<rightharpoonup> string))" where
  "order_checks up p =
     (case client_get_kitchen (up_kitchen up (oc_kitchen_id p)) of
        Inl e \<Rightarrow> Inl e
      | Inr _ \<Rightarrow>
          (case client_get_menu (up_menu up (oc_kitchen_id p)) of
             Inl e \<Rightarrow> Inl e
           | Inr menu \<Rightarrow>
               (case fetch_recipes (up_recipe up) (available_ids menu) 0 (oc_items p) Map.empty of
                  Inl e \<Rightarrow> Inl e
                | Inr recipes \<Rightarrow> Inr (recipes, menu_item_names menu))))"

section \<open>The first transaction\<close>

definition new_order :: "fenv \<Rightarrow> order_create \<Rightarrow> order" where
  "new_order env p =
     \<lparr>o_id = fe_ids env 0, o_kitchen_id = oc_kitchen_id p, o_status = Ord_created,
      o_pickup_deadline = oc_pickup_deadline p, o_created_at = fe_db_now env, o_updated_at = fe_db_now env\<rparr>"

text \<open>The row stores the instant of the deadline; the object keeps the value of the request.\<close>

definition order_row :: "order \<Rightarrow> order" where
  "order_row r = r\<lparr>o_pickup_deadline := map_option pg_timestamptz (o_pickup_deadline r)\<rparr>"

fun new_items :: "fenv \<Rightarrow> uuid \<Rightarrow> nat \<Rightarrow> item_create list \<Rightarrow> order_item list" where
  "new_items env oid n [] = []"
| "new_items env oid n (i # is) =
     \<lparr>oi_id = fe_ids env n, oi_order_id = oid, oi_menu_item_id = ic_menu_item_id i,
      oi_quantity = ic_quantity i, oi_created_at = fe_db_now env, oi_updated_at = fe_db_now env\<rparr>
     # new_items env oid (Suc n) is"

record stored_order =
  so_order :: order
  so_items :: "order_item list"
  so_tasks :: "ftask list"
  so_deps :: "tdep list"

definition store_order :: "fenv \<Rightarrow> order_create \<Rightarrow> (uuid \<rightharpoonup> recipe) \<Rightarrow> fdb \<Rightarrow> f_error + (stored_order \<times> fdb)" where
  "store_order env p recipes db =
     (let ord = new_order env p; items = new_items env (o_id ord) 1 (oc_items p)
      in case insert_order (order_row ord) db of
           Inl e \<Rightarrow> Inl (FDatabaseError e)
         | Inr db1 \<Rightarrow>
             (case insert_all insert_item items db1 of
                Inl e \<Rightarrow> Inl (FDatabaseError e)
              | Inr db2 \<Rightarrow>
                  (case build_items (fe_ids env) (fe_db_now env) (o_id ord) recipes (Suc (length items)) items of
                     None \<Rightarrow> Inl FKeyError
                   | Some (tasks, deps) \<Rightarrow>
                       (case insert_all insert_ftask tasks db2 of
                          Inl e \<Rightarrow> Inl (FDatabaseError e)
                        | Inr db3 \<Rightarrow>
                            (case insert_all insert_tdep deps db3 of
                               Inl e \<Rightarrow> Inl (FDatabaseError e)
                             | Inr db4 \<Rightarrow>
                                 Inr (\<lparr>so_order = ord, so_items = items, so_tasks = tasks, so_deps = deps\<rparr>, db4))))))"

section \<open>Publishing and queueing\<close>

fun publish_all ::
    "fsettings \<Rightarrow> string option \<Rightarrow> order \<Rightarrow> (uuid \<rightharpoonup> string) \<Rightarrow> ftask list \<Rightarrow> redis
      \<Rightarrow> (f_error + (ftask \<times> string \<times> string) list) \<times> redis" where
  "publish_all cfg corr ord names [] rd = (Inr [], rd)"
| "publish_all cfg corr ord names (t # ts) rd =
     (case publish_task cfg corr t ord (names (ft_menu_item_id t)) rd of
        (Inl e, rd1) \<Rightarrow> (Inl e, rd1)
      | (Inr (stream, i), rd1) \<Rightarrow>
          (case publish_all cfg corr ord names ts rd1 of
             (Inl e, rd2) \<Rightarrow> (Inl e, rd2)
           | (Inr ps, rd2) \<Rightarrow> (Inr ((t, stream, i) # ps), rd2)))"

definition queued_row :: "pydatetime \<Rightarrow> pydatetime \<Rightarrow> string \<Rightarrow> string \<Rightarrow> ftask \<Rightarrow> ftask" where
  "queued_row queued_at now stream i t =
     t\<lparr>ft_status := Tk_queued, ft_attempts := 1, ft_queued_at := Some queued_at,
       ft_redis_stream := Some stream, ft_redis_message_id := Some i, ft_updated_at := now\<rparr>"

fun mark_tasks_queued :: "fenv \<Rightarrow> (ftask \<times> string \<times> string) list \<Rightarrow> fdb \<Rightarrow> db_error + fdb" where
  "mark_tasks_queued env [] db = Inr db"
| "mark_tasks_queued env ((t, stream, i) # ps) db =
     (if \<not> (pg_text 255 stream \<and> pg_text 128 i) then Inl DataError
      else mark_tasks_queued env ps
             (upd_ftask (ft_id t) (queued_row (fe_now env) (fe_db_now env) stream i) db))"

definition task_labels :: "ftask \<Rightarrow> order \<Rightarrow> string list" where
  "task_labels t ord = [uuid_str (o_kitchen_id ord), ft_station_type t]"

fun note_queued ::
    "fsettings \<Rightarrow> fenv \<Rightarrow> string option \<Rightarrow> order \<Rightarrow> (ftask \<times> string \<times> string) list \<Rightarrow> metrics \<times> mongo \<Rightarrow> metrics \<times> mongo" where
  "note_queued cfg env corr ord [] st = st"
| "note_queued cfg env corr ord ((t, stream, i) # ps) (mt, m) =
     note_queued cfg env corr ord ps
       (inc_counter ''tasks_queued_total'' (task_labels t ord) mt,
        write_task_queued cfg (fe_now env) corr t ord stream i m)"

definition publish_and_queue ::
    "fsettings \<Rightarrow> fenv \<Rightarrow> string option \<Rightarrow> order \<Rightarrow> ftask list \<Rightarrow> (uuid \<rightharpoonup> string) \<Rightarrow> fworld \<Rightarrow> (f_error + nat) \<times> fworld" where
  "publish_and_queue cfg env corr ord tasks names w =
     (if \<not> fs_redis_publish_enabled cfg then (Inr 0, w)
      else case publish_all cfg corr ord names tasks (fw_redis w) of
             (Inl e, rd) \<Rightarrow> (Inl e, w\<lparr>fw_redis := rd\<rparr>)
           | (Inr ps, rd) \<Rightarrow>
               (case mark_tasks_queued env ps (fw_db w) of
                  Inl e \<Rightarrow> (Inl (FDatabaseError e), w\<lparr>fw_redis := rd\<rparr>)
                | Inr db \<Rightarrow>
                    (let (mt, m) = note_queued cfg env corr ord ps (fw_metrics w, fw_mongo w)
                     in (Inr (length ps),
                         w\<lparr>fw_redis := rd, fw_db := db, fw_metrics := mt, fw_mongo := m\<rparr>))))"

section \<open>create_order\<close>

record order_created =
  oq_order :: order
  oq_items :: "order_item list"
  oq_tasks_count :: nat
  oq_queued_count :: nat

text \<open>The first commit, with the counter and the two events that follow it.\<close>

definition order_stored ::
    "fsettings \<Rightarrow> fenv \<Rightarrow> string option \<Rightarrow> stored_order \<Rightarrow> fdb \<Rightarrow> fworld \<Rightarrow> fworld" where
  "order_stored cfg env corr so db w =
     (let ord = so_order so; n = length (so_tasks so)
      in w\<lparr>fw_db := db,
           fw_metrics := inc_counter ''orders_created_total'' [uuid_str (o_kitchen_id ord)] (fw_metrics w),
           fw_mongo := write_kitchen_tasks_created cfg (fe_now env) corr ord n
             (write_order_created cfg (fe_now env) corr ord n (fw_mongo w))\<rparr>)"

definition create_order ::
    "fsettings \<Rightarrow> upstream \<Rightarrow> fenv \<Rightarrow> string option \<Rightarrow> order_create \<Rightarrow> fworld \<Rightarrow> (f_error + order_created) \<times> fworld" where
  "create_order cfg up env corr p w =
     (case order_checks up p of
        Inl e \<Rightarrow> (Inl e, w)
      | Inr (recipes, names) \<Rightarrow>
          (case store_order env p recipes (fw_db w) of
             Inl e \<Rightarrow> (Inl e, w)
           | Inr (so, db) \<Rightarrow>
               (case publish_and_queue cfg env corr (so_order so) (so_tasks so) names (order_stored cfg env corr so db w) of
                  (Inl e, w1) \<Rightarrow> (Inl e, w1)
                | (Inr q, w1) \<Rightarrow>
                    (Inr \<lparr>oq_order = so_order so, oq_items = so_items so,
                          oq_tasks_count = length (so_tasks so), oq_queued_count = q\<rparr>, w1))))"

section \<open>Reading orders\<close>

definition f_get_order :: "uuid \<Rightarrow> fworld \<Rightarrow> f_error + (order \<times> order_item list)" where
  "f_get_order oid w =
     (case get_order_row (fw_db w) oid of
        None \<Rightarrow> Inl OrderNotFoundError
      | Some r \<Rightarrow> Inr (r, filter (\<lambda>i. oi_order_id i = oid) (f_items (fw_db w))))"

text \<open>\<open>ORDER BY order_item_id, item_unit_index, recipe_step_order\<close>\<close>

definition list_by_order :: "fdb \<Rightarrow> uuid \<Rightarrow> ftask list" where
  "list_by_order db oid =
     sort_key ft_order_item_id (sort_key ft_unit_index (sort_key ft_step_order
       (filter (\<lambda>t. ft_order_id t = oid) (f_tasks db))))"

record task_read =
  tr_task :: ftask
  tr_depends_on :: "uuid list"

definition list_order_tasks :: "uuid \<Rightarrow> fworld \<Rightarrow> f_error + task_read list" where
  "list_order_tasks oid w =
     (case f_get_order oid w of
        Inl e \<Rightarrow> Inl e
      | Inr _ \<Rightarrow>
          Inr (map (\<lambda>t. \<lparr>tr_task = t,
                tr_depends_on = map td_depends_on (filter (\<lambda>d. td_task d = ft_id t) (f_deps (fw_db w)))\<rparr>)
              (list_by_order (fw_db w) oid)))"

end
