(* ===== verification/Fulfillment_Transitions.thy ===== *)
theory Fulfillment_Transitions
  imports Fulfillment_Orders
begin

text \<open>
  Fulfillment service: \<open>TaskTransitionService\<close> of \<open>app/services.py\<close>. A handler loads the task
  and its order under the task's row lock, checks the transition, writes the task (and the
  order's status) and commits; events and metrics follow the commit. The completion is split
  at its commit, so that the concurrency theory can place other requests in between.
\<close>

section \<open>Loading and checking\<close>

definition load_task :: "fdb \<Rightarrow> uuid \<Rightarrow> (ftask \<times> order) option" where
  "load_task db tid =
     (case get_ftask_row db tid of
        None \<Rightarrow> None
      | Some t \<Rightarrow> (case get_order_row db (ft_order_id t) of None \<Rightarrow> None | Some r \<Rightarrow> Some (t, r)))"

definition require_transition :: "task_status \<Rightarrow> task_status \<Rightarrow> f_error option" where
  "require_transition current target =
     (if \<not> can_transition current target then Some (InvalidTaskStatusTransitionError current target) else None)"

definition validate_same_station_and_kds :: "ftask \<Rightarrow> uuid \<Rightarrow> uuid \<Rightarrow> f_error option \<Rightarrow> f_error option" where
  "validate_same_station_and_kds t sid kid already =
     (if ft_station_id t \<noteq> Some sid
      then Some (case already of Some e \<Rightarrow> e | None \<Rightarrow> StationMismatchError)
      else if ft_kds_task_id t \<noteq> Some kid
      then Some (case already of Some e \<Rightarrow> e | None \<Rightarrow> KdsTaskMismatchError)
      else None)"

definition as_utc :: "pydatetime option \<Rightarrow> pydatetime option" where
  "as_utc v =
     (case v of
        None \<Rightarrow> None
      | Some d \<Rightarrow>
          (case dt_off d of
             None \<Rightarrow> Some (d\<lparr>dt_off := Some 0\<rparr>)
           | Some off \<Rightarrow> Some \<lparr>dt_us = dt_us d - off, dt_off = Some 0\<rparr>))"

lemma as_utc_instant: "as_utc (Some d) = Some (dt_utc (dt_instant d))"
  by (cases d) (auto simp: as_utc_def dt_utc_def dt_instant_def split: option.splits)

lemma as_utc_simps [simp]:
  "as_utc None = None" "as_utc v = None \<longleftrightarrow> v = None" "as_utc (Some (pg_timestamptz d)) = Some (pg_timestamptz d)"
  by (cases v) (simp_all add: as_utc_def pg_timestamptz_def dt_utc_def split: option.split)

text \<open>The row of a task object: the timestamp columns keep the instants.\<close>

definition ftask_row :: "ftask \<Rightarrow> ftask" where
  "ftask_row t =
     t\<lparr>ft_displayed_at := map_option pg_timestamptz (ft_displayed_at t),
       ft_started_at := map_option pg_timestamptz (ft_started_at t),
       ft_sla_deadline_at := map_option pg_timestamptz (ft_sla_deadline_at t),
       ft_completed_at := map_option pg_timestamptz (ft_completed_at t)\<rparr>"

lemma ftask_row_simps [simp]:
  "ft_id (ftask_row t) = ft_id t" "ft_order_id (ftask_row t) = ft_order_id t"
  "ft_status (ftask_row t) = ft_status t" "ft_station_id (ftask_row t) = ft_station_id t"
  "ft_kds_task_id (ftask_row t) = ft_kds_task_id t" "ft_attempts (ftask_row t) = ft_attempts t"
  "ft_duration (ftask_row t) = ft_duration t" "ft_station_type (ftask_row t) = ft_station_type t"
  "ft_actual_duration (ftask_row t) = ft_actual_duration t" "ft_delay (ftask_row t) = ft_delay t"
  by (simp_all add: ftask_row_def)

definition save_task :: "pydatetime \<Rightarrow> ftask \<Rightarrow> fdb \<Rightarrow> fdb" where
  "save_task now t db = upd_ftask (ft_id t) (\<lambda>_. (ftask_row t)\<lparr>ft_updated_at := now\<rparr>) db"

definition set_order_status :: "pydatetime \<Rightarrow> order \<Rightarrow> order_status \<Rightarrow> fdb \<Rightarrow> fdb" where
  "set_order_status now r st db =
     (if o_status r = st then db
      else upd_order (o_id r) (\<lambda>x. x\<lparr>o_status := st, o_updated_at := now\<rparr>) db)"

section \<open>Snapshots and readiness\<close>

record task_snapshot =
  sn_task_id :: uuid
  sn_order_id :: uuid
  sn_kitchen_id :: uuid
  sn_menu_item_id :: uuid
  sn_station_type :: string
  sn_station_id :: "uuid option"
  sn_kds_task_id :: "uuid option"
  sn_operation :: string
  sn_status :: task_status
  sn_duration :: int
  sn_pickup_deadline :: "pydatetime option"
  sn_attempts :: int
  sn_displayed_at :: "pydatetime option"
  sn_started_at :: "pydatetime option"
  sn_sla_deadline_at :: "pydatetime option"
  sn_completed_at :: "pydatetime option"
  sn_actual_duration :: "int option"
  sn_delay :: "int option"

definition snapshot :: "ftask \<Rightarrow> order \<Rightarrow> task_snapshot" where
  "snapshot t r =
     \<lparr>sn_task_id = ft_id t, sn_order_id = ft_order_id t, sn_kitchen_id = o_kitchen_id r,
      sn_menu_item_id = ft_menu_item_id t, sn_station_type = ft_station_type t,
      sn_station_id = ft_station_id t, sn_kds_task_id = ft_kds_task_id t,
      sn_operation = ft_operation t, sn_status = ft_status t, sn_duration = ft_duration t,
      sn_pickup_deadline = as_utc (o_pickup_deadline r), sn_attempts = ft_attempts t,
      sn_displayed_at = as_utc (ft_displayed_at t), sn_started_at = as_utc (ft_started_at t),
      sn_sla_deadline_at = as_utc (ft_sla_deadline_at t), sn_completed_at = as_utc (ft_completed_at t),
      sn_actual_duration = ft_actual_duration t, sn_delay = ft_delay t\<rparr>"

definition get_snapshot :: "uuid \<Rightarrow> fworld \<Rightarrow> f_error + task_snapshot" where
  "get_snapshot tid w =
     (case load_task (fw_db w) tid of None \<Rightarrow> Inl TaskNotFoundError | Some (t, r) \<Rightarrow> Inr (snapshot t r))"

definition unfinished_dependencies :: "fdb \<Rightarrow> uuid \<Rightarrow> uuid list" where
  "unfinished_dependencies db tid =
     sort (map td_depends_on (filter (\<lambda>d. td_task d = tid
        \<and> (case get_ftask_row db (td_depends_on d) of None \<Rightarrow> False | Some t \<Rightarrow> ft_status t \<noteq> Tk_done)) (f_deps db)))"

record readiness =
  rn_task_id :: uuid
  rn_ready :: bool
  rn_waiting_for :: "uuid list"
  rn_reason :: "string option"

definition dispatch_readiness :: "uuid \<Rightarrow> fworld \<Rightarrow> f_error + readiness" where
  "dispatch_readiness tid w =
     (case load_task (fw_db w) tid of
        None \<Rightarrow> Inl TaskNotFoundError
      | Some (t, _) \<Rightarrow>
          if ft_status t \<noteq> Tk_queued \<and> ft_status t \<noteq> Tk_retrying
          then Inr \<lparr>rn_task_id = ft_id t, rn_ready = False, rn_waiting_for = [],
                    rn_reason = Some ''task_status_not_dispatchable''\<rparr>
          else (let wf = unfinished_dependencies (fw_db w) (ft_id t)
                in Inr \<lparr>rn_task_id = ft_id t, rn_ready = (length wf = 0), rn_waiting_for = wf,
                        rn_reason = (if wf = [] then None else Some ''waiting_for_dependencies'')\<rparr>))"

section \<open>mark_displayed\<close>

record displayed_response =
  dy_task_id :: uuid
  dy_status :: task_status
  dy_station_id :: "uuid option"
  dy_kds_task_id :: "uuid option"
  dy_displayed_at :: "pydatetime option"

definition mark_displayed_response :: "ftask \<Rightarrow> displayed_response" where
  "mark_displayed_response t =
     \<lparr>dy_task_id = ft_id t, dy_status = ft_status t, dy_station_id = ft_station_id t,
      dy_kds_task_id = ft_kds_task_id t, dy_displayed_at = as_utc (ft_displayed_at t)\<rparr>"

definition displayed_task :: "displayed_request \<Rightarrow> ftask \<Rightarrow> ftask" where
  "displayed_task p t =
     t\<lparr>ft_station_id := Some (md_station_id p), ft_kds_task_id := Some (md_kds_task_id p),
       ft_displayed_at := Some (md_displayed_at p), ft_status := Tk_displayed\<rparr>"

definition mark_displayed ::
    "fsettings \<Rightarrow> fenv \<Rightarrow> string option \<Rightarrow> uuid \<Rightarrow> displayed_request \<Rightarrow> fworld
      \<Rightarrow> (f_error + displayed_response) \<times> fworld" where
  "mark_displayed cfg env corr tid p w =
     (case load_task (fw_db w) tid of
        None \<Rightarrow> (Inl TaskNotFoundError, w)
      | Some (t, r) \<Rightarrow>
          if ft_status t = Tk_displayed
          then (case validate_same_station_and_kds t (md_station_id p) (md_kds_task_id p) (Some TaskAlreadyDisplayedError) of
                  Some e \<Rightarrow> (Inl e, w)
                | None \<Rightarrow> (Inr (mark_displayed_response t), w))
          else (case require_transition (ft_status t) Tk_displayed of
                  Some e \<Rightarrow> (Inl e, w)
                | None \<Rightarrow>
                    (let t1 = displayed_task p t
                     in (Inr (mark_displayed_response t1),
                         w\<lparr>fw_db := save_task (fe_db_now env) t1 (fw_db w),
                           fw_metrics := inc_counter ''tasks_displayed_total'' (task_labels t1 r) (fw_metrics w),
                           fw_mongo := write_ft_displayed cfg (fe_now env) corr t1 r (md_dispatcher_id p) (fw_mongo w)\<rparr>))))"

section \<open>start_task\<close>

record start_response =
  ss_task_id :: uuid
  ss_status :: task_status
  ss_station_id :: "uuid option"
  ss_kds_task_id :: "uuid option"
  ss_started_at :: "pydatetime option"
  ss_sla_deadline_at :: "pydatetime option"

definition start_response_of :: "ftask \<Rightarrow> start_response" where
  "start_response_of t =
     \<lparr>ss_task_id = ft_id t, ss_status = ft_status t, ss_station_id = ft_station_id t,
      ss_kds_task_id = ft_kds_task_id t, ss_started_at = as_utc (ft_started_at t),
      ss_sla_deadline_at = as_utc (ft_sla_deadline_at t)\<rparr>"

definition started_task :: "start_request \<Rightarrow> pydatetime \<Rightarrow> ftask \<Rightarrow> ftask" where
  "started_task p sla t =
     t\<lparr>ft_started_at := Some (sq_started_at p), ft_sla_deadline_at := Some sla, ft_status := Tk_in_progress\<rparr>"

definition start_task ::
    "fsettings \<Rightarrow> fenv \<Rightarrow> string option \<Rightarrow> uuid \<Rightarrow> start_request \<Rightarrow> fworld
      \<Rightarrow> (f_error + start_response) \<times> fworld" where
  "start_task cfg env corr tid p w =
     (case load_task (fw_db w) tid of
        None \<Rightarrow> (Inl TaskNotFoundError, w)
      | Some (t, r) \<Rightarrow>
          if ft_status t = Tk_in_progress
          then (case validate_same_station_and_kds t (sq_station_id p) (sq_kds_task_id p) (Some TaskAlreadyStartedError) of
                  Some e \<Rightarrow> (Inl e, w)
                | None \<Rightarrow> (Inr (start_response_of t), w))
          else (case require_transition (ft_status t) Tk_in_progress of
                  Some e \<Rightarrow> (Inl e, w)
                | None \<Rightarrow>
                    (case validate_same_station_and_kds t (sq_station_id p) (sq_kds_task_id p) None of
                       Some e \<Rightarrow> (Inl e, w)
                     | None \<Rightarrow>
                         (case dt_add_seconds (sq_started_at p) (ft_duration t) of
                            None \<Rightarrow> (Inl FOverflowError, w)
                          | Some sla \<Rightarrow>
                              (let t1 = started_task p sla t
                               in (Inr (start_response_of t1),
                                   w\<lparr>fw_db := set_order_status (fe_db_now env) r Ord_cooking
                                                (save_task (fe_db_now env) t1 (fw_db w)),
                                     fw_metrics := inc_counter ''tasks_started_total'' (task_labels t1 r) (fw_metrics w),
                                     fw_mongo := write_ft_started cfg (fe_now env) corr t1 r (sq_worker p) (fw_mongo w)\<rparr>))))))"

section \<open>complete_task\<close>

record finish_response =
  fr_task_id :: uuid
  fr_status :: task_status
  fr_station_id :: "uuid option"
  fr_kds_task_id :: "uuid option"
  fr_started_at :: "pydatetime option"
  fr_completed_at :: "pydatetime option"
  fr_actual_duration :: "int option"
  fr_delay :: "int option"

definition complete_response_of :: "ftask \<Rightarrow> finish_response" where
  "complete_response_of t =
     \<lparr>fr_task_id = ft_id t, fr_status = ft_status t, fr_station_id = ft_station_id t,
      fr_kds_task_id = ft_kds_task_id t, fr_started_at = as_utc (ft_started_at t),
      fr_completed_at = as_utc (ft_completed_at t), fr_actual_duration = ft_actual_duration t,
      fr_delay = ft_delay t\<rparr>"

definition all_order_tasks_done :: "fdb \<Rightarrow> uuid \<Rightarrow> bool" where
  "all_order_tasks_done db oid =
     (count_rows (\<lambda>t. ft_order_id t = oid \<and> ft_status t \<noteq> Tk_done) (f_tasks db) = 0)"

definition completed_order_tasks_count :: "fdb \<Rightarrow> uuid \<Rightarrow> nat" where
  "completed_order_tasks_count db oid =
     count_rows (\<lambda>t. ft_order_id t = oid \<and> ft_status t = Tk_done) (f_tasks db)"

definition finished_task :: "pydatetime \<Rightarrow> pydatetime \<Rightarrow> pydatetime option \<Rightarrow> ftask \<Rightarrow> ftask" where
  "finished_task completed started sla t =
     t\<lparr>ft_completed_at := Some completed,
       ft_actual_duration := Some (int_total_seconds (dt_instant completed - dt_instant started)),
       ft_delay := Some (case sla of None \<Rightarrow> 0
                         | Some s \<Rightarrow> max 0 (int_total_seconds (dt_instant completed - dt_instant s))),
       ft_status := Tk_done\<rparr>"

text \<open>
  What the transaction has decided when it comes to its commit: the task as completed, its
  order, and what the count of unfinished tasks has shown.
\<close>

record completion =
  cm_task :: ftask
  cm_order :: order
  cm_ready :: bool
  cm_count :: nat

definition complete_prepare :: "fenv \<Rightarrow> uuid \<Rightarrow> finish_request \<Rightarrow> fdb \<Rightarrow> f_error + (ftask + completion)" where
  "complete_prepare env tid p db =
     (case load_task db tid of
        None \<Rightarrow> Inl TaskNotFoundError
      | Some (t, r) \<Rightarrow>
          if ft_status t = Tk_done
          then (case validate_same_station_and_kds t (fq_station_id p) (fq_kds_task_id p) (Some TaskAlreadyCompletedError) of
                  Some e \<Rightarrow> Inl e
                | None \<Rightarrow> Inr (Inl t))
          else (case require_transition (ft_status t) Tk_done of
                  Some e \<Rightarrow> Inl e
                | None \<Rightarrow>
                    (case validate_same_station_and_kds t (fq_station_id p) (fq_kds_task_id p) None of
                       Some e \<Rightarrow> Inl e
                     | None \<Rightarrow>
                         (case (as_utc (ft_started_at t), as_utc (Some (fq_completed_at p))) of
                            (Some started, Some completed) \<Rightarrow>
                              if dt_instant completed < dt_instant started then Inl InvalidCompletionTimeError
                              else
                                (let t1 = finished_task completed started (as_utc (ft_sla_deadline_at t)) t
                                 in if \<not> ftask_fits t1 then Inl (FDatabaseError DataError)
                                    else
                                      (let db1 = save_task (fe_db_now env) t1 db;
                                           ready = all_order_tasks_done db1 (ft_order_id t1)
                                       in Inr (Inr \<lparr>cm_task = t1, cm_order = r, cm_ready = ready,
                                                    cm_count = (if ready then completed_order_tasks_count db1 (ft_order_id t1) else 0)\<rparr>)))
                          | _ \<Rightarrow> Inl InvalidCompletionTimeError))))"

definition complete_apply :: "fenv \<Rightarrow> completion \<Rightarrow> fdb \<Rightarrow> fdb" where
  "complete_apply env c db =
     (let db1 = save_task (fe_db_now env) (cm_task c) db
      in if cm_ready c then set_order_status (fe_db_now env) (cm_order c) Ord_ready_for_pickup db1 else db1)"

definition complete_effects ::
    "fsettings \<Rightarrow> fenv \<Rightarrow> string option \<Rightarrow> finish_request \<Rightarrow> completion \<Rightarrow> fworld \<Rightarrow> fworld" where
  "complete_effects cfg env corr p c w =
     (let t = cm_task c; r = cm_order c; ls = task_labels t r;
          mt1 = inc_counter ''tasks_completed_total'' ls (fw_metrics w);
          mt2 = observe_hist ''task_actual_duration_seconds'' ls (case ft_actual_duration t of None \<Rightarrow> 0 | Some n \<Rightarrow> real_of_int n) mt1;
          mt3 = observe_hist ''task_delay_seconds'' ls (case ft_delay t of None \<Rightarrow> 0 | Some n \<Rightarrow> real_of_int n) mt2;
          mt4 = (if cm_ready c then inc_counter ''orders_ready_total'' [uuid_str (o_kitchen_id r)] mt3 else mt3);
          m1 = write_ft_completed cfg (fe_now env) corr t r (fq_worker p) (fw_mongo w);
          m2 = (if cm_ready c then write_order_ready cfg (fe_now env) corr r (int (cm_count c)) m1 else m1)
      in w\<lparr>fw_metrics := mt4, fw_mongo := m2\<rparr>)"

definition f_complete_task ::
    "fsettings \<Rightarrow> fenv \<Rightarrow> string option \<Rightarrow> uuid \<Rightarrow> finish_request \<Rightarrow> fworld
      \<Rightarrow> (f_error + finish_response) \<times> fworld" where
  "f_complete_task cfg env corr tid p w =
     (case complete_prepare env tid p (fw_db w) of
        Inl e \<Rightarrow> (Inl e, w)
      | Inr (Inl t) \<Rightarrow> (Inr (complete_response_of t), w)
      | Inr (Inr c) \<Rightarrow>
          (Inr (complete_response_of (cm_task c)),
           complete_effects cfg env corr p c (w\<lparr>fw_db := complete_apply env c (fw_db w)\<rparr>)))"

section \<open>dispatch_failed\<close>

definition failed_task :: "int option \<Rightarrow> ftask \<Rightarrow> ftask" where
  "failed_task attempts t =
     (case attempts of
        None \<Rightarrow> t
      | Some n \<Rightarrow> if ft_attempts t < n then t\<lparr>ft_attempts := n\<rparr> else t)\<lparr>ft_status := Tk_failed\<rparr>"

definition dispatch_failed ::
    "fsettings \<Rightarrow> fenv \<Rightarrow> string option \<Rightarrow> uuid \<Rightarrow> dispatch_failed_request \<Rightarrow> fworld
      \<Rightarrow> (f_error + task_snapshot) \<times> fworld" where
  "dispatch_failed cfg env corr tid p w =
     (case load_task (fw_db w) tid of
        None \<Rightarrow> (Inl TaskNotFoundError, w)
      | Some (t, r) \<Rightarrow>
          if ft_status t = Tk_failed then (Inr (snapshot t r), w)
          else (case require_transition (ft_status t) Tk_failed of
                  Some e \<Rightarrow> (Inl e, w)
                | None \<Rightarrow>
                    (let t1 = failed_task (df_attempts p) t
                     in if \<not> ftask_fits t1 then (Inl (FDatabaseError DataError), w)
                        else (Inr (snapshot t1 r),
                          w\<lparr>fw_db := save_task (fe_db_now env) t1 (fw_db w),
                            fw_metrics := inc_counter ''tasks_failed_total'' (task_labels t1 r) (fw_metrics w),
                            fw_mongo := write_ft_dispatch_failed cfg (fe_now env) corr t1 r (df_reason p)
                              (df_dispatcher_id p) (fw_mongo w)\<rparr>))))"

end
