(* ===== verification/Fulfillment_Routes.thy ===== *)
theory Fulfillment_Routes
  imports Fulfillment_Transitions
begin

text \<open>
  Fulfillment service: the routes of \<open>app/api/routes.py\<close> and the exception handlers of
  \<open>app/errors.py\<close>. The framework parses the UUID of a path; its parser is the argument
  \<open>puuid\<close>.
\<close>

section \<open>Errors as replies\<close>

fun f_error_message :: "f_error \<Rightarrow> string" where
  "f_error_message OrderNotFoundError = ''Order not found''"
| "f_error_message TaskNotFoundError = ''Task not found''"
| "f_error_message (InvalidTaskStatusTransitionError a b) =
     ''Cannot transition task from '' @ task_status_str a @ '' to '' @ task_status_str b"
| "f_error_message TaskAlreadyDisplayedError = ''Task is already displayed''"
| "f_error_message TaskAlreadyStartedError = ''Task is already started''"
| "f_error_message TaskAlreadyCompletedError = ''Task is already completed''"
| "f_error_message StationMismatchError = ''Station does not match task''"
| "f_error_message KdsTaskMismatchError = ''KDS task does not match task''"
| "f_error_message InvalidCompletionTimeError = ''Completion time cannot be before start time''"
| "f_error_message KitchenNotFoundError = ''Kitchen not found''"
| "f_error_message KitchenNotActiveError = ''Kitchen is not active''"
| "f_error_message KitchenServiceUnavailableError = ''Kitchen Service is unavailable''"
| "f_error_message MenuItemNotFoundError = ''Menu item not found''"
| "f_error_message MenuItemNotAvailableError = ''Menu item is not available for this kitchen''"
| "f_error_message RecipeStepsNotFoundError = ''Menu item has no recipe steps''"
| "f_error_message MenuServiceUnavailableError = ''Menu Service is unavailable''"
| "f_error_message TaskPublishFailedError = ''Task publish failed''"
| "f_error_message _ = ''Internal error''"

definition f_error_details :: "f_error \<Rightarrow> jdoc" where
  "f_error_details e =
     (case e of
        InvalidTaskStatusTransitionError a b \<Rightarrow>
          [(''current_status'', JStr (task_status_str a)), (''target_status'', JStr (task_status_str b))]
      | _ \<Rightarrow> [])"

definition f_handled :: "f_error \<Rightarrow> bool" where
  "f_handled e = (case e of FDatabaseError _ \<Rightarrow> False | FOverflowError \<Rightarrow> False | FKeyError \<Rightarrow> False | _ \<Rightarrow> True)"

definition f_error_reply :: "f_error \<Rightarrow> 'b reply" where
  "f_error_reply e =
     (if \<not> f_handled e then Server_error
      else Error_reply (f_status_code e)
        [(''error'', JStr (f_error_code e)), (''message'', JStr (f_error_message e)),
         (''details'', JObj (f_error_details e))])"

definition f_reply :: "nat \<Rightarrow> ('a \<Rightarrow> bool) \<Rightarrow> f_error + 'a \<Rightarrow> 'a reply" where
  "f_reply code valid r =
     (case r of Inl e \<Rightarrow> f_error_reply e | Inr a \<Rightarrow> if valid a then Reply code a else Server_error)"

text \<open>The response schemas: the fields that may not be null.\<close>

definition displayed_response_ok :: "displayed_response \<Rightarrow> bool" where
  "displayed_response_ok x =
     (dy_station_id x \<noteq> None \<and> dy_kds_task_id x \<noteq> None \<and> dy_displayed_at x \<noteq> None)"

definition start_response_ok :: "start_response \<Rightarrow> bool" where
  "start_response_ok x =
     (ss_station_id x \<noteq> None \<and> ss_kds_task_id x \<noteq> None \<and> ss_started_at x \<noteq> None \<and> ss_sla_deadline_at x \<noteq> None)"

definition finish_response_ok :: "finish_response \<Rightarrow> bool" where
  "finish_response_ok x =
     (fr_station_id x \<noteq> None \<and> fr_kds_task_id x \<noteq> None \<and> fr_started_at x \<noteq> None \<and> fr_completed_at x \<noteq> None
      \<and> fr_actual_duration x \<noteq> None \<and> fr_delay x \<noteq> None)"

section \<open>Order routes\<close>

definition route_create_order ::
    "fsettings \<Rightarrow> upstream \<Rightarrow> fenv \<Rightarrow> string option \<Rightarrow> order_create \<Rightarrow> fworld \<Rightarrow> order_created reply \<times> fworld" where
  "route_create_order cfg up env corr p w =
     (if \<not> valid_order_create p then (Unprocessable, w)
      else apfst (f_reply 201 (\<lambda>_. True)) (create_order cfg up env corr p w))"

definition route_get_order :: "(string \<Rightarrow> uuid option) \<Rightarrow> string \<Rightarrow> fworld \<Rightarrow> (order \<times> order_item list) reply" where
  "route_get_order puuid oid w =
     (case puuid oid of None \<Rightarrow> Unprocessable | Some i \<Rightarrow> f_reply 200 (\<lambda>_. True) (f_get_order i w))"

definition route_list_order_tasks :: "(string \<Rightarrow> uuid option) \<Rightarrow> string \<Rightarrow> fworld \<Rightarrow> task_read list reply" where
  "route_list_order_tasks puuid oid w =
     (case puuid oid of None \<Rightarrow> Unprocessable | Some i \<Rightarrow> f_reply 200 (\<lambda>_. True) (list_order_tasks i w))"

section \<open>Task routes\<close>

definition route_snapshot :: "(string \<Rightarrow> uuid option) \<Rightarrow> string \<Rightarrow> fworld \<Rightarrow> task_snapshot reply" where
  "route_snapshot puuid tid w =
     (case puuid tid of None \<Rightarrow> Unprocessable | Some i \<Rightarrow> f_reply 200 (\<lambda>_. True) (get_snapshot i w))"

definition route_readiness :: "(string \<Rightarrow> uuid option) \<Rightarrow> string \<Rightarrow> fworld \<Rightarrow> readiness reply" where
  "route_readiness puuid tid w =
     (case puuid tid of None \<Rightarrow> Unprocessable | Some i \<Rightarrow> f_reply 200 (\<lambda>_. True) (dispatch_readiness i w))"

definition route_mark_displayed ::
    "(string \<Rightarrow> uuid option) \<Rightarrow> fsettings \<Rightarrow> fenv \<Rightarrow> string option \<Rightarrow> string \<Rightarrow> displayed_request \<Rightarrow> fworld
      \<Rightarrow> displayed_response reply \<times> fworld" where
  "route_mark_displayed puuid cfg env corr tid p w =
     (case puuid tid of
        None \<Rightarrow> (Unprocessable, w)
      | Some i \<Rightarrow>
          if \<not> valid_displayed p then (Unprocessable, w)
          else apfst (f_reply 200 displayed_response_ok) (mark_displayed cfg env corr i p w))"

definition route_start ::
    "(string \<Rightarrow> uuid option) \<Rightarrow> fsettings \<Rightarrow> fenv \<Rightarrow> string option \<Rightarrow> string \<Rightarrow> start_request \<Rightarrow> fworld
      \<Rightarrow> start_response reply \<times> fworld" where
  "route_start puuid cfg env corr tid p w =
     (case puuid tid of
        None \<Rightarrow> (Unprocessable, w)
      | Some i \<Rightarrow>
          if \<not> valid_start p then (Unprocessable, w)
          else apfst (f_reply 200 start_response_ok) (start_task cfg env corr i p w))"

definition route_finish ::
    "(string \<Rightarrow> uuid option) \<Rightarrow> fsettings \<Rightarrow> fenv \<Rightarrow> string option \<Rightarrow> string \<Rightarrow> finish_request \<Rightarrow> fworld
      \<Rightarrow> finish_response reply \<times> fworld" where
  "route_finish puuid cfg env corr tid p w =
     (case puuid tid of
        None \<Rightarrow> (Unprocessable, w)
      | Some i \<Rightarrow>
          if \<not> valid_finish p then (Unprocessable, w)
          else apfst (f_reply 200 finish_response_ok) (f_complete_task cfg env corr i p w))"

definition route_dispatch_failed ::
    "(string \<Rightarrow> uuid option) \<Rightarrow> fsettings \<Rightarrow> fenv \<Rightarrow> string option \<Rightarrow> string \<Rightarrow> dispatch_failed_request \<Rightarrow> fworld
      \<Rightarrow> task_snapshot reply \<times> fworld" where
  "route_dispatch_failed puuid cfg env corr tid p w =
     (case puuid tid of
        None \<Rightarrow> (Unprocessable, w)
      | Some i \<Rightarrow>
          if \<not> valid_dispatch_failed p then (Unprocessable, w)
          else apfst (f_reply 200 (\<lambda>_. True)) (dispatch_failed cfg env corr i p w))"

end
