(* ===== verification/Fulfillment_Invariants.thy ===== *)
theory Fulfillment_Invariants
  imports Fulfillment_Routes
begin

text \<open>
  Fulfillment service: the invariant of the tables, and that the writes of every handler keep
  it. \<open>ftask_ok\<close> says which columns a status implies and how the two durations of a finished
  task come about; \<open>ready_ok\<close> says that an order is ready for pickup exactly when it has tasks
  and all of them are done; \<open>deps_forward\<close> says that dependencies point back in the order of
  insertion, within one order.
\<close>

section \<open>Invariants\<close>

definition ftask_ok :: "ftask \<Rightarrow> bool" where
  "ftask_ok t =
     (ftask_checks t
      \<and> (ft_status t \<in> {Tk_displayed, Tk_in_progress, Tk_done} \<longrightarrow>
           ft_station_id t \<noteq> None \<and> ft_kds_task_id t \<noteq> None \<and> ft_displayed_at t \<noteq> None)
      \<and> (ft_status t \<in> {Tk_in_progress, Tk_done} \<longrightarrow>
           (\<exists>a s. ft_started_at t = Some a \<and> ft_sla_deadline_at t = Some s
              \<and> dt_instant s = dt_instant a + ft_duration t * 1000000))
      \<and> (ft_status t = Tk_done \<longrightarrow>
           (\<exists>a c. ft_started_at t = Some a \<and> ft_completed_at t = Some c \<and> dt_instant a \<le> dt_instant c
              \<and> ft_actual_duration t = Some ((dt_instant c - dt_instant a) div 1000000)
              \<and> ft_delay t = Some (max 0 ((dt_instant c - dt_instant a) div 1000000 - ft_duration t)))))"

definition fdb_ok :: "fdb \<Rightarrow> bool" where
  "fdb_ok db =
     (distinct (map o_id (f_orders db)) \<and> distinct (map ft_id (f_tasks db))
      \<and> (\<forall>t \<in> set (f_tasks db). ftask_ok t \<and> ft_order_id t \<in> o_id ` set (f_orders db)))"

definition unfinished :: "fdb \<Rightarrow> uuid \<Rightarrow> nat" where
  "unfinished db oid = count_rows (\<lambda>t. ft_order_id t = oid \<and> ft_status t \<noteq> Tk_done) (f_tasks db)"

definition has_tasks :: "fdb \<Rightarrow> uuid \<Rightarrow> bool" where
  "has_tasks db oid = (\<exists>t \<in> set (f_tasks db). ft_order_id t = oid)"

definition ready_ok :: "fdb \<Rightarrow> bool" where
  "ready_ok db = (\<forall>r \<in> set (f_orders db).
     o_status r = Ord_ready_for_pickup \<longleftrightarrow> has_tasks db (o_id r) \<and> unfinished db (o_id r) = 0)"

definition dep_forward :: "ftask list \<Rightarrow> tdep \<Rightarrow> bool" where
  "dep_forward ts d = (\<exists>i j. i < j \<and> j < length ts \<and> ft_id (ts ! i) = td_depends_on d
     \<and> ft_id (ts ! j) = td_task d \<and> ft_order_id (ts ! i) = ft_order_id (ts ! j))"

definition deps_forward :: "fdb \<Rightarrow> bool" where
  "deps_forward db = (\<forall>d \<in> set (f_deps db). dep_forward (f_tasks db) d)"

lemma all_done_unfinished: "all_order_tasks_done db oid \<longleftrightarrow> unfinished db oid = 0"
  by (simp add: all_order_tasks_done_def unfinished_def)

lemma fdb_okD:
  assumes "fdb_ok db"
  shows "distinct (map o_id (f_orders db))" "distinct (map ft_id (f_tasks db))"
    "t \<in> set (f_tasks db) \<Longrightarrow> ftask_ok t" "t \<in> set (f_tasks db) \<Longrightarrow> ft_order_id t \<in> o_id ` set (f_orders db)"
  using assms by (auto simp: fdb_ok_def)

lemma load_task_SomeD:
  assumes "load_task db tid = Some (t, r)"
  shows "get_ftask_row db tid = Some t" "ft_id t = tid" "t \<in> set (f_tasks db)"
    "get_order_row db (ft_order_id t) = Some r" "o_id r = ft_order_id t" "r \<in> set (f_orders db)"
  using assms
  by (auto simp: load_task_def split: option.splits
      dest: ftask_tab.get_key ftask_tab.get_member order_tab.get_key order_tab.get_member)

lemma load_task_total: "fdb_ok db \<Longrightarrow> get_ftask_row db tid = Some t \<Longrightarrow> \<exists>r. load_task db tid = Some (t, r)"
  using fdb_okD(1,4) [of db] ftask_tab.get_member [of db tid t] order_tab.member_get [of db]
  by (fastforce simp: load_task_def)

section \<open>Saving a task\<close>

definition saved_row :: "pydatetime \<Rightarrow> ftask \<Rightarrow> ftask" where
  "saved_row now t = (ftask_row t)\<lparr>ft_updated_at := now\<rparr>"

lemma f_tasks_save_task: "f_tasks (save_task now t db) = update_row ft_id (ft_id t) (\<lambda>_. saved_row now t) (f_tasks db)"
  by (simp add: save_task_def upd_ftask_def saved_row_def)

lemma save_task_frame [simp]:
  "f_orders (save_task now t db) = f_orders db" "f_items (save_task now t db) = f_items db"
  "f_deps (save_task now t db) = f_deps db"
  by (simp_all add: save_task_def)

lemma set_order_status_frame [simp]:
  "f_tasks (set_order_status now r st db) = f_tasks db" "f_items (set_order_status now r st db) = f_items db"
  "f_deps (set_order_status now r st db) = f_deps db"
  by (simp_all add: set_order_status_def)

lemma saved_row_simps [simp]:
  "ft_id (saved_row now t) = ft_id t" "ft_order_id (saved_row now t) = ft_order_id t"
  "ft_status (saved_row now t) = ft_status t" "ft_station_id (saved_row now t) = ft_station_id t"
  "ft_kds_task_id (saved_row now t) = ft_kds_task_id t"
  by (simp_all add: saved_row_def)

lemma saved_row_ok: "ftask_ok (saved_row now t) = ftask_ok t"
  by (cases "ft_started_at t"; cases "ft_completed_at t"; cases "ft_sla_deadline_at t")
    (auto simp: saved_row_def ftask_row_def ftask_ok_def ftask_checks_def pg_timestamptz_def)

lemma get_save_task:
  "get_ftask_row db (ft_id t) \<noteq> None \<Longrightarrow>
     get_ftask_row (save_task now t db) tid = (if tid = ft_id t then Some (saved_row now t) else get_ftask_row db tid)"
  unfolding get_ftask_row_def f_tasks_save_task by (rule find_row_update_const) simp_all

lemma count_save_task:
  assumes ok: "fdb_ok db" and row: "get_ftask_row db (ft_id t) = Some t0"
  shows "count_rows P (f_tasks (save_task now t db)) + of_bool (P t0) = count_rows P (f_tasks db) + of_bool (P (saved_row now t))"
  using count_rows_update [OF fdb_okD(2) [OF ok] row [unfolded get_ftask_row_def], of P "\<lambda>_. saved_row now t"]
  by (simp add: f_tasks_save_task)

lemma save_task_columns:
  assumes row: "get_ftask_row db (ft_id t) = Some t0" and ok: "fdb_ok db" and same: "ft_order_id t = ft_order_id t0"
  shows "map ft_id (f_tasks (save_task now t db)) = map ft_id (f_tasks db)"
    "map ft_order_id (f_tasks (save_task now t db)) = map ft_order_id (f_tasks db)"
proof -
  have "find_row ft_id (ft_id t) (f_tasks db) = Some t0" using row by (simp add: get_ftask_row_def)
  note u = map_update_row_id [OF fdb_okD(2) [OF ok] this]
  show "map ft_id (f_tasks (save_task now t db)) = map ft_id (f_tasks db)"
    using ftask_tab.get_key [OF row] by (simp add: f_tasks_save_task u)
  show "map ft_order_id (f_tasks (save_task now t db)) = map ft_order_id (f_tasks db)"
    by (simp add: f_tasks_save_task u same)
qed

lemma fdb_ok_save_task:
  assumes ok: "fdb_ok db" and row: "get_ftask_row db (ft_id t) = Some t0" and same: "ft_order_id t = ft_order_id t0"
    and t: "ftask_ok t"
  shows "fdb_ok (save_task now t db)"
proof -
  have "x \<in> set (f_tasks (save_task now t db)) \<Longrightarrow> x = saved_row now t \<or> x \<in> set (f_tasks db)" for x
    by (auto simp: f_tasks_save_task update_row_def)
  moreover have "ft_order_id t \<in> o_id ` set (f_orders db)"
    using fdb_okD(4) [OF ok ftask_tab.get_member [OF row]] same by simp
  ultimately show ?thesis
    using ok t save_task_columns(1) [OF row ok same, of now] unfolding fdb_ok_def
    by (metis saved_row_ok saved_row_simps(2) save_task_frame(1))
qed

lemma has_tasks_save_task:
  assumes "get_ftask_row db (ft_id t) = Some t0" and "fdb_ok db" and "ft_order_id t = ft_order_id t0"
  shows "has_tasks (save_task now t db) oid = has_tasks db oid"
proof -
  have "oid \<in> set (map ft_order_id (f_tasks (save_task now t db))) \<longleftrightarrow> oid \<in> set (map ft_order_id (f_tasks db))"
    by (simp only: save_task_columns(2) [OF assms])
  then show ?thesis by (auto simp: has_tasks_def)
qed

lemma unfinished_save_task:
  assumes "fdb_ok db" and "get_ftask_row db (ft_id t) = Some t0" and "ft_order_id t = ft_order_id t0"
  shows "unfinished (save_task now t db) oid + of_bool (ft_order_id t = oid \<and> ft_status t0 \<noteq> Tk_done)
     = unfinished db oid + of_bool (ft_order_id t = oid \<and> ft_status t \<noteq> Tk_done)"
  using count_save_task [OF assms(1,2), of "\<lambda>t. ft_order_id t = oid \<and> ft_status t \<noteq> Tk_done" now] assms(3)
  by (simp add: unfinished_def)

lemma unfinished_pos:
  "t \<in> set (f_tasks db) \<Longrightarrow> ft_status t \<noteq> Tk_done \<Longrightarrow> 0 < unfinished db (ft_order_id t)"
  unfolding unfinished_def by (rule count_rows_pos [of t]) auto

lemma deps_forward_save_task:
  assumes "deps_forward db" and "get_ftask_row db (ft_id t) = Some t0" and "fdb_ok db" and "ft_order_id t = ft_order_id t0"
  shows "deps_forward (save_task now t db)"
proof -
  let ?ts = "f_tasks db" and ?ts' = "f_tasks (save_task now t db)"
  have len: "length ?ts' = length ?ts" by (simp add: f_tasks_save_task)
  have cols: "ft_id (?ts' ! i) = ft_id (?ts ! i) \<and> ft_order_id (?ts' ! i) = ft_order_id (?ts ! i)"
    if "i < length ?ts" for i
    using that len save_task_columns [OF assms(2-4), of now] by (metis nth_map)
  have "dep_forward ?ts' d" if d: "dep_forward ?ts d" for d
  proof -
    from d obtain i j where "i < j" "j < length ?ts" "ft_id (?ts ! i) = td_depends_on d"
      "ft_id (?ts ! j) = td_task d" "ft_order_id (?ts ! i) = ft_order_id (?ts ! j)" by (auto simp: dep_forward_def)
    with cols [of i] cols [of j] len show ?thesis
      unfolding dep_forward_def by (intro exI [of _ i] exI [of _ j]) simp
  qed
  with assms(1) show ?thesis by (simp add: deps_forward_def)
qed

end
