(* ===== verification/Fulfillment_Storage.thy ===== *)
theory Fulfillment_Storage
  imports Fulfillment_Invariants
begin

text \<open>
  Fulfillment service: the two transactions of order creation on the tables. A stored order
  consists of fresh rows, its tasks are the chains the builder makes, and its dependencies
  point back within a chain; the second transaction marks exactly the published tasks queued.
\<close>

section \<open>Insertions\<close>

lemma insert_order_Inr:
  "insert_order r db = Inr db' \<longleftrightarrow> o_id r \<notin> o_id ` set (f_orders db) \<and> db' = db\<lparr>f_orders := f_orders db @ [r]\<rparr>"
  by (auto simp: insert_order_def image_iff split: if_splits) metis

lemma insert_all_items:
  "insert_all insert_item is db = Inr db' \<Longrightarrow> db' = db\<lparr>f_items := f_items db @ is\<rparr>"
proof (induction "is" arbitrary: db)
  case Nil
  then show ?case by simp
next
  case (Cons i "is")
  then obtain db1 where "insert_item i db = Inr db1" "insert_all insert_item is db1 = Inr db'"
    by (auto split: sum.splits)
  moreover have "db1 = db\<lparr>f_items := f_items db @ [i]\<rparr>"
    using calculation(1) by (auto simp: insert_item_def split: if_splits)
  ultimately show ?case using Cons.IH [of db1] by simp
qed

lemma insert_all_ftasks:
  assumes "insert_all insert_ftask ts db = Inr db'"
  shows "db' = db\<lparr>f_tasks := f_tasks db @ ts\<rparr>"
    "distinct (map ft_id (f_tasks db)) \<Longrightarrow> distinct (map ft_id (f_tasks db @ ts))"
    "\<forall>t \<in> set ts. ftask_fits t \<and> ftask_checks t \<and> ft_order_id t \<in> o_id ` set (f_orders db)"
proof -
  have "db' = db\<lparr>f_tasks := f_tasks db @ ts\<rparr>
     \<and> (distinct (map ft_id (f_tasks db)) \<longrightarrow> distinct (map ft_id (f_tasks db @ ts)))
     \<and> (\<forall>t \<in> set ts. ftask_fits t \<and> ftask_checks t \<and> ft_order_id t \<in> o_id ` set (f_orders db))"
    using assms
  proof (induction ts arbitrary: db)
    case Nil
    then show ?case by simp
  next
    case (Cons t ts)
    then obtain db1 where one: "insert_ftask t db = Inr db1" and rest: "insert_all insert_ftask ts db1 = Inr db'"
      by (auto split: sum.splits)
    have "ftask_fits t \<and> ftask_checks t \<and> ft_id t \<notin> ft_id ` set (f_tasks db) \<and> ft_order_id t \<in> o_id ` set (f_orders db)
        \<and> db1 = db\<lparr>f_tasks := f_tasks db @ [t]\<rparr>"
      using one by (auto simp: insert_ftask_def image_iff split: if_splits) (metis)+
    with Cons.IH [OF rest] show ?case by auto
  qed
  then show "db' = db\<lparr>f_tasks := f_tasks db @ ts\<rparr>"
    "distinct (map ft_id (f_tasks db)) \<Longrightarrow> distinct (map ft_id (f_tasks db @ ts))"
    "\<forall>t \<in> set ts. ftask_fits t \<and> ftask_checks t \<and> ft_order_id t \<in> o_id ` set (f_orders db)"
    by auto
qed

lemma insert_all_deps:
  "insert_all insert_tdep ds db = Inr db' \<Longrightarrow> db' = db\<lparr>f_deps := f_deps db @ ds\<rparr>"
proof (induction ds arbitrary: db)
  case Nil
  then show ?case by simp
next
  case (Cons d ds)
  then obtain db1 where "insert_tdep d db = Inr db1" "insert_all insert_tdep ds db1 = Inr db'"
    by (auto split: sum.splits)
  moreover have "db1 = db\<lparr>f_deps := f_deps db @ [d]\<rparr>"
    using calculation(1) by (auto simp: insert_tdep_def split: if_splits)
  ultimately show ?case using Cons.IH [of db1] by simp
qed

lemma new_items_columns:
  "length (new_items env oid n is) = length is"
  "\<forall>it \<in> set (new_items env oid n is). oi_order_id it = oid"
  "oi_menu_item_id ` set (new_items env oid n is) = ic_menu_item_id ` set is"
  by (induction "is" arbitrary: n) auto

section \<open>What a stored order consists of\<close>

lemma store_order_Inr:
  assumes run: "store_order env p recipes db = Inr (so, db')"
    and known: "\<forall>i \<in> set (oc_items p). recipes (ic_menu_item_id i) \<noteq> None"
  obtains "so_order so = new_order env p" "so_items so = new_items env (o_id (new_order env p)) (Suc 0) (oc_items p)"
    "db' = \<lparr>f_orders = f_orders db @ [order_row (so_order so)], f_items = f_items db @ so_items so,
            f_tasks = f_tasks db @ so_tasks so, f_deps = f_deps db @ so_deps so\<rparr>"
    "o_id (so_order so) \<notin> o_id ` set (f_orders db)"
    "so_tasks so = concat (order_chains (fe_ids env) (fe_db_now env) (o_id (so_order so)) recipes
        (Suc (length (so_items so))) (so_items so))"
    "so_deps so = concat (map chain_deps (order_chains (fe_ids env) (fe_db_now env) (o_id (so_order so)) recipes
        (Suc (length (so_items so))) (so_items so)))"
    "distinct (map ft_id (f_tasks db)) \<Longrightarrow> distinct (map ft_id (f_tasks db @ so_tasks so))"
    "\<forall>t \<in> set (so_tasks so). ftask_fits t \<and> ftask_checks t"
proof -
  let ?ord = "new_order env p" and ?items = "new_items env (o_id (new_order env p)) (Suc 0) (oc_items p)"
  let ?chains = "order_chains (fe_ids env) (fe_db_now env) (o_id ?ord) recipes (Suc (length ?items)) ?items"
  have "\<forall>it \<in> set ?items. recipes (oi_menu_item_id it) \<noteq> None"
  proof
    fix it assume "it \<in> set ?items"
    then have "oi_menu_item_id it \<in> ic_menu_item_id ` set (oc_items p)"
      using new_items_columns(3) [of env "o_id ?ord" "Suc 0" "oc_items p"] by blast
    with known show "recipes (oi_menu_item_id it) \<noteq> None" by auto
  qed
  from build_items_chains [OF this]
  have built: "build_items (fe_ids env) (fe_db_now env) (o_id ?ord) recipes (Suc (length ?items)) ?items
      = Some (concat ?chains, concat (map chain_deps ?chains))" .
  obtain db1 where 1: "insert_order (order_row ?ord) db = Inr db1"
    using run by (auto simp: store_order_def Let_def split: sum.splits)
  obtain db2 where 2: "insert_all insert_item ?items db1 = Inr db2"
    using run by (auto simp: store_order_def Let_def 1 split: sum.splits)
  obtain db3 where 3: "insert_all insert_ftask (concat ?chains) db2 = Inr db3"
    using run by (auto simp: store_order_def Let_def 1 2 built split: sum.splits)
  obtain db4 where 4: "insert_all insert_tdep (concat (map chain_deps ?chains)) db3 = Inr db4"
    using run by (auto simp: store_order_def Let_def 1 2 3 built split: sum.splits)
  have so: "so = \<lparr>so_order = ?ord, so_items = ?items, so_tasks = concat ?chains, so_deps = concat (map chain_deps ?chains)\<rparr>"
    "db' = db4"
    using run by (auto simp: store_order_def Let_def 1 2 3 4 built)
  note i1 = insert_order_Inr [THEN iffD1, OF 1] and i2 = insert_all_items [OF 2]
    and i3 = insert_all_ftasks [OF 3] and i4 = insert_all_deps [OF 4]
  show ?thesis
  proof (rule that)
    show "db' = \<lparr>f_orders = f_orders db @ [order_row (so_order so)], f_items = f_items db @ so_items so,
            f_tasks = f_tasks db @ so_tasks so, f_deps = f_deps db @ so_deps so\<rparr>"
      using i1 i2 i3(1) i4 by (simp add: so)
    show "distinct (map ft_id (f_tasks db)) \<Longrightarrow> distinct (map ft_id (f_tasks db @ so_tasks so))"
      using i1 i2 i3(2) by (simp add: so)
  qed (use i1 i3(3) in \<open>auto simp: so order_row_def\<close>)
qed

lemma order_chain_tasks:
  assumes "t \<in> set (concat (order_chains ids now oid recipes n its))"
  shows "ft_order_id t = oid" "ft_status t = Tk_created" "ft_attempts t = 0"
proof -
  obtain c where c: "c \<in> set (order_chains ids now oid recipes n its)" "t \<in> set c" using assms by auto
  obtain it u m steps where "c = unit_chain ids now oid it u m steps" using chain_members [OF c(1)] by metis
  with c(2) unit_chain_rows obtain k s where "t = new_task (ids k) now oid it u s" by blast
  then show "ft_order_id t = oid" "ft_status t = Tk_created" "ft_attempts t = 0" by (simp_all add: new_task_def)
qed

text \<open>Dependencies of a concatenation of chains point back.\<close>

lemma dep_forward_append: "dep_forward ts d \<Longrightarrow> dep_forward (ts @ us) d"
proof -
  assume "dep_forward ts d"
  then obtain i j where "i < j" "j < length ts" "ft_id (ts ! i) = td_depends_on d" "ft_id (ts ! j) = td_task d"
    "ft_order_id (ts ! i) = ft_order_id (ts ! j)" by (auto simp: dep_forward_def)
  then show ?thesis unfolding dep_forward_def by (intro exI [of _ i] exI [of _ j]) (simp add: nth_append)
qed

lemma dep_forward_prepend:
  assumes "dep_forward us d"
  shows "dep_forward (ts @ us) d"
proof -
  obtain i j where "i < j" "j < length us" "ft_id (us ! i) = td_depends_on d" "ft_id (us ! j) = td_task d"
    "ft_order_id (us ! i) = ft_order_id (us ! j)" using assms by (auto simp: dep_forward_def)
  then show ?thesis
    unfolding dep_forward_def by (intro exI [of _ "length ts + i"] exI [of _ "length ts + j"]) simp
qed

lemma chain_deps_forward:
  "\<forall>t \<in> set c. ft_order_id t = oid \<Longrightarrow> d \<in> set (chain_deps c) \<Longrightarrow> dep_forward c d"
proof (induction c rule: chain_deps.induct)
  case (1 a b ts)
  then consider "d = \<lparr>td_task = ft_id b, td_depends_on = ft_id a\<rparr>" | "d \<in> set (chain_deps (b # ts))" by auto
  then show ?case
  proof cases
    case 1
    then show ?thesis
      using "1.prems" unfolding dep_forward_def by (intro exI [of _ 0] exI [of _ 1]) simp
  next
    case 2
    with "1.IH" "1.prems" dep_forward_prepend [of "b # ts" d "[a]"] show ?thesis by simp
  qed
qed auto

lemma concat_deps_forward:
  "\<forall>c \<in> set cs. \<forall>t \<in> set c. ft_order_id t = oid \<Longrightarrow> d \<in> set (concat (map chain_deps cs)) \<Longrightarrow> dep_forward (concat cs) d"
proof (induction cs)
  case Nil
  then show ?case by simp
next
  case (Cons c cs)
  then consider "d \<in> set (chain_deps c)" | "d \<in> set (concat (map chain_deps cs))" by auto
  then show ?case
  proof cases
    case 1
    then show ?thesis using chain_deps_forward [of c oid d] Cons.prems dep_forward_append by auto
  next
    case 2
    then show ?thesis using Cons dep_forward_prepend by auto
  qed
qed

section \<open>Storing an order keeps the invariants\<close>

definition f_inv :: "fdb \<Rightarrow> bool" where
  "f_inv db = (fdb_ok db \<and> deps_forward db)"

lemma created_task_ok: "ftask_checks t \<Longrightarrow> ft_status t = Tk_created \<or> ft_status t = Tk_queued \<Longrightarrow> ftask_ok t"
  by (auto simp: ftask_ok_def)

lemma store_order_inv:
  assumes inv: "f_inv db" and run: "store_order env p recipes db = Inr (so, db')"
    and known: "\<forall>i \<in> set (oc_items p). recipes (ic_menu_item_id i) \<noteq> None"
  shows "f_inv db'"
proof (rule store_order_Inr [OF run known])
  let ?chains = "order_chains (fe_ids env) (fe_db_now env) (o_id (so_order so)) recipes
        (Suc (length (so_items so))) (so_items so)"
  assume db': "db' = \<lparr>f_orders = f_orders db @ [order_row (so_order so)], f_items = f_items db @ so_items so,
            f_tasks = f_tasks db @ so_tasks so, f_deps = f_deps db @ so_deps so\<rparr>"
    and fresh: "o_id (so_order so) \<notin> o_id ` set (f_orders db)"
    and tasks: "so_tasks so = concat ?chains" and deps: "so_deps so = concat (map chain_deps ?chains)"
    and dist: "distinct (map ft_id (f_tasks db)) \<Longrightarrow> distinct (map ft_id (f_tasks db @ so_tasks so))"
    and checks: "\<forall>t \<in> set (so_tasks so). ftask_fits t \<and> ftask_checks t"
  have new: "ft_order_id t = o_id (so_order so) \<and> ft_status t = Tk_created" if "t \<in> set (so_tasks so)" for t
    using that order_chain_tasks unfolding tasks by blast
  have "fdb_ok db'"
    using inv fresh dist checks new created_task_ok
    by (auto simp: f_inv_def fdb_ok_def db' order_row_def)
  moreover have "deps_forward db'"
  proof -
    have "dep_forward (concat ?chains) d" if "d \<in> set (so_deps so)" for d
      using that new unfolding deps tasks by (intro concat_deps_forward) auto
    then show ?thesis
      using inv dep_forward_append dep_forward_prepend
      by (auto simp: f_inv_def deps_forward_def db' tasks)
  qed
  ultimately show "f_inv db'" by (simp add: f_inv_def)
qed

end
