(* ===== verification/Fulfillment_Preservation.thy ===== *)
theory Fulfillment_Preservation
  imports Fulfillment_Storage
begin

text \<open>
  Fulfillment service: what each handler of \<open>TaskTransitionService\<close> does to the tables, and
  that it keeps the invariants.
\<close>

section \<open>Database effect of the handlers\<close>

lemma mark_displayed_db:
  assumes "mark_displayed cfg env corr tid p w = (res, w')"
  shows "fw_db w' = fw_db w
    \<or> (\<exists>t r. load_task (fw_db w) tid = Some (t, r) \<and> can_transition (ft_status t) Tk_displayed
        \<and> res = Inr (mark_displayed_response (displayed_task p t))
        \<and> fw_db w' = save_task (fe_db_now env) (displayed_task p t) (fw_db w))"
  using assms
  by (auto simp: mark_displayed_def require_transition_def Let_def split: option.splits if_splits)

lemma start_task_db:
  assumes "start_task cfg env corr tid p w = (res, w')"
  shows "fw_db w' = fw_db w
    \<or> (\<exists>t r sla. load_task (fw_db w) tid = Some (t, r) \<and> can_transition (ft_status t) Tk_in_progress
        \<and> ft_station_id t = Some (sq_station_id p) \<and> ft_kds_task_id t = Some (sq_kds_task_id p)
        \<and> dt_add_seconds (sq_started_at p) (ft_duration t) = Some sla
        \<and> res = Inr (start_response_of (started_task p sla t))
        \<and> fw_db w' = set_order_status (fe_db_now env) r Ord_cooking
             (save_task (fe_db_now env) (started_task p sla t) (fw_db w)))"
  using assms
  by (auto simp: start_task_def require_transition_def validate_same_station_and_kds_def Let_def
      split: option.splits if_splits)

lemma dispatch_failed_db:
  assumes "dispatch_failed cfg env corr tid p w = (res, w')"
  shows "fw_db w' = fw_db w
    \<or> (\<exists>t r. load_task (fw_db w) tid = Some (t, r) \<and> can_transition (ft_status t) Tk_failed
        \<and> fw_db w' = save_task (fe_db_now env) (failed_task (df_attempts p) t) (fw_db w))"
  using assms
  by (auto simp: dispatch_failed_def require_transition_def Let_def split: option.splits if_splits)

lemma complete_prepare_ok:
  assumes "complete_prepare env tid p db = Inr (Inr c)"
  obtains t r a where "load_task db tid = Some (t, r)" "can_transition (ft_status t) Tk_done"
    "ft_station_id t = Some (fq_station_id p)" "ft_kds_task_id t = Some (fq_kds_task_id p)"
    "ft_started_at t = Some a" "dt_instant a \<le> dt_instant (fq_completed_at p)"
    "cm_task c = finished_task (dt_utc (dt_instant (fq_completed_at p))) (dt_utc (dt_instant a)) (as_utc (ft_sla_deadline_at t)) t"
    "cm_order c = r" "ftask_fits (cm_task c)"
    "cm_ready c \<longleftrightarrow> unfinished (save_task (fe_db_now env) (cm_task c) db) (ft_order_id t) = 0"
    "cm_ready c \<Longrightarrow> cm_count c = completed_order_tasks_count (save_task (fe_db_now env) (cm_task c) db) (ft_order_id t)"
proof -
  obtain t r where load: "load_task db tid = Some (t, r)"
    using assms by (auto simp: complete_prepare_def split: option.splits)
  have st: "ft_status t = Tk_in_progress" "ft_station_id t = Some (fq_station_id p)" "ft_kds_task_id t = Some (fq_kds_task_id p)"
    using assms
    by (auto simp: complete_prepare_def load require_transition_def validate_same_station_and_kds_def split: if_splits)
  obtain a where a: "ft_started_at t = Some a"
    using assms st
    by (cases "ft_started_at t")
      (auto simp: complete_prepare_def load require_transition_def validate_same_station_and_kds_def)
  let ?t1 = "finished_task (dt_utc (dt_instant (fq_completed_at p))) (dt_utc (dt_instant a)) (as_utc (ft_sla_deadline_at t)) t"
  let ?db1 = "save_task (fe_db_now env) ?t1 db"
  have "dt_instant a \<le> dt_instant (fq_completed_at p) \<and> ftask_fits ?t1
    \<and> c = \<lparr>cm_task = ?t1, cm_order = r, cm_ready = all_order_tasks_done ?db1 (ft_order_id ?t1),
           cm_count = (if all_order_tasks_done ?db1 (ft_order_id ?t1) then completed_order_tasks_count ?db1 (ft_order_id ?t1) else 0)\<rparr>"
    using assms st a
    by (simp add: complete_prepare_def load require_transition_def validate_same_station_and_kds_def as_utc_instant
        Let_def split: if_splits)
  then show ?thesis
    using load st a by (intro that [of t r a]) (simp_all add: all_done_unfinished finished_task_def)
qed

section \<open>Writes that do not finish a task\<close>

lemma task_forms_ok:
  assumes "ftask_ok t"
  shows "ftask_ok (displayed_task p t)"
    "ft_station_id t \<noteq> None \<Longrightarrow> ft_kds_task_id t \<noteq> None \<Longrightarrow> ft_displayed_at t \<noteq> None \<Longrightarrow>
       dt_add_seconds (sq_started_at q) (ft_duration t) = Some sla \<Longrightarrow> ftask_ok (started_task q sla t)"
    "ftask_ok (failed_task n t)"
  using assms
  by (auto simp: ftask_ok_def ftask_checks_def displayed_task_def started_task_def failed_task_def
      dt_add_seconds_instant split: option.splits)

lemma task_forms_simps [simp]:
  "ft_id (displayed_task p t) = ft_id t" "ft_order_id (displayed_task p t) = ft_order_id t"
  "ft_status (displayed_task p t) = Tk_displayed"
  "ft_id (started_task q sla t) = ft_id t" "ft_order_id (started_task q sla t) = ft_order_id t"
  "ft_status (started_task q sla t) = Tk_in_progress"
  "ft_id (failed_task n t) = ft_id t" "ft_order_id (failed_task n t) = ft_order_id t"
  "ft_status (failed_task n t) = Tk_failed"
  "ft_id (finished_task c a s t) = ft_id t" "ft_order_id (finished_task c a s t) = ft_order_id t"
  "ft_status (finished_task c a s t) = Tk_done"
  by (auto simp: displayed_task_def started_task_def failed_task_def finished_task_def split: option.splits)

text \<open>
  What such a write leaves alone: the progress of every order, the readiness of orders, and
  every other row.
\<close>

definition same_progress :: "uuid \<Rightarrow> fdb \<Rightarrow> fdb \<Rightarrow> bool" where
  "same_progress tid db db' =
     ((\<forall>oid. unfinished db' oid = unfinished db oid \<and> has_tasks db' oid = has_tasks db oid)
      \<and> (\<forall>i. i \<noteq> tid \<longrightarrow> get_ftask_row db' i = get_ftask_row db i)
      \<and> (ready_ok db \<longrightarrow> ready_ok db'))"

lemma same_progress_refl [simp]: "same_progress tid db db"
  by (simp add: same_progress_def)

lemma orders_set_order_status:
  "f_orders (set_order_status now r st db) =
     (if o_status r = st then f_orders db
      else update_row o_id (o_id r) (\<lambda>x. x\<lparr>o_status := st, o_updated_at := now\<rparr>) (f_orders db))"
  by (simp add: set_order_status_def upd_order_def)

lemma f_inv_set_order_status: "f_inv db \<Longrightarrow> f_inv (set_order_status now r st db)"
proof -
  have "map o_id (f_orders (set_order_status now r st db)) = map o_id (f_orders db)"
    by (simp add: orders_set_order_status map_key_update_row [where g = o_id])
  then have "map o_id (f_orders (set_order_status now r st db)) = map o_id (f_orders db)"
    and "o_id ` set (f_orders (set_order_status now r st db)) = o_id ` set (f_orders db)"
    by (simp, metis list.set_map)
  then show "f_inv db \<Longrightarrow> f_inv (set_order_status now r st db)"
    by (simp add: f_inv_def fdb_ok_def deps_forward_def)
qed

lemma f_inv_save_task:
  "f_inv db \<Longrightarrow> get_ftask_row db (ft_id t) = Some t0 \<Longrightarrow> ft_order_id t = ft_order_id t0 \<Longrightarrow> ftask_ok t \<Longrightarrow>
     f_inv (save_task now t db)"
  by (simp add: f_inv_def fdb_ok_save_task deps_forward_save_task)

lemma progress_orders_eq:
  "f_tasks db' = f_tasks db \<Longrightarrow> unfinished db' oid = unfinished db oid \<and> has_tasks db' oid = has_tasks db oid"
  by (simp add: unfinished_def has_tasks_def)

lemma save_unfinished:
  assumes inv: "f_inv db" and load: "load_task db tid = Some (t, r)"
    and t1: "ft_id t1 = ft_id t" "ft_order_id t1 = ft_order_id t"
    and open_t: "ft_status t \<noteq> Tk_done" "ft_status t1 \<noteq> Tk_done"
  shows "same_progress tid db (save_task now t1 db)"
proof -
  note l = load_task_SomeD [OF load]
  have ok: "fdb_ok db" using inv by (simp add: f_inv_def)
  have row: "get_ftask_row db (ft_id t1) = Some t" using l t1 by simp
  have u: "unfinished (save_task now t1 db) oid = unfinished db oid" for oid
    using unfinished_save_task [OF ok row t1(2), of now oid] open_t by simp
  have h: "has_tasks (save_task now t1 db) oid = has_tasks db oid" for oid
    using has_tasks_save_task [OF row ok t1(2)] by simp
  have g: "get_ftask_row (save_task now t1 db) i = get_ftask_row db i" if "i \<noteq> tid" for i
    using get_save_task [of db t1 now i] row that l(2) t1 by simp
  show ?thesis using u h g by (simp add: same_progress_def ready_ok_def)
qed

lemma cook_unfinished:
  assumes inv: "f_inv db" and load: "load_task db tid = Some (t, r)"
    and t1: "ft_id t1 = ft_id t" "ft_order_id t1 = ft_order_id t"
    and open_t: "ft_status t \<noteq> Tk_done" "ft_status t1 \<noteq> Tk_done"
  shows "same_progress tid db (set_order_status now r Ord_cooking (save_task now t1 db))"
proof -
  let ?db1 = "save_task now t1 db" and ?db2 = "set_order_status now r Ord_cooking (save_task now t1 db)"
  note l = load_task_SomeD [OF load]
  have sp: "same_progress tid db ?db1" by (rule save_unfinished [OF assms])
  have p: "unfinished ?db2 oid = unfinished ?db1 oid \<and> has_tasks ?db2 oid = has_tasks ?db1 oid" for oid
    by (rule progress_orders_eq) simp
  have pos: "0 < unfinished ?db1 (o_id r)"
    using sp unfinished_pos [OF l(3) open_t(1)] l(5) by (simp add: same_progress_def)
  have "ready_ok ?db2" if "ready_ok ?db1"
    unfolding ready_ok_def
  proof
    fix x assume x: "x \<in> set (f_orders ?db2)"
    show "(o_status x = Ord_ready_for_pickup) = (has_tasks ?db2 (o_id x) \<and> unfinished ?db2 (o_id x) = 0)"
    proof (cases "o_status r = Ord_cooking")
      case True
      then show ?thesis using x that by (simp add: orders_set_order_status ready_ok_def p)
    next
      case False
      with x have "x \<in> set (update_row o_id (o_id r) (\<lambda>x. x\<lparr>o_status := Ord_cooking, o_updated_at := now\<rparr>) (f_orders ?db1))"
        by (simp add: orders_set_order_status)
      then show ?thesis
        by (rule set_update_rowE) (use that pos in \<open>auto simp: ready_ok_def p\<close>)
    qed
  qed
  moreover have "get_ftask_row ?db2 i = get_ftask_row ?db1 i" for i by (simp add: get_ftask_row_def)
  ultimately show ?thesis using sp by (auto simp: same_progress_def p)
qed

section \<open>The completing write\<close>

lemma finished_task_ok:
  assumes ok: "ftask_ok t" and st: "ft_status t = Tk_in_progress" and a: "ft_started_at t = Some a"
    and le: "dt_instant a \<le> dt_instant c"
  shows "ftask_ok (finished_task (dt_utc (dt_instant c)) (dt_utc (dt_instant a)) (as_utc (ft_sla_deadline_at t)) t)"
proof -
  obtain s where s: "ft_sla_deadline_at t = Some s" "dt_instant s = dt_instant a + ft_duration t * 1000000"
    using ok st a by (auto simp: ftask_ok_def)
  define us where "us = dt_instant c - dt_instant a"
  have us: "0 \<le> us" using le by (simp add: us_def)
  have delay: "max 0 (int_total_seconds (us - ft_duration t * 1000000)) = max 0 (us div 1000000 - ft_duration t)"
  proof (cases "0 \<le> us - ft_duration t * 1000000")
    case True
    then show ?thesis by (simp add: int_total_seconds_def)
  next
    case False
    then have "us div 1000000 < ft_duration t" by (simp add: div_less_iff_less_mult)
    moreover have "int_total_seconds (us - ft_duration t * 1000000) \<le> 0"
      using False by (simp add: int_total_seconds_def pos_imp_zdiv_nonneg_iff)
    ultimately show ?thesis by simp
  qed
  have "dt_instant c - dt_instant s = us - ft_duration t * 1000000" by (simp add: us_def s(2))
  then have fin: "finished_task (dt_utc (dt_instant c)) (dt_utc (dt_instant a)) (as_utc (ft_sla_deadline_at t)) t
      = t\<lparr>ft_completed_at := Some (dt_utc (dt_instant c)), ft_actual_duration := Some (us div 1000000),
          ft_delay := Some (max 0 (us div 1000000 - ft_duration t)), ft_status := Tk_done\<rparr>"
    using us by (simp add: finished_task_def s(1) as_utc_instant delay) (simp add: int_total_seconds_def us_def)
  show ?thesis
    unfolding fin using ok st a s le by (simp add: ftask_ok_def ftask_checks_def us_def)
qed

end
