(* ===== verification/Fulfillment_Concurrency.thy ===== *)
theory Fulfillment_Concurrency
  imports Fulfillment_Preservation
begin

text \<open>
  Fulfillment service: requests that run at the same time. A transition that does not finish a
  task is one step, since the row lock on its task covers all it reads and writes there. A
  completion reads the statuses of the other tasks of its order, which its lock does not
  cover; it is open between this count and its commit, and other requests commit in between
  (the isolation level is READ COMMITTED). \<open>lock_order\<close> says whether a completion also holds
  a lock on its order (\<open>OrderRepository.get_order_for_update\<close> exists for that; the code does
  not call it). An order whose first transaction has committed waits in \<open>fx_pub\<close> for its
  tasks to be published and queued.
\<close>

section \<open>States and steps\<close>

record fconc =
  fx_world :: fworld
  fx_pub :: "(stored_order \<times> (uuid \<rightharpoonup> string)) list"
  fx_open :: "(finish_request \<times> completion) list"

definition locked_tasks :: "fconc \<Rightarrow> uuid set" where
  "locked_tasks k = (\<lambda>(p, c). ft_id (cm_task c)) ` set (fx_open k)"

definition locked_orders :: "fconc \<Rightarrow> uuid set" where
  "locked_orders k = (\<lambda>(p, c). ft_order_id (cm_task c)) ` set (fx_open k)"

inductive fstep :: "bool \<Rightarrow> fsettings \<Rightarrow> fconc \<Rightarrow> fconc \<Rightarrow> bool"
  for lock_order :: bool and cfg :: fsettings where
  f_store:
    "valid_order_create p \<Longrightarrow> order_checks up p = Inr (recipes, names) \<Longrightarrow>
       store_order env p recipes (fw_db (fx_world k)) = Inr (so, db) \<Longrightarrow>
       fstep lock_order cfg k
         (k\<lparr>fx_world := order_stored cfg env corr so db (fx_world k), fx_pub := (so, names) # fx_pub k\<rparr>)"
| f_queue:
    "fx_pub k = xs @ (so, names) # ys \<Longrightarrow>
       publish_and_queue cfg env corr (so_order so) (so_tasks so) names (fx_world k) = (res, w) \<Longrightarrow>
       fstep lock_order cfg k (k\<lparr>fx_world := w, fx_pub := xs @ ys\<rparr>)"
| f_displayed:
    "tid \<notin> locked_tasks k \<Longrightarrow> mark_displayed cfg env corr tid p (fx_world k) = (res, w) \<Longrightarrow>
       fstep lock_order cfg k (k\<lparr>fx_world := w\<rparr>)"
| f_start:
    "tid \<notin> locked_tasks k \<Longrightarrow> start_task cfg env corr tid p (fx_world k) = (res, w) \<Longrightarrow>
       fstep lock_order cfg k (k\<lparr>fx_world := w\<rparr>)"
| f_failed:
    "tid \<notin> locked_tasks k \<Longrightarrow> dispatch_failed cfg env corr tid p (fx_world k) = (res, w) \<Longrightarrow>
       fstep lock_order cfg k (k\<lparr>fx_world := w\<rparr>)"
| f_prepare:
    "tid \<notin> locked_tasks k \<Longrightarrow> complete_prepare env tid p (fw_db (fx_world k)) = Inr (Inr c) \<Longrightarrow>
       lock_order \<longrightarrow> ft_order_id (cm_task c) \<notin> locked_orders k \<Longrightarrow>
       fstep lock_order cfg k (k\<lparr>fx_open := (p, c) # fx_open k\<rparr>)"
| f_commit:
    "fx_open k = xs @ (p, c) # ys \<Longrightarrow>
       fstep lock_order cfg k
         (k\<lparr>fx_world := complete_effects cfg env corr p c
                ((fx_world k)\<lparr>fw_db := complete_apply env c (fw_db (fx_world k))\<rparr>),
            fx_open := xs @ ys\<rparr>)"
| f_abort:
    "fx_open k = xs @ (p, c) # ys \<Longrightarrow> fstep lock_order cfg k (k\<lparr>fx_open := xs @ ys\<rparr>)"
| f_crash:
    "fx_pub k = xs @ e # ys \<Longrightarrow> fstep lock_order cfg k (k\<lparr>fx_pub := xs @ ys\<rparr>)"

definition finit :: "fconc \<Rightarrow> bool" where
  "finit k = (fw_db (fx_world k) = empty_fdb \<and> fx_pub k = [] \<and> fx_open k = [])"

section \<open>The invariant\<close>

text \<open>An open completion: its row is still in progress, and what it has counted still holds.\<close>

definition open_ok :: "bool \<Rightarrow> fdb \<Rightarrow> completion \<Rightarrow> bool" where
  "open_ok lock_order db c =
     (\<exists>t. get_ftask_row db (ft_id (cm_task c)) = Some t \<and> ft_status t = Tk_in_progress
        \<and> ft_order_id (cm_task c) = ft_order_id t \<and> ftask_ok (cm_task c) \<and> ft_status (cm_task c) = Tk_done
        \<and> o_id (cm_order c) = ft_order_id t
        \<and> (lock_order \<longrightarrow> o_status (cm_order c) \<noteq> Ord_ready_for_pickup
             \<and> (cm_ready c \<longleftrightarrow> unfinished db (ft_order_id t) = 1)))"

definition pub_ok :: "fdb \<Rightarrow> stored_order \<Rightarrow> bool" where
  "pub_ok db so = (\<forall>x \<in> set (so_tasks so). \<exists>t. get_ftask_row db (ft_id x) = Some t \<and> ft_status t = Tk_created)"

definition pub_ids :: "fconc \<Rightarrow> uuid list" where
  "pub_ids k = concat (map (\<lambda>(so, _). map ft_id (so_tasks so)) (fx_pub k))"

definition fconc_inv :: "bool \<Rightarrow> fconc \<Rightarrow> bool" where
  "fconc_inv lock_order k =
     (f_inv (fw_db (fx_world k))
      \<and> (lock_order \<longrightarrow> ready_ok (fw_db (fx_world k)))
      \<and> (\<forall>(p, c) \<in> set (fx_open k). open_ok lock_order (fw_db (fx_world k)) c)
      \<and> distinct (map (\<lambda>(p, c). ft_id (cm_task c)) (fx_open k))
      \<and> (lock_order \<longrightarrow> distinct (map (\<lambda>(p, c). ft_order_id (cm_task c)) (fx_open k)))
      \<and> (\<forall>(so, names) \<in> set (fx_pub k). pub_ok (fw_db (fx_world k)) so)
      \<and> distinct (pub_ids k))"

lemma fconc_inv_init: "finit k \<Longrightarrow> fconc_inv lock_order k"
  by (simp add: finit_def fconc_inv_def empty_fdb_def f_inv_def fdb_ok_def deps_forward_def ready_ok_def pub_ids_def)

lemma fconc_inv_world:
  "fw_db w = fw_db (fx_world k) \<Longrightarrow> fconc_inv lock_order (k\<lparr>fx_world := w\<rparr>) = fconc_inv lock_order k"
  by (simp add: fconc_inv_def pub_ids_def)

text \<open>A write that keeps the progress of all orders and touches one unlocked, created-or-later row.\<close>

lemma fconc_inv_progress:
  assumes inv: "fconc_inv lock_order k" and sp: "same_progress tid (fw_db (fx_world k)) (fw_db w)"
    and f: "f_inv (fw_db w)" and free: "tid \<notin> locked_tasks k"
    and row: "get_ftask_row (fw_db (fx_world k)) tid = Some t" "ft_status t \<noteq> Tk_created"
  shows "fconc_inv lock_order (k\<lparr>fx_world := w\<rparr>)"
proof -
  let ?db = "fw_db (fx_world k)"
  have rows: "get_ftask_row (fw_db w) i = get_ftask_row ?db i" if "i \<noteq> tid" for i
    using sp that by (simp add: same_progress_def)
  have un: "unfinished (fw_db w) oid = unfinished ?db oid" for oid using sp by (simp add: same_progress_def)
  have "open_ok lock_order (fw_db w) c" if "(p, c) \<in> set (fx_open k)" for p c
  proof -
    have "ft_id (cm_task c) \<noteq> tid" using that free by (force simp: locked_tasks_def)
    moreover have "open_ok lock_order ?db c" using inv that by (auto simp: fconc_inv_def)
    ultimately show ?thesis by (simp add: open_ok_def rows un)
  qed
  moreover have "pub_ok (fw_db w) so" if "(so, names) \<in> set (fx_pub k)" for so names
  proof -
    have "pub_ok ?db so" using inv that by (auto simp: fconc_inv_def)
    then have "ft_id x \<noteq> tid" if "x \<in> set (so_tasks so)" for x using that row by (auto simp: pub_ok_def)
    with \<open>pub_ok ?db so\<close> show ?thesis by (simp add: pub_ok_def rows)
  qed
  moreover have "lock_order \<longrightarrow> ready_ok (fw_db w)" using inv sp by (simp add: fconc_inv_def same_progress_def)
  ultimately show ?thesis using inv f by (auto simp: fconc_inv_def pub_ids_def)
qed

section \<open>Every step keeps it\<close>

lemma mark_displayed_step:
  assumes inv: "fconc_inv lock_order k" and free: "tid \<notin> locked_tasks k"
    and run: "mark_displayed cfg env corr tid p (fx_world k) = (res, w)"
  shows "fconc_inv lock_order (k\<lparr>fx_world := w\<rparr>)"
proof (cases "fw_db w = fw_db (fx_world k)")
  case True
  then show ?thesis using inv by (simp add: fconc_inv_world)
next
  case False
  have f: "f_inv (fw_db (fx_world k))" using inv by (simp add: fconc_inv_def)
  obtain t r where load: "load_task (fw_db (fx_world k)) tid = Some (t, r)"
    and st: "ft_status t = Tk_queued \<or> ft_status t = Tk_retrying"
    and db: "fw_db w = save_task (fe_db_now env) (displayed_task p t) (fw_db (fx_world k))"
    using mark_displayed_db [OF run] False by auto
  note l = load_task_SomeD [OF load]
  have tok: "ftask_ok t" using f fdb_okD(3) l(3) by (auto simp: f_inv_def)
  show ?thesis
  proof (rule fconc_inv_progress [OF inv _ _ free l(1)])
    show "same_progress tid (fw_db (fx_world k)) (fw_db w)"
      unfolding db by (rule save_unfinished [OF f load]) (use st in auto)
    show "f_inv (fw_db w)"
      unfolding db by (rule f_inv_save_task [OF f, of _ t]) (use l tok task_forms_ok(1) in auto)
  qed (use st in auto)
qed

lemma start_task_step:
  assumes inv: "fconc_inv lock_order k" and free: "tid \<notin> locked_tasks k"
    and run: "start_task cfg env corr tid p (fx_world k) = (res, w)"
  shows "fconc_inv lock_order (k\<lparr>fx_world := w\<rparr>)"
proof (cases "fw_db w = fw_db (fx_world k)")
  case True
  then show ?thesis using inv by (simp add: fconc_inv_world)
next
  case False
  have f: "f_inv (fw_db (fx_world k))" using inv by (simp add: fconc_inv_def)
  obtain t r sla where load: "load_task (fw_db (fx_world k)) tid = Some (t, r)"
    and st: "ft_status t = Tk_displayed" "ft_station_id t = Some (sq_station_id p)" "ft_kds_task_id t = Some (sq_kds_task_id p)"
    and sla: "dt_add_seconds (sq_started_at p) (ft_duration t) = Some sla"
    and db: "fw_db w = set_order_status (fe_db_now env) r Ord_cooking
        (save_task (fe_db_now env) (started_task p sla t) (fw_db (fx_world k)))"
    using start_task_db [OF run] False by auto
  note l = load_task_SomeD [OF load]
  have tok: "ftask_ok t" using f fdb_okD(3) l(3) by (auto simp: f_inv_def)
  have t1: "ftask_ok (started_task p sla t)"
    using tok st by (intro task_forms_ok(2) sla) (auto simp: ftask_ok_def)
  show ?thesis
  proof (rule fconc_inv_progress [OF inv _ _ free l(1)])
    show "same_progress tid (fw_db (fx_world k)) (fw_db w)"
      unfolding db by (rule cook_unfinished [OF f load]) (use st in auto)
    show "f_inv (fw_db w)"
      unfolding db
      by (intro f_inv_set_order_status f_inv_save_task [OF f, of _ t]) (use l t1 in auto)
  qed (use st in auto)
qed

lemma dispatch_failed_step:
  assumes inv: "fconc_inv lock_order k" and free: "tid \<notin> locked_tasks k"
    and run: "dispatch_failed cfg env corr tid p (fx_world k) = (res, w)"
  shows "fconc_inv lock_order (k\<lparr>fx_world := w\<rparr>)"
proof (cases "fw_db w = fw_db (fx_world k)")
  case True
  then show ?thesis using inv by (simp add: fconc_inv_world)
next
  case False
  have f: "f_inv (fw_db (fx_world k))" using inv by (simp add: fconc_inv_def)
  obtain t r where load: "load_task (fw_db (fx_world k)) tid = Some (t, r)"
    and st: "ft_status t = Tk_queued \<or> ft_status t = Tk_retrying"
    and db: "fw_db w = save_task (fe_db_now env) (failed_task (df_attempts p) t) (fw_db (fx_world k))"
    using dispatch_failed_db [OF run] False by auto
  note l = load_task_SomeD [OF load]
  have tok: "ftask_ok t" using f fdb_okD(3) l(3) by (auto simp: f_inv_def)
  show ?thesis
  proof (rule fconc_inv_progress [OF inv _ _ free l(1)])
    show "same_progress tid (fw_db (fx_world k)) (fw_db w)"
      unfolding db by (rule save_unfinished [OF f load]) (use st in auto)
    show "f_inv (fw_db w)"
      unfolding db by (rule f_inv_save_task [OF f, of _ t]) (use l tok task_forms_ok(3) in auto)
  qed (use st in auto)
qed

lemma prepare_step:
  assumes inv: "fconc_inv lock_order k" and free: "tid \<notin> locked_tasks k"
    and run: "complete_prepare env tid p (fw_db (fx_world k)) = Inr (Inr c)"
    and order_free: "lock_order \<longrightarrow> ft_order_id (cm_task c) \<notin> locked_orders k"
  shows "fconc_inv lock_order (k\<lparr>fx_open := (p, c) # fx_open k\<rparr>)"
proof -
  let ?db = "fw_db (fx_world k)"
  have f: "f_inv ?db" using inv by (simp add: fconc_inv_def)
  then have ok: "fdb_ok ?db" by (simp add: f_inv_def)
  obtain t r a where load: "load_task ?db tid = Some (t, r)" and st: "can_transition (ft_status t) Tk_done"
    and a: "ft_started_at t = Some a" "dt_instant a \<le> dt_instant (fq_completed_at p)"
    and t1: "cm_task c = finished_task (dt_utc (dt_instant (fq_completed_at p))) (dt_utc (dt_instant a)) (as_utc (ft_sla_deadline_at t)) t"
    and r: "cm_order c = r"
    and ready: "cm_ready c \<longleftrightarrow> unfinished (save_task (fe_db_now env) (cm_task c) ?db) (ft_order_id t) = 0"
    by (rule complete_prepare_ok [OF run])
  note l = load_task_SomeD [OF load]
  have tok: "ftask_ok t" using f fdb_okD(3) l(3) by (auto simp: f_inv_def)
  have c: "ftask_ok (cm_task c)" unfolding t1 using tok st a by (intro finished_task_ok) auto
  have row: "get_ftask_row ?db (ft_id (cm_task c)) = Some t" using l by (simp add: t1)
  have "unfinished (save_task (fe_db_now env) (cm_task c) ?db) (ft_order_id t) + 1 = unfinished ?db (ft_order_id t)"
    using unfinished_save_task [OF ok row, of "fe_db_now env" "ft_order_id t"] st by (simp add: t1)
  then have one: "cm_ready c \<longleftrightarrow> unfinished ?db (ft_order_id t) = 1" using ready by arith
  have "o_status r \<noteq> Ord_ready_for_pickup" if "ready_ok ?db"
    using that l(5,6) unfinished_pos [OF l(3)] st by (auto simp: ready_ok_def)
  then have "open_ok lock_order ?db c"
    using row st c l(5) one inv by (auto simp: open_ok_def t1 r fconc_inv_def)
  moreover have "ft_id (cm_task c) = tid" using l(2) by (simp add: t1)
  ultimately show ?thesis
    using inv free order_free by (auto simp: fconc_inv_def locked_tasks_def locked_orders_def pub_ids_def)
qed

end
