(* ===== verification/Fulfillment_Steps.thy ===== *)
theory Fulfillment_Steps
  imports Fulfillment_Concurrency
begin

text \<open>
  Fulfillment service: the remaining steps of the concurrent system keep its invariant, which
  makes it an instance of \<open>inv_system\<close>. The commit of a completion is the step that needs the
  order to be locked: what the completion has counted must still hold when it commits.
\<close>

section \<open>The commit of a completion\<close>

lemma ready_ok_commit:
  assumes inv: "f_inv db" and ok: "open_ok True db c" and ready: "ready_ok db"
  shows "ready_ok (complete_apply env c db)"
proof -
  obtain t where row: "get_ftask_row db (ft_id (cm_task c)) = Some t" and st: "ft_status t = Tk_in_progress"
    and oid: "ft_order_id (cm_task c) = ft_order_id t" "o_id (cm_order c) = ft_order_id t"
    and fin: "ft_status (cm_task c) = Tk_done" and new: "o_status (cm_order c) \<noteq> Ord_ready_for_pickup"
    and one: "cm_ready c \<longleftrightarrow> unfinished db (ft_order_id t) = 1"
    using ok by (auto simp: open_ok_def)
  let ?db1 = "save_task (fe_db_now env) (cm_task c) db"
  have fok: "fdb_ok db" using inv by (simp add: f_inv_def)
  have mem: "t \<in> set (f_tasks db)" by (rule ftask_tab.get_member [OF row])
  have u: "unfinished ?db1 oid + of_bool (ft_order_id t = oid) = unfinished db oid" for oid
    using unfinished_save_task [OF fok row oid(1), of "fe_db_now env" oid] st fin oid by simp
  have h: "has_tasks ?db1 oid = has_tasks db oid" for oid
    by (rule has_tasks_save_task [OF row fok oid(1)])
  have has: "has_tasks db (ft_order_id t)" using mem by (auto simp: has_tasks_def)
  have pos: "0 < unfinished db (ft_order_id t)" using unfinished_pos [OF mem] st by simp
  show ?thesis
  proof (cases "cm_ready c")
    case True
    then have app: "complete_apply env c db = set_order_status (fe_db_now env) (cm_order c) Ord_ready_for_pickup ?db1"
      by (simp add: complete_apply_def)
    have p: "unfinished (complete_apply env c db) i = unfinished ?db1 i \<and> has_tasks (complete_apply env c db) i = has_tasks ?db1 i" for i
      unfolding app by (rule progress_orders_eq) simp
    have zero: "unfinished ?db1 (ft_order_id t) = 0" using u [of "ft_order_id t"] one True by simp
    have other: "unfinished ?db1 i = unfinished db i" if "i \<noteq> ft_order_id t" for i using u [of i] that by simp
    show ?thesis
      unfolding ready_ok_def
    proof
      fix x assume "x \<in> set (f_orders (complete_apply env c db))"
      then have "x \<in> set (update_row o_id (ft_order_id t) (\<lambda>x. x\<lparr>o_status := Ord_ready_for_pickup, o_updated_at := fe_db_now env\<rparr>) (f_orders db))"
        using new oid by (simp add: app orders_set_order_status)
      then show "(o_status x = Ord_ready_for_pickup)
        = (has_tasks (complete_apply env c db) (o_id x) \<and> unfinished (complete_apply env c db) (o_id x) = 0)"
        by (rule set_update_rowE) (use ready other zero has in \<open>auto simp: p h ready_ok_def\<close>)
    qed
  next
    case False
    then have app: "complete_apply env c db = ?db1" by (simp add: complete_apply_def)
    have "unfinished ?db1 i = 0 \<longleftrightarrow> unfinished db i = 0" for i
      using u [of i] one False pos by (cases "ft_order_id t = i") auto
    then show ?thesis using ready by (simp add: app ready_ok_def h)
  qed
qed

lemma f_inv_commit:
  assumes inv: "f_inv db" and ok: "open_ok lock_order db c"
  shows "f_inv (complete_apply env c db)"
proof -
  obtain t where t: "get_ftask_row db (ft_id (cm_task c)) = Some t" "ft_order_id (cm_task c) = ft_order_id t"
    "ftask_ok (cm_task c)" using ok by (auto simp: open_ok_def)
  have "f_inv (save_task (fe_db_now env) (cm_task c) db)" by (rule f_inv_save_task [OF inv t])
  then show ?thesis by (simp add: complete_apply_def Let_def f_inv_set_order_status)
qed

lemma complete_apply_rows:
  assumes ok: "open_ok lock_order db c" and i: "i \<noteq> ft_id (cm_task c)"
  shows "get_ftask_row (complete_apply env c db) i = get_ftask_row db i"
proof -
  have "get_ftask_row db (ft_id (cm_task c)) \<noteq> None" using ok by (auto simp: open_ok_def)
  from get_save_task [OF this, of "fe_db_now env" i] i
  show ?thesis by (simp add: complete_apply_def Let_def get_ftask_row_def)
qed

lemma complete_apply_unfinished:
  assumes inv: "f_inv db" and ok: "open_ok lock_order db c" and i: "i \<noteq> ft_order_id (cm_task c)"
  shows "unfinished (complete_apply env c db) i = unfinished db i"
proof -
  obtain t where t: "get_ftask_row db (ft_id (cm_task c)) = Some t" "ft_order_id (cm_task c) = ft_order_id t"
    using ok by (auto simp: open_ok_def)
  have "unfinished (save_task (fe_db_now env) (cm_task c) db) i = unfinished db i"
    using unfinished_save_task [OF _ t, of "fe_db_now env" i] inv i by (simp add: f_inv_def)
  then show ?thesis by (simp add: complete_apply_def Let_def unfinished_def)
qed

lemma complete_effects_db [simp]: "fw_db (complete_effects cfg env corr p c w) = fw_db w"
  by (simp add: complete_effects_def Let_def)

lemma open_split:
  assumes "fx_open k = xs @ (p, c) # ys" and "fconc_inv lock_order k" and "(q, d) \<in> set (xs @ ys)"
  shows "ft_id (cm_task d) \<noteq> ft_id (cm_task c)" "lock_order \<Longrightarrow> ft_order_id (cm_task d) \<noteq> ft_order_id (cm_task c)"
    "open_ok lock_order (fw_db (fx_world k)) d"
  using assms by (auto simp: fconc_inv_def rev_image_eqI)

lemma commit_step:
  assumes inv: "fconc_inv lock_order k" and k: "fx_open k = xs @ (p, c) # ys"
    and w: "fw_db w = complete_apply env c (fw_db (fx_world k))"
  shows "fconc_inv lock_order (k\<lparr>fx_world := w, fx_open := xs @ ys\<rparr>)"
proof -
  let ?db = "fw_db (fx_world k)"
  have f: "f_inv ?db" and ok: "open_ok lock_order ?db c" using inv k by (auto simp: fconc_inv_def)
  have "open_ok lock_order (fw_db w) d" if "(q, d) \<in> set (xs @ ys)" for q d
    using open_split [OF k inv that] complete_apply_rows [OF ok] complete_apply_unfinished [OF f ok]
    by (auto simp: open_ok_def w)
  moreover have "pub_ok (fw_db w) so" if "(so, names) \<in> set (fx_pub k)" for so names
  proof -
    have pub: "pub_ok ?db so" using inv that by (auto simp: fconc_inv_def)
    have "ft_id x \<noteq> ft_id (cm_task c)" if "x \<in> set (so_tasks so)" for x
      using that pub ok by (fastforce simp: pub_ok_def open_ok_def)
    with pub show ?thesis by (simp add: pub_ok_def w complete_apply_rows [OF ok])
  qed
  moreover have "ready_ok (fw_db w)" if "lock_order"
    using ready_ok_commit [OF f] that inv ok by (simp add: w fconc_inv_def)
  ultimately show ?thesis
    using inv f_inv_commit [OF f ok] k by (auto simp: fconc_inv_def pub_ids_def w)
qed

lemma abort_step:
  "fconc_inv lock_order k \<Longrightarrow> fx_open k = xs @ (p, c) # ys \<Longrightarrow> fconc_inv lock_order (k\<lparr>fx_open := xs @ ys\<rparr>)"
  by (auto simp: fconc_inv_def pub_ids_def)

lemma crash_step:
    assumes inv: "fconc_inv lock_order k" and k: "fx_pub k = xs @ e # ys"
  shows "fconc_inv lock_order (k\<lparr>fx_pub := xs @ ys\<rparr>)"
proof -
  define ids where "ids = (\<lambda>l :: (stored_order \<times> (uuid \<rightharpoonup> string)) list. concat (map (\<lambda>(so, _). map ft_id (so_tasks so)) l))"
  have "distinct (ids xs @ ids [e] @ ids ys)" using inv by (simp add: fconc_inv_def pub_ids_def k ids_def del: distinct_append)
  then have "distinct (ids xs @ ids ys)" by auto
  then have "distinct (pub_ids (k\<lparr>fx_pub := xs @ ys\<rparr>))"
    by (simp add: pub_ids_def ids_def del: distinct_append)
  then show ?thesis using inv k by (simp add: fconc_inv_def)
qed

section \<open>Storing an order\<close>

lemma fetch_recipes_known:
  "fetch_recipes remote avail n is rs = Inr recipes \<Longrightarrow>
     (\<forall>i \<in> set is. recipes (ic_menu_item_id i) \<noteq> None) \<and> (\<forall>m. rs m \<noteq> None \<longrightarrow> recipes m \<noteq> None)"
proof (induction "is" arbitrary: n rs)
  case Nil
  then show ?case by simp
next
  case (Cons i "is")
  then obtain r where "fetch_recipes remote avail (Suc n) is (rs(ic_menu_item_id i \<mapsto> r)) = Inr recipes"
    by (auto split: if_splits sum.splits)
  from Cons.IH [OF this] show ?case by (auto split: if_splits)
qed

lemma order_checks_known:
  "order_checks up p = Inr (recipes, names) \<Longrightarrow> \<forall>i \<in> set (oc_items p). recipes (ic_menu_item_id i) \<noteq> None"
  by (auto simp: order_checks_def dest!: fetch_recipes_known split: sum.splits)

lemma get_row_appended:
  "f_tasks db' = f_tasks db @ ts \<Longrightarrow> get_ftask_row db i = Some t \<Longrightarrow> get_ftask_row db' i = Some t"
  by (simp add: get_ftask_row_def row_simps)

lemma unfinished_appended:
  "f_tasks db' = f_tasks db @ ts \<Longrightarrow> \<forall>t \<in> set ts. ft_order_id t \<noteq> oid \<Longrightarrow>
     unfinished db' oid = unfinished db oid \<and> has_tasks db' oid = has_tasks db oid"
  by (auto simp: unfinished_def has_tasks_def count_rows_zero_iff)

lemma store_order_new:
  assumes run: "store_order env p recipes db = Inr (so, db')"
    and known: "\<forall>i \<in> set (oc_items p). recipes (ic_menu_item_id i) \<noteq> None"
  shows "f_orders db' = f_orders db @ [order_row (so_order so)]" "f_tasks db' = f_tasks db @ so_tasks so"
    "o_id (so_order so) \<notin> o_id ` set (f_orders db)" "o_status (so_order so) = Ord_created"
    "\<forall>t \<in> set (so_tasks so). ft_order_id t = o_id (so_order so) \<and> ft_status t = Tk_created"
proof -
  have "f_orders db' = f_orders db @ [order_row (so_order so)] \<and> f_tasks db' = f_tasks db @ so_tasks so
    \<and> o_id (so_order so) \<notin> o_id ` set (f_orders db) \<and> so_order so = new_order env p
    \<and> (\<forall>t \<in> set (so_tasks so). ft_order_id t = o_id (so_order so) \<and> ft_status t = Tk_created)"
    by (rule store_order_Inr [OF run known]) (use order_chain_tasks in auto)
  then show "f_orders db' = f_orders db @ [order_row (so_order so)]" "f_tasks db' = f_tasks db @ so_tasks so"
    "o_id (so_order so) \<notin> o_id ` set (f_orders db)" "o_status (so_order so) = Ord_created"
    "\<forall>t \<in> set (so_tasks so). ft_order_id t = o_id (so_order so) \<and> ft_status t = Tk_created"
    by (auto simp: new_order_def)
qed

lemma store_ready_ok:
  assumes run: "store_order env p recipes db = Inr (so, db')"
    and known: "\<forall>i \<in> set (oc_items p). recipes (ic_menu_item_id i) \<noteq> None"
    and inv: "fdb_ok db" and ready: "ready_ok db"
  shows "ready_ok db'"
proof -
  note n = store_order_new [OF run known]
  let ?oid = "o_id (so_order so)"
  have old: "unfinished db' i = unfinished db i \<and> has_tasks db' i = has_tasks db i" if "i \<noteq> ?oid" for i
    by (rule unfinished_appended [OF n(2)]) (use n(5) that in auto)
  have "0 < unfinished db' ?oid" if has: "has_tasks db' ?oid"
  proof -
    obtain t where t: "t \<in> set (f_tasks db')" "ft_order_id t = ?oid" using has by (auto simp: has_tasks_def)
    moreover have "t \<notin> set (f_tasks db)" using fdb_okD(4) [OF inv, of t] t(2) n(3) by auto
    ultimately have "t \<in> set (so_tasks so)" using n(2) by auto
    then show ?thesis using unfinished_pos [OF t(1)] n(5) t(2) by auto
  qed
  moreover have "o_id r \<noteq> ?oid" if "r \<in> set (f_orders db)" for r using n(3) that by (metis imageI)
  ultimately show ?thesis
    using ready old n(1,4) by (auto simp: ready_ok_def order_row_def)
qed

lemma store_step:
  assumes inv: "fconc_inv lock_order k" and checks: "order_checks up p = Inr (recipes, names)"
    and run: "store_order env p recipes (fw_db (fx_world k)) = Inr (so, db)" and w: "fw_db w = db"
  shows "fconc_inv lock_order (k\<lparr>fx_world := w, fx_pub := (so, names) # fx_pub k\<rparr>)"
proof -
  let ?db = "fw_db (fx_world k)"
  note known = order_checks_known [OF checks]
  note n = store_order_new [OF run known]
  have f: "f_inv ?db" and ok: "fdb_ok ?db" using inv by (auto simp: fconc_inv_def f_inv_def)
  have f': "f_inv db" by (rule store_order_inv [OF f run known])
  have d: "distinct (map ft_id (f_tasks ?db @ so_tasks so))" using f' n(2) by (simp add: f_inv_def fdb_ok_def)
  have keep: "get_ftask_row ?db i = Some t \<Longrightarrow> get_ftask_row db i = Some t" for i t
    by (rule get_row_appended [OF n(2)])
  have "open_ok lock_order db c" if "(q, c) \<in> set (fx_open k)" for q c
  proof -
    have o: "open_ok lock_order ?db c" using inv that by (auto simp: fconc_inv_def)
    then obtain t where "get_ftask_row ?db (ft_id (cm_task c)) = Some t" by (auto simp: open_ok_def)
    then have "ft_order_id t \<noteq> o_id (so_order so)" using fdb_okD(4) [OF ok] ftask_tab.get_member n(3) by metis
    then have "unfinished db (ft_order_id t) = unfinished ?db (ft_order_id t)"
      using unfinished_appended [OF n(2)] n(5) by metis
    with o keep \<open>get_ftask_row ?db _ = Some t\<close> show ?thesis by (auto simp: open_ok_def)
  qed
  moreover have "pub_ok db so'" if "(so', ns) \<in> set (fx_pub k)" for so' ns
    using inv that keep by (fastforce simp: fconc_inv_def pub_ok_def)
  moreover have "pub_ok db so"
  proof -
    have "get_ftask_row db (ft_id x) = Some x" if "x \<in> set (so_tasks so)" for x
      using ftask_tab.member_get [of db x] d that n(2) by simp
    then show ?thesis using n(5) by (auto simp: pub_ok_def)
  qed
  moreover have "distinct (pub_ids (k\<lparr>fx_world := w, fx_pub := (so, names) # fx_pub k\<rparr>))"
  proof -
    have "i \<in> ft_id ` set (f_tasks ?db)" if pub: "i \<in> set (pub_ids k)" for i
    proof -
      obtain so' ns x where "(so', ns) \<in> set (fx_pub k)" "x \<in> set (so_tasks so')" "i = ft_id x"
        using pub by (auto simp: pub_ids_def)
      then obtain t where "get_ftask_row ?db i = Some t" using inv by (fastforce simp: fconc_inv_def pub_ok_def)
      then show ?thesis using ftask_tab.get_key ftask_tab.get_member by (metis imageI)
    qed
    moreover have "distinct (pub_ids k)" using inv by (simp add: fconc_inv_def)
    moreover have "distinct (map ft_id (so_tasks so))" "ft_id ` set (so_tasks so) \<inter> ft_id ` set (f_tasks ?db) = {}"
      using d by auto
    moreover have "pub_ids (k\<lparr>fx_world := w, fx_pub := (so, names) # fx_pub k\<rparr>) = map ft_id (so_tasks so) @ pub_ids k"
      by (simp add: pub_ids_def)
    ultimately show ?thesis by (simp only: distinct_append set_map) blast
  qed
  ultimately show ?thesis
    using inv f' store_ready_ok [OF run known ok] by (auto simp: fconc_inv_def w)
qed

section \<open>Publishing and queueing\<close>

lemma publish_all_tasks:
  "publish_all cfg corr ord names ts rd = (Inr ps, rd') \<Longrightarrow> map fst ps = ts"
  by (induction ts arbitrary: rd ps rd') (auto split: prod.splits sum.splits)

lemma queued_row_simps [simp]:
  "ft_id (queued_row q now s i t) = ft_id t" "ft_order_id (queued_row q now s i t) = ft_order_id t"
  "ft_status (queued_row q now s i t) = Tk_queued"
  by (simp_all add: queued_row_def)

lemma dep_forward_columns:
  assumes "map ft_id ts' = map ft_id ts" and "map ft_order_id ts' = map ft_order_id ts" and d: "dep_forward ts d"
  shows "dep_forward ts' d"
proof -
  have len: "length ts' = length ts" using assms(1) by (metis length_map)
  have cols: "ft_id (ts' ! i) = ft_id (ts ! i) \<and> ft_order_id (ts' ! i) = ft_order_id (ts ! i)" if "i < length ts" for i
    using that len assms(1,2) by (metis nth_map)
  from d obtain i j where "i < j" "j < length ts" "ft_id (ts ! i) = td_depends_on d"
    "ft_id (ts ! j) = td_task d" "ft_order_id (ts ! i) = ft_order_id (ts ! j)" by (auto simp: dep_forward_def)
  with cols [of i] cols [of j] len show ?thesis
    unfolding dep_forward_def by (intro exI [of _ i] exI [of _ j]) simp
qed

lemma queue_one:
  assumes inv: "f_inv db" and row: "get_ftask_row db i = Some t" and st: "ft_status t = Tk_created"
    and db1_def: "db1 = upd_ftask i (queued_row q now s m) db"
  shows "f_inv db1" "same_progress i db db1" "get_ftask_row db1 i = Some (queued_row q now s m t)"
proof -
  have ok: "fdb_ok db" and dep: "deps_forward db" using inv by (auto simp: f_inv_def)
  have ids: "map ft_id (f_tasks db1) = map ft_id (f_tasks db)"
    and oids: "map ft_order_id (f_tasks db1) = map ft_order_id (f_tasks db)"
    unfolding db1_def by (rule ftask_tab.column_upd, simp)+
  have rows: "get_ftask_row db1 j = (if j = i then Some (queued_row q now s m t) else get_ftask_row db j)" for j
    unfolding db1_def by (subst ftask_tab.get_upd) (simp_all add: row)
  have only: "x = t" if "x \<in> set (f_tasks db)" "ft_id x = i" for x
    using ftask_tab.member_get [OF fdb_okD(2) [OF ok] that(1)] that(2) row by simp
  have "ftask_ok x \<and> ft_order_id x \<in> o_id ` set (f_orders db1)" if "x \<in> set (f_tasks db1)" for x
  proof -
    have x: "x \<in> set (f_tasks (upd_ftask i (queued_row q now s m) db))" using that by (simp add: db1_def)
    show ?thesis
      by (rule ftask_tab.member_updE [OF x])
        (use only fdb_okD(3,4) [OF ok] st in \<open>auto simp: db1_def ftask_ok_def ftask_checks_def queued_row_def\<close>)
  qed
  moreover have "deps_forward db1"
    using dep dep_forward_columns [OF ids oids] by (simp add: deps_forward_def db1_def)
  ultimately show "f_inv db1" using ok ids by (simp add: f_inv_def fdb_ok_def db1_def)
  have "unfinished db1 oid = unfinished db oid" for oid
    using ftask_tab.count_upd [OF fdb_okD(2) [OF ok] row, of "\<lambda>t. ft_order_id t = oid \<and> ft_status t \<noteq> Tk_done" "queued_row q now s m"] st
    by (simp add: unfinished_def db1_def)
  moreover have "has_tasks db1 oid = has_tasks db oid" for oid
  proof -
    have "oid \<in> set (map ft_order_id (f_tasks db1)) \<longleftrightarrow> oid \<in> set (map ft_order_id (f_tasks db))" by (simp only: oids)
    then show ?thesis by (auto simp: has_tasks_def)
  qed
  ultimately show "same_progress i db db1"
    by (simp add: same_progress_def rows ready_ok_def) (simp add: db1_def)
  show "get_ftask_row db1 i = Some (queued_row q now s m t)" by (simp add: rows)
qed

lemma mark_tasks_queued_inv:
  assumes "mark_tasks_queued env ps db = Inr db'" and "f_inv db" and "distinct (map (ft_id \<circ> fst) ps)"
    and "\<forall>(x, s, i) \<in> set ps. \<exists>t. get_ftask_row db (ft_id x) = Some t \<and> ft_status t = Tk_created"
  shows "f_inv db' \<and> f_orders db' = f_orders db
    \<and> (\<forall>oid. unfinished db' oid = unfinished db oid \<and> has_tasks db' oid = has_tasks db oid) \<and> (ready_ok db \<longrightarrow> ready_ok db')
    \<and> (\<forall>j. j \<notin> (ft_id \<circ> fst) ` set ps \<longrightarrow> get_ftask_row db' j = get_ftask_row db j)"
  using assms
proof (induction ps arbitrary: db)
  case Nil
  then show ?case by simp
next
  case (Cons e ps)
  obtain x s i where e: "e = (x, s, i)" by (cases e) auto
  obtain t where row: "get_ftask_row db (ft_id x) = Some t" "ft_status t = Tk_created" using Cons.prems(4) e by auto
  let ?db1 = "upd_ftask (ft_id x) (queued_row (fe_now env) (fe_db_now env) s i) db"
  note one = queue_one [OF Cons.prems(2) row refl, of "fe_now env" "fe_db_now env" s i]
  have rest: "mark_tasks_queued env ps ?db1 = Inr db'" using Cons.prems(1) by (simp add: e split: if_splits)
  have rows: "get_ftask_row ?db1 j = get_ftask_row db j" if "j \<noteq> ft_id x" for j
    using one(2) that by (simp add: same_progress_def)
  have "\<forall>(y, s, i) \<in> set ps. \<exists>t. get_ftask_row ?db1 (ft_id y) = Some t \<and> ft_status t = Tk_created"
  proof (clarify)
    fix y s' i' assume y: "(y, s', i') \<in> set ps"
    then have "ft_id y \<noteq> ft_id x" using Cons.prems(3) by (force simp: e)
    with rows y Cons.prems(4) show "\<exists>t. get_ftask_row ?db1 (ft_id y) = Some t \<and> ft_status t = Tk_created" by fastforce
  qed
  from Cons.IH [OF rest one(1) _ this] Cons.prems(3)
  have ih: "f_inv db'" "f_orders db' = f_orders db" "has_tasks db' oid = has_tasks ?db1 oid" "unfinished db' oid = unfinished ?db1 oid" "ready_ok ?db1 \<Longrightarrow> ready_ok db'"
    "j \<notin> (ft_id \<circ> fst) ` set ps \<Longrightarrow> get_ftask_row db' j = get_ftask_row ?db1 j" for oid j by auto
  have "unfinished ?db1 oid = unfinished db oid" "has_tasks ?db1 oid = has_tasks db oid" "ready_ok db \<Longrightarrow> ready_ok ?db1" for oid
    using one(2) by (auto simp: same_progress_def)
  moreover have "j \<noteq> ft_id x \<and> j \<notin> (ft_id \<circ> fst) ` set ps" if "j \<notin> (ft_id \<circ> fst) ` set (e # ps)" for j
    using that by (simp add: e)
  ultimately show ?case using ih rows by metis
qed

lemma publish_and_queue_db:
  assumes "publish_and_queue cfg env corr ord tasks names w = (res, w')"
  obtains "fw_db w' = fw_db w"
  | ps where "map fst ps = tasks" "mark_tasks_queued env ps (fw_db w) = Inr (fw_db w')" "res = Inr (length ps)"
proof (cases "fs_redis_publish_enabled cfg")
  case False
  then show ?thesis using assms that(1) by (simp add: publish_and_queue_def)
next
  case True
  obtain r rd where pub: "publish_all cfg corr ord names tasks (fw_redis w) = (r, rd)" by fastforce
  show ?thesis
  proof (cases r)
    case (Inl e)
    then show ?thesis using assms True pub that(1) by (auto simp: publish_and_queue_def)
  next
    case (Inr ps)
    then show ?thesis
      using assms True pub that publish_all_tasks [of cfg corr ord names tasks "fw_redis w" ps rd]
      by (cases "mark_tasks_queued env ps (fw_db w)") (auto simp: publish_and_queue_def split: prod.splits)
  qed
qed

lemma queue_marks:
  assumes inv: "fconc_inv lock_order k" and k: "fx_pub k = xs @ (so, names) # ys"
    and ps: "map fst ps = so_tasks so" and mark: "mark_tasks_queued env ps (fw_db (fx_world k)) = Inr db'"
  shows "f_inv db'" "f_orders db' = f_orders (fw_db (fx_world k))"
    "unfinished db' oid = unfinished (fw_db (fx_world k)) oid" "has_tasks db' oid = has_tasks (fw_db (fx_world k)) oid"
    "ready_ok (fw_db (fx_world k)) \<Longrightarrow> ready_ok db'"
    "j \<notin> ft_id ` set (so_tasks so) \<Longrightarrow> get_ftask_row db' j = get_ftask_row (fw_db (fx_world k)) j"
proof -
  let ?db = "fw_db (fx_world k)"
  have ids: "map (ft_id \<circ> fst) ps = map ft_id (so_tasks so)" using ps by (metis map_map)
  have "distinct (pub_ids k)" and pub: "pub_ok ?db so" and f: "f_inv ?db"
    using inv k by (auto simp: fconc_inv_def)
  then have dist: "distinct (map (ft_id \<circ> fst) ps)" unfolding ids by (simp add: pub_ids_def k)
  have "\<exists>t. get_ftask_row ?db (ft_id x) = Some t \<and> ft_status t = Tk_created" if "(x, s, i) \<in> set ps" for x s i
  proof -
    have "x \<in> fst ` set ps" using that by (metis fst_conv imageI)
    then have "x \<in> set (so_tasks so)" by (metis list.set_map ps)
    then show ?thesis using pub by (simp add: pub_ok_def)
  qed
  then have created: "\<forall>(x, s, i) \<in> set ps. \<exists>t. get_ftask_row ?db (ft_id x) = Some t \<and> ft_status t = Tk_created" by auto
  have idset: "(ft_id \<circ> fst) ` set ps = ft_id ` set (so_tasks so)" using ids by (metis list.set_map)
  note m = mark_tasks_queued_inv [OF mark f dist created, unfolded idset]
  show "f_inv db'" "f_orders db' = f_orders ?db"
    "unfinished db' oid = unfinished ?db oid" "has_tasks db' oid = has_tasks ?db oid"
    "ready_ok ?db \<Longrightarrow> ready_ok db'"
    "j \<notin> ft_id ` set (so_tasks so) \<Longrightarrow> get_ftask_row db' j = get_ftask_row ?db j"
    using m by auto
qed

lemma queue_step:
  assumes inv: "fconc_inv lock_order k" and k: "fx_pub k = xs @ (so, names) # ys"
    and run: "publish_and_queue cfg env corr (so_order so) (so_tasks so) names (fx_world k) = (res, w)"
  shows "fconc_inv lock_order (k\<lparr>fx_world := w, fx_pub := xs @ ys\<rparr>)"
proof -
  let ?db = "fw_db (fx_world k)"
  have base: "fconc_inv lock_order (k\<lparr>fx_pub := xs @ ys\<rparr>)" by (rule crash_step [OF inv k])
  from run show ?thesis
  proof (rule publish_and_queue_db)
    assume "fw_db w = ?db"
    then show ?thesis using base by (simp add: fconc_inv_def pub_ids_def)
  next
    fix ps assume ps: "map fst ps = so_tasks so" and mark: "mark_tasks_queued env ps ?db = Inr (fw_db w)"
    note m = queue_marks [OF inv k ps mark]
    have dist: "distinct (pub_ids k)" and pub: "pub_ok ?db so" using inv k by (auto simp: fconc_inv_def)
    have split: "pub_ids k = pub_ids (k\<lparr>fx_pub := xs\<rparr>) @ map ft_id (so_tasks so) @ pub_ids (k\<lparr>fx_pub := ys\<rparr>)"
      by (simp add: pub_ids_def k)
    have "open_ok lock_order (fw_db w) c" if "(q, c) \<in> set (fx_open k)" for q c
    proof -
      have o: "open_ok lock_order ?db c" using inv that by (auto simp: fconc_inv_def)
      have "ft_id (cm_task c) \<notin> ft_id ` set (so_tasks so)"
      proof
        assume "ft_id (cm_task c) \<in> ft_id ` set (so_tasks so)"
        then obtain x where "x \<in> set (so_tasks so)" "ft_id (cm_task c) = ft_id x" by auto
        then show False using pub o by (fastforce simp: pub_ok_def open_ok_def)
      qed
      with o show ?thesis by (simp add: open_ok_def m(3,6))
    qed
    moreover have "pub_ok (fw_db w) so'" if so': "(so', ns) \<in> set (xs @ ys)" for so' ns
    proof -
      have o: "pub_ok ?db so'" using inv k so' by (auto simp: fconc_inv_def)
      have "ft_id x \<notin> ft_id ` set (so_tasks so)" if "x \<in> set (so_tasks so')" for x
      proof -
        have "ft_id x \<in> set (pub_ids (k\<lparr>fx_pub := xs\<rparr>)) \<union> set (pub_ids (k\<lparr>fx_pub := ys\<rparr>))"
          using so' that by (auto simp: pub_ids_def intro!: rev_bexI)
        then show ?thesis using dist unfolding split distinct_append set_append set_map by blast
      qed
      with o show ?thesis by (simp add: pub_ok_def m(6))
    qed
    ultimately show ?thesis using base m(1,5) by (auto simp: fconc_inv_def pub_ids_def)
  qed
qed

section \<open>The system\<close>

theorem fstep_inv: "fstep lock_order cfg k k' \<Longrightarrow> fconc_inv lock_order k \<Longrightarrow> fconc_inv lock_order k'"
proof (induction rule: fstep.induct)
  case (f_store p up recipes names env k so db corr)
  then show ?case by (intro store_step [OF _ f_store(2,3)]) (simp_all add: order_stored_def Let_def)
next
  case (f_commit k xs p c ys env corr)
  then show ?case by (intro commit_step [OF _ f_commit(1)]) simp_all
qed (auto intro: queue_step mark_displayed_step start_task_step dispatch_failed_step prepare_step abort_step crash_step)

interpretation ful_sys: inv_system finit "fstep lock_order cfg" "fconc_inv lock_order"
  by unfold_locales (auto intro: fconc_inv_init fstep_inv)

end
