(* ===== verification/Fulfillment_Demo.thy ===== *)
theory Fulfillment_Demo
  imports Fulfillment_Steps
begin

text \<open>
  Fulfillment service: one concrete order, on which the theorems are tried and from which the
  interleaving of the last section starts. It asks for two units of a dish with a recipe of
  one step, so it has two tasks that do not depend on each other.
\<close>

section \<open>The data\<close>

definition fdemo_time :: pydatetime where
  "fdemo_time = \<lparr>dt_us = 63900000000000000, dt_off = Some 0\<rparr>"

definition fdemo_later :: pydatetime where
  "fdemo_later = \<lparr>dt_us = 63900000090000000, dt_off = Some 0\<rparr>"

definition fdemo_cfg :: fsettings where
  "fdemo_cfg = \<lparr>fs_service_name = ''fulfillment-service'', fs_mongo_enabled = True,
     fs_redis_publish_enabled = True, fs_stream_prefix = ''stream:kitchen''\<rparr>"

definition fdemo_env :: fenv where
  "fdemo_env = \<lparr>fe_now = fdemo_time, fe_db_now = fdemo_time, fe_ids = (\<lambda>n. word_of_nat (n + 1))\<rparr>"

definition fdemo_recipe :: recipe where
  "fdemo_recipe = \<lparr>rc_menu_item_id = 9,
     rc_steps = [\<lparr>rp_station_type = ''grill'', rp_operation = ''cook'', rp_duration = 60, rp_step_order = 1\<rparr>]\<rparr>"

definition fdemo_up :: upstream where
  "fdemo_up = \<lparr>up_kitchen = (\<lambda>_. Http_response 200 (Some \<lparr>kn_status = ''active''\<rparr>)),
     up_menu = (\<lambda>_. Http_response 200 (Some [\<lparr>ms_id = 9, ms_name = ''burger'', ms_status = ''active'', ms_is_available = True\<rparr>])),
     up_recipe = (\<lambda>_ _. Http_response 200 (Some fdemo_recipe))\<rparr>"

definition fdemo_order :: order_create where
  "fdemo_order = \<lparr>oc_kitchen_id = 7, oc_pickup_deadline = None,
     oc_items = [\<lparr>ic_menu_item_id = 9, ic_quantity = 2\<rparr>]\<rparr>"

definition fdemo_world :: fworld where
  "fdemo_world = \<lparr>fw_db = empty_fdb, fw_mongo = \<lparr>m_docs = [], m_script = []\<rparr>, fw_metrics = empty_metrics,
     fw_redis = \<lparr>rd_entries = [], rd_calls = 0, rd_script = (\<lambda>_. Xadd_ok ''1-0'')\<rparr>\<rparr>"

definition fdemo_shown :: "uuid \<Rightarrow> displayed_request" where
  "fdemo_shown kds = \<lparr>md_station_id = 2, md_kds_task_id = kds, md_displayed_at = fdemo_time, md_dispatcher_id = ''d''\<rparr>"

definition fdemo_start :: "uuid \<Rightarrow> start_request" where
  "fdemo_start kds = \<lparr>sq_station_id = 2, sq_kds_task_id = kds, sq_worker = ''w'', sq_started_at = fdemo_time\<rparr>"

definition fdemo_finish :: "uuid \<Rightarrow> finish_request" where
  "fdemo_finish kds = \<lparr>fq_station_id = 2, fq_kds_task_id = kds, fq_worker = ''w'', fq_completed_at = fdemo_later\<rparr>"

section \<open>The order as stored and queued\<close>

definition fdemo_item :: order_item where
  "fdemo_item = \<lparr>oi_id = 2, oi_order_id = 1, oi_menu_item_id = 9, oi_quantity = 2,
     oi_created_at = fdemo_time, oi_updated_at = fdemo_time\<rparr>"

definition fdemo_step :: recipe_step where
  "fdemo_step = \<lparr>rp_station_type = ''grill'', rp_operation = ''cook'', rp_duration = 60, rp_step_order = 1\<rparr>"

definition fdemo_new :: "uuid \<Rightarrow> int \<Rightarrow> ftask" where
  "fdemo_new i unit = new_task i fdemo_time 1 fdemo_item unit fdemo_step"

definition fdemo_stored :: stored_order where
  "fdemo_stored = \<lparr>so_order = new_order fdemo_env fdemo_order, so_items = [fdemo_item],
     so_tasks = [fdemo_new 3 1, fdemo_new 4 2], so_deps = []\<rparr>"

definition fdemo_db :: "order_status \<Rightarrow> ftask list \<Rightarrow> fdb" where
  "fdemo_db st ts = \<lparr>f_orders = [(new_order fdemo_env fdemo_order)\<lparr>o_status := st\<rparr>], f_items = [fdemo_item], f_tasks = ts, f_deps = []\<rparr>"

lemma fdemo_new_simps [simp]:
  "ft_id (fdemo_new i u) = i" "ft_order_id (fdemo_new i u) = 1" "ft_status (fdemo_new i u) = Tk_created"
  "ft_order_item_id (fdemo_new i u) = 2" "ft_menu_item_id (fdemo_new i u) = 9"
  "ft_station_type (fdemo_new i u) = ''grill''" "ft_duration (fdemo_new i u) = 60"
  by (simp_all add: fdemo_new_def new_task_def fdemo_item_def fdemo_step_def)

lemma fdemo_order_simps [simp]:
  "o_id (new_order fdemo_env fdemo_order) = 1" "o_kitchen_id (new_order fdemo_env fdemo_order) = 7"
  "o_status (new_order fdemo_env fdemo_order) = Ord_created" "oi_id fdemo_item = 2"
  "order_row (new_order fdemo_env fdemo_order) = new_order fdemo_env fdemo_order"
  "fe_db_now fdemo_env = fdemo_time" "fe_now fdemo_env = fdemo_time"
  by (simp_all add: new_order_def fdemo_env_def fdemo_order_def fdemo_item_def order_row_def)

definition fdemo_recipes :: "uuid \<rightharpoonup> recipe" where
  "fdemo_recipes = [9 \<mapsto> fdemo_recipe]"

definition fdemo_names :: "uuid \<rightharpoonup> string" where
  "fdemo_names = [9 \<mapsto> ''burger'']"

lemma fdemo_valid: "valid_order_create fdemo_order"
  by (simp add: valid_order_create_def fdemo_order_def)

lemma fdemo_checks: "order_checks fdemo_up fdemo_order = Inr (fdemo_recipes, fdemo_names)"
  by (simp add: order_checks_def fdemo_up_def fdemo_order_def client_get_kitchen_def client_get_menu_def
      client_get_recipe_def raises_for_status_def available_ids_def menu_item_names_def valid_recipe_def
      fdemo_recipe_def fdemo_recipes_def fdemo_names_def)

lemma fdemo_store:
  "store_order fdemo_env fdemo_order fdemo_recipes empty_fdb
     = Inr (fdemo_stored, fdemo_db Ord_created [fdemo_new 3 1, fdemo_new 4 2])"
proof -
  have items: "new_items fdemo_env 1 (Suc 0) (oc_items fdemo_order) = [fdemo_item]"
    by (simp add: fdemo_order_def fdemo_env_def fdemo_item_def)
  have units: "[1..2] = [1, 2 :: int]" by (simp add: upto_rec1)
  have built: "build_items (fe_ids fdemo_env) fdemo_time 1 fdemo_recipes (Suc (Suc 0)) [fdemo_item]
      = Some ([fdemo_new 3 1, fdemo_new 4 2], [])"
    by (simp add: units fdemo_item_def fdemo_recipes_def fdemo_recipe_def fdemo_new_def fdemo_env_def fdemo_step_def numeral_2_eq_2)
  have ins: "insert_ftask (fdemo_new i u) db = Inr (db\<lparr>f_tasks := f_tasks db @ [fdemo_new i u]\<rparr>)"
    if "u \<in> {1, 2}" "1 \<in> o_id ` set (f_orders db)" "2 \<in> oi_id ` set (f_items db)" "i \<notin> ft_id ` set (f_tasks db)" for i u db
    using that by (auto simp: insert_ftask_def ftask_fits_def ftask_checks_def fdemo_new_def new_task_def
        fdemo_item_def fdemo_step_def pg_text_def pg_int4_def image_iff)
  have item: "oi_quantity fdemo_item = 2" "oi_order_id fdemo_item = 1" by (simp_all add: fdemo_item_def)
  have ord: "(new_order fdemo_env fdemo_order)\<lparr>o_status := Ord_created\<rparr> = new_order fdemo_env fdemo_order"
    by (simp add: new_order_def)
  show ?thesis
    by (simp add: store_order_def items built insert_order_def insert_item_def fdemo_stored_def fdemo_db_def
        empty_fdb_def ins item ord pg_int4_def Let_def del: build_items.simps new_items.simps)
qed

section \<open>The progress of its tasks\<close>

definition fdemo_stream :: string where
  "fdemo_stream = build_task_stream_name 7 ''grill'' ''stream:kitchen''"

definition fdemo_queued :: "uuid \<Rightarrow> int \<Rightarrow> ftask" where
  "fdemo_queued i u = queued_row fdemo_time fdemo_time fdemo_stream ''1-0'' (fdemo_new i u)"

definition fdemo_displayed :: "uuid \<Rightarrow> int \<Rightarrow> ftask" where
  "fdemo_displayed i u = saved_row fdemo_time (displayed_task (fdemo_shown i) (fdemo_queued i u))"

definition fdemo_started :: "uuid \<Rightarrow> int \<Rightarrow> ftask" where
  "fdemo_started i u =
     saved_row fdemo_time (started_task (fdemo_start i) \<lparr>dt_us = 63900000060000000, dt_off = Some 0\<rparr> (fdemo_displayed i u))"

definition fdemo_finished :: "uuid \<Rightarrow> int \<Rightarrow> ftask" where
  "fdemo_finished i u =
     finished_task fdemo_later fdemo_time (Some \<lparr>dt_us = 63900000060000000, dt_off = Some 0\<rparr>) (fdemo_started i u)"

lemmas fdemo_rows = fdemo_queued_def fdemo_displayed_def fdemo_started_def fdemo_finished_def

lemma fdemo_row_simps [simp]:
  "ft_id (fdemo_queued i u) = i" "ft_id (fdemo_displayed i u) = i" "ft_id (fdemo_started i u) = i" "ft_id (fdemo_finished i u) = i"
  "ft_order_id (fdemo_queued i u) = 1" "ft_order_id (fdemo_displayed i u) = 1"
  "ft_order_id (fdemo_started i u) = 1" "ft_order_id (fdemo_finished i u) = 1"
  "ft_status (fdemo_queued i u) = Tk_queued" "ft_status (fdemo_displayed i u) = Tk_displayed"
  "ft_status (fdemo_started i u) = Tk_in_progress" "ft_status (fdemo_finished i u) = Tk_done"
  "ft_duration (fdemo_displayed i u) = 60" "ft_duration (fdemo_started i u) = 60"
  "ft_station_id (fdemo_displayed i u) = Some 2" "ft_kds_task_id (fdemo_displayed i u) = Some i"
  "ft_station_id (fdemo_started i u) = Some 2" "ft_kds_task_id (fdemo_started i u) = Some i"
  "ft_started_at (fdemo_started i u) = Some fdemo_time"
  "ft_sla_deadline_at (fdemo_started i u) = Some \<lparr>dt_us = 63900000060000000, dt_off = Some 0\<rparr>"
  by (simp_all add: fdemo_rows saved_row_def ftask_row_def displayed_task_def started_task_def finished_task_def
      queued_row_def fdemo_shown_def fdemo_start_def pg_timestamptz_def dt_utc_def dt_instant_def fdemo_time_def
      del: ftask_row_simps)

lemma fdemo_load:
  "load_task (fdemo_db st ts) i = (case find_row ft_id i ts of None \<Rightarrow> None
     | Some t \<Rightarrow> if ft_order_id t = 1 then Some (t, (new_order fdemo_env fdemo_order)\<lparr>o_status := st\<rparr>) else None)"
  by (simp add: load_task_def get_ftask_row_def get_order_row_def fdemo_db_def split: option.split)

lemma fdemo_save:
  "save_task now t (fdemo_db st ts) = fdemo_db st (update_row ft_id (ft_id t) (\<lambda>_. saved_row now t) ts)"
  "set_order_status now ((new_order fdemo_env fdemo_order)\<lparr>o_status := st\<rparr>) st' (fdemo_db st ts)
     = (if st = st' then fdemo_db st ts
        else fdemo_db st ts\<lparr>f_orders := [(new_order fdemo_env fdemo_order)\<lparr>o_status := st', o_updated_at := now\<rparr>]\<rparr>)"
  by (simp_all add: save_task_def upd_ftask_def fdemo_db_def saved_row_def set_order_status_def upd_order_def)

lemma fdemo_order_now: "(new_order fdemo_env fdemo_order)\<lparr>o_status := st, o_updated_at := fdemo_time\<rparr>
   = (new_order fdemo_env fdemo_order)\<lparr>o_status := st\<rparr>"
  by (simp add: new_order_def fdemo_env_def)

lemma fdemo_cook:
  "set_order_status fdemo_time ((new_order fdemo_env fdemo_order)\<lparr>o_status := st\<rparr>) st' (fdemo_db st ts) = fdemo_db st' ts"
  by (auto simp: fdemo_save fdemo_order_now) (simp add: fdemo_db_def)

section \<open>The handlers on it\<close>

lemma fdemo_show_run:
  assumes "find_row ft_id i ts = Some (fdemo_queued i u)" and db: "fw_db w = fdemo_db st ts"
  obtains w' where "mark_displayed fdemo_cfg fdemo_env corr i (fdemo_shown i) w
      = (Inr (mark_displayed_response (displayed_task (fdemo_shown i) (fdemo_queued i u))), w')"
    "fw_db w' = fdemo_db st (update_row ft_id i (\<lambda>_. fdemo_displayed i u) ts)"
  using assms
  by (simp add: mark_displayed_def fdemo_load require_transition_def fdemo_save fdemo_displayed_def Let_def)

lemma fdemo_start_run:
  assumes "find_row ft_id i ts = Some (fdemo_displayed i u)" and db: "fw_db w = fdemo_db st ts"
  obtains r w' where "start_task fdemo_cfg fdemo_env corr i (fdemo_start i) w = (Inr r, w')"
    "fw_db w' = fdemo_db Ord_cooking (update_row ft_id i (\<lambda>_. fdemo_started i u) ts)"
proof -
  have sla: "dt_add_seconds fdemo_time 60 = Some \<lparr>dt_us = 63900000060000000, dt_off = Some 0\<rparr>"
    by (simp add: dt_add_seconds_def fdemo_time_def dt_in_range_def dt_max_us_def)
  show ?thesis
    using assms that
    by (simp add: start_task_def fdemo_load require_transition_def fdemo_save(1) fdemo_started_def Let_def
        validate_same_station_and_kds_def fdemo_start_def sla fdemo_cook)
qed

lemma fdemo_finish_prepare:
  assumes "find_row ft_id i ts = Some (fdemo_started i u)" and u: "pg_int4 u"
  shows "complete_prepare fdemo_env i (fdemo_finish i) (fdemo_db st ts) =
    Inr (Inr \<lparr>cm_task = fdemo_finished i u, cm_order = (new_order fdemo_env fdemo_order)\<lparr>o_status := st\<rparr>,
      cm_ready = all_order_tasks_done (fdemo_db st (update_row ft_id i (\<lambda>_. saved_row fdemo_time (fdemo_finished i u)) ts)) 1,
      cm_count = (if all_order_tasks_done (fdemo_db st (update_row ft_id i (\<lambda>_. saved_row fdemo_time (fdemo_finished i u)) ts)) 1
         then completed_order_tasks_count (fdemo_db st (update_row ft_id i (\<lambda>_. saved_row fdemo_time (fdemo_finished i u)) ts)) 1 else 0)\<rparr>)"
proof -
  have t: "dt_instant fdemo_time = 63900000000000000" "dt_instant fdemo_later = 63900000090000000"
    "as_utc (Some fdemo_time) = Some fdemo_time" "as_utc (Some fdemo_later) = Some fdemo_later"
    by (simp_all add: dt_instant_def fdemo_time_def fdemo_later_def as_utc_def)
  have s: "as_utc (Some \<lparr>dt_us = n, dt_off = Some 0\<rparr>) = Some \<lparr>dt_us = n, dt_off = Some 0\<rparr>" for n
    by (simp add: as_utc_def)
  have "pg_text 255 fdemo_stream"
    by (simp add: fdemo_stream_def build_task_stream_name_def pg_text_def)
  then have fits: "ftask_fits (fdemo_finished i u)"
    using u by (simp add: ftask_fits_def fdemo_rows saved_row_def ftask_row_def displayed_task_def started_task_def
        finished_task_def queued_row_def fdemo_new_def new_task_def fdemo_item_def fdemo_step_def fdemo_time_def
        fdemo_later_def dt_instant_def int_total_seconds_def pg_int4_def pg_text_def)
  show ?thesis
    using assms fits
    by (simp add: complete_prepare_def fdemo_load require_transition_def validate_same_station_and_kds_def
        fdemo_finish_def t s fdemo_save(1) Let_def fdemo_finished_def [symmetric])
qed

section \<open>In the system\<close>

lemma fdemo_publish:
  "\<exists>w. publish_and_queue fdemo_cfg fdemo_env corr (so_order fdemo_stored) (so_tasks fdemo_stored) fdemo_names
       (order_stored fdemo_cfg fdemo_env corr fdemo_stored (fdemo_db Ord_created [fdemo_new 3 1, fdemo_new 4 2]) fdemo_world) = (Inr 2, w)
    \<and> fw_db w = fdemo_db Ord_created [fdemo_queued 3 1, fdemo_queued 4 2]"
proof -
  have fits: "pg_text 255 fdemo_stream" "pg_text 128 ''1-0''"
    by (simp_all add: fdemo_stream_def build_task_stream_name_def pg_text_def)
  show ?thesis
    by (simp add: publish_and_queue_def fdemo_cfg_def order_stored_def fdemo_stored_def fdemo_world_def publish_task_def
        xadd_def fits Let_def fdemo_stream_def [symmetric] split: prod.split)
      (simp add: upd_ftask_def fdemo_db_def fdemo_queued_def)
qed

lemma fdemo_reaches_queued:
  assumes "init \<lparr>fx_world = fdemo_world, fx_pub = [], fx_open = []\<rparr>"
  shows "\<exists>k. reach init (fstep lock_order fdemo_cfg) k \<and> fw_db (fx_world k) = fdemo_db Ord_created [fdemo_queued 3 1, fdemo_queued 4 2]
     \<and> fx_pub k = [] \<and> fx_open k = []"
proof -
  let ?k0 = "\<lparr>fx_world = fdemo_world, fx_pub = [], fx_open = []\<rparr>"
  let ?w1 = "order_stored fdemo_cfg fdemo_env None fdemo_stored (fdemo_db Ord_created [fdemo_new 3 1, fdemo_new 4 2]) fdemo_world"
  let ?k1 = "?k0\<lparr>fx_world := ?w1, fx_pub := [(fdemo_stored, fdemo_names)]\<rparr>"
  have "reach init (fstep lock_order fdemo_cfg) ?k0"
    by (rule reach_init) (rule assms)
  moreover have "fstep lock_order fdemo_cfg ?k0 ?k1"
    using f_store [OF fdemo_valid fdemo_checks, of fdemo_env ?k0] fdemo_store by (simp add: fdemo_world_def)
  ultimately have r1: "reach init (fstep lock_order fdemo_cfg) ?k1" by (rule reach_step)
  obtain w where w: "publish_and_queue fdemo_cfg fdemo_env None (so_order fdemo_stored) (so_tasks fdemo_stored) fdemo_names ?w1 = (Inr 2, w)"
    "fw_db w = fdemo_db Ord_created [fdemo_queued 3 1, fdemo_queued 4 2]" using fdemo_publish by blast
  have "fstep lock_order fdemo_cfg ?k1 (?k1\<lparr>fx_world := w, fx_pub := [] @ []\<rparr>)"
    by (rule f_queue) (use w in simp_all)
  with r1 w show ?thesis by (intro exI [of _ "?k1\<lparr>fx_world := w, fx_pub := []\<rparr>"]) (auto intro: reach_step)
qed

lemma fdemo_reach_queued:
  "\<exists>k. reach finit (fstep lock_order fdemo_cfg) k \<and> fw_db (fx_world k) = fdemo_db Ord_created [fdemo_queued 3 1, fdemo_queued 4 2]
     \<and> fx_pub k = [] \<and> fx_open k = []"
  by (rule fdemo_reaches_queued) (simp add: finit_def fdemo_world_def)

lemma fdemo_reach_show:
  assumes "reach finit (fstep lock_order fdemo_cfg) k" and "fw_db (fx_world k) = fdemo_db st ts" and "fx_open k = []"
    and "find_row ft_id i ts = Some (fdemo_queued i u)"
  shows "\<exists>k'. reach finit (fstep lock_order fdemo_cfg) k' \<and> fx_pub k' = fx_pub k \<and> fx_open k' = []
    \<and> fw_db (fx_world k') = fdemo_db st (update_row ft_id i (\<lambda>_. fdemo_displayed i u) ts)"
proof -
  obtain w where "mark_displayed fdemo_cfg fdemo_env None i (fdemo_shown i) (fx_world k)
      = (Inr (mark_displayed_response (displayed_task (fdemo_shown i) (fdemo_queued i u))), w)"
    "fw_db w = fdemo_db st (update_row ft_id i (\<lambda>_. fdemo_displayed i u) ts)"
    by (rule fdemo_show_run [OF assms(4,2)])
  moreover from this(1) have "fstep lock_order fdemo_cfg k (k\<lparr>fx_world := w\<rparr>)"
    by (rule f_displayed [rotated]) (simp add: locked_tasks_def assms(3))
  ultimately show ?thesis
    using reach_step [OF assms(1)] assms(3) by (intro exI [of _ "k\<lparr>fx_world := w\<rparr>"]) simp
qed

lemma fdemo_reach_start:
  assumes "reach finit (fstep lock_order fdemo_cfg) k" and "fw_db (fx_world k) = fdemo_db st ts" and "fx_open k = []"
    and "find_row ft_id i ts = Some (fdemo_displayed i u)"
  shows "\<exists>k'. reach finit (fstep lock_order fdemo_cfg) k' \<and> fx_pub k' = fx_pub k \<and> fx_open k' = []
    \<and> fw_db (fx_world k') = fdemo_db Ord_cooking (update_row ft_id i (\<lambda>_. fdemo_started i u) ts)"
proof -
  obtain r w where "start_task fdemo_cfg fdemo_env None i (fdemo_start i) (fx_world k) = (Inr r, w)"
    "fw_db w = fdemo_db Ord_cooking (update_row ft_id i (\<lambda>_. fdemo_started i u) ts)"
    by (rule fdemo_start_run [OF assms(4,2)])
  moreover from this(1) have "fstep lock_order fdemo_cfg k (k\<lparr>fx_world := w\<rparr>)"
    by (rule f_start [rotated]) (simp add: locked_tasks_def assms(3))
  ultimately show ?thesis
    using reach_step [OF assms(1)] assms(3) by (intro exI [of _ "k\<lparr>fx_world := w\<rparr>"]) simp
qed

text \<open>Both tasks in progress, with no request running.\<close>

lemma fdemo_reach_cooking:
  "\<exists>k. reach finit (fstep lock_order fdemo_cfg) k \<and> fw_db (fx_world k) = fdemo_db Ord_cooking [fdemo_started 3 1, fdemo_started 4 2]
     \<and> fx_pub k = [] \<and> fx_open k = []"
proof -
  let ?R = "reach finit (fstep lock_order fdemo_cfg)"
  obtain k0 where k0: "?R k0" "fw_db (fx_world k0) = fdemo_db Ord_created [fdemo_queued 3 1, fdemo_queued 4 2]"
    "fx_pub k0 = []" "fx_open k0 = []" using fdemo_reach_queued by blast
  obtain k1 where k1: "?R k1" "fx_pub k1 = []" "fx_open k1 = []"
    "fw_db (fx_world k1) = fdemo_db Ord_created [fdemo_displayed 3 1, fdemo_queued 4 2]"
    using fdemo_reach_show [OF k0(1,2,4), of 3 1] k0(3) by auto
  obtain k2 where k2: "?R k2" "fx_pub k2 = []" "fx_open k2 = []"
    "fw_db (fx_world k2) = fdemo_db Ord_created [fdemo_displayed 3 1, fdemo_displayed 4 2]"
    using fdemo_reach_show [OF k1(1,4,3), of 4 2] k1(2) by auto
  obtain k3 where k3: "?R k3" "fx_pub k3 = []" "fx_open k3 = []"
    "fw_db (fx_world k3) = fdemo_db Ord_cooking [fdemo_started 3 1, fdemo_displayed 4 2]"
    using fdemo_reach_start [OF k2(1,4,3), of 3 1] k2(2) by auto
  obtain k4 where "?R k4" "fx_pub k4 = []" "fx_open k4 = []"
    "fw_db (fx_world k4) = fdemo_db Ord_cooking [fdemo_started 3 1, fdemo_started 4 2]"
    using fdemo_reach_start [OF k3(1,4,3), of 4 2] k3(2) by auto
  then show ?thesis by blast
qed

end
