(* ===== verification/Fulfillment_Ready.thy ===== *)
theory Fulfillment_Ready
  imports Fulfillment_Demo
begin

text \<open>
  Fulfillment service: when an order becomes ready for pickup. With a lock on the order it is
  ready exactly when it has tasks and all are done; with the locks the code takes two
  completions of its last tasks can each miss the other, and then nothing makes it ready.
\<close>

section \<open>Orders that have been missed\<close>

definition missed_order :: "uuid \<Rightarrow> fconc \<Rightarrow> bool" where
  "missed_order oid k =
     (let db = fw_db (fx_world k)
      in oid \<in> o_id ` set (f_orders db) \<and> has_tasks db oid \<and> unfinished db oid = 0 \<and> oid \<notin> locked_orders k
         \<and> (\<forall>r \<in> set (f_orders db). o_id r = oid \<longrightarrow> o_status r \<noteq> Ord_ready_for_pickup))"

text \<open>The rows of the order stay as they are.\<close>

definition same_order :: "uuid \<Rightarrow> fdb \<Rightarrow> fdb \<Rightarrow> bool" where
  "same_order oid db db' =
     (o_id ` set (f_orders db) \<subseteq> o_id ` set (f_orders db')
      \<and> (\<forall>r \<in> set (f_orders db'). o_id r = oid \<longrightarrow> r \<in> set (f_orders db)))"

lemma same_order_refl: "f_orders db' = f_orders db \<Longrightarrow> same_order oid db db'"
  by (simp add: same_order_def)

lemma same_order_set_status: "o_id r \<noteq> oid \<Longrightarrow> same_order oid db (set_order_status now r st db)"
proof -
  assume r: "o_id r \<noteq> oid"
  have "map o_id (f_orders (set_order_status now r st db)) = map o_id (f_orders db)"
    by (simp add: orders_set_order_status map_key_update_row [where g = o_id])
  then have "o_id ` set (f_orders (set_order_status now r st db)) = o_id ` set (f_orders db)" by (metis list.set_map)
  moreover have "x \<in> set (f_orders db)" if "x \<in> set (f_orders (set_order_status now r st db))" "o_id x = oid" for x
    using that r by (auto simp: orders_set_order_status split: if_splits elim!: set_update_rowE)
  ultimately show ?thesis by (simp add: same_order_def)
qed

lemma missed_keep:
  assumes "missed_order oid k" and "same_order oid (fw_db (fx_world k)) (fw_db (fx_world k'))"
    and "unfinished (fw_db (fx_world k')) oid = unfinished (fw_db (fx_world k)) oid"
    and "has_tasks (fw_db (fx_world k')) oid = has_tasks (fw_db (fx_world k)) oid"
    and "locked_orders k' \<subseteq> insert other (locked_orders k)" and "other \<noteq> oid"
  shows "missed_order oid k'"
  using assms by (auto simp: missed_order_def same_order_def Let_def)

lemma missed_other:
  "missed_order oid k \<Longrightarrow> t \<in> set (f_tasks (fw_db (fx_world k))) \<Longrightarrow> ft_status t \<noteq> Tk_done \<Longrightarrow> ft_order_id t \<noteq> oid"
  using unfinished_pos [of t "fw_db (fx_world k)"] by (auto simp: missed_order_def Let_def)

text \<open>A request that changes the progress of no order and no row of this one.\<close>

lemma missed_keep_world:
  assumes m: "missed_order oid k" and sp: "same_progress tid (fw_db (fx_world k)) (fw_db w)"
    and so: "same_order oid (fw_db (fx_world k)) (fw_db w)"
  shows "missed_order oid (k\<lparr>fx_world := w\<rparr>)"
  by (rule missed_keep [OF m, where other = "oid + 1"])
    (use sp so in \<open>auto simp: same_progress_def locked_orders_def\<close>)

section \<open>A missed order stays missed\<close>

lemma missed_displayed:
  assumes inv: "fconc_inv lock_order k" and m: "missed_order oid k"
    and run: "mark_displayed cfg env corr tid p (fx_world k) = (res, w)"
  shows "missed_order oid (k\<lparr>fx_world := w\<rparr>)"
proof -
  have f: "f_inv (fw_db (fx_world k))" using inv by (simp add: fconc_inv_def)
  from mark_displayed_db [OF run] show ?thesis
  proof (elim disjE exE conjE)
    assume "fw_db w = fw_db (fx_world k)"
    then show ?thesis by (intro missed_keep_world [OF m]) (simp_all add: same_order_refl)
  next
    fix t r assume load: "load_task (fw_db (fx_world k)) tid = Some (t, r)" and st: "can_transition (ft_status t) Tk_displayed"
      and db: "fw_db w = save_task (fe_db_now env) (displayed_task p t) (fw_db (fx_world k))"
    have "same_progress tid (fw_db (fx_world k)) (fw_db w)"
      unfolding db by (rule save_unfinished [OF f load]) (use st in auto)
    then show ?thesis by (rule missed_keep_world [OF m]) (simp add: same_order_refl db)
  qed
qed

lemma missed_failed:
  assumes inv: "fconc_inv lock_order k" and m: "missed_order oid k"
    and run: "dispatch_failed cfg env corr tid p (fx_world k) = (res, w)"
  shows "missed_order oid (k\<lparr>fx_world := w\<rparr>)"
proof -
  have f: "f_inv (fw_db (fx_world k))" using inv by (simp add: fconc_inv_def)
  from dispatch_failed_db [OF run] show ?thesis
  proof (elim disjE exE conjE)
    assume "fw_db w = fw_db (fx_world k)"
    then show ?thesis by (intro missed_keep_world [OF m]) (simp_all add: same_order_refl)
  next
    fix t r assume load: "load_task (fw_db (fx_world k)) tid = Some (t, r)" and st: "can_transition (ft_status t) Tk_failed"
      and db: "fw_db w = save_task (fe_db_now env) (failed_task (df_attempts p) t) (fw_db (fx_world k))"
    have "same_progress tid (fw_db (fx_world k)) (fw_db w)"
      unfolding db by (rule save_unfinished [OF f load]) (use st in auto)
    then show ?thesis by (rule missed_keep_world [OF m]) (simp add: same_order_refl db)
  qed
qed

lemma missed_start:
  assumes inv: "fconc_inv lock_order k" and m: "missed_order oid k"
    and run: "start_task cfg env corr tid p (fx_world k) = (res, w)"
  shows "missed_order oid (k\<lparr>fx_world := w\<rparr>)"
proof -
  have f: "f_inv (fw_db (fx_world k))" using inv by (simp add: fconc_inv_def)
  from start_task_db [OF run] show ?thesis
  proof (elim disjE exE conjE)
    assume "fw_db w = fw_db (fx_world k)"
    then show ?thesis by (intro missed_keep_world [OF m]) (simp_all add: same_order_refl)
  next
    fix t r sla assume load: "load_task (fw_db (fx_world k)) tid = Some (t, r)" and st: "can_transition (ft_status t) Tk_in_progress"
      and db: "fw_db w = set_order_status (fe_db_now env) r Ord_cooking (save_task (fe_db_now env) (started_task p sla t) (fw_db (fx_world k)))"
    note l = load_task_SomeD [OF load]
    have sp: "same_progress tid (fw_db (fx_world k)) (fw_db w)"
      unfolding db by (rule cook_unfinished [OF f load]) (use st in auto)
    have "o_id r \<noteq> oid" using missed_other [OF m l(3)] st l(5) by simp
    from same_order_set_status [OF this, of "save_task (fe_db_now env) (started_task p sla t) (fw_db (fx_world k))"]
    have "same_order oid (fw_db (fx_world k)) (fw_db w)" by (simp add: db same_order_def)
    with sp show ?thesis by (rule missed_keep_world [OF m])
  qed
qed

lemma missed_store:
  assumes inv: "fconc_inv lock_order k" and m: "missed_order oid k"
    and checks: "order_checks up p = Inr (recipes, names)"
    and run: "store_order env p recipes (fw_db (fx_world k)) = Inr (so, db)" and w: "fw_db w = db"
  shows "missed_order oid (k\<lparr>fx_world := w, fx_pub := pub\<rparr>)"
proof -
  note n = store_order_new [OF run order_checks_known [OF checks]]
  have new: "o_id (so_order so) \<noteq> oid" using m n(3) by (auto simp: missed_order_def Let_def)
  have "unfinished db oid = unfinished (fw_db (fx_world k)) oid \<and> has_tasks db oid = has_tasks (fw_db (fx_world k)) oid"
    by (rule unfinished_appended [OF n(2)]) (use n(5) new in auto)
  moreover have "same_order oid (fw_db (fx_world k)) db"
    using new by (auto simp: same_order_def n(1) order_row_def)
  ultimately show ?thesis
    by (intro missed_keep [OF m, where other = "oid + 1"]) (auto simp: w locked_orders_def)
qed

lemma missed_queue:
  assumes inv: "fconc_inv lock_order k" and m: "missed_order oid k" and k: "fx_pub k = xs @ (so, names) # ys"
    and run: "publish_and_queue cfg env corr (so_order so) (so_tasks so) names (fx_world k) = (res, w)"
  shows "missed_order oid (k\<lparr>fx_world := w, fx_pub := pub\<rparr>)"
  using run
proof (rule publish_and_queue_db)
  assume "fw_db w = fw_db (fx_world k)"
  then show ?thesis
    by (intro missed_keep [OF m, where other = "oid + 1"]) (auto simp: same_order_refl locked_orders_def)
next
  fix ps assume ps: "map fst ps = so_tasks so" and mark: "mark_tasks_queued env ps (fw_db (fx_world k)) = Inr (fw_db w)"
  have "f_orders (fw_db w) = f_orders (fw_db (fx_world k))"
    and "unfinished (fw_db w) oid = unfinished (fw_db (fx_world k)) oid"
    and "has_tasks (fw_db w) oid = has_tasks (fw_db (fx_world k)) oid"
    using queue_marks [OF inv k ps mark] by auto
  then show ?thesis
    by (intro missed_keep [OF m, where other = "oid + 1"]) (auto simp: same_order_refl locked_orders_def)
qed

lemma missed_prepare:
  assumes m: "missed_order oid k" and run: "complete_prepare env tid p (fw_db (fx_world k)) = Inr (Inr c)"
  shows "missed_order oid (k\<lparr>fx_open := (p, c) # fx_open k\<rparr>)"
proof -
  obtain t r where load: "load_task (fw_db (fx_world k)) tid = Some (t, r)" and st: "can_transition (ft_status t) Tk_done"
    and c: "ft_order_id (cm_task c) = ft_order_id t"
    by (rule complete_prepare_ok [OF run]) simp
  have "ft_order_id (cm_task c) \<noteq> oid" using missed_other [OF m load_task_SomeD(3) [OF load]] st c by simp
  then show ?thesis
    by (intro missed_keep [OF m, where other = "ft_order_id (cm_task c)"]) (auto simp: same_order_refl locked_orders_def)
qed

lemma missed_commit:
  assumes inv: "fconc_inv lock_order k" and m: "missed_order oid k" and k: "fx_open k = xs @ (p, c) # ys"
    and w: "fw_db w = complete_apply env c (fw_db (fx_world k))"
  shows "missed_order oid (k\<lparr>fx_world := w, fx_open := xs @ ys\<rparr>)"
proof -
  let ?db = "fw_db (fx_world k)"
  have f: "f_inv ?db" and ok: "open_ok lock_order ?db c" using inv k by (auto simp: fconc_inv_def)
  obtain t where row: "get_ftask_row ?db (ft_id (cm_task c)) = Some t" and oid: "ft_order_id (cm_task c) = ft_order_id t"
    "o_id (cm_order c) = ft_order_id t" using ok by (auto simp: open_ok_def)
  have other: "ft_order_id (cm_task c) \<noteq> oid" using m k by (auto simp: missed_order_def locked_orders_def Let_def)
  have "unfinished (fw_db w) oid = unfinished ?db oid"
    unfolding w by (rule complete_apply_unfinished [OF f ok]) (use other in simp)
  moreover have "has_tasks (save_task (fe_db_now env) (cm_task c) ?db) oid = has_tasks ?db oid"
    by (rule has_tasks_save_task [OF row _ oid(1)]) (use f in \<open>simp add: f_inv_def\<close>)
  then have "has_tasks (fw_db w) oid = has_tasks ?db oid"
    by (simp add: w complete_apply_def Let_def has_tasks_def)
  moreover have "same_order oid ?db (fw_db w)"
  proof (cases "cm_ready c")
    case True
    have "same_order oid (save_task (fe_db_now env) (cm_task c) ?db) (fw_db w)"
      unfolding w complete_apply_def using True other oid by (simp add: same_order_set_status)
    then show ?thesis by (simp add: same_order_def)
  next
    case False
    then show ?thesis by (simp add: w complete_apply_def same_order_refl)
  qed
  ultimately show ?thesis
    by (intro missed_keep [OF m, where other = "oid + 1"]) (auto simp: locked_orders_def k)
qed

lemma missed_step:
  "fstep lock_order cfg k k' \<Longrightarrow> fconc_inv lock_order k \<Longrightarrow> missed_order oid k \<Longrightarrow> missed_order oid k'"
proof (induction rule: fstep.induct)
  case (f_store p up recipes names env k so db corr)
  then show ?case by (intro missed_store [OF _ _ f_store(2,3)]) (simp_all add: order_stored_def Let_def)
next
  case (f_commit k xs p c ys env corr)
  then show ?case by (intro missed_commit [OF _ _ f_commit(1)]) simp_all
next
  case (f_abort k xs p c ys)
  show ?case
    by (rule missed_keep [OF f_abort(3), where other = "oid + 1"])
      (auto simp: same_order_refl locked_orders_def f_abort(1))
next
  case (f_crash k xs e ys)
  show ?case
    by (rule missed_keep [OF f_crash(3), where other = "oid + 1"])
      (auto simp: same_order_refl locked_orders_def f_crash(1))
next
  case (f_queue k xs so names ys env corr res w)
  then show ?case by (intro missed_queue [OF _ _ f_queue(1,2)])
next
  case (f_displayed tid k env corr p res w)
  then show ?case by (intro missed_displayed [OF _ _ f_displayed(2)])
next
  case (f_start tid k env corr p res w)
  then show ?case by (intro missed_start [OF _ _ f_start(2)])
next
  case (f_failed tid k env corr p res w)
  then show ?case by (intro missed_failed [OF _ _ f_failed(2)])
next
  case (f_prepare tid k env p c)
  then show ?case by (intro missed_prepare [OF _ f_prepare(2)])
qed

interpretation ful_missed: stable_system finit "fstep lock_order cfg" "fconc_inv lock_order" "missed_order oid"
  by unfold_locales (rule missed_step)

end
