(* ===== verification/Fulfillment_Ready_Props.thy ===== *)
theory Fulfillment_Ready_Props
  imports Fulfillment_Ready
begin

text \<open>
  Fulfillment service: the theorems on finished tasks and ready orders, with their instances
  on the order of \<open>Fulfillment_Demo\<close>.
\<close>

section \<open>Two completions side by side\<close>

lemma fdemo_finished_row [simp]:
  "saved_row fdemo_time (fdemo_finished i u) = (fdemo_finished i u)\<lparr>ft_updated_at := fdemo_time\<rparr>"
  by (simp add: saved_row_def ftask_row_def fdemo_rows displayed_task_def started_task_def finished_task_def queued_row_def
      fdemo_shown_def fdemo_start_def pg_timestamptz_def dt_utc_def dt_instant_def fdemo_time_def fdemo_later_def
      fdemo_new_def new_task_def)

definition fdemo_miss :: "uuid \<Rightarrow> int \<Rightarrow> completion" where
  "fdemo_miss i u = \<lparr>cm_task = fdemo_finished i u, cm_order = (new_order fdemo_env fdemo_order)\<lparr>o_status := Ord_cooking\<rparr>,
     cm_ready = False, cm_count = 0\<rparr>"

lemma fdemo_miss_prepare:
  "complete_prepare fdemo_env 3 (fdemo_finish 3) (fdemo_db Ord_cooking [fdemo_started 3 1, fdemo_started 4 2]) = Inr (Inr (fdemo_miss 3 1))"
  "complete_prepare fdemo_env 4 (fdemo_finish 4) (fdemo_db Ord_cooking [fdemo_started 3 1, fdemo_started 4 2]) = Inr (Inr (fdemo_miss 4 2))"
  by (subst fdemo_finish_prepare [where u = 1], simp, simp add: pg_int4_def,
      simp add: fdemo_miss_def all_order_tasks_done_def fdemo_db_def,
      subst fdemo_finish_prepare [where u = 2], simp, simp add: pg_int4_def,
      simp add: fdemo_miss_def all_order_tasks_done_def fdemo_db_def)

lemma fdemo_miss_apply:
  "complete_apply fdemo_env (fdemo_miss i u) (fdemo_db st ts)
     = fdemo_db st (update_row ft_id i (\<lambda>_. (fdemo_finished i u)\<lparr>ft_updated_at := fdemo_time\<rparr>) ts)"
  by (simp add: complete_apply_def fdemo_miss_def fdemo_save)

lemma fdemo_reach_missed:
  "\<exists>k. reach finit (fstep False fdemo_cfg) k \<and> fx_pub k = [] \<and> fx_open k = [] \<and> missed_order 1 k"
proof -
  let ?R = "reach finit (fstep False fdemo_cfg)"
  obtain k where k: "?R k" "fw_db (fx_world k) = fdemo_db Ord_cooking [fdemo_started 3 1, fdemo_started 4 2]"
    "fx_pub k = []" "fx_open k = []" using fdemo_reach_cooking by blast
  let ?a = "(fdemo_finish 3, fdemo_miss 3 1)" and ?b = "(fdemo_finish 4, fdemo_miss 4 2)"
  let ?k1 = "k\<lparr>fx_open := [?a]\<rparr>" and ?k2 = "k\<lparr>fx_open := [?b, ?a]\<rparr>"
  have "fstep False fdemo_cfg k (k\<lparr>fx_open := ?a # fx_open k\<rparr>)"
    by (rule f_prepare [where tid = 3 and env = fdemo_env]) (simp_all add: locked_tasks_def k fdemo_miss_prepare)
  with k have r1: "?R ?k1" by (auto intro: reach_step)
  have "fstep False fdemo_cfg ?k1 (?k1\<lparr>fx_open := ?b # fx_open ?k1\<rparr>)"
    by (rule f_prepare [where tid = 4 and env = fdemo_env]) (simp_all add: locked_tasks_def k fdemo_miss_prepare, simp add: fdemo_miss_def)
  with r1 have r2: "?R ?k2" by (auto dest: reach_step)
  let ?w3 = "complete_effects fdemo_cfg fdemo_env None (fdemo_finish 4) (fdemo_miss 4 2)
      ((fx_world k)\<lparr>fw_db := complete_apply fdemo_env (fdemo_miss 4 2) (fw_db (fx_world k))\<rparr>)"
  have "fstep False fdemo_cfg ?k2 (?k2\<lparr>fx_world := ?w3, fx_open := [] @ [?a]\<rparr>)"
    using f_commit [of ?k2 "[]" "fdemo_finish 4" "fdemo_miss 4 2" "[?a]" False fdemo_cfg fdemo_env None] by simp
  with r2 have r3: "?R (k\<lparr>fx_world := ?w3, fx_open := [?a]\<rparr>)" by (auto dest: reach_step)
  let ?w4 = "complete_effects fdemo_cfg fdemo_env None (fdemo_finish 3) (fdemo_miss 3 1)
      (?w3\<lparr>fw_db := complete_apply fdemo_env (fdemo_miss 3 1) (fw_db ?w3)\<rparr>)"
  have "fstep False fdemo_cfg (k\<lparr>fx_world := ?w3, fx_open := [?a]\<rparr>) (k\<lparr>fx_world := ?w4, fx_open := []\<rparr>)"
    using f_commit [of "k\<lparr>fx_world := ?w3, fx_open := [?a]\<rparr>" "[]" "fdemo_finish 3" "fdemo_miss 3 1" "[]" False fdemo_cfg fdemo_env None]
    by simp
  with r3 have "?R (k\<lparr>fx_world := ?w4, fx_open := []\<rparr>)" by (auto intro: reach_step)
  moreover have "fw_db ?w4 = fdemo_db Ord_cooking
      [(fdemo_finished 3 1)\<lparr>ft_updated_at := fdemo_time\<rparr>, (fdemo_finished 4 2)\<lparr>ft_updated_at := fdemo_time\<rparr>]"
    by (simp add: k fdemo_miss_apply)
  then have "missed_order 1 (k\<lparr>fx_world := ?w4, fx_open := []\<rparr>)"
    by (simp add: missed_order_def locked_orders_def Let_def) (simp add: fdemo_db_def has_tasks_def unfinished_def)
  ultimately show ?thesis
    using k by (intro exI [of _ "k\<lparr>fx_world := ?w4, fx_open := []\<rparr>"]) simp
qed

text \<open>
  C1. With the locks the code takes (the task rows only) two completions of the last two tasks of an order can
  each count the other task as unfinished: a state is reachable in which every task of an
  order is done, no request is running, and the order is not ready for pickup.
\<close>

theorem completions_miss_each_other:
  "\<exists>k. reach finit (fstep False fdemo_cfg) k \<and> fx_pub k = [] \<and> fx_open k = []
     \<and> (\<exists>r \<in> set (f_orders (fw_db (fx_world k))). has_tasks (fw_db (fx_world k)) (o_id r)
          \<and> all_order_tasks_done (fw_db (fx_world k)) (o_id r) \<and> o_status r \<noteq> Ord_ready_for_pickup)"
proof -
  obtain k where "reach finit (fstep False fdemo_cfg) k" "fx_pub k = []" "fx_open k = []" "missed_order 1 k"
    using fdemo_reach_missed by blast
  moreover from this obtain r where "r \<in> set (f_orders (fw_db (fx_world k)))" "o_id r = 1"
    by (auto simp: missed_order_def Let_def)
  ultimately show ?thesis
    by (intro exI [of _ k] conjI bexI [of _ r]) (simp_all add: missed_order_def Let_def all_done_unfinished)
qed

text \<open>
  C4. Nothing repairs such an order: from a reachable state in which all its tasks are done,
  none of its completions is open and it is not ready for pickup, every later state is of
  the same kind, whatever requests arrive.
\<close>

theorem missed_order_stays_missed:
  fixes k k' :: fconc
  assumes "reach finit (fstep lock_order cfg) k" and "missed_order oid k" and "(fstep lock_order cfg)\<^sup>*\<^sup>* k k'"
  shows "missed_order oid k'"
  using assms ful_missed.steps_stable ful_sys.reach_inv by blast

theorem missed_order_stays_missed_witness:
  "\<exists>k. reach finit (fstep False fdemo_cfg) k \<and> missed_order 1 k \<and> missed_order 1 (k\<lparr>fx_pub := []\<rparr>)"
proof -
  obtain k where k: "reach finit (fstep False fdemo_cfg) k" "missed_order 1 k" "fx_pub k = []"
    using fdemo_reach_missed by blast
  then have "k\<lparr>fx_pub := []\<rparr> = k" by simp
  then have "(fstep False fdemo_cfg)\<^sup>*\<^sup>* k (k\<lparr>fx_pub := []\<rparr>)" by simp
  from missed_order_stays_missed [OF k(1,2) this] k show ?thesis by blast
qed

section \<open>With the order locked\<close>



section \<open>Durations of finished tasks\<close>

text \<open>
  A finished task in any reachable state was displayed, has a start and an end with the
  start not after the end; its actual duration is the whole seconds between them, its deadline the start plus
  the estimate, and its delay by how many seconds the actual duration exceeds the estimate.
\<close>

theorem finished_task_durations:
  fixes k :: fconc
  assumes "reach finit (fstep lock_order cfg) k" and "t \<in> set (f_tasks (fw_db (fx_world k)))" and "ft_status t = Tk_done"
  shows "\<exists>d a s c n. ft_displayed_at t = Some d \<and> ft_started_at t = Some a \<and> ft_sla_deadline_at t = Some s
     \<and> ft_completed_at t = Some c \<and> dt_instant a \<le> dt_instant c
     \<and> dt_instant s = dt_instant a + ft_duration t * 1000000
     \<and> ft_actual_duration t = Some n \<and> n * 1000000 \<le> dt_instant c - dt_instant a
     \<and> dt_instant c - dt_instant a < (n + 1) * 1000000
     \<and> ft_delay t = Some (max 0 (n - ft_duration t))"
proof -
  have ok: "ftask_ok t" using ful_sys.reach_inv [OF assms(1)] assms(2) by (simp add: fconc_inv_def f_inv_def fdb_ok_def)
  obtain d where d: "ft_displayed_at t = Some d" using ok assms(3) by (auto simp: ftask_ok_def)
  obtain a c where a: "ft_started_at t = Some a" "ft_completed_at t = Some c" "dt_instant a \<le> dt_instant c"
    "ft_actual_duration t = Some ((dt_instant c - dt_instant a) div 1000000)"
    "ft_delay t = Some (max 0 ((dt_instant c - dt_instant a) div 1000000 - ft_duration t))"
    using ok assms(3) by (auto simp: ftask_ok_def)
  obtain s where s: "ft_sla_deadline_at t = Some s" "dt_instant s = dt_instant a + ft_duration t * 1000000"
    using ok assms(3) a(1) by (auto simp: ftask_ok_def)
  have "x div 1000000 * 1000000 \<le> x \<and> x < (x div 1000000 + 1) * 1000000" for x :: int by presburger
  from this [of "dt_instant c - dt_instant a"] d a s show ?thesis
    by (intro exI [of _ d] exI [of _ a] exI [of _ s] exI [of _ c]) simp
qed

theorem finished_task_durations_witness:
  "\<exists>k t n. reach finit (fstep False fdemo_cfg) k \<and> t \<in> set (f_tasks (fw_db (fx_world k))) \<and> ft_status t = Tk_done
     \<and> ft_actual_duration t = Some n \<and> ft_delay t = Some (max 0 (n - ft_duration t))"
proof -
  obtain k where k: "reach finit (fstep False fdemo_cfg) k" "missed_order 1 k" using fdemo_reach_missed by blast
  then obtain t where t: "t \<in> set (f_tasks (fw_db (fx_world k)))" "ft_order_id t = 1"
    by (auto simp: missed_order_def has_tasks_def Let_def)
  then have d: "ft_status t = Tk_done" using missed_other [OF k(2)] by blast
  obtain n where "ft_actual_duration t = Some n" "ft_delay t = Some (max 0 (n - ft_duration t))"
    using finished_task_durations [OF k(1) t(1) d] by blast
  with k t d show ?thesis by blast
qed

end
