(* ===== verification/Fulfillment_Machine.thy ===== *)
theory Fulfillment_Machine
  imports Fulfillment_Ready
begin

text \<open>
  Fulfillment service: what the service promises about a task, as an abstract machine on task
  statuses, and that the requests refine it: every step of the concurrent system is a
  sequence of moves of single tasks along the permitted transitions.
\<close>

section \<open>The abstract machine\<close>

type_synonym task_board = "uuid \<rightharpoonup> task_status"

inductive tmove :: "task_board \<Rightarrow> task_board \<Rightarrow> bool" where
  t_create: "m i = None \<Longrightarrow> tmove m (m(i \<mapsto> Tk_created))"
| t_queue: "m i = Some Tk_created \<Longrightarrow> tmove m (m(i \<mapsto> Tk_queued))"
| t_transition: "m i = Some s \<Longrightarrow> can_transition s s' \<Longrightarrow> tmove m (m(i \<mapsto> s'))"

definition board :: "fdb \<Rightarrow> task_board" where
  "board db = (\<lambda>i. map_option ft_status (get_ftask_row db i))"

text \<open>What the machine itself guarantees.\<close>

definition live_status :: "task_status \<Rightarrow> bool" where
  "live_status s = (s \<noteq> Tk_retrying \<and> s \<noteq> Tk_cancelled)"

lemma tmove_final:
  "tmove m m' \<Longrightarrow> m i = Some s \<Longrightarrow> s = Tk_done \<or> s = Tk_failed \<Longrightarrow> m' i = Some s"
  by (cases rule: tmove.cases) (auto simp: can_transition_def allowed_transitions_def)

lemma tmoves_final: "tmove\<^sup>*\<^sup>* m m' \<Longrightarrow> m i = Some s \<Longrightarrow> s = Tk_done \<or> s = Tk_failed \<Longrightarrow> m' i = Some s"
  by (induction rule: rtranclp_induct) (auto dest: tmove_final)

section \<open>Single writes\<close>

lemma board_save_task:
  "get_ftask_row db (ft_id t) \<noteq> None \<Longrightarrow> board (save_task now t db) = (board db)(ft_id t \<mapsto> ft_status t)"
  by (auto simp: board_def get_save_task fun_eq_iff)

lemma board_tasks: "f_tasks db' = f_tasks db \<Longrightarrow> board db' = board db"
  by (simp add: board_def get_ftask_row_def fun_eq_iff)

lemma save_task_move:
  "get_ftask_row db (ft_id t) = Some t0 \<Longrightarrow> can_transition (ft_status t0) (ft_status t) \<Longrightarrow>
     tmove (board db) (board (save_task now t db))"
  by (subst board_save_task) (auto intro!: t_transition simp: board_def)

lemma store_moves:
  "distinct (map ft_id (f_tasks db @ ts)) \<Longrightarrow> \<forall>t \<in> set ts. ft_status t = Tk_created \<Longrightarrow> f_tasks db' = f_tasks db @ ts \<Longrightarrow>
     tmove\<^sup>*\<^sup>* (board db) (board db')"
proof (induction ts arbitrary: db)
  case Nil
  then have "board db' = board db" by (intro board_tasks) simp
  then show ?case by simp
next
  case (Cons t ts)
  let ?db1 = "db\<lparr>f_tasks := f_tasks db @ [t]\<rparr>"
  have fresh: "find_row ft_id (ft_id t) (f_tasks db) = None"
    using Cons.prems(1) by (auto simp: find_row_None_iff) (metis imageI)
  have st: "ft_status t = Tk_created" using Cons.prems(2) by simp
  have "board ?db1 = (board db)(ft_id t \<mapsto> Tk_created)"
  proof
    fix j
    show "board ?db1 j = ((board db)(ft_id t \<mapsto> Tk_created)) j"
      using fresh st by (cases "find_row ft_id j (f_tasks db)"; cases "j = ft_id t") (auto simp: board_def get_ftask_row_def row_simps)
  qed
  then have "tmove (board db) (board ?db1)"
    using t_create [of "board db" "ft_id t"] fresh by (simp add: board_def get_ftask_row_def)
  moreover have "tmove\<^sup>*\<^sup>* (board ?db1) (board db')"
    by (rule Cons.IH) (use Cons.prems in auto)
  ultimately show ?case by (rule converse_rtranclp_into_rtranclp)
qed

lemma queue_moves:
  assumes "mark_tasks_queued env ps db = Inr db'" and "distinct (map (ft_id \<circ> fst) ps)"
    and "\<forall>(x, s, i) \<in> set ps. board db (ft_id x) = Some Tk_created"
  shows "tmove\<^sup>*\<^sup>* (board db) (board db')"
  using assms
proof (induction ps arbitrary: db)
  case Nil
  then show ?case by simp
next
  case (Cons e ps)
  obtain x s i where e: "e = (x, s, i)" by (cases e) auto
  let ?db1 = "upd_ftask (ft_id x) (queued_row (fe_now env) (fe_db_now env) s i) db"
  have row: "board db (ft_id x) = Some Tk_created" using Cons.prems(3) e by auto
  have b: "board ?db1 = (board db)(ft_id x \<mapsto> Tk_queued)"
  proof
    fix j
    show "board ?db1 j = ((board db)(ft_id x \<mapsto> Tk_queued)) j"
      using row unfolding board_def by (subst ftask_tab.get_upd) auto
  qed
  then have "tmove (board db) (board ?db1)" using t_queue [of "board db" "ft_id x", OF row] by simp
  moreover have "tmove\<^sup>*\<^sup>* (board ?db1) (board db')"
  proof (rule Cons.IH)
    show "mark_tasks_queued env ps ?db1 = Inr db'" using Cons.prems(1) by (simp add: e split: if_splits)
    show "\<forall>(y, s, i) \<in> set ps. board ?db1 (ft_id y) = Some Tk_created"
      using Cons.prems(2,3) by (force simp: e b)
  qed (use Cons.prems(2) in simp)
  ultimately show ?case by (rule converse_rtranclp_into_rtranclp)
qed

section \<open>The requests refine the machine\<close>

lemma handler_move:
  assumes load: "load_task db tid = Some (t0, r)" and t: "ft_id t = ft_id t0" "can_transition (ft_status t0) (ft_status t)"
    and db: "f_tasks db' = f_tasks (save_task now t db)"
  shows "tmove\<^sup>*\<^sup>* (board db) (board db')"
proof -
  have "get_ftask_row db (ft_id t) = Some t0" using load_task_SomeD [OF load] t by simp
  from save_task_move [OF this t(2)] board_tasks [OF db] show ?thesis by auto
qed

lemma handler_moves:
  "mark_displayed cfg env corr tid p w = (res, w') \<Longrightarrow> tmove\<^sup>*\<^sup>* (board (fw_db w)) (board (fw_db w'))"
  "start_task cfg env corr tid q w = (res2, w') \<Longrightarrow> tmove\<^sup>*\<^sup>* (board (fw_db w)) (board (fw_db w'))"
  "dispatch_failed cfg env corr tid f w = (res3, w') \<Longrightarrow> tmove\<^sup>*\<^sup>* (board (fw_db w)) (board (fw_db w'))"
proof -
  assume "mark_displayed cfg env corr tid p w = (res, w')"
  from mark_displayed_db [OF this] show "tmove\<^sup>*\<^sup>* (board (fw_db w)) (board (fw_db w'))"
  proof (elim disjE exE conjE)
    fix t r assume "load_task (fw_db w) tid = Some (t, r)" "can_transition (ft_status t) Tk_displayed"
      "fw_db w' = save_task (fe_db_now env) (displayed_task p t) (fw_db w)"
    then show ?thesis by (intro handler_move [where t = "displayed_task p t"]) simp_all
  qed simp
next
  assume "start_task cfg env corr tid q w = (res2, w')"
  from start_task_db [OF this] show "tmove\<^sup>*\<^sup>* (board (fw_db w)) (board (fw_db w'))"
  proof (elim disjE exE conjE)
    fix t r sla assume "load_task (fw_db w) tid = Some (t, r)" "can_transition (ft_status t) Tk_in_progress"
      "fw_db w' = set_order_status (fe_db_now env) r Ord_cooking (save_task (fe_db_now env) (started_task q sla t) (fw_db w))"
    then show ?thesis by (intro handler_move [where t = "started_task q sla t"]) simp_all
  qed simp
next
  assume "dispatch_failed cfg env corr tid f w = (res3, w')"
  from dispatch_failed_db [OF this] show "tmove\<^sup>*\<^sup>* (board (fw_db w)) (board (fw_db w'))"
  proof (elim disjE exE conjE)
    fix t r assume "load_task (fw_db w) tid = Some (t, r)" "can_transition (ft_status t) Tk_failed"
      "fw_db w' = save_task (fe_db_now env) (failed_task (df_attempts f) t) (fw_db w)"
    then show ?thesis by (intro handler_move [where t = "failed_task (df_attempts f) t"]) simp_all
  qed simp
qed

lemma commit_moves:
  assumes "open_ok lock_order db c"
  shows "tmove\<^sup>*\<^sup>* (board db) (board (complete_apply env c db))"
proof -
  obtain t where t: "get_ftask_row db (ft_id (cm_task c)) = Some t" "ft_status t = Tk_in_progress"
    "ft_status (cm_task c) = Tk_done" using assms by (auto simp: open_ok_def)
  have "board (complete_apply env c db) = board (save_task (fe_db_now env) (cm_task c) db)"
    by (rule board_tasks) (simp add: complete_apply_def Let_def)
  moreover have "tmove (board db) (board (save_task (fe_db_now env) (cm_task c) db))"
    by (rule save_task_move [OF t(1)]) (simp add: t)
  ultimately show ?thesis by auto
qed

lemma fstep_moves:
  "fstep lock_order cfg k k' \<Longrightarrow> fconc_inv lock_order k \<Longrightarrow>
     tmove\<^sup>*\<^sup>* (board (fw_db (fx_world k))) (board (fw_db (fx_world k')))"
proof (induction rule: fstep.induct)
  case (f_store p up recipes names env k so db corr)
  note n = store_order_new [OF f_store(3) order_checks_known [OF f_store(2)]]
  have "f_inv db" by (rule store_order_inv [OF _ f_store(3) order_checks_known [OF f_store(2)]])
      (use f_store(4) in \<open>simp add: fconc_inv_def\<close>)
  then have "distinct (map ft_id (f_tasks (fw_db (fx_world k)) @ so_tasks so))" using n(2) by (simp add: f_inv_def fdb_ok_def)
  from store_moves [OF this _ n(2)] n(5) show ?case by (simp add: order_stored_def Let_def)
next
  case (f_queue k xs so names ys env corr res w)
  from f_queue(2) show ?case
  proof (rule publish_and_queue_db)
    assume "fw_db w = fw_db (fx_world k)"
    then show ?thesis by simp
  next
    fix ps assume ps: "map fst ps = so_tasks so" and mark: "mark_tasks_queued env ps (fw_db (fx_world k)) = Inr (fw_db w)"
    have "map (ft_id \<circ> fst) ps = map ft_id (so_tasks so)" using ps by (metis map_map)
    moreover have "distinct (pub_ids k)" and pub: "pub_ok (fw_db (fx_world k)) so"
      using f_queue(1,3) by (auto simp: fconc_inv_def)
    ultimately have "distinct (map (ft_id \<circ> fst) ps)" by (simp add: pub_ids_def f_queue(1))
    moreover have "board (fw_db (fx_world k)) (ft_id x) = Some Tk_created" if "(x, s, i) \<in> set ps" for x s i
    proof -
      have "x \<in> fst ` set ps" using that by (metis fst_conv imageI)
      then have "x \<in> set (so_tasks so)" by (metis list.set_map ps)
      then show ?thesis using pub by (auto simp: pub_ok_def board_def)
    qed
    ultimately show ?thesis using queue_moves [OF mark] by auto
  qed
next
  case (f_commit k xs p c ys env corr)
  then show ?case by (auto intro!: commit_moves [of lock_order] simp: fconc_inv_def)
qed (auto dest: handler_moves)

lemma tmove_live: "tmove m m' \<Longrightarrow> m' i = Some s \<Longrightarrow> m i = Some s \<or> live_status s"
  by (cases rule: tmove.cases)
    (auto simp: live_status_def can_transition_def allowed_transitions_def split: if_splits)

lemma reach_live: "reach finit (fstep lock_order cfg) k \<Longrightarrow> board (fw_db (fx_world k)) i = Some s \<Longrightarrow> live_status s"
proof (induction arbitrary: i s rule: reach.induct)
  case (reach_init k)
  then show ?case by (simp add: finit_def board_def get_ftask_row_def empty_fdb_def)
next
  case (reach_step k k')
  have "tmove\<^sup>*\<^sup>* (board (fw_db (fx_world k))) (board (fw_db (fx_world k')))"
    using fstep_moves [OF reach_step(2)] ful_sys.reach_inv [OF reach_step(1)] by blast
  then have "board (fw_db (fx_world k')) i = Some s \<Longrightarrow> live_status s"
    by (induction arbitrary: i s rule: rtranclp_induct) (use reach_step(3) tmove_live in blast)+
  with reach_step(4) show ?case by blast
qed

lemma steps_moves:
  "(fstep lock_order cfg)\<^sup>*\<^sup>* k k' \<Longrightarrow> fconc_inv lock_order k \<Longrightarrow>
     tmove\<^sup>*\<^sup>* (board (fw_db (fx_world k))) (board (fw_db (fx_world k')))"
proof (induction rule: rtranclp_induct)
  case base
  then show ?case by simp
next
  case (step y z)
  then show ?case using fstep_moves [OF step(2)] ful_sys.steps_inv [OF step(1)] by (meson rtranclp_trans)
qed

section \<open>Properties\<close>

text \<open>
  C5. Whatever requests run, a step of the system changes the statuses of tasks only by
  creating tasks, by queueing created ones after they have been published, and along
  \<open>ALLOWED_TRANSITIONS\<close>: the service refines the abstract machine \<open>tmove\<close>.
\<close>

theorem service_refines_task_machine:
  fixes k k' :: fconc
  assumes "reach finit (fstep lock_order cfg) k" and "fstep lock_order cfg k k'"
  shows "tmove\<^sup>*\<^sup>* (board (fw_db (fx_world k))) (board (fw_db (fx_world k')))"
  using fstep_moves [OF assms(2)] ful_sys.reach_inv [OF assms(1)] by blast

theorem service_refines_task_machine_witness:
  "\<exists>k k'. fstep True fdemo_cfg k k' \<and> tmove\<^sup>*\<^sup>* (board (fw_db (fx_world k))) (board (fw_db (fx_world k')))
     \<and> board (fw_db (fx_world k)) 3 = Some Tk_queued \<and> board (fw_db (fx_world k')) 3 = Some Tk_displayed"
proof -
  obtain k where k: "reach finit (fstep True fdemo_cfg) k"
    "fw_db (fx_world k) = fdemo_db Ord_created [fdemo_queued 3 1, fdemo_queued 4 2]" "fx_open k = []"
    using fdemo_reach_queued by blast
  have row: "find_row ft_id 3 [fdemo_queued 3 1, fdemo_queued 4 2] = Some (fdemo_queued 3 1)" by simp
  obtain w where w: "mark_displayed fdemo_cfg fdemo_env None 3 (fdemo_shown 3) (fx_world k)
      = (Inr (mark_displayed_response (displayed_task (fdemo_shown 3) (fdemo_queued 3 1))), w)"
    "fw_db w = fdemo_db Ord_created (update_row ft_id 3 (\<lambda>_. fdemo_displayed 3 1) [fdemo_queued 3 1, fdemo_queued 4 2])"
    by (rule fdemo_show_run [OF row k(2)])
  have step: "fstep True fdemo_cfg k (k\<lparr>fx_world := w\<rparr>)"
    by (rule f_displayed [rotated, OF w(1)]) (simp add: locked_tasks_def k(3))
  from service_refines_task_machine [OF k(1) this] step k(2) w(2) show ?thesis
    by (intro exI [of _ k] exI [of _ "k\<lparr>fx_world := w\<rparr>"]) (simp, simp add: board_def get_ftask_row_def fdemo_db_def)
qed

text \<open>
  A task that is done or failed keeps that status in every later state, and no task is
  ever in the statuses \<open>retrying\<close> and \<open>cancelled\<close>, which no code path sets.
\<close>

theorem final_statuses:
  fixes k k' :: fconc
  assumes "reach finit (fstep lock_order cfg) k" and "(fstep lock_order cfg)\<^sup>*\<^sup>* k k'"
    and "get_ftask_row (fw_db (fx_world k)) i = Some t"
  shows "ft_status t \<noteq> Tk_retrying \<and> ft_status t \<noteq> Tk_cancelled
    \<and> (ft_status t = Tk_done \<or> ft_status t = Tk_failed \<longrightarrow>
         (\<exists>t'. get_ftask_row (fw_db (fx_world k')) i = Some t' \<and> ft_status t' = ft_status t))"
proof (intro conjI impI)
  have b: "board (fw_db (fx_world k)) i = Some (ft_status t)" using assms(3) by (simp add: board_def)
  then have "live_status (ft_status t)" by (rule reach_live [OF assms(1)])
  then show "ft_status t \<noteq> Tk_retrying" "ft_status t \<noteq> Tk_cancelled" by (simp_all add: live_status_def)
  assume "ft_status t = Tk_done \<or> ft_status t = Tk_failed"
  from tmoves_final [OF steps_moves [OF assms(2) ful_sys.reach_inv [OF assms(1)]] b this]
  show "\<exists>t'. get_ftask_row (fw_db (fx_world k')) i = Some t' \<and> ft_status t' = ft_status t"
    by (auto simp: board_def)
qed

theorem final_statuses_witness:
  "\<exists>k t. reach finit (fstep True fdemo_cfg) k \<and> get_ftask_row (fw_db (fx_world k)) 3 = Some t
     \<and> ft_status t \<noteq> Tk_retrying \<and> ft_status t = Tk_queued"
proof -
  obtain k where k: "reach finit (fstep True fdemo_cfg) k"
    "fw_db (fx_world k) = fdemo_db Ord_created [fdemo_queued 3 1, fdemo_queued 4 2]" using fdemo_reach_queued by blast
  have row: "get_ftask_row (fw_db (fx_world k)) 3 = Some (fdemo_queued 3 1)"
    by (simp add: k get_ftask_row_def fdemo_db_def)
  from final_statuses [OF k(1) _ row, of k] k(1) row show ?thesis by auto
qed

end
