(* ===== verification/Fulfillment_Dispatch.thy ===== *)
theory Fulfillment_Dispatch
  imports Fulfillment_Machine
begin

text \<open>
  Fulfillment service: the readiness that the dispatcher asks for before it shows a task, and
  that waiting for dependencies cannot block an order.
\<close>

lemma dep_row:
  "deps_forward db \<Longrightarrow> d \<in> set (f_deps db) \<Longrightarrow>
     \<exists>t u. t \<in> set (f_tasks db) \<and> u \<in> set (f_tasks db) \<and> ft_id t = td_depends_on d \<and> ft_id u = td_task d
       \<and> ft_order_id t = ft_order_id u"
  unfolding deps_forward_def dep_forward_def by (meson less_trans nth_mem)

lemma unfinished_dependencies_set:
  "set (unfinished_dependencies db tid) =
     {i. \<lparr>td_task = tid, td_depends_on = i\<rparr> \<in> set (f_deps db) \<and> (\<exists>t. get_ftask_row db i = Some t \<and> ft_status t \<noteq> Tk_done)}"
proof (rule set_eqI)
  fix i
  have "(\<exists>d \<in> set (f_deps db). td_task d = tid \<and> td_depends_on d = i) \<longleftrightarrow> \<lparr>td_task = tid, td_depends_on = i\<rparr> \<in> set (f_deps db)"
    by (metis tdep.select_convs(1,2) tdep.surjective unit.exhaust)
  then show "i \<in> set (unfinished_dependencies db tid) \<longleftrightarrow> i \<in> {i. \<lparr>td_task = tid, td_depends_on = i\<rparr> \<in> set (f_deps db)
      \<and> (\<exists>t. get_ftask_row db i = Some t \<and> ft_status t \<noteq> Tk_done)}"
    by (auto simp: unfinished_dependencies_def split: option.splits)
qed

text \<open>The first unfinished task of an order waits for nothing.\<close>

lemma first_unfinished:
  assumes inv: "f_inv db" and left: "0 < unfinished db oid"
  obtains t where "t \<in> set (f_tasks db)" "ft_order_id t = oid" "ft_status t \<noteq> Tk_done" "unfinished_dependencies db (ft_id t) = []"
proof -
  let ?ts = "f_tasks db" and ?P = "\<lambda>j. j < length (f_tasks db) \<and> ft_order_id (f_tasks db ! j) = oid \<and> ft_status (f_tasks db ! j) \<noteq> Tk_done"
  have dist: "distinct (map ft_id ?ts)" and deps: "deps_forward db" using inv by (auto simp: f_inv_def fdb_ok_def)
  have "\<exists>t \<in> set ?ts. ft_order_id t = oid \<and> ft_status t \<noteq> Tk_done"
    using left by (simp add: unfinished_def) (metis (mono_tags, lifting) count_rows_zero_iff less_irrefl)
  then have ex: "\<exists>j. ?P j" by (metis in_set_conv_nth)
  define j where "j = (LEAST j. ?P j)"
  have j: "?P j" unfolding j_def by (rule LeastI_ex [OF ex])
  have least: "ft_status (?ts ! i) = Tk_done" if "i < j" "ft_order_id (?ts ! i) = oid" for i
    using not_less_Least [of i ?P] that j unfolding j_def [symmetric] by auto
  have "set (unfinished_dependencies db (ft_id (?ts ! j))) = {}"
  proof -
    have False if d: "d \<in> set (f_deps db)" and dj: "td_task d = ft_id (?ts ! j)"
      and row: "get_ftask_row db (td_depends_on d) = Some t" "ft_status t \<noteq> Tk_done" for d t
    proof -
      obtain i j' where ij: "i < j'" "j' < length ?ts" "ft_id (?ts ! i) = td_depends_on d" "ft_id (?ts ! j') = td_task d"
        "ft_order_id (?ts ! i) = ft_order_id (?ts ! j')" using deps d by (auto simp: deps_forward_def dep_forward_def)
      have "j' = j" using dist ij(2,4) j dj by (metis distinct_map inj_onD nth_eq_iff_index_eq nth_mem)
      with ij j have "i < j" "ft_order_id (?ts ! i) = oid" by auto
      from least [OF this] have "ft_status (?ts ! i) = Tk_done" .
      moreover have "get_ftask_row db (ft_id (?ts ! i)) = Some (?ts ! i)"
        by (rule ftask_tab.member_get [OF dist]) (use ij in simp)
      ultimately show False using row ij(3) by simp
    qed
    then show ?thesis unfolding unfinished_dependencies_set by fastforce
  qed
  then show ?thesis using j by (intro that [of "?ts ! j"]) auto
qed

lemma readiness_run:
  assumes "get_ftask_row (fw_db w) tid = Some t" and "dispatch_readiness tid w = Inr rn"
  shows "rn = (if ft_status t = Tk_queued \<or> ft_status t = Tk_retrying
     then \<lparr>rn_task_id = tid, rn_ready = (unfinished_dependencies (fw_db w) tid = []),
           rn_waiting_for = unfinished_dependencies (fw_db w) tid,
           rn_reason = (if unfinished_dependencies (fw_db w) tid = [] then None else Some ''waiting_for_dependencies'')\<rparr>
     else \<lparr>rn_task_id = tid, rn_ready = False, rn_waiting_for = [], rn_reason = Some ''task_status_not_dispatchable''\<rparr>)"
proof -
  have "ft_id t = tid" using assms(1) ftask_tab.get_key by blast
  moreover obtain r where "load_task (fw_db w) tid = Some (t, r)"
    using assms by (auto simp: dispatch_readiness_def load_task_def split: option.splits)
  ultimately show ?thesis using assms(2) by (auto simp: dispatch_readiness_def Let_def split: if_splits)
qed

text \<open>
  A task is ready for dispatch exactly when it is queued (or retrying) and every task it
  depends on is done. A dispatchable task is told the sorted list of exactly the dependencies
  that are not done.
\<close>

theorem dispatch_readiness_spec:
  fixes w :: fworld
  assumes "get_ftask_row (fw_db w) tid = Some t" and "dispatch_readiness tid w = Inr rn"
  shows "(rn_ready rn \<longleftrightarrow> (ft_status t = Tk_queued \<or> ft_status t = Tk_retrying)
      \<and> (\<forall>i u. \<lparr>td_task = tid, td_depends_on = i\<rparr> \<in> set (f_deps (fw_db w)) \<and> get_ftask_row (fw_db w) i = Some u
           \<longrightarrow> ft_status u = Tk_done))
    \<and> sorted (rn_waiting_for rn)
    \<and> (ft_status t = Tk_queued \<or> ft_status t = Tk_retrying \<longrightarrow>
         set (rn_waiting_for rn) = {i. \<lparr>td_task = tid, td_depends_on = i\<rparr> \<in> set (f_deps (fw_db w))
            \<and> (\<exists>u. get_ftask_row (fw_db w) i = Some u \<and> ft_status u \<noteq> Tk_done)})"
proof -
  let ?W = "unfinished_dependencies (fw_db w) tid"
  have "(\<forall>i u. \<lparr>td_task = tid, td_depends_on = i\<rparr> \<in> set (f_deps (fw_db w)) \<and> get_ftask_row (fw_db w) i = Some u
           \<longrightarrow> ft_status u = Tk_done) \<longleftrightarrow> set ?W = {}"
    unfolding unfinished_dependencies_set by blast
  then have none: "(\<forall>i u. \<lparr>td_task = tid, td_depends_on = i\<rparr> \<in> set (f_deps (fw_db w)) \<and> get_ftask_row (fw_db w) i = Some u
           \<longrightarrow> ft_status u = Tk_done) \<longleftrightarrow> ?W = []" by (simp only: set_empty)
  have "sorted ?W" by (simp add: unfinished_dependencies_def)
  then show ?thesis
    unfolding none readiness_run [OF assms] by (simp add: unfinished_dependencies_set)
qed

theorem dispatch_readiness_spec_witness:
  "\<exists>w rn. dispatch_readiness 4 w = Inr rn \<and> \<not> rn_ready rn \<and> rn_waiting_for rn = [3]
     \<and> set (rn_waiting_for rn) = {i. \<lparr>td_task = 4, td_depends_on = i\<rparr> \<in> set (f_deps (fw_db w))
            \<and> (\<exists>u. get_ftask_row (fw_db w) i = Some u \<and> ft_status u \<noteq> Tk_done)}"
proof -
  let ?w = "fdemo_world\<lparr>fw_db := (fdemo_db Ord_created [fdemo_queued 3 1, fdemo_queued 4 2])
      \<lparr>f_deps := [\<lparr>td_task = 4, td_depends_on = 3\<rparr>]\<rparr>\<rparr>"
  have rows: "get_ftask_row (fw_db ?w) 3 = Some (fdemo_queued 3 1)" "get_ftask_row (fw_db ?w) 4 = Some (fdemo_queued 4 2)"
    by (simp_all add: get_ftask_row_def fdemo_db_def)
  have "load_task (fw_db ?w) 4 = Some (fdemo_queued 4 2, (new_order fdemo_env fdemo_order)\<lparr>o_status := Ord_created\<rparr>)"
    using rows by (simp add: load_task_def get_order_row_def fdemo_db_def)
  then obtain rn where rn: "dispatch_readiness 4 ?w = Inr rn" "rn_waiting_for rn = unfinished_dependencies (fw_db ?w) 4"
    by (simp add: dispatch_readiness_def Let_def)
  have "unfinished_dependencies (fw_db ?w) 4 = [3]"
    using rows by (simp add: unfinished_dependencies_def)
  with dispatch_readiness_spec [OF rows(2) rn(1)] rn rows show ?thesis
    by (intro exI [of _ ?w] exI [of _ rn]) auto
qed

text \<open>
  C29. Dependencies never block an order. In every reachable state, if an order has unfinished
  tasks and each of them has been queued and has not failed, then one of its tasks is with a
  station (displayed or in progress) or is ready for dispatch.
\<close>

theorem order_never_blocked:
  fixes k :: fconc
  assumes "reach finit (fstep lock_order cfg) k" and "\<not> all_order_tasks_done (fw_db (fx_world k)) oid"
    and "\<forall>t \<in> set (f_tasks (fw_db (fx_world k))). ft_order_id t = oid \<longrightarrow> ft_status t \<noteq> Tk_created \<and> ft_status t \<noteq> Tk_failed"
  shows "\<exists>t \<in> set (f_tasks (fw_db (fx_world k))). ft_order_id t = oid
     \<and> (ft_status t = Tk_displayed \<or> ft_status t = Tk_in_progress
        \<or> (\<exists>rn. dispatch_readiness (ft_id t) (fx_world k) = Inr rn \<and> rn_ready rn))"
proof -
  let ?db = "fw_db (fx_world k)"
  have inv: "f_inv ?db" using ful_sys.reach_inv [OF assms(1)] by (simp add: fconc_inv_def)
  then have ok: "fdb_ok ?db" by (simp add: f_inv_def)
  have "0 < unfinished ?db oid" using assms(2) by (simp add: all_done_unfinished)
  then obtain t where t: "t \<in> set (f_tasks ?db)" "ft_order_id t = oid" "ft_status t \<noteq> Tk_done" "unfinished_dependencies ?db (ft_id t) = []"
    using first_unfinished [OF inv] by metis
  have row: "get_ftask_row ?db (ft_id t) = Some t" by (rule ftask_tab.member_get [OF fdb_okD(2) [OF ok] t(1)])
  then have live: "live_status (ft_status t)" using reach_live [OF assms(1), of "ft_id t"] by (simp add: board_def)
  obtain r where load: "load_task ?db (ft_id t) = Some (t, r)" using load_task_total [OF ok row] by blast
  show ?thesis
  proof (cases "ft_status t = Tk_queued")
    case True
    then have "dispatch_readiness (ft_id t) (fx_world k) = Inr \<lparr>rn_task_id = ft_id t, rn_ready = True, rn_waiting_for = [], rn_reason = None\<rparr>"
      using load t(4) by (simp add: dispatch_readiness_def)
    with t show ?thesis by fastforce
  next
    case False
    have "ft_status t = Tk_displayed \<or> ft_status t = Tk_in_progress"
      using False live assms(3) t by (cases "ft_status t") (auto simp: live_status_def)
    with t show ?thesis by blast
  qed
qed

theorem order_never_blocked_witness:
  "\<exists>k t. reach finit (fstep True fdemo_cfg) k \<and> t \<in> set (f_tasks (fw_db (fx_world k))) \<and> ft_order_id t = 1
     \<and> (ft_status t = Tk_displayed \<or> ft_status t = Tk_in_progress
        \<or> (\<exists>rn. dispatch_readiness (ft_id t) (fx_world k) = Inr rn \<and> rn_ready rn))"
proof -
  obtain k where k: "reach finit (fstep True fdemo_cfg) k"
    "fw_db (fx_world k) = fdemo_db Ord_created [fdemo_queued 3 1, fdemo_queued 4 2]" using fdemo_reach_queued by blast
  have "\<not> all_order_tasks_done (fw_db (fx_world k)) 1" by (simp add: k all_order_tasks_done_def fdemo_db_def)
  moreover have "\<forall>t \<in> set (f_tasks (fw_db (fx_world k))). ft_order_id t = 1 \<longrightarrow> ft_status t \<noteq> Tk_created \<and> ft_status t \<noteq> Tk_failed"
    by (simp add: k fdemo_db_def)
  ultimately show ?thesis using order_never_blocked [OF k(1)] k(1) by blast
qed

end
