(* ===== verification/Fulfillment_Replay.thy ===== *)
theory Fulfillment_Replay
  imports Fulfillment_Machine
begin

text \<open>
  Fulfillment service: a transition request that is repeated after it has succeeded. The
  callers retry after timeouts, so a repetition has to return what the first call returned
  and change nothing, and a request of another station has to be refused.
\<close>

section \<open>Reading back what was written\<close>

lemma as_utc_row: "as_utc (map_option pg_timestamptz v) = as_utc v"
  by (cases v) (simp_all add: as_utc_instant pg_timestamptz_def)

lemma responses_of_row:
  "mark_displayed_response (saved_row now t) = mark_displayed_response t"
  "start_response_of (saved_row now t) = start_response_of t"
  "complete_response_of (saved_row now t) = complete_response_of t"
  by (simp_all add: mark_displayed_response_def start_response_of_def complete_response_of_def saved_row_def
      ftask_row_def as_utc_row)

lemma load_save:
  assumes "load_task db tid = Some (t, r)" and "ft_id t1 = ft_id t" "ft_order_id t1 = ft_order_id t"
  shows "load_task (save_task now t1 db) tid = Some (saved_row now t1, r)"
proof -
  note l = load_task_SomeD [OF assms(1)]
  have "get_ftask_row (save_task now t1 db) tid = Some (saved_row now t1)"
    using get_save_task [of db t1 now tid] l(1,2) assms(2) by simp
  then show ?thesis using l(4) assms(3) by (simp add: load_task_def get_order_row_def)
qed

lemma load_set_status:
  assumes "load_task db tid = Some (t, r)"
  shows "\<exists>r'. load_task (set_order_status now r0 st db) tid = Some (t, r')"
proof -
  note l = load_task_SomeD [OF assms]
  have "get_order_row (set_order_status now r0 st db) (ft_order_id t) \<noteq> None"
    using l(4) by (auto simp: set_order_status_def order_tab.get_upd)
  moreover have "get_ftask_row (set_order_status now r0 st db) tid = Some t"
    using l(1) by (simp add: get_ftask_row_def)
  ultimately show ?thesis by (auto simp: load_task_def)
qed

section \<open>The second request\<close>

lemma mark_displayed_again:
  assumes "load_task (fw_db w) tid = Some (t, r)" and "ft_status t = Tk_displayed"
  shows "mark_displayed cfg env corr tid q w =
     (if ft_station_id t = Some (md_station_id q) \<and> ft_kds_task_id t = Some (md_kds_task_id q)
      then Inr (mark_displayed_response t) else Inl TaskAlreadyDisplayedError, w)"
  using assms by (simp add: mark_displayed_def validate_same_station_and_kds_def)

lemma start_task_again:
  assumes "load_task (fw_db w) tid = Some (t, r)" and "ft_status t = Tk_in_progress"
  shows "start_task cfg env corr tid q w =
     (if ft_station_id t = Some (sq_station_id q) \<and> ft_kds_task_id t = Some (sq_kds_task_id q)
      then Inr (start_response_of t) else Inl TaskAlreadyStartedError, w)"
  using assms by (simp add: start_task_def validate_same_station_and_kds_def)

lemma complete_task_again:
  assumes "load_task (fw_db w) tid = Some (t, r)" and "ft_status t = Tk_done"
  shows "f_complete_task cfg env corr tid q w =
     (if ft_station_id t = Some (fq_station_id q) \<and> ft_kds_task_id t = Some (fq_kds_task_id q)
      then Inr (complete_response_of t) else Inl TaskAlreadyCompletedError, w)"
  using assms by (simp add: f_complete_task_def complete_prepare_def validate_same_station_and_kds_def)

text \<open>What a successful request leaves behind.\<close>

lemma mark_displayed_after:
  assumes "mark_displayed cfg env corr tid p w = (Inr x, w')"
  obtains t r where "load_task (fw_db w') tid = Some (t, r)" "ft_status t = Tk_displayed" "x = mark_displayed_response t"
    "ft_station_id t = Some (md_station_id p)" "ft_kds_task_id t = Some (md_kds_task_id p)"
proof -
  obtain t r where load: "load_task (fw_db w) tid = Some (t, r)"
    using assms by (auto simp: mark_displayed_def split: option.splits)
  show ?thesis
  proof (cases "ft_status t = Tk_displayed")
    case True
    then show ?thesis using assms load that by (auto simp: mark_displayed_again [OF load] split: if_splits)
  next
    case False
    let ?t1 = "displayed_task p t"
    have x: "x = mark_displayed_response ?t1" and db: "fw_db w' = save_task (fe_db_now env) ?t1 (fw_db w)"
      using assms False by (auto simp: mark_displayed_def load require_transition_def Let_def split: if_splits)
    have "load_task (fw_db w') tid = Some (saved_row (fe_db_now env) ?t1, r)"
      unfolding db by (rule load_save [OF load]) simp_all
    then show ?thesis by (rule that) (simp_all add: x responses_of_row displayed_task_def)
  qed
qed

lemma start_task_after:
  assumes "start_task cfg env corr tid p w = (Inr x, w')"
  obtains t r where "load_task (fw_db w') tid = Some (t, r)" "ft_status t = Tk_in_progress" "x = start_response_of t"
    "ft_station_id t = Some (sq_station_id p)" "ft_kds_task_id t = Some (sq_kds_task_id p)"
proof -
  obtain t r where load: "load_task (fw_db w) tid = Some (t, r)"
    using assms by (auto simp: start_task_def split: option.splits)
  show ?thesis
  proof (cases "ft_status t = Tk_in_progress")
    case True
    then show ?thesis using assms load that by (auto simp: start_task_again [OF load] split: if_splits)
  next
    case False
    then obtain sla where sla: "dt_add_seconds (sq_started_at p) (ft_duration t) = Some sla"
      using assms by (auto simp: start_task_def load require_transition_def validate_same_station_and_kds_def
          split: if_splits option.splits)
    let ?t1 = "started_task p sla t"
    have x: "x = start_response_of ?t1" and st: "ft_station_id t = Some (sq_station_id p)" "ft_kds_task_id t = Some (sq_kds_task_id p)"
      and db: "fw_db w' = set_order_status (fe_db_now env) r Ord_cooking (save_task (fe_db_now env) ?t1 (fw_db w))"
      using assms False by (auto simp: start_task_def load require_transition_def validate_same_station_and_kds_def sla
          Let_def split: if_splits)
    have "load_task (save_task (fe_db_now env) ?t1 (fw_db w)) tid = Some (saved_row (fe_db_now env) ?t1, r)"
      by (rule load_save [OF load]) simp_all
    from load_set_status [OF this] obtain r' where "load_task (fw_db w') tid = Some (saved_row (fe_db_now env) ?t1, r')"
      unfolding db by blast
    then show ?thesis by (rule that) (simp_all add: x responses_of_row st, simp_all add: started_task_def st)
  qed
qed

lemma complete_task_after:
  assumes "f_complete_task cfg env corr tid p w = (Inr x, w')"
  obtains t r where "load_task (fw_db w') tid = Some (t, r)" "ft_status t = Tk_done" "x = complete_response_of t"
    "ft_station_id t = Some (fq_station_id p)" "ft_kds_task_id t = Some (fq_kds_task_id p)"
proof -
  obtain t r where load: "load_task (fw_db w) tid = Some (t, r)"
    using assms by (auto simp: f_complete_task_def complete_prepare_def split: option.splits)
  show ?thesis
  proof (cases "complete_prepare env tid p (fw_db w)")
    case (Inl e)
    then show ?thesis using assms by (simp add: f_complete_task_def)
  next
    case (Inr b)
    show ?thesis
    proof (cases b)
      case (Inl u)
      then have "ft_status t = Tk_done"
        using Inr by (auto simp: complete_prepare_def load Let_def split: if_splits option.splits)
      then show ?thesis using assms load that by (auto simp: complete_task_again [OF load] split: if_splits)
    next
      case (Inr c)
      with \<open>complete_prepare env tid p (fw_db w) = Inr b\<close> have run: "complete_prepare env tid p (fw_db w) = Inr (Inr c)" by simp
      obtain a where st: "ft_station_id t = Some (fq_station_id p)" "ft_kds_task_id t = Some (fq_kds_task_id p)"
        and c: "cm_task c = finished_task (dt_utc (dt_instant (fq_completed_at p))) (dt_utc (dt_instant a)) (as_utc (ft_sla_deadline_at t)) t"
        using complete_prepare_ok [OF run] load by (metis option.inject prod.inject)
      have x: "x = complete_response_of (cm_task c)" and db: "fw_db w' = complete_apply env c (fw_db w)"
        using assms run by (auto simp: f_complete_task_def)
      have "load_task (save_task (fe_db_now env) (cm_task c) (fw_db w)) tid = Some (saved_row (fe_db_now env) (cm_task c), r)"
        by (rule load_save [OF load]) (simp_all add: c)
      then obtain r' where "load_task (fw_db w') tid = Some (saved_row (fe_db_now env) (cm_task c), r')"
        using load_set_status by (fastforce simp: db complete_apply_def Let_def)
      then show ?thesis by (rule that) (simp_all add: x responses_of_row, simp_all add: c finished_task_def st)
    qed
  qed
qed

section \<open>Properties\<close>

text \<open>
  \<open>mark_displayed\<close> is idempotent: after a success every further request for that task
  that names the same station and KDS task gets the same response, whatever its time, dispatcher and correlation id,
  one that names another gets \<open>task_already_displayed\<close>, and neither changes a table, an
  event or a metric.
\<close>

theorem mark_displayed_replay:
  fixes w :: fworld
  assumes "mark_displayed cfg env corr tid p w = (Inr x, w')"
  shows "mark_displayed cfg' env' corr' tid q w' =
     (if md_station_id q = md_station_id p \<and> md_kds_task_id q = md_kds_task_id p then Inr x
      else Inl TaskAlreadyDisplayedError, w')"
proof -
  obtain t r where "load_task (fw_db w') tid = Some (t, r)" "ft_status t = Tk_displayed" "x = mark_displayed_response t"
    "ft_station_id t = Some (md_station_id p)" "ft_kds_task_id t = Some (md_kds_task_id p)"
    by (rule mark_displayed_after [OF assms])
  then show ?thesis by (auto simp: mark_displayed_again)
qed

theorem mark_displayed_replay_witness:
  "\<exists>x w w'. mark_displayed fdemo_cfg fdemo_env None 3 (fdemo_shown 3) w = (Inr x, w')
     \<and> mark_displayed fdemo_cfg fdemo_env (Some ''c'') 3 (fdemo_shown 3) w' = (Inr x, w')
     \<and> mark_displayed fdemo_cfg fdemo_env None 3 (fdemo_shown 8) w' = (Inl TaskAlreadyDisplayedError, w')"
proof -
  let ?w = "fdemo_world\<lparr>fw_db := fdemo_db Ord_created [fdemo_queued 3 1]\<rparr>"
  have row: "find_row ft_id 3 [fdemo_queued 3 1] = Some (fdemo_queued 3 1)" by simp
  have db: "fw_db ?w = fdemo_db Ord_created [fdemo_queued 3 1]" by simp
  obtain w' where run: "mark_displayed fdemo_cfg fdemo_env None 3 (fdemo_shown 3) ?w
      = (Inr (mark_displayed_response (displayed_task (fdemo_shown 3) (fdemo_queued 3 1))), w')"
    by (rule fdemo_show_run [OF row db])
  from mark_displayed_replay [OF run, of fdemo_cfg fdemo_env _ "fdemo_shown 3"]
    mark_displayed_replay [OF run, of fdemo_cfg fdemo_env _ "fdemo_shown 8"] run
  show ?thesis by (intro exI) (auto simp: fdemo_shown_def)
qed

text \<open>
  \<open>start_task\<close> is idempotent in the same sense: a repetition returns the start and the
  deadline recorded first, another station gets \<open>task_already_started\<close>, nothing changes.
\<close>

theorem start_task_replay:
  fixes w :: fworld
  assumes "start_task cfg env corr tid p w = (Inr x, w')"
  shows "start_task cfg' env' corr' tid q w' =
     (if sq_station_id q = sq_station_id p \<and> sq_kds_task_id q = sq_kds_task_id p then Inr x
      else Inl TaskAlreadyStartedError, w')"
proof -
  obtain t r where "load_task (fw_db w') tid = Some (t, r)" "ft_status t = Tk_in_progress" "x = start_response_of t"
    "ft_station_id t = Some (sq_station_id p)" "ft_kds_task_id t = Some (sq_kds_task_id p)"
    by (rule start_task_after [OF assms])
  then show ?thesis by (auto simp: start_task_again)
qed

theorem start_task_replay_witness:
  "\<exists>x w w'. start_task fdemo_cfg fdemo_env None 3 (fdemo_start 3) w = (Inr x, w')
     \<and> start_task fdemo_cfg fdemo_env (Some ''c'') 3 (fdemo_start 3) w' = (Inr x, w')
     \<and> start_task fdemo_cfg fdemo_env None 3 (fdemo_start 8) w' = (Inl TaskAlreadyStartedError, w')"
proof -
  let ?w = "fdemo_world\<lparr>fw_db := fdemo_db Ord_created [fdemo_displayed 3 1]\<rparr>"
  have row: "find_row ft_id 3 [fdemo_displayed 3 1] = Some (fdemo_displayed 3 1)" by simp
  have db: "fw_db ?w = fdemo_db Ord_created [fdemo_displayed 3 1]" by simp
  obtain x w' where run: "start_task fdemo_cfg fdemo_env None 3 (fdemo_start 3) ?w = (Inr x, w')"
    by (rule fdemo_start_run [OF row db])
  from start_task_replay [OF run, of fdemo_cfg fdemo_env _ "fdemo_start 3"]
    start_task_replay [OF run, of fdemo_cfg fdemo_env _ "fdemo_start 8"] run
  show ?thesis by (intro exI) (auto simp: fdemo_start_def)
qed

text \<open>
  \<open>complete_task\<close> is idempotent in the same sense: a repetition returns the durations
  recorded first even if it brings another completion time, another station gets
  \<open>task_already_completed\<close>, nothing changes.
\<close>

theorem complete_task_replay:
  fixes w :: fworld
  assumes "f_complete_task cfg env corr tid p w = (Inr x, w')"
  shows "f_complete_task cfg' env' corr' tid q w' =
     (if fq_station_id q = fq_station_id p \<and> fq_kds_task_id q = fq_kds_task_id p then Inr x
      else Inl TaskAlreadyCompletedError, w')"
proof -
  obtain t r where "load_task (fw_db w') tid = Some (t, r)" "ft_status t = Tk_done" "x = complete_response_of t"
    "ft_station_id t = Some (fq_station_id p)" "ft_kds_task_id t = Some (fq_kds_task_id p)"
    by (rule complete_task_after [OF assms])
  then show ?thesis by (auto simp: complete_task_again)
qed

theorem complete_task_replay_witness:
  "\<exists>x w w'. f_complete_task fdemo_cfg fdemo_env None 3 (fdemo_finish 3) w = (Inr x, w')
     \<and> f_complete_task fdemo_cfg fdemo_env None 3 ((fdemo_finish 3)\<lparr>fq_completed_at := fdemo_time\<rparr>) w' = (Inr x, w')
     \<and> f_complete_task fdemo_cfg fdemo_env None 3 (fdemo_finish 8) w' = (Inl TaskAlreadyCompletedError, w')"
proof -
  let ?w = "fdemo_world\<lparr>fw_db := fdemo_db Ord_cooking [fdemo_started 3 1]\<rparr>"
  have row: "find_row ft_id 3 [fdemo_started 3 1] = Some (fdemo_started 3 1)" by simp
  obtain x w' where run: "f_complete_task fdemo_cfg fdemo_env None 3 (fdemo_finish 3) ?w = (Inr x, w')"
    using fdemo_finish_prepare [OF row, of Ord_cooking] by (fastforce simp: f_complete_task_def pg_int4_def)
  from complete_task_replay [OF run, of fdemo_cfg fdemo_env _ "(fdemo_finish 3)\<lparr>fq_completed_at := fdemo_time\<rparr>"]
    complete_task_replay [OF run, of fdemo_cfg fdemo_env _ "fdemo_finish 8"] run
  show ?thesis by (intro exI) (auto simp: fdemo_finish_def)
qed

end
