(* ===== verification/Fulfillment_Creation.thy ===== *)
theory Fulfillment_Creation
  imports Fulfillment_Dispatch
begin

text \<open>
  Fulfillment service: what the creation of an order leaves in the tables and in Redis, when
  it succeeds and when it fails.
\<close>

section \<open>The tasks of an order\<close>

definition recipe_steps_of :: "(uuid \<rightharpoonup> recipe) \<Rightarrow> uuid \<Rightarrow> recipe_step list" where
  "recipe_steps_of recipes m = (case recipes m of None \<Rightarrow> [] | Some r \<Rightarrow> sort_key rp_step_order (rc_steps r))"

lemma length_recipe_steps_of: "length (recipe_steps_of recipes m) = (case recipes m of None \<Rightarrow> 0 | Some r \<Rightarrow> length (rc_steps r))"
  by (simp add: recipe_steps_of_def split: option.split)

lemma order_chains_sizes:
  "length (order_chains ids now oid recipes n its) = sum_list (map (\<lambda>it. nat (oi_quantity it)) its)"
  "length (concat (order_chains ids now oid recipes n its)) =
     sum_list (map (\<lambda>it. length (recipe_steps_of recipes (oi_menu_item_id it)) * nat (oi_quantity it)) its)"
proof -
  have items: "length (item_chains ids now oid it steps n us) = length us" for it steps n us
    by (induction us arbitrary: n) simp_all
  show "length (order_chains ids now oid recipes n its) = sum_list (map (\<lambda>it. nat (oi_quantity it)) its)"
    by (induction its arbitrary: n) (simp_all add: items Let_def del: upto.simps)
  show "length (concat (order_chains ids now oid recipes n its)) =
     sum_list (map (\<lambda>it. length (recipe_steps_of recipes (oi_menu_item_id it)) * nat (oi_quantity it)) its)"
    by (induction its arbitrary: n)
      (simp_all add: recipe_steps_of_def [symmetric] length_item_chains Let_def del: upto.simps length_concat)
qed

lemma new_items_quantities:
  "map oi_quantity (new_items env oid n is) = map ic_quantity is"
  "map oi_menu_item_id (new_items env oid n is) = map ic_menu_item_id is"
  by (induction "is" arbitrary: n) simp_all

lemma unit_chain_steps:
  "map (\<lambda>t. (ft_station_type t, ft_operation t, ft_duration t, ft_step_order t)) (unit_chain ids now oid it u m steps)
     = map (\<lambda>s. (rp_station_type s, rp_operation s, rp_duration s, rp_step_order s)) steps"
  by (induction steps arbitrary: m) (simp_all add: new_task_def)



section \<open>What has been published\<close>

lemma publish_all_entries:
  assumes "publish_all cfg corr ord names ts rd = (Inr ps, rd')"
  shows "rd_entries rd' = rd_entries rd @ map (\<lambda>(t, s, i). (s, i, build_redis_task_message t ord (names (ft_menu_item_id t)) corr)) ps
    \<and> (\<forall>(t, s, i) \<in> set ps. s = build_task_stream_name (o_kitchen_id ord) (ft_station_type t) (fs_stream_prefix cfg))"
  using assms
proof (induction ts arbitrary: rd ps)
  case Nil
  then show ?case by simp
next
  case (Cons t ts)
  obtain s i rd1 where 1: "publish_task cfg corr t ord (names (ft_menu_item_id t)) rd = (Inr (s, i), rd1)"
    using Cons.prems by (auto split: prod.splits sum.splits)
  then obtain ps1 where 2: "publish_all cfg corr ord names ts rd1 = (Inr ps1, rd')" "ps = (t, s, i) # ps1"
    using Cons.prems by (auto split: prod.splits sum.splits)
  have "rd_entries rd1 = rd_entries rd @ [(s, i, build_redis_task_message t ord (names (ft_menu_item_id t)) corr)]
    \<and> s = build_task_stream_name (o_kitchen_id ord) (ft_station_type t) (fs_stream_prefix cfg)"
    using 1 by (auto simp: publish_task_def xadd_def Let_def split: xadd_outcome.splits)
  with Cons.IH [OF 2(1)] 2(2) show ?case by simp
qed

lemma mark_tasks_queued_rows:
  assumes "mark_tasks_queued env ps db = Inr db'" and "distinct (map (ft_id \<circ> fst) ps)" and "(x, s, i) \<in> set ps"
    and "get_ftask_row db (ft_id x) = Some t"
  shows "get_ftask_row db' (ft_id x) = Some (queued_row (fe_now env) (fe_db_now env) s i t)"
  using assms
proof (induction ps arbitrary: db t)
  case Nil
  then show ?case by simp
next
  case (Cons e ps)
  obtain y s' i' where e: "e = (y, s', i')" by (cases e) auto
  let ?db1 = "upd_ftask (ft_id y) (queued_row (fe_now env) (fe_db_now env) s' i') db"
  have rest: "mark_tasks_queued env ps ?db1 = Inr db'" using Cons.prems(1) by (simp add: e split: if_splits)
  have row: "get_ftask_row ?db1 j = (if j = ft_id y then map_option (queued_row (fe_now env) (fe_db_now env) s' i') (get_ftask_row db (ft_id y))
      else get_ftask_row db j)" for j
    by (subst ftask_tab.get_upd) simp_all
  show ?case
  proof (cases "(x, s, i) = e")
    case True
    then have x: "x = y" "s = s'" "i = i'" by (simp_all add: e)
    have keep: "get_ftask_row db'' (ft_id y) = get_ftask_row db1 (ft_id y)"
      if "mark_tasks_queued env qs db1 = Inr db''" "ft_id y \<notin> (ft_id \<circ> fst) ` set qs" for qs db1 db''
      using that
    proof (induction qs arbitrary: db1)
      case Nil
      then show ?case by simp
    next
      case (Cons q qs)
      obtain z a b where q: "q = (z, a, b)" by (cases q) auto
      have "get_ftask_row db'' (ft_id y) = get_ftask_row (upd_ftask (ft_id z) (queued_row (fe_now env) (fe_db_now env) a b) db1) (ft_id y)"
        by (rule Cons.IH) (use Cons.prems in \<open>auto simp: q split: if_splits\<close>)
      then show ?case using Cons.prems(2) by (subst (asm) ftask_tab.get_upd) (auto simp: q)
    qed
    have "ft_id y \<notin> (ft_id \<circ> fst) ` set ps" using Cons.prems(2) by (simp add: e)
    from keep [OF rest this] row Cons.prems(4) show ?thesis by (simp add: x)
  next
    case False
    then have m: "(x, s, i) \<in> set ps" using Cons.prems(3) by simp
    then have "ft_id x \<noteq> ft_id y" using Cons.prems(2) by (force simp: e)
    then show ?thesis
      using Cons.IH [OF rest _ m] Cons.prems(2,4) row by simp
  qed
qed

lemma create_order_run:
  assumes "create_order cfg up env corr p w = (res, w')"
  obtains (refused) e where "res = Inl e" "w' = w" "order_checks up p = Inl e"
  | (not_stored) e recipes names where "res = Inl e" "w' = w" "order_checks up p = Inr (recipes, names)"
      "store_order env p recipes (fw_db w) = Inl e"
  | (stored) recipes names so db q where "order_checks up p = Inr (recipes, names)"
      "store_order env p recipes (fw_db w) = Inr (so, db)"
      "publish_and_queue cfg env corr (so_order so) (so_tasks so) names (order_stored cfg env corr so db w) = (q, w')"
      "res = map_sum id (\<lambda>n. \<lparr>oq_order = so_order so, oq_items = so_items so,
         oq_tasks_count = length (so_tasks so), oq_queued_count = n\<rparr>) q"
proof (cases "order_checks up p")
  case (Inl e)
  then show ?thesis using assms refused by (auto simp: create_order_def)
next
  case (Inr rn)
  obtain recipes names where rn: "rn = (recipes, names)" by fastforce
  note checks = Inr [unfolded rn]
  show ?thesis
  proof (cases "store_order env p recipes (fw_db w)")
    case (Inl e)
    then show ?thesis using assms checks not_stored by (auto simp: create_order_def)
  next
    case (Inr sd)
    obtain so db where sd: "sd = (so, db)" by fastforce
    obtain q w1 where q: "publish_and_queue cfg env corr (so_order so) (so_tasks so) names (order_stored cfg env corr so db w) = (q, w1)"
      by fastforce
    show ?thesis
      by (rule stored [where q = q, OF checks Inr [unfolded sd]])
        (use assms q checks Inr sd in \<open>auto simp: create_order_def split: sum.splits\<close>)
  qed
qed

lemma order_stored_simps [simp]:
  "fw_db (order_stored cfg env corr so db w) = db" "fw_redis (order_stored cfg env corr so db w) = fw_redis w"
  by (simp_all add: order_stored_def Let_def)

lemma publish_and_queue_ok:
  assumes "publish_and_queue cfg env corr ord tasks names w = (Inr n, w')" and "fs_redis_publish_enabled cfg"
  obtains ps where "publish_all cfg corr ord names tasks (fw_redis w) = (Inr ps, fw_redis w')"
    "mark_tasks_queued env ps (fw_db w) = Inr (fw_db w')" "n = length ps"
proof -
  obtain ps rd where 1: "publish_all cfg corr ord names tasks (fw_redis w) = (Inr ps, rd)"
    using assms by (auto simp: publish_and_queue_def split: prod.splits sum.splits)
  obtain db where 2: "mark_tasks_queued env ps (fw_db w) = Inr db"
    using assms 1 by (auto simp: publish_and_queue_def split: sum.splits)
  show ?thesis using assms by (intro that [of ps]) (auto simp: publish_and_queue_def 1 2 split: prod.splits)
qed

lemma stored_tasks_count:
  assumes run: "store_order env p recipes db = Inr (so, db')" and known: "\<forall>i \<in> set (oc_items p). recipes (ic_menu_item_id i) \<noteq> None"
  shows "length (so_tasks so) = sum_list (map (\<lambda>i. length (recipe_steps_of recipes (ic_menu_item_id i)) * nat (ic_quantity i)) (oc_items p))"
proof -
  have "so_items so = new_items env (o_id (new_order env p)) (Suc 0) (oc_items p)"
    and so: "so_tasks so = concat (order_chains (fe_ids env) (fe_db_now env) (o_id (so_order so)) recipes
      (Suc (length (so_items so))) (so_items so))"
    by (rule store_order_Inr [OF run known], simp)+
  moreover have col: "map (\<lambda>it. f (oi_menu_item_id it) (oi_quantity it)) (new_items env oid m is)
      = map (\<lambda>i. f (ic_menu_item_id i) (ic_quantity i)) is" for f :: "uuid \<Rightarrow> int \<Rightarrow> nat" and oid m "is"
    by (induction "is" arbitrary: m) simp_all
  ultimately show ?thesis
    by (simp only: so order_chains_sizes(2)) (simp only: col [where f = "\<lambda>m n. length (recipe_steps_of recipes m) * nat n"])
qed

lemma published_rows:
  assumes inv: "f_inv db" and run: "store_order env p recipes db0 = Inr (so, db)"
    and known: "\<forall>i \<in> set (oc_items p). recipes (ic_menu_item_id i) \<noteq> None"
    and ps: "map fst ps = so_tasks so" and mark: "mark_tasks_queued env2 ps db = Inr db'" and m: "(t, s, i) \<in> set ps"
  shows "\<exists>r. get_ftask_row db' (ft_id t) = Some r \<and> ft_order_id r = o_id (so_order so)
     \<and> ft_status r = Tk_queued \<and> ft_attempts r = 1 \<and> ft_redis_message_id r = Some i \<and> ft_redis_stream r = Some s"
proof -
  note sn = store_order_new [OF run known]
  have ids: "map (ft_id \<circ> fst) ps = map ft_id (so_tasks so)" using ps by (metis map_map)
  have d: "distinct (map ft_id (f_tasks db))" using inv by (simp add: f_inv_def fdb_ok_def)
  then have dist: "distinct (map (ft_id \<circ> fst) ps)" using sn(2) by (simp add: ids)
  have "t \<in> set (so_tasks so)" using m ps by (metis fst_conv imageI list.set_map)
  then have "get_ftask_row db (ft_id t) = Some t" "ft_order_id t = o_id (so_order so)"
    using ftask_tab.member_get [of db t] d sn(2,5) by auto
  with mark_tasks_queued_rows [OF mark dist m] show ?thesis by (simp add: queued_row_def)
qed

text \<open>
  A successful creation (with publishing enabled) publishes every task once and queues
  it: the new entries of Redis are one message per task of the order, in the stream of its kitchen and
  station type, and every task ends up queued with the stream and message id of its entry and
  one attempt. The counts in the response are the number of tasks, which is the sum over the
  items of quantity times recipe steps.
\<close>

theorem created_order_is_queued:
  fixes p :: order_create and w :: fworld
  assumes "f_inv (fw_db w)" and "fs_redis_publish_enabled cfg" and "create_order cfg up env corr p w = (Inr x, w')"
  shows "\<exists>recipes names so db ids. order_checks up p = Inr (recipes, names)
     \<and> store_order env p recipes (fw_db w) = Inr (so, db) \<and> length ids = length (so_tasks so)
     \<and> rd_entries (fw_redis w') = rd_entries (fw_redis w) @
         map (\<lambda>(t, i). (build_task_stream_name (oc_kitchen_id p) (ft_station_type t) (fs_stream_prefix cfg), i,
                build_redis_task_message t (oq_order x) (names (ft_menu_item_id t)) corr)) (zip (so_tasks so) ids)
     \<and> (\<forall>(t, i) \<in> set (zip (so_tasks so) ids). \<exists>r. get_ftask_row (fw_db w') (ft_id t) = Some r
          \<and> ft_order_id r = o_id (oq_order x) \<and> ft_status r = Tk_queued \<and> ft_attempts r = 1 \<and> ft_redis_message_id r = Some i
          \<and> ft_redis_stream r = Some (build_task_stream_name (oc_kitchen_id p) (ft_station_type t) (fs_stream_prefix cfg)))
     \<and> oq_queued_count x = oq_tasks_count x \<and> oq_tasks_count x = length (so_tasks so)
     \<and> oq_tasks_count x = sum_list (map (\<lambda>i. length (recipe_steps_of recipes (ic_menu_item_id i)) * nat (ic_quantity i)) (oc_items p))"
  using assms(3)
proof (cases rule: create_order_run)
  case (stored recipes names so db q)
  note known = order_checks_known [OF stored(1)]
  obtain n where q: "q = Inr n" using stored(4) by (cases q) auto
  let ?w1 = "order_stored cfg env corr so db w"
  obtain ps where pub: "publish_all cfg corr (so_order so) names (so_tasks so) (fw_redis w) = (Inr ps, fw_redis w')"
    and mark: "mark_tasks_queued env ps db = Inr (fw_db w')" and n: "n = length ps"
    using publish_and_queue_ok [OF stored(3) [unfolded q] assms(2)] by auto
  note x = stored(4) [unfolded q, simplified]
  have ps: "map fst ps = so_tasks so" by (rule publish_all_tasks [OF pub])
  note entries = publish_all_entries [OF pub]
  have new: "so_order so = new_order env p" by (rule store_order_Inr [OF stored(2) known])
  have inv: "f_inv db" by (rule store_order_inv [OF assms(1) stored(2) known])
  let ?ids = "map (\<lambda>(t, s, i). i) ps"
  have zip: "zip (so_tasks so) ?ids = map (\<lambda>(t, s, i). (t, i)) ps"
    unfolding ps [symmetric] by (induction ps) auto
  have kid: "o_kitchen_id (so_order so) = oc_kitchen_id p" by (simp add: new new_order_def)
  have len: "length ps = length (so_tasks so)" using ps by (metis length_map)
  note queued = published_rows [OF inv stored(2) known ps mark]
  note count = stored_tasks_count [OF stored(2) known]
  let ?stream = "\<lambda>t. build_task_stream_name (oc_kitchen_id p) (ft_station_type t) (fs_stream_prefix cfg)"
  have streams: "s = ?stream t" if "(t, s, i) \<in> set ps" for t s i using entries that kid by auto
  have e: "rd_entries (fw_redis w') = rd_entries (fw_redis w) @
      map (\<lambda>(t, i). (?stream t, i, build_redis_task_message t (oq_order x) (names (ft_menu_item_id t)) corr)) (zip (so_tasks so) ?ids)"
    using entries by (auto simp: zip x kid)
  have r: "\<forall>(t, i) \<in> set (zip (so_tasks so) ?ids). \<exists>r. get_ftask_row (fw_db w') (ft_id t) = Some r
      \<and> ft_order_id r = o_id (oq_order x) \<and> ft_status r = Tk_queued \<and> ft_attempts r = 1
      \<and> ft_redis_message_id r = Some i \<and> ft_redis_stream r = Some (?stream t)"
    using queued streams by (fastforce simp: zip x)
  have c: "oq_queued_count x = oq_tasks_count x" "oq_tasks_count x = length (so_tasks so)" by (simp_all add: x n len)
  show ?thesis
    by (rule exI [of _ recipes], rule exI [of _ names], rule exI [of _ so], rule exI [of _ db], rule exI [of _ ?ids], intro conjI)
      (use stored(1,2) len e r c count in simp_all)
qed simp_all

theorem created_order_is_queued_witness:
  "\<exists>x w'. create_order fdemo_cfg fdemo_up fdemo_env None fdemo_order fdemo_world = (Inr x, w')
     \<and> oq_queued_count x = 2 \<and> length (rd_entries (fw_redis w')) = 2"
proof -
  have inv: "f_inv (fw_db fdemo_world)"
    by (simp add: fdemo_world_def empty_fdb_def f_inv_def fdb_ok_def deps_forward_def)
  have db: "fw_db fdemo_world = empty_fdb" "rd_entries (fw_redis fdemo_world) = []" by (simp_all add: fdemo_world_def)
  have cfg: "fs_redis_publish_enabled fdemo_cfg" by (simp add: fdemo_cfg_def)
  obtain w' where w': "create_order fdemo_cfg fdemo_up fdemo_env None fdemo_order fdemo_world =
      (Inr \<lparr>oq_order = so_order fdemo_stored, oq_items = so_items fdemo_stored, oq_tasks_count = 2, oq_queued_count = 2\<rparr>, w')"
    using fdemo_publish [of None] by (auto simp: create_order_def fdemo_checks fdemo_store db) (simp add: fdemo_stored_def)
  have "\<exists>(so :: stored_order) (ids :: string list). length ids = length (so_tasks so) \<and> length (rd_entries (fw_redis w')) = length (zip (so_tasks so) ids)
      \<and> length (so_tasks so) = 2"
    by (insert created_order_is_queued [OF inv cfg w'], elim exE conjE, intro exI conjI, assumption) (simp_all add: db)
  with w' show ?thesis by auto
qed

section \<open>When creation fails\<close>

lemma publish_and_queue_failed:
  assumes "publish_and_queue cfg env corr ord tasks names w = (Inl e, w')"
  shows "fw_db w' = fw_db w \<and> (e = TaskPublishFailedError \<or> e = FDatabaseError DataError)"
proof -
  have pub: "r = TaskPublishFailedError" if "publish_all cfg corr ord names ts rd = (Inl r, rd')" for ts rd rd' r
    using that
    by (induction ts arbitrary: rd rd') (auto simp: publish_task_def Let_def split: prod.splits sum.splits option.splits)
  have mark: "r = DataError" if "mark_tasks_queued env ps db = Inl r" for ps db r
    using that by (induction env ps db rule: mark_tasks_queued.induct) (auto split: if_splits)
  obtain r rd where all: "publish_all cfg corr ord names tasks (fw_redis w) = (r, rd)" by fastforce
  have on: "fs_redis_publish_enabled cfg" using assms by (auto simp: publish_and_queue_def split: if_splits)
  show ?thesis
  proof (cases r)
    case (Inl x)
    then show ?thesis using assms on all pub by (auto simp: publish_and_queue_def)
  next
    case (Inr ps)
    then show ?thesis
      using assms on all mark
      by (cases "mark_tasks_queued env ps (fw_db w)") (auto simp: publish_and_queue_def split: prod.splits)
  qed
qed

text \<open>
  C31. A creation that fails either leaves everything as it was, or has stored the whole order
  and then failed to publish or queue it: then the order is in the tables in status
  \<open>created\<close> with all its tasks in status \<open>created\<close>, although the client is told the request failed.
\<close>

theorem failed_creation:
  fixes p :: order_create and w :: fworld
  assumes "f_inv (fw_db w)" and "create_order cfg up env corr p w = (Inl e, w')"
  shows "w' = w \<or>
    ((e = TaskPublishFailedError \<or> e = FDatabaseError DataError)
     \<and> (\<exists>so recipes names. order_checks up p = Inr (recipes, names)
          \<and> store_order env p recipes (fw_db w) = Inr (so, fw_db w')
          \<and> get_order_row (fw_db w') (o_id (so_order so)) = Some (order_row (so_order so)) \<and> o_status (so_order so) = Ord_created
          \<and> (\<forall>t \<in> set (so_tasks so). get_ftask_row (fw_db w') (ft_id t) = Some t \<and> ft_status t = Tk_created)))"
  using assms(2)
proof (cases rule: create_order_run)
  case (stored recipes names so db q)
  note known = order_checks_known [OF stored(1)]
  note sn = store_order_new [OF stored(2) known]
  have q: "q = Inl e" using stored(4) by (cases q) auto
  have w': "fw_db w' = db" "e = TaskPublishFailedError \<or> e = FDatabaseError DataError"
    using publish_and_queue_failed [OF stored(3) [unfolded q]] by auto
  have "fdb_ok db" using store_order_inv [OF assms(1) stored(2) known] by (simp add: f_inv_def)
  then have d: "distinct (map o_id (f_orders db))" "distinct (map ft_id (f_tasks db))" by (auto simp: fdb_ok_def)
  have "get_order_row db (o_id (order_row (so_order so))) = Some (order_row (so_order so))"
    by (rule order_tab.member_get [OF d(1)]) (simp add: sn(1))
  then have "get_order_row db (o_id (so_order so)) = Some (order_row (so_order so))" by (simp add: order_row_def)
  moreover have "\<forall>t \<in> set (so_tasks so). get_ftask_row db (ft_id t) = Some t \<and> ft_status t = Tk_created"
    using ftask_tab.member_get [OF d(2)] sn(2,5) by auto
  ultimately show ?thesis using stored(1,2) sn(4) w' by blast
qed simp_all

text \<open>A Redis server that accepts the first entry and refuses the second.\<close>

definition fdemo_flaky :: fworld where
  "fdemo_flaky = fdemo_world\<lparr>fw_redis := \<lparr>rd_entries = [], rd_calls = 0,
     rd_script = (\<lambda>n. if n = 0 then Xadd_ok ''1-0'' else Xadd_refused)\<rparr>\<rparr>"

lemma fdemo_flaky_run:
  "\<exists>w'. create_order fdemo_cfg fdemo_up fdemo_env None fdemo_order fdemo_flaky = (Inl TaskPublishFailedError, w')
     \<and> length (rd_entries (fw_redis w')) = 1 \<and> fw_db w' = fdemo_db Ord_created [fdemo_new 3 1, fdemo_new 4 2]"
proof -
  have db: "fw_db fdemo_flaky = empty_fdb" by (simp add: fdemo_flaky_def fdemo_world_def)
  show ?thesis
    by (simp add: create_order_def fdemo_checks fdemo_store db publish_and_queue_def fdemo_cfg_def)
      (simp add: fdemo_stored_def fdemo_flaky_def publish_task_def xadd_def Let_def)
qed

theorem failed_creation_witness:
  "\<exists>w'. create_order fdemo_cfg fdemo_up fdemo_env None fdemo_order fdemo_flaky = (Inl TaskPublishFailedError, w')
     \<and> length (rd_entries (fw_redis w')) = 1
     \<and> (\<forall>t \<in> set (so_tasks fdemo_stored). get_ftask_row (fw_db w') (ft_id t) = Some t \<and> ft_status t = Tk_created)"
proof -
  have inv: "f_inv (fw_db fdemo_flaky)"
    by (simp add: fdemo_flaky_def fdemo_world_def empty_fdb_def f_inv_def fdb_ok_def deps_forward_def)
  obtain w' where w': "create_order fdemo_cfg fdemo_up fdemo_env None fdemo_order fdemo_flaky = (Inl TaskPublishFailedError, w')"
    "length (rd_entries (fw_redis w')) = 1" using fdemo_flaky_run by blast
  then have "w' \<noteq> fdemo_flaky" by (auto simp: fdemo_flaky_def)
  moreover have "fw_db fdemo_flaky = empty_fdb" by (simp add: fdemo_flaky_def fdemo_world_def)
  ultimately have "\<forall>t \<in> set (so_tasks fdemo_stored). get_ftask_row (fw_db w') (ft_id t) = Some t \<and> ft_status t = Tk_created"
    using failed_creation [OF inv w'(1)] by (auto simp: fdemo_checks fdemo_store)
  with w' show ?thesis by blast
qed

end
