(* ===== verification/Fulfillment_Orphans.thy ===== *)
theory Fulfillment_Orphans
  imports Fulfillment_Creation
begin

text \<open>
  Fulfillment service: tasks whose order was stored but not queued. The publishing request is
  the only one that takes a task out of status \<open>created\<close>; once it has failed, or the process
  stopped before it, the task is never dispatched.
\<close>

definition orphan :: "uuid \<Rightarrow> fconc \<Rightarrow> bool" where
  "orphan i k = (board (fw_db (fx_world k)) i = Some Tk_created \<and> i \<notin> set (pub_ids k))"

lemma orphan_keep:
  "orphan i k \<Longrightarrow> get_ftask_row (fw_db (fx_world k')) i = get_ftask_row (fw_db (fx_world k)) i \<Longrightarrow>
     set (pub_ids k') \<subseteq> set (pub_ids k) \<Longrightarrow> orphan i k'"
  by (auto simp: orphan_def board_def)

lemma orphan_world:
  "orphan i k \<Longrightarrow> get_ftask_row (fw_db w) i = get_ftask_row (fw_db (fx_world k)) i \<Longrightarrow> orphan i (k\<lparr>fx_world := w\<rparr>)"
  by (rule orphan_keep) (auto simp: pub_ids_def)

text \<open>A handler only writes to the row of its task, which is not \<open>created\<close>.\<close>

lemma handler_keeps_created:
  fixes w w' :: fworld
  assumes "f_inv (fw_db w)" and created: "board (fw_db w) i = Some Tk_created"
  shows "mark_displayed cfg env corr tid p w = (res1, w') \<Longrightarrow> get_ftask_row (fw_db w') i = get_ftask_row (fw_db w) i"
    "start_task cfg env corr tid q w = (res2, w') \<Longrightarrow> get_ftask_row (fw_db w') i = get_ftask_row (fw_db w) i"
    "dispatch_failed cfg env corr tid f w = (res3, w') \<Longrightarrow> get_ftask_row (fw_db w') i = get_ftask_row (fw_db w) i"
proof -
  have other: "tid \<noteq> i" if "load_task (fw_db w) tid = Some (t, r)" "ft_status t \<noteq> Tk_created" for t r
    using load_task_SomeD(1) [OF that(1)] that(2) created by (auto simp: board_def)
  have save: "get_ftask_row (save_task now t1 (fw_db w)) i = get_ftask_row (fw_db w) i"
    if "load_task (fw_db w) tid = Some (t, r)" "ft_status t \<noteq> Tk_created" "ft_id t1 = ft_id t" for now t t1 r
    using get_save_task [of "fw_db w" t1 now i] load_task_SomeD(1,2) [OF that(1)] other [OF that(1,2)] that(3) by auto
  show "mark_displayed cfg env corr tid p w = (res1, w') \<Longrightarrow> get_ftask_row (fw_db w') i = get_ftask_row (fw_db w) i"
    by (drule mark_displayed_db) (auto intro!: save)
  show "dispatch_failed cfg env corr tid f w = (res3, w') \<Longrightarrow> get_ftask_row (fw_db w') i = get_ftask_row (fw_db w) i"
    by (drule dispatch_failed_db) (auto intro!: save)
  assume "start_task cfg env corr tid q w = (res2, w')"
  from start_task_db [OF this] show "get_ftask_row (fw_db w') i = get_ftask_row (fw_db w) i"
  proof (elim disjE exE conjE)
    fix t r sla assume load: "load_task (fw_db w) tid = Some (t, r)" "can_transition (ft_status t) Tk_in_progress"
      and db: "fw_db w' = set_order_status (fe_db_now env) r Ord_cooking (save_task (fe_db_now env) (started_task q sla t) (fw_db w))"
    have "get_ftask_row (fw_db w') i = get_ftask_row (save_task (fe_db_now env) (started_task q sla t) (fw_db w)) i"
      by (simp add: db get_ftask_row_def)
    also have "\<dots> = get_ftask_row (fw_db w) i" by (rule save [OF load(1)]) (use load(2) in auto)
    finally show ?thesis .
  qed simp
qed

lemma orphan_stored:
  assumes checks: "order_checks up p = Inr (recipes, names)" and run: "store_order env p recipes (fw_db (fx_world k)) = Inr (so, db)"
    and inv: "f_inv (fw_db (fx_world k))" and o: "orphan i k"
  shows "\<exists>t. get_ftask_row db i = Some t \<and> ft_status t = Tk_created \<and> i \<notin> set (pub_ids k) \<and> i \<notin> ft_id ` set (so_tasks so)"
proof -
  note known = order_checks_known [OF checks]
  note n = store_order_new [OF run known]
  have "f_inv db" by (rule store_order_inv [OF inv run known])
  then have d: "distinct (map ft_id (f_tasks (fw_db (fx_world k)) @ so_tasks so))" using n(2) by (simp add: f_inv_def fdb_ok_def)
  obtain t where row: "get_ftask_row (fw_db (fx_world k)) i = Some t" "ft_status t = Tk_created" and i: "i \<notin> set (pub_ids k)"
    using o by (auto simp: orphan_def board_def)
  have "i \<in> ft_id ` set (f_tasks (fw_db (fx_world k)))"
    using ftask_tab.get_key [OF row(1)] ftask_tab.get_member [OF row(1)] by blast
  then have "i \<notin> ft_id ` set (so_tasks so)" using d by auto
  moreover have "get_ftask_row db i = Some t" by (rule get_row_appended [OF n(2) row(1)])
  ultimately show ?thesis using row i by blast
qed

lemma orphan_step:
  "fstep lock_order cfg k k' \<Longrightarrow> fconc_inv lock_order k \<Longrightarrow> orphan i k \<Longrightarrow> orphan i k'"
proof (induction rule: fstep.induct)
  case (f_store p up recipes names env k so db corr)
  have "f_inv (fw_db (fx_world k))" using f_store(4) by (simp add: fconc_inv_def)
  from orphan_stored [OF f_store(2,3) this f_store(5)] show ?case
    by (auto simp: orphan_def board_def pub_ids_def)
next
  case (f_queue k xs so names ys env corr res w)
  have sub: "set (pub_ids (k\<lparr>fx_world := w, fx_pub := xs @ ys\<rparr>)) \<subseteq> set (pub_ids k)"
    by (auto simp: pub_ids_def f_queue(1))
  from f_queue(2) show ?case
  proof (rule publish_and_queue_db)
    assume "fw_db w = fw_db (fx_world k)"
    then show ?thesis by (intro orphan_keep [OF f_queue(4) _ sub]) simp
  next
    fix ps assume ps: "map fst ps = so_tasks so" and mark: "mark_tasks_queued env ps (fw_db (fx_world k)) = Inr (fw_db w)"
    have "i \<notin> ft_id ` set (so_tasks so)" using f_queue(4) by (auto simp: orphan_def pub_ids_def f_queue(1))
    from queue_marks(6) [OF f_queue(3,1) ps mark this] show ?thesis
      by (intro orphan_keep [OF f_queue(4) _ sub]) simp
  qed
next
  case (f_displayed tid k env corr p res w)
  show ?case
    by (rule orphan_world [OF f_displayed(4)], rule handler_keeps_created(1) [OF _ _ f_displayed(2)])
      (use f_displayed(3,4) in \<open>simp_all add: fconc_inv_def orphan_def\<close>)
next
  case (f_start tid k env corr p res w)
  show ?case
    by (rule orphan_world [OF f_start(4)], rule handler_keeps_created(2) [OF _ _ f_start(2)])
      (use f_start(3,4) in \<open>simp_all add: fconc_inv_def orphan_def\<close>)
next
  case (f_failed tid k env corr p res w)
  show ?case
    by (rule orphan_world [OF f_failed(4)], rule handler_keeps_created(3) [OF _ _ f_failed(2)])
      (use f_failed(3,4) in \<open>simp_all add: fconc_inv_def orphan_def\<close>)
next
  case (f_prepare tid k env p c)
  then show ?case by (intro orphan_keep [OF f_prepare(5)]) (auto simp: pub_ids_def)
next
  case (f_commit k xs p c ys env corr)
  have ok: "open_ok lock_order (fw_db (fx_world k)) c" using f_commit(1,2) by (auto simp: fconc_inv_def)
  then have "i \<noteq> ft_id (cm_task c)" using f_commit(3) by (auto simp: open_ok_def orphan_def board_def)
  from complete_apply_rows [OF ok this] show ?case
    by (intro orphan_keep [OF f_commit(3)]) (auto simp: pub_ids_def)
next
  case (f_abort k xs p c ys)
  then show ?case by (intro orphan_keep [OF f_abort(3)]) (auto simp: pub_ids_def)
next
  case (f_crash k xs e ys)
  then show ?case by (intro orphan_keep [OF f_crash(3)]) (auto simp: pub_ids_def)
qed

interpretation ful_orphan: stable_system finit "fstep lock_order cfg" "fconc_inv lock_order" "orphan i"
  by unfold_locales (rule orphan_step)

text \<open>
  C33. A task that is in status \<open>created\<close> while no request is still publishing its order stays
  so for ever: in every later state it is \<open>created\<close>, the dispatcher is told
  \<open>task_status_not_dispatchable\<close>, and its order is not finished. (\<open>failed_creation\<close> leaves such tasks behind.)
\<close>

theorem unqueued_task_is_lost:
  fixes k k' :: fconc
  assumes "reach finit (fstep lock_order cfg) k" and "orphan i k" and "(fstep lock_order cfg)\<^sup>*\<^sup>* k k'"
  shows "\<exists>t. get_ftask_row (fw_db (fx_world k')) i = Some t \<and> ft_status t = Tk_created
     \<and> \<not> all_order_tasks_done (fw_db (fx_world k')) (ft_order_id t)
     \<and> dispatch_readiness i (fx_world k') = Inr \<lparr>rn_task_id = i, rn_ready = False, rn_waiting_for = [],
          rn_reason = Some ''task_status_not_dispatchable''\<rparr>"
proof -
  have inv: "fconc_inv lock_order k" by (rule ful_sys.reach_inv [OF assms(1)])
  then have inv': "fconc_inv lock_order k'" using ful_sys.steps_inv [OF assms(3)] by blast
  have "orphan i k'" by (rule ful_orphan.steps_stable [OF assms(3) inv assms(2)])
  then obtain t where t: "get_ftask_row (fw_db (fx_world k')) i = Some t" "ft_status t = Tk_created"
    by (auto simp: orphan_def board_def)
  have ok: "fdb_ok (fw_db (fx_world k'))" using inv' by (simp add: fconc_inv_def f_inv_def)
  obtain r where "load_task (fw_db (fx_world k')) i = Some (t, r)" using load_task_total [OF ok t(1)] by blast
  moreover have "ft_id t = i" by (rule ftask_tab.get_key [OF t(1)])
  moreover have "0 < unfinished (fw_db (fx_world k')) (ft_order_id t)"
    using unfinished_pos [OF ftask_tab.get_member [OF t(1)]] t(2) by simp
  ultimately show ?thesis using t by (simp add: dispatch_readiness_def all_done_unfinished)
qed

text \<open>The order of \<open>Fulfillment_Demo\<close> with a process that stops before it publishes.\<close>

lemma fdemo_reach_orphan: "\<exists>k. reach finit (fstep lock_order fdemo_cfg) k \<and> orphan 3 k"
proof -
  let ?k0 = "\<lparr>fx_world = fdemo_world, fx_pub = [], fx_open = []\<rparr>"
  let ?w1 = "order_stored fdemo_cfg fdemo_env None fdemo_stored (fdemo_db Ord_created [fdemo_new 3 1, fdemo_new 4 2]) fdemo_world"
  let ?k1 = "?k0\<lparr>fx_world := ?w1, fx_pub := [(fdemo_stored, fdemo_names)]\<rparr>"
  have "reach finit (fstep lock_order fdemo_cfg) ?k0"
    by (rule reach_init) (simp add: finit_def fdemo_world_def)
  moreover have "fstep lock_order fdemo_cfg ?k0 ?k1"
    using f_store [OF fdemo_valid fdemo_checks, of fdemo_env ?k0] fdemo_store by (simp add: fdemo_world_def)
  ultimately have r1: "reach finit (fstep lock_order fdemo_cfg) ?k1" by (rule reach_step)
  have "fstep lock_order fdemo_cfg ?k1 (?k1\<lparr>fx_pub := [] @ []\<rparr>)"
    by (rule f_crash [of _ _ "(fdemo_stored, fdemo_names)"]) simp
  from reach_step [OF r1 this] show ?thesis
    by (intro exI [of _ "?k1\<lparr>fx_pub := [] @ []\<rparr>"])
      (simp add: orphan_def board_def pub_ids_def, simp add: get_ftask_row_def fdemo_db_def)
qed

theorem unqueued_task_is_lost_witness:
  "\<exists>k t. reach finit (fstep False fdemo_cfg) k \<and> get_ftask_row (fw_db (fx_world k)) 3 = Some t \<and> ft_status t = Tk_created
     \<and> dispatch_readiness 3 (fx_world k) = Inr \<lparr>rn_task_id = 3, rn_ready = False, rn_waiting_for = [],
          rn_reason = Some ''task_status_not_dispatchable''\<rparr>"
proof -
  obtain k where k: "reach finit (fstep False fdemo_cfg) k" "orphan 3 k" using fdemo_reach_orphan by blast
  from unqueued_task_is_lost [OF k, of k] k(1) show ?thesis by blast
qed

end
