(* ===== verification/Py_Text.thy ===== *)
theory Py_Text
  imports Effects
begin

text \<open>
  More of the Python text functions: \<open>sep.join\<close>, the decimal digits of \<open>str(n)\<close> and their
  reading back, \<open>str.rstrip\<close> with a character, and \<open>repr\<close> and \<open>str\<close> of the values of a
  decoded JSON text.
\<close>

section \<open>Joining and splitting\<close>

fun py_join :: "char \<Rightarrow> string list \<Rightarrow> string" where
  "py_join c [] = []"
| "py_join c [p] = p"
| "py_join c (p # ps) = p @ c # py_join c ps"

lemma py_split_piece: "c \<notin> set p \<Longrightarrow> py_split c p = [p]"
  by (induction p) auto

lemma py_split_append: "c \<notin> set p \<Longrightarrow> py_split c (p @ c # s) = p # py_split c s"
  by (induction p) (auto split: list.splits)

lemma py_split_join:
  "ps \<noteq> [] \<Longrightarrow> \<forall>p \<in> set ps. c \<notin> set p \<Longrightarrow> py_split c (py_join c ps) = ps"
  by (induction c ps rule: py_join.induct) (simp_all add: py_split_piece py_split_append)

lemma py_split1_append: "c \<notin> set p \<Longrightarrow> py_split1 c (p @ c # s) = (p, s)"
  by (induction p) (auto simp: py_split1_def)

lemma py_join_nonempty: "p \<noteq> [] \<Longrightarrow> py_join c (p # ps) \<noteq> []"
  by (cases ps) auto

lemma hd_py_join: "p \<noteq> [] \<Longrightarrow> hd (py_join c (p # ps)) = hd p"
  by (cases ps) auto

section \<open>Decimal digits\<close>

lemma nat_str_nonempty [simp]: "nat_str n \<noteq> []"
  by (subst nat_str.simps) simp

lemma nat_str_digit: "n < 10 \<Longrightarrow> nat_str n = [hex_char n]"
  by (subst nat_str.simps) (simp add: hex_char_def)

lemma nat_str_step: "10 \<le> n \<Longrightarrow> nat_str n = nat_str (n div 10) @ [hex_char (n mod 10)]"
  by (subst nat_str.simps) (simp add: hex_char_def)

lemma set_nat_str: "c \<in> set (nat_str n) \<Longrightarrow> \<exists>d < 10. c = hex_char d"
proof (induction n rule: nat_str.induct)
  case (1 n)
  show ?case
  proof (cases "n < 10")
    case True
    with 1(2) show ?thesis by (auto simp: nat_str_digit)
  next
    case False
    then have "c \<in> set (nat_str (n div 10)) \<or> c = hex_char (n mod 10)" using 1(2) by (auto simp: nat_str_step)
    then show ?thesis using 1(1) False by (metis mod_less_divisor zero_less_numeral)
  qed
qed

lemma digit_val_10_hex_char: "d < 10 \<Longrightarrow> digit_val 10 (hex_char d) = Some d"
  by (simp add: digit_val_def of_char_hex_char Let_def)

lemma digits_value_nat_str:
  "digits_value 10 acc (nat_str n @ rest) = digits_value 10 (acc * 10 ^ length (nat_str n) + n) rest"
proof (induction n arbitrary: rest rule: nat_str.induct)
  case (1 n)
  have step: "digits_value 10 a (hex_char d # rest) = digits_value 10 (a * 10 + d) rest" if "d < 10" for a d rest
    using that by (intro digits_value_Cons digit_val_10_hex_char hex_char_not) simp_all
  show ?case
  proof (cases "n < 10")
    case True
    then show ?thesis by (simp add: nat_str_digit step)
  next
    case False
    then have "digits_value 10 acc (nat_str n @ rest)
        = digits_value 10 (acc * 10 ^ length (nat_str (n div 10)) + n div 10) (hex_char (n mod 10) # rest)"
      using 1 by (simp add: nat_str_step)
    also have "\<dots> = digits_value 10 ((acc * 10 ^ length (nat_str (n div 10)) + n div 10) * 10 + n mod 10) rest"
      by (rule step) simp
    finally show ?thesis using False by (simp add: nat_str_step algebra_simps)
  qed
qed

lemma py_nat_nat_str: "py_nat 10 (nat_str n) = Some n"
proof (cases "nat_str n")
  case (Cons c cs)
  then obtain d where d: "d < 10" "c = hex_char d" using set_nat_str [of c n] by auto
  have "digits_value 10 0 (c # cs) = digits_value 10 d cs"
    using d by (subst digits_value_Cons [where v = d]) (simp_all add: hex_char_not digit_val_10_hex_char)
  then show ?thesis using Cons d digits_value_nat_str [of 0 n "[]"] by (simp add: py_nat_def digit_val_10_hex_char)
qed simp

lemma nat_str_inj [simp]: "nat_str m = nat_str n \<longleftrightarrow> m = n"
  by (metis option.inject py_nat_nat_str)

lemma nat_str_not:
  assumes "c \<in> set (nat_str n)"
  shows "c \<noteq> CHR ''-''" "c \<noteq> CHR '',''" "c \<noteq> CHR '':''" "\<not> py_isspace c" "\<not> int_space c" "c \<noteq> CHR ''+''" "c \<noteq> CHR 0x5F"
proof -
  obtain d where d: "d < 10" "c = hex_char d" using set_nat_str [OF assms] by blast
  then have v: "(of_char c :: nat) = 48 + d" by (simp add: of_char_hex_char)
  then show "\<not> py_isspace c" using d(1) by (simp add: py_isspace_def Let_def)
  show "c \<noteq> CHR '',''" using v by auto
  show "c \<noteq> CHR ''-''" "c \<noteq> CHR '':''" "\<not> int_space c" "c \<noteq> CHR ''+''" "c \<noteq> CHR 0x5F"
    using d hex_char_not [of d] by simp_all
qed

text \<open>\<open>int(str(n))\<close>; the interpreter reads at most 4300 digits.\<close>

lemma py_int_nat_str:
  assumes "length (nat_str n) \<le> 4300"
  shows "py_int 10 (nat_str n) = Some (int n)"
proof -
  have strip: "py_strip_by int_space (nat_str n) = nat_str n"
    by (rule py_strip_by_all) (simp add: nat_str_not)
  have hd: "hd (nat_str n) \<noteq> CHR ''-'' \<and> hd (nat_str n) \<noteq> CHR ''+''"
    using nat_str_not(1,6) [of "hd (nat_str n)" n] by simp
  have pre: "drop_hex_prefix 10 (nat_str n) = nat_str n"
    by (auto simp: drop_hex_prefix_def split: list.splits)
  have "length (filter (\<lambda>c. c \<noteq> CHR 0x5F) (nat_str n)) \<le> 4300"
    using assms length_filter_le order_trans by blast
  then show ?thesis using hd by (simp add: py_int_def strip pre py_nat_nat_str Let_def)
qed

lemma py_strip_nat_str [simp]: "py_strip (nat_str n) = nat_str n"
  unfolding py_strip_def by (rule py_strip_by_all) (simp add: nat_str_not)

end
