(* ===== verification/Simulator_Config.thy ===== *)
theory Simulator_Config
  imports Py_Text
begin

text \<open>
  Station simulator: its settings with their validators (\<open>app/core/config.py\<close>), the parser of
  the worker configuration (\<open>app/simulator/config_parser.py\<close>) and the simulated cooking time
  (\<open>app/simulator/duration.py\<close>). A \<open>ValueError\<close> is its message. A float of the source is a
  real number; rounding and overflow to infinity are not represented.
\<close>

section \<open>The worker configuration\<close>

record worker_config =
  wc_worker_id :: string
  wc_station_id :: string

text \<open>The loop over \<open>range(1, count + 1)\<close>.\<close>

definition station_workers :: "string \<Rightarrow> int \<Rightarrow> worker_config list" where
  "station_workers sid count =
     map (\<lambda>i. \<lparr>wc_worker_id = sid @ ''-worker-'' @ int_str i, wc_station_id = sid\<rparr>) [1..count]"

text \<open>The loop over the items, with the station identifiers seen so far.\<close>

fun parse_items :: "string list \<Rightarrow> string list \<Rightarrow> string + worker_config list" where
  "parse_items seen [] = Inr []"
| "parse_items seen (raw # rest) =
     (let item = py_strip raw
      in if item = [] \<or> CHR '':'' \<notin> set item
         then Inl ''each worker config item must use station_id:count format''
         else
           (let sid = py_strip (fst (py_split1 CHR '':'' item));
                raw_count = py_strip (snd (py_split1 CHR '':'' item))
            in if sid = [] then Inl ''station_id must not be empty''
               else if sid \<in> set seen
               then Inl (''duplicate station_id in simulator workers config: '' @ sid)
               else
                 (case py_int 10 raw_count of
                    None \<Rightarrow> Inl ''worker count must be an integer''
                  | Some count \<Rightarrow>
                      if count \<le> 0 then Inl ''worker count must be greater than 0''
                      else
                        (case parse_items (sid # seen) rest of
                           Inl e \<Rightarrow> Inl e
                         | Inr ws \<Rightarrow> Inr (station_workers sid count @ ws)))))"

definition parse_workers_config :: "string \<Rightarrow> string + worker_config list" where
  "parse_workers_config raw_config =
     (if raw_config = [] \<or> py_strip raw_config = [] then Inl ''SIMULATOR_WORKERS_CONFIG must not be empty''
      else parse_items [] (py_split CHR '','' raw_config))"

section \<open>Settings\<close>

record sim_settings =
  ss_kitchen_service_url :: string
  ss_http_timeout :: real
  ss_enabled :: bool
  ss_speed_factor :: real
  ss_poll_interval_ms :: int
  ss_workers_config :: string
  ss_min_factor :: real
  ss_max_factor :: real

text \<open>
  The validators, each with its message. The last one sees the minimum only if that field has
  passed its own validator (\<open>info.data\<close>).
\<close>

definition validate_kitchen_service_url :: "string \<Rightarrow> string + string" where
  "validate_kitchen_service_url v =
     (if py_strip v = [] then Inl ''kitchen_service_url must not be empty''
      else Inr (py_rstrip_char CHR ''/'' v))"

definition validate_positive_float :: "real \<Rightarrow> string + real" where
  "validate_positive_float v = (if v \<le> 0 then Inl ''value must be greater than 0'' else Inr v)"

definition validate_positive_int :: "int \<Rightarrow> string + int" where
  "validate_positive_int v =
     (if v \<le> 0 then Inl ''simulator_poll_interval_ms must be greater than 0'' else Inr v)"

definition validate_min_duration_factor :: "real \<Rightarrow> string + real" where
  "validate_min_duration_factor v =
     (if v \<le> 0 then Inl ''simulator_min_duration_factor must be greater than 0'' else Inr v)"

definition validate_duration_factors :: "real \<Rightarrow> real option \<Rightarrow> string + real" where
  "validate_duration_factors v min_factor =
     (if (case min_factor of None \<Rightarrow> False | Some m \<Rightarrow> m \<le> 0)
      then Inl ''simulator_min_duration_factor must be greater than 0''
      else if v \<le> 0 then Inl ''simulator_max_duration_factor must be greater than 0''
      else if (case min_factor of None \<Rightarrow> False | Some m \<Rightarrow> v < m)
      then Inl ''simulator_max_duration_factor must be greater than or equal to simulator_min_duration_factor''
      else Inr v)"

definition errors_of :: "string + 'a \<Rightarrow> string list" where
  "errors_of r = (case r of Inl e \<Rightarrow> [e] | Inr _ \<Rightarrow> [])"

text \<open>Constructing the settings collects the errors of the fields in their order.\<close>

definition validate_settings :: "sim_settings \<Rightarrow> string list + sim_settings" where
  "validate_settings s =
     (let url = validate_kitchen_service_url (ss_kitchen_service_url s);
          timeout = validate_positive_float (ss_http_timeout s);
          speed = validate_positive_float (ss_speed_factor s);
          poll = validate_positive_int (ss_poll_interval_ms s);
          mn = validate_min_duration_factor (ss_min_factor s);
          mx = validate_duration_factors (ss_max_factor s) (case mn of Inl _ \<Rightarrow> None | Inr m \<Rightarrow> Some m);
          errors = errors_of url @ errors_of timeout @ errors_of speed @ errors_of poll @ errors_of mn @ errors_of mx
      in case url of
           Inr u \<Rightarrow> if errors = [] then Inr (s\<lparr>ss_kitchen_service_url := u\<rparr>) else Inl errors
         | Inl _ \<Rightarrow> Inl errors)"

section \<open>The simulated cooking time\<close>

definition calculate_simulated_duration ::
    "int \<Rightarrow> real \<Rightarrow> real \<Rightarrow> real \<Rightarrow> (real \<Rightarrow> real \<Rightarrow> real) \<Rightarrow> string + real" where
  "calculate_simulated_duration estimated speed min_factor max_factor provider =
     (if estimated \<le> 0 then Inl ''estimated_duration_seconds must be greater than 0''
      else if speed \<le> 0 then Inl ''speed_factor must be greater than 0''
      else if min_factor \<le> 0 \<or> max_factor \<le> 0 then Inl ''duration factors must be greater than 0''
      else if max_factor < min_factor then Inl ''max_factor must be greater than or equal to min_factor''
      else Inr (max 0 (real_of_int estimated * provider min_factor max_factor / speed)))"

section \<open>What validated settings guarantee\<close>

lemma validate_settings_ok:
  assumes "validate_settings s = Inr s'"
  shows "0 < ss_http_timeout s'" "0 < ss_speed_factor s'" "0 < ss_poll_interval_ms s'"
    "0 < ss_min_factor s'" "ss_min_factor s' \<le> ss_max_factor s'" "ss_workers_config s' = ss_workers_config s"
  using assms
  by (auto simp: validate_settings_def Let_def errors_of_def validate_positive_float_def validate_positive_int_def
      validate_min_duration_factor_def validate_duration_factors_def split: sum.splits if_splits)

text \<open>
  Validated settings never make the cooking time of a task with a positive estimate fail, and
  a random factor between its bounds keeps the time between the scaled bounds.
\<close>

lemma simulated_duration_total:
  assumes "validate_settings s = Inr s'" and "0 < estimated"
    and "ss_min_factor s' \<le> provider (ss_min_factor s') (ss_max_factor s')"
    and "provider (ss_min_factor s') (ss_max_factor s') \<le> ss_max_factor s'"
  shows "\<exists>d. calculate_simulated_duration estimated (ss_speed_factor s') (ss_min_factor s') (ss_max_factor s') provider = Inr d
     \<and> 0 < d \<and> real_of_int estimated * ss_min_factor s' / ss_speed_factor s' \<le> d
     \<and> d \<le> real_of_int estimated * ss_max_factor s' / ss_speed_factor s'"
proof -
  note ok = validate_settings_ok [OF assms(1)]
  let ?f = "provider (ss_min_factor s') (ss_max_factor s')"
  let ?d = "real_of_int estimated * ?f / ss_speed_factor s'"
  have f: "0 < ?f" using ok(4) assms(3) by linarith
  have e: "0 < real_of_int estimated" using assms(2) by simp
  have pos: "0 < ?d" using e f ok(2) by simp
  have "real_of_int estimated * ss_min_factor s' / ss_speed_factor s' \<le> ?d"
    using e assms(3) ok(2) by (intro divide_right_mono mult_left_mono) simp_all
  moreover have "?d \<le> real_of_int estimated * ss_max_factor s' / ss_speed_factor s'"
    using e assms(4) ok(2) by (intro divide_right_mono mult_left_mono) simp_all
  ultimately show ?thesis
    using pos ok assms(2) unfolding calculate_simulated_duration_def by auto
qed

section \<open>What an accepted configuration yields\<close>

lemma until_first:
  "\<forall>x \<in> set p. P x \<Longrightarrow> \<not> P c \<Longrightarrow> takeWhile P (p @ c # s) = p \<and> dropWhile P (p @ c # s) = c # s"
  by (induction p) auto

lemma worker_id_split:
  "takeWhile (\<lambda>c. c \<noteq> CHR ''-'') (rev (sid @ ''-worker-'' @ nat_str n)) = rev (nat_str n)
   \<and> dropWhile (\<lambda>c. c \<noteq> CHR ''-'') (rev (sid @ ''-worker-'' @ nat_str n)) = ''-rekrow-'' @ rev sid"
  using until_first [of "rev (nat_str n)" "\<lambda>c. c \<noteq> CHR ''-''" "CHR ''-''" "''rekrow-'' @ rev sid"] nat_str_not(1)
  by auto

lemma worker_id_inj:
  assumes "sid @ ''-worker-'' @ nat_str m = sid' @ ''-worker-'' @ nat_str n"
  shows "sid = sid' \<and> m = n"
  using worker_id_split [of sid m] worker_id_split [of sid' n] unfolding assms by simp

lemma set_station_workers:
  "set (station_workers sid count)
     = {\<lparr>wc_worker_id = sid @ ''-worker-'' @ nat_str n, wc_station_id = sid\<rparr> | n. 1 \<le> n \<and> int n \<le> count}"
proof -
  have "set [1..count] = int ` {n. 1 \<le> n \<and> int n \<le> count}"
    by (auto simp: image_iff) (metis int_nat_eq nat_int nat_le_eq_zle order_trans zero_le_one int_one_le_iff_zero_less
        zero_less_nat_eq One_nat_def Suc_leI of_nat_1)
  then show ?thesis by (force simp: station_workers_def int_str_def image_image)
qed

lemma distinct_station_workers: "distinct (map wc_worker_id (station_workers sid count))"
proof -
  have "inj_on (\<lambda>i. sid @ ''-worker-'' @ int_str i) (set [1..count])"
    by (rule inj_onI) (auto simp: int_str_def split: if_splits)
  then show ?thesis by (simp add: station_workers_def comp_def distinct_map)
qed

text \<open>An accepted item: its station and count, and the workers of the rest.\<close>

lemma parse_items_Cons_ok:
  "parse_items seen (raw # rest) = Inr ws \<Longrightarrow>
     \<exists>sid count ws'. sid \<noteq> [] \<and> sid \<notin> set seen \<and> 0 < count
       \<and> parse_items (sid # seen) rest = Inr ws' \<and> ws = station_workers sid count @ ws'"
  by (auto simp: Let_def not_le split: if_splits option.splits sum.splits)

lemma parse_items_stations:
  "parse_items seen items = Inr ws \<Longrightarrow> w \<in> set ws \<Longrightarrow> wc_station_id w \<notin> set seen \<and> wc_station_id w \<noteq> []
     \<and> (\<exists>n \<ge> 1. wc_worker_id w = wc_station_id w @ ''-worker-'' @ nat_str n)"
proof (induction items arbitrary: seen ws)
  case (Cons raw rest)
  from Cons.prems(1) obtain sid count ws' where r: "sid \<noteq> []" "sid \<notin> set seen"
    "parse_items (sid # seen) rest = Inr ws'" "ws = station_workers sid count @ ws'"
    using parse_items_Cons_ok by blast
  show ?case
  proof (cases "w \<in> set ws'")
    case True
    with Cons.IH [OF r(3)] show ?thesis by simp
  next
    case False
    with Cons.prems(2) r show ?thesis by (auto simp: set_station_workers)
  qed
qed simp

lemma parse_items_distinct: "parse_items seen items = Inr ws \<Longrightarrow> distinct (map wc_worker_id ws)"
proof (induction items arbitrary: seen ws)
  case (Cons raw rest)
  from Cons.prems obtain sid count ws' where r: "parse_items (sid # seen) rest = Inr ws'" "ws = station_workers sid count @ ws'"
    using parse_items_Cons_ok by blast
  have "wc_worker_id v \<noteq> wc_worker_id w" if v: "v \<in> set (station_workers sid count)" and w: "w \<in> set ws'" for v w
  proof
    assume eq: "wc_worker_id v = wc_worker_id w"
    obtain m where m: "wc_worker_id v = sid @ ''-worker-'' @ nat_str m" using v by (auto simp: set_station_workers)
    obtain n where n: "wc_worker_id w = wc_station_id w @ ''-worker-'' @ nat_str n" "wc_station_id w \<noteq> sid"
      using parse_items_stations [OF r(1) w] by auto
    show False using worker_id_inj [of sid m "wc_station_id w" n] eq m n by simp
  qed
  then show ?case using Cons.IH [OF r(1)] by (auto simp: r(2) distinct_station_workers)
qed simp

lemma parse_items_nonempty: "parse_items seen items = Inr ws \<Longrightarrow> items \<noteq> [] \<Longrightarrow> ws \<noteq> []"
  by (cases items) (auto simp del: parse_items.simps dest!: parse_items_Cons_ok simp: station_workers_def)

section \<open>The theorems on configurations\<close>

text \<open>
  The workers of an accepted configuration have pairwise different identifiers, each
  built from its station. (The kitchen service recognises the holder of a task by this
  identifier only.)
\<close>

theorem configured_workers_distinct:
  assumes "parse_workers_config raw = Inr ws"
  shows "ws \<noteq> [] \<and> distinct (map wc_worker_id ws)
     \<and> (\<forall>w \<in> set ws. wc_station_id w \<noteq> []
          \<and> (\<exists>n \<ge> 1. wc_worker_id w = wc_station_id w @ ''-worker-'' @ nat_str n))"
proof -
  have p: "parse_items [] (py_split CHR '','' raw) = Inr ws"
    using assms by (simp add: parse_workers_config_def split: if_splits)
  then show ?thesis
    using parse_items_nonempty [OF p py_split_nonempty] parse_items_distinct [OF p] parse_items_stations [OF p] by blast
qed

text \<open>The text of a configuration: \<open>station_id:count\<close> entries separated by commas.\<close>

definition config_text :: "(string \<times> nat) list \<Rightarrow> string" where
  "config_text cs = py_join CHR '','' (map (\<lambda>(sid, n). sid @ CHR '':'' # nat_str n) cs)"

definition plain_station :: "string \<Rightarrow> bool" where
  "plain_station sid =
     (sid \<noteq> [] \<and> CHR '','' \<notin> set sid \<and> CHR '':'' \<notin> set sid \<and> \<not> py_isspace (hd sid) \<and> \<not> py_isspace (last sid))"

lemma plain_strip: "plain_station sid \<Longrightarrow> py_strip sid = sid"
  by (simp add: plain_station_def py_strip_def py_strip_by_id)

lemma plain_entry_strip:
  assumes "plain_station sid"
  shows "py_strip (sid @ CHR '':'' # nat_str n) = sid @ CHR '':'' # nat_str n"
proof -
  have "\<not> py_isspace (last (nat_str n))" using nat_str_not(4) [of "last (nat_str n)" n] by simp
  then show ?thesis using assms unfolding py_strip_def by (intro py_strip_by_id) (auto simp: plain_station_def)
qed

lemma parse_items_text:
  assumes "\<forall>(sid, n) \<in> set cs. plain_station sid \<and> 0 < n \<and> length (nat_str n) \<le> 4300"
    and "distinct (map fst cs)" and "set seen \<inter> fst ` set cs = {}"
  shows "parse_items seen (map (\<lambda>(sid, n). sid @ CHR '':'' # nat_str n) cs)
     = Inr (concat (map (\<lambda>(sid, n). station_workers sid (int n)) cs))"
  using assms
proof (induction cs arbitrary: seen)
  case (Cons c cs)
  obtain sid n where c: "c = (sid, n)" by (cases c)
  have "parse_items (sid # seen) (map (\<lambda>(sid, n). sid @ CHR '':'' # nat_str n) cs)
      = Inr (concat (map (\<lambda>(sid, n). station_workers sid (int n)) cs))"
    using Cons.prems by (intro Cons.IH) (auto simp: c)
  moreover have "plain_station sid" "0 < n" "length (nat_str n) \<le> 4300" "sid \<notin> set seen"
    using Cons.prems by (auto simp: c)
  moreover from this have "py_split1 CHR '':'' (sid @ CHR '':'' # nat_str n) = (sid, nat_str n)" "sid \<noteq> []"
    by (simp_all add: plain_station_def py_split1_append)
  ultimately show ?case
    by (simp add: c plain_entry_strip plain_strip py_int_nat_str Let_def)
qed simp

lemma parse_config_text:
  assumes "cs \<noteq> []" and "distinct (map fst cs)"
    and "\<forall>(sid, n) \<in> set cs. plain_station sid \<and> 0 < n \<and> length (nat_str n) \<le> 4300"
  shows "parse_workers_config (config_text cs) = Inr (concat (map (\<lambda>(sid, n). station_workers sid (int n)) cs))"
proof -
  let ?entry = "\<lambda>(sid, n). sid @ CHR '':'' # nat_str n"
  have split: "py_split CHR '','' (config_text cs) = map ?entry cs"
    unfolding config_text_def using assms(1,3) nat_str_not(2)
    by (intro py_split_join) (auto simp: plain_station_def)
  obtain sid n cs' where cs: "cs = (sid, n) # cs'" using assms(1) by (cases cs) auto
  have head: "config_text cs \<noteq> []" "\<not> py_isspace (hd (config_text cs))"
    using assms(3) by (auto simp: cs config_text_def plain_station_def hd_py_join py_join_nonempty)
  then have "py_strip (config_text cs) \<noteq> []"
    by (auto simp: py_strip_def py_strip_by_def dropWhile_eq_Nil_conv) (metis hd_Cons_tl dropWhile.simps(2) list.set_intros(1))
  then show ?thesis
    using head(1) parse_items_text [of cs "[]"] assms by (simp add: parse_workers_config_def split)
qed

text \<open>
  Reading the text of a configuration gives, for each entry in turn, the workers with the
  numbers 1 to its count, whenever the station names are distinct, have no comma, colon or
  surrounding space, and the counts are positive (and not longer than what \<open>int\<close> reads).
\<close>

theorem config_roundtrip:
  assumes "cs \<noteq> []" and "distinct (map fst cs)"
    and "\<forall>(sid, n) \<in> set cs. plain_station sid \<and> 0 < n \<and> length (nat_str n) \<le> 4300"
  shows "parse_workers_config (config_text cs) = Inr (concat (map (\<lambda>(sid, n). station_workers sid (int n)) cs))"
  using assms by (rule parse_config_text)

text \<open>The demo configuration of the tests.\<close>

definition demo_config :: "(string \<times> nat) list" where
  "demo_config = [(''grill_1'', 2), (''fryer_1'', 1)]"

lemma demo_config_plain:
  "cs = demo_config \<Longrightarrow> cs \<noteq> [] \<and> distinct (map fst cs)
     \<and> (\<forall>(sid, n) \<in> set cs. plain_station sid \<and> 0 < n \<and> length (nat_str n) \<le> 4300)"
  by (simp add: demo_config_def plain_station_def py_isspace_def nat_str_digit Let_def)

theorem config_roundtrip_witness:
  "parse_workers_config (config_text demo_config)
     = Inr (concat (map (\<lambda>(sid, n). station_workers sid (int n)) demo_config))"
  using config_roundtrip [of demo_config] demo_config_plain by blast

lemma demo_config_workers:
  "parse_items [] [''grill_1:2'', '' fryer_1 : 1''] = Inr (station_workers ''grill_1'' 2 @ station_workers ''fryer_1'' 1)"
  by (simp add: py_strip_def py_strip_by_def py_isspace_def py_split1_def
        py_int_def int_space_def drop_hex_prefix_def py_nat_def digit_val_def Let_def)

theorem configured_workers_distinct_witness:
  "\<exists>ws. parse_workers_config ''grill_1:2, fryer_1 : 1'' = Inr ws \<and> length ws = 3 \<and> distinct (map wc_worker_id ws)"
proof -
  let ?ws = "station_workers ''grill_1'' 2 @ station_workers ''fryer_1'' 1"
  have p: "parse_workers_config ''grill_1:2, fryer_1 : 1'' = Inr ?ws"
    using demo_config_workers by (simp add: parse_workers_config_def py_strip_def py_strip_by_def py_isspace_def Let_def del: parse_items.simps)
  have "length ?ws = 3" by (simp add: station_workers_def)
  then show ?thesis using p configured_workers_distinct [OF p] by blast
qed

end
