(* ===== verification/Simulator_Client.thy ===== *)
theory Simulator_Client
  imports Simulator_Config
begin

text \<open>
  Station simulator: the HTTP client of the kitchen service, \<open>app/kds_client/client.py\<close> with
  \<open>app/kds_client/schemas.py\<close>. What one exchange shows to the client is an \<open>http_result\<close> whose
  body carries the decoded JSON text (if it is one) and the verdict of the response model
  (\<open>model_validate\<close>): the validated value or the message of the exception.
\<close>

section \<open>Decoded JSON\<close>

text \<open>Values without floating-point numbers, which the services do not send.\<close>

datatype json =
    Js_null
  | Js_bool bool
  | Js_int int
  | Js_str string
  | Js_arr "json list"
  | Js_obj "(string \<times> json) list"

fun js_truthy :: "json \<Rightarrow> bool" where
  "js_truthy Js_null = False"
| "js_truthy (Js_bool b) = b"
| "js_truthy (Js_int i) = (i \<noteq> 0)"
| "js_truthy (Js_str s) = (s \<noteq> [])"
| "js_truthy (Js_arr xs) = (xs \<noteq> [])"
| "js_truthy (Js_obj fs) = (fs \<noteq> [])"

fun js_type_name :: "json \<Rightarrow> string" where
  "js_type_name Js_null = ''NoneType''"
| "js_type_name (Js_bool _) = ''bool''"
| "js_type_name (Js_int _) = ''int''"
| "js_type_name (Js_str _) = ''str''"
| "js_type_name (Js_arr _) = ''list''"
| "js_type_name (Js_obj _) = ''dict''"

text \<open>\<open>repr\<close> of a string: the quotes it chooses and the characters it escapes.\<close>

definition repr_quote :: "string \<Rightarrow> char" where
  "repr_quote s = (if CHR 0x27 \<in> set s \<and> CHR 0x22 \<notin> set s then CHR 0x22 else CHR 0x27)"

definition repr_char :: "char \<Rightarrow> char \<Rightarrow> string" where
  "repr_char q c =
     (let n = (of_char c :: nat)
      in if c = q \<or> c = CHR 0x5C then [CHR 0x5C, c]
         else if n = 9 then [CHR 0x5C, CHR ''t'']
         else if n = 10 then [CHR 0x5C, CHR ''n'']
         else if n = 13 then [CHR 0x5C, CHR ''r'']
         else if n < 32 \<or> (127 \<le> n \<and> n \<le> 160) \<or> n = 173 then CHR 0x5C # CHR ''x'' # hexn 2 n
         else [c])"

definition repr_str :: "string \<Rightarrow> string" where
  "repr_str s = repr_quote s # concat (map (repr_char (repr_quote s)) s) @ [repr_quote s]"

fun comma_sep :: "string list \<Rightarrow> string" where
  "comma_sep [] = []"
| "comma_sep [p] = p"
| "comma_sep (p # ps) = p @ '', '' @ comma_sep ps"

fun js_repr :: "json \<Rightarrow> string" where
  "js_repr Js_null = ''None''"
| "js_repr (Js_bool b) = (if b then ''True'' else ''False'')"
| "js_repr (Js_int i) = int_str i"
| "js_repr (Js_str s) = repr_str s"
| "js_repr (Js_arr xs) = ''['' @ comma_sep (map js_repr xs) @ '']''"
| "js_repr (Js_obj fs) = [CHR 0x7B] @ comma_sep (map (\<lambda>(k, v). repr_str k @ '': '' @ js_repr v) fs) @ [CHR 0x7D]"

definition js_str :: "json \<Rightarrow> string" where
  "js_str j = (case j of Js_str s \<Rightarrow> s | _ \<Rightarrow> js_repr j)"

section \<open>Response models and errors\<close>

datatype id_value = Id_int int | Id_str string

record sim_task =
  sm_kds_task_id :: id_value
  sm_task_id :: string
  sm_order_id :: string
  sm_station_id :: id_value
  sm_operation :: string
  sm_menu_item_name :: "string option"
  sm_status :: string
  sm_estimated_duration :: int
  sm_pickup_deadline :: "pydatetime option"
  sm_displayed_at :: pydatetime

record sim_claim_response =
  sl_kds_task_id :: id_value
  sl_task_id :: string
  sl_station_id :: id_value
  sl_status :: string
  sl_claimed_by :: string
  sl_claimed_at :: pydatetime

record sim_complete_response =
  sp_kds_task_id :: id_value
  sp_task_id :: string
  sp_station_id :: id_value
  sp_status :: string
  sp_claimed_by :: string
  sp_completed_at :: pydatetime

text \<open>
  The exceptions of a call: the three of the client, any other \<open>Exception\<close> by its message, and
  the cancellation of the asyncio task, which is no \<open>Exception\<close>.
\<close>

datatype sim_error =
    ClaimConflict string
  | RetryableKdsError string
  | KdsClientError string
  | OtherException string
  | CancelledError

record 'a kds_body =
  kb_json :: "json option"
  kb_model :: "string + 'a"

section \<open>Requests\<close>

datatype kds_call =
    Get_tasks string
  | Claim_task string string string
  | Complete_task string string string

fun call_path :: "kds_call \<Rightarrow> string" where
  "call_path (Get_tasks sid) = ''/kds/stations/'' @ sid @ ''/tasks''"
| "call_path (Claim_task sid tid _) = ''/kds/stations/'' @ sid @ ''/tasks/'' @ tid @ ''/claim''"
| "call_path (Complete_task sid tid _) = ''/kds/stations/'' @ sid @ ''/tasks/'' @ tid @ ''/complete''"

fun call_payload :: "kds_call \<Rightarrow> json option" where
  "call_payload (Get_tasks _) = None"
| "call_payload (Claim_task _ _ worker) = Some (Js_obj [(''station_worker_id'', Js_str worker)])"
| "call_payload (Complete_task _ _ worker) = Some (Js_obj [(''station_worker_id'', Js_str worker)])"

text \<open>An empty correlation id is replaced by a fresh one.\<close>

definition correlation_headers :: "string option \<Rightarrow> uuid \<Rightarrow> uuid \<Rightarrow> (string \<times> string) list" where
  "correlation_headers corr fresh request =
     [(''X-Correlation-ID'', case corr of Some c \<Rightarrow> if c = [] then uuid_str fresh else c | None \<Rightarrow> uuid_str fresh),
      (''X-Request-ID'', uuid_str request)]"

section \<open>Reading a response\<close>

definition first_truthy :: "string \<Rightarrow> json option list \<Rightarrow> string" where
  "first_truthy other vs =
     (case find (\<lambda>v. case v of None \<Rightarrow> False | Some j \<Rightarrow> js_truthy j) vs of
        Some (Some j) \<Rightarrow> js_str j
      | _ \<Rightarrow> other)"

text \<open>\<open>_error_reason\<close>; a payload without \<open>get\<close> raises \<open>AttributeError\<close> (\<open>Inl\<close> its message).\<close>

definition error_reason :: "nat \<Rightarrow> json option \<Rightarrow> string + string" where
  "error_reason code payload =
     (let http = ''http_'' @ nat_str code
      in case payload of
           None \<Rightarrow> Inr http
         | Some (Js_obj fs) \<Rightarrow>
             Inr (first_truthy http [map_of fs ''error'', map_of fs ''detail'', map_of fs ''message''])
         | Some j \<Rightarrow>
             Inl ([CHR 0x27] @ js_type_name j @ [CHR 0x27] @ '' object has no attribute ''
                  @ [CHR 0x27] @ ''get'' @ [CHR 0x27]))"

definition raise_reason :: "(string \<Rightarrow> sim_error) \<Rightarrow> nat \<Rightarrow> json option \<Rightarrow> sim_error" where
  "raise_reason exc code payload =
     (case error_reason code payload of Inl msg \<Rightarrow> OtherException msg | Inr reason \<Rightarrow> exc reason)"

text \<open>The part the three calls share: \<open>_raise_for_retryable\<close>, the 4xx check and the model.\<close>

definition read_response :: "nat \<Rightarrow> 'a kds_body \<Rightarrow> sim_error + 'a" where
  "read_response code b =
     (if 500 \<le> code then Inl (raise_reason RetryableKdsError code (kb_json b))
      else if 400 \<le> code then Inl (raise_reason KdsClientError code (kb_json b))
      else (case kb_model b of Inl msg \<Rightarrow> Inl (OtherException msg) | Inr a \<Rightarrow> Inr a))"

definition kds_get_station_tasks :: "sim_task list kds_body http_result \<Rightarrow> sim_error + sim_task list" where
  "kds_get_station_tasks r =
     (case r of
        Http_timeout \<Rightarrow> Inl (RetryableKdsError ''kds_timeout'')
      | Http_transport_error \<Rightarrow> Inl (RetryableKdsError ''kds_unavailable'')
      | Http_other_error \<Rightarrow> Inl (RetryableKdsError ''kds_unavailable'')
      | Http_response code b \<Rightarrow> read_response code b)"

definition kds_claim_task :: "sim_claim_response kds_body http_result \<Rightarrow> sim_error + sim_claim_response" where
  "kds_claim_task r =
     (case r of
        Http_timeout \<Rightarrow> Inl (RetryableKdsError ''kds_timeout'')
      | Http_transport_error \<Rightarrow> Inl (RetryableKdsError ''kds_unavailable'')
      | Http_other_error \<Rightarrow> Inl (RetryableKdsError ''kds_unavailable'')
      | Http_response code b \<Rightarrow>
          if code = 409 then Inl (raise_reason ClaimConflict code (kb_json b)) else read_response code b)"

definition kds_complete_task :: "sim_complete_response kds_body http_result \<Rightarrow> sim_error + sim_complete_response" where
  "kds_complete_task r =
     (case r of
        Http_timeout \<Rightarrow> Inl (RetryableKdsError ''kds_timeout'')
      | Http_transport_error \<Rightarrow> Inl (RetryableKdsError ''kds_unavailable'')
      | Http_other_error \<Rightarrow> Inl (RetryableKdsError ''kds_unavailable'')
      | Http_response code b \<Rightarrow> read_response code b)"

section \<open>The outcome of a call by its status\<close>

text \<open>A call succeeds exactly for a status below 400 (other than a conflict) and a valid body.\<close>

lemma kds_claim_ok_iff:
  "kds_claim_task r = Inr x \<longleftrightarrow> (\<exists>code b. r = Http_response code b \<and> code < 400 \<and> kb_model b = Inr x)"
  by (cases r) (auto simp: kds_claim_task_def read_response_def split: sum.splits)

lemma kds_complete_ok_iff:
  "kds_complete_task r = Inr x \<longleftrightarrow> (\<exists>code b. r = Http_response code b \<and> code < 400 \<and> kb_model b = Inr x)"
  by (cases r) (auto simp: kds_complete_task_def read_response_def split: sum.splits)

lemma kds_tasks_ok_iff:
  "kds_get_station_tasks r = Inr x \<longleftrightarrow> (\<exists>code b. r = Http_response code b \<and> code < 400 \<and> kb_model b = Inr x)"
  by (cases r) (auto simp: kds_get_station_tasks_def read_response_def split: sum.splits)

lemma raise_reason_not_cancelled [simp]:
  "raise_reason RetryableKdsError code j \<noteq> CancelledError" "raise_reason KdsClientError code j \<noteq> CancelledError"
  "raise_reason ClaimConflict code j \<noteq> CancelledError"
  by (simp_all add: raise_reason_def split: sum.split)

end
