(* ===== verification/Simulator_Worker.thy ===== *)
theory Simulator_Worker
  imports Simulator_Client
begin

text \<open>
  Station simulator: \<open>VirtualWorker\<close> of \<open>app/simulator/worker.py\<close> and the runner that starts
  the workers (\<open>app/simulator/runner.py\<close>). Whatever a worker awaits (a call of the kitchen
  service, a sleep) is a function of the state of the rest of the world, which may change in
  any way meanwhile, and may end in the cancellation of the worker's asyncio task. The calls
  and sleeps of a worker are recorded in order.
\<close>

section \<open>The world of a worker\<close>

record worker_state =
  ws_worker_id :: string
  ws_station_id :: string
  ws_status :: string
  ws_current_task_id :: "string option"
  ws_last_error :: "string option"
  ws_last_poll_at :: "pydatetime option"
  ws_completed :: nat

definition to_dict :: "worker_state \<Rightarrow> jdoc" where
  "to_dict s =
     [(''worker_id'', JStr (ws_worker_id s)), (''station_id'', JStr (ws_station_id s)),
      (''status'', JStr (ws_status s)), (''current_task_id'', jopt JStr (ws_current_task_id s)),
      (''completed_tasks_count'', JInt (int (ws_completed s))), (''last_error'', jopt JStr (ws_last_error s))]"

record virtual_worker =
  vw_worker_id :: string
  vw_station_id :: string
  vw_poll_interval :: real
  vw_speed_factor :: real
  vw_min_factor :: real
  vw_max_factor :: real
  vw_complete_attempts :: int

definition fresh_state :: "virtual_worker \<Rightarrow> worker_state" where
  "fresh_state vw =
     \<lparr>ws_worker_id = vw_worker_id vw, ws_station_id = vw_station_id vw, ws_status = ''starting'',
      ws_current_task_id = None, ws_last_error = None, ws_last_poll_at = None, ws_completed = 0\<rparr>"

text \<open>\<open>None\<close> (for a sleep: \<open>True\<close>) means that the task was cancelled while it waited.\<close>

record 's kds_api =
  ap_tasks :: "string \<Rightarrow> string \<Rightarrow> 's \<Rightarrow> sim_task list kds_body http_result option \<times> 's"
  ap_claim :: "string \<Rightarrow> string \<Rightarrow> string \<Rightarrow> string \<Rightarrow> 's \<Rightarrow> sim_claim_response kds_body http_result option \<times> 's"
  ap_complete :: "string \<Rightarrow> string \<Rightarrow> string \<Rightarrow> string \<Rightarrow> 's \<Rightarrow> sim_complete_response kds_body http_result option \<times> 's"
  ap_sleep :: "real \<Rightarrow> 's \<Rightarrow> bool \<times> 's"

record sim_env =
  se_now :: pydatetime
  se_corr :: uuid
  se_random :: "real \<Rightarrow> real \<Rightarrow> real"

datatype sim_action = Act_call kds_call | Act_sleep real

record 's sim_world =
  sv_state :: worker_state
  sv_metrics :: metrics
  sv_trace :: "sim_action list"
  sv_remote :: 's

section \<open>Waiting\<close>

definition await_call ::
    "kds_call \<Rightarrow> ('r \<Rightarrow> sim_error + 'a) \<Rightarrow> ('s \<Rightarrow> 'r option \<times> 's) \<Rightarrow> 's sim_world \<Rightarrow> (sim_error + 'a) \<times> 's sim_world" where
  "await_call c read f w =
     (case f (sv_remote w) of
        (r, s) \<Rightarrow>
          ((case r of None \<Rightarrow> Inl CancelledError | Some x \<Rightarrow> read x),
           w\<lparr>sv_trace := sv_trace w @ [Act_call c], sv_remote := s\<rparr>))"

definition call_tasks :: "'s kds_api \<Rightarrow> virtual_worker \<Rightarrow> string \<Rightarrow> 's sim_world \<Rightarrow> (sim_error + sim_task list) \<times> 's sim_world" where
  "call_tasks api vw corr =
     await_call (Get_tasks (vw_station_id vw)) kds_get_station_tasks (ap_tasks api (vw_station_id vw) corr)"

definition call_claim ::
    "'s kds_api \<Rightarrow> virtual_worker \<Rightarrow> string \<Rightarrow> string \<Rightarrow> 's sim_world \<Rightarrow> (sim_error + sim_claim_response) \<times> 's sim_world" where
  "call_claim api vw corr tid =
     await_call (Claim_task (vw_station_id vw) tid (vw_worker_id vw)) kds_claim_task
       (ap_claim api (vw_station_id vw) tid (vw_worker_id vw) corr)"

definition call_complete ::
    "'s kds_api \<Rightarrow> virtual_worker \<Rightarrow> string \<Rightarrow> string \<Rightarrow> 's sim_world \<Rightarrow> (sim_error + sim_complete_response) \<times> 's sim_world" where
  "call_complete api vw corr tid =
     await_call (Complete_task (vw_station_id vw) tid (vw_worker_id vw)) kds_complete_task
       (ap_complete api (vw_station_id vw) tid (vw_worker_id vw) corr)"

definition call_sleep :: "'s kds_api \<Rightarrow> real \<Rightarrow> 's sim_world \<Rightarrow> (sim_error + unit) \<times> 's sim_world" where
  "call_sleep api d w =
     (case ap_sleep api d (sv_remote w) of
        (cancelled, s) \<Rightarrow>
          ((if cancelled then Inl CancelledError else Inr ()),
           w\<lparr>sv_trace := sv_trace w @ [Act_sleep d], sv_remote := s\<rparr>))"

section \<open>Small updates\<close>

definition on_state :: "(worker_state \<Rightarrow> worker_state) \<Rightarrow> 's sim_world \<Rightarrow> 's sim_world" where
  "on_state f w = w\<lparr>sv_state := f (sv_state w)\<rparr>"

definition on_metrics :: "(metrics \<Rightarrow> metrics) \<Rightarrow> 's sim_world \<Rightarrow> 's sim_world" where
  "on_metrics f w = w\<lparr>sv_metrics := f (sv_metrics w)\<rparr>"

definition worker_labels :: "virtual_worker \<Rightarrow> string list" where
  "worker_labels vw = [vw_station_id vw, vw_worker_id vw]"

definition inc_gauge :: "string \<Rightarrow> string list \<Rightarrow> real \<Rightarrow> metrics \<Rightarrow> metrics" where
  "inc_gauge n ls d m = set_gauge n ls ((case mt_gauges m (n, ls) of None \<Rightarrow> 0 | Some v \<Rightarrow> v) + d) m"

section \<open>One round\<close>

text \<open>The exceptions that the \<open>except (RetryableKdsError, KdsClientError)\<close> clauses catch, as text.\<close>

definition kds_error_text :: "sim_error \<Rightarrow> string option" where
  "kds_error_text e =
     (case e of RetryableKdsError s \<Rightarrow> Some s | KdsClientError s \<Rightarrow> Some s | _ \<Rightarrow> None)"

definition exception_text :: "sim_error \<Rightarrow> string" where
  "exception_text e =
     (case e of ClaimConflict s \<Rightarrow> s | RetryableKdsError s \<Rightarrow> s | KdsClientError s \<Rightarrow> s | OtherException s \<Rightarrow> s
      | CancelledError \<Rightarrow> [])"

text \<open>
  \<open>sorted(displayed, key=displayed_at)[0]\<close>, the first of the earliest; comparing a time that
  has an offset with one that has none raises \<open>TypeError\<close>.
\<close>

definition mixed_offsets :: "sim_task list \<Rightarrow> bool" where
  "mixed_offsets ts =
     ((\<exists>t \<in> set ts. dt_off (sm_displayed_at t) = None) \<and> (\<exists>t \<in> set ts. dt_off (sm_displayed_at t) \<noteq> None))"

definition select_displayed_task :: "sim_task list \<Rightarrow> string + sim_task option" where
  "select_displayed_task tasks =
     (let displayed = filter (\<lambda>t. sm_status t = ''displayed'') tasks
      in if mixed_offsets displayed
         then Inl ([CHR ''c'', CHR ''a'', CHR ''n'', CHR 0x27] @ ''t compare offset-naive and offset-aware datetimes'')
         else (case sort_key (\<lambda>t. dt_instant (sm_displayed_at t)) displayed of
                 [] \<Rightarrow> Inr None
               | t # _ \<Rightarrow> Inr (Some t)))"

text \<open>The loop over the attempts; \<open>left\<close> attempts remain, the last error is kept.\<close>

fun complete_attempts ::
    "'s kds_api \<Rightarrow> virtual_worker \<Rightarrow> string \<Rightarrow> string \<Rightarrow> nat \<Rightarrow> string option \<Rightarrow> 's sim_world
      \<Rightarrow> (sim_error + bool) \<times> 's sim_world" where
  "complete_attempts api vw corr tid 0 last_error w =
     (Inr False, on_state (ws_last_error_update (\<lambda>_. Some (case last_error of Some e \<Rightarrow> e | None \<Rightarrow> ''complete_failed''))) w)"
| "complete_attempts api vw corr tid (Suc left) last_error w =
     (case call_complete api vw corr tid w of
        (Inr _, w1) \<Rightarrow> (Inr True, w1)
      | (Inl e, w1) \<Rightarrow>
          (case kds_error_text e of
             None \<Rightarrow> (Inl e, w1)
           | Some msg \<Rightarrow>
               (if 0 < left
                then (case call_sleep api (vw_poll_interval vw) w1 of
                        (Inl e2, w2) \<Rightarrow> (Inl e2, w2)
                      | (Inr _, w2) \<Rightarrow> complete_attempts api vw corr tid left (Some msg) w2)
                else complete_attempts api vw corr tid left (Some msg) w1)))"

definition complete_with_retry ::
    "'s kds_api \<Rightarrow> virtual_worker \<Rightarrow> string \<Rightarrow> string \<Rightarrow> 's sim_world \<Rightarrow> (sim_error + bool) \<times> 's sim_world" where
  "complete_with_retry api vw corr tid w = complete_attempts api vw corr tid (nat (vw_complete_attempts vw)) None w"

definition cook_and_complete ::
    "'s kds_api \<Rightarrow> virtual_worker \<Rightarrow> sim_env \<Rightarrow> sim_task \<Rightarrow> 's sim_world \<Rightarrow> (sim_error + unit) \<times> 's sim_world" where
  "cook_and_complete api vw env t w =
     (let w1 = on_metrics (inc_counter ''simulator_claim_success_total'' (worker_labels vw))
                 (on_state (ws_status_update (\<lambda>_. ''cooking'') \<circ> ws_current_task_id_update (\<lambda>_. Some (sm_task_id t))) w)
      in case calculate_simulated_duration (sm_estimated_duration t) (vw_speed_factor vw) (vw_min_factor vw)
                (vw_max_factor vw) (se_random env) of
           Inl msg \<Rightarrow> (Inl (OtherException msg), w1)
         | Inr d \<Rightarrow>
             (case call_sleep api d (on_metrics (observe_hist ''simulator_task_duration_seconds'' (worker_labels vw) d) w1) of
                (Inl e, w2) \<Rightarrow> (Inl e, w2)
              | (Inr _, w2) \<Rightarrow>
                  (case complete_with_retry api vw (uuid_str (se_corr env)) (sm_task_id t) w2 of
                     (Inl e, w3) \<Rightarrow> (Inl e, w3)
                   | (Inr ok, w3) \<Rightarrow>
                       (let w4 = (if ok
                                  then on_metrics (inc_counter ''simulator_completed_tasks_total'' (worker_labels vw))
                                         (on_state (ws_completed_update Suc) w3)
                                  else w3)
                        in (Inr (), on_state (ws_status_update (\<lambda>_. ''idle'') \<circ> ws_current_task_id_update (\<lambda>_. None)) w4)))))"

text \<open>A call that failed: idle, the error noted and counted, one poll interval of sleep.\<close>

definition worker_backoff ::
    "'s kds_api \<Rightarrow> virtual_worker \<Rightarrow> string \<Rightarrow> 's sim_world \<Rightarrow> (sim_error + unit) \<times> 's sim_world" where
  "worker_backoff api vw msg w =
     call_sleep api (vw_poll_interval vw)
       (on_metrics (inc_counter ''simulator_poll_errors_total'' (worker_labels vw @ [msg]))
         (on_state (ws_status_update (\<lambda>_. ''idle'') \<circ> ws_last_error_update (\<lambda>_. Some msg)) w))"

definition claim_and_cook ::
    "'s kds_api \<Rightarrow> virtual_worker \<Rightarrow> sim_env \<Rightarrow> sim_task \<Rightarrow> 's sim_world \<Rightarrow> (sim_error + unit) \<times> 's sim_world" where
  "claim_and_cook api vw env t w =
     (case call_claim api vw (uuid_str (se_corr env)) (sm_task_id t)
             (on_metrics (inc_counter ''simulator_claim_attempts_total'' (worker_labels vw)) w) of
        (Inr _, w1) \<Rightarrow> cook_and_complete api vw env t w1
      | (Inl (ClaimConflict reason), w1) \<Rightarrow>
          (Inr (), on_metrics (inc_counter ''simulator_claim_conflicts_total'' (worker_labels vw @ [reason]))
                     (on_state (ws_status_update (\<lambda>_. ''idle'')) w1))
      | (Inl e, w1) \<Rightarrow>
          (case kds_error_text e of None \<Rightarrow> (Inl e, w1) | Some msg \<Rightarrow> worker_backoff api vw msg w1))"

text \<open>\<open>_run_once\<close>\<close>

definition sim_round ::
    "'s kds_api \<Rightarrow> virtual_worker \<Rightarrow> sim_env \<Rightarrow> 's sim_world \<Rightarrow> (sim_error + unit) \<times> 's sim_world" where
  "sim_round api vw env w =
     (case call_tasks api vw (uuid_str (se_corr env))
             (on_state (ws_status_update (\<lambda>_. ''polling'') \<circ> ws_last_poll_at_update (\<lambda>_. Some (se_now env))) w) of
        (Inl e, w1) \<Rightarrow>
          (case kds_error_text e of None \<Rightarrow> (Inl e, w1) | Some msg \<Rightarrow> worker_backoff api vw msg w1)
      | (Inr tasks, w1) \<Rightarrow>
          (case select_displayed_task tasks of
             Inl msg \<Rightarrow> (Inl (OtherException msg), w1)
           | Inr None \<Rightarrow> call_sleep api (vw_poll_interval vw) (on_state (ws_status_update (\<lambda>_. ''idle'')) w1)
           | Inr (Some t) \<Rightarrow> claim_and_cook api vw env t w1))"

text \<open>\<open>run_once\<close>: every exception but the cancellation ends here.\<close>

definition sim_run_once ::
    "'s kds_api \<Rightarrow> virtual_worker \<Rightarrow> sim_env \<Rightarrow> 's sim_world \<Rightarrow> (sim_error + unit) \<times> 's sim_world" where
  "sim_run_once api vw env w =
     (case sim_round api vw env w of
        (Inr _, w1) \<Rightarrow> (Inr (), w1)
      | (Inl CancelledError, w1) \<Rightarrow> (Inl CancelledError, w1)
      | (Inl e, w1) \<Rightarrow>
          call_sleep api (vw_poll_interval vw)
            (on_metrics (inc_counter ''simulator_poll_errors_total'' (worker_labels vw @ [''unexpected_error'']))
              (on_state (ws_status_update (\<lambda>_. ''error'') \<circ> ws_last_error_update (\<lambda>_. Some (exception_text e))) w1)))"

section \<open>The life of a worker\<close>

text \<open>
  \<open>while True: await self.run_once()\<close>, with one environment per round; the value is the
  exception that ended the loop, or \<open>None\<close> if nothing ever does.
\<close>

partial_function (option) worker_loop ::
    "'s kds_api \<Rightarrow> virtual_worker \<Rightarrow> (nat \<Rightarrow> sim_env) \<Rightarrow> nat \<Rightarrow> 's sim_world \<Rightarrow> (sim_error \<times> 's sim_world) option" where
  "worker_loop api vw envs n w =
     (case sim_run_once api vw (envs n) w of
        (Inl e, w1) \<Rightarrow> Some (e, w1)
      | (Inr _, w1) \<Rightarrow> worker_loop api vw envs (Suc n) w1)"

definition active_workers :: string where
  "active_workers = ''simulator_active_workers''"

definition worker_run ::
    "'s kds_api \<Rightarrow> virtual_worker \<Rightarrow> (nat \<Rightarrow> sim_env) \<Rightarrow> 's sim_world \<Rightarrow> (sim_error \<times> 's sim_world) option" where
  "worker_run api vw envs w =
     (case worker_loop api vw envs 0
             (on_state (ws_status_update (\<lambda>_. ''idle'')) (on_metrics (inc_gauge active_workers [] 1) w)) of
        None \<Rightarrow> None
      | Some (e, w1) \<Rightarrow>
          Some (e, on_metrics (inc_gauge active_workers [] (- 1))
                     (if e = CancelledError then on_state (ws_status_update (\<lambda>_. ''stopped'')) w1 else w1)))"

section \<open>The runner\<close>

record sim_runner =
  sr_client :: "string option"
  sr_workers :: "(virtual_worker \<times> worker_state) list"
  sr_tasks :: "string list"

definition idle_runner :: sim_runner where
  "idle_runner = \<lparr>sr_client = None, sr_workers = [], sr_tasks = []\<rparr>"

definition build_worker :: "sim_settings \<Rightarrow> worker_config \<Rightarrow> virtual_worker" where
  "build_worker s c =
     \<lparr>vw_worker_id = wc_worker_id c, vw_station_id = wc_station_id c,
      vw_poll_interval = real_of_int (ss_poll_interval_ms s) / 1000, vw_speed_factor = ss_speed_factor s,
      vw_min_factor = ss_min_factor s, vw_max_factor = ss_max_factor s, vw_complete_attempts = 3\<rparr>"

text \<open>
  \<open>start\<close> raises the parser's \<open>ValueError\<close>; \<open>sr_tasks\<close> names the worker of each asyncio task.
  The client strips the trailing slashes of its base URL.
\<close>

definition runner_start :: "sim_settings \<Rightarrow> sim_runner \<Rightarrow> string + sim_runner" where
  "runner_start s r =
     (if \<not> ss_enabled s then Inr r
      else (case parse_workers_config (ss_workers_config s) of
              Inl e \<Rightarrow> Inl e
            | Inr configs \<Rightarrow>
                (let workers = map (build_worker s) configs
                 in Inr \<lparr>sr_client = Some (py_rstrip_char CHR ''/'' (ss_kitchen_service_url s)),
                         sr_workers = map (\<lambda>vw. (vw, fresh_state vw)) workers,
                         sr_tasks = map vw_worker_id workers\<rparr>)))"

text \<open>\<open>stop\<close>, once the cancelled workers have ended in the states \<open>final\<close>.\<close>

definition runner_stop :: "(virtual_worker \<Rightarrow> worker_state \<Rightarrow> worker_state) \<Rightarrow> sim_runner \<Rightarrow> sim_runner" where
  "runner_stop final r =
     r\<lparr>sr_workers := map (\<lambda>(vw, s). (vw, if vw_worker_id vw \<in> set (sr_tasks r) then final vw s else s)) (sr_workers r),
       sr_tasks := [], sr_client := None\<rparr>"

definition worker_states :: "sim_runner \<Rightarrow> jdoc list" where
  "worker_states r = map (to_dict \<circ> snd) (sr_workers r)"

end
