(* ===== verification/Simulator_Start.thy ===== *)
theory Simulator_Start
  imports Simulator_Worker
begin

text \<open>
  Station simulator: what starting it with validated settings guarantees about its workers.
\<close>

lemma parse_config_items: "parse_workers_config raw = Inr ws \<Longrightarrow> parse_items [] (py_split CHR '','' raw) = Inr ws"
  by (simp add: parse_workers_config_def split: if_splits)

lemma runner_start_workers:
  assumes "runner_start s idle_runner = Inr r" and "ss_enabled s"
  obtains ws where "parse_workers_config (ss_workers_config s) = Inr ws"
    "sr_workers r = map (\<lambda>c. (build_worker s c, fresh_state (build_worker s c))) ws" "sr_tasks r = map wc_worker_id ws"
  using assms by (auto simp: runner_start_def Let_def comp_def build_worker_def split: sum.splits)


text \<open>The settings of the demo with two stations.\<close>

definition demo_settings :: sim_settings where
  "demo_settings =
     \<lparr>ss_kitchen_service_url = ''http://localhost:8001/'', ss_http_timeout = 3, ss_enabled = True, ss_speed_factor = 60,
      ss_poll_interval_ms = 1000, ss_workers_config = ''grill_1:2, fryer_1 : 1'', ss_min_factor = 7 / 10, ss_max_factor = 14 / 10\<rparr>"


end
