(* ===== verification/Simulator_Protocol.thy ===== *)
theory Simulator_Protocol
  imports Simulator_Worker
begin

text \<open>
  Station simulator: what a worker does in one round and over its life, whatever the kitchen
  service and the rest of the world do.
\<close>

section \<open>The calls of a trace\<close>

definition calls_of :: "sim_action list \<Rightarrow> kds_call list" where
  "calls_of tr = concat (map (\<lambda>a. case a of Act_call c \<Rightarrow> [c] | Act_sleep _ \<Rightarrow> []) tr)"

lemma calls_of_simps [simp]:
  "calls_of [] = []" "calls_of (xs @ ys) = calls_of xs @ calls_of ys"
  "calls_of (Act_call c # xs) = c # calls_of xs" "calls_of (Act_sleep d # xs) = calls_of xs"
  by (simp_all add: calls_of_def)

abbreviation claim_of :: "virtual_worker \<Rightarrow> string \<Rightarrow> kds_call" where
  "claim_of vw tid \<equiv> Claim_task (vw_station_id vw) tid (vw_worker_id vw)"

abbreviation completion_of :: "virtual_worker \<Rightarrow> string \<Rightarrow> kds_call" where
  "completion_of vw tid \<equiv> Complete_task (vw_station_id vw) tid (vw_worker_id vw)"

section \<open>Updates that leave the rest alone\<close>

lemma on_simps [simp]:
  "sv_trace (on_state f w) = sv_trace w" "sv_trace (on_metrics g w) = sv_trace w"
  "sv_remote (on_state f w) = sv_remote w" "sv_remote (on_metrics g w) = sv_remote w"
  "sv_state (on_state f w) = f (sv_state w)" "sv_state (on_metrics g w) = sv_state w"
  "sv_metrics (on_state f w) = sv_metrics w" "sv_metrics (on_metrics g w) = g (sv_metrics w)"
  by (simp_all add: on_state_def on_metrics_def)

lemma call_tasks_frame:
  "call_tasks api vw corr w = (r, w') \<Longrightarrow> sv_state w' = sv_state w \<and> sv_metrics w' = sv_metrics w
     \<and> sv_trace w' = sv_trace w @ [Act_call (Get_tasks (vw_station_id vw))]"
  by (auto simp: call_tasks_def await_call_def split: prod.splits)

lemma call_claim_frame:
  "call_claim api vw corr tid w = (r, w') \<Longrightarrow> sv_state w' = sv_state w \<and> sv_metrics w' = sv_metrics w
     \<and> sv_trace w' = sv_trace w @ [Act_call (claim_of vw tid)]"
  by (auto simp: call_claim_def await_call_def split: prod.splits)

lemma call_complete_frame:
  "call_complete api vw corr tid w = (r, w') \<Longrightarrow> sv_state w' = sv_state w \<and> sv_metrics w' = sv_metrics w
     \<and> sv_trace w' = sv_trace w @ [Act_call (completion_of vw tid)]"
  by (auto simp: call_complete_def await_call_def split: prod.splits)

lemma call_sleep_frame:
  "call_sleep api d w = (r, w') \<Longrightarrow> sv_state w' = sv_state w \<and> sv_metrics w' = sv_metrics w
     \<and> sv_trace w' = sv_trace w @ [Act_sleep d] \<and> (r = Inl CancelledError \<or> r = Inr ())"
  by (auto simp: call_sleep_def split: prod.splits if_splits)

lemmas call_frames = call_tasks_frame call_claim_frame call_complete_frame call_sleep_frame

section \<open>The retries of a completion\<close>

lemma complete_attempts_calls:
  "complete_attempts api vw corr tid left lst w = (r, w') \<Longrightarrow>
     \<exists>m \<le> left. calls_of (sv_trace w') = calls_of (sv_trace w) @ replicate m (completion_of vw tid)
       \<and> (0 < left \<longrightarrow> 0 < m)
       \<and> ws_completed (sv_state w') = ws_completed (sv_state w) \<and> sv_metrics w' = sv_metrics w"
proof (induction left arbitrary: lst w)
  case 0
  then show ?case by (auto)
next
  case (Suc left)
  obtain r1 w1 where c: "call_complete api vw corr tid w = (r1, w1)" by (cases "call_complete api vw corr tid w")
  note f = call_complete_frame [OF c]
  show ?case
  proof (cases "\<exists>e msg. r1 = Inl e \<and> kds_error_text e = Some msg")
    case False
    then have "w' = w1" using Suc.prems c by (auto split: sum.splits option.splits)
    then show ?thesis using f by (intro exI [of _ 1]) simp
  next
    case True
    then obtain e msg where e: "r1 = Inl e" "kds_error_text e = Some msg" by blast
    consider (stop) w2 e2 where "0 < left" "call_sleep api (vw_poll_interval vw) w1 = (Inl e2, w2)" "w' = w2"
      | (again) w2 where "calls_of (sv_trace w2) = calls_of (sv_trace w1)" "sv_state w2 = sv_state w1" "sv_metrics w2 = sv_metrics w1"
          "complete_attempts api vw corr tid left (Some msg) w2 = (r, w')"
    proof (cases "0 < left")
      case False
      then show ?thesis using Suc.prems c e by (intro again [of w1]) auto
    next
      case True
      obtain r2 w2 where s: "call_sleep api (vw_poll_interval vw) w1 = (r2, w2)"
        by (cases "call_sleep api (vw_poll_interval vw) w1")
      note sf = call_sleep_frame [OF s]
      show ?thesis
      proof (cases r2)
        case (Inl e2)
        then show ?thesis using Suc.prems c e True s by (intro stop) auto
      next
        case (Inr u)
        then show ?thesis using Suc.prems c e True s sf by (intro again [of w2]) auto
      qed
    qed
    then show ?thesis
    proof cases
      case stop
      then show ?thesis using f call_sleep_frame [OF stop(2)] by (intro exI [of _ 1]) simp
    next
      case again
      obtain m where "m \<le> left" "calls_of (sv_trace w') = calls_of (sv_trace w2) @ replicate m (completion_of vw tid)"
        "ws_completed (sv_state w') = ws_completed (sv_state w2)" "sv_metrics w' = sv_metrics w2"
        using Suc.IH [OF again(4)] by blast
      then show ?thesis using f again(1-3) by (intro exI [of _ "Suc m"]) simp
    qed
  qed
qed

section \<open>A round\<close>

text \<open>The task a round goes for: one of the polled list, displayed, and none displayed before it.\<close>

definition chosen :: "sim_task list \<Rightarrow> sim_task \<Rightarrow> bool" where
  "chosen tasks t =
     (t \<in> set tasks \<and> sm_status t = ''displayed''
      \<and> (\<forall>u \<in> set tasks. sm_status u = ''displayed'' \<longrightarrow> dt_instant (sm_displayed_at t) \<le> dt_instant (sm_displayed_at u)))"

lemma select_chosen:
  assumes "select_displayed_task tasks = Inr (Some t)"
  shows "chosen tasks t"
proof -
  let ?k = "\<lambda>t. dt_instant (sm_displayed_at t)" and ?ds = "filter (\<lambda>t. sm_status t = ''displayed'') tasks"
  obtain ts where ts: "sort_key ?k ?ds = t # ts"
    using assms by (auto simp: select_displayed_task_def Let_def split: if_splits list.splits)
  have "sorted (map ?k (t # ts))" unfolding ts [symmetric] by simp
  moreover have set: "set (t # ts) = set ?ds" by (simp only: ts [symmetric] set_sort)
  ultimately have least: "\<forall>u \<in> set ?ds. ?k t \<le> ?k u" unfolding set [symmetric] by auto
  have "t \<in> set ?ds" using set by auto
  with least show ?thesis by (simp add: chosen_def)
qed

lemma cook_calls:
  assumes "cook_and_complete api vw env t w = (r, w')"
  shows "\<exists>m \<le> nat (vw_complete_attempts vw).
     calls_of (sv_trace w') = calls_of (sv_trace w) @ replicate m (completion_of vw (sm_task_id t))"
proof -
  let ?w1 = "on_metrics (inc_counter ''simulator_claim_success_total'' (worker_labels vw))
                 (on_state (ws_status_update (\<lambda>_. ''cooking'') \<circ> ws_current_task_id_update (\<lambda>_. Some (sm_task_id t))) w)"
  show ?thesis
  proof (cases "calculate_simulated_duration (sm_estimated_duration t) (vw_speed_factor vw) (vw_min_factor vw)
                (vw_max_factor vw) (se_random env)")
    case (Inl msg)
    then show ?thesis using assms by (auto simp: cook_and_complete_def Let_def)
  next
    case (Inr d)
    obtain r2 w2 where s: "call_sleep api d (on_metrics (observe_hist ''simulator_task_duration_seconds'' (worker_labels vw) d) ?w1) = (r2, w2)"
      by fastforce
    note sf = call_sleep_frame [OF s]
    obtain r3 w3 where c: "complete_with_retry api vw (uuid_str (se_corr env)) (sm_task_id t) w2 = (r3, w3)" by fastforce
    obtain m where m: "m \<le> nat (vw_complete_attempts vw)"
      "calls_of (sv_trace w3) = calls_of (sv_trace w2) @ replicate m (completion_of vw (sm_task_id t))"
      using complete_attempts_calls c unfolding complete_with_retry_def by blast
    have "sv_trace w' = (if r2 = Inl CancelledError then sv_trace w2 else sv_trace w3)"
      using assms s c Inr sf by (auto simp: cook_and_complete_def Let_def split: sum.splits if_splits)
    then show ?thesis using m sf by (cases "r2 = Inl CancelledError") (auto intro: exI [of _ 0])
  qed
qed

lemma backoff_calls:
  "worker_backoff api vw msg w = (r, w') \<Longrightarrow> calls_of (sv_trace w') = calls_of (sv_trace w) \<and> (r = Inl CancelledError \<or> r = Inr ())"
  unfolding worker_backoff_def by (drule call_sleep_frame) simp

lemma claim_calls:
  assumes "claim_and_cook api vw env t w = (r, w')"
  shows "\<exists>m \<le> nat (vw_complete_attempts vw). calls_of (sv_trace w')
     = calls_of (sv_trace w) @ claim_of vw (sm_task_id t) # replicate m (completion_of vw (sm_task_id t))"
proof -
  obtain r1 w1 where c: "call_claim api vw (uuid_str (se_corr env)) (sm_task_id t)
      (on_metrics (inc_counter ''simulator_claim_attempts_total'' (worker_labels vw)) w) = (r1, w1)" by fastforce
  note f = call_claim_frame [OF c]
  show ?thesis
  proof (cases r1)
    case (Inr x)
    then have "cook_and_complete api vw env t w1 = (r, w')" using assms c by (simp add: claim_and_cook_def)
    from cook_calls [OF this] show ?thesis using f by auto
  next
    case (Inl e)
    then have "calls_of (sv_trace w') = calls_of (sv_trace w1)"
      using assms c backoff_calls by (fastforce simp: claim_and_cook_def split: sim_error.splits option.splits)
    then show ?thesis using f by (intro exI [of _ 0]) simp
  qed
qed

lemma round_calls:
  assumes "sim_round api vw env w = (r, w')"
  shows "calls_of (sv_trace w') = calls_of (sv_trace w) @ [Get_tasks (vw_station_id vw)]
     \<or> (\<exists>h tasks t m. fst (ap_tasks api (vw_station_id vw) (uuid_str (se_corr env)) (sv_remote w)) = Some h
          \<and> kds_get_station_tasks h = Inr tasks \<and> chosen tasks t \<and> m \<le> nat (vw_complete_attempts vw)
          \<and> calls_of (sv_trace w') = calls_of (sv_trace w) @ Get_tasks (vw_station_id vw)
              # claim_of vw (sm_task_id t) # replicate m (completion_of vw (sm_task_id t)))"
proof -
  let ?w0 = "on_state (ws_status_update (\<lambda>_. ''polling'') \<circ> ws_last_poll_at_update (\<lambda>_. Some (se_now env))) w"
  obtain r1 w1 where c: "call_tasks api vw (uuid_str (se_corr env)) ?w0 = (r1, w1)" by fastforce
  note f = call_tasks_frame [OF c]
  show ?thesis
  proof (cases "\<exists>tasks t. r1 = Inr tasks \<and> select_displayed_task tasks = Inr (Some t)")
    case True
    then obtain tasks t where t: "r1 = Inr tasks" "select_displayed_task tasks = Inr (Some t)" by blast
    obtain h where "fst (ap_tasks api (vw_station_id vw) (uuid_str (se_corr env)) (sv_remote w)) = Some h"
      "kds_get_station_tasks h = Inr tasks"
      using c t by (auto simp: call_tasks_def await_call_def split: prod.splits option.splits)
    moreover have "claim_and_cook api vw env t w1 = (r, w')" using assms c t by (simp add: sim_round_def)
    ultimately show ?thesis using claim_calls f select_chosen [OF t(2)] by fastforce
  next
    case False
    then have "calls_of (sv_trace w') = calls_of (sv_trace w1)"
      using assms c backoff_calls call_sleep_frame
      by (fastforce simp: sim_round_def split: sum.splits option.splits)
    then show ?thesis using f by simp
  qed
qed

text \<open>How \<open>run_once\<close> ends a round: as the round did, or after an error it did not expect.\<close>

definition unexpected :: "virtual_worker \<Rightarrow> sim_error \<Rightarrow> 's sim_world \<Rightarrow> 's sim_world" where
  "unexpected vw e w =
     on_metrics (inc_counter ''simulator_poll_errors_total'' (worker_labels vw @ [''unexpected_error'']))
       (on_state (ws_status_update (\<lambda>_. ''error'') \<circ> ws_last_error_update (\<lambda>_. Some (exception_text e))) w)"

lemma run_once_cases:
  assumes "sim_run_once api vw env w = (r, w')" and "sim_round api vw env w = (r1, w1)"
  obtains "r1 = Inr ()" "r = Inr ()" "w' = w1" | "r1 = Inl CancelledError" "r = Inl CancelledError" "w' = w1"
    | e where "r1 = Inl e" "call_sleep api (vw_poll_interval vw) (unexpected vw e w1) = (r, w')"
proof (cases r1)
  case (Inl e)
  show ?thesis
  proof (cases "e = CancelledError")
    case True
    then show ?thesis using assms Inl by (intro that(2)) (simp_all add: sim_run_once_def)
  next
    case False
    have "sim_run_once api vw env w = call_sleep api (vw_poll_interval vw) (unexpected vw e w1)"
      using False assms(2) Inl by (cases e) (simp_all only: sim_run_once_def unexpected_def prod.case sum.case sim_error.case simp_thms sim_error.distinct)
    then show ?thesis using assms Inl by (intro that(3)) simp_all
  qed
next
  case (Inr u)
  then show ?thesis using assms by (intro that(1)) (simp_all add: sim_run_once_def)
qed

lemma unexpected_simps [simp]:
  "sv_trace (unexpected vw e w) = sv_trace w" "sv_remote (unexpected vw e w) = sv_remote w"
  "ws_completed (sv_state (unexpected vw e w)) = ws_completed (sv_state w)"
  "mt_gauges (sv_metrics (unexpected vw e w)) = mt_gauges (sv_metrics w)"
  "n \<noteq> ''simulator_poll_errors_total'' \<Longrightarrow>
     mt_counters (sv_metrics (unexpected vw e w)) (n, ls) = mt_counters (sv_metrics w) (n, ls)"
  by (simp_all add: unexpected_def)

lemma round_error_calls:
  assumes "sim_run_once api vw env w = (r, w')"
  obtains r1 w1 where "sim_round api vw env w = (r1, w1)" "calls_of (sv_trace w') = calls_of (sv_trace w1)"
    "r = Inr () \<or> r = Inl CancelledError" "ws_completed (sv_state w') = ws_completed (sv_state w1)"
    "mt_gauges (sv_metrics w') = mt_gauges (sv_metrics w1)"
    "\<forall>n. n \<noteq> ''simulator_poll_errors_total'' \<longrightarrow> mt_counters (sv_metrics w') (n, worker_labels vw) = mt_counters (sv_metrics w1) (n, worker_labels vw)"
proof -
  obtain r1 w1 where c: "sim_round api vw env w = (r1, w1)" by fastforce
  show ?thesis
  proof (rule run_once_cases [OF assms c])
    fix e assume "call_sleep api (vw_poll_interval vw) (unexpected vw e w1) = (r, w')"
    from call_sleep_frame [OF this] show ?thesis by (intro that [OF c]) auto
  qed (use c that in auto)
qed

text \<open>
  C15. A round of a worker polls the tasks of its own station once. It claims at most one task,
  a displayed one than which no displayed task of the list is older, and every completion it
  sends after that is of this task, at most \<open>complete_retry_attempts\<close> times; no exception but the cancellation
  of the worker leaves the round, whatever the kitchen service answers.
\<close>

theorem round_protocol:
  assumes "sim_run_once api vw env w = (r, w')"
  shows "(r = Inr () \<or> r = Inl CancelledError)
     \<and> (calls_of (sv_trace w') = calls_of (sv_trace w) @ [Get_tasks (vw_station_id vw)]
        \<or> (\<exists>h tasks t m. fst (ap_tasks api (vw_station_id vw) (uuid_str (se_corr env)) (sv_remote w)) = Some h
             \<and> kds_get_station_tasks h = Inr tasks \<and> chosen tasks t \<and> m \<le> nat (vw_complete_attempts vw)
             \<and> calls_of (sv_trace w') = calls_of (sv_trace w) @ Get_tasks (vw_station_id vw)
                 # claim_of vw (sm_task_id t) # replicate m (completion_of vw (sm_task_id t))))"
proof -
  obtain r1 w1 where r: "sim_round api vw env w = (r1, w1)" "calls_of (sv_trace w') = calls_of (sv_trace w1)"
    "r = Inr () \<or> r = Inl CancelledError" by (rule round_error_calls [OF assms])
  show ?thesis using round_calls [OF r(1)] r(3) unfolding r(2) by blast
qed

section \<open>Counters\<close>

definition count_of :: "string \<Rightarrow> virtual_worker \<Rightarrow> 's sim_world \<Rightarrow> nat" where
  "count_of n vw w = mt_counters (sv_metrics w) (n, worker_labels vw)"

definition claim_calls_of :: "'s sim_world \<Rightarrow> nat" where
  "claim_calls_of w = length (filter (\<lambda>c. case c of Claim_task _ _ _ \<Rightarrow> True | _ \<Rightarrow> False) (calls_of (sv_trace w)))"

text \<open>How far the books of a worker move from \<open>w\<close> to \<open>w'\<close>: claims sent, granted, tasks finished.\<close>

definition books_move :: "virtual_worker \<Rightarrow> nat \<Rightarrow> nat \<Rightarrow> nat \<Rightarrow> 's sim_world \<Rightarrow> 's sim_world \<Rightarrow> bool" where
  "books_move vw a g c w w' =
     (count_of ''simulator_claim_attempts_total'' vw w' = count_of ''simulator_claim_attempts_total'' vw w + a
      \<and> count_of ''simulator_claim_success_total'' vw w' = count_of ''simulator_claim_success_total'' vw w + g
      \<and> count_of ''simulator_completed_tasks_total'' vw w' = count_of ''simulator_completed_tasks_total'' vw w + c
      \<and> ws_completed (sv_state w') = ws_completed (sv_state w) + c
      \<and> claim_calls_of w' = claim_calls_of w + a
      \<and> mt_gauges (sv_metrics w') = mt_gauges (sv_metrics w))"

lemma books_trans: "books_move vw a g c w w1 \<Longrightarrow> books_move vw a' g' c' w1 w2 \<Longrightarrow> books_move vw (a + a') (g + g') (c + c') w w2"
  by (simp add: books_move_def)

lemma sleep_books: "call_sleep api d w = (r, w') \<Longrightarrow> books_move vw 0 0 0 w w'"
  by (drule call_sleep_frame) (simp add: books_move_def count_of_def claim_calls_of_def)

lemma backoff_books: "worker_backoff api vw msg w = (r, w') \<Longrightarrow> books_move vw 0 0 0 w w'"
  unfolding worker_backoff_def by (drule call_sleep_frame) (simp add: books_move_def count_of_def claim_calls_of_def)

lemma complete_books: "complete_with_retry api vw corr tid w = (r, w') \<Longrightarrow> books_move vw 0 0 0 w w'"
  using complete_attempts_calls [of api vw corr tid "nat (vw_complete_attempts vw)" None w r w']
  by (auto simp: complete_with_retry_def books_move_def count_of_def claim_calls_of_def)

lemma cook_books:
  assumes "cook_and_complete api vw env t w = (r, w')"
  shows "\<exists>c \<le> 1. books_move vw 0 1 c w w'"
proof -
  let ?w1 = "on_metrics (inc_counter ''simulator_claim_success_total'' (worker_labels vw))
                 (on_state (ws_status_update (\<lambda>_. ''cooking'') \<circ> ws_current_task_id_update (\<lambda>_. Some (sm_task_id t))) w)"
  have b1: "books_move vw 0 1 0 w ?w1" by (simp add: books_move_def count_of_def claim_calls_of_def)
  show ?thesis
  proof (cases "calculate_simulated_duration (sm_estimated_duration t) (vw_speed_factor vw) (vw_min_factor vw)
                (vw_max_factor vw) (se_random env)")
    case (Inl msg)
    then have "w' = ?w1" using assms by (auto simp: cook_and_complete_def Let_def)
    then show ?thesis using b1 by blast
  next
    case (Inr d)
    let ?w1' = "on_metrics (observe_hist ''simulator_task_duration_seconds'' (worker_labels vw) d) ?w1"
    have b1': "books_move vw 0 1 0 w ?w1'" using b1 by (simp add: books_move_def count_of_def claim_calls_of_def)
    obtain r2 w2 where s: "call_sleep api d ?w1' = (r2, w2)" by fastforce
    obtain r3 w3 where c: "complete_with_retry api vw (uuid_str (se_corr env)) (sm_task_id t) w2 = (r3, w3)" by fastforce
    have b2: "books_move vw 0 1 0 w w2" using books_trans [OF b1' sleep_books [OF s]] by simp
    have b3: "books_move vw 0 1 0 w w3" using books_trans [OF b2 complete_books [OF c]] by simp
    have "w' = w2 \<or> w' = w3 \<or> books_move vw 0 0 0 w3 w' \<or> books_move vw 0 0 1 w3 w'"
      using assms s c Inr
      by (auto simp: cook_and_complete_def Let_def books_move_def count_of_def claim_calls_of_def split: sum.splits if_splits)
    then show ?thesis using b2 b3 books_trans [OF b3] by fastforce
  qed
qed

lemma claim_books:
  assumes "claim_and_cook api vw env t w = (r, w')"
  shows "\<exists>g \<le> 1. \<exists>c \<le> g. books_move vw 1 g c w w'"
proof -
  obtain r1 w1 where c: "call_claim api vw (uuid_str (se_corr env)) (sm_task_id t)
      (on_metrics (inc_counter ''simulator_claim_attempts_total'' (worker_labels vw)) w) = (r1, w1)" by fastforce
  have b1: "books_move vw 1 0 0 w w1"
    using call_claim_frame [OF c] by (simp add: books_move_def count_of_def claim_calls_of_def)
  show ?thesis
  proof (cases r1)
    case (Inr x)
    then have "cook_and_complete api vw env t w1 = (r, w')" using assms c by (simp add: claim_and_cook_def)
    then obtain k where "k \<le> 1" "books_move vw 0 1 k w1 w'" using cook_books by blast
    then show ?thesis using books_trans [OF b1, of 0 1 k w'] by (intro exI [of _ 1] conjI exI [of _ k]) simp_all
  next
    case (Inl e)
    let ?w2 = "\<lambda>reason. on_metrics (inc_counter ''simulator_claim_conflicts_total'' (worker_labels vw @ [reason]))
                     (on_state (ws_status_update (\<lambda>_. ''idle'')) w1)"
    consider "w' = w1" | reason where "w' = ?w2 reason" | msg where "worker_backoff api vw msg w1 = (r, w')"
      using assms c Inl by (auto simp: claim_and_cook_def split: sim_error.splits option.splits)
    then have "books_move vw 0 0 0 w1 w'"
    proof cases
      case (3 msg)
      then show ?thesis by (rule backoff_books)
    qed (simp_all add: books_move_def count_of_def claim_calls_of_def)
    then show ?thesis using books_trans [OF b1] by fastforce
  qed
qed

lemma round_books:
  assumes "sim_run_once api vw env w = (r, w')"
  shows "\<exists>a g c. c \<le> g \<and> g \<le> a \<and> books_move vw a g c w w'"
proof -
  obtain r0 w0 where r: "sim_round api vw env w = (r0, w0)" and same: "books_move vw 0 0 0 w0 w'"
    by (rule round_error_calls [OF assms]) (simp add: books_move_def count_of_def claim_calls_of_def)
  let ?w = "on_state (ws_status_update (\<lambda>_. ''polling'') \<circ> ws_last_poll_at_update (\<lambda>_. Some (se_now env))) w"
  obtain r1 w1 where c: "call_tasks api vw (uuid_str (se_corr env)) ?w = (r1, w1)" by fastforce
  have b1: "books_move vw 0 0 0 w w1"
    using call_tasks_frame [OF c] by (simp add: books_move_def count_of_def claim_calls_of_def)
  have "\<exists>a g c. c \<le> g \<and> g \<le> a \<and> books_move vw a g c w1 w0"
  proof (cases "\<exists>t. claim_and_cook api vw env t w1 = (r0, w0)")
    case True
    then show ?thesis using claim_books by fastforce
  next
    case False
    consider "w0 = w1" | w2 where "books_move vw 0 0 0 w1 w2" "call_sleep api (vw_poll_interval vw) w2 = (r0, w0)"
      | msg where "worker_backoff api vw msg w1 = (r0, w0)"
    proof -
      have "books_move vw 0 0 0 w1 (on_state (ws_status_update (\<lambda>_. ''idle'')) w1)"
        by (simp add: books_move_def count_of_def claim_calls_of_def)
      then show ?thesis using r c False that by (auto simp: sim_round_def split: sum.splits option.splits)
    qed
    then have "books_move vw 0 0 0 w1 w0"
    proof cases
      case (2 w2)
      then show ?thesis using books_trans sleep_books by fastforce
    next
      case (3 msg)
      then show ?thesis by (rule backoff_books)
    qed (simp add: books_move_def)
    then show ?thesis by blast
  qed
  then obtain a g c where agc: "c \<le> g" "g \<le> a" "books_move vw a g c w1 w0" by blast
  have "books_move vw a g c w w'" using books_trans [OF books_trans [OF b1 agc(3)] same] by simp
  with agc(1,2) show ?thesis by blast
qed

section \<open>The life of a worker\<close>

text \<open>The state after \<open>k\<close> rounds, if none of them was cancelled.\<close>

fun worker_rounds ::
    "'s kds_api \<Rightarrow> virtual_worker \<Rightarrow> (nat \<Rightarrow> sim_env) \<Rightarrow> nat \<Rightarrow> nat \<Rightarrow> 's sim_world \<Rightarrow> 's sim_world option" where
  "worker_rounds api vw envs n 0 w = Some w"
| "worker_rounds api vw envs n (Suc k) w =
     (case sim_run_once api vw (envs n) w of
        (Inl e, w1) \<Rightarrow> None
      | (Inr _, w1) \<Rightarrow> worker_rounds api vw envs (Suc n) k w1)"

definition fresh_world :: "virtual_worker \<Rightarrow> 's \<Rightarrow> 's sim_world" where
  "fresh_world vw s = \<lparr>sv_state = fresh_state vw, sv_metrics = empty_metrics, sv_trace = [], sv_remote = s\<rparr>"

definition started_world :: "virtual_worker \<Rightarrow> 's \<Rightarrow> 's sim_world" where
  "started_world vw s =
     on_state (ws_status_update (\<lambda>_. ''idle'')) (on_metrics (inc_gauge active_workers [] 1) (fresh_world vw s))"

lemma rounds_books:
  "worker_rounds api vw envs n k w = Some w' \<Longrightarrow> \<exists>a g c. c \<le> g \<and> g \<le> a \<and> books_move vw a g c w w'"
proof (induction k arbitrary: n w)
  case 0
  then show ?case by (intro exI [of _ 0]) (simp add: books_move_def)
next
  case (Suc k)
  then obtain w1 where r: "sim_run_once api vw (envs n) w = (Inr (), w1)" "worker_rounds api vw envs (Suc n) k w1 = Some w'"
    by (auto split: prod.splits sum.splits)
  obtain a g c where 1: "c \<le> g" "g \<le> a" "books_move vw a g c w w1" using round_books [OF r(1)] by blast
  obtain a' g' c' where 2: "c' \<le> g'" "g' \<le> a'" "books_move vw a' g' c' w1 w'" using Suc.IH [OF r(2)] by blast
  show ?case using books_trans [OF 1(3) 2(3)] 1(1,2) 2(1,2)
    by (intro exI [of _ "a + a'"] exI [of _ "g + g'"] exI [of _ "c + c'"]) simp
qed

lemma loop_none_if_rounds: "\<forall>k. worker_rounds api vw envs n k w \<noteq> None \<Longrightarrow> worker_loop api vw envs n w = None"
proof (rule ccontr)
  have ends: "\<exists>k. worker_rounds api vw envs n k w = None" if "worker_loop api vw envs n w = Some x" for n w x
  proof (rule worker_loop.raw_induct [OF _ that])
    fix loop and api :: "'b kds_api" and vw envs n w y
    assume IH: "\<And>api vw envs n w y. loop api vw envs n w = Some y \<Longrightarrow> \<exists>k. worker_rounds api vw envs n k w = None"
      and body: "(case sim_run_once api vw (envs n) w of
         (Inl e, w1) \<Rightarrow> Some (e, w1) | (Inr _, w1) \<Rightarrow> loop api vw envs (Suc n) w1) = Some y"
    obtain r w1 where r: "sim_run_once api vw (envs n) w = (r, w1)" by fastforce
    show "\<exists>k. worker_rounds api vw envs n k w = None"
    proof (cases r)
      case (Inl e)
      then show ?thesis using r by (intro exI [of _ "Suc 0"]) simp
    next
      case (Inr u)
      then have "loop api vw envs (Suc n) w1 = Some y" using body r by simp
      then obtain k where "worker_rounds api vw envs (Suc n) k w1 = None" using IH by blast
      then show ?thesis using r Inr by (intro exI [of _ "Suc k"]) simp
    qed
  qed
  assume "\<forall>k. worker_rounds api vw envs n k w \<noteq> None" "worker_loop api vw envs n w \<noteq> None"
  then show False using ends by blast
qed

lemma loop_some_if_cancelled:
  "worker_rounds api vw envs n k w = None \<Longrightarrow>
     \<exists>j w1 w2. worker_rounds api vw envs n j w = Some w1 \<and> sim_run_once api vw (envs (n + j)) w1 = (Inl CancelledError, w2)
       \<and> worker_loop api vw envs n w = Some (CancelledError, w2)"
proof (induction k arbitrary: n w)
  case (Suc k)
  obtain r w1 where r: "sim_run_once api vw (envs n) w = (r, w1)" by fastforce
  show ?case
  proof (cases r)
    case (Inl e)
    then have "e = CancelledError" using round_error_calls [OF r] by blast
    then show ?thesis using Inl r by (intro exI [of _ 0]) (simp add: worker_loop.simps)
  next
    case (Inr u)
    then obtain j w2 w3 where j: "worker_rounds api vw envs (Suc n) j w1 = Some w2"
      "sim_run_once api vw (envs (Suc n + j)) w2 = (Inl CancelledError, w3)"
      "worker_loop api vw envs (Suc n) w1 = Some (CancelledError, w3)" using Suc r by fastforce
    then have "worker_loop api vw envs n w = Some (CancelledError, w3)" using r Inr by (simp add: worker_loop.simps [of _ _ _ n])
    then show ?thesis using j(1,2) r Inr by (intro exI [of _ "Suc j"]) simp
  qed
qed simp

text \<open>
  Only its cancellation ends a worker. It runs for ever exactly if no round is cancelled;
  otherwise it ends in status \<open>stopped\<close>, the number of active workers is what it was before,
  and the tasks it counts as completed are as many as its metric says, at most the claims it was granted,
  which are at most the claims it sent.
\<close>

theorem worker_ends_when_cancelled:
  "(worker_run api vw envs (fresh_world vw s) = None \<longleftrightarrow> (\<forall>k. worker_rounds api vw envs 0 k (started_world vw s) \<noteq> None))
     \<and> (\<forall>e w'. worker_run api vw envs (fresh_world vw s) = Some (e, w') \<longrightarrow>
          e = CancelledError \<and> ws_status (sv_state w') = ''stopped''
          \<and> mt_gauges (sv_metrics w') (active_workers, []) = Some 0
          \<and> count_of ''simulator_completed_tasks_total'' vw w' = ws_completed (sv_state w')
          \<and> ws_completed (sv_state w') \<le> count_of ''simulator_claim_success_total'' vw w'
          \<and> count_of ''simulator_claim_success_total'' vw w' \<le> claim_calls_of w'
          \<and> claim_calls_of w' = count_of ''simulator_claim_attempts_total'' vw w')"
proof (cases "\<forall>k. worker_rounds api vw envs 0 k (started_world vw s) \<noteq> None")
  case True
  then have "worker_run api vw envs (fresh_world vw s) = None"
    using loop_none_if_rounds [of api vw envs 0] by (simp add: worker_run_def started_world_def)
  then show ?thesis using True by simp
next
  case False
  let ?w = "started_world vw s"
  obtain j w1 w2 where j: "worker_rounds api vw envs 0 j ?w = Some w1"
    "sim_run_once api vw (envs j) w1 = (Inl CancelledError, w2)" "worker_loop api vw envs 0 ?w = Some (CancelledError, w2)"
    using False loop_some_if_cancelled [of api vw envs 0] by fastforce
  let ?w' = "on_metrics (inc_gauge active_workers [] (- 1)) (on_state (ws_status_update (\<lambda>_. ''stopped'')) w2)"
  have run: "worker_run api vw envs (fresh_world vw s) = Some (CancelledError, ?w')"
    using j(3) by (simp add: worker_run_def started_world_def)
  obtain a g c where m: "c \<le> g" "g \<le> a" "books_move vw a g c ?w w2"
    using rounds_books [OF j(1)] round_books [OF j(2)] books_trans by (metis add_le_mono)
  have start: "count_of n vw ?w = 0" "claim_calls_of ?w = 0" "ws_completed (sv_state ?w) = 0"
    "mt_gauges (sv_metrics ?w) (active_workers, []) = Some 1" for n
    by (simp_all add: started_world_def fresh_world_def count_of_def claim_calls_of_def fresh_state_def inc_gauge_def empty_metrics_def)
  have "count_of n vw ?w' = count_of n vw w2" "claim_calls_of ?w' = claim_calls_of w2" for n
    by (simp_all add: count_of_def claim_calls_of_def inc_gauge_def)
  moreover have "mt_gauges (sv_metrics ?w') (active_workers, []) = Some 0"
    using m(3) start(4) by (simp add: books_move_def inc_gauge_def)
  ultimately show ?thesis using run False m start by (auto simp: books_move_def)
qed

section \<open>An example\<close>

text \<open>
  A kitchen service with one displayed task, which it grants and accepts; the worker is
  cancelled in its second round. The state counts what has been awaited.
\<close>

definition sim_demo_task :: sim_task where
  "sim_demo_task =
     \<lparr>sm_kds_task_id = Id_int 1, sm_task_id = ''task-1'', sm_order_id = ''order-1'', sm_station_id = Id_int 1,
      sm_operation = ''cook_patty'', sm_menu_item_name = Some ''Burger'', sm_status = ''displayed'',
      sm_estimated_duration = 480, sm_pickup_deadline = None, sm_displayed_at = dt_utc 63900000000000000\<rparr>"

definition sim_demo_claimed :: sim_claim_response where
  "sim_demo_claimed =
     \<lparr>sl_kds_task_id = Id_int 1, sl_task_id = ''task-1'', sl_station_id = Id_int 1, sl_status = ''claimed'',
      sl_claimed_by = ''grill_1-worker-1'', sl_claimed_at = dt_utc 63900000000000000\<rparr>"

definition sim_demo_completed :: sim_complete_response where
  "sim_demo_completed =
     \<lparr>sp_kds_task_id = Id_int 1, sp_task_id = ''task-1'', sp_station_id = Id_int 1, sp_status = ''completed'',
      sp_claimed_by = ''grill_1-worker-1'', sp_completed_at = dt_utc 63900000008000000\<rparr>"

definition ok_body :: "nat \<Rightarrow> 'a \<Rightarrow> 'a kds_body http_result option" where
  "ok_body code a = Some (Http_response code \<lparr>kb_json = None, kb_model = Inr a\<rparr>)"

definition sim_demo_api :: "nat kds_api" where
  "sim_demo_api =
     \<lparr>ap_tasks = (\<lambda>_ _ s. (ok_body 200 (if s = 0 then [sim_demo_task] else []), s + 1)),
      ap_claim = (\<lambda>_ _ _ _ s. (ok_body 200 sim_demo_claimed, s + 1)),
      ap_complete = (\<lambda>_ _ _ _ s. (ok_body 200 sim_demo_completed, s + 1)),
      ap_sleep = (\<lambda>_ s. (5 \<le> s, s + 1))\<rparr>"

definition sim_demo_worker :: virtual_worker where
  "sim_demo_worker =
     \<lparr>vw_worker_id = ''grill_1-worker-1'', vw_station_id = ''grill_1'', vw_poll_interval = 1, vw_speed_factor = 60,
      vw_min_factor = 1, vw_max_factor = 1, vw_complete_attempts = 3\<rparr>"

definition sim_demo_env :: sim_env where
  "sim_demo_env = \<lparr>se_now = dt_utc 63900000000000000, se_corr = 7, se_random = (\<lambda>a b. a)\<rparr>"

lemma sim_demo_api_calls:
  "call_tasks sim_demo_api vw corr w =
     (Inr (if sv_remote w = 0 then [sim_demo_task] else []),
      w\<lparr>sv_trace := sv_trace w @ [Act_call (Get_tasks (vw_station_id vw))], sv_remote := sv_remote w + 1\<rparr>)"
  "call_claim sim_demo_api vw corr tid w =
     (Inr sim_demo_claimed, w\<lparr>sv_trace := sv_trace w @ [Act_call (claim_of vw tid)], sv_remote := sv_remote w + 1\<rparr>)"
  "call_complete sim_demo_api vw corr tid w =
     (Inr sim_demo_completed, w\<lparr>sv_trace := sv_trace w @ [Act_call (completion_of vw tid)], sv_remote := sv_remote w + 1\<rparr>)"
  "call_sleep sim_demo_api d w =
     ((if 5 \<le> sv_remote w then Inl CancelledError else Inr ()),
      w\<lparr>sv_trace := sv_trace w @ [Act_sleep d], sv_remote := sv_remote w + 1\<rparr>)"
  by (simp_all add: call_tasks_def call_claim_def call_complete_def call_sleep_def await_call_def sim_demo_api_def ok_body_def
      kds_get_station_tasks_def kds_claim_task_def kds_complete_task_def read_response_def)

lemma sim_demo_select: "select_displayed_task [sim_demo_task] = Inr (Some sim_demo_task)" "select_displayed_task [] = Inr None"
  by (simp_all add: select_displayed_task_def mixed_offsets_def sim_demo_task_def dt_utc_def)

lemma sim_demo_round_1:
  assumes "sv_remote w = 0"
  shows "\<exists>w'. sim_run_once sim_demo_api sim_demo_worker sim_demo_env w = (Inr (), w') \<and> sv_remote w' = 4
     \<and> sv_trace w' = sv_trace w @ [Act_call (Get_tasks ''grill_1''), Act_call (claim_of sim_demo_worker ''task-1''),
         Act_sleep 8, Act_call (completion_of sim_demo_worker ''task-1'')]
     \<and> ws_completed (sv_state w') = Suc (ws_completed (sv_state w))"
proof -
  have d: "calculate_simulated_duration (sm_estimated_duration sim_demo_task) (vw_speed_factor sim_demo_worker)
      (vw_min_factor sim_demo_worker) (vw_max_factor sim_demo_worker) (se_random sim_demo_env) = Inr 8"
    by (simp add: calculate_simulated_duration_def sim_demo_task_def sim_demo_worker_def sim_demo_env_def)
  have n: "nat (vw_complete_attempts sim_demo_worker) = 3" "vw_station_id sim_demo_worker = ''grill_1''"
    by (simp_all add: sim_demo_worker_def)
  have a: "complete_attempts sim_demo_api sim_demo_worker c i 3 l v
      = (Inr True, snd (call_complete sim_demo_api sim_demo_worker c i v))" for c i l v
    by (simp add: numeral_3_eq_3 sim_demo_api_calls)
  have t: "sm_task_id sim_demo_task = ''task-1''" by (simp add: sim_demo_task_def)
  show ?thesis
    using assms
    by (simp add: sim_run_once_def sim_round_def sim_demo_api_calls sim_demo_select claim_and_cook_def cook_and_complete_def d
        complete_with_retry_def n t a Let_def)
qed

lemma sim_demo_round_2:
  assumes "sv_remote w = 4"
  shows "\<exists>w'. sim_run_once sim_demo_api sim_demo_worker sim_demo_env w = (Inl CancelledError, w')
     \<and> ws_completed (sv_state w') = ws_completed (sv_state w)"
  using assms
  by (simp add: sim_run_once_def sim_round_def sim_demo_api_calls sim_demo_select)

text \<open>The witnesses: the first round, and the whole life of this worker.\<close>

theorem round_protocol_witness:
  "\<exists>w'. sim_run_once sim_demo_api sim_demo_worker sim_demo_env (started_world sim_demo_worker 0) = (Inr (), w')
     \<and> (\<exists>(t :: sim_task) m. 0 < m \<and> m \<le> 3 \<and> calls_of (sv_trace w')
          = Get_tasks ''grill_1'' # claim_of sim_demo_worker (sm_task_id t) # replicate m (completion_of sim_demo_worker (sm_task_id t)))"
proof -
  have w: "sv_remote (started_world sim_demo_worker (0::nat)) = 0" "sv_trace (started_world sim_demo_worker (0::nat)) = []"
    by (simp_all add: started_world_def fresh_world_def)
  obtain w' where r: "sim_run_once sim_demo_api sim_demo_worker sim_demo_env (started_world sim_demo_worker 0) = (Inr (), w')"
    and tr: "calls_of (sv_trace w') = [Get_tasks ''grill_1'', claim_of sim_demo_worker ''task-1'', completion_of sim_demo_worker ''task-1'']"
    using sim_demo_round_1 [OF w(1)] w(2) by auto
  have d: "vw_station_id sim_demo_worker = ''grill_1''" "vw_complete_attempts sim_demo_worker = 3" by (simp_all add: sim_demo_worker_def)
  show ?thesis
    using round_protocol [OF r, THEN conjunct2]
  proof (elim disjE exE conjE)
    fix t :: sim_task and m :: nat
    assume m: "m \<le> nat (vw_complete_attempts sim_demo_worker)"
      and eq: "calls_of (sv_trace w') = calls_of (sv_trace (started_world sim_demo_worker (0::nat)))
        @ Get_tasks (vw_station_id sim_demo_worker) # claim_of sim_demo_worker (sm_task_id t) # replicate m (completion_of sim_demo_worker (sm_task_id t))"
    have "calls_of (sv_trace w')
        = Get_tasks ''grill_1'' # claim_of sim_demo_worker (sm_task_id t) # replicate m (completion_of sim_demo_worker (sm_task_id t))"
      using eq by (simp add: w(2) d)
    moreover from eq tr have "0 < m" by (cases m) (simp_all add: w(2))
    moreover have "m \<le> 3" using m d by simp
    ultimately show ?thesis using r
      by - (rule exI [of _ w'], rule conjI, assumption, rule exI [of _ t], rule exI [of _ m], intro conjI)
  qed (use tr in \<open>simp add: w(2)\<close>)
qed

theorem worker_ends_when_cancelled_witness:
  "\<exists>w'. worker_run sim_demo_api sim_demo_worker (\<lambda>_. sim_demo_env) (fresh_world sim_demo_worker 0) = Some (CancelledError, w')
     \<and> ws_status (sv_state w') = ''stopped'' \<and> ws_completed (sv_state w') = 1
     \<and> count_of ''simulator_completed_tasks_total'' sim_demo_worker w' = 1"
proof -
  let ?w = "started_world sim_demo_worker (0::nat)"
  have w: "sv_remote ?w = 0" "ws_completed (sv_state ?w) = 0" by (simp_all add: started_world_def fresh_world_def fresh_state_def)
  obtain w1 where r1: "sim_run_once sim_demo_api sim_demo_worker sim_demo_env ?w = (Inr (), w1)" "sv_remote w1 = 4"
    "ws_completed (sv_state w1) = 1" using sim_demo_round_1 [OF w(1)] w(2) by auto
  obtain w2 where r2: "sim_run_once sim_demo_api sim_demo_worker sim_demo_env w1 = (Inl CancelledError, w2)"
    "ws_completed (sv_state w2) = 1" using sim_demo_round_2 [OF r1(2)] r1(3) by auto
  have "worker_loop sim_demo_api sim_demo_worker (\<lambda>_. sim_demo_env) 0 ?w = Some (CancelledError, w2)"
    using r1(1) r2(1) by (subst worker_loop.simps, simp, subst worker_loop.simps, simp)
  then obtain w' where run: "worker_run sim_demo_api sim_demo_worker (\<lambda>_. sim_demo_env) (fresh_world sim_demo_worker 0) = Some (CancelledError, w')"
    and c: "ws_completed (sv_state w') = 1"
    using r2(2) by (simp add: worker_run_def started_world_def)
  then show ?thesis
    using worker_ends_when_cancelled [of sim_demo_api sim_demo_worker "\<lambda>_. sim_demo_env" 0] by simp
qed

end
