(* ===== verification/Simulator_Invariants.thy ===== *)
theory Simulator_Invariants
  imports Simulator_Protocol
begin

text \<open>
  Station simulator: the interface between a worker and the services behind its client. A
  property of the services that every call keeps is kept by every round; a completion may
  rely on what its claim has granted; a completed task that the worker counts is finished.
\<close>

locale kds_service =
  fixes api :: "'s kds_api" and vw :: virtual_worker
    and inv :: "'s \<Rightarrow> bool" and granted :: "string \<Rightarrow> 's \<Rightarrow> bool" and finished :: "string \<Rightarrow> 's \<Rightarrow> bool"
  assumes tasks_inv: "inv s \<Longrightarrow> inv (snd (ap_tasks api (vw_station_id vw) corr s))"
    and sleep_inv: "inv s \<Longrightarrow> inv (snd (ap_sleep api d s))"
    and sleep_granted: "inv s \<Longrightarrow> granted tid s \<Longrightarrow> granted tid (snd (ap_sleep api d s))"
    and claim_inv: "inv s \<Longrightarrow> inv (snd (ap_claim api (vw_station_id vw) tid (vw_worker_id vw) corr s))"
    and claim_granted:
      "inv s \<Longrightarrow> ap_claim api (vw_station_id vw) tid (vw_worker_id vw) corr s = (Some h, s') \<Longrightarrow>
         kds_claim_task h = Inr x \<Longrightarrow> granted tid s'"
    and complete_inv:
      "inv s \<Longrightarrow> granted tid s \<Longrightarrow> inv (snd (ap_complete api (vw_station_id vw) tid (vw_worker_id vw) corr s))"
    and complete_granted:
      "inv s \<Longrightarrow> granted tid s \<Longrightarrow> granted tid (snd (ap_complete api (vw_station_id vw) tid (vw_worker_id vw) corr s))"
    and complete_finished:
      "inv s \<Longrightarrow> granted tid s \<Longrightarrow> ap_complete api (vw_station_id vw) tid (vw_worker_id vw) corr s = (Some h', s') \<Longrightarrow>
         kds_complete_task h' = Inr x' \<Longrightarrow> finished tid s'"
    and sleep_finished: "finished tid s \<Longrightarrow> finished tid (snd (ap_sleep api d s))"
begin

lemma sleep_keeps:
  assumes "call_sleep api d w = (r, w')" and "inv (sv_remote w)"
  shows "inv (sv_remote w')" "granted tid (sv_remote w) \<Longrightarrow> granted tid (sv_remote w')"
  using assms sleep_inv [of "sv_remote w" d] sleep_granted [of "sv_remote w" tid d]
  by (auto simp: call_sleep_def split: prod.splits)

lemma tasks_keep:
  assumes "call_tasks api vw corr w = (r, w')" and "inv (sv_remote w)"
  shows "inv (sv_remote w')"
  using assms tasks_inv [of "sv_remote w" corr] by (auto simp: call_tasks_def await_call_def split: prod.splits)

lemma claim_keeps:
  assumes "call_claim api vw corr tid w = (r, w')" and "inv (sv_remote w)"
  shows "inv (sv_remote w')" "r = Inr x \<Longrightarrow> granted tid (sv_remote w')"
  using assms claim_inv [of "sv_remote w" tid corr] claim_granted [of "sv_remote w" tid corr]
  by (auto simp: call_claim_def await_call_def split: prod.splits option.splits)

lemma complete_keeps:
  assumes "call_complete api vw corr tid w = (r, w')" and "inv (sv_remote w)" and "granted tid (sv_remote w)"
  shows "inv (sv_remote w') \<and> granted tid (sv_remote w') \<and> (\<forall>x. r = Inr x \<longrightarrow> finished tid (sv_remote w'))"
  using assms complete_inv [of "sv_remote w" tid corr] complete_granted [of "sv_remote w" tid corr]
    complete_finished [of "sv_remote w" tid corr]
  by (auto simp: call_complete_def await_call_def split: prod.splits option.splits)

lemma attempts_keep:
  "complete_attempts api vw corr tid left lst w = (r, w') \<Longrightarrow> inv (sv_remote w) \<Longrightarrow> granted tid (sv_remote w) \<Longrightarrow>
     inv (sv_remote w') \<and> (r = Inr True \<longrightarrow> finished tid (sv_remote w'))"
proof (induction left arbitrary: lst w)
  case (Suc left)
  obtain r1 w1 where c: "call_complete api vw corr tid w = (r1, w1)" by fastforce
  note k = complete_keeps [OF c Suc.prems(2,3)]
  show ?case
  proof (cases r1)
    case (Inr x)
    then show ?thesis using Suc.prems(1) c k by simp
  next
    case (Inl e)
    show ?thesis
    proof (cases "kds_error_text e")
      case None
      then show ?thesis using Suc.prems(1) c k Inl by auto
    next
      case (Some msg)
      show ?thesis
      proof (cases "0 < left")
        case False
        then show ?thesis using Suc.prems(1) c k Inl Some Suc.IH [of "Some msg" w1] by simp
      next
        case True
        obtain r2 w2 where s: "call_sleep api (vw_poll_interval vw) w1 = (r2, w2)" by fastforce
        note ks = sleep_keeps [OF s conjunct1 [OF k]]
        show ?thesis
          using Suc.prems(1) c Inl Some True s ks k Suc.IH [of "Some msg" w2] by (auto split: sum.splits)
      qed
    qed
  qed
qed auto

lemma cook_keeps:
  assumes "cook_and_complete api vw env t w = (r, w')" and "inv (sv_remote w)" and "granted (sm_task_id t) (sv_remote w)"
  shows "inv (sv_remote w') \<and> (ws_completed (sv_state w') \<noteq> ws_completed (sv_state w) \<longrightarrow> finished (sm_task_id t) (sv_remote w'))"
proof -
  let ?w1 = "on_metrics (inc_counter ''simulator_claim_success_total'' (worker_labels vw))
                 (on_state (ws_status_update (\<lambda>_. ''cooking'') \<circ> ws_current_task_id_update (\<lambda>_. Some (sm_task_id t))) w)"
  show ?thesis
  proof (cases "calculate_simulated_duration (sm_estimated_duration t) (vw_speed_factor vw) (vw_min_factor vw)
                (vw_max_factor vw) (se_random env)")
    case (Inl msg)
    then show ?thesis using assms by (auto simp: cook_and_complete_def Let_def)
  next
    case (Inr d)
    let ?w1' = "on_metrics (observe_hist ''simulator_task_duration_seconds'' (worker_labels vw) d) ?w1"
    obtain r2 w2 where s: "call_sleep api d ?w1' = (r2, w2)" by fastforce
    have k2: "inv (sv_remote w2)" "granted (sm_task_id t) (sv_remote w2)" using sleep_keeps [OF s] assms(2,3) by simp_all
    obtain r3 w3 where c: "complete_with_retry api vw (uuid_str (se_corr env)) (sm_task_id t) w2 = (r3, w3)" by fastforce
    have k3: "inv (sv_remote w3)" "r3 = Inr True \<Longrightarrow> finished (sm_task_id t) (sv_remote w3)"
      using attempts_keep [OF c [unfolded complete_with_retry_def] k2] by blast+
    have same: "ws_completed (sv_state w3) = ws_completed (sv_state w)" "ws_completed (sv_state w2) = ws_completed (sv_state w)"
      using call_sleep_frame [OF s] complete_attempts_calls [OF c [unfolded complete_with_retry_def]] by auto
    consider "w' = w2" | "w' = w3" | ok where "r3 = Inr ok" "sv_remote w' = sv_remote w3"
        "ws_completed (sv_state w') = (if ok then Suc (ws_completed (sv_state w3)) else ws_completed (sv_state w3))"
      using assms(1) s c Inr by (auto simp: cook_and_complete_def Let_def split: sum.splits if_splits)
    then show ?thesis using k2 k3 same by cases (auto split: if_splits)
  qed
qed

text \<open>A round keeps the invariant, and counts a task only when it is finished.\<close>

lemma backoff_keeps: "worker_backoff api vw msg w = (r, w') \<Longrightarrow> inv (sv_remote w) \<Longrightarrow> inv (sv_remote w')"
  unfolding worker_backoff_def by (drule sleep_keeps(1)) simp_all

lemma claim_and_cook_keeps:
  assumes run: "claim_and_cook api vw env t w = (r, w')" and inv: "inv (sv_remote w)"
  shows "inv (sv_remote w')
     \<and> (ws_completed (sv_state w') \<noteq> ws_completed (sv_state w) \<longrightarrow> finished (sm_task_id t) (sv_remote w'))"
proof -
  let ?v = "on_metrics (inc_counter ''simulator_claim_attempts_total'' (worker_labels vw)) w"
  obtain r2 w2 where c2: "call_claim api vw (uuid_str (se_corr env)) (sm_task_id t) ?v = (r2, w2)" by fastforce
  have k2: "inv (sv_remote w2)" "ws_completed (sv_state w2) = ws_completed (sv_state w)"
    using claim_keeps(1) [OF c2] inv call_claim_frame [OF c2] by simp_all
  show ?thesis
  proof (cases r2)
    case (Inr x)
    then have "granted (sm_task_id t) (sv_remote w2)" using claim_keeps(2) [OF c2, of x] inv by simp
    moreover have "cook_and_complete api vw env t w2 = (r, w')" using run c2 Inr by (simp add: claim_and_cook_def)
    ultimately show ?thesis using cook_keeps k2 by metis
  next
    case (Inl e)
    then consider "w' = w2" | msg where "worker_backoff api vw msg w2 = (r, w')"
      | "sv_remote w' = sv_remote w2" "ws_completed (sv_state w') = ws_completed (sv_state w2)"
      using run c2 by (auto simp: claim_and_cook_def split: sim_error.splits option.splits)
    then show ?thesis
    proof cases
      case (2 msg)
      then show ?thesis
        using backoff_keeps [OF 2 k2(1)] backoff_books [OF 2] k2(2) by (simp add: books_move_def)
    qed (use k2 in simp_all)
  qed
qed

lemma sim_round_keeps:
  assumes run: "sim_round api vw env w = (r, w')" and inv: "inv (sv_remote w)"
  shows "inv (sv_remote w') \<and> (ws_completed (sv_state w') \<noteq> ws_completed (sv_state w) \<longrightarrow> (\<exists>tid. finished tid (sv_remote w')))"
proof -
  let ?w0 = "on_state (ws_status_update (\<lambda>_. ''polling'') \<circ> ws_last_poll_at_update (\<lambda>_. Some (se_now env))) w"
  obtain r1 w1 where c: "call_tasks api vw (uuid_str (se_corr env)) ?w0 = (r1, w1)" by fastforce
  have k1: "inv (sv_remote w1)" "ws_completed (sv_state w1) = ws_completed (sv_state w)"
    using tasks_keep [OF c] inv call_tasks_frame [OF c] by simp_all
  show ?thesis
  proof (cases "\<exists>t. claim_and_cook api vw env t w1 = (r, w')")
    case True
    then show ?thesis using claim_and_cook_keeps [OF _ k1(1)] k1(2) by metis
  next
    case False
    then consider "w' = w1" | msg where "worker_backoff api vw msg w1 = (r, w')"
      | d where "call_sleep api d (on_state (ws_status_update (\<lambda>_. ''idle'')) w1) = (r, w')"
      using run c by (auto simp: sim_round_def split: sum.splits option.splits)
    then show ?thesis
    proof cases
      case (2 msg)
      then show ?thesis using backoff_keeps [OF 2 k1(1)] backoff_books [OF 2] k1(2) by (simp add: books_move_def)
    next
      case (3 d)
      then show ?thesis using sleep_keeps(1) [OF 3] call_sleep_frame [OF 3] k1 by simp
    qed (use k1 in simp)
  qed
qed

lemma round_keeps:
  assumes run: "sim_run_once api vw env w = (r, w')" and inv: "inv (sv_remote w)"
  shows "inv (sv_remote w') \<and> (ws_completed (sv_state w') \<noteq> ws_completed (sv_state w) \<longrightarrow> (\<exists>tid. finished tid (sv_remote w')))"
proof -
  obtain r9 w9 where rnd: "sim_round api vw env w = (r9, w9)" by fastforce
  note k9 = sim_round_keeps [OF rnd inv]
  consider "w' = w9" | e where "call_sleep api (vw_poll_interval vw) (unexpected vw e w9) = (r, w')"
    by (rule run_once_cases [OF run rnd])
  then show ?thesis
  proof cases
    case (2 e)
    have "finished tid (sv_remote w') \<or> \<not> finished tid (sv_remote w9)" for tid
      using 2 sleep_finished [of tid "sv_remote w9" "vw_poll_interval vw"] by (auto simp: call_sleep_def split: prod.splits)
    then show ?thesis
      using k9 sleep_keeps(1) [OF 2] call_sleep_frame [OF 2] by fastforce
  qed (use k9 in simp)
qed

end

end
