(* ===== verification/Services_Agree.thy ===== *)
theory Services_Agree
  imports Kitchen_Events_Props Fulfillment_Ready_Props Fulfillment_Replay Fulfillment_Orphans
begin

text \<open>
  The kitchen and the fulfillment service together: the callbacks that the kitchen service
  makes in a claim and a completion are served by the routes of the fulfillment service. What
  the kitchen's screen shows and what the fulfillment service has recorded then agree.
\<close>

section \<open>The fulfillment service behind the client\<close>

text \<open>
  The request of \<open>_post_transition\<close> as the fulfillment service receives it: the path and
  the body carry the identifiers as text, the time as ISO text of the value.
\<close>

definition ful_remote :: "fsettings \<Rightarrow> fenv \<Rightarrow> string option \<Rightarrow> fworld remote" where
  "ful_remote cfg env corr c w =
     (case (uuid_parse (tc_station_id c), uuid_parse (tc_kds_task_id c)) of
        (Some s, Some kd) \<Rightarrow>
          (case tc_op c of
             Start_op \<Rightarrow>
               (case route_start uuid_parse cfg env corr (tc_task_id c)
                       \<lparr>sq_station_id = s, sq_kds_task_id = kd, sq_worker = tc_worker c, sq_started_at = tc_at c\<rparr> w of
                  (r, w') \<Rightarrow> (Http_response (reply_status r) (), w'))
           | Complete_op \<Rightarrow>
               (case route_finish uuid_parse cfg env corr (tc_task_id c)
                       \<lparr>fq_station_id = s, fq_kds_task_id = kd, fq_worker = tc_worker c, fq_completed_at = tc_at c\<rparr> w of
                  (r, w') \<Rightarrow> (Http_response (reply_status r) (), w')))
      | _ \<Rightarrow> (Http_response 422 (), w))"

lemma error_status: "200 \<le> reply_status (f_error_reply e) \<and> reply_status (f_error_reply e) < 300 \<Longrightarrow> False"
  by (cases e) (simp_all add: f_error_reply_def f_handled_def)

lemma f_reply_2xx:
  "f_reply 200 ok r = rep \<Longrightarrow> 200 \<le> reply_status rep \<Longrightarrow> reply_status rep < 300 \<Longrightarrow> \<exists>x. r = Inr x"
  using error_status by (cases r) (auto simp: f_reply_def)

lemma ful_remote_start:
  assumes run: "ful_remote cfg env corr c w = (Http_response code u, w')" and code: "200 \<le> code" "code < 300"
    and c: "tc_op c = Start_op" "tc_station_id c = uuid_str s" "tc_kds_task_id c = uuid_str kd"
  obtains i t where "uuid_parse (tc_task_id c) = Some i" "get_ftask_row (fw_db w') i = Some t"
    "ft_status t = Tk_in_progress" "ft_station_id t = Some s" "ft_kds_task_id t = Some kd"
proof -
  let ?p = "\<lparr>sq_station_id = s, sq_kds_task_id = kd, sq_worker = tc_worker c, sq_started_at = tc_at c\<rparr>"
  obtain rep where rep: "route_start uuid_parse cfg env corr (tc_task_id c) ?p w = (rep, w')" "code = reply_status rep"
    using run by (auto simp: ful_remote_def c split: prod.splits)
  obtain i where i: "uuid_parse (tc_task_id c) = Some i"
    using rep code by (cases "uuid_parse (tc_task_id c)") (auto simp: route_start_def)
  obtain x where "start_task cfg env corr i ?p w = (Inr x, w')"
    using rep code i f_reply_2xx
    by (cases "start_task cfg env corr i ?p w") (auto simp: route_start_def split: if_splits)
  from start_task_after [OF this] load_task_SomeD(1) obtain t where
    "get_ftask_row (fw_db w') i = Some t" "ft_status t = Tk_in_progress" "ft_station_id t = Some s" "ft_kds_task_id t = Some kd"
    by (metis start_request.select_convs(1,2))
  with i show ?thesis by (rule that)
qed

lemma ful_remote_complete:
  assumes run: "ful_remote cfg env corr c w = (Http_response code u, w')" and code: "200 \<le> code" "code < 300"
    and c: "tc_op c = Complete_op" "tc_station_id c = uuid_str s" "tc_kds_task_id c = uuid_str kd"
  obtains i t where "uuid_parse (tc_task_id c) = Some i" "get_ftask_row (fw_db w') i = Some t"
    "ft_status t = Tk_done" "ft_station_id t = Some s" "ft_kds_task_id t = Some kd"
proof -
  let ?p = "\<lparr>fq_station_id = s, fq_kds_task_id = kd, fq_worker = tc_worker c, fq_completed_at = tc_at c\<rparr>"
  obtain rep where rep: "route_finish uuid_parse cfg env corr (tc_task_id c) ?p w = (rep, w')" "code = reply_status rep"
    using run by (auto simp: ful_remote_def c split: prod.splits)
  obtain i where i: "uuid_parse (tc_task_id c) = Some i"
    using rep code by (cases "uuid_parse (tc_task_id c)") (auto simp: route_finish_def)
  obtain x where "f_complete_task cfg env corr i ?p w = (Inr x, w')"
    using rep code i f_reply_2xx
    by (cases "f_complete_task cfg env corr i ?p w") (auto simp: route_finish_def split: if_splits)
  from complete_task_after [OF this] load_task_SomeD(1) obtain t where
    "get_ftask_row (fw_db w') i = Some t" "ft_status t = Tk_done" "ft_station_id t = Some s" "ft_kds_task_id t = Some kd"
    by (metis finish_request.select_convs(1,2))
  with i show ?thesis by (rule that)
qed

text \<open>
  C9. A claim that the kitchen service grants is recorded by both services: the station's
  screen shows the task as claimed by the worker, and the fulfillment service has it in
  progress at the same station under the same KDS task.
\<close>

theorem granted_claim_agrees:
  fixes w :: kworld and fw :: fworld
  assumes inv: "db_inv (kw_db w)"
    and run: "claim_task populate (ful_remote fcfg fenv fcorr) cfg env corr sid tid p w fw = (Inr t', w', fw')"
  shows "get_by_task_id (kw_db w') tid = Some t' \<and> kt_status t' = Kds_claimed \<and> kt_claimed_by t' = Some (cr_worker p)
    \<and> kt_station_id t' = sid
    \<and> (\<exists>i t. uuid_parse tid = Some i \<and> get_ftask_row (fw_db fw') i = Some t \<and> ft_status t = Tk_in_progress
         \<and> ft_station_id t = Some sid \<and> ft_kds_task_id t = Some (kt_id t'))"
proof -
  have ok: "kdb_ok (kw_db w)" using inv by (simp add: db_inv_def)
  obtain pd w1 where beg: "claim_begin populate cfg env corr sid tid p w = (Inr pd, w1)"
    using run by (auto simp: claim_task_def split: sum.splits prod.splits)
  obtain s t where s: "get_station_row (kw_db w) sid = Some s" and t: "get_by_task_id (kw_db w) tid = Some t"
    and valid: "validate_claim s t = None"
    and db: "kw_db w1 = slot_move (ke_db_now env) (kt_id t) (claim_row (cr_worker p) (pd_at pd) (ke_db_now env)) s
       (st_busy_slots s + 1) (kw_db w)"
    and st: "get_station_row (kw_db w1) sid = Some (pd_station pd)" and tk: "get_kds_row (kw_db w1) (kt_id t) = Some (pd_task pd)"
    by (rule claim_begin_ok [OF ok beg])
  have pt: "pd_task pd = claim_row (cr_worker p) (pd_at pd) (ke_db_now env) t"
    using tk get_by_task_id_row [OF ok t] by (simp add: db get_kds_row_slot_move)
  have sid: "st_id (pd_station pd) = sid" by (rule station_tab.get_key [OF st])
  have ids: "kt_task_id (pd_task pd) = tid" "kt_id (pd_task pd) = kt_id t"
    using get_by_task_id_SomeD [OF t] by (simp_all add: pt claim_row_def)
  obtain r where r: "ful_remote fcfg fenv fcorr (start_call (cr_worker p) pd) fw = (r, fw')"
    and acc: "post_transition Start_op r = Inr ()" and succ: "claim_success cfg env corr sid p pd w1 = (t', w')"
    using run beg by (auto simp: claim_task_def split: sum.splits prod.splits client_error.splits)
  obtain c u where c: "r = Http_response c u" "200 \<le> c" "c < 300" using acc by (auto simp: post_transition_ok_iff)
  have t': "t' = pd_task pd" using succ by (auto simp: claim_success_def Let_def)
  have w': "kw_db w' = kw_db w1" using claim_success_db [of cfg env corr sid p pd w1] by (simp add: succ)
  have row: "get_by_task_id (kw_db w') tid = Some t'"
    using ok t by (simp add: w' db t' pt get_by_task_id_slot_move)
  obtain i ft where "uuid_parse tid = Some i" "get_ftask_row (fw_db fw') i = Some ft" "ft_status ft = Tk_in_progress"
    "ft_station_id ft = Some sid" "ft_kds_task_id ft = Some (kt_id t)"
    by (rule ful_remote_start [OF r [unfolded c(1)] c(2,3), where s = sid and kd = "kt_id t"])
      (simp_all add: start_call_def ids sid)
  moreover have "kt_station_id t = sid"
    using validate_claim_NoneD(1) [OF valid] station_tab.get_key [OF s] by simp
  ultimately show ?thesis using row by (simp add: t' pt claim_row_def)
qed

text \<open>The fulfillment side of the task that \<open>Kitchen_Properties\<close> tries its theorems on.\<close>

definition shared_shown :: ftask where
  "shared_shown = (fdemo_displayed 21 1)\<lparr>ft_kds_task_id := Some 11\<rparr>"

definition shared_started :: ftask where
  "shared_started = (fdemo_started 21 1)\<lparr>ft_kds_task_id := Some 11\<rparr>"

definition shared_world :: "order_status \<Rightarrow> ftask \<Rightarrow> fworld" where
  "shared_world st t = fdemo_world\<lparr>fw_db := fdemo_db st [t]\<rparr>"

lemma shared_rows [simp]:
  "ft_id shared_shown = 21" "ft_order_id shared_shown = 1" "ft_status shared_shown = Tk_displayed"
  "ft_station_id shared_shown = Some 2" "ft_kds_task_id shared_shown = Some 11" "ft_duration shared_shown = 60"
  "ft_id shared_started = 21" "ft_order_id shared_started = 1" "ft_status shared_started = Tk_in_progress"
  "ft_station_id shared_started = Some 2" "ft_kds_task_id shared_started = Some 11"
  "ft_started_at shared_started = Some fdemo_time" "fw_db (shared_world st t) = fdemo_db st [t]"
  "ft_sla_deadline_at shared_started = Some \<lparr>dt_us = 63900000060000000, dt_off = Some 0\<rparr>"
  by (simp_all add: shared_shown_def shared_started_def shared_world_def)

lemma race_time_fdemo: "race_time = fdemo_time"
  by (simp add: race_time_def fdemo_time_def)

lemma shared_start:
  "\<exists>w'. ful_remote fdemo_cfg fdemo_env corr (start_call ''w'' pd) (shared_world Ord_created shared_shown) = (Http_response 200 (), w')
     \<and> fw_db w' = fdemo_db Ord_cooking [shared_started]"
  if "kt_task_id (pd_task pd) = uuid_str 21" "st_id (pd_station pd) = 2" "kt_id (pd_task pd) = 11" "pd_at pd = fdemo_time"
proof -
  let ?sla = "\<lparr>dt_us = 63900000060000000, dt_off = Some 0\<rparr>"
  let ?p = "\<lparr>sq_station_id = 2, sq_kds_task_id = 11, sq_worker = ''w'', sq_started_at = fdemo_time\<rparr>"
  have sla: "dt_add_seconds fdemo_time 60 = Some ?sla"
    by (simp add: dt_add_seconds_def fdemo_time_def dt_in_range_def dt_max_us_def)
  have row: "saved_row fdemo_time (started_task ?p ?sla shared_shown) = shared_started"
    by (simp add: shared_shown_def shared_started_def fdemo_started_def saved_row_def ftask_row_def started_task_def fdemo_start_def)
  have ok: "start_response_ok (start_response_of (started_task ?p ?sla shared_shown))"
    by (simp add: start_response_ok_def start_response_of_def started_task_def)
  have id: "ft_id (started_task ?p ?sla shared_shown) = 21" by (simp add: started_task_def)
  show ?thesis
    using ok
    by (simp add: ful_remote_def start_call_def that route_start_def valid_start_def start_task_def fdemo_load
        require_transition_def validate_same_station_and_kds_def sla Let_def f_reply_def fdemo_save(1) fdemo_cook row id)
qed

theorem granted_claim_agrees_witness:
  "\<exists>t' w' fw' t. claim_task False (ful_remote fdemo_cfg fdemo_env None) demo_cfg race_env None 2 (uuid_str 21) demo_claim demo_world
       (shared_world Ord_created shared_shown) = (Inr t', w', fw')
     \<and> kt_status t' = Kds_claimed \<and> get_ftask_row (fw_db fw') 21 = Some t \<and> ft_status t = Tk_in_progress"
proof -
  obtain pd w1 where run: "claim_begin False demo_cfg race_env None 2 (uuid_str 21) demo_claim demo_world = (Inr pd, w1)"
    using demo_claim_begin by blast
  have ok: "kdb_ok (kw_db demo_world)" using demo_world_inv by (simp add: db_inv_def)
  have pd: "kt_task_id (pd_task pd) = uuid_str 21 \<and> st_id (pd_station pd) = 2 \<and> kt_id (pd_task pd) = 11 \<and> pd_at pd = fdemo_time"
  proof (rule claim_begin_ok [OF ok run])
    fix s t assume t: "get_by_task_id (kw_db demo_world) (uuid_str 21) = Some t"
      and db: "kw_db w1 = slot_move (ke_db_now race_env) (kt_id t) (claim_row (cr_worker demo_claim) (pd_at pd) (ke_db_now race_env)) s
          (st_busy_slots s + 1) (kw_db demo_world)"
      and at0: "pd_at pd = (case cr_claimed_at demo_claim of None \<Rightarrow> ke_now race_env | Some d \<Rightarrow> d)"
      and st: "get_station_row (kw_db w1) 2 = Some (pd_station pd)" and tk: "get_kds_row (kw_db w1) (kt_id t) = Some (pd_task pd)"
    have "t = demo_task" using t demo_rows(2) by simp
    then have "pd_task pd = claim_row (cr_worker demo_claim) (pd_at pd) (ke_db_now race_env) demo_task"
      using tk get_by_task_id_row [OF ok t] by (simp add: db get_kds_row_slot_move)
    then show ?thesis
      using at0 station_tab.get_key [OF st]
      by (simp add: claim_row_def demo_task_def race_task_def demo_claim_def race_env_def race_time_fdemo)
  qed
  then obtain fw' where call: "ful_remote fdemo_cfg fdemo_env None (start_call ''w'' pd) (shared_world Ord_created shared_shown)
      = (Http_response 200 (), fw')" using shared_start [of pd None] by blast
  obtain t' w' where succ: "claim_success demo_cfg race_env None 2 demo_claim pd w1 = (t', w')" by fastforce
  have run': "claim_task False (ful_remote fdemo_cfg fdemo_env None) demo_cfg race_env None 2 (uuid_str 21) demo_claim demo_world
       (shared_world Ord_created shared_shown) = (Inr t', w', fw')"
    by (simp add: claim_task_def run call post_transition_def raises_for_status_def succ demo_worker)
  from granted_claim_agrees [OF demo_world_inv run'] run' show ?thesis by auto
qed

text \<open>What a granted completion leaves in the two databases.\<close>

lemma complete_task_recorded:
  fixes w :: kworld and fw :: fworld
  assumes inv: "db_inv (kw_db w)"
    and run: "complete_task populate (ful_remote fcfg fenv fcorr) cfg env corr sid tid p w fw = (Inr t', w', fw')"
  shows "get_by_task_id (kw_db w') tid = Some t' \<and> kt_status t' = Kds_completed
    \<and> (\<exists>i t. uuid_parse tid = Some i \<and> get_ftask_row (fw_db fw') i = Some t \<and> ft_status t = Tk_done
         \<and> ft_station_id t = Some sid \<and> ft_kds_task_id t = Some (kt_id t'))"
proof -
  have ok: "kdb_ok (kw_db w)" using inv by (simp add: db_inv_def)
  obtain pd where pd: "complete_begin populate env sid tid p w = Inr pd"
    using run by (auto simp: complete_task_def split: sum.splits)
  note b = complete_begin_ok [OF pd]
  have sid: "st_id (pd_station pd) = sid" by (rule station_tab.get_key [OF b(1)])
  have tid: "kt_task_id (pd_task pd) = tid" using get_by_task_id_SomeD [OF b(2)] by blast
  obtain r where r: "ful_remote fcfg fenv fcorr (complete_call (co_worker p) pd) fw = (r, fw')"
    and acc: "post_transition Complete_op r = Inr ()"
    and commit: "complete_commit populate cfg env corr sid tid p pd w = (Inr t', w')"
    using run pd by (auto simp: complete_task_def split: sum.splits prod.splits client_error.splits)
  obtain c u where c: "r = Http_response c u" "200 \<le> c" "c < 300" using acc by (auto simp: post_transition_ok_iff)
  have coh: "coherent populate (pd_session pd) (kw_db w)"
    using complete_begin_fresh [OF ok pd] by (simp add: coherent_def)
  have t': "t' = complete_row (pd_at pd) (ke_db_now env) (pd_task pd)"
    and db: "kw_db w' = slot_move (ke_db_now env) (kt_id (pd_task pd)) (complete_row (pd_at pd) (ke_db_now env)) (pd_station pd)
       (max 0 (st_busy_slots (pd_station pd) - 1)) (kw_db w)"
    using complete_commit_ok [OF ok coh commit] b(1,2) by auto
  have row: "get_by_task_id (kw_db w') tid = Some t'"
    using ok b(2) by (simp add: db t' get_by_task_id_slot_move)
  obtain i ft where "uuid_parse tid = Some i" "get_ftask_row (fw_db fw') i = Some ft" "ft_status ft = Tk_done"
    "ft_station_id ft = Some sid" "ft_kds_task_id ft = Some (kt_id (pd_task pd))"
    by (rule ful_remote_complete [OF r [unfolded c(1)] c(2,3), where s = sid and kd = "kt_id (pd_task pd)"])
      (simp_all add: complete_call_def tid sid)
  with row show ?thesis by (simp add: t' complete_row_def)
qed


lemma shared_finish:
  "\<exists>w'. ful_remote fdemo_cfg fdemo_env corr (complete_call ''w'' pd) w = (Http_response 200 (), w')"
  if "kt_task_id (pd_task pd) = uuid_str 21" "st_id (pd_station pd) = 2" "kt_id (pd_task pd) = 11" "pd_at pd = fdemo_time"
    and "fw_db w = fdemo_db Ord_cooking [shared_started]"
proof -
  have u: "as_utc (Some fdemo_time) = Some fdemo_time" "as_utc (Some \<lparr>dt_us = n, dt_off = Some 0\<rparr>) = Some \<lparr>dt_us = n, dt_off = Some 0\<rparr>" for n
    by (simp_all add: as_utc_def fdemo_time_def)
  let ?t1 = "finished_task fdemo_time fdemo_time (Some \<lparr>dt_us = 63900000060000000, dt_off = Some 0\<rparr>) shared_started"
  have "pg_text 255 fdemo_stream"
    by (simp add: fdemo_stream_def build_task_stream_name_def pg_text_def)
  then have fits: "ftask_fits ?t1"
    by (simp add: ftask_fits_def shared_started_def fdemo_rows saved_row_def ftask_row_def displayed_task_def started_task_def
        finished_task_def queued_row_def fdemo_new_def new_task_def fdemo_item_def fdemo_step_def fdemo_time_def
        dt_instant_def int_total_seconds_def pg_int4_def pg_text_def)
  have prep: "\<exists>b n. complete_prepare fdemo_env 21 \<lparr>fq_station_id = 2, fq_kds_task_id = 11, fq_worker = ''w'', fq_completed_at = fdemo_time\<rparr>
      (fdemo_db Ord_cooking [shared_started]) = Inr (Inr \<lparr>cm_task = ?t1, cm_order = (new_order fdemo_env fdemo_order)\<lparr>o_status := Ord_cooking\<rparr>,
        cm_ready = b, cm_count = n\<rparr>)"
    by (simp add: complete_prepare_def fdemo_load require_transition_def validate_same_station_and_kds_def u fits Let_def)
  have "finish_response_ok (complete_response_of ?t1)"
    by (simp add: finish_response_ok_def complete_response_of_def finished_task_def)
  with prep show ?thesis
    by (auto simp: ful_remote_def complete_call_def that route_finish_def valid_finish_def f_complete_task_def f_reply_def)
qed


end
