(* ===== verification/Simulator_Shop.thy ===== *)
theory Simulator_Shop
  imports Simulator_Invariants Services_Agree
begin

text \<open>
  The station simulator in front of the kitchen and the fulfillment service: the calls of a
  worker are served by the routes of the kitchen service, whose callbacks are served by those of the
  fulfillment service. The network may lose a request or its response, and a worker may be
  cancelled while it waits.
\<close>

section \<open>The services behind the client\<close>

datatype net_outcome = Net_ok | Request_lost | Response_lost | Cancelled_waiting bool

text \<open>
  The parameters of the installation: clocks and fresh identifiers of the services per
  exchange, the outcome of each exchange, and the JSON body the framework gives a request that fails its schema.
\<close>

record shop =
  sh_populate :: bool
  sh_kcfg :: ksettings
  sh_fcfg :: fsettings
  sh_kenv :: "nat \<Rightarrow> kenv"
  sh_fenv :: "nat \<Rightarrow> fenv"
  sh_net :: "nat \<Rightarrow> net_outcome"
  sh_unprocessable :: json

record shop_state =
  sx_tick :: nat
  sx_kitchen :: kworld
  sx_ful :: fworld

text \<open>The error documents of the kitchen service hold strings and objects only.\<close>

fun doc_json :: "jval \<Rightarrow> json" and docs_json :: "(string \<times> jval) list \<Rightarrow> (string \<times> json) list" where
  "doc_json (JStr s) = Js_str s"
| "doc_json (JInt i) = Js_int i"
| "doc_json (JBool b) = Js_bool b"
| "doc_json (JObj fs) = Js_obj (docs_json fs)"
| "doc_json _ = Js_null"
| "docs_json [] = []"
| "docs_json ((k, v) # fs) = (k, doc_json v) # docs_json fs"

text \<open>
  A reply as the client sees it. The text of a successful response is read through its model
  only; an unhandled exception has a body that is no JSON.
\<close>

definition reply_response :: "json \<Rightarrow> ('b \<Rightarrow> 'a) \<Rightarrow> 'b reply \<Rightarrow> 'a kds_body http_result" where
  "reply_response unprocessable view r =
     (case r of
        Reply c b \<Rightarrow> Http_response c \<lparr>kb_json = None, kb_model = Inr (view b)\<rparr>
      | Error_reply c doc \<Rightarrow> Http_response c \<lparr>kb_json = Some (doc_json (JObj doc)), kb_model = Inl []\<rparr>
      | Unprocessable \<Rightarrow> Http_response 422 \<lparr>kb_json = Some unprocessable, kb_model = Inl []\<rparr>
      | Server_error \<Rightarrow> Http_response 500 \<lparr>kb_json = None, kb_model = Inl []\<rparr>)"

text \<open>One exchange: the request is served or not, its response arrives or not.\<close>

definition shop_exchange ::
    "shop \<Rightarrow> ('b \<Rightarrow> 'a) \<Rightarrow> (kenv \<Rightarrow> fenv \<Rightarrow> kworld \<Rightarrow> fworld \<Rightarrow> 'b reply \<times> kworld \<times> fworld) \<Rightarrow> shop_state
      \<Rightarrow> 'a kds_body http_result option \<times> shop_state" where
  "shop_exchange sh view serve s =
     (let n = sx_tick s;
          later = s\<lparr>sx_tick := Suc n\<rparr>;
          (r, kw, fw) = serve (sh_kenv sh n) (sh_fenv sh n) (sx_kitchen s) (sx_ful s);
          served = later\<lparr>sx_kitchen := kw, sx_ful := fw\<rparr>
      in case sh_net sh n of
           Net_ok \<Rightarrow> (Some (reply_response (sh_unprocessable sh) view r), served)
         | Request_lost \<Rightarrow> (Some Http_timeout, later)
         | Response_lost \<Rightarrow> (Some Http_timeout, served)
         | Cancelled_waiting reached \<Rightarrow> (None, if reached then served else later))"

section \<open>The calls\<close>

definition sim_task_of :: "station_task_response \<Rightarrow> sim_task" where
  "sim_task_of r =
     \<lparr>sm_kds_task_id = Id_str (uuid_str (sr_kds_task_id r)), sm_task_id = uuid_str (sr_task_id r),
      sm_order_id = uuid_str (sr_order_id r), sm_station_id = Id_str (uuid_str (sr_station_id r)),
      sm_operation = sr_operation r, sm_menu_item_name = sr_menu_item_name r,
      sm_status = kds_task_status_str (sr_status r), sm_estimated_duration = sr_duration r,
      sm_pickup_deadline = sr_pickup_deadline r, sm_displayed_at = sr_displayed_at r\<rparr>"

definition sim_claim_of :: "claim_response \<Rightarrow> sim_claim_response" where
  "sim_claim_of r =
     \<lparr>sl_kds_task_id = Id_str (uuid_str (cl_kds_task_id r)), sl_task_id = uuid_str (cl_task_id r),
      sl_station_id = Id_str (uuid_str (cl_station_id r)), sl_status = kds_task_status_str (cl_status r),
      sl_claimed_by = cl_claimed_by r, sl_claimed_at = cl_claimed_at r\<rparr>"

definition sim_complete_of :: "complete_response \<Rightarrow> sim_complete_response" where
  "sim_complete_of r =
     \<lparr>sp_kds_task_id = Id_str (uuid_str (cp_kds_task_id r)), sp_task_id = uuid_str (cp_task_id r),
      sp_station_id = Id_str (uuid_str (cp_station_id r)), sp_status = kds_task_status_str (cp_status r),
      sp_claimed_by = cp_claimed_by r, sp_completed_at = cp_completed_at r\<rparr>"

definition serve_tasks :: "string \<Rightarrow> kenv \<Rightarrow> fenv \<Rightarrow> kworld \<Rightarrow> fworld \<Rightarrow> station_task_response list reply \<times> kworld \<times> fworld" where
  "serve_tasks sid ke fe kw fw = (route_list_tasks sid Kds_displayed 100 0 kw, kw, fw)"

definition serve_claim ::
    "shop \<Rightarrow> string \<Rightarrow> string \<Rightarrow> string \<Rightarrow> string \<Rightarrow> kenv \<Rightarrow> fenv \<Rightarrow> kworld \<Rightarrow> fworld \<Rightarrow> claim_response reply \<times> kworld \<times> fworld" where
  "serve_claim sh sid tid worker corr ke fe kw fw =
     route_claim (sh_populate sh) (ful_remote (sh_fcfg sh) fe (Some corr)) (sh_kcfg sh) ke (Some corr) sid tid
       \<lparr>cr_worker = worker, cr_claimed_at = None\<rparr> kw fw"

definition serve_complete ::
    "shop \<Rightarrow> string \<Rightarrow> string \<Rightarrow> string \<Rightarrow> string \<Rightarrow> kenv \<Rightarrow> fenv \<Rightarrow> kworld \<Rightarrow> fworld \<Rightarrow> complete_response reply \<times> kworld \<times> fworld" where
  "serve_complete sh sid tid worker corr ke fe kw fw =
     route_complete (sh_populate sh) (ful_remote (sh_fcfg sh) fe (Some corr)) (sh_kcfg sh) ke (Some corr) sid tid
       \<lparr>co_worker = worker, co_completed_at = None\<rparr> kw fw"

definition shop_sleep :: "shop \<Rightarrow> shop_state \<Rightarrow> bool \<times> shop_state" where
  "shop_sleep sh s =
     ((case sh_net sh (sx_tick s) of Cancelled_waiting _ \<Rightarrow> True | _ \<Rightarrow> False), s\<lparr>sx_tick := Suc (sx_tick s)\<rparr>)"

definition shop_api :: "shop \<Rightarrow> shop_state kds_api" where
  "shop_api sh =
     \<lparr>ap_tasks = (\<lambda>sid corr. shop_exchange sh (map sim_task_of) (serve_tasks sid)),
      ap_claim = (\<lambda>sid tid worker corr. shop_exchange sh sim_claim_of (serve_claim sh sid tid worker corr)),
      ap_complete = (\<lambda>sid tid worker corr. shop_exchange sh sim_complete_of (serve_complete sh sid tid worker corr)),
      ap_sleep = (\<lambda>_. shop_sleep sh)\<rparr>"

lemma shop_api_simps [simp]:
  "ap_tasks (shop_api sh) sid corr = shop_exchange sh (map sim_task_of) (serve_tasks sid)"
  "ap_claim (shop_api sh) sid tid worker corr = shop_exchange sh sim_claim_of (serve_claim sh sid tid worker corr)"
  "ap_complete (shop_api sh) sid tid worker corr = shop_exchange sh sim_complete_of (serve_complete sh sid tid worker corr)"
  "ap_sleep (shop_api sh) d = shop_sleep sh"
  by (simp_all add: shop_api_def)

text \<open>An exchange either leaves the services alone or serves the request.\<close>

lemma shop_exchange_cases:
  assumes "serve (sh_kenv sh (sx_tick s)) (sh_fenv sh (sx_tick s)) (sx_kitchen s) (sx_ful s) = (r, kw, fw)"
  shows "sx_kitchen (snd (shop_exchange sh view serve s)) \<in> {sx_kitchen s, kw}"
  using assms by (auto simp: shop_exchange_def Let_def split: net_outcome.splits)

lemma shop_exchange_response:
  assumes "shop_exchange sh view serve s = (Some (Http_response c b), s')"
    and "serve (sh_kenv sh (sx_tick s)) (sh_fenv sh (sx_tick s)) (sx_kitchen s) (sx_ful s) = (r, kw, fw)"
  shows "reply_response (sh_unprocessable sh) view r = Http_response c b" "sx_kitchen s' = kw" "sx_ful s' = fw"
  using assms by (auto simp: shop_exchange_def Let_def split: net_outcome.splits)

lemma reply_response_ok:
  "reply_response u view r = Http_response c b \<Longrightarrow> c < 400 \<Longrightarrow> kb_model b = Inr x \<Longrightarrow> \<exists>y. r = Reply c y"
  by (cases r) (auto simp: reply_response_def)

lemma shop_sleep_simps [simp]:
  "sx_kitchen (snd (shop_sleep sh s)) = sx_kitchen s" "sx_ful (snd (shop_sleep sh s)) = sx_ful s"
  by (simp_all add: shop_sleep_def)

end
