(* ===== verification/Simulator_Claims.thy ===== *)
theory Simulator_Claims
  imports Simulator_Shop
begin

text \<open>
  Station simulator and kitchen service together: what becomes of claims. A task that the
  worker counts is completed in the kitchen and done in the fulfillment service; a claim that
  its worker has let go of is never completed by any worker.
\<close>

section \<open>Rows of other tasks\<close>

lemma other_row_slot_move:
  assumes ok: "kdb_ok db" and keys: "keeps_keys f" and row: "get_by_task_id db tid = Some t" and ne: "kt_id t \<noteq> i"
  shows "get_by_task_id (slot_move now i f s v db) tid = Some t"
proof -
  have t: "t \<in> set (kds_tasks db)" "kt_task_id t = tid" using get_by_task_id_SomeD [OF row] by auto
  have "distinct (map kt_task_id (update_row kt_id i f (kds_tasks db)))"
    using kdb_okD(3) [OF ok] keys
    by (subst map_key_update_row [where g = kt_task_id]) (simp_all add: keeps_keysD)
  moreover have "t \<in> set (update_row kt_id i f (kds_tasks db))"
    using t ne by (force simp: update_row_def)
  ultimately show ?thesis using t by (simp add: get_by_task_id_def find_row_Some_iff)
qed

lemma same_id_same_row:
  assumes "kdb_ok db" and "get_by_task_id db tid = Some t" and "get_by_task_id db tid2 = Some t2" and "kt_id t = kt_id t2"
  shows "t = t2"
  using get_by_task_id_row [OF assms(1,2)] get_by_task_id_row [OF assms(1,3)] assms(4) by (metis option.inject)

text \<open>A claim leaves the row of a task that is not displayed alone, and is not granted for it.\<close>

lemma undo_claim_keeps_row:
  assumes ok: "kdb_ok db" and row: "get_by_task_id db tid = Some t" and other: "tid2 \<noteq> tid"
  shows "get_by_task_id (undo_claim now tid2 wk db) tid = Some t"
proof -
  have "kt_id t \<noteq> kt_id u" if "get_by_task_id db tid2 = Some u" for u
    using same_id_same_row [OF ok row that] get_by_task_id_SomeD [OF row] get_by_task_id_SomeD [OF that] other by auto
  then show ?thesis using row other_row_slot_move [OF ok _ row] by (auto simp: undo_claim_def split: option.splits)
qed

lemma claim_task_keeps_row:
  assumes inv: "db_inv (kw_db w)" and row: "get_by_task_id (kw_db w) tid = Some t" and st: "kt_status t \<noteq> Kds_displayed"
    and run: "claim_task populate remote cfg env corr sid tid2 p w f = (r, w', f')"
  shows "get_by_task_id (kw_db w') tid = Some t \<and> (\<forall>x. r = Inr x \<longrightarrow> tid2 \<noteq> tid)"
proof -
  have ok: "kdb_ok (kw_db w)" using inv by (simp add: db_inv_def)
  obtain r1 w1 where beg: "claim_begin populate cfg env corr sid tid2 p w = (r1, w1)" by fastforce
  show ?thesis
  proof (cases r1)
    case (Inl e)
    then show ?thesis using run beg row claim_begin_error_db [of populate cfg env corr sid tid2 p w e w1]
      by (auto simp: claim_task_def)
  next
    case (Inr pd)
    note beg' = beg [unfolded Inr]
    obtain s t2 where t2: "get_by_task_id (kw_db w) tid2 = Some t2" and valid: "validate_claim s t2 = None"
      and db: "kw_db w1 = slot_move (ke_db_now env) (kt_id t2) (claim_row (cr_worker p) (pd_at pd) (ke_db_now env)) s
         (st_busy_slots s + 1) (kw_db w)"
      and tk: "get_kds_row (kw_db w1) (kt_id t2) = Some (pd_task pd)" and fresh: "session_fresh (pd_session pd) (kw_db w1)"
      by (rule claim_begin_ok [OF ok beg'])
    have ne: "kt_id t \<noteq> kt_id t2" using same_id_same_row [OF ok row t2] st validate_claim_NoneD(3) [OF valid] by auto
    then have tne: "tid2 \<noteq> tid" using row t2 by auto
    have row1: "get_by_task_id (kw_db w1) tid = Some t" unfolding db using other_row_slot_move [OF ok _ row ne] by simp
    have inv1: "db_inv (kw_db w1)" using claim_begin_inv [OF inv, of populate cfg env corr sid tid2 p] beg by simp
    have ok1: "kdb_ok (kw_db w1)" using inv1 by (simp add: db_inv_def)
    have "pd_task pd = claim_row (cr_worker p) (pd_at pd) (ke_db_now env) t2"
      using tk get_by_task_id_row [OF ok t2] by (simp add: db get_kds_row_slot_move)
    then have pt: "kt_task_id (pd_task pd) = tid2" using get_by_task_id_SomeD [OF t2] by (simp add: claim_row_def)
    note undo = undo_claim_keeps_row [OF ok1 row1 tne]
    obtain a f1 where rm: "remote (start_call (cr_worker p) pd) f = (a, f1)" by fastforce
    consider "post_transition Start_op a = Inr ()" | "post_transition Start_op a = Inl Httpx_escapes"
      | code where "post_transition Start_op a = Inl (FulfillmentClientError code)"
      by (metis (full_types) client_error.exhaust old.sum.exhaust unit.exhaust)
    then have "get_by_task_id (kw_db w') tid = Some t"
    proof cases
      case 1
      obtain x w2 where cs: "claim_success cfg env corr sid p pd w1 = (x, w2)" by fastforce
      then have "kw_db w2 = kw_db w1" using claim_success_db [of cfg env corr sid p pd w1] by simp
      then show ?thesis using run beg' rm row1 1 cs by (simp add: claim_task_def)
    next
      case 2
      then show ?thesis using run beg' rm row1 by (simp add: claim_task_def)
    next
      case 3
      have "coherent populate (pd_session pd) (kw_db w1)" using fresh by (simp add: coherent_def)
      moreover obtain e w2 where cf: "claim_failure populate cfg env corr p code pd w1 = (e, w2)" by fastforce
      ultimately have "kw_db w2 = undo_claim (ke_db_now env) tid2 (cr_worker p) (kw_db w1)"
        using claim_failure_db [OF ok1, of populate pd cfg env corr p code] pt by simp
      then show ?thesis using run beg' rm 3 undo cf by (simp add: claim_task_def)
    qed
    then show ?thesis using tne by blast
  qed
qed

lemma complete_task_keeps_row:
  assumes inv: "db_inv (kw_db w)" and row: "get_by_task_id (kw_db w) tid = Some t" and ne: "tid2 \<noteq> tid"
    and run: "complete_task populate remote cfg env corr sid tid2 p w f = (r, w', f')"
  shows "get_by_task_id (kw_db w') tid = Some t"
proof (cases "complete_begin populate env sid tid2 p w")
  case (Inl e)
  then show ?thesis using run row by (auto simp: complete_task_def)
next
  case (Inr pd)
  have ok: "kdb_ok (kw_db w)" using inv by (simp add: db_inv_def)
  have coh: "coherent populate (pd_session pd) (kw_db w)"
    using complete_begin_fresh [OF ok Inr] by (simp add: coherent_def)
  have commit: "get_by_task_id (kw_db w1) tid = Some t"
    if c: "complete_commit populate cfg env corr sid tid2 p pd w = (r1, w1)" for r1 w1
  proof (cases r1)
    case (Inl e)
    then show ?thesis using c row complete_commit_error by metis
  next
    case (Inr t')
    show ?thesis
    proof (rule complete_commit_ok [OF ok coh c [unfolded Inr]])
      fix s t2 assume t2: "get_by_task_id (kw_db w) tid2 = Some t2"
        and db: "kw_db w1 = slot_move (ke_db_now env) (kt_id t2) (complete_row (pd_at pd) (ke_db_now env)) s
             (max 0 (st_busy_slots s - 1)) (kw_db w)"
      have "kt_id t \<noteq> kt_id t2"
        using same_id_same_row [OF ok row t2] get_by_task_id_SomeD [OF row] get_by_task_id_SomeD [OF t2] ne by auto
      then show ?thesis unfolding db using other_row_slot_move [OF ok _ row] by simp
    qed
  qed
  have "kw_db w2 = kw_db w" if "complete_failure cfg env corr code pd w = (e, w2)" for code e w2
    using complete_failure_db [of cfg env corr code pd w] that by simp
  then show ?thesis
    using run Inr row commit by (auto simp: complete_task_def split: prod.splits sum.splits client_error.splits)
qed

section \<open>The calls of a worker\<close>

lemma serve_claim_task:
  assumes "serve_claim sh sid tid worker corr ke fe kw fw = (r, kw', fw')"
  obtains "kw' = kw" "\<And>c y. r \<noteq> Reply c y"
  | i x where "uuid_parse sid = Some i" "claim_task (sh_populate sh) (ful_remote (sh_fcfg sh) fe (Some corr)) (sh_kcfg sh) ke (Some corr) i tid
       \<lparr>cr_worker = worker, cr_claimed_at = None\<rparr> kw fw = (x, kw', fw')" "\<And>c y. r = Reply c y \<Longrightarrow> \<exists>t. x = Inr t"
proof (cases "valid_claim_request \<lparr>cr_worker = worker, cr_claimed_at = None\<rparr> \<and> uuid_parse sid \<noteq> None")
  case False
  then show ?thesis
    using assms by (intro that(1)) (auto simp: serve_claim_def route_claim_def parse_kds_station_uuid_def station_not_found_def
        split: if_splits option.splits)
next
  case True
  then obtain i where i: "uuid_parse sid = Some i" by blast
  obtain x kw1 fw1 where c: "claim_task (sh_populate sh) (ful_remote (sh_fcfg sh) fe (Some corr)) (sh_kcfg sh) ke (Some corr) i tid
       \<lparr>cr_worker = worker, cr_claimed_at = None\<rparr> kw fw = (x, kw1, fw1)" by (metis prod_cases3)
  then have "kw1 = kw'" "fw1 = fw'" "r = k_reply 200 kds_task_claim_response x"
    using assms True i by (auto simp: serve_claim_def route_claim_def parse_kds_station_uuid_def)
  with i c show ?thesis
    by (intro that(2)) (auto simp: k_reply_def split: sum.splits, metis k_error_reply.elims reply.distinct)
qed

lemma serve_complete_task:
  assumes "serve_complete sh sid tid worker corr ke fe kw fw = (r, kw', fw')"
  obtains "kw' = kw" "\<And>c y. r \<noteq> Reply c y"
  | i x where "uuid_parse sid = Some i" "complete_task (sh_populate sh) (ful_remote (sh_fcfg sh) fe (Some corr)) (sh_kcfg sh) ke (Some corr) i tid
       \<lparr>co_worker = worker, co_completed_at = None\<rparr> kw fw = (x, kw', fw')" "\<And>c y. r = Reply c y \<Longrightarrow> \<exists>t. x = Inr t"
proof (cases "valid_complete_request \<lparr>co_worker = worker, co_completed_at = None\<rparr> \<and> uuid_parse sid \<noteq> None")
  case False
  then show ?thesis
    using assms by (intro that(1)) (auto simp: serve_complete_def route_complete_def parse_kds_station_uuid_def station_not_found_def
        split: if_splits option.splits)
next
  case True
  then obtain i where i: "uuid_parse sid = Some i" by blast
  obtain x kw1 fw1 where c: "complete_task (sh_populate sh) (ful_remote (sh_fcfg sh) fe (Some corr)) (sh_kcfg sh) ke (Some corr) i tid
       \<lparr>co_worker = worker, co_completed_at = None\<rparr> kw fw = (x, kw1, fw1)" by (metis prod_cases3)
  then have "kw1 = kw'" "fw1 = fw'" "r = k_reply 200 kds_task_complete_response x"
    using assms True i by (auto simp: serve_complete_def route_complete_def parse_kds_station_uuid_def)
  with i c show ?thesis
    by (intro that(2)) (auto simp: k_reply_def split: sum.splits, metis k_error_reply.elims reply.distinct)
qed

lemma shop_exchange_keeps:
  assumes "P (sx_kitchen s)"
    and "\<And>r kw fw. serve (sh_kenv sh (sx_tick s)) (sh_fenv sh (sx_tick s)) (sx_kitchen s) (sx_ful s) = (r, kw, fw) \<Longrightarrow> P kw"
  shows "P (sx_kitchen (snd (shop_exchange sh view serve s)))"
proof -
  obtain r kw fw where r: "serve (sh_kenv sh (sx_tick s)) (sh_fenv sh (sx_tick s)) (sx_kitchen s) (sx_ful s) = (r, kw, fw)"
    by (metis prod_cases3)
  from shop_exchange_cases [where serve = serve, OF this, of view] assms(1) assms(2) [OF r] show ?thesis by auto
qed

text \<open>A response that the client accepts comes from a served request with a reply.\<close>

lemma accepted_response:
  assumes "shop_exchange sh view serve s = (Some h, s')" and "h = Http_response c b" "c < 400" "kb_model b = Inr x"
  obtains r kw fw y where "serve (sh_kenv sh (sx_tick s)) (sh_fenv sh (sx_tick s)) (sx_kitchen s) (sx_ful s) = (r, kw, fw)"
    "r = Reply c y" "sx_kitchen s' = kw" "sx_ful s' = fw"
proof -
  obtain r kw fw where r: "serve (sh_kenv sh (sx_tick s)) (sh_fenv sh (sx_tick s)) (sx_kitchen s) (sx_ful s) = (r, kw, fw)"
    by (metis prod_cases3)
  from shop_exchange_response [OF assms(1) [unfolded assms(2)] r] reply_response_ok [OF _ assms(3,4)] r that show ?thesis by blast
qed

section \<open>Claims that nobody holds any more\<close>

definition holds_claim :: "string \<Rightarrow> kds_task \<Rightarrow> kworld \<Rightarrow> bool" where
  "holds_claim tid t kw = (db_inv (kw_db kw) \<and> get_by_task_id (kw_db kw) tid = Some t \<and> kt_status t = Kds_claimed)"

lemma holds_claim_claim:
  assumes "holds_claim tid0 t0 kw" and "serve_claim sh sid tid worker corr ke fe kw fw = (r, kw', fw')"
  shows "holds_claim tid0 t0 kw' \<and> (\<forall>c y. r = Reply c y \<longrightarrow> tid \<noteq> tid0)"
  using assms(2)
proof (cases rule: serve_claim_task)
  case 1
  then show ?thesis using assms(1) by simp
next
  case (2 i x)
  show ?thesis
    using claim_task_keeps_row [OF _ _ _ 2(2)] claim_task_inv 2 assms(1) unfolding holds_claim_def
    by (metis fst_conv snd_conv kds_task_status.distinct(1))
qed

lemma holds_claim_complete:
  assumes "holds_claim tid0 t0 kw" and "tid \<noteq> tid0" and "serve_complete sh sid tid worker corr ke fe kw fw = (r, kw', fw')"
  shows "holds_claim tid0 t0 kw'"
  using assms(3)
proof (cases rule: serve_complete_task)
  case 1
  then show ?thesis using assms(1) by simp
next
  case (2 i x)
  show ?thesis
    using complete_task_keeps_row [OF _ _ assms(2) 2(2)] complete_task_inv 2 assms(1) unfolding holds_claim_def
    by (metis fst_conv snd_conv)
qed

interpretation claim_kept: kds_service "shop_api sh" vw "\<lambda>s. holds_claim tid0 t0 (sx_kitchen s)"
    "\<lambda>tid s. tid \<noteq> tid0" "\<lambda>_ _. True"
proof unfold_locales
  fix s corr
  show "holds_claim tid0 t0 (sx_kitchen (snd (ap_tasks (shop_api sh) (vw_station_id vw) corr s)))"
    if "holds_claim tid0 t0 (sx_kitchen s)"
    unfolding shop_api_simps using that by (rule shop_exchange_keeps) (auto simp: serve_tasks_def that)
next
  fix s tid corr
  show "holds_claim tid0 t0 (sx_kitchen (snd (ap_claim (shop_api sh) (vw_station_id vw) tid (vw_worker_id vw) corr s)))"
    if h: "holds_claim tid0 t0 (sx_kitchen s)"
    unfolding shop_api_simps using h by (rule shop_exchange_keeps) (use holds_claim_claim [OF h] in blast)
next
  fix s tid corr h s' x
  assume inv: "holds_claim tid0 t0 (sx_kitchen s)" and c: "kds_claim_task h = Inr x"
    and ex: "ap_claim (shop_api sh) (vw_station_id vw) tid (vw_worker_id vw) corr s = (Some h, s')"
  obtain code b where b: "h = Http_response code b" "code < 400" "kb_model b = Inr x" using c by (auto simp: kds_claim_ok_iff)
  show "tid \<noteq> tid0"
    by (rule accepted_response [OF ex [unfolded shop_api_simps] b]) (use holds_claim_claim [OF inv] in blast)
next
  fix s tid corr
  show "holds_claim tid0 t0 (sx_kitchen (snd (ap_complete (shop_api sh) (vw_station_id vw) tid (vw_worker_id vw) corr s)))"
    if h: "holds_claim tid0 t0 (sx_kitchen s)" and ne: "tid \<noteq> tid0"
    unfolding shop_api_simps using h by (rule shop_exchange_keeps) (use holds_claim_complete [OF h ne] in blast)
qed simp_all

text \<open>A round of some worker, seen from the services.\<close>

inductive shop_round :: "shop \<Rightarrow> shop_state \<Rightarrow> shop_state \<Rightarrow> bool" for sh :: shop where
  "sim_run_once (shop_api sh) vw env w = (r, w') \<Longrightarrow> shop_round sh (sv_remote w) (sv_remote w')"

lemma shop_round_keeps_claim:
  assumes "shop_round sh s s'" and "holds_claim tid t (sx_kitchen s)"
  shows "holds_claim tid t (sx_kitchen s')"
  using assms(1)
proof cases
  case (1 vw env w r w')
  then show ?thesis using claim_kept.round_keeps [OF 1(3)] assms(2) by blast
qed

lemma shop_rounds_keep_claim:
  "(shop_round sh)\<^sup>*\<^sup>* s s' \<Longrightarrow> holds_claim tid t (sx_kitchen s) \<Longrightarrow> holds_claim tid t (sx_kitchen s')"
  by (induction rule: rtranclp_induct) (blast intro: shop_round_keeps_claim)+


section \<open>Counted tasks\<close>

definition task_served :: "string \<Rightarrow> string \<Rightarrow> shop_state \<Rightarrow> bool" where
  "task_served sid tid s =
     (\<exists>i u kt ft. uuid_parse sid = Some i \<and> uuid_parse tid = Some u
        \<and> get_by_task_id (kw_db (sx_kitchen s)) tid = Some kt \<and> kt_status kt = Kds_completed
        \<and> get_ftask_row (fw_db (sx_ful s)) u = Some ft \<and> ft_status ft = Tk_done
        \<and> ft_station_id ft = Some i \<and> ft_kds_task_id ft = Some (kt_id kt))"

text \<open>The tasks \<open>D\<close> that were completed before the round stay so, and none of them is granted.\<close>

definition done_before :: "string set \<Rightarrow> kworld \<Rightarrow> bool" where
  "done_before D kw = (db_inv (kw_db kw)
     \<and> (\<forall>tid \<in> D. \<exists>t. get_by_task_id (kw_db kw) tid = Some t \<and> kt_status t = Kds_completed))"

lemma done_before_claim:
  assumes "done_before D kw" and "serve_claim sh sid tid worker corr ke fe kw fw = (r, kw', fw')"
  shows "done_before D kw' \<and> (\<forall>c y. r = Reply c y \<longrightarrow> tid \<notin> D)"
  using assms(2)
proof (cases rule: serve_claim_task)
  case 1
  then show ?thesis using assms(1) by simp
next
  case (2 i x)
  have inv: "db_inv (kw_db kw)" "db_inv (kw_db kw')"
    using assms(1) claim_task_inv 2(2) unfolding done_before_def by (metis fst_conv snd_conv)+
  have keep: "get_by_task_id (kw_db kw') d = Some t \<and> (\<forall>x'. x = Inr x' \<longrightarrow> tid \<noteq> d)"
    if "get_by_task_id (kw_db kw) d = Some t" "kt_status t = Kds_completed" for d t
    using claim_task_keeps_row [OF inv(1) that(1) _ 2(2)] that(2) by simp
  then show ?thesis using assms(1) inv(2) 2(3) unfolding done_before_def by metis
qed

lemma done_before_complete:
  assumes "done_before D kw" and "tid \<notin> D" and "serve_complete sh sid tid worker corr ke fe kw fw = (r, kw', fw')"
  shows "done_before D kw'"
  using assms(3)
proof (cases rule: serve_complete_task)
  case 1
  then show ?thesis using assms(1) by simp
next
  case (2 i x)
  have inv: "db_inv (kw_db kw)" "db_inv (kw_db kw')"
    using assms(1) complete_task_inv 2(2) unfolding done_before_def by (metis fst_conv snd_conv)+
  have "get_by_task_id (kw_db kw') d = Some t" if "d \<in> D" "get_by_task_id (kw_db kw) d = Some t" for d t
    using complete_task_keeps_row [OF inv(1) that(2) _ 2(2)] that(1) assms(2) by blast
  then show ?thesis using assms(1) inv(2) unfolding done_before_def by blast
qed

interpretation counted: kds_service "shop_api sh" vw "\<lambda>s. done_before D (sx_kitchen s)"
    "\<lambda>tid s. tid \<notin> D" "\<lambda>tid s. tid \<notin> D \<and> task_served (vw_station_id vw) tid s"
proof unfold_locales
  fix s corr
  show "done_before D (sx_kitchen (snd (ap_tasks (shop_api sh) (vw_station_id vw) corr s)))"
    if h: "done_before D (sx_kitchen s)"
    unfolding shop_api_simps using h by (rule shop_exchange_keeps) (auto simp: serve_tasks_def h)
next
  fix s tid corr
  show "done_before D (sx_kitchen (snd (ap_claim (shop_api sh) (vw_station_id vw) tid (vw_worker_id vw) corr s)))"
    if h: "done_before D (sx_kitchen s)"
    unfolding shop_api_simps using h by (rule shop_exchange_keeps) (use done_before_claim [OF h] in blast)
next
  fix s tid corr h s' x
  assume inv: "done_before D (sx_kitchen s)" and c: "kds_claim_task h = Inr x"
    and ex: "ap_claim (shop_api sh) (vw_station_id vw) tid (vw_worker_id vw) corr s = (Some h, s')"
  obtain code b where b: "h = Http_response code b" "code < 400" "kb_model b = Inr x" using c by (auto simp: kds_claim_ok_iff)
  show "tid \<notin> D"
    by (rule accepted_response [OF ex [unfolded shop_api_simps] b]) (use done_before_claim [OF inv] in blast)
next
  fix s tid corr
  show "done_before D (sx_kitchen (snd (ap_complete (shop_api sh) (vw_station_id vw) tid (vw_worker_id vw) corr s)))"
    if h: "done_before D (sx_kitchen s)" and ne: "tid \<notin> D"
    unfolding shop_api_simps using h by (rule shop_exchange_keeps) (use done_before_complete [OF h ne] in blast)
next
  fix s tid corr h' s' x'
  assume inv: "done_before D (sx_kitchen s)" and ne: "tid \<notin> D" and c: "kds_complete_task h' = Inr x'"
    and ex: "ap_complete (shop_api sh) (vw_station_id vw) tid (vw_worker_id vw) corr s = (Some h', s')"
  obtain code b where b: "h' = Http_response code b" "code < 400" "kb_model b = Inr x'" using c by (auto simp: kds_complete_ok_iff)
  show "tid \<notin> D \<and> task_served (vw_station_id vw) tid s'"
  proof (rule accepted_response [OF ex [unfolded shop_api_simps] b])
    fix r kw fw y
    assume run: "serve_complete sh (vw_station_id vw) tid (vw_worker_id vw) corr (sh_kenv sh (sx_tick s)) (sh_fenv sh (sx_tick s))
        (sx_kitchen s) (sx_ful s) = (r, kw, fw)" and y: "r = Reply code y" and s': "sx_kitchen s' = kw" "sx_ful s' = fw"
    have dbi: "db_inv (kw_db (sx_kitchen s))" using inv by (simp add: done_before_def)
    show ?thesis
      using run
    proof (cases rule: serve_complete_task)
      case (2 i x)
      then obtain t' where x: "x = Inr t'" using y by blast
      from complete_task_recorded [OF dbi 2(2) [unfolded x]] 2(1) ne show ?thesis by (auto simp: task_served_def s')
    qed (use y in blast)
  qed
qed (simp_all add: task_served_def)

text \<open>
  C13. A worker counts only work that is done: if its counter moves in a round, some task that
  was not completed before the round is now completed in the kitchen and done in the
  fulfillment service, at the worker's station and under the same KDS task, whatever the network lost on the way.
\<close>

theorem counted_task_is_done:
  fixes w w' :: "shop_state sim_world"
  assumes "db_inv (kw_db (sx_kitchen (sv_remote w)))" and "sim_run_once (shop_api sh) vw env w = (r, w')"
    and "ws_completed (sv_state w') \<noteq> ws_completed (sv_state w)"
  shows "\<exists>tid i u kt ft. uuid_parse (vw_station_id vw) = Some i \<and> uuid_parse tid = Some u
     \<and> \<not> (\<exists>old. get_by_task_id (kw_db (sx_kitchen (sv_remote w))) tid = Some old \<and> kt_status old = Kds_completed)
     \<and> get_by_task_id (kw_db (sx_kitchen (sv_remote w'))) tid = Some kt \<and> kt_status kt = Kds_completed
     \<and> get_ftask_row (fw_db (sx_ful (sv_remote w'))) u = Some ft \<and> ft_status ft = Tk_done
     \<and> ft_station_id ft = Some i \<and> ft_kds_task_id ft = Some (kt_id kt)"
proof -
  let ?D = "{tid. \<exists>old. get_by_task_id (kw_db (sx_kitchen (sv_remote w))) tid = Some old \<and> kt_status old = Kds_completed}"
  have "done_before ?D (sx_kitchen (sv_remote w))" using assms(1) by (auto simp: done_before_def)
  from counted.round_keeps [OF assms(2) this] assms(3)
  obtain tid where "tid \<notin> ?D" "task_served (vw_station_id vw) tid (sv_remote w')" by auto
  then show ?thesis unfolding task_served_def mem_Collect_eq by blast
qed

end
