(* ===== verification/Simulator_Shop_Demo.thy ===== *)
theory Simulator_Shop_Demo
  imports Simulator_Claims
begin

text \<open>
  Station simulator and services together: one worker at the demo station of
  \<open>Kitchen_Properties\<close>, with the fulfillment side of \<open>Services_Agree\<close>. In one installation the
  network works, in the other it loses the response of the claim. The witnesses of
  \<open>Simulator_Claims\<close> are rounds of this worker.
\<close>

definition shop_demo :: "(nat \<Rightarrow> net_outcome) \<Rightarrow> shop" where
  "shop_demo net =
     \<lparr>sh_populate = False, sh_kcfg = demo_cfg, sh_fcfg = fdemo_cfg, sh_kenv = (\<lambda>_. race_env),
      sh_fenv = (\<lambda>_. fdemo_env), sh_net = net, sh_unprocessable = Js_null\<rparr>"

definition shop_start :: shop_state where
  "shop_start = \<lparr>sx_tick = 0, sx_kitchen = demo_world, sx_ful = shared_world Ord_created shared_shown\<rparr>"

definition shop_worker :: virtual_worker where
  "shop_worker =
     \<lparr>vw_worker_id = ''w'', vw_station_id = uuid_str 2, vw_poll_interval = 1, vw_speed_factor = 60,
      vw_min_factor = 1, vw_max_factor = 1, vw_complete_attempts = 3\<rparr>"

lemma shop_demo_simps [simp]:
  "sh_populate (shop_demo net) = False" "sh_kcfg (shop_demo net) = demo_cfg" "sh_fcfg (shop_demo net) = fdemo_cfg"
  "sh_kenv (shop_demo net) n = race_env" "sh_fenv (shop_demo net) n = fdemo_env" "sh_net (shop_demo net) = net"
  "sx_tick shop_start = 0" "sx_kitchen shop_start = demo_world" "sx_ful shop_start = shared_world Ord_created shared_shown"
  "vw_worker_id shop_worker = ''w''" "vw_station_id shop_worker = uuid_str 2" "nat (vw_complete_attempts shop_worker) = 3"
  by (simp_all add: shop_demo_def shop_start_def shop_worker_def)

section \<open>The three exchanges\<close>

definition shown_response :: "uuid \<Rightarrow> uuid \<Rightarrow> station_task_response" where
  "shown_response i tid = the (kds_station_task_response (race_task i (uuid_str tid)))"

lemma shown_task:
  "kds_station_task_response (race_task i (uuid_str tid)) = Some (shown_response i tid)"
  "sm_status (sim_task_of (shown_response i tid)) = ''displayed''" "sm_task_id (sim_task_of (shown_response i tid)) = uuid_str tid"
  "sm_displayed_at (sim_task_of (shown_response i tid)) = race_time" "sm_estimated_duration (sim_task_of (shown_response i tid)) = 60"
  by (simp_all add: shown_response_def kds_station_task_response_def sim_task_of_def race_task_def)

lemma demo_tasks_served:
  "serve_tasks (uuid_str 2) ke fe demo_world fw
     = (Reply 200 [shown_response 11 21, shown_response 12 22, shown_response 13 23, shown_response 14 24], demo_world, fw)"
proof -
  have st: "get_station_row (kw_db demo_world) 2 = Some race_station" by (rule demo_rows)
  have at0: "kt_created_at (race_task i x) = race_time" "kt_displayed_at (race_task i x) = race_time" for i x
    by (simp_all add: race_task_def)
  have "list_station_tasks_rows (kw_db demo_world) 2 Kds_displayed 100 0 = kds_tasks race_db"
    by (simp add: list_station_tasks_rows_def demo_world_def race_db_def at0)
  then show ?thesis
    by (simp add: serve_tasks_def route_list_tasks_def parse_kds_station_uuid_def list_station_tasks_def st k_reply_def
        race_db_def shown_task)
qed

lemma demo_task_selected:
  "select_displayed_task (map sim_task_of [shown_response 11 21, shown_response 12 22, shown_response 13 23, shown_response 14 24])
     = Inr (Some (sim_task_of (shown_response 11 21)))"
  by (simp add: select_displayed_task_def mixed_offsets_def shown_task race_time_def)

lemma demo_claim_served:
  "\<exists>(y :: claim_response) (kw :: kworld) (fw :: fworld). serve_claim (shop_demo net) (uuid_str 2) (uuid_str 21) ''w'' corr race_env fdemo_env demo_world
       (shared_world Ord_created shared_shown) = (Reply 200 y, kw, fw)
     \<and> kw_db kw = slot_move race_time 11 (claim_row ''w'' race_time race_time) race_station 1 race_db
     \<and> fw_db fw = fdemo_db Ord_cooking [shared_started] \<and> db_inv (kw_db kw)"
proof -
  let ?p = "\<lparr>cr_worker = ''w'', cr_claimed_at = None\<rparr>"
  have p: "?p = demo_claim" by (simp add: demo_claim_def)
  obtain pd w1 where run: "claim_begin False demo_cfg race_env (Some corr) 2 (uuid_str 21) demo_claim demo_world = (Inr pd, w1)"
    and db: "kw_db w1 = slot_move race_time 11 (claim_row ''w'' race_time race_time) race_station 1 race_db"
    using claim_begin_run [OF demo_rows, of False demo_cfg race_env "Some corr"]
    by (auto simp: race_env_def demo_claim_def demo_task_def demo_world_def race_station_def)
  have ok: "kdb_ok (kw_db demo_world)" using demo_world_inv by (simp add: db_inv_def)
  have pd: "pd_task pd = claim_row ''w'' race_time race_time demo_task \<and> st_id (pd_station pd) = 2 \<and> pd_at pd = fdemo_time"
  proof (rule claim_begin_ok [OF ok run])
    fix s t assume t: "get_by_task_id (kw_db demo_world) (uuid_str 21) = Some t"
      and at0: "pd_at pd = (case cr_claimed_at demo_claim of None \<Rightarrow> ke_now race_env | Some d \<Rightarrow> d)"
      and st: "get_station_row (kw_db w1) 2 = Some (pd_station pd)" and tk: "get_kds_row (kw_db w1) (kt_id t) = Some (pd_task pd)"
    have "t = demo_task" using t demo_rows(2) by simp
    then have "get_kds_row (kw_db w1) 11 = Some (pd_task pd)" using tk by (simp add: demo_task_def)
    then have "pd_task pd = claim_row ''w'' race_time race_time demo_task"
      by (simp add: db get_kds_row_slot_move) (simp add: get_kds_row_def race_db_def demo_task_def)
    then show ?thesis
      using at0 station_tab.get_key [OF st] by (simp add: demo_claim_def race_env_def race_time_fdemo)
  qed
  then have "kt_task_id (pd_task pd) = uuid_str 21" "kt_id (pd_task pd) = 11"
    by (simp_all add: claim_row_def demo_task_def)
  then obtain fw where call: "ful_remote fdemo_cfg fdemo_env (Some corr) (start_call ''w'' pd) (shared_world Ord_created shared_shown)
      = (Http_response 200 (), fw)" and fdb: "fw_db fw = fdemo_db Ord_cooking [shared_started]"
    using shared_start [of pd "Some corr"] pd by auto
  obtain t' w' where succ: "claim_success demo_cfg race_env (Some corr) 2 demo_claim pd w1 = (t', w')" by fastforce
  have w': "kw_db w' = kw_db w1"
    using claim_success_db [of demo_cfg race_env "Some corr" 2 demo_claim pd w1] by (simp add: succ)
  have t': "t' = claim_row ''w'' race_time race_time demo_task" using claim_success_task [OF succ] pd by simp
  then obtain y where y: "kds_task_claim_response t' = Some y"
    by (auto simp: kds_task_claim_response_def claim_row_def demo_task_def)
  have "claim_task False (ful_remote fdemo_cfg fdemo_env (Some corr)) demo_cfg race_env (Some corr) 2 (uuid_str 21) demo_claim demo_world
       (shared_world Ord_created shared_shown) = (Inr t', w', fw)"
    by (simp add: claim_task_def run call post_transition_def raises_for_status_def succ demo_worker)
  moreover have "valid_claim_request demo_claim"
    by (simp add: valid_claim_request_def demo_claim_def len_between_def)
  ultimately have "serve_claim (shop_demo net) (uuid_str 2) (uuid_str 21) ''w'' corr race_env fdemo_env demo_world
       (shared_world Ord_created shared_shown) = (Reply 200 y, w', fw)"
    by (simp add: serve_claim_def route_claim_def p parse_kds_station_uuid_def k_reply_def y)
  moreover have "db_inv (kw_db w')" using claim_begin_db_inv [OF demo_world_inv run] w' by simp
  ultimately show ?thesis using db w' fdb by - (rule exI [of _ y], rule exI [of _ w'], rule exI [of _ fw], simp)
qed

lemma demo_complete_served:
  fixes kw :: kworld and fw :: fworld
  assumes db: "kw_db kw = slot_move race_time 11 (claim_row ''w'' race_time race_time) race_station 1 race_db"
    and fdb: "fw_db fw = fdemo_db Ord_cooking [shared_started]" and inv: "db_inv (kw_db kw)"
  shows "\<exists>(y :: complete_response) (kw' :: kworld) (fw' :: fworld).
     serve_complete (shop_demo net) (uuid_str 2) (uuid_str 21) ''w'' corr race_env fdemo_env kw fw = (Reply 200 y, kw', fw')"
proof -
  have p: "\<lparr>co_worker = ''w'', co_completed_at = None\<rparr> = demo_complete" by (simp add: demo_complete_def)
  have s: "get_station_row (kw_db kw) 2 = Some (race_station\<lparr>st_busy_slots := 1\<rparr>)"
    and t: "get_by_task_id (kw_db kw) (uuid_str 21) = Some (race_claimed demo_task)"
    by (simp_all add: db race_simps demo_task_def)
  have valid: "validate_complete (race_station\<lparr>st_busy_slots := 1\<rparr>) (race_claimed demo_task) (co_worker demo_complete) = None"
    by (simp add: race_simps demo_task_def)
  then obtain pd where pd: "complete_begin False race_env 2 (uuid_str 21) demo_complete kw = Inr pd"
    and ses: "pd_session pd = new_ksession\<lparr>se_stations := [2 \<mapsto> race_station\<lparr>st_busy_slots := 1\<rparr>],
      se_tasks := [kt_id (race_claimed demo_task) \<mapsto> race_claimed demo_task]\<rparr>"
    using complete_begin_run [OF s t] by blast
  note b = complete_begin_ok [OF pd]
  have "pd_station pd = race_station\<lparr>st_busy_slots := 1\<rparr>" "pd_task pd = race_claimed demo_task" using b(1,2) s t by simp_all
  then have "kt_task_id (pd_task pd) = uuid_str 21" "st_id (pd_station pd) = 2" "kt_id (pd_task pd) = 11" "pd_at pd = fdemo_time"
    using b(5) by (simp_all add: race_station_def demo_task_def demo_complete_def race_env_def race_time_fdemo)
  then obtain fw' where call: "ful_remote fdemo_cfg fdemo_env (Some corr) (complete_call ''w'' pd) fw
      = (Http_response 200 (), fw')" using shared_finish [of pd fw "Some corr"] fdb by auto
  obtain t' kw' where commit: "complete_commit False demo_cfg race_env (Some corr) 2 (uuid_str 21) demo_complete pd kw = (Inr t', kw')"
    using complete_commit_held_run [OF ses _ t _ valid, of demo_cfg race_env "Some corr"] s by auto
  have run: "complete_task False (ful_remote fdemo_cfg fdemo_env (Some corr)) demo_cfg race_env (Some corr) 2 (uuid_str 21) demo_complete kw fw
       = (Inr t', kw', fw')"
    by (simp add: complete_task_def pd call post_transition_def raises_for_status_def commit)
  have ok: "kdb_ok (kw_db kw)" using inv by (simp add: db_inv_def)
  have "coherent False (pd_session pd) (kw_db kw)" using complete_begin_fresh [OF ok pd] by (simp add: coherent_def)
  then have "t' = complete_row (pd_at pd) (ke_db_now race_env) (race_claimed demo_task)"
    using t by (auto elim!: complete_commit_ok [OF ok _ commit])
  then obtain y where y: "kds_task_complete_response t' = Some y"
    by (auto simp: kds_task_complete_response_def complete_row_def race_claimed_def claim_row_def demo_task_def)
  have "valid_complete_request demo_complete"
    by (simp add: valid_complete_request_def demo_complete_def len_between_def)
  then have "serve_complete (shop_demo net) (uuid_str 2) (uuid_str 21) ''w'' corr race_env fdemo_env kw fw = (Reply 200 y, kw', fw')"
    by (simp add: serve_complete_def route_complete_def p parse_kds_station_uuid_def k_reply_def y run)
  then show ?thesis by blast
qed

section \<open>Rounds\<close>

lemma exchange_served:
  assumes "serve (sh_kenv sh (sx_tick s)) (sh_fenv sh (sx_tick s)) (sx_kitchen s) (sx_ful s) = (r, kw, fw)"
  shows "sh_net sh (sx_tick s) = Net_ok \<Longrightarrow> shop_exchange sh view serve s
      = (Some (reply_response (sh_unprocessable sh) view r), s\<lparr>sx_tick := Suc (sx_tick s), sx_kitchen := kw, sx_ful := fw\<rparr>)"
    and "sh_net sh (sx_tick s) = Response_lost \<Longrightarrow> shop_exchange sh view serve s
      = (Some Http_timeout, s\<lparr>sx_tick := Suc (sx_tick s), sx_kitchen := kw, sx_ful := fw\<rparr>)"
  using assms by (simp_all add: shop_exchange_def Let_def)

definition shop_world :: "shop_state sim_world" where
  "shop_world = \<lparr>sv_state = fresh_state shop_worker, sv_metrics = empty_metrics, sv_trace = [], sv_remote = shop_start\<rparr>"

text \<open>The poll, the same in both installations.\<close>

lemma shop_demo_poll:
  assumes "net 0 = Net_ok" and "sv_remote w = shop_start"
  shows "\<exists>w1. call_tasks (shop_api (shop_demo net)) shop_worker corr w
      = (Inr (map sim_task_of [shown_response 11 21, shown_response 12 22, shown_response 13 23, shown_response 14 24]), w1)
    \<and> sv_remote w1 = shop_start\<lparr>sx_tick := 1\<rparr> \<and> sv_state w1 = sv_state w"
proof -
  let ?rs = "[shown_response 11 21, shown_response 12 22, shown_response 13 23, shown_response 14 24]"
  have served: "serve_tasks (uuid_str 2) (sh_kenv (shop_demo net) (sx_tick shop_start)) (sh_fenv (shop_demo net) (sx_tick shop_start))
      (sx_kitchen shop_start) (sx_ful shop_start) = (Reply 200 ?rs, demo_world, shared_world Ord_created shared_shown)"
    by (simp add: demo_tasks_served)
  have same: "shop_start\<lparr>sx_tick := Suc 0, sx_kitchen := demo_world, sx_ful := shared_world Ord_created shared_shown\<rparr>
      = shop_start\<lparr>sx_tick := 1\<rparr>" by (simp add: shop_start_def)
  show ?thesis
    using exchange_served(1) [where serve = "serve_tasks (uuid_str 2)" and sh = "shop_demo net" and s = shop_start and view = "map sim_task_of", OF served] assms
    by (simp add: call_tasks_def await_call_def reply_response_def kds_get_station_tasks_def read_response_def same)
qed

text \<open>The response of the claim is lost: the task is claimed and started, and the round ends.\<close>

lemma lost_claim_round:
  assumes "net = (\<lambda>n. if n = 1 then Response_lost else Net_ok)"
  shows "\<exists>w'. sim_run_once (shop_api (shop_demo net)) shop_worker sim_demo_env shop_world = (Inr (), w')
    \<and> ws_status (sv_state w') = ''idle'' \<and> ws_current_task_id (sv_state w') = None
    \<and> db_inv (kw_db (sx_kitchen (sv_remote w')))
    \<and> get_by_task_id (kw_db (sx_kitchen (sv_remote w'))) (uuid_str 21) = Some (race_claimed demo_task)"
proof -
  let ?sh = "shop_demo net" and ?corr = "uuid_str (se_corr sim_demo_env)"
  let ?w0 = "on_state (ws_status_update (\<lambda>_. ''polling'') \<circ> ws_last_poll_at_update (\<lambda>_. Some (se_now sim_demo_env))) shop_world"
  have start: "sv_remote ?w0 = shop_start" "ws_current_task_id (sv_state ?w0) = None"
    by (simp_all add: shop_world_def fresh_state_def)
  obtain w1 where poll: "call_tasks (shop_api ?sh) shop_worker ?corr ?w0
      = (Inr (map sim_task_of [shown_response 11 21, shown_response 12 22, shown_response 13 23, shown_response 14 24]), w1)"
    and w1: "sv_remote w1 = shop_start\<lparr>sx_tick := 1\<rparr>" "sv_state w1 = sv_state ?w0"
    using shop_demo_poll [of net ?w0 ?corr] start(1) assms by auto
  let ?v = "on_metrics (inc_counter ''simulator_claim_attempts_total'' (worker_labels shop_worker)) w1"
  obtain y kw fw where cs: "serve_claim ?sh (uuid_str 2) (uuid_str 21) ''w'' ?corr race_env fdemo_env demo_world
       (shared_world Ord_created shared_shown) = (Reply 200 y, kw, fw)"
    and db: "kw_db kw = slot_move race_time 11 (claim_row ''w'' race_time race_time) race_station 1 race_db" "db_inv (kw_db kw)"
    using demo_claim_served [of net ?corr] by blast
  have served: "serve_claim ?sh (uuid_str 2) (uuid_str 21) ''w'' ?corr (sh_kenv ?sh (sx_tick (sv_remote ?v)))
      (sh_fenv ?sh (sx_tick (sv_remote ?v))) (sx_kitchen (sv_remote ?v)) (sx_ful (sv_remote ?v)) = (Reply 200 y, kw, fw)"
    by (simp add: w1 cs)
  obtain w2 where claim: "call_claim (shop_api ?sh) shop_worker ?corr (uuid_str 21) ?v = (Inl (RetryableKdsError ''kds_timeout''), w2)"
    and w2: "sx_kitchen (sv_remote w2) = kw" "sx_tick (sv_remote w2) = 2" "sv_state w2 = sv_state w1"
    using exchange_served(2) [where serve = "serve_claim ?sh (uuid_str 2) (uuid_str 21) ''w'' ?corr" and sh = ?sh and s = "sv_remote ?v" and view = sim_claim_of, OF served] assms
    by (simp add: call_claim_def await_call_def kds_claim_task_def w1)
  let ?u = "on_metrics (inc_counter ''simulator_poll_errors_total'' (worker_labels shop_worker @ [''kds_timeout'']))
      (on_state (ws_status_update (\<lambda>_. ''idle'') \<circ> ws_last_error_update (\<lambda>_. Some ''kds_timeout'')) w2)"
  obtain w3 where sleep: "call_sleep (shop_api ?sh) (vw_poll_interval shop_worker) ?u = (Inr (), w3)"
    and w3: "sx_kitchen (sv_remote w3) = kw" "sv_state w3 = sv_state ?u"
    using assms w2 by (simp add: call_sleep_def shop_sleep_def)
  have "sim_run_once (shop_api ?sh) shop_worker sim_demo_env shop_world = (Inr (), w3)"
    using poll claim sleep
    by (simp add: sim_run_once_def sim_round_def demo_task_selected [simplified] claim_and_cook_def shown_task
        kds_error_text_def worker_backoff_def)
  moreover have "get_by_task_id (kw_db kw) (uuid_str 21) = Some (race_claimed demo_task)"
    by (simp add: db race_simps demo_task_def)
  ultimately show ?thesis using w3 w2(3) w1(2) start(2) db(2) by (intro exI [of _ w3]) simp
qed


text \<open>With a working network the round serves the task.\<close>

lemma served_cook:
  assumes net: "net = (\<lambda>n. Net_ok)" and w2: "sx_kitchen (sv_remote w2) = kw" "sx_ful (sv_remote w2) = fw"
    and db: "kw_db kw = slot_move race_time 11 (claim_row ''w'' race_time race_time) race_station 1 race_db"
      "fw_db fw = fdemo_db Ord_cooking [shared_started]" "db_inv (kw_db kw)"
  shows "\<exists>w' :: shop_state sim_world. cook_and_complete (shop_api (shop_demo net)) shop_worker sim_demo_env
      (sim_task_of (shown_response 11 21)) w2 = (Inr (), w') \<and> ws_completed (sv_state w') = Suc (ws_completed (sv_state w2))"
proof -
  let ?sh = "shop_demo net" and ?corr = "uuid_str (se_corr sim_demo_env)"
  let ?t = "sim_task_of (shown_response 11 21)"
  have d: "calculate_simulated_duration (sm_estimated_duration ?t) (vw_speed_factor shop_worker) (vw_min_factor shop_worker)
      (vw_max_factor shop_worker) (se_random sim_demo_env) = Inr 1"
    by (simp add: calculate_simulated_duration_def shown_task shop_worker_def sim_demo_env_def)
  let ?u = "on_metrics (observe_hist ''simulator_task_duration_seconds'' (worker_labels shop_worker) 1)
     (on_metrics (inc_counter ''simulator_claim_success_total'' (worker_labels shop_worker))
       (on_state (ws_status_update (\<lambda>_. ''cooking'') \<circ> ws_current_task_id_update (\<lambda>_. Some (uuid_str 21))) w2))"
  obtain w3 where sleep: "call_sleep (shop_api ?sh) 1 ?u = (Inr (), w3)"
    and w3: "sx_kitchen (sv_remote w3) = kw" "sx_ful (sv_remote w3) = fw" "sv_state w3 = sv_state ?u"
    using net w2 by (simp add: call_sleep_def shop_sleep_def)
  obtain y' kw' fw' where "serve_complete ?sh (uuid_str 2) (uuid_str 21) ''w'' ?corr race_env fdemo_env kw fw = (Reply 200 y', kw', fw')"
    using demo_complete_served [OF db, of net ?corr] by blast
  then have served': "serve_complete ?sh (uuid_str 2) (uuid_str 21) ''w'' ?corr (sh_kenv ?sh (sx_tick (sv_remote w3)))
      (sh_fenv ?sh (sx_tick (sv_remote w3))) (sx_kitchen (sv_remote w3)) (sx_ful (sv_remote w3)) = (Reply 200 y', kw', fw')"
    by (simp add: w3)
  obtain w4 where complete: "call_complete (shop_api ?sh) shop_worker ?corr (uuid_str 21) w3 = (Inr (sim_complete_of y'), w4)"
    and w4: "sv_state w4 = sv_state w3"
    using exchange_served(1) [where serve = "serve_complete ?sh (uuid_str 2) (uuid_str 21) ''w'' ?corr" and sh = ?sh
        and s = "sv_remote w3" and view = sim_complete_of, OF served'] net
    by (simp add: call_complete_def await_call_def kds_complete_task_def reply_response_def read_response_def)
  have attempts: "complete_attempts (shop_api ?sh) shop_worker ?corr (uuid_str 21) 3 None w3 = (Inr True, w4)"
    by (simp add: numeral_3_eq_3 complete)
  have "ws_completed (sv_state w4) = ws_completed (sv_state w2)" by (simp add: w4 w3(3))
  then show ?thesis
    using d sleep attempts by (simp add: cook_and_complete_def complete_with_retry_def shown_task Let_def)
qed

lemma served_round:
  assumes "net = (\<lambda>n. Net_ok)"
  shows "\<exists>w' :: shop_state sim_world. sim_run_once (shop_api (shop_demo net)) shop_worker sim_demo_env shop_world = (Inr (), w')
    \<and> ws_completed (sv_state w') = 1"
proof -
  let ?sh = "shop_demo net" and ?corr = "uuid_str (se_corr sim_demo_env)"
  let ?w0 = "on_state (ws_status_update (\<lambda>_. ''polling'') \<circ> ws_last_poll_at_update (\<lambda>_. Some (se_now sim_demo_env))) shop_world"
  have start: "sv_remote ?w0 = shop_start" "ws_completed (sv_state ?w0) = 0"
    by (simp_all add: shop_world_def fresh_state_def)
  obtain w1 where poll: "call_tasks (shop_api ?sh) shop_worker ?corr ?w0
      = (Inr (map sim_task_of [shown_response 11 21, shown_response 12 22, shown_response 13 23, shown_response 14 24]), w1)"
    and w1: "sv_remote w1 = shop_start\<lparr>sx_tick := 1\<rparr>" "sv_state w1 = sv_state ?w0"
    using shop_demo_poll [of net ?w0 ?corr] start(1) assms by auto
  let ?v = "on_metrics (inc_counter ''simulator_claim_attempts_total'' (worker_labels shop_worker)) w1"
  obtain y kw fw where cs: "serve_claim ?sh (uuid_str 2) (uuid_str 21) ''w'' ?corr race_env fdemo_env demo_world
       (shared_world Ord_created shared_shown) = (Reply 200 y, kw, fw)"
    and db: "kw_db kw = slot_move race_time 11 (claim_row ''w'' race_time race_time) race_station 1 race_db"
      "fw_db fw = fdemo_db Ord_cooking [shared_started]" "db_inv (kw_db kw)"
    using demo_claim_served [of net ?corr] by blast
  have served: "serve_claim ?sh (uuid_str 2) (uuid_str 21) ''w'' ?corr (sh_kenv ?sh (sx_tick (sv_remote ?v)))
      (sh_fenv ?sh (sx_tick (sv_remote ?v))) (sx_kitchen (sv_remote ?v)) (sx_ful (sv_remote ?v)) = (Reply 200 y, kw, fw)"
    by (simp add: w1 cs)
  obtain w2 where claim: "call_claim (shop_api ?sh) shop_worker ?corr (uuid_str 21) ?v = (Inr (sim_claim_of y), w2)"
    and w2: "sx_kitchen (sv_remote w2) = kw" "sx_ful (sv_remote w2) = fw" "sv_state w2 = sv_state w1"
    using exchange_served(1) [where serve = "serve_claim ?sh (uuid_str 2) (uuid_str 21) ''w'' ?corr" and sh = ?sh
        and s = "sv_remote ?v" and view = sim_claim_of, OF served] assms
    by (simp add: call_claim_def await_call_def kds_claim_task_def reply_response_def read_response_def w1)
  have "\<exists>w' :: shop_state sim_world. cook_and_complete (shop_api ?sh) shop_worker sim_demo_env
      (sim_task_of (shown_response 11 21)) w2 = (Inr (), w') \<and> ws_completed (sv_state w') = Suc (ws_completed (sv_state w2))"
    by (rule served_cook [OF assms w2(1,2) db])
  then obtain w' :: "shop_state sim_world" where cook: "cook_and_complete (shop_api ?sh) shop_worker sim_demo_env
      (sim_task_of (shown_response 11 21)) w2 = (Inr (), w')"
    and count: "ws_completed (sv_state w') = Suc (ws_completed (sv_state w2))" by blast
  have "sim_run_once (shop_api ?sh) shop_worker sim_demo_env shop_world = (Inr (), w')"
    using poll claim cook
    by (simp add: sim_run_once_def sim_round_def demo_task_selected [simplified] claim_and_cook_def shown_task)
  then show ?thesis using count w2(3) w1(2) start(2) by (intro exI [of _ w']) simp
qed

theorem counted_task_is_done_witness:
  "\<exists>(w' :: shop_state sim_world) tid kt. sim_run_once (shop_api (shop_demo (\<lambda>n. Net_ok))) shop_worker sim_demo_env shop_world = (Inr (), w')
     \<and> get_by_task_id (kw_db (sx_kitchen (sv_remote w'))) tid = Some kt \<and> kt_status kt = Kds_completed"
proof -
  obtain w' :: "shop_state sim_world" where run: "sim_run_once (shop_api (shop_demo (\<lambda>n. Net_ok))) shop_worker sim_demo_env shop_world = (Inr (), w')"
    and count: "ws_completed (sv_state w') = 1" using served_round [OF refl] by blast
  have "ws_completed (sv_state w') \<noteq> ws_completed (sv_state shop_world)"
    by (simp add: count shop_world_def fresh_state_def)
  moreover have "db_inv (kw_db (sx_kitchen (sv_remote shop_world)))" by (simp add: shop_world_def demo_world_inv)
  ultimately show ?thesis using counted_task_is_done [OF _ run] run by blast
qed

end
