(* ===== verification/Menu_Model.thy ===== *)
theory Menu_Model
  imports Effects "HOL-Library.List_Lexorder"
begin

text \<open>
  Menu service: the tables of \<open>app/models.py\<close> with the constraints of the migration and the
  request schemas of \<open>app/schemas.py\<close>. The functions of the database on texts, \<open>lower\<close> and the
  sort keys of its collation, are a parameter.
\<close>

section \<open>Rows\<close>

datatype menu_item_status = Mi_active | Mi_disabled

datatype menu_station_type = Mst_grill | Mst_fryer | Mst_drinks | Mst_packaging

fun menu_item_status_str :: "menu_item_status \<Rightarrow> string" where
  "menu_item_status_str Mi_active = ''active''"
| "menu_item_status_str Mi_disabled = ''disabled''"

fun menu_station_type_str :: "menu_station_type \<Rightarrow> string" where
  "menu_station_type_str Mst_grill = ''grill''"
| "menu_station_type_str Mst_fryer = ''fryer''"
| "menu_station_type_str Mst_drinks = ''drinks''"
| "menu_station_type_str Mst_packaging = ''packaging''"

record menu_item =
  mi_id :: uuid
  mi_name :: string
  mi_description :: "string option"
  mi_status :: menu_item_status
  mi_created_at :: pydatetime
  mi_updated_at :: pydatetime

record availability =
  av_kitchen_id :: uuid
  av_menu_item_id :: uuid
  av_is_available :: bool
  av_created_at :: pydatetime
  av_updated_at :: pydatetime

record recipe_row =
  rs_id :: uuid
  rs_menu_item_id :: uuid
  rs_station_type :: menu_station_type
  rs_operation :: string
  rs_duration :: int
  rs_step_order :: int
  rs_created_at :: pydatetime
  rs_updated_at :: pydatetime

record mdb =
  md_items :: "menu_item list"
  md_avail :: "availability list"
  md_steps :: "recipe_row list"

definition empty_mdb :: mdb where
  "empty_mdb = \<lparr>md_items = [], md_avail = [], md_steps = []\<rparr>"

text \<open>\<open>lower(name)\<close> of the unique index, and the key by which \<open>ORDER BY name\<close> compares.\<close>

record collation =
  col_lower :: "string \<Rightarrow> string"
  col_key :: "string \<Rightarrow> nat list"

section \<open>Insertions\<close>

definition insert_menu_item :: "collation \<Rightarrow> menu_item \<Rightarrow> mdb \<Rightarrow> db_error + mdb" where
  "insert_menu_item col r db =
     (if \<not> (pg_text 120 (mi_name r) \<and> opt_ok (pg_text 500) (mi_description r)) then Inl DataError
      else if \<exists>x \<in> set (md_items db). mi_id x = mi_id r \<or> col_lower col (mi_name x) = col_lower col (mi_name r)
      then Inl IntegrityError
      else Inr (db\<lparr>md_items := md_items db @ [r]\<rparr>))"

definition av_key :: "availability \<Rightarrow> uuid \<times> uuid" where
  "av_key a = (av_kitchen_id a, av_menu_item_id a)"

definition insert_availability :: "availability \<Rightarrow> mdb \<Rightarrow> db_error + mdb" where
  "insert_availability a db =
     (if (\<exists>x \<in> set (md_avail db). av_key x = av_key a)
         \<or> \<not> (\<exists>x \<in> set (md_items db). mi_id x = av_menu_item_id a)
      then Inl IntegrityError
      else Inr (db\<lparr>md_avail := md_avail db @ [a]\<rparr>))"

definition insert_recipe_step :: "recipe_row \<Rightarrow> mdb \<Rightarrow> db_error + mdb" where
  "insert_recipe_step r db =
     (if \<not> (pg_text 120 (rs_operation r) \<and> pg_int4 (rs_duration r) \<and> pg_int4 (rs_step_order r)) then Inl DataError
      else if \<not> 0 < rs_duration r \<or> \<not> 0 < rs_step_order r
           \<or> (\<exists>x \<in> set (md_steps db). rs_id x = rs_id r)
           \<or> (\<exists>x \<in> set (md_steps db). rs_menu_item_id x = rs_menu_item_id r \<and> rs_step_order x = rs_step_order r)
           \<or> \<not> (\<exists>x \<in> set (md_items db). mi_id x = rs_menu_item_id r)
      then Inl IntegrityError
      else Inr (db\<lparr>md_steps := md_steps db @ [r]\<rparr>))"

section \<open>Lookups and updates by primary key\<close>

definition get_item_row :: "mdb \<Rightarrow> uuid \<Rightarrow> menu_item option" where
  "get_item_row db i = find_row mi_id i (md_items db)"

definition get_availability_row :: "mdb \<Rightarrow> uuid \<times> uuid \<Rightarrow> availability option" where
  "get_availability_row db k = find_row av_key k (md_avail db)"

definition upd_item :: "uuid \<Rightarrow> (menu_item \<Rightarrow> menu_item) \<Rightarrow> mdb \<Rightarrow> mdb" where
  "upd_item i g db = db\<lparr>md_items := update_row mi_id i g (md_items db)\<rparr>"

definition upd_availability :: "uuid \<times> uuid \<Rightarrow> (availability \<Rightarrow> availability) \<Rightarrow> mdb \<Rightarrow> mdb" where
  "upd_availability k g db = db\<lparr>md_avail := update_row av_key k g (md_avail db)\<rparr>"

interpretation item_tab: row_store md_items mi_id get_item_row upd_item
  by unfold_locales (simp_all add: get_item_row_def upd_item_def)

interpretation avail_tab: row_store md_avail av_key get_availability_row upd_availability
  by unfold_locales (simp_all add: get_availability_row_def upd_availability_def)

lemma upd_availability_frame [simp]:
  "md_items (upd_availability k g db) = md_items db" "md_steps (upd_availability k g db) = md_steps db"
  by (simp_all add: upd_availability_def)

section \<open>Request schemas\<close>

record menu_item_create =
  mc_name :: string
  mc_description :: "string option"
  mc_status :: menu_item_status

record recipe_step_create =
  sc_station_type :: menu_station_type
  sc_operation :: string
  sc_duration :: int
  sc_step_order :: int

definition valid_menu_item_create :: "menu_item_create \<Rightarrow> bool" where
  "valid_menu_item_create p =
     (1 \<le> length (mc_name p) \<and> length (mc_name p) \<le> 120 \<and> opt_ok (\<lambda>d. length d \<le> 500) (mc_description p))"

definition valid_recipe_step_create :: "recipe_step_create \<Rightarrow> bool" where
  "valid_recipe_step_create p =
     (1 \<le> length (sc_operation p) \<and> length (sc_operation p) \<le> 120 \<and> 0 < sc_duration p \<and> 0 < sc_step_order p)"

section \<open>Errors\<close>

text \<open>The last one is raised by a refresh that finds no row; only the first two have handlers.\<close>

datatype m_error =
    MNotFoundError string
  | MConflictError string
  | MDatabaseError db_error
  | MInvalidRequestError

end
