(* ===== verification/Menu_Service.thy ===== *)
theory Menu_Service
  imports Menu_Model
begin

text \<open>
  Menu service: the statements of \<open>app/repositories.py\<close>, \<open>MenuService\<close> of \<open>app/services.py\<close>, and
  the routes and exception handlers of \<open>app/api/routes.py\<close> and \<open>app/errors.py\<close>.
\<close>

section \<open>Statements\<close>

text \<open>The identifier and the time the database gives a new row.\<close>

record menv =
  me_id :: uuid
  me_db_now :: pydatetime

definition new_menu_item :: "menv \<Rightarrow> menu_item_create \<Rightarrow> menu_item" where
  "new_menu_item env p =
     \<lparr>mi_id = me_id env, mi_name = mc_name p, mi_description = mc_description p, mi_status = mc_status p,
      mi_created_at = me_db_now env, mi_updated_at = me_db_now env\<rparr>"

definition new_recipe_step :: "menv \<Rightarrow> uuid \<Rightarrow> recipe_step_create \<Rightarrow> recipe_row" where
  "new_recipe_step env mid p =
     \<lparr>rs_id = me_id env, rs_menu_item_id = mid, rs_station_type = sc_station_type p,
      rs_operation = sc_operation p, rs_duration = sc_duration p, rs_step_order = sc_step_order p,
      rs_created_at = me_db_now env, rs_updated_at = me_db_now env\<rparr>"

definition new_availability :: "menv \<Rightarrow> uuid \<Rightarrow> uuid \<Rightarrow> bool \<Rightarrow> availability" where
  "new_availability env kid mid avail =
     \<lparr>av_kitchen_id = kid, av_menu_item_id = mid, av_is_available = avail,
      av_created_at = me_db_now env, av_updated_at = me_db_now env\<rparr>"

text \<open>
  \<open>OFFSET\<close> is bound as a 64-bit integer; a larger one is refused by the driver.
\<close>

definition list_items_query ::
    "collation \<Rightarrow> menu_item_status option \<Rightarrow> int \<Rightarrow> int \<Rightarrow> mdb \<Rightarrow> m_error + menu_item list" where
  "list_items_query col stat limit offset db =
     (if 2 ^ 63 \<le> offset then Inl (MDatabaseError DataError)
      else Inr (take (nat limit) (drop (nat offset)
        (sort_key (\<lambda>m. col_key col (mi_name m))
          (filter (\<lambda>m. case stat of None \<Rightarrow> True | Some s \<Rightarrow> mi_status m = s) (md_items db))))))"

definition list_by_menu_item :: "mdb \<Rightarrow> uuid \<Rightarrow> recipe_row list" where
  "list_by_menu_item db mid = sort_key rs_step_order (filter (\<lambda>s. rs_menu_item_id s = mid) (md_steps db))"

text \<open>
  The upsert reads the row through the session and then inserts a new one or assigns to the
  one it read. An assignment of the value a row has already writes nothing.
\<close>

definition upsert_write :: "menv \<Rightarrow> uuid \<Rightarrow> uuid \<Rightarrow> bool \<Rightarrow> availability option \<Rightarrow> mdb \<Rightarrow> db_error + mdb" where
  "upsert_write env kid mid avail found db =
     (case found of
        None \<Rightarrow> insert_availability (new_availability env kid mid avail) db
      | Some a \<Rightarrow>
          if av_is_available a = avail then Inr db
          else Inr (upd_availability (kid, mid)
                 (\<lambda>r. r\<lparr>av_is_available := avail, av_updated_at := me_db_now env\<rparr>) db))"

text \<open>
  The join of items with the availability rows of a kitchen. Each item comes once, with the
  rows that matched as its loaded \<open>availability\<close>.
\<close>

definition kitchen_availability :: "mdb \<Rightarrow> uuid \<Rightarrow> bool \<Rightarrow> menu_item \<Rightarrow> availability list" where
  "kitchen_availability db kid unavailable_too m =
     filter (\<lambda>a. av_menu_item_id a = mi_id m \<and> av_kitchen_id a = kid
                 \<and> (unavailable_too \<or> av_is_available a)) (md_avail db)"

definition kitchen_menu_query :: "collation \<Rightarrow> uuid \<Rightarrow> bool \<Rightarrow> mdb \<Rightarrow> (menu_item \<times> availability list) list" where
  "kitchen_menu_query col kid unavailable_too db =
     map (\<lambda>m. (m, kitchen_availability db kid unavailable_too m))
       (sort_key (\<lambda>m. col_key col (mi_name m))
         (filter (\<lambda>m. mi_status m = Mi_active \<and> kitchen_availability db kid unavailable_too m \<noteq> [])
           (md_items db)))"

section \<open>MenuService\<close>

definition m_get_menu_item :: "uuid \<Rightarrow> mdb \<Rightarrow> m_error + menu_item" where
  "m_get_menu_item mid db =
     (case get_item_row db mid of
        None \<Rightarrow> Inl (MNotFoundError ''menu_item_not_found'')
      | Some m \<Rightarrow> Inr m)"

text \<open>\<open>except IntegrityError\<close>: a rollback and a conflict; other errors of the database escape.\<close>

definition as_conflict :: "string \<Rightarrow> db_error \<Rightarrow> m_error" where
  "as_conflict code e = (case e of IntegrityError \<Rightarrow> MConflictError code | DataError \<Rightarrow> MDatabaseError DataError)"

definition m_create_menu_item ::
    "collation \<Rightarrow> menv \<Rightarrow> menu_item_create \<Rightarrow> mdb \<Rightarrow> (m_error + menu_item) \<times> mdb" where
  "m_create_menu_item col env p db =
     (let r = new_menu_item env p
      in case insert_menu_item col r db of
           Inl e \<Rightarrow> (Inl (as_conflict ''menu_item_already_exists'' e), db)
         | Inr db1 \<Rightarrow> (Inr r, db1))"

definition m_list_menu_items ::
    "collation \<Rightarrow> menu_item_status option \<Rightarrow> int \<Rightarrow> int \<Rightarrow> mdb \<Rightarrow> m_error + menu_item list" where
  "m_list_menu_items col stat limit offset db = list_items_query col stat limit offset db"

definition m_create_recipe_step ::
    "menv \<Rightarrow> uuid \<Rightarrow> recipe_step_create \<Rightarrow> mdb \<Rightarrow> (m_error + recipe_row) \<times> mdb" where
  "m_create_recipe_step env mid p db =
     (case m_get_menu_item mid db of
        Inl e \<Rightarrow> (Inl e, db)
      | Inr _ \<Rightarrow>
          (let r = new_recipe_step env mid p
           in case insert_recipe_step r db of
                Inl e \<Rightarrow> (Inl (as_conflict ''recipe_step_order_already_exists'' e), db)
              | Inr db1 \<Rightarrow> (Inr r, db1)))"

text \<open>The summaries of a recipe show some columns of the rows; they are represented by the rows.\<close>

record recipe_read =
  rr_menu_item_id :: uuid
  rr_steps :: "recipe_row list"

definition m_get_recipe :: "uuid \<Rightarrow> mdb \<Rightarrow> m_error + recipe_read" where
  "m_get_recipe mid db =
     (case m_get_menu_item mid db of
        Inl e \<Rightarrow> Inl e
      | Inr _ \<Rightarrow> Inr \<lparr>rr_menu_item_id = mid, rr_steps = list_by_menu_item db mid\<rparr>)"

text \<open>The write and the commit, from the row the session found; the row is read again afterwards.\<close>

definition upsert_commit ::
    "menv \<Rightarrow> uuid \<Rightarrow> uuid \<Rightarrow> bool \<Rightarrow> availability option \<Rightarrow> mdb \<Rightarrow> (m_error + availability) \<times> mdb" where
  "upsert_commit env kid mid avail found db =
     (case upsert_write env kid mid avail found db of
        Inl e \<Rightarrow> (Inl (MDatabaseError e), db)
      | Inr db1 \<Rightarrow>
          (case get_availability_row db1 (kid, mid) of
             None \<Rightarrow> (Inl MInvalidRequestError, db1)
           | Some a \<Rightarrow> (Inr a, db1)))"

definition m_upsert_availability ::
    "menv \<Rightarrow> uuid \<Rightarrow> uuid \<Rightarrow> bool \<Rightarrow> mdb \<Rightarrow> (m_error + availability) \<times> mdb" where
  "m_upsert_availability env kid mid avail db =
     (case m_get_menu_item mid db of
        Inl e \<Rightarrow> (Inl e, db)
      | Inr _ \<Rightarrow> upsert_commit env kid mid avail (get_availability_row db (kid, mid)) db)"

definition m_list_kitchen_menu :: "collation \<Rightarrow> uuid \<Rightarrow> bool \<Rightarrow> mdb \<Rightarrow> (menu_item \<times> availability list) list" where
  "m_list_kitchen_menu col kid unavailable_too db = kitchen_menu_query col kid unavailable_too db"

section \<open>Errors as replies\<close>

definition menu_error_messages :: "(string \<times> string) list" where
  "menu_error_messages =
     [(''menu_item_not_found'', ''Menu item not found''),
      (''menu_item_already_exists'', ''Menu item with this name already exists''),
      (''recipe_step_order_already_exists'', ''Recipe step with this step_order already exists for menu item'')]"

definition m_error_response :: "nat \<Rightarrow> string \<Rightarrow> string \<Rightarrow> 'b reply" where
  "m_error_response code error message =
     Error_reply code [(''error'', JStr error), (''message'', JStr message), (''details'', JObj [])]"

definition error_message_or :: "string \<Rightarrow> string \<Rightarrow> string" where
  "error_message_or error dflt = (case map_of menu_error_messages error of None \<Rightarrow> dflt | Some m \<Rightarrow> m)"

fun m_error_reply :: "m_error \<Rightarrow> 'b reply" where
  "m_error_reply (MNotFoundError e) = m_error_response 404 e (error_message_or e ''Resource not found'')"
| "m_error_reply (MConflictError e) = m_error_response 409 e (error_message_or e ''Conflict'')"
| "m_error_reply (MDatabaseError _) = Server_error"
| "m_error_reply MInvalidRequestError = Server_error"

definition m_reply :: "nat \<Rightarrow> m_error + 'a \<Rightarrow> 'a reply" where
  "m_reply code r = (case r of Inl e \<Rightarrow> m_error_reply e | Inr a \<Rightarrow> Reply code a)"

section \<open>Routes\<close>

definition route_create_menu_item ::
    "collation \<Rightarrow> menv \<Rightarrow> menu_item_create \<Rightarrow> mdb \<Rightarrow> menu_item reply \<times> mdb" where
  "route_create_menu_item col env p db =
     (if \<not> valid_menu_item_create p then (Unprocessable, db)
      else apfst (m_reply 201) (m_create_menu_item col env p db))"

definition route_list_menu_items ::
    "collation \<Rightarrow> menu_item_status option \<Rightarrow> int \<Rightarrow> int \<Rightarrow> mdb \<Rightarrow> menu_item list reply" where
  "route_list_menu_items col stat limit offset db =
     (if \<not> (1 \<le> limit \<and> limit \<le> 500 \<and> 0 \<le> offset) then Unprocessable
      else m_reply 200 (m_list_menu_items col stat limit offset db))"

definition route_get_menu_item :: "(string \<Rightarrow> uuid option) \<Rightarrow> string \<Rightarrow> mdb \<Rightarrow> menu_item reply" where
  "route_get_menu_item puuid mid db =
     (case puuid mid of None \<Rightarrow> Unprocessable | Some i \<Rightarrow> m_reply 200 (m_get_menu_item i db))"

definition route_create_recipe_step ::
    "(string \<Rightarrow> uuid option) \<Rightarrow> menv \<Rightarrow> string \<Rightarrow> recipe_step_create \<Rightarrow> mdb \<Rightarrow> recipe_row reply \<times> mdb" where
  "route_create_recipe_step puuid env mid p db =
     (case puuid mid of
        None \<Rightarrow> (Unprocessable, db)
      | Some i \<Rightarrow>
          if \<not> valid_recipe_step_create p then (Unprocessable, db)
          else apfst (m_reply 201) (m_create_recipe_step env i p db))"

definition route_get_recipe :: "(string \<Rightarrow> uuid option) \<Rightarrow> string \<Rightarrow> mdb \<Rightarrow> recipe_read reply" where
  "route_get_recipe puuid mid db =
     (case puuid mid of None \<Rightarrow> Unprocessable | Some i \<Rightarrow> m_reply 200 (m_get_recipe i db))"

definition route_upsert_availability ::
    "(string \<Rightarrow> uuid option) \<Rightarrow> menv \<Rightarrow> string \<Rightarrow> string \<Rightarrow> bool \<Rightarrow> mdb \<Rightarrow> availability reply \<times> mdb" where
  "route_upsert_availability puuid env kid mid avail db =
     (case (puuid kid, puuid mid) of
        (Some k, Some m) \<Rightarrow> apfst (m_reply 200) (m_upsert_availability env k m avail db)
      | _ \<Rightarrow> (Unprocessable, db))"

record kitchen_menu_item =
  km_id :: uuid
  km_name :: string
  km_description :: "string option"
  km_status :: menu_item_status
  km_is_available :: bool

text \<open>\<open>item.availability[0]\<close>: the join gives every item at least one row.\<close>

definition kitchen_menu_item_read :: "menu_item \<times> availability list \<Rightarrow> kitchen_menu_item" where
  "kitchen_menu_item_read x =
     \<lparr>km_id = mi_id (fst x), km_name = mi_name (fst x), km_description = mi_description (fst x),
      km_status = mi_status (fst x), km_is_available = av_is_available (snd x ! 0)\<rparr>"

definition route_list_kitchen_menu ::
    "(string \<Rightarrow> uuid option) \<Rightarrow> collation \<Rightarrow> string \<Rightarrow> bool \<Rightarrow> mdb \<Rightarrow> kitchen_menu_item list reply" where
  "route_list_kitchen_menu puuid col kid unavailable_too db =
     (case puuid kid of
        None \<Rightarrow> Unprocessable
      | Some i \<Rightarrow> Reply 200 (map kitchen_menu_item_read (m_list_kitchen_menu col i unavailable_too db)))"

end
