(* ===== verification/Menu_Invariants.thy ===== *)
theory Menu_Invariants
  imports Menu_Service
begin

text \<open>
  Menu service: the constraints of the tables as an invariant, the requests as steps (an
  upsert of an availability is two steps, the read and the write), and that every step keeps
  the invariant.
\<close>

section \<open>The invariant\<close>

definition recipe_row_ok :: "recipe_row \<Rightarrow> bool" where
  "recipe_row_ok r =
     (pg_text 120 (rs_operation r) \<and> pg_int4 (rs_duration r) \<and> pg_int4 (rs_step_order r)
      \<and> 0 < rs_duration r \<and> 0 < rs_step_order r)"

definition step_key :: "recipe_row \<Rightarrow> uuid \<times> int" where
  "step_key r = (rs_menu_item_id r, rs_step_order r)"

definition menu_ok :: "collation \<Rightarrow> mdb \<Rightarrow> bool" where
  "menu_ok col db =
     (distinct (map mi_id (md_items db)) \<and> distinct (map (\<lambda>m. col_lower col (mi_name m)) (md_items db))
      \<and> distinct (map av_key (md_avail db)) \<and> av_menu_item_id ` set (md_avail db) \<subseteq> mi_id ` set (md_items db)
      \<and> distinct (map rs_id (md_steps db)) \<and> distinct (map step_key (md_steps db))
      \<and> rs_menu_item_id ` set (md_steps db) \<subseteq> mi_id ` set (md_items db)
      \<and> (\<forall>r \<in> set (md_steps db). recipe_row_ok r))"

lemma menu_okD:
  assumes "menu_ok col db"
  shows "distinct (map mi_id (md_items db))" "distinct (map (\<lambda>m. col_lower col (mi_name m)) (md_items db))"
    "distinct (map av_key (md_avail db))" "distinct (map step_key (md_steps db))"
    "\<forall>r \<in> set (md_steps db). recipe_row_ok r"
  using assms by (simp_all add: menu_ok_def)

lemma menu_ok_empty [simp]: "menu_ok col empty_mdb"
  by (simp add: menu_ok_def empty_mdb_def)

section \<open>Insertions keep it\<close>

lemma insert_menu_item_Inr:
  "insert_menu_item col r db = Inr db' \<longleftrightarrow>
     pg_text 120 (mi_name r) \<and> opt_ok (pg_text 500) (mi_description r)
     \<and> mi_id r \<notin> mi_id ` set (md_items db)
     \<and> col_lower col (mi_name r) \<notin> (\<lambda>m. col_lower col (mi_name m)) ` set (md_items db)
     \<and> db' = db\<lparr>md_items := md_items db @ [r]\<rparr>"
  unfolding insert_menu_item_def by (auto simp: image_iff split: if_splits) metis+

lemma insert_availability_Inr:
  "insert_availability a db = Inr db' \<longleftrightarrow>
     av_key a \<notin> av_key ` set (md_avail db) \<and> av_menu_item_id a \<in> mi_id ` set (md_items db)
     \<and> db' = db\<lparr>md_avail := md_avail db @ [a]\<rparr>"
  unfolding insert_availability_def by (auto simp: image_iff split: if_splits) metis+

lemma insert_recipe_step_Inr:
  "insert_recipe_step r db = Inr db' \<longleftrightarrow>
     recipe_row_ok r \<and> rs_id r \<notin> rs_id ` set (md_steps db) \<and> step_key r \<notin> step_key ` set (md_steps db)
     \<and> rs_menu_item_id r \<in> mi_id ` set (md_items db) \<and> db' = db\<lparr>md_steps := md_steps db @ [r]\<rparr>"
  unfolding insert_recipe_step_def recipe_row_ok_def step_key_def
  by (auto simp: image_iff split: if_splits) metis+

lemma insert_menu_item_ok: "menu_ok col db \<Longrightarrow> insert_menu_item col r db = Inr db' \<Longrightarrow> menu_ok col db'"
  by (auto simp: insert_menu_item_Inr menu_ok_def)

lemma insert_availability_ok: "menu_ok col db \<Longrightarrow> insert_availability a db = Inr db' \<Longrightarrow> menu_ok col db'"
  by (auto simp: insert_availability_Inr menu_ok_def)

lemma insert_recipe_step_ok: "menu_ok col db \<Longrightarrow> insert_recipe_step r db = Inr db' \<Longrightarrow> menu_ok col db'"
  by (auto simp: insert_recipe_step_Inr menu_ok_def)

lemma upd_availability_ok:
  assumes "menu_ok col db" and "\<And>a. av_key (g a) = av_key a"
  shows "menu_ok col (upd_availability k g db)"
proof -
  have "map av_key (md_avail (upd_availability k g db)) = map av_key (md_avail db)"
    using assms(2) by (rule avail_tab.keys_upd)
  moreover have "map av_menu_item_id (md_avail (upd_availability k g db)) = map av_menu_item_id (md_avail db)"
    using assms(2) by (intro avail_tab.column_upd) (simp add: av_key_def)
  then have "av_menu_item_id ` set (md_avail (upd_availability k g db)) = av_menu_item_id ` set (md_avail db)"
    by (metis list.set_map)
  ultimately show ?thesis using assms(1) by (simp add: menu_ok_def)
qed

lemma upsert_write_ok:
  "menu_ok col db \<Longrightarrow> upsert_write env kid mid avail found db = Inr db' \<Longrightarrow> menu_ok col db'"
  by (auto simp: upsert_write_def av_key_def insert_availability_ok intro!: upd_availability_ok
      split: option.splits if_splits)

section \<open>Requests as steps\<close>

text \<open>An upsert that has read its row and not written yet.\<close>

record upsert_request =
  uq_env :: menv
  uq_kitchen :: uuid
  uq_item :: uuid
  uq_avail :: bool
  uq_found :: "availability option"

record mconc =
  mx_db :: mdb
  mx_pending :: "upsert_request list"

definition run_upsert :: "upsert_request \<Rightarrow> mdb \<Rightarrow> (m_error + availability) \<times> mdb" where
  "run_upsert q db = upsert_commit (uq_env q) (uq_kitchen q) (uq_item q) (uq_avail q) (uq_found q) db"

inductive mstep :: "collation \<Rightarrow> mconc \<Rightarrow> mconc \<Rightarrow> bool" for col where
  ms_item:
    "m_create_menu_item col env p (mx_db k) = (r, db') \<Longrightarrow> mstep col k (k\<lparr>mx_db := db'\<rparr>)"
| ms_step:
    "m_create_recipe_step env mid p (mx_db k) = (r, db') \<Longrightarrow> mstep col k (k\<lparr>mx_db := db'\<rparr>)"
| ms_upsert_read:
    "m_get_menu_item (uq_item q) (mx_db k) = Inr m \<Longrightarrow>
       uq_found q = get_availability_row (mx_db k) (uq_kitchen q, uq_item q) \<Longrightarrow>
       mstep col k (k\<lparr>mx_pending := mx_pending k @ [q]\<rparr>)"
| ms_upsert_write:
    "mx_pending k = xs @ q # ys \<Longrightarrow> run_upsert q (mx_db k) = (r, db') \<Longrightarrow>
       mstep col k (k\<lparr>mx_db := db', mx_pending := xs @ ys\<rparr>)"

inductive_cases mstepE: "mstep col k k'"

text \<open>What a pending upsert may rely on: its item exists, and so does the row it has found.\<close>

definition pending_ok :: "mdb \<Rightarrow> upsert_request \<Rightarrow> bool" where
  "pending_ok db q =
     (get_item_row db (uq_item q) \<noteq> None
      \<and> (uq_found q \<noteq> None \<longrightarrow> get_availability_row db (uq_kitchen q, uq_item q) \<noteq> None))"

definition menu_inv :: "collation \<Rightarrow> mconc \<Rightarrow> bool" where
  "menu_inv col k = (menu_ok col (mx_db k) \<and> (\<forall>q \<in> set (mx_pending k). pending_ok (mx_db k) q))"

definition menu_init :: "mconc \<Rightarrow> bool" where
  "menu_init k = (k = \<lparr>mx_db = empty_mdb, mx_pending = []\<rparr>)"

text \<open>Rows are never removed.\<close>

definition menu_grows :: "mdb \<Rightarrow> mdb \<Rightarrow> bool" where
  "menu_grows db db' =
     ((\<forall>i. get_item_row db i \<noteq> None \<longrightarrow> get_item_row db' i = get_item_row db i)
      \<and> (\<forall>k. get_availability_row db k \<noteq> None \<longrightarrow> get_availability_row db' k \<noteq> None))"

lemma menu_grows_refl [simp, intro]: "menu_grows db db"
  by (simp add: menu_grows_def)

lemma pending_ok_grows: "pending_ok db q \<Longrightarrow> menu_grows db db' \<Longrightarrow> pending_ok db' q"
  by (auto simp: pending_ok_def menu_grows_def)

lemma insert_grows:
  "insert_menu_item col r db = Inr db' \<Longrightarrow> menu_grows db db'"
  "insert_availability a db = Inr db' \<Longrightarrow> menu_grows db db'"
  "insert_recipe_step s db = Inr db' \<Longrightarrow> menu_grows db db'"
  by (auto simp: insert_menu_item_Inr insert_availability_Inr insert_recipe_step_Inr menu_grows_def
      get_item_row_def get_availability_row_def row_simps)

lemma upsert_write_grows: "upsert_write env kid mid avail found db = Inr db' \<Longrightarrow> menu_grows db db'"
proof -
  have "menu_grows db (upd_availability (kid, mid) (\<lambda>r. r\<lparr>av_is_available := avail, av_updated_at := t\<rparr>) db)" for t
    unfolding menu_grows_def by (subst avail_tab.get_upd) (auto simp: av_key_def get_item_row_def)
  then show "upsert_write env kid mid avail found db = Inr db' \<Longrightarrow> menu_grows db db'"
    by (auto simp: upsert_write_def insert_grows split: option.splits if_splits)
qed

lemma upsert_commit_db:
  "upsert_commit env kid mid avail found db = (r, db') \<Longrightarrow>
     db' = db \<or> upsert_write env kid mid avail found db = Inr db'"
  by (auto simp: upsert_commit_def split: sum.splits option.splits)

lemma create_db:
  "m_create_menu_item col env p db = (r, db') \<Longrightarrow> db' = db \<or> insert_menu_item col (new_menu_item env p) db = Inr db'"
  "m_create_recipe_step env mid q db = (s, db') \<Longrightarrow> db' = db \<or> insert_recipe_step (new_recipe_step env mid q) db = Inr db'"
  by (auto simp: m_create_menu_item_def m_create_recipe_step_def Let_def split: sum.splits)

lemma mstep_db:
  assumes "mstep col k k'" and "menu_ok col (mx_db k)"
  shows "menu_ok col (mx_db k') \<and> menu_grows (mx_db k) (mx_db k')"
  using assms
proof (cases rule: mstep.cases)
  case (ms_item env p r db')
  then show ?thesis using assms(2) create_db(1) insert_menu_item_ok insert_grows(1) by fastforce
next
  case (ms_step env mid p r db')
  then show ?thesis using assms(2) create_db(2) insert_recipe_step_ok insert_grows(3) by fastforce
next
  case (ms_upsert_read q m)
  then show ?thesis using assms(2) by simp
next
  case (ms_upsert_write xs q ys r db')
  then show ?thesis
    using assms(2) upsert_commit_db upsert_write_ok upsert_write_grows unfolding run_upsert_def by fastforce
qed

lemma mstep_inv:
  assumes inv: "menu_inv col k" and step: "mstep col k k'"
  shows "menu_inv col k'"
proof -
  note db = mstep_db [OF step menu_inv_def [THEN iffD1, OF inv, THEN conjunct1]]
  have "pending_ok (mx_db k') q" if "q \<in> set (mx_pending k)" for q
    using that inv db pending_ok_grows by (auto simp: menu_inv_def)
  moreover have "q \<in> set (mx_pending k) \<or> pending_ok (mx_db k') q" if "q \<in> set (mx_pending k')" for q
    using step that
    by (cases rule: mstep.cases) (auto simp: pending_ok_def m_get_menu_item_def eq_commute split: option.splits)
  ultimately show ?thesis using db by (auto simp: menu_inv_def)
qed

interpretation menu_system: inv_system menu_init "mstep col" "menu_inv col"
  by unfold_locales (simp add: menu_init_def menu_inv_def, rule mstep_inv)

end
