(* ===== verification/Menu_Props.thy ===== *)
theory Menu_Props
  imports Menu_Invariants
begin

text \<open>
  Menu service: recipes are served in step order, a created step and a set availability are
  read back, and what two first upserts of the same availability do to each other.
\<close>

section \<open>Recipes\<close>

lemma set_list_by_menu_item: "set (list_by_menu_item db mid) = {s \<in> set (md_steps db). rs_menu_item_id s = mid}"
  by (auto simp: list_by_menu_item_def)

lemma list_by_menu_item_sorted:
  assumes "menu_ok col db"
  shows "sorted_wrt (<) (map rs_step_order (list_by_menu_item db mid))"
proof -
  let ?own = "filter (\<lambda>s. rs_menu_item_id s = mid) (md_steps db)"
  have "distinct (map step_key ?own)"
    using menu_okD(4) [OF assms] by (rule distinct_map_filter)
  moreover have "map step_key ?own = map (Pair mid) (map rs_step_order ?own)"
    by (simp add: step_key_def)
  ultimately have "distinct (map rs_step_order ?own)" by (metis distinct_map)
  then have "distinct (map rs_step_order (list_by_menu_item db mid))"
    by (simp add: list_by_menu_item_def distinct_map)
  moreover have "sorted (map rs_step_order (list_by_menu_item db mid))"
    by (simp add: list_by_menu_item_def)
  ultimately show ?thesis by (simp add: strict_sorted_iff)
qed

lemma list_by_menu_item_append:
  assumes ok: "menu_ok col db'" and steps: "md_steps db' = md_steps db @ [s]"
  shows "list_by_menu_item db' mid =
     (if rs_menu_item_id s = mid then insort_key rs_step_order s (list_by_menu_item db mid) else list_by_menu_item db mid)"
proof (cases "rs_menu_item_id s = mid")
  case True
  let ?old = "list_by_menu_item db mid" and ?all = "list_by_menu_item db' mid"
  let ?new = "insort_key rs_step_order s ?old"
  have all: "sorted (map rs_step_order ?all)" "distinct (map rs_step_order ?all)"
    using list_by_menu_item_sorted [OF ok] by (simp_all add: strict_sorted_iff)
  have same: "set ?all = set ?new"
    using True by (simp add: set_list_by_menu_item set_insort_key steps) auto
  have len: "length ?new = length ?all"
    using True by (simp add: list_by_menu_item_def steps)
  have "distinct ?all" using all(2) by (simp add: distinct_map)
  then have "distinct ?new" by (metis same len card_distinct distinct_card)
  moreover have "inj_on rs_step_order (set ?all)" using all(2) by (simp add: distinct_map)
  ultimately have "distinct (map rs_step_order ?new)" by (simp add: distinct_map same)
  moreover have "sorted (map rs_step_order ?new)"
    by (simp add: list_by_menu_item_def sorted_insort_key)
  ultimately have "?all = ?new"
    using all same \<open>inj_on rs_step_order (set ?all)\<close> by (intro map_sorted_distinct_set_unique) simp_all
  with True show ?thesis by simp
next
  case False
  then show ?thesis by (simp add: list_by_menu_item_def steps)
qed

lemma mx_reach_ok: "reach menu_init (mstep col) k \<Longrightarrow> menu_ok col (mx_db k)"
  using menu_system.reach_inv by (simp add: menu_inv_def)

lemma m_get_recipe_eq:
  "m_get_recipe mid db = (case get_item_row db mid of
      None \<Rightarrow> Inl (MNotFoundError ''menu_item_not_found'')
    | Some _ \<Rightarrow> Inr \<lparr>rr_menu_item_id = mid, rr_steps = list_by_menu_item db mid\<rparr>)"
  by (simp add: m_get_recipe_def m_get_menu_item_def split: option.split)

lemma route_get_recipe_Reply:
  "route_get_recipe puuid mid db = Reply c r \<longleftrightarrow>
     c = 200 \<and> (\<exists>i m. puuid mid = Some i \<and> get_item_row db i = Some m
       \<and> r = \<lparr>rr_menu_item_id = i, rr_steps = list_by_menu_item db i\<rparr>)"
  by (auto simp: route_get_recipe_def m_reply_def m_get_recipe_def m_get_menu_item_def m_error_response_def
      split: option.splits)

text \<open>
  C22. Whatever requests the menu service has handled, a recipe it serves lists exactly the
  stored steps of the item, in strictly increasing step order, each with a positive duration
  that fits the database's integers.
\<close>

theorem recipe_served_in_order:
  assumes "reach menu_init (mstep col) k" and "route_get_recipe puuid mid (mx_db k) = Reply c r"
  shows "sorted_wrt (<) (map rs_step_order (rr_steps r))
     \<and> set (rr_steps r) = {s \<in> set (md_steps (mx_db k)). rs_menu_item_id s = rr_menu_item_id r}
     \<and> (\<forall>s \<in> set (rr_steps r). 0 < rs_step_order s \<and> 0 < rs_duration s \<and> rs_duration s < 2 ^ 31)"
proof -
  note ok = mx_reach_ok [OF assms(1)]
  have "r = \<lparr>rr_menu_item_id = rr_menu_item_id r, rr_steps = list_by_menu_item (mx_db k) (rr_menu_item_id r)\<rparr>"
    using assms(2) by (auto simp: route_get_recipe_Reply)
  then have r: "rr_steps r = list_by_menu_item (mx_db k) (rr_menu_item_id r)" by (metis recipe_read.select_convs(2))
  show ?thesis
    using list_by_menu_item_sorted [OF ok] menu_okD(5) [OF ok]
    unfolding r set_list_by_menu_item by (auto simp: recipe_row_ok_def pg_int4_def)
qed

text \<open>
  A step that is created is served at its place in the recipe of its item, with the
  values of the request; the recipes of other items do not change.
\<close>

theorem recipe_step_roundtrip:
  assumes "menu_ok col db" and "m_create_recipe_step env mid p db = (Inr s, db')"
  shows "m_get_recipe mid db' = Inr \<lparr>rr_menu_item_id = mid,
       rr_steps = insort_key rs_step_order s (list_by_menu_item db mid)\<rparr>
     \<and> rs_station_type s = sc_station_type p \<and> rs_operation s = sc_operation p
     \<and> rs_duration s = sc_duration p \<and> rs_step_order s = sc_step_order p
     \<and> (\<forall>other. other \<noteq> mid \<longrightarrow> m_get_recipe other db' = m_get_recipe other db)"
proof -
  obtain m where m: "get_item_row db mid = Some m" and s: "s = new_recipe_step env mid p"
    and ins: "insert_recipe_step s db = Inr db'"
    using assms(2) by (auto simp: m_create_recipe_step_def m_get_menu_item_def Let_def split: option.splits sum.splits)
  have db': "db' = db\<lparr>md_steps := md_steps db @ [s]\<rparr>" using ins by (simp add: insert_recipe_step_Inr)
  have recipe: "list_by_menu_item db' i =
      (if i = mid then insort_key rs_step_order s (list_by_menu_item db i) else list_by_menu_item db i)" for i
    by (subst list_by_menu_item_append [OF insert_recipe_step_ok [OF assms(1) ins]])
      (auto simp: db' s new_recipe_step_def)
  have items: "get_item_row db' i = get_item_row db i" for i by (simp add: db' get_item_row_def)
  show ?thesis
    using m by (auto simp: m_get_recipe_eq recipe items s new_recipe_step_def split: option.split)
qed

section \<open>Availability\<close>

text \<open>What the menu of a kitchen says about an item.\<close>

definition orderable :: "mdb \<Rightarrow> uuid \<Rightarrow> uuid \<Rightarrow> bool" where
  "orderable db kid mid =
     (case (get_item_row db mid, get_availability_row db (kid, mid)) of
        (Some m, Some a) \<Rightarrow> mi_status m = Mi_active \<and> av_is_available a
      | _ \<Rightarrow> False)"

lemma find_filter_unique:
  assumes "distinct (map key rows)"
  shows "filter (\<lambda>r. key r = k \<and> P r) rows = (case find_row key k rows of None \<Rightarrow> [] | Some r \<Rightarrow> if P r then [r] else [])"
  using assms
proof (induction rows)
  case Nil
  then show ?case by simp
next
  case (Cons x xs)
  show ?case
  proof (cases "key x = k")
    case True
    then have "find_row key k xs = None"
      using Cons.prems by (auto simp: find_row_None_iff image_iff)
    with Cons True show ?thesis by simp
  next
    case False
    with Cons show ?thesis by simp
  qed
qed

lemma kitchen_availability_row:
  assumes "menu_ok col db"
  shows "kitchen_availability db kid unavailable_too m =
     (case get_availability_row db (kid, mi_id m) of
        None \<Rightarrow> [] | Some a \<Rightarrow> if unavailable_too \<or> av_is_available a then [a] else [])"
proof -
  have "kitchen_availability db kid unavailable_too m
      = filter (\<lambda>a. av_key a = (kid, mi_id m) \<and> (unavailable_too \<or> av_is_available a)) (md_avail db)"
    unfolding kitchen_availability_def av_key_def by (rule filter_cong) auto
  then show ?thesis
    by (simp add: find_filter_unique [OF menu_okD(3) [OF assms]] get_availability_row_def)
qed

lemma kitchen_menu_members:
  assumes ok: "menu_ok col0 db" and m: "(m, as) \<in> set (kitchen_menu_query col kid unavailable_too db)"
  obtains a where "get_item_row db (mi_id m) = Some m" "mi_status m = Mi_active"
    "get_availability_row db (kid, mi_id m) = Some a" "as = [a]" "unavailable_too \<or> av_is_available a"
proof -
  have "m \<in> set (md_items db)" and *: "mi_status m = Mi_active" "as = kitchen_availability db kid unavailable_too m" "as \<noteq> []"
    using m by (auto simp: kitchen_menu_query_def)
  then have "get_item_row db (mi_id m) = Some m" using menu_okD(1) [OF ok] by (intro item_tab.member_get)
  with * show ?thesis
    by (auto simp: kitchen_availability_row [OF ok] split: option.splits if_splits intro: that)
qed

lemma kitchen_menu_ids:
  assumes ok: "menu_ok col0 db"
  shows "(\<exists>x \<in> set (kitchen_menu_query col kid False db). mi_id (fst x) = mid) \<longleftrightarrow> orderable db kid mid"
proof
  assume "\<exists>x \<in> set (kitchen_menu_query col kid False db). mi_id (fst x) = mid"
  then obtain m as where x: "(m, as) \<in> set (kitchen_menu_query col kid False db)" and m: "mi_id m = mid"
    by (metis prod.collapse)
  show "orderable db kid mid"
  proof (rule kitchen_menu_members [OF ok x])
    fix a assume "get_item_row db (mi_id m) = Some m" "mi_status m = Mi_active"
      "get_availability_row db (kid, mi_id m) = Some a" "False \<or> av_is_available a"
    then show "orderable db kid mid" by (simp add: orderable_def m)
  qed
next
  assume "orderable db kid mid"
  then obtain m a where row: "get_item_row db mid = Some m" "mi_status m = Mi_active"
    and a: "get_availability_row db (kid, mid) = Some a" "av_is_available a"
    by (auto simp: orderable_def split: option.splits)
  have m: "mi_id m = mid" "m \<in> set (md_items db)"
    by (rule item_tab.get_key [OF row(1)], rule item_tab.get_member [OF row(1)])
  have avail: "kitchen_availability db kid False m = [a]"
    unfolding kitchen_availability_row [OF ok] m(1) using a by simp
  have "(m, [a]) \<in> (\<lambda>m. (m, kitchen_availability db kid False m)) `
      {m \<in> set (md_items db). mi_status m = Mi_active \<and> kitchen_availability db kid False m \<noteq> []}"
    by (rule image_eqI [of _ _ m]) (use m(2) row(2) avail in simp_all)
  then have "(m, [a]) \<in> set (kitchen_menu_query col kid False db)"
    by (simp add: kitchen_menu_query_def)
  with m(1) show "\<exists>x \<in> set (kitchen_menu_query col kid False db). mi_id (fst x) = mid"
    by (intro bexI [of _ "(m, [a])"]) simp_all
qed

lemma upsert_commit_row:
  assumes ok: "menu_ok col db" and found: "found = get_availability_row db (kid, mid)" and item: "get_item_row db mid \<noteq> None"
  shows "\<exists>a db'. upsert_commit env kid mid avail found db = (Inr a, db')
     \<and> av_kitchen_id a = kid \<and> av_menu_item_id a = mid \<and> av_is_available a = avail
     \<and> md_items db' = md_items db \<and> md_steps db' = md_steps db
     \<and> (\<forall>k. get_availability_row db' k = (if k = (kid, mid) then Some a else get_availability_row db k))"
proof (cases found)
  case None
  let ?a = "new_availability env kid mid avail"
  have key: "av_key ?a = (kid, mid)" by (simp add: av_key_def new_availability_def)
  have "find_row av_key (kid, mid) (md_avail db) = None"
    using found None by (simp add: get_availability_row_def)
  then have "av_key ?a \<notin> av_key ` set (md_avail db)"
    by (auto simp: key find_row_None_iff)
  moreover have "av_menu_item_id ?a \<in> mi_id ` set (md_items db)"
    using item item_tab.get_member item_tab.get_key by (force simp: new_availability_def)
  ultimately have ins: "insert_availability ?a db = Inr (db\<lparr>md_avail := md_avail db @ [?a]\<rparr>)"
    by (simp add: insert_availability_Inr)
  have row: "get_availability_row (db\<lparr>md_avail := md_avail db @ [?a]\<rparr>) k
      = (if k = (kid, mid) then Some ?a else get_availability_row db k)" for k
    using found None key by (auto simp: get_availability_row_def row_simps split: option.split)
  then show ?thesis
    by (intro exI [of _ ?a]) (simp add: upsert_commit_def upsert_write_def None ins, simp add: new_availability_def)
next
  case (Some b)
  have b: "av_key b = (kid, mid)" using found Some avail_tab.get_key by metis
  show ?thesis
  proof (cases "av_is_available b = avail")
    case True
    have row: "get_availability_row db (kid, mid) = Some b" using found Some by simp
    have "upsert_commit env kid mid avail found db = (Inr b, db)"
      by (simp add: upsert_commit_def upsert_write_def Some True row)
    then show ?thesis
      using b True row by (intro exI [of _ b] exI [of _ db]) (simp add: av_key_def)
  next
    case False
    let ?g = "\<lambda>r. r\<lparr>av_is_available := avail, av_updated_at := me_db_now env\<rparr>"
    have row: "get_availability_row (upd_availability (kid, mid) ?g db) k
        = (if k = (kid, mid) then Some (?g b) else get_availability_row db k)" for k
      using found [symmetric] by (subst avail_tab.get_upd) (simp_all add: av_key_def Some)
    show ?thesis
      by (intro exI [of _ "?g b"])
        (use b in \<open>simp add: upsert_commit_def upsert_write_def Some False row, simp add: av_key_def\<close>)
  qed
qed

text \<open>
  Setting an availability succeeds for every item that exists, and afterwards the menu of
  the kitchen lists the item if and only if it is active and was set available. No
  other entry of any kitchen's menu changes.
\<close>

theorem availability_roundtrip:
  assumes "menu_ok col db" and "get_item_row db mid = Some m"
  shows "\<exists>a db'. m_upsert_availability env kid mid avail db = (Inr a, db')
     \<and> av_kitchen_id a = kid \<and> av_menu_item_id a = mid \<and> av_is_available a = avail
     \<and> (orderable db' kid mid \<longleftrightarrow> mi_status m = Mi_active \<and> avail)
     \<and> (\<forall>k i. (k, i) \<noteq> (kid, mid) \<longrightarrow> orderable db' k i = orderable db k i)"
proof -
  obtain a db' where run: "upsert_commit env kid mid avail (get_availability_row db (kid, mid)) db = (Inr a, db')"
    and a: "av_kitchen_id a = kid" "av_menu_item_id a = mid" "av_is_available a = avail"
    and frame: "md_items db' = md_items db"
    and rows: "\<And>k. get_availability_row db' k = (if k = (kid, mid) then Some a else get_availability_row db k)"
    using upsert_commit_row [OF assms(1) refl, where mid = mid and kid = kid and env = env and avail = avail] assms(2) by auto
  have items: "get_item_row db' i = get_item_row db i" for i by (simp add: get_item_row_def frame)
  have "orderable db' k i = (if (k, i) = (kid, mid) then mi_status m = Mi_active \<and> avail else orderable db k i)" for k i
    using a assms(2) by (auto simp: orderable_def items rows)
  with run a assms(2) show ?thesis
    by (intro exI [of _ a] exI [of _ db']) (simp add: m_upsert_availability_def m_get_menu_item_def)
qed

text \<open>
  C32. Two requests that both found no availability row for the same kitchen and item: the one
  that writes first succeeds, and the other fails with an integrity error that no handler
  translates (a 500), although either would have succeeded after the other.
\<close>

theorem first_upserts_race:
  assumes reach: "reach menu_init (mstep col) k" and pend: "q1 \<in> set (mx_pending k)" "q2 \<in> set (mx_pending k)"
    and same: "uq_kitchen q2 = uq_kitchen q1" "uq_item q2 = uq_item q1"
    and none: "uq_found q1 = None" "uq_found q2 = None"
      "get_availability_row (mx_db k) (uq_kitchen q1, uq_item q1) = None"
  shows "\<exists>a db1. run_upsert q1 (mx_db k) = (Inr a, db1) \<and> av_is_available a = uq_avail q1
     \<and> run_upsert q2 db1 = (Inl (MDatabaseError IntegrityError), db1)
     \<and> (\<exists>b db2. m_upsert_availability (uq_env q2) (uq_kitchen q2) (uq_item q2) (uq_avail q2) db1 = (Inr b, db2))"
proof -
  have inv: "menu_inv col k" by (rule menu_system.reach_inv [OF reach])
  then have ok: "menu_ok col (mx_db k)" and item: "get_item_row (mx_db k) (uq_item q1) \<noteq> None"
    using pend by (auto simp: menu_inv_def pending_ok_def)
  obtain a db1 where run: "run_upsert q1 (mx_db k) = (Inr a, db1)" and avail: "av_is_available a = uq_avail q1"
    and frame: "md_items db1 = md_items (mx_db k)"
    and row: "get_availability_row db1 (uq_kitchen q1, uq_item q1) = Some a"
    using upsert_commit_row [OF ok refl item, where kid = "uq_kitchen q1" and env = "uq_env q1" and avail = "uq_avail q1"] none
    by (auto simp: run_upsert_def)
  let ?n = "new_availability (uq_env q2) (uq_kitchen q2) (uq_item q2) (uq_avail q2)"
  have "a \<in> set (md_avail db1)" "av_key a = av_key ?n"
    using avail_tab.get_member [OF row] avail_tab.get_key [OF row] same
    by (auto simp: av_key_def new_availability_def)
  then have "insert_availability ?n db1 = Inl IntegrityError" by (auto simp: insert_availability_def)
  then have second: "run_upsert q2 db1 = (Inl (MDatabaseError IntegrityError), db1)"
    by (simp add: run_upsert_def upsert_commit_def upsert_write_def none(2))
  have ok1: "menu_ok col db1"
    using upsert_commit_db upsert_write_ok ok run unfolding run_upsert_def by metis
  have item1: "get_item_row db1 (uq_item q2) \<noteq> None" using item by (simp add: get_item_row_def frame same)
  then obtain m where m: "get_item_row db1 (uq_item q2) = Some m" by blast
  obtain b db2 where "m_upsert_availability (uq_env q2) (uq_kitchen q2) (uq_item q2) (uq_avail q2) db1 = (Inr b, db2)"
    using upsert_commit_row [OF ok1 refl item1, where kid = "uq_kitchen q2" and env = "uq_env q2" and avail = "uq_avail q2"] m
    by (auto simp: m_upsert_availability_def m_get_menu_item_def)
  with run avail second show ?thesis by blast
qed

end
