(* ===== verification/Menu_Orders.thy ===== *)
theory Menu_Orders
  imports Menu_Props Fulfillment_Creation Kitchen_Routes
begin

text \<open>
  Order creation in front of the two services it asks: the exchanges of the fulfillment
  service with the kitchen and the menu service are served by their routes. What order
  creation accepts is then a function of the tables of those services.
\<close>

section \<open>The services as upstream\<close>

text \<open>A reply as a client sees it that reads the body of a success through a model only.\<close>

definition as_http :: "('b \<Rightarrow> 'a) \<Rightarrow> 'b reply \<Rightarrow> 'a option http_result" where
  "as_http view r =
     (case r of
        Reply c b \<Rightarrow> Http_response c (Some (view b))
      | Error_reply c _ \<Rightarrow> Http_response c None
      | Unprocessable \<Rightarrow> Http_response 422 None
      | Server_error \<Rightarrow> Http_response 500 None)"

definition kitchen_snapshot_of :: "kitchen \<Rightarrow> kitchen_snapshot" where
  "kitchen_snapshot_of k = \<lparr>kn_status = kitchen_status_str (k_status k)\<rparr>"

definition menu_snapshot_of :: "kitchen_menu_item \<Rightarrow> menu_item_snapshot" where
  "menu_snapshot_of m =
     \<lparr>ms_id = km_id m, ms_name = km_name m, ms_status = menu_item_status_str (km_status m),
      ms_is_available = km_is_available m\<rparr>"

definition recipe_step_of :: "recipe_row \<Rightarrow> recipe_step" where
  "recipe_step_of s =
     \<lparr>rp_station_type = menu_station_type_str (rs_station_type s), rp_operation = rs_operation s,
      rp_duration = rs_duration s, rp_step_order = rs_step_order s\<rparr>"

definition recipe_of :: "recipe_read \<Rightarrow> recipe" where
  "recipe_of r = \<lparr>rc_menu_item_id = rr_menu_item_id r, rc_steps = map recipe_step_of (rr_steps r)\<rparr>"

definition services_upstream :: "collation \<Rightarrow> kworld \<Rightarrow> mdb \<Rightarrow> upstream" where
  "services_upstream col kw db =
     \<lparr>up_kitchen = (\<lambda>k. as_http kitchen_snapshot_of (route_get_kitchen (uuid_str k) kw)),
      up_menu = (\<lambda>k. as_http (map menu_snapshot_of) (route_list_kitchen_menu uuid_parse col (uuid_str k) False db)),
      up_recipe = (\<lambda>n m. as_http recipe_of (route_get_recipe uuid_parse (uuid_str m) db))\<rparr>"

section \<open>What is accepted\<close>

definition menu_recipe :: "mdb \<Rightarrow> uuid \<Rightarrow> recipe" where
  "menu_recipe db mid = recipe_of \<lparr>rr_menu_item_id = mid, rr_steps = list_by_menu_item db mid\<rparr>"

definition item_refused :: "mdb \<Rightarrow> uuid \<Rightarrow> item_create \<Rightarrow> bool" where
  "item_refused db kid i =
     (\<not> orderable db kid (ic_menu_item_id i) \<or> list_by_menu_item db (ic_menu_item_id i) = [])"

definition order_verdict :: "kworld \<Rightarrow> mdb \<Rightarrow> order_create \<Rightarrow> f_error option" where
  "order_verdict kw db p =
     (case get_kitchen_row (kw_db kw) (oc_kitchen_id p) of
        None \<Rightarrow> Some KitchenNotFoundError
      | Some k \<Rightarrow>
          if k_status k \<noteq> Kitchen_active then Some KitchenNotActiveError
          else (case find (item_refused db (oc_kitchen_id p)) (oc_items p) of
                  None \<Rightarrow> None
                | Some i \<Rightarrow>
                    Some (if orderable db (oc_kitchen_id p) (ic_menu_item_id i) then RecipeStepsNotFoundError
                          else MenuItemNotAvailableError)))"

lemma client_kitchen_served:
  "client_get_kitchen (up_kitchen (services_upstream col kw db) kid) =
     (case get_kitchen_row (kw_db kw) kid of
        None \<Rightarrow> Inl KitchenNotFoundError
      | Some k \<Rightarrow> if k_status k \<noteq> Kitchen_active then Inl KitchenNotActiveError else Inr (kitchen_snapshot_of k))"
proof -
  have "kitchen_status_str st = ''active'' \<longleftrightarrow> st = Kitchen_active" for st by (cases st) simp_all
  then show ?thesis
    by (simp add: services_upstream_def route_get_kitchen_def parse_uuid_def get_kitchen_def k_reply_def
        as_http_def client_get_kitchen_def raises_for_status_def kitchen_snapshot_of_def split: option.split)
qed

lemma client_menu_served:
  "client_get_menu (up_menu (services_upstream col kw db) kid) =
     Inr (map (menu_snapshot_of \<circ> kitchen_menu_item_read) (kitchen_menu_query col kid False db))"
  by (simp add: services_upstream_def route_list_kitchen_menu_def as_http_def client_get_menu_def
      raises_for_status_def m_list_kitchen_menu_def)

lemma menu_recipe_valid: "menu_ok col db \<Longrightarrow> valid_recipe (menu_recipe db mid)"
  using menu_okD(5) by (auto simp: valid_recipe_def menu_recipe_def recipe_of_def recipe_step_of_def
      set_list_by_menu_item recipe_row_ok_def)

lemma client_recipe_served:
  assumes "menu_ok col db" and "get_item_row db mid \<noteq> None"
  shows "client_get_recipe (up_recipe (services_upstream col' kw db) n mid) =
     (if list_by_menu_item db mid = [] then Inl RecipeStepsNotFoundError else Inr (menu_recipe db mid))"
proof -
  obtain m where "get_item_row db mid = Some m" using assms(2) by blast
  then have "up_recipe (services_upstream col' kw db) n mid = Http_response 200 (Some (menu_recipe db mid))"
    by (simp add: services_upstream_def route_get_recipe_def m_get_recipe_eq m_reply_def as_http_def menu_recipe_def)
  moreover have "rc_steps (menu_recipe db mid) = [] \<longleftrightarrow> list_by_menu_item db mid = []"
    by (simp add: menu_recipe_def recipe_of_def)
  ultimately show ?thesis
    using menu_recipe_valid [OF assms(1)] by (simp add: client_get_recipe_def raises_for_status_def)
qed

lemma available_ids_served:
  assumes ok: "menu_ok col db"
  shows "mid \<in> set (available_ids (map (menu_snapshot_of \<circ> kitchen_menu_item_read) (kitchen_menu_query col' kid False db)))
     \<longleftrightarrow> orderable db kid mid"
proof -
  let ?q = "kitchen_menu_query col' kid False db"
  have "ms_status (menu_snapshot_of (kitchen_menu_item_read x)) = ''active'' \<and> ms_is_available (menu_snapshot_of (kitchen_menu_item_read x))"
    if x: "x \<in> set ?q" for x
  proof -
    obtain m as where m: "x = (m, as)" by fastforce
    show ?thesis
      by (rule kitchen_menu_members [OF ok x [unfolded m]])
        (simp add: m menu_snapshot_of_def kitchen_menu_item_read_def)
  qed
  then have "set (available_ids (map (menu_snapshot_of \<circ> kitchen_menu_item_read) ?q)) = (mi_id \<circ> fst) ` set ?q"
    by (force simp: available_ids_def menu_snapshot_of_def kitchen_menu_item_read_def)
  then show ?thesis using kitchen_menu_ids [OF ok, of col' kid mid] by auto
qed

lemma fetch_recipes_served:
  assumes ok: "menu_ok col db" and avail: "\<And>mid. mid \<in> set avail \<longleftrightarrow> orderable db kid mid"
  shows "fetch_recipes (up_recipe (services_upstream col' kw db)) avail n is rs =
     (case find (item_refused db kid) is of
        Some i \<Rightarrow> Inl (if orderable db kid (ic_menu_item_id i) then RecipeStepsNotFoundError else MenuItemNotAvailableError)
      | None \<Rightarrow> Inr (\<lambda>m. if m \<in> ic_menu_item_id ` set is then Some (menu_recipe db m) else rs m))"
proof (induction "is" arbitrary: n rs)
  case Nil
  then show ?case by simp
next
  case (Cons i "is")
  show ?case
  proof (cases "orderable db kid (ic_menu_item_id i)")
    case False
    then show ?thesis by (simp add: avail item_refused_def)
  next
    case True
    then have "get_item_row db (ic_menu_item_id i) \<noteq> None" by (auto simp: orderable_def split: option.splits)
    note served = client_recipe_served [OF ok this]
    have steps: "rc_steps (menu_recipe db m) = [] \<longleftrightarrow> list_by_menu_item db m = []" for m
      by (simp add: menu_recipe_def recipe_of_def)
    show ?thesis
      using True by (auto simp: avail item_refused_def served steps Cons.IH split: option.split)
  qed
qed

lemma order_checks_served:
  assumes ok: "menu_ok col0 db"
  shows "order_checks (services_upstream col kw db) p =
     (case order_verdict kw db p of
        Some e \<Rightarrow> Inl e
      | None \<Rightarrow> Inr (\<lambda>m. if m \<in> ic_menu_item_id ` set (oc_items p) then Some (menu_recipe db m) else None,
          menu_item_names (map (menu_snapshot_of \<circ> kitchen_menu_item_read) (kitchen_menu_query col (oc_kitchen_id p) False db))))"
  unfolding order_checks_def client_kitchen_served client_menu_served order_verdict_def
  by (simp add: fetch_recipes_served [OF ok available_ids_served [OF ok]] split: option.split)

end
