(* ===== verification/Fulfillment_Acceptance.thy ===== *)
theory Fulfillment_Acceptance
  imports Fulfillment_Creation
begin

text \<open>
  Fulfillment service: when order creation cannot fail. With fresh identifiers, quantities
  within 32 bits and recipes whose values fit the columns, both transactions commit, and a
  Redis server that answers lets every task be queued.
\<close>

section \<open>Fresh identifiers\<close>

definition used_ids :: "fdb \<Rightarrow> uuid set" where
  "used_ids db = o_id ` set (f_orders db) \<union> oi_id ` set (f_items db) \<union> ft_id ` set (f_tasks db)"

definition fresh_ids :: "fenv \<Rightarrow> nat \<Rightarrow> fdb \<Rightarrow> bool" where
  "fresh_ids env n db = (inj_on (fe_ids env) {..<n} \<and> (\<forall>k < n. fe_ids env k \<notin> used_ids db))"

lemma upt_two: "[n..<n + (a + b)] = [n..<n + a] @ [n + a..<n + a + b]"
  using upt_add_eq_append [of n "n + a" b] by (simp add: add.assoc)

lemma item_chains_ids:
  "map ft_id (concat (item_chains ids now oid it steps n us)) = map ids [n..<n + length steps * length us]"
proof (induction us arbitrary: n)
  case Nil
  then show ?case by simp
next
  case (Cons u us)
  show ?case by (simp add: Cons.IH unit_chain_columns(2) upt_two)
qed

lemma order_chains_ids:
  "map ft_id (concat (order_chains ids now oid recipes n its)) =
     map ids [n..<n + length (concat (order_chains ids now oid recipes n its))]"
proof (induction its arbitrary: n)
  case Nil
  then show ?case by simp
next
  case (Cons it its)
  let ?steps = "case recipes (oi_menu_item_id it) of None \<Rightarrow> [] | Some r \<Rightarrow> sort_key rp_step_order (rc_steps r)"
  let ?m = "length ?steps * length [1..oi_quantity it]"
  let ?rest = "order_chains ids now oid recipes (n + ?m) its"
  have "map ft_id (concat (order_chains ids now oid recipes n (it # its)))
      = map ids [n..<n + ?m] @ map ids [n + ?m..<n + ?m + length (concat ?rest)]"
    by (simp only: order_chains.simps Let_def concat_append map_append item_chains_ids Cons.IH)
  also have "\<dots> = map ids [n..<n + (?m + length (concat ?rest))]"
    by (simp only: upt_two map_append)
  also have "?m + length (concat ?rest) = length (concat (order_chains ids now oid recipes n (it # its)))"
    by (simp only: order_chains.simps Let_def concat_append length_append length_item_chains)
  finally show ?case .
qed

lemma new_items_ids: "map oi_id (new_items env oid n is) = map (fe_ids env) [n..<n + length is]"
  by (induction "is" arbitrary: n) (simp_all add: upt_rec)

lemma fresh_segment:
  assumes "fresh_ids env n db" and "b \<le> n"
  shows "distinct (map (fe_ids env) [a..<b])" "set (map (fe_ids env) [a..<b]) \<inter> used_ids db = {}"
    "a \<le> c \<Longrightarrow> b \<le> c \<Longrightarrow> d \<le> n \<Longrightarrow> set (map (fe_ids env) [a..<b]) \<inter> set (map (fe_ids env) [c..<d]) = {}"
proof -
  have "inj_on (fe_ids env) {a..<b}"
    using assms by (auto simp: fresh_ids_def intro: inj_on_subset)
  then show "distinct (map (fe_ids env) [a..<b])" by (simp add: distinct_map)
  show "set (map (fe_ids env) [a..<b]) \<inter> used_ids db = {}" using assms by (auto simp: fresh_ids_def)
  show "set (map (fe_ids env) [a..<b]) \<inter> set (map (fe_ids env) [c..<d]) = {}" if "a \<le> c" "b \<le> c" "d \<le> n"
  proof -
    have "i = j" if "fe_ids env i = fe_ids env j" "i < n" "j < n" for i j
      using assms(1) that by (auto simp: fresh_ids_def dest: inj_onD)
    with that assms(2) show ?thesis by fastforce
  qed
qed

section \<open>Insertions that succeed\<close>

lemma insert_all_items_ok:
  assumes "distinct (map oi_id is)" and "oi_id ` set is \<inter> oi_id ` set (f_items db) = {}"
    and "\<forall>i \<in> set is. pg_int4 (oi_quantity i) \<and> 0 < oi_quantity i \<and> oi_order_id i \<in> o_id ` set (f_orders db)"
  shows "insert_all insert_item is db = Inr (db\<lparr>f_items := f_items db @ is\<rparr>)"
  using assms
proof (induction "is" arbitrary: db)
  case Nil
  then show ?case by simp
next
  case (Cons i "is")
  have "insert_item i db = Inr (db\<lparr>f_items := f_items db @ [i]\<rparr>)"
    using Cons.prems by (auto simp: insert_item_def image_iff)
  moreover have "insert_all insert_item is (db\<lparr>f_items := f_items db @ [i]\<rparr>)
      = Inr ((db\<lparr>f_items := f_items db @ [i]\<rparr>)\<lparr>f_items := f_items (db\<lparr>f_items := f_items db @ [i]\<rparr>) @ is\<rparr>)"
    by (rule Cons.IH) (use Cons.prems in auto)
  ultimately show ?case by simp
qed

lemma insert_all_ftasks_ok:
  assumes "distinct (map ft_id ts)" and "ft_id ` set ts \<inter> ft_id ` set (f_tasks db) = {}"
    and "\<forall>t \<in> set ts. ftask_fits t \<and> ftask_checks t \<and> ft_order_id t \<in> o_id ` set (f_orders db)
           \<and> ft_order_item_id t \<in> oi_id ` set (f_items db)"
  shows "insert_all insert_ftask ts db = Inr (db\<lparr>f_tasks := f_tasks db @ ts\<rparr>)"
  using assms
proof (induction ts arbitrary: db)
  case Nil
  then show ?case by simp
next
  case (Cons t ts)
  have "insert_ftask t db = Inr (db\<lparr>f_tasks := f_tasks db @ [t]\<rparr>)"
    using Cons.prems by (auto simp: insert_ftask_def image_iff)
  moreover have "insert_all insert_ftask ts (db\<lparr>f_tasks := f_tasks db @ [t]\<rparr>)
      = Inr ((db\<lparr>f_tasks := f_tasks db @ [t]\<rparr>)\<lparr>f_tasks := f_tasks (db\<lparr>f_tasks := f_tasks db @ [t]\<rparr>) @ ts\<rparr>)"
    by (rule Cons.IH) (use Cons.prems in auto)
  ultimately show ?case by simp
qed

lemma insert_all_deps_ok:
  assumes "distinct ds" and "set ds \<inter> set (f_deps db) = {}"
    and "\<forall>d \<in> set ds. td_task d \<noteq> td_depends_on d \<and> td_task d \<in> ft_id ` set (f_tasks db)
           \<and> td_depends_on d \<in> ft_id ` set (f_tasks db)"
  shows "insert_all insert_tdep ds db = Inr (db\<lparr>f_deps := f_deps db @ ds\<rparr>)"
  using assms
proof (induction ds arbitrary: db)
  case Nil
  then show ?case by simp
next
  case (Cons d ds)
  have "insert_tdep d db = Inr (db\<lparr>f_deps := f_deps db @ [d]\<rparr>)"
    using Cons.prems by (auto simp: insert_tdep_def image_iff)
  moreover have "insert_all insert_tdep ds (db\<lparr>f_deps := f_deps db @ [d]\<rparr>)
      = Inr ((db\<lparr>f_deps := f_deps db @ [d]\<rparr>)\<lparr>f_deps := f_deps (db\<lparr>f_deps := f_deps db @ [d]\<rparr>) @ ds\<rparr>)"
    by (rule Cons.IH) (use Cons.prems in auto)
  ultimately show ?case by simp
qed

text \<open>The dependencies of a chain name its tasks, and no task depends on itself.\<close>

lemma chain_deps_tasks: "map td_task (chain_deps c) = map ft_id (tl c)"
  by (induction c rule: chain_deps.induct) simp_all

lemma chain_deps_ends:
  "distinct (map ft_id c) \<Longrightarrow> d \<in> set (chain_deps c) \<Longrightarrow>
     td_task d \<in> ft_id ` set c \<and> td_depends_on d \<in> ft_id ` set c \<and> td_task d \<noteq> td_depends_on d"
  by (induction c rule: chain_deps.induct) auto

lemma chains_deps_tasks:
  assumes "distinct (map ft_id (concat cs))"
  shows "distinct (concat (map chain_deps cs))"
    "d \<in> set (concat (map chain_deps cs)) \<Longrightarrow> td_task d \<in> ft_id ` set (concat cs)
       \<and> td_depends_on d \<in> ft_id ` set (concat cs) \<and> td_task d \<noteq> td_depends_on d"
proof -
  have sub: "set (map td_task (chain_deps c)) \<subseteq> ft_id ` set c" for c
    unfolding chain_deps_tasks by (cases c) auto
  have "distinct (map td_task (concat (map chain_deps cs)))"
    using assms
  proof (induction cs)
    case Nil
    then show ?case by simp
  next
    case (Cons c cs)
    have "set (map td_task (concat (map chain_deps cs))) \<subseteq> ft_id ` set (concat cs)"
      using sub by fastforce
    moreover have "distinct (map td_task (chain_deps c))"
      using Cons.prems unfolding chain_deps_tasks by (cases c) auto
    moreover have "ft_id ` set c \<inter> ft_id ` set (concat cs) = {}" using Cons.prems by simp
    ultimately have "set (map td_task (chain_deps c)) \<inter> set (map td_task (concat (map chain_deps cs))) = {}"
      using sub [of c] by blast
    with Cons \<open>distinct (map td_task (chain_deps c))\<close> show ?case
      by (simp only: list.map concat.simps map_append distinct_append)
  qed
  then show "distinct (concat (map chain_deps cs))" by (simp add: distinct_map)
  assume "d \<in> set (concat (map chain_deps cs))"
  then obtain c where c: "c \<in> set cs" "d \<in> set (chain_deps c)" by auto
  have "distinct (map ft_id c)" using assms c(1) by (induction cs) auto
  from chain_deps_ends [OF this c(2)] c(1)
  show "td_task d \<in> ft_id ` set (concat cs) \<and> td_depends_on d \<in> ft_id ` set (concat cs) \<and> td_task d \<noteq> td_depends_on d"
    by auto
qed

section \<open>The first transaction\<close>

definition step_fits :: "recipe_step \<Rightarrow> bool" where
  "step_fits s =
     (pg_text 32 (rp_station_type s) \<and> pg_text 120 (rp_operation s) \<and> pg_int4 (rp_duration s)
      \<and> pg_int4 (rp_step_order s) \<and> 0 < rp_duration s \<and> 0 < rp_step_order s)"

text \<open>How many tasks an order has.\<close>

definition order_size :: "(uuid \<rightharpoonup> recipe) \<Rightarrow> order_create \<Rightarrow> nat" where
  "order_size recipes p =
     sum_list (map (\<lambda>i. length (recipe_steps_of recipes (ic_menu_item_id i)) * nat (ic_quantity i)) (oc_items p))"

lemma order_size_chains:
  "length (concat (order_chains ids now oid recipes n (new_items env oid' m (oc_items p)))) = order_size recipes p"
proof -
  have "map (\<lambda>it. length (recipe_steps_of recipes (oi_menu_item_id it)) * nat (oi_quantity it)) (new_items env oid' m is)
      = map (\<lambda>i. length (recipe_steps_of recipes (ic_menu_item_id i)) * nat (ic_quantity i)) is" for "is"
    by (induction "is" arbitrary: m) simp_all
  then show ?thesis by (simp only: order_chains_sizes(2) order_size_def)
qed

lemma new_items_fit:
  assumes "\<forall>i \<in> set is. 0 < ic_quantity i \<and> ic_quantity i < 2 ^ 31"
  shows "\<forall>it \<in> set (new_items env oid n is). pg_int4 (oi_quantity it) \<and> 0 < oi_quantity it \<and> oi_order_id it = oid"
  using assms by (induction "is" arbitrary: n) (auto simp: pg_int4_def)

lemma chain_tasks_fit:
  assumes t: "t \<in> set (concat (order_chains ids now oid recipes n its))"
    and q: "\<forall>it \<in> set its. pg_int4 (oi_quantity it)"
    and steps: "\<forall>it \<in> set its. \<forall>s \<in> set (recipe_steps_of recipes (oi_menu_item_id it)). step_fits s"
  shows "ftask_fits t \<and> ftask_checks t \<and> ft_order_item_id t \<in> oi_id ` set its"
proof -
  obtain c where c: "c \<in> set (order_chains ids now oid recipes n its)" "t \<in> set c" using t by auto
  obtain it u m where it: "it \<in> set its" "1 \<le> u" "u \<le> oi_quantity it"
    and "c = unit_chain ids now oid it u m (recipe_steps_of recipes (oi_menu_item_id it))"
    unfolding recipe_steps_of_def by (rule chain_members [OF c(1)])
  with c(2) unit_chain_rows obtain k s where s: "s \<in> set (recipe_steps_of recipes (oi_menu_item_id it))"
    "t = new_task (ids k) now oid it u s" by blast
  have "pg_int4 u" using it q by (force simp: pg_int4_def)
  moreover have "pg_int4 0" by (simp add: pg_int4_def)
  ultimately show ?thesis
    using it s steps by (auto simp: ftask_fits_def ftask_checks_def new_task_def step_fits_def)
qed

lemma deps_of_stored: "deps_forward db \<Longrightarrow> d \<in> set (f_deps db) \<Longrightarrow> td_task d \<in> ft_id ` set (f_tasks db)"
  by (auto simp: deps_forward_def dep_forward_def) (metis image_eqI nth_mem)

lemma store_order_run:
  assumes "insert_order (order_row (new_order env p)) db = Inr db1"
    and "items = new_items env (o_id (new_order env p)) 1 (oc_items p)" and "insert_all insert_item items db1 = Inr db2"
    and "build_items (fe_ids env) (fe_db_now env) (o_id (new_order env p)) recipes (Suc (length items)) items = Some (ts, ds)"
    and "insert_all insert_ftask ts db2 = Inr db3" and "insert_all insert_tdep ds db3 = Inr db4"
  shows "store_order env p recipes db = Inr (\<lparr>so_order = new_order env p, so_items = items, so_tasks = ts, so_deps = ds\<rparr>, db4)"
  unfolding store_order_def Let_def assms(2) [symmetric] by (simp add: assms(1,3-6))

lemma new_items_inserted:
  assumes quant: "\<forall>i \<in> set (oc_items p). 0 < ic_quantity i \<and> ic_quantity i < 2 ^ 31"
    and fresh: "fresh_ids env (Suc (length (oc_items p)) + order_size recipes p) db"
    and db1: "f_items db1 = f_items db" "o_id (new_order env p) \<in> o_id ` set (f_orders db1)"
  shows "insert_all insert_item (new_items env (o_id (new_order env p)) 1 (oc_items p)) db1
    = Inr (db1\<lparr>f_items := f_items db1 @ new_items env (o_id (new_order env p)) 1 (oc_items p)\<rparr>)"
proof (rule insert_all_items_ok)
  let ?n = "Suc (length (oc_items p))" and ?items = "new_items env (o_id (new_order env p)) 1 (oc_items p)"
  note ids = fresh_segment [OF fresh]
  have item_ids: "map oi_id ?items = map (fe_ids env) [1..<?n]" by (simp add: new_items_ids)
  then have set_items: "oi_id ` set ?items = set (map (fe_ids env) [1..<?n])" by (metis list.set_map)
  show "distinct (map oi_id ?items)" unfolding item_ids by (rule ids(1)) simp
  show "oi_id ` set ?items \<inter> oi_id ` set (f_items db1) = {}"
    using ids(2) [of ?n 1] unfolding set_items by (auto simp: used_ids_def db1(1))
  show "\<forall>i \<in> set ?items. pg_int4 (oi_quantity i) \<and> 0 < oi_quantity i \<and> oi_order_id i \<in> o_id ` set (f_orders db1)"
    using new_items_fit [OF quant] db1(2) by auto
qed

lemma new_items_recipes:
  assumes known: "\<forall>i \<in> set (oc_items p). \<exists>r. recipes (ic_menu_item_id i) = Some r \<and> (\<forall>s \<in> set (rc_steps r). step_fits s)"
    and it: "it \<in> set (new_items env oid 1 (oc_items p))"
  shows "recipes (oi_menu_item_id it) \<noteq> None" "\<forall>s \<in> set (recipe_steps_of recipes (oi_menu_item_id it)). step_fits s"
proof -
  have "oi_menu_item_id it \<in> ic_menu_item_id ` set (oc_items p)"
    using it new_items_columns(3) [of env oid 1 "oc_items p"] by blast
  with known obtain r where "recipes (oi_menu_item_id it) = Some r" "\<forall>s \<in> set (rc_steps r). step_fits s" by auto
  then show "recipes (oi_menu_item_id it) \<noteq> None" "\<forall>s \<in> set (recipe_steps_of recipes (oi_menu_item_id it)). step_fits s"
    by (simp_all add: recipe_steps_of_def)
qed

lemma store_order_ok:
  assumes inv: "f_inv db"
    and known: "\<forall>i \<in> set (oc_items p). \<exists>r. recipes (ic_menu_item_id i) = Some r \<and> (\<forall>s \<in> set (rc_steps r). step_fits s)"
    and quant: "\<forall>i \<in> set (oc_items p). 0 < ic_quantity i \<and> ic_quantity i < 2 ^ 31"
    and fresh: "fresh_ids env (Suc (length (oc_items p)) + order_size recipes p) db"
  obtains so db' where "store_order env p recipes db = Inr (so, db')"
proof -
  let ?n = "Suc (length (oc_items p))"
  let ?N = "?n + order_size recipes p"
  let ?oid = "o_id (new_order env p)"
  let ?items = "new_items env ?oid 1 (oc_items p)"
  let ?chains = "order_chains (fe_ids env) (fe_db_now env) ?oid recipes ?n ?items"
  note ids = fresh_segment [OF fresh]
  have oid: "?oid \<notin> used_ids db" using fresh by (auto simp: fresh_ids_def new_order_def)
  let ?db1 = "db\<lparr>f_orders := f_orders db @ [order_row (new_order env p)]\<rparr>"
  have 1: "insert_order (order_row (new_order env p)) db = Inr ?db1"
    using oid by (auto simp: insert_order_Inr used_ids_def order_row_def)
  let ?db2 = "?db1\<lparr>f_items := f_items ?db1 @ ?items\<rparr>"
  have 2: "insert_all insert_item ?items ?db1 = Inr ?db2"
    by (rule new_items_inserted [OF quant fresh]) (simp_all add: order_row_def)
  have rec: "\<forall>it \<in> set ?items. recipes (oi_menu_item_id it) \<noteq> None" using new_items_recipes(1) [OF known] by blast
  have built: "build_items (fe_ids env) (fe_db_now env) ?oid recipes (Suc (length ?items)) ?items
      = Some (concat ?chains, concat (map chain_deps ?chains))"
    using build_items_chains [OF rec] by (simp add: new_items_columns(1))
  have steps: "\<forall>it \<in> set ?items. \<forall>s \<in> set (recipe_steps_of recipes (oi_menu_item_id it)). step_fits s"
    using new_items_recipes(2) [OF known] by blast
  have task_ids: "map ft_id (concat ?chains) = map (fe_ids env) [?n..<?N]"
    unfolding order_chains_ids order_size_chains ..
  then have set_tasks: "ft_id ` set (concat ?chains) = set (map (fe_ids env) [?n..<?N])" by (metis list.set_map)
  have dist: "distinct (map ft_id (concat ?chains))" unfolding task_ids by (rule ids(1)) simp
  have old: "ft_id ` set (concat ?chains) \<inter> used_ids db = {}" unfolding set_tasks by (rule ids(2)) simp
  let ?db3 = "?db2\<lparr>f_tasks := f_tasks ?db2 @ concat ?chains\<rparr>"
  have 3: "insert_all insert_ftask (concat ?chains) ?db2 = Inr ?db3"
  proof (rule insert_all_ftasks_ok [OF dist])
    show "ft_id ` set (concat ?chains) \<inter> ft_id ` set (f_tasks ?db2) = {}" using old by (auto simp: used_ids_def)
    show "\<forall>t \<in> set (concat ?chains). ftask_fits t \<and> ftask_checks t \<and> ft_order_id t \<in> o_id ` set (f_orders ?db2)
        \<and> ft_order_item_id t \<in> oi_id ` set (f_items ?db2)"
    proof
      fix t assume t: "t \<in> set (concat ?chains)"
      have "\<forall>it \<in> set ?items. pg_int4 (oi_quantity it)" using new_items_fit [OF quant] by blast
      from chain_tasks_fit [OF t this steps] order_chain_tasks(1) [OF t]
      show "ftask_fits t \<and> ftask_checks t \<and> ft_order_id t \<in> o_id ` set (f_orders ?db2)
        \<and> ft_order_item_id t \<in> oi_id ` set (f_items ?db2)" by (auto simp: order_row_def)
    qed
  qed
  have "insert_all insert_tdep (concat (map chain_deps ?chains)) ?db3
      = Inr (?db3\<lparr>f_deps := f_deps ?db3 @ concat (map chain_deps ?chains)\<rparr>)"
  proof (rule insert_all_deps_ok)
    note deps = chains_deps_tasks [OF dist]
    show "distinct (concat (map chain_deps ?chains))" by (rule deps(1))
    have "td_task d \<in> used_ids db" if "d \<in> set (f_deps db)" for d
      using deps_of_stored [OF _ that] inv by (simp add: f_inv_def used_ids_def)
    then show "set (concat (map chain_deps ?chains)) \<inter> set (f_deps ?db3) = {}" using deps(2) old by fastforce
    show "\<forall>d \<in> set (concat (map chain_deps ?chains)). td_task d \<noteq> td_depends_on d
        \<and> td_task d \<in> ft_id ` set (f_tasks ?db3) \<and> td_depends_on d \<in> ft_id ` set (f_tasks ?db3)"
      using deps(2) by fastforce
  qed
  from that [OF store_order_run [OF 1 refl 2 built 3 this]] show ?thesis .
qed

section \<open>The second transaction\<close>

text \<open>A Redis server that answers every \<open>XADD\<close> with an entry id that fits its column.\<close>

definition redis_answers :: "redis \<Rightarrow> bool" where
  "redis_answers rd = (\<forall>n. \<exists>i. rd_script rd n = Xadd_ok i \<and> pg_text 128 i)"

lemma stream_name_fits:
  "pg_text 128 prefix \<Longrightarrow> pg_text 32 ty \<Longrightarrow> pg_text 255 (build_task_stream_name kid ty prefix)"
  by (auto simp: pg_text_def build_task_stream_name_def)

lemma publish_all_ok:
  assumes "redis_answers rd"
  shows "\<exists>ps rd'. publish_all cfg corr ord names ts rd = (Inr ps, rd') \<and> (\<forall>(t, s, i) \<in> set ps. pg_text 128 i)"
  using assms
proof (induction ts arbitrary: rd)
  case Nil
  then show ?case by simp
next
  case (Cons t ts)
  obtain i where i: "rd_script rd (rd_calls rd) = Xadd_ok i" "pg_text 128 i"
    using Cons.prems by (auto simp: redis_answers_def)
  obtain s rd1 where 1: "publish_task cfg corr t ord (names (ft_menu_item_id t)) rd = (Inr (s, i), rd1)" "rd_script rd1 = rd_script rd"
    by (simp add: publish_task_def xadd_def Let_def i)
  have "redis_answers rd1" using Cons.prems 1(2) by (simp add: redis_answers_def)
  from Cons.IH [OF this] obtain ps rd' where "publish_all cfg corr ord names ts rd1 = (Inr ps, rd')"
    "\<forall>(t, s, i) \<in> set ps. pg_text 128 i" by blast
  with 1 i show ?case by (intro exI [of _ "(t, s, i) # ps"] exI [of _ rd']) simp
qed

lemma mark_tasks_queued_ok:
  "\<forall>(t, s, i) \<in> set ps. pg_text 255 s \<and> pg_text 128 i \<Longrightarrow> \<exists>db'. mark_tasks_queued env ps db = Inr db'"
proof (induction ps arbitrary: db)
  case Nil
  then show ?case by simp
next
  case (Cons e ps)
  obtain t s i where "e = (t, s, i)" by (cases e) auto
  with Cons show ?case by simp
qed

lemma publish_and_queue_succeeds:
  assumes redis: "fs_redis_publish_enabled cfg \<Longrightarrow> redis_answers (fw_redis w) \<and> pg_text 128 (fs_stream_prefix cfg)"
    and fits: "\<forall>t \<in> set ts. pg_text 32 (ft_station_type t)"
  shows "\<exists>w'. publish_and_queue cfg env corr ord ts names w
     = (Inr (if fs_redis_publish_enabled cfg then length ts else 0), w')"
proof (cases "fs_redis_publish_enabled cfg")
  case False
  then show ?thesis by (simp add: publish_and_queue_def)
next
  case True
  note r = redis [OF True]
  obtain ps rd where pub: "publish_all cfg corr ord names ts (fw_redis w) = (Inr ps, rd)"
    and i: "\<forall>(t, s, i) \<in> set ps. pg_text 128 i" using publish_all_ok r by blast
  have ts: "map fst ps = ts" by (rule publish_all_tasks [OF pub])
  have "pg_text 255 s \<and> pg_text 128 i" if e: "(t, s, i) \<in> set ps" for t s i
  proof -
    have "t \<in> set ts" using e ts by force
    moreover have "s = build_task_stream_name (o_kitchen_id ord) (ft_station_type t) (fs_stream_prefix cfg)"
      using publish_all_entries [OF pub] e by auto
    ultimately show ?thesis using fits r i e by (auto intro: stream_name_fits)
  qed
  then obtain db where "mark_tasks_queued env ps (fw_db w) = Inr db" using mark_tasks_queued_ok by fastforce
  moreover have "length ps = length ts" using ts by (metis length_map)
  ultimately show ?thesis
    using True by (simp add: publish_and_queue_def pub Let_def split: prod.split)
qed

section \<open>The whole request\<close>

lemma create_order_ok:
  fixes p :: order_create
  assumes checks: "order_checks up p = Inr (recipes, names)" and inv: "f_inv (fw_db w)"
    and fits: "\<forall>i \<in> set (oc_items p). \<forall>r. recipes (ic_menu_item_id i) = Some r \<longrightarrow> (\<forall>s \<in> set (rc_steps r). step_fits s)"
    and quant: "\<forall>i \<in> set (oc_items p). 0 < ic_quantity i \<and> ic_quantity i < 2 ^ 31"
    and fresh: "fresh_ids env (Suc (length (oc_items p)) + order_size recipes p) (fw_db w)"
    and redis: "fs_redis_publish_enabled cfg \<Longrightarrow> redis_answers (fw_redis w) \<and> pg_text 128 (fs_stream_prefix cfg)"
  shows "\<exists>x w'. create_order cfg up env corr p w = (Inr x, w') \<and> oq_tasks_count x = order_size recipes p
     \<and> oq_queued_count x = (if fs_redis_publish_enabled cfg then order_size recipes p else 0)"
proof -
  note known = order_checks_known [OF checks]
  obtain so db where store: "store_order env p recipes (fw_db w) = Inr (so, db)"
    by (rule store_order_ok [OF inv _ quant fresh]) (use known fits in auto)
  have so: "so_tasks so = concat (order_chains (fe_ids env) (fe_db_now env) (o_id (so_order so)) recipes
        (Suc (length (so_items so))) (so_items so))" "so_items so = new_items env (o_id (new_order env p)) (Suc 0) (oc_items p)"
    by (rule store_order_Inr [OF store known], simp)+
  have types: "\<forall>t \<in> set (so_tasks so). pg_text 32 (ft_station_type t)"
    by (rule store_order_Inr [OF store known]) (simp add: ftask_fits_def)
  have len: "length (so_tasks so) = order_size recipes p"
    unfolding so by (rule order_size_chains)
  let ?w1 = "order_stored cfg env corr so db w"
  obtain w' where "publish_and_queue cfg env corr (so_order so) (so_tasks so) names ?w1
      = (Inr (if fs_redis_publish_enabled cfg then length (so_tasks so) else 0), w')"
    using publish_and_queue_succeeds [OF _ types, where cfg = cfg and w = ?w1 and env = env and corr = corr
        and ord = "so_order so" and names = names] redis by auto
  then show ?thesis
    by (simp add: create_order_def checks store len)
qed

end
