(* ===== verification/Menu_Placing.thy ===== *)
theory Menu_Placing
  imports Menu_Orders Fulfillment_Acceptance
begin

text \<open>
  Orders placed against the tables of the kitchen and the menu service: which orders are
  refused and why, that every other order goes through, and that its tasks are the recipes of
  the menu.
\<close>

section \<open>Verdicts\<close>

lemma menu_names_served:
  assumes ok: "menu_ok col0 db" and m: "orderable db kid mid"
  shows "menu_item_names (map (menu_snapshot_of \<circ> kitchen_menu_item_read) (kitchen_menu_query col kid False db)) mid
     = map_option mi_name (get_item_row db mid)"
proof -
  let ?q = "kitchen_menu_query col kid False db"
  let ?names = "rev (map (\<lambda>x. (mi_id (fst x), mi_name (fst x))) ?q)"
  have names: "menu_item_names (map (menu_snapshot_of \<circ> kitchen_menu_item_read) ?q) = map_of ?names"
    by (simp add: menu_item_names_def menu_snapshot_of_def kitchen_menu_item_read_def comp_def)
  have "distinct (map mi_id (sort_key (\<lambda>m. col_key col (mi_name m))
      (filter (\<lambda>m. mi_status m = Mi_active \<and> kitchen_availability db kid False m \<noteq> []) (md_items db))))"
    using menu_okD(1) [OF ok] by (auto simp: distinct_map intro: inj_on_subset)
  then have "distinct (map fst ?names)"
    by (simp add: rev_map [symmetric] comp_def kitchen_menu_query_def)
  moreover obtain x where x: "x \<in> set ?q" "mi_id (fst x) = mid"
    using kitchen_menu_ids [OF ok, of col kid mid] m by blast
  then have "(mid, mi_name (fst x)) \<in> set ?names" by force
  ultimately have "map_of ?names mid = Some (mi_name (fst x))" by (simp add: map_of_eq_Some_iff)
  moreover obtain y as where y: "x = (y, as)" by fastforce
  have "get_item_row db mid = Some y"
    by (rule kitchen_menu_members [OF ok x(1) [unfolded y]]) (use x(2) y in simp)
  ultimately show ?thesis by (simp add: names y)
qed

lemma verdict_NoneD:
  assumes "order_verdict kw db p = None" and "i \<in> set (oc_items p)"
  shows "orderable db (oc_kitchen_id p) (ic_menu_item_id i)" "list_by_menu_item db (ic_menu_item_id i) \<noteq> []"
proof -
  have "find (item_refused db (oc_kitchen_id p)) (oc_items p) = None"
    using assms(1) by (auto simp: order_verdict_def split: option.splits if_splits)
  with assms(2) show "orderable db (oc_kitchen_id p) (ic_menu_item_id i)" "list_by_menu_item db (ic_menu_item_id i) \<noteq> []"
    by (auto simp: find_None_iff item_refused_def)
qed

text \<open>
  C20. With the kitchen and the menu service answering, the answer to an order is the verdict on
  their tables: the kitchen must exist and be active, and the first item that is not on the
  kitchen's menu, or has no recipe, decides the error, with nothing stored. Otherwise
  the checks hand on the menu's recipe and name of every item.
\<close>

theorem order_answer_is_verdict:
  assumes "menu_ok col0 db" and "valid_order_create p"
  shows "case order_verdict kw db p of
      Some e \<Rightarrow> route_create_order cfg (services_upstream col kw db) env corr p w = (f_error_reply e, w)
    | None \<Rightarrow> \<exists>recipes names. order_checks (services_upstream col kw db) p = Inr (recipes, names)
        \<and> (\<forall>i \<in> set (oc_items p). recipes (ic_menu_item_id i) = Some (menu_recipe db (ic_menu_item_id i))
             \<and> names (ic_menu_item_id i) = map_option mi_name (get_item_row db (ic_menu_item_id i)))"
proof (cases "order_verdict kw db p")
  case (Some e)
  then show ?thesis
    using assms(2) by (simp add: route_create_order_def create_order_def order_checks_served [OF assms(1)] f_reply_def)
next
  case None
  then show ?thesis
    using menu_names_served [OF assms(1) verdict_NoneD(1) [OF None]]
    by (simp add: order_checks_served [OF assms(1)])
qed

section \<open>Orders that go through\<close>

lemma menu_steps_fit: "menu_ok col db \<Longrightarrow> s \<in> set (rc_steps (menu_recipe db mid)) \<Longrightarrow> step_fits s"
proof -
  assume ok: "menu_ok col db" and "s \<in> set (rc_steps (menu_recipe db mid))"
  then obtain r where r: "r \<in> set (md_steps db)" "s = recipe_step_of r"
    by (auto simp: menu_recipe_def recipe_of_def set_list_by_menu_item)
  have "pg_text 32 (menu_station_type_str ty)" for ty by (cases ty) (simp_all add: pg_text_def)
  with r menu_okD(5) [OF ok] show ?thesis by (auto simp: step_fits_def recipe_step_of_def recipe_row_ok_def)
qed

lemma menu_recipe_steps:
  assumes "menu_ok col db"
  shows "sort_key rp_step_order (rc_steps (menu_recipe db mid)) = map recipe_step_of (list_by_menu_item db mid)"
proof -
  have "map rp_step_order (rc_steps (menu_recipe db mid)) = map rs_step_order (list_by_menu_item db mid)"
    by (simp add: menu_recipe_def recipe_of_def recipe_step_of_def)
  moreover have "sorted (map rs_step_order (list_by_menu_item db mid))" by (simp add: list_by_menu_item_def)
  ultimately have "sort_key rp_step_order (rc_steps (menu_recipe db mid)) = rc_steps (menu_recipe db mid)"
    by (intro sort_key_id_if_sorted) simp
  then show ?thesis by (simp add: menu_recipe_def recipe_of_def)
qed

definition menu_order_size :: "mdb \<Rightarrow> order_create \<Rightarrow> nat" where
  "menu_order_size db p =
     sum_list (map (\<lambda>i. length (list_by_menu_item db (ic_menu_item_id i)) * nat (ic_quantity i)) (oc_items p))"

lemma menu_order_size:
  assumes "menu_ok col db" and "\<forall>i \<in> set (oc_items p). recipes (ic_menu_item_id i) = Some (menu_recipe db (ic_menu_item_id i))"
  shows "order_size recipes p = menu_order_size db p"
proof -
  have "length (recipe_steps_of recipes (ic_menu_item_id i)) = length (list_by_menu_item db (ic_menu_item_id i))"
    if "i \<in> set (oc_items p)" for i
    using assms that by (simp add: recipe_steps_of_def menu_recipe_steps)
  then show ?thesis
    unfolding order_size_def menu_order_size_def by (intro arg_cong [of _ _ sum_list] map_cong) simp_all
qed

lemma verdict_order_created:
  assumes "menu_ok col0 db" and "f_inv (fw_db w)" and "valid_order_create p" and "order_verdict kw db p = None"
    and "\<forall>i \<in> set (oc_items p). ic_quantity i < 2 ^ 31"
    and "fresh_ids env (Suc (length (oc_items p)) + menu_order_size db p) (fw_db w)"
    and "fs_redis_publish_enabled cfg \<Longrightarrow> redis_answers (fw_redis w) \<and> pg_text 128 (fs_stream_prefix cfg)"
  shows "\<exists>x w'. create_order cfg (services_upstream col kw db) env corr p w = (Inr x, w')
     \<and> oq_tasks_count x = menu_order_size db p
     \<and> oq_queued_count x = (if fs_redis_publish_enabled cfg then menu_order_size db p else 0)"
proof -
  obtain recipes names where checks: "order_checks (services_upstream col kw db) p = Inr (recipes, names)"
    and rec: "\<forall>i \<in> set (oc_items p). recipes (ic_menu_item_id i) = Some (menu_recipe db (ic_menu_item_id i))"
    using order_checks_served [OF assms(1), of col kw p] assms(4) by auto
  note size = menu_order_size [OF assms(1) rec]
  have "\<exists>x w'. create_order cfg (services_upstream col kw db) env corr p w = (Inr x, w')
     \<and> oq_tasks_count x = order_size recipes p
     \<and> oq_queued_count x = (if fs_redis_publish_enabled cfg then order_size recipes p else 0)"
    by (rule create_order_ok [OF checks assms(2)])
      (use assms rec menu_steps_fit in \<open>auto simp: size valid_order_create_def\<close>)
  then show ?thesis unfolding size .
qed


section \<open>What the kitchen is asked to cook\<close>

type_synonym work_columns = "uuid \<times> int \<times> string \<times> string \<times> int \<times> int"

definition task_columns :: "ftask \<Rightarrow> work_columns" where
  "task_columns t =
     (ft_menu_item_id t, ft_unit_index t, ft_station_type t, ft_operation t, ft_duration t, ft_step_order t)"

text \<open>The reference: for every item and every unit of it, the steps of the menu's recipe in order.\<close>

definition menu_work :: "mdb \<Rightarrow> order_create \<Rightarrow> work_columns list" where
  "menu_work db p =
     concat (map (\<lambda>i. concat (map (\<lambda>u. map (\<lambda>s.
         (ic_menu_item_id i, u, menu_station_type_str (rs_station_type s), rs_operation s, rs_duration s, rs_step_order s))
       (list_by_menu_item db (ic_menu_item_id i))) [1..ic_quantity i])) (oc_items p))"

definition order_work :: "fdb \<Rightarrow> uuid \<Rightarrow> work_columns list" where
  "order_work db oid = map task_columns (filter (\<lambda>t. ft_order_id t = oid) (f_tasks db))"

lemma unit_chain_work:
  "map task_columns (unit_chain ids now oid it u n steps) =
     map (\<lambda>s. (oi_menu_item_id it, u, rp_station_type s, rp_operation s, rp_duration s, rp_step_order s)) steps"
  by (induction steps arbitrary: n) (simp_all add: task_columns_def new_task_def)

lemma item_chains_work:
  "map task_columns (concat (item_chains ids now oid it steps n us)) =
     concat (map (\<lambda>u. map (\<lambda>s. (oi_menu_item_id it, u, rp_station_type s, rp_operation s, rp_duration s, rp_step_order s)) steps) us)"
  by (induction us arbitrary: n) (simp_all add: unit_chain_work)

lemma order_chains_work:
  assumes ok: "menu_ok col db" and rec: "\<forall>i \<in> set is. recipes (ic_menu_item_id i) = Some (menu_recipe db (ic_menu_item_id i))"
  shows "map task_columns (concat (order_chains ids now oid recipes n (new_items env oid' m is))) =
     concat (map (\<lambda>i. concat (map (\<lambda>u. map (\<lambda>s.
         (ic_menu_item_id i, u, menu_station_type_str (rs_station_type s), rs_operation s, rs_duration s, rs_step_order s))
       (list_by_menu_item db (ic_menu_item_id i))) [1..ic_quantity i])) is)"
  using rec
proof (induction "is" arbitrary: n m)
  case Nil
  then show ?case by simp
next
  case (Cons i "is")
  then have r: "recipes (ic_menu_item_id i) = Some (menu_recipe db (ic_menu_item_id i))" by simp
  show ?case
    using Cons
    by (simp add: r menu_recipe_steps [OF ok] item_chains_work Let_def recipe_step_of_def comp_def del: upto.simps)
qed

lemma mark_tasks_queued_column:
  assumes "mark_tasks_queued env ps db = Inr db'" and "\<And>a b c d t. g (queued_row a b c d t) = g t"
  shows "map g (f_tasks db') = map g (f_tasks db)"
  using assms(1)
proof (induction ps arbitrary: db)
  case Nil
  then show ?case by simp
next
  case (Cons e ps)
  obtain t s i where e: "e = (t, s, i)" by (cases e) auto
  have "map g (f_tasks db') = map g (f_tasks (upd_ftask (ft_id t) (queued_row (fe_now env) (fe_db_now env) s i) db))"
    by (rule Cons.IH) (use Cons.prems in \<open>simp add: e split: if_splits\<close>)
  also have "\<dots> = map g (f_tasks db)" by (rule ftask_tab.column_upd) (rule assms(2))
  finally show ?case .
qed

lemma order_work_columns:
  assumes "map (\<lambda>t. (ft_order_id t, task_columns t)) (f_tasks db) = map (\<lambda>t. (ft_order_id t, task_columns t)) (f_tasks db')"
  shows "order_work db oid = order_work db' oid"
proof -
  have work: "order_work d oid = map snd (filter (\<lambda>x. fst x = oid) (map (\<lambda>t. (ft_order_id t, task_columns t)) (f_tasks d)))" for d
    by (simp add: order_work_def filter_map comp_def)
  show ?thesis unfolding work assms ..
qed

lemma publish_and_queue_work:
  assumes "publish_and_queue cfg env corr ord ts names w = (r, w')"
  shows "order_work (fw_db w') oid = order_work (fw_db w) oid"
proof -
  have q: "task_columns (queued_row a b c d t) = task_columns t \<and> ft_order_id (queued_row a b c d t) = ft_order_id t" for a b c d t
    by (simp add: task_columns_def queued_row_def)
  show ?thesis
  proof (cases "fw_db w' = fw_db w")
    case True
    then show ?thesis by simp
  next
    case False
    then obtain ps where "mark_tasks_queued env ps (fw_db w) = Inr (fw_db w')"
      using assms by (auto simp: publish_and_queue_def split: if_splits prod.splits sum.splits)
    from mark_tasks_queued_column [OF this, of "\<lambda>t. (ft_order_id t, task_columns t)"] q
    show ?thesis by (intro order_work_columns) simp
  qed
qed

text \<open>
  C7. The tasks of a created order are exactly the menu's work for it: for each item, for each
  unit, the steps of the recipe that the menu service holds, in step order, with their
  station types, operations and durations, each once and nothing else.
\<close>

theorem order_tasks_follow_menu:
  assumes "menu_ok col0 db" and "f_inv (fw_db w)"
    and "create_order cfg (services_upstream col kw db) env corr p w = (Inr x, w')"
  shows "order_work (fw_db w') (o_id (oq_order x)) = menu_work db p"
  using assms(3)
proof (cases rule: create_order_run)
  case (stored recipes names so fdb q)
  note known = order_checks_known [OF stored(1)]
  have rec: "\<forall>i \<in> set (oc_items p). recipes (ic_menu_item_id i) = Some (menu_recipe db (ic_menu_item_id i))"
    using stored(1) by (auto simp: order_checks_served [OF assms(1)] split: option.splits)
  have so: "so_tasks so = concat (order_chains (fe_ids env) (fe_db_now env) (o_id (so_order so)) recipes
        (Suc (length (so_items so))) (so_items so))" "so_items so = new_items env (o_id (new_order env p)) (Suc 0) (oc_items p)"
    by (rule store_order_Inr [OF stored(2) known], simp)+
  note new = store_order_new [OF stored(2) known]
  have "ft_order_id t \<noteq> o_id (so_order so)" if "t \<in> set (f_tasks (fw_db w))" for t
    using fdb_okD(4) [OF _ that] assms(2) new(3) by (auto simp: f_inv_def)
  then have "filter (\<lambda>t. ft_order_id t = o_id (so_order so)) (f_tasks fdb) = so_tasks so"
    using new(5) by (simp add: new(2))
  then have "order_work fdb (o_id (so_order so)) = map task_columns (so_tasks so)"
    by (simp add: order_work_def)
  also have "\<dots> = menu_work db p"
    unfolding so menu_work_def by (rule order_chains_work [OF assms(1) rec])
  finally have "order_work (fw_db w') (o_id (so_order so)) = menu_work db p"
    using publish_and_queue_work [OF stored(3)] by simp
  moreover have "oq_order x = so_order so" using stored(4) by (cases q) auto
  ultimately show ?thesis by simp
qed (use assms(3) in simp_all)

end
