(* ===== verification/Menu_Demo.thy ===== *)
theory Menu_Demo
  imports Menu_Placing
begin

text \<open>
  Menu service: a small menu (a burger with two steps, available in one kitchen), created
  request by request, and the theorems on it; the order of the fulfillment demo placed
  against it.
\<close>

section \<open>The menu, request by request\<close>

definition mdemo_time :: pydatetime where
  "mdemo_time = \<lparr>dt_us = 63900000000000000, dt_off = Some 0\<rparr>"

definition mdemo_col :: collation where
  "mdemo_col = \<lparr>col_lower = (\<lambda>s. s), col_key = map of_char\<rparr>"

definition mdemo_env :: "uuid \<Rightarrow> menv" where
  "mdemo_env i = \<lparr>me_id = i, me_db_now = mdemo_time\<rparr>"

definition mdemo_burger :: menu_item_create where
  "mdemo_burger = \<lparr>mc_name = ''burger'', mc_description = None, mc_status = Mi_active\<rparr>"

definition mdemo_pack :: recipe_step_create where
  "mdemo_pack = \<lparr>sc_station_type = Mst_packaging, sc_operation = ''pack'', sc_duration = 20, sc_step_order = 2\<rparr>"

definition mdemo_cook :: recipe_step_create where
  "mdemo_cook = \<lparr>sc_station_type = Mst_grill, sc_operation = ''cook'', sc_duration = 60, sc_step_order = 1\<rparr>"

definition mdemo_db0 :: mdb where
  "mdemo_db0 = \<lparr>md_items = [new_menu_item (mdemo_env 9) mdemo_burger], md_avail = [], md_steps = []\<rparr>"

definition mdemo_db1 :: mdb where
  "mdemo_db1 = mdemo_db0\<lparr>md_steps := [new_recipe_step (mdemo_env 11) 9 mdemo_pack]\<rparr>"

definition mdemo_db2 :: mdb where
  "mdemo_db2 = mdemo_db0\<lparr>md_steps := [new_recipe_step (mdemo_env 11) 9 mdemo_pack, new_recipe_step (mdemo_env 12) 9 mdemo_cook]\<rparr>"

definition mdemo_db :: mdb where
  "mdemo_db = mdemo_db2\<lparr>md_avail := [new_availability (mdemo_env 0) 7 9 True]\<rparr>"

lemma mdemo_item: "m_create_menu_item mdemo_col (mdemo_env 9) mdemo_burger empty_mdb
    = (Inr (new_menu_item (mdemo_env 9) mdemo_burger), mdemo_db0)"
  by (simp add: m_create_menu_item_def insert_menu_item_def empty_mdb_def mdemo_db0_def new_menu_item_def
      mdemo_burger_def pg_text_def Let_def)

lemma mdemo_row: "get_item_row mdemo_db0 9 = Some (new_menu_item (mdemo_env 9) mdemo_burger)"
  "get_item_row mdemo_db1 9 = Some (new_menu_item (mdemo_env 9) mdemo_burger)"
  "get_item_row mdemo_db2 9 = Some (new_menu_item (mdemo_env 9) mdemo_burger)"
  "get_item_row mdemo_db 9 = Some (new_menu_item (mdemo_env 9) mdemo_burger)"
  by (simp_all add: get_item_row_def mdemo_db0_def mdemo_db1_def mdemo_db2_def mdemo_db_def new_menu_item_def mdemo_env_def)

lemma mdemo_step1: "m_create_recipe_step (mdemo_env 11) 9 mdemo_pack mdemo_db0
    = (Inr (new_recipe_step (mdemo_env 11) 9 mdemo_pack), mdemo_db1)"
  by (simp add: m_create_recipe_step_def m_get_menu_item_def mdemo_row Let_def insert_recipe_step_def
      new_recipe_step_def mdemo_pack_def pg_text_def pg_int4_def)
    (simp add: mdemo_db0_def mdemo_db1_def new_menu_item_def new_recipe_step_def mdemo_env_def mdemo_pack_def)

lemma mdemo_step2: "m_create_recipe_step (mdemo_env 12) 9 mdemo_cook mdemo_db1
    = (Inr (new_recipe_step (mdemo_env 12) 9 mdemo_cook), mdemo_db2)"
  by (simp add: m_create_recipe_step_def m_get_menu_item_def mdemo_row Let_def insert_recipe_step_def
      new_recipe_step_def mdemo_cook_def pg_text_def pg_int4_def)
    (simp add: mdemo_db0_def mdemo_db1_def mdemo_db2_def new_menu_item_def new_recipe_step_def mdemo_env_def mdemo_pack_def mdemo_cook_def)

text \<open>Two upserts for the same kitchen and item that have both read nothing.\<close>

definition mdemo_upsert :: "bool \<Rightarrow> upsert_request" where
  "mdemo_upsert b = \<lparr>uq_env = mdemo_env 0, uq_kitchen = 7, uq_item = 9, uq_avail = b, uq_found = None\<rparr>"

lemma mdemo_avail: "get_availability_row mdemo_db2 k = None"
  "get_availability_row mdemo_db k = (if k = (7, 9) then Some (new_availability (mdemo_env 0) 7 9 True) else None)"
  by (auto simp: get_availability_row_def mdemo_db_def mdemo_db2_def mdemo_db0_def av_key_def new_availability_def)

lemma mdemo_upserted: "run_upsert (mdemo_upsert True) mdemo_db2 = (Inr (new_availability (mdemo_env 0) 7 9 True), mdemo_db)"
  by (simp add: run_upsert_def mdemo_upsert_def upsert_commit_def upsert_write_def insert_availability_def)
    (simp add: mdemo_db_def mdemo_db2_def mdemo_db0_def get_availability_row_def av_key_def new_availability_def
      new_menu_item_def mdemo_env_def)

definition mdemo_conc :: "mdb \<Rightarrow> upsert_request list \<Rightarrow> mconc" where
  "mdemo_conc db qs = \<lparr>mx_db = db, mx_pending = qs\<rparr>"

lemma mdemo_conc_simps [simp]: "mx_db (mdemo_conc db qs) = db" "mx_pending (mdemo_conc db qs) = qs"
  by (simp_all add: mdemo_conc_def)

lemma mdemo_reach2: "reach menu_init (mstep mdemo_col) (mdemo_conc mdemo_db2 [])"
proof -
  have 0: "reach menu_init (mstep mdemo_col) (mdemo_conc empty_mdb [])"
    by (rule reach_init) (simp add: menu_init_def mdemo_conc_def)
  have 1: "mstep mdemo_col (mdemo_conc empty_mdb []) (mdemo_conc mdemo_db0 [])"
    using ms_item [of mdemo_col "mdemo_env 9" mdemo_burger "mdemo_conc empty_mdb []"] mdemo_item
    by (simp add: mdemo_conc_def)
  have 2: "mstep mdemo_col (mdemo_conc mdemo_db0 []) (mdemo_conc mdemo_db1 [])"
    using ms_step [of "mdemo_env 11" 9 mdemo_pack "mdemo_conc mdemo_db0 []"] mdemo_step1
    by (simp add: mdemo_conc_def)
  have 3: "mstep mdemo_col (mdemo_conc mdemo_db1 []) (mdemo_conc mdemo_db2 [])"
    using ms_step [of "mdemo_env 12" 9 mdemo_cook "mdemo_conc mdemo_db1 []"] mdemo_step2
    by (simp add: mdemo_conc_def)
  show ?thesis by (rule reach_step [OF reach_step [OF reach_step [OF 0 1] 2] 3])
qed

lemma mdemo_reach_pending:
  "reach menu_init (mstep mdemo_col) (mdemo_conc mdemo_db2 [mdemo_upsert True, mdemo_upsert False])"
proof -
  have read: "mstep mdemo_col (mdemo_conc mdemo_db2 qs) (mdemo_conc mdemo_db2 (qs @ [mdemo_upsert b]))" for qs b
    using ms_upsert_read [of "mdemo_upsert b" "mdemo_conc mdemo_db2 qs" _ mdemo_col]
    by (simp add: mdemo_upsert_def m_get_menu_item_def mdemo_row mdemo_avail mdemo_conc_def)
  show ?thesis
    using reach_step [OF reach_step [OF mdemo_reach2 read [of "[]" True, simplified]]
        read [of "[mdemo_upsert True]" False, simplified]] .
qed

lemma mdemo_reach: "reach menu_init (mstep mdemo_col) (mdemo_conc mdemo_db [mdemo_upsert False])"
  using reach_step [OF mdemo_reach_pending
      ms_upsert_write [of "mdemo_conc mdemo_db2 [mdemo_upsert True, mdemo_upsert False]" "[]"]] mdemo_upserted
  by (simp add: mdemo_conc_def)

lemma mdemo_ok: "menu_ok mdemo_col mdemo_db" "menu_ok mdemo_col mdemo_db1"
  using mx_reach_ok [OF mdemo_reach] by simp
    (simp add: menu_ok_def mdemo_db1_def mdemo_db0_def new_menu_item_def new_recipe_step_def mdemo_env_def
      recipe_row_ok_def pg_text_def pg_int4_def mdemo_pack_def)

section \<open>The theorems on it\<close>

lemma mdemo_recipe:
  "list_by_menu_item mdemo_db1 9 = [new_recipe_step (mdemo_env 11) 9 mdemo_pack]"
  "list_by_menu_item mdemo_db 9 = [new_recipe_step (mdemo_env 12) 9 mdemo_cook, new_recipe_step (mdemo_env 11) 9 mdemo_pack]"
  by (simp_all add: list_by_menu_item_def mdemo_db1_def mdemo_db_def mdemo_db2_def mdemo_db0_def new_recipe_step_def
      mdemo_cook_def mdemo_pack_def)

theorem recipe_served_in_order_witness:
  "\<exists>r. route_get_recipe uuid_parse (uuid_str 9) mdemo_db = Reply 200 r \<and> map rs_operation (rr_steps r) = [''cook'', ''pack'']
     \<and> sorted_wrt (<) (map rs_step_order (rr_steps r))"
proof -
  let ?r = "\<lparr>rr_menu_item_id = 9, rr_steps = list_by_menu_item mdemo_db 9\<rparr>"
  have served: "route_get_recipe uuid_parse (uuid_str 9) (mx_db (mdemo_conc mdemo_db [mdemo_upsert False])) = Reply 200 ?r"
    by (simp add: route_get_recipe_Reply mdemo_row)
  have "map rs_operation (rr_steps ?r) = [''cook'', ''pack'']"
    by (simp add: mdemo_recipe new_recipe_step_def mdemo_cook_def mdemo_pack_def)
  with recipe_served_in_order [OF mdemo_reach served] served show ?thesis by (intro exI [of _ ?r]) simp
qed

theorem recipe_step_roundtrip_witness:
  "m_get_recipe 9 mdemo_db2 = Inr \<lparr>rr_menu_item_id = 9,
     rr_steps = [new_recipe_step (mdemo_env 12) 9 mdemo_cook, new_recipe_step (mdemo_env 11) 9 mdemo_pack]\<rparr>"
  using recipe_step_roundtrip [OF mdemo_ok(2) mdemo_step2]
  by (simp add: mdemo_recipe) (simp add: new_recipe_step_def mdemo_cook_def mdemo_pack_def)

theorem availability_roundtrip_witness:
  "orderable mdemo_db 7 9 \<and> (\<exists>a db'. m_upsert_availability (mdemo_env 0) 7 9 False mdemo_db = (Inr a, db') \<and> \<not> orderable db' 7 9)"
proof -
  have "orderable mdemo_db 7 9"
    by (simp add: orderable_def mdemo_row mdemo_avail) (simp add: new_menu_item_def mdemo_burger_def new_availability_def)
  with availability_roundtrip [OF mdemo_ok(1) mdemo_row(4), of "mdemo_env 0" 7 False] show ?thesis by auto
qed

theorem first_upserts_race_witness:
  "\<exists>a db1. run_upsert (mdemo_upsert True) mdemo_db2 = (Inr a, db1)
     \<and> run_upsert (mdemo_upsert False) db1 = (Inl (MDatabaseError IntegrityError), db1)"
  using first_upserts_race [OF mdemo_reach_pending, of "mdemo_upsert True" "mdemo_upsert False"]
  by (auto simp: mdemo_upsert_def mdemo_avail)

section \<open>An order against it\<close>

definition mdemo_kitchen :: kitchen where
  "mdemo_kitchen = \<lparr>k_id = 7, k_name = ''k'', k_status = Kitchen_active, k_created_at = mdemo_time, k_updated_at = mdemo_time\<rparr>"

definition mdemo_kw :: kworld where
  "mdemo_kw = \<lparr>kw_db = \<lparr>kitchens = [mdemo_kitchen], stations = [], kds_tasks = []\<rparr>,
     kw_mongo = \<lparr>m_docs = [], m_script = []\<rparr>, kw_metrics = empty_metrics\<rparr>"

lemma mdemo_orderable: "orderable mdemo_db 7 9"
  by (simp add: orderable_def mdemo_row mdemo_avail) (simp add: new_menu_item_def mdemo_burger_def new_availability_def)

lemma mdemo_verdict:
  "order_verdict mdemo_kw mdemo_db fdemo_order = None"
  "order_verdict mdemo_kw mdemo_db1 fdemo_order = Some MenuItemNotAvailableError"
proof -
  have k: "get_kitchen_row (kw_db mdemo_kw) 7 = Some mdemo_kitchen"
    by (simp add: mdemo_kw_def get_kitchen_row_def mdemo_kitchen_def)
  have "\<not> orderable mdemo_db1 7 9"
    by (simp add: orderable_def mdemo_row) (simp add: mdemo_db1_def mdemo_db0_def get_availability_row_def)
  with k mdemo_orderable show
    "order_verdict mdemo_kw mdemo_db fdemo_order = None"
    "order_verdict mdemo_kw mdemo_db1 fdemo_order = Some MenuItemNotAvailableError"
    by (simp_all add: order_verdict_def fdemo_order_def item_refused_def mdemo_recipe) (simp_all add: mdemo_kitchen_def)
qed

theorem order_answer_is_verdict_witness:
  "route_create_order fdemo_cfg (services_upstream mdemo_col mdemo_kw mdemo_db1) fdemo_env None fdemo_order fdemo_world
     = (f_error_reply MenuItemNotAvailableError, fdemo_world)"
  using order_answer_is_verdict [OF mdemo_ok(2) fdemo_valid, where kw = mdemo_kw] by (simp add: mdemo_verdict)

lemma mdemo_size: "menu_order_size mdemo_db fdemo_order = 4"
  by (simp add: menu_order_size_def fdemo_order_def mdemo_recipe)

lemma mdemo_fresh: "fresh_ids fdemo_env 6 empty_fdb"
proof -
  have "{..<6} = {0, 1, 2, 3, 4, 5 :: nat}" by auto
  then show ?thesis by (simp add: fresh_ids_def used_ids_def empty_fdb_def fdemo_env_def inj_on_def)
qed

lemma mdemo_assms:
  "f_inv (fw_db fdemo_world)" "\<forall>i \<in> set (oc_items fdemo_order). ic_quantity i < 2 ^ 31"
  "fresh_ids fdemo_env (Suc (length (oc_items fdemo_order)) + menu_order_size mdemo_db fdemo_order) (fw_db fdemo_world)"
  "redis_answers (fw_redis fdemo_world) \<and> pg_text 128 (fs_stream_prefix fdemo_cfg)"
proof -
  have "length (oc_items fdemo_order) = 1" by (simp add: fdemo_order_def)
  then show "fresh_ids fdemo_env (Suc (length (oc_items fdemo_order)) + menu_order_size mdemo_db fdemo_order) (fw_db fdemo_world)"
    using mdemo_fresh by (simp add: mdemo_size fdemo_world_def)
qed (simp_all add: fdemo_world_def f_inv_def fdb_ok_def deps_forward_def empty_fdb_def fdemo_order_def redis_answers_def
    fdemo_cfg_def pg_text_def)


theorem order_tasks_follow_menu_witness:
  "\<exists>x w'. create_order fdemo_cfg (services_upstream mdemo_col mdemo_kw mdemo_db) fdemo_env None fdemo_order fdemo_world = (Inr x, w')
     \<and> order_work (fw_db w') (o_id (oq_order x)) =
         [(9, 1, ''grill'', ''cook'', 60, 1), (9, 1, ''packaging'', ''pack'', 20, 2),
          (9, 2, ''grill'', ''cook'', 60, 1), (9, 2, ''packaging'', ''pack'', 20, 2)]"
proof -
  obtain x w' where run: "create_order fdemo_cfg (services_upstream mdemo_col mdemo_kw mdemo_db) fdemo_env None fdemo_order fdemo_world = (Inr x, w')"
    using verdict_order_created [OF mdemo_ok(1) mdemo_assms(1) fdemo_valid mdemo_verdict(1) mdemo_assms(2,3,4)] by blast
  have units: "[1..2] = [1, 2 :: int]" by (simp add: upto_rec1)
  have "menu_work mdemo_db fdemo_order =
         [(9, 1, ''grill'', ''cook'', 60, 1), (9, 1, ''packaging'', ''pack'', 20, 2),
          (9, 2, ''grill'', ''cook'', 60, 1), (9, 2, ''packaging'', ''pack'', 20, 2)]"
    by (simp add: menu_work_def fdemo_order_def mdemo_recipe units)
      (simp add: new_recipe_step_def mdemo_cook_def mdemo_pack_def)
  with run order_tasks_follow_menu [OF mdemo_ok(1) mdemo_assms(1) run] show ?thesis by auto
qed

end
