(* ===== verification/Common_Http.thy ===== *)
theory Common_Http
  imports Py_Text
begin

text \<open>
  The library \<open>dk_common\<close>: correlation ids (\<open>correlation.py\<close>), HTTP metrics (\<open>metrics.py\<close>), log
  records (\<open>logging.py\<close>), health (\<open>health.py\<close>) and errors (\<open>errors.py\<close>), and the stack of
  middlewares every service builds from them in \<open>main.py\<close>.
\<close>

section \<open>Context variables and headers\<close>

record cvars =
  cx_correlation_id :: "string option"
  cx_request_id :: "string option"

definition correlation_header :: string where
  "correlation_header = ''x-correlation-id''"

definition request_header :: string where
  "request_header = ''x-request-id''"

text \<open>
  Header names arrive in lower case, and lookups and assignments convert theirs; the list holds them in
  order. An assignment replaces the first entry and drops the others.
\<close>

type_synonym headers = "(string \<times> string) list"

definition header_get :: "string \<Rightarrow> headers \<Rightarrow> string option" where
  "header_get h hs = map_of hs h"

fun header_set :: "string \<Rightarrow> string \<Rightarrow> headers \<Rightarrow> headers" where
  "header_set h v [] = [(h, v)]"
| "header_set h v ((k, x) # hs) =
     (if k = h then (h, v) # filter (\<lambda>e. fst e \<noteq> h) hs else (k, x) # header_set h v hs)"

lemma header_get_set [simp]: "header_get k (header_set h v hs) = (if k = h then Some v else header_get k hs)"
proof -
  have "map_of (filter (\<lambda>e. fst e \<noteq> h) hs) k = (if k = h then None else map_of hs k)" for hs :: headers
    by (induction hs) auto
  then show ?thesis by (induction h v hs rule: header_set.induct) (auto simp: header_get_def)
qed

record http_request =
  hq_method :: string
  hq_path :: string
  hq_headers :: headers

record 'b http_response =
  hp_status :: nat
  hp_headers :: headers
  hp_body :: 'b

text \<open>
  An application maps a request, the context and its state to a response, or to none when an
  exception leaves it.
\<close>

type_synonym ('s, 'b) app = "http_request \<Rightarrow> cvars \<times> 's \<Rightarrow> 'b http_response option \<times> cvars \<times> 's"

section \<open>Correlation ids\<close>

text \<open>\<open>request.headers.get(h) or _new_id()\<close>: an absent or empty header gives a new identifier.\<close>

definition header_or_new :: "string \<Rightarrow> uuid \<Rightarrow> http_request \<Rightarrow> string" where
  "header_or_new h new req =
     (case header_get h (hq_headers req) of
        None \<Rightarrow> uuid_str new
      | Some v \<Rightarrow> if v = [] then uuid_str new else v)"

definition correlation_dispatch :: "uuid \<times> uuid \<Rightarrow> ('s, 'b) app \<Rightarrow> ('s, 'b) app" where
  "correlation_dispatch new app req st =
     (let (ctx, s) = st;
          c = header_or_new correlation_header (fst new) req;
          r = header_or_new request_header (snd new) req;
          (resp, ctx1, s1) = app req (ctx\<lparr>cx_correlation_id := Some c, cx_request_id := Some r\<rparr>, s);
          ctx2 = ctx1\<lparr>cx_correlation_id := cx_correlation_id ctx, cx_request_id := cx_request_id ctx\<rparr>
      in case resp of
           None \<Rightarrow> (None, ctx2, s1)
         | Some x \<Rightarrow>
             (Some (x\<lparr>hp_headers := header_set request_header r (header_set correlation_header c (hp_headers x))\<rparr>),
              ctx2, s1))"

text \<open>The headers of an outgoing request (\<open>correlation_headers\<close> of the service clients).\<close>

definition outgoing_headers :: "cvars \<Rightarrow> headers" where
  "outgoing_headers ctx =
     (case cx_correlation_id ctx of None \<Rightarrow> [] | Some c \<Rightarrow> if c = [] then [] else [(correlation_header, c)])
     @ (case cx_request_id ctx of None \<Rightarrow> [] | Some r \<Rightarrow> if r = [] then [] else [(request_header, r)])"

section \<open>HTTP metrics\<close>

text \<open>
  The route a router matches is decided by the framework: \<open>rt\<close> gives the path template it
  leaves in the scope of the request.
\<close>

definition path_template :: "(http_request \<Rightarrow> string option) \<Rightarrow> http_request \<Rightarrow> string" where
  "path_template rt req =
     (case rt req of None \<Rightarrow> hq_path req | Some p \<Rightarrow> if p = [] then hq_path req else p)"

definition record_http_request ::
    "string \<Rightarrow> string \<Rightarrow> string \<Rightarrow> nat \<Rightarrow> real \<Rightarrow> metrics \<Rightarrow> metrics" where
  "record_http_request service method path status dur mt =
     observe_hist ''http_request_duration_seconds'' [service, method, path] dur
       (inc_counter ''http_requests_total'' [service, method, path, nat_str status] mt)"

definition prometheus_http_metrics ::
    "string \<Rightarrow> (http_request \<Rightarrow> string option) \<Rightarrow> real \<Rightarrow> ('s, 'b) app \<Rightarrow> (metrics \<times> 's, 'b) app" where
  "prometheus_http_metrics service rt dur app req st =
     (let (ctx, mt, s) = st; (resp, ctx1, s1) = app req (ctx, s)
      in case resp of
           None \<Rightarrow> (None, ctx1, mt, s1)
         | Some x \<Rightarrow>
             (Some x, ctx1, record_http_request service (hq_method req) (path_template rt req) (hp_status x) dur mt, s1))"

section \<open>The stack\<close>

text \<open>
  The framework's outermost layer answers an exception with a bare 500. Inside it come, in this order, the
  metrics (added last), the correlation ids, and the router with the exception handlers of the service.
\<close>

definition server_errors :: "'b \<Rightarrow> ('s, 'b) app \<Rightarrow> http_request \<Rightarrow> cvars \<times> 's \<Rightarrow> 'b http_response \<times> cvars \<times> 's" where
  "server_errors internal app req st =
     (case app req st of
        (None, st1) \<Rightarrow> (\<lparr>hp_status = 500, hp_headers = [], hp_body = internal\<rparr>, st1)
      | (Some x, st1) \<Rightarrow> (x, st1))"

definition create_app ::
    "string \<Rightarrow> (http_request \<Rightarrow> string option) \<Rightarrow> real \<Rightarrow> uuid \<times> uuid \<Rightarrow> 'b \<Rightarrow> ('s, 'b) app
      \<Rightarrow> http_request \<Rightarrow> cvars \<times> metrics \<times> 's \<Rightarrow> 'b http_response \<times> cvars \<times> metrics \<times> 's" where
  "create_app service rt dur new internal router =
     server_errors internal (prometheus_http_metrics service rt dur (correlation_dispatch new router))"

text \<open>
  A router from a handler of the model: it reads the correlation id of the context, and an
  unhandled exception of the handler leaves it.
\<close>

definition routed :: "(http_request \<Rightarrow> string option \<Rightarrow> 's \<Rightarrow> 'b reply \<times> 's) \<Rightarrow> ('s, 'b reply) app" where
  "routed handler req st =
     (let (ctx, s) = st; (rep, s1) = handler req (cx_correlation_id ctx) s
      in (if rep = Server_error then None
          else Some \<lparr>hp_status = reply_status rep, hp_headers = [], hp_body = rep\<rparr>, ctx, s1))"

section \<open>Logging\<close>

text \<open>A Python \<open>dict\<close> keeps the place of a key that is assigned again.\<close>

fun dict_set :: "string \<Rightarrow> 'v \<Rightarrow> (string \<times> 'v) list \<Rightarrow> (string \<times> 'v) list" where
  "dict_set k v [] = [(k, v)]"
| "dict_set k v ((k', v') # d) = (if k' = k then (k, v) # d else (k', v') # dict_set k v d)"

definition dict_setdefault :: "string \<Rightarrow> 'v \<Rightarrow> (string \<times> 'v) list \<Rightarrow> (string \<times> 'v) list" where
  "dict_setdefault k v d = (case map_of d k of None \<Rightarrow> dict_set k v d | Some _ \<Rightarrow> d)"

lemma map_of_dict_set [simp]: "map_of (dict_set k v d) = (map_of d)(k \<mapsto> v)"
  by (induction k v d rule: dict_set.induct) auto

lemma map_of_dict_setdefault [simp]:
  "map_of (dict_setdefault k v d) = (case map_of d k of None \<Rightarrow> (map_of d)(k \<mapsto> v) | Some _ \<Rightarrow> map_of d)"
  by (simp add: dict_setdefault_def split: option.split)

record log_record =
  lg_time :: pydatetime
  lg_level :: string
  lg_message :: string
  lg_extra :: jdoc

definition add_context :: "string \<Rightarrow> string \<Rightarrow> cvars \<Rightarrow> log_record \<Rightarrow> log_record" where
  "add_context service environment ctx r =
     r\<lparr>lg_extra :=
        dict_set ''request_id'' (jopt JStr (cx_request_id ctx))
          (dict_set ''correlation_id'' (jopt JStr (cx_correlation_id ctx))
            (dict_setdefault ''environment'' (JStr environment)
              (dict_setdefault ''service'' (JStr service) (lg_extra r))))\<rparr>"

definition log_keys :: "string list" where
  "log_keys = [''order_id'', ''task_id'', ''station_id'', ''worker_id'', ''kds_task_id'', ''operation'', ''event'', ''error'']"

text \<open>\<open>record["time"].astimezone(timezone.utc)\<close>; \<open>extra.get(key)\<close> is null when the key is absent.\<close>

definition extra_get :: "jdoc \<Rightarrow> string \<Rightarrow> jval" where
  "extra_get d k = (case map_of d k of None \<Rightarrow> JNull | Some v \<Rightarrow> v)"

definition json_sink :: "log_record \<Rightarrow> jdoc" where
  "json_sink r =
     (let extra = lg_extra r
      in [(''timestamp'', JIso (dt_utc (dt_instant (lg_time r)))),
          (''level'', JStr (lg_level r)),
          (''service'', extra_get extra ''service''),
          (''environment'', extra_get extra ''environment''),
          (''message'', JStr (lg_message r)),
          (''correlation_id'', extra_get extra ''correlation_id''),
          (''request_id'', extra_get extra ''request_id'')]
         @ concat (map (\<lambda>k. case map_of extra k of None \<Rightarrow> [] | Some v \<Rightarrow> [(k, v)]) log_keys))"

text \<open>\<open>configure_logging\<close> installs the patcher and, for the format json, the sink above.\<close>

definition py_quoted :: "string \<Rightarrow> string" where
  "py_quoted s = CHR 0x27 # s @ [CHR 0x27]"

definition configure_logging ::
    "string \<Rightarrow> string \<Rightarrow> string \<Rightarrow> string + (cvars \<Rightarrow> log_record \<Rightarrow> log_record)" where
  "configure_logging service environment log_format =
     (if log_format \<notin> {''json'', ''readable''} then Inl (''log_format must be either '' @ py_quoted ''json'' @ '' or '' @ py_quoted ''readable'')
      else Inr (add_context service environment))"

section \<open>Health, errors, settings\<close>

definition build_health_response :: "string \<Rightarrow> string \<Rightarrow> string option \<Rightarrow> jdoc" where
  "build_health_response service environment version =
     [(''status'', JStr ''ok''), (''service'', JStr service), (''environment'', JStr environment),
      (''version'', jopt JStr version)]"

datatype dk_error_class = DKCommonError | ConfigurationError | ExternalServiceError | HealthCheckError

fun dk_error_code :: "dk_error_class \<Rightarrow> string" where
  "dk_error_code DKCommonError = ''dk_common_error''"
| "dk_error_code ConfigurationError = ''configuration_error''"
| "dk_error_code ExternalServiceError = ''external_service_error''"
| "dk_error_code HealthCheckError = ''health_check_error''"

definition dk_to_dict :: "dk_error_class \<Rightarrow> string \<Rightarrow> jdoc option \<Rightarrow> jdoc" where
  "dk_to_dict cls message details =
     [(''error'', JStr (dk_error_code cls)), (''message'', JStr message)]
     @ (case details of None \<Rightarrow> [] | Some d \<Rightarrow> [(''details'', JObj d)])"

section \<open>What the stack guarantees\<close>

lemma header_or_new_nonempty [simp]: "header_or_new h u req \<noteq> []"
proof -
  have "uuid_str u \<noteq> []" using length_uuid_str [of u] by (metis length_greater_0_conv zero_less_numeral)
  then show ?thesis by (simp add: header_or_new_def split: option.split)
qed

lemma headers_differ [simp]: "correlation_header \<noteq> request_header" "request_header \<noteq> correlation_header"
  by (simp_all add: correlation_header_def request_header_def)

text \<open>
  C35. Every request of every service is answered by exactly what its handler returns, run with the
  caller's correlation id (or a new one), and the context is restored afterwards. A
  handled request is counted once, under its status, and its response carries both ids. A request that
  ends in an unhandled exception is answered with a 500 that carries no id and is counted nowhere.
\<close>

theorem request_is_observed:
  fixes handler :: "http_request \<Rightarrow> string option \<Rightarrow> 's \<Rightarrow> 'b reply \<times> 's" and ctx ctx' :: cvars
  assumes run: "create_app service rt dur new internal (routed handler) req (ctx, mt, s) = (resp, ctx', mt', s')"
    and rep: "handler req (Some (header_or_new correlation_header (fst new) req)) s = (rep, s1)"
  shows "s' = s1 \<and> ctx' = ctx \<and>
    (if rep = Server_error then hp_status resp = 500 \<and> hp_headers resp = [] \<and> mt' = mt
     else hp_status resp = reply_status rep \<and> hp_body resp = rep
       \<and> header_get correlation_header (hp_headers resp) = Some (header_or_new correlation_header (fst new) req)
       \<and> header_get request_header (hp_headers resp) = Some (header_or_new request_header (snd new) req)
       \<and> (\<forall>k. mt_counters mt' k = mt_counters mt k + of_bool
            (k = (''http_requests_total'', [service, hq_method req, path_template rt req, nat_str (reply_status rep)]))))"
  using run
  by (auto simp: create_app_def server_errors_def prometheus_http_metrics_def correlation_dispatch_def routed_def
      rep Let_def record_http_request_def header_get_def)

text \<open>
  The request a handler sends on carries its ids, so that the next service runs its handler with the same ones; and
  every log line written meanwhile names them.
\<close>

lemma ids_travel:
  assumes "cx_correlation_id ctx = Some (header_or_new correlation_header u req)"
    and "cx_request_id ctx = Some (header_or_new request_header v req)"
    and "hq_headers req' = outgoing_headers ctx"
  shows "header_or_new correlation_header u' req' = header_or_new correlation_header u req"
    "header_or_new request_header v' req' = header_or_new request_header v req"
  using assms by (simp_all add: header_or_new_def [of _ _ req'] outgoing_headers_def header_get_def)

lemma log_lines_name_ids:
  "map_of (json_sink (add_context service environment ctx r)) ''correlation_id'' = Some (jopt JStr (cx_correlation_id ctx))"
  "map_of (json_sink (add_context service environment ctx r)) ''request_id'' = Some (jopt JStr (cx_request_id ctx))"
  by (simp_all add: json_sink_def add_context_def Let_def extra_get_def split: option.split)

definition cdemo_request :: http_request where
  "cdemo_request = \<lparr>hq_method = ''GET'', hq_path = ''/x'', hq_headers = [(''x-correlation-id'', ''abc'')]\<rparr>"

theorem request_is_observed_witness:
  "\<exists>resp mt'. create_app ''demo'' (\<lambda>_. None) 0 (1, 2) Server_error (routed (\<lambda>_ c s. (Reply 200 c, s))) cdemo_request
       (\<lparr>cx_correlation_id = None, cx_request_id = None\<rparr>, empty_metrics, ())
       = (resp, \<lparr>cx_correlation_id = None, cx_request_id = None\<rparr>, mt', ())
     \<and> header_get correlation_header (hp_headers resp) = Some ''abc'' \<and> hp_body resp = Reply 200 (Some ''abc'')
     \<and> mt_counters mt' (''http_requests_total'', [''demo'', ''GET'', ''/x'', nat_str 200]) = 1"
proof -
  let ?app = "create_app ''demo'' (\<lambda>_. None) 0 (1, 2) Server_error (routed (\<lambda>_ c s. (Reply 200 c, s))) cdemo_request
       (\<lparr>cx_correlation_id = None, cx_request_id = None\<rparr>, empty_metrics, ())"
  obtain resp ctx' mt' s' where run: "?app = (resp, ctx', mt', s')" by (metis prod_cases4)
  have id: "header_or_new correlation_header (fst (1, 2)) cdemo_request = ''abc''"
    by (simp add: header_or_new_def header_get_def correlation_header_def cdemo_request_def)
  have "path_template (\<lambda>_. None) cdemo_request = ''/x''" "hq_method cdemo_request = ''GET''"
    by (simp_all add: path_template_def cdemo_request_def)
  with request_is_observed [OF run refl] run id show ?thesis
    by (intro exI [of _ resp] exI [of _ mt']) (simp add: empty_metrics_def)
qed

end
