(* ===== verification/Fulfillment_Done.thy ===== *)
theory Fulfillment_Done
  imports Fulfillment_Ready_Props
begin

text \<open>
  Fulfillment service: what the locks the code takes do guarantee of an order that is ready
  for pickup: it has tasks, all of them are done, and this stays so.
\<close>

section \<open>What a step does to the orders\<close>

text \<open>Orders are not removed, get no further tasks and no task is undone.\<close>

definition progress_kept :: "fdb \<Rightarrow> fdb \<Rightarrow> bool" where
  "progress_kept db db' = (\<forall>r \<in> set (f_orders db). o_id r \<in> o_id ` set (f_orders db')
     \<and> unfinished db' (o_id r) \<le> unfinished db (o_id r) \<and> has_tasks db' (o_id r) = has_tasks db (o_id r))"

definition none_readied :: "fdb \<Rightarrow> fdb \<Rightarrow> bool" where
  "none_readied db db' = (\<forall>r' \<in> set (f_orders db'). o_status r' = Ord_ready_for_pickup \<longrightarrow>
     (\<exists>r \<in> set (f_orders db). o_id r = o_id r' \<and> o_status r = Ord_ready_for_pickup))"

lemma progress_kept_same:
  "f_orders db' = f_orders db \<Longrightarrow> (\<And>oid. unfinished db' oid = unfinished db oid \<and> has_tasks db' oid = has_tasks db oid) \<Longrightarrow>
     progress_kept db db' \<and> none_readied db db'"
  by (auto simp: progress_kept_def none_readied_def)

lemma order_status_ids: "o_id ` set (f_orders (set_order_status now r st db)) = o_id ` set (f_orders db)"
proof -
  have "map o_id (f_orders (set_order_status now r st db)) = map o_id (f_orders db)"
    by (simp add: orders_set_order_status map_key_update_row [where g = o_id])
  then show ?thesis by (metis list.set_map)
qed

lemma order_status_rows:
  "x \<in> set (f_orders (set_order_status now r st db)) \<Longrightarrow>
     x \<in> set (f_orders db) \<or> (\<exists>y \<in> set (f_orders db). o_id y = o_id x \<and> o_id x = o_id r \<and> o_status x = st)"
  by (auto simp: orders_set_order_status update_row_def split: if_splits)

section \<open>The invariant\<close>

text \<open>
  An order that is ready is done, and a completion that will make its order ready has counted
  no other unfinished task.
\<close>

definition ready_done :: "fconc \<Rightarrow> bool" where
  "ready_done k =
     (let db = fw_db (fx_world k)
      in (\<forall>r \<in> set (f_orders db). o_status r = Ord_ready_for_pickup \<longrightarrow> has_tasks db (o_id r) \<and> unfinished db (o_id r) = 0)
         \<and> (\<forall>(p, c) \<in> set (fx_open k). cm_ready c \<longrightarrow> unfinished db (ft_order_id (cm_task c)) \<le> 1))"

lemma open_order:
  assumes "fconc_inv lock_order k" and "(p, c) \<in> set (fx_open k)"
  shows "\<exists>r \<in> set (f_orders (fw_db (fx_world k))). o_id r = ft_order_id (cm_task c)"
proof -
  have "open_ok lock_order (fw_db (fx_world k)) c" "fdb_ok (fw_db (fx_world k))"
    using assms by (auto simp: fconc_inv_def f_inv_def)
  then show ?thesis using fdb_okD(4) ftask_tab.get_member by (fastforce simp: open_ok_def)
qed

lemma ready_done_keep:
  assumes inv: "fconc_inv lock_order k" and rd: "ready_done k"
    and p: "progress_kept (fw_db (fx_world k)) (fw_db (fx_world k')) \<and> none_readied (fw_db (fx_world k)) (fw_db (fx_world k'))"
    and op: "set (fx_open k') \<subseteq> set (fx_open k)"
  shows "ready_done k'"
proof -
  have "unfinished (fw_db (fx_world k')) (ft_order_id (cm_task c)) \<le> 1" if c: "(q, c) \<in> set (fx_open k')" "cm_ready c" for q c
  proof -
    obtain r where "r \<in> set (f_orders (fw_db (fx_world k)))" "o_id r = ft_order_id (cm_task c)"
      using open_order [OF inv] c op by blast
    moreover have "unfinished (fw_db (fx_world k)) (ft_order_id (cm_task c)) \<le> 1"
      using rd c op by (auto simp: ready_done_def Let_def)
    ultimately show ?thesis using p by (force simp: progress_kept_def)
  qed
  moreover have "has_tasks (fw_db (fx_world k')) (o_id r') \<and> unfinished (fw_db (fx_world k')) (o_id r') = 0"
    if r': "r' \<in> set (f_orders (fw_db (fx_world k')))" "o_status r' = Ord_ready_for_pickup" for r'
  proof -
    obtain r where r: "r \<in> set (f_orders (fw_db (fx_world k)))" "o_id r = o_id r'" "o_status r = Ord_ready_for_pickup"
      using p r' by (auto simp: none_readied_def)
    then have "has_tasks (fw_db (fx_world k)) (o_id r) \<and> unfinished (fw_db (fx_world k)) (o_id r) = 0"
      using rd by (auto simp: ready_done_def Let_def)
    then show ?thesis using p r by (force simp: progress_kept_def)
  qed
  ultimately show ?thesis by (auto simp: ready_done_def Let_def)
qed

section \<open>Step by step\<close>

lemma kept_displayed:
  assumes inv: "fconc_inv lock_order k" and run: "mark_displayed cfg env corr tid p (fx_world k) = (res, w)"
  shows "progress_kept (fw_db (fx_world k)) (fw_db w) \<and> none_readied (fw_db (fx_world k)) (fw_db w)"
proof -
  have f: "f_inv (fw_db (fx_world k))" using inv by (simp add: fconc_inv_def)
  from mark_displayed_db [OF run] show ?thesis
  proof (elim disjE exE conjE)
    fix t r assume load: "load_task (fw_db (fx_world k)) tid = Some (t, r)" and st: "can_transition (ft_status t) Tk_displayed"
      and db: "fw_db w = save_task (fe_db_now env) (displayed_task p t) (fw_db (fx_world k))"
    have "same_progress tid (fw_db (fx_world k)) (fw_db w)"
      unfolding db by (rule save_unfinished [OF f load]) (use st in auto)
    then show ?thesis by (intro progress_kept_same) (simp_all add: db same_progress_def)
  qed (simp add: progress_kept_same)
qed

lemma kept_failed:
  assumes inv: "fconc_inv lock_order k" and run: "dispatch_failed cfg env corr tid p (fx_world k) = (res, w)"
  shows "progress_kept (fw_db (fx_world k)) (fw_db w) \<and> none_readied (fw_db (fx_world k)) (fw_db w)"
proof -
  have f: "f_inv (fw_db (fx_world k))" using inv by (simp add: fconc_inv_def)
  from dispatch_failed_db [OF run] show ?thesis
  proof (elim disjE exE conjE)
    fix t r assume load: "load_task (fw_db (fx_world k)) tid = Some (t, r)" and st: "can_transition (ft_status t) Tk_failed"
      and db: "fw_db w = save_task (fe_db_now env) (failed_task (df_attempts p) t) (fw_db (fx_world k))"
    have "same_progress tid (fw_db (fx_world k)) (fw_db w)"
      unfolding db by (rule save_unfinished [OF f load]) (use st in auto)
    then show ?thesis by (intro progress_kept_same) (simp_all add: db same_progress_def)
  qed (simp add: progress_kept_same)
qed

lemma kept_start:
  assumes inv: "fconc_inv lock_order k" and run: "start_task cfg env corr tid p (fx_world k) = (res, w)"
  shows "progress_kept (fw_db (fx_world k)) (fw_db w) \<and> none_readied (fw_db (fx_world k)) (fw_db w)"
proof -
  let ?db = "fw_db (fx_world k)"
  have f: "f_inv ?db" using inv by (simp add: fconc_inv_def)
  from start_task_db [OF run] show ?thesis
  proof (elim disjE exE conjE)
    fix t r sla assume load: "load_task ?db tid = Some (t, r)" and st: "can_transition (ft_status t) Tk_in_progress"
      and db: "fw_db w = set_order_status (fe_db_now env) r Ord_cooking (save_task (fe_db_now env) (started_task p sla t) ?db)"
    have "same_progress tid ?db (fw_db w)"
      unfolding db by (rule cook_unfinished [OF f load]) (use st in auto)
    moreover have "o_id ` set (f_orders (fw_db w)) = o_id ` set (f_orders ?db)" by (simp add: db order_status_ids)
    ultimately have "progress_kept ?db (fw_db w)" by (simp add: progress_kept_def same_progress_def)
    moreover have "none_readied ?db (fw_db w)"
      unfolding none_readied_def db by (auto dest!: order_status_rows)
    ultimately show ?thesis by blast
  qed (simp add: progress_kept_same)
qed

lemma kept_store:
  assumes checks: "order_checks up p = Inr (recipes, names)"
    and run: "store_order env p recipes db = Inr (so, db')"
  shows "progress_kept db db' \<and> none_readied db db'"
proof -
  note n = store_order_new [OF run order_checks_known [OF checks]]
  have "unfinished db' (o_id r) = unfinished db (o_id r) \<and> has_tasks db' (o_id r) = has_tasks db (o_id r)"
    if "r \<in> set (f_orders db)" for r
    by (rule unfinished_appended [OF n(2)]) (use n(3,5) that in force)
  then show ?thesis using n(1,4) by (auto simp: progress_kept_def none_readied_def order_row_def)
qed

lemma kept_queue:
  assumes inv: "fconc_inv lock_order k" and k: "fx_pub k = xs @ (so, names) # ys"
    and run: "publish_and_queue cfg env corr (so_order so) (so_tasks so) names (fx_world k) = (res, w)"
  shows "progress_kept (fw_db (fx_world k)) (fw_db w) \<and> none_readied (fw_db (fx_world k)) (fw_db w)"
  using run
proof (rule publish_and_queue_db)
  fix ps assume ps: "map fst ps = so_tasks so" and mark: "mark_tasks_queued env ps (fw_db (fx_world k)) = Inr (fw_db w)"
  show ?thesis using queue_marks [OF inv k ps mark] by (intro progress_kept_same) auto
qed (simp add: progress_kept_same)

lemma commit_progress:
  assumes inv: "fconc_inv lock_order k" and k: "fx_open k = xs @ (p, c) # ys"
  shows "unfinished (complete_apply env c (fw_db (fx_world k))) oid + of_bool (oid = ft_order_id (cm_task c))
       = unfinished (fw_db (fx_world k)) oid"
    "has_tasks (complete_apply env c (fw_db (fx_world k))) oid = has_tasks (fw_db (fx_world k)) oid"
    "has_tasks (fw_db (fx_world k)) (ft_order_id (cm_task c))"
proof -
  let ?db = "fw_db (fx_world k)"
  have ok: "fdb_ok ?db" and o: "open_ok lock_order ?db c" using inv k by (auto simp: fconc_inv_def f_inv_def)
  obtain t where t: "get_ftask_row ?db (ft_id (cm_task c)) = Some t" "ft_order_id (cm_task c) = ft_order_id t"
    "ft_status t = Tk_in_progress" "ft_status (cm_task c) = Tk_done" using o by (auto simp: open_ok_def)
  have "unfinished (save_task (fe_db_now env) (cm_task c) ?db) oid + of_bool (oid = ft_order_id (cm_task c)) = unfinished ?db oid"
    using unfinished_save_task [OF ok t(1,2), of "fe_db_now env" oid] t(3,4) by (auto simp: eq_commute)
  moreover have "has_tasks (save_task (fe_db_now env) (cm_task c) ?db) oid = has_tasks ?db oid"
    by (rule has_tasks_save_task [OF t(1) ok t(2)])
  ultimately show "unfinished (complete_apply env c ?db) oid + of_bool (oid = ft_order_id (cm_task c)) = unfinished ?db oid"
    "has_tasks (complete_apply env c ?db) oid = has_tasks ?db oid"
    by (simp_all add: complete_apply_def Let_def unfinished_def has_tasks_def)
  show "has_tasks ?db (ft_order_id (cm_task c))"
    using ftask_tab.get_member [OF t(1)] t(2) by (auto simp: has_tasks_def)
qed

lemma kept_commit:
  assumes inv: "fconc_inv lock_order k" and k: "fx_open k = xs @ (p, c) # ys"
  shows "progress_kept (fw_db (fx_world k)) (complete_apply env c (fw_db (fx_world k)))"
proof -
  let ?db = "fw_db (fx_world k)"
  have "unfinished (complete_apply env c ?db) oid \<le> unfinished ?db oid" for oid
    using commit_progress(1) [OF inv k, of env oid] by linarith
  moreover have "o_id ` set (f_orders (complete_apply env c ?db)) = o_id ` set (f_orders ?db)"
    by (simp add: complete_apply_def Let_def order_status_ids)
  ultimately show ?thesis using commit_progress(2) [OF inv k] by (simp add: progress_kept_def)
qed

lemma ready_done_commit:
  assumes inv: "fconc_inv lock_order k" and rd: "ready_done k" and k: "fx_open k = xs @ (p, c) # ys"
    and w: "fw_db w = complete_apply env c (fw_db (fx_world k))"
  shows "ready_done (k\<lparr>fx_world := w, fx_open := xs @ ys\<rparr>)"
proof -
  let ?db = "fw_db (fx_world k)"
  let ?db1 = "save_task (fe_db_now env) (cm_task c) ?db"
  note kept = kept_commit [OF inv k, of env]
  show ?thesis
  proof (cases "cm_ready c")
    case False
    then have "none_readied ?db (fw_db w)" by (auto simp: w complete_apply_def none_readied_def)
    with kept show ?thesis by (intro ready_done_keep [OF inv rd]) (auto simp: w k)
  next
    case True
    have oid: "o_id (cm_order c) = ft_order_id (cm_task c)" using inv k by (auto simp: fconc_inv_def open_ok_def)
    have "unfinished ?db (ft_order_id (cm_task c)) \<le> 1" using rd True k by (auto simp: ready_done_def Let_def)
    then have zero: "unfinished (fw_db w) (ft_order_id (cm_task c)) = 0"
      using commit_progress(1) [OF inv k, of env "ft_order_id (cm_task c)"] by (simp add: w)
    have "has_tasks (fw_db w) (o_id r) \<and> unfinished (fw_db w) (o_id r) = 0"
      if r: "r \<in> set (f_orders (fw_db w))" "o_status r = Ord_ready_for_pickup" for r
    proof (cases "o_id r = ft_order_id (cm_task c)")
      case True
      then show ?thesis using zero commit_progress(2,3) [OF inv k] by (simp add: w)
    next
      case False
      then have "r \<in> set (f_orders ?db)"
        using r(1) oid order_status_rows [of r "fe_db_now env" "cm_order c" Ord_ready_for_pickup ?db1]
        by (auto simp: w complete_apply_def Let_def split: if_splits)
      then show ?thesis using rd r(2) kept by (force simp: ready_done_def progress_kept_def w Let_def)
    qed
    moreover have "unfinished (fw_db w) (ft_order_id (cm_task d)) \<le> 1" if d: "(q, d) \<in> set (xs @ ys)" "cm_ready d" for q d
    proof -
      have "unfinished ?db (ft_order_id (cm_task d)) \<le> 1" using rd d k by (auto simp: ready_done_def Let_def)
      then show ?thesis using commit_progress(1) [OF inv k, of env "ft_order_id (cm_task d)"] by (simp add: w)
    qed
    ultimately show ?thesis by (auto simp: ready_done_def Let_def)
  qed
qed

lemma ready_done_prepare:
  assumes inv: "fconc_inv lock_order k" and rd: "ready_done k"
    and run: "complete_prepare env tid p (fw_db (fx_world k)) = Inr (Inr c)"
  shows "ready_done (k\<lparr>fx_open := (p, c) # fx_open k\<rparr>)"
proof -
  let ?db = "fw_db (fx_world k)"
  have ok: "fdb_ok ?db" using inv by (simp add: fconc_inv_def f_inv_def)
  obtain t r where load: "load_task ?db tid = Some (t, r)"
    and c: "ft_id (cm_task c) = ft_id t" "ft_order_id (cm_task c) = ft_order_id t" "ft_status (cm_task c) = Tk_done"
    and ready: "cm_ready c \<longleftrightarrow> unfinished (save_task (fe_db_now env) (cm_task c) ?db) (ft_order_id t) = 0"
    by (rule complete_prepare_ok [OF run]) simp
  have "get_ftask_row ?db (ft_id (cm_task c)) = Some t" using load_task_SomeD(1,2) [OF load] c by simp
  from unfinished_save_task [OF ok this c(2), of "fe_db_now env" "ft_order_id t"]
  have "cm_ready c \<longrightarrow> unfinished ?db (ft_order_id (cm_task c)) \<le> 1" using ready c by (simp add: of_bool_def split: if_splits)
  then show ?thesis using rd by (auto simp: ready_done_def Let_def)
qed

text \<open>The two facts of every step.\<close>

lemma step_kept:
  "fstep lock_order cfg k k' \<Longrightarrow> fconc_inv lock_order k \<Longrightarrow> progress_kept (fw_db (fx_world k)) (fw_db (fx_world k'))"
proof (induction rule: fstep.induct)
  case (f_store p up recipes names env k so db corr)
  then show ?case using kept_store [OF f_store(2,3)] by (simp add: order_stored_def Let_def)
next
  case (f_commit k xs p c ys env corr)
  then show ?case using kept_commit [OF f_commit(2,1)] by simp
qed (use kept_displayed kept_failed kept_start kept_queue in \<open>auto simp: progress_kept_def\<close>)

lemma step_ready_done:
  "fstep lock_order cfg k k' \<Longrightarrow> fconc_inv lock_order k \<Longrightarrow> ready_done k \<Longrightarrow> ready_done k'"
proof (induction rule: fstep.induct)
  case (f_store p up recipes names env k so db corr)
  show ?case
    by (rule ready_done_keep [OF f_store(4,5)]) (use kept_store [OF f_store(2,3)] in \<open>simp_all add: order_stored_def Let_def\<close>)
next
  case (f_queue k xs so names ys env corr res w)
  show ?case by (rule ready_done_keep [OF f_queue(3,4)]) (use kept_queue [OF f_queue(3,1,2)] in simp_all)
next
  case (f_displayed tid k env corr p res w)
  show ?case by (rule ready_done_keep [OF f_displayed(3,4)]) (use kept_displayed [OF f_displayed(3,2)] in simp_all)
next
  case (f_start tid k env corr p res w)
  show ?case by (rule ready_done_keep [OF f_start(3,4)]) (use kept_start [OF f_start(3,2)] in simp_all)
next
  case (f_failed tid k env corr p res w)
  show ?case by (rule ready_done_keep [OF f_failed(3,4)]) (use kept_failed [OF f_failed(3,2)] in simp_all)
next
  case (f_prepare tid k env p c)
  show ?case by (rule ready_done_prepare [OF f_prepare(4,5,2)])
next
  case (f_commit k xs p c ys env corr)
  show ?case by (rule ready_done_commit [OF f_commit(2,3,1)]) simp
next
  case (f_abort k xs p c ys)
  then show ?case by (auto simp: ready_done_def Let_def)
next
  case (f_crash k xs e ys)
  then show ?case by (simp add: ready_done_def)
qed

interpretation ful_ready: stable_system finit "fstep lock_order cfg" "fconc_inv lock_order" ready_done
  by unfold_locales (rule step_ready_done)

section \<open>From then on\<close>

definition order_done :: "uuid \<Rightarrow> fconc \<Rightarrow> bool" where
  "order_done oid k = (let db = fw_db (fx_world k)
     in oid \<in> o_id ` set (f_orders db) \<and> has_tasks db oid \<and> unfinished db oid = 0)"

lemma step_order_done:
  assumes "fconc_inv lock_order k" and "fstep lock_order cfg k k'" and "order_done oid k"
  shows "order_done oid k'"
  using step_kept [OF assms(2,1)] assms(3) by (fastforce simp: order_done_def progress_kept_def Let_def)

interpretation ful_done: stable_system finit "fstep lock_order cfg" "fconc_inv lock_order" "order_done oid"
  by unfold_locales (rule step_order_done)

lemma reach_ready_done: "reach finit (fstep lock_order cfg) k \<Longrightarrow> ready_done k"
proof (induction rule: reach.induct)
  case (reach_init k)
  then show ?case by (simp add: finit_def ready_done_def empty_fdb_def)
next
  case (reach_step k k')
  then show ?case by (blast intro: step_ready_done ful_sys.reach_inv)
qed

lemma ready_order_done:
  assumes "reach finit (fstep lock_order cfg) k" and "r \<in> set (f_orders (fw_db (fx_world k)))"
    and "o_status r = Ord_ready_for_pickup"
  shows "order_done (o_id r) k"
  using reach_ready_done [OF assms(1)] assms(2,3) by (auto simp: ready_done_def order_done_def Let_def)

text \<open>
  C2. With the locks the code takes, an order that is ready for pickup has tasks and all of
  them are done, and they stay done whatever requests follow: no order is announced too
  early.
\<close>

theorem ready_order_is_done:
  fixes k k' :: fconc
  assumes "reach finit (fstep False cfg) k" and "r \<in> set (f_orders (fw_db (fx_world k)))"
    and "o_status r = Ord_ready_for_pickup" and "(fstep False cfg)\<^sup>*\<^sup>* k k'"
  shows "(\<exists>t \<in> set (f_tasks (fw_db (fx_world k'))). ft_order_id t = o_id r)
    \<and> (\<forall>t \<in> set (f_tasks (fw_db (fx_world k'))). ft_order_id t = o_id r \<longrightarrow> ft_status t = Tk_done)"
proof -
  have "order_done (o_id r) k'"
    by (rule ful_done.steps_stable [OF assms(4) ful_sys.reach_inv [OF assms(1)] ready_order_done [OF assms(1-3)]])
  then show ?thesis by (auto simp: order_done_def has_tasks_def unfinished_def count_rows_zero_iff Let_def)
qed

text \<open>The order of the demo, its two tasks completed one after the other.\<close>

definition fdemo_last :: completion where
  "fdemo_last = \<lparr>cm_task = fdemo_finished 4 2, cm_order = (new_order fdemo_env fdemo_order)\<lparr>o_status := Ord_cooking\<rparr>,
     cm_ready = True, cm_count = 2\<rparr>"

lemma fdemo_reach_ready:
  "\<exists>k r. reach finit (fstep False fdemo_cfg) k \<and> r \<in> set (f_orders (fw_db (fx_world k)))
     \<and> o_id r = 1 \<and> o_status r = Ord_ready_for_pickup"
proof -
  let ?R = "reach finit (fstep False fdemo_cfg)"
  let ?f = "\<lambda>i u. (fdemo_finished i u)\<lparr>ft_updated_at := fdemo_time\<rparr>"
  obtain k where k: "?R k" "fw_db (fx_world k) = fdemo_db Ord_cooking [fdemo_started 3 1, fdemo_started 4 2]"
    "fx_open k = []" using fdemo_reach_cooking by blast
  let ?a = "(fdemo_finish 3, fdemo_miss 3 1)" and ?b = "(fdemo_finish 4, fdemo_last)"
  let ?k1 = "k\<lparr>fx_open := [?a]\<rparr>"
  have "fstep False fdemo_cfg k (k\<lparr>fx_open := ?a # fx_open k\<rparr>)"
    by (rule f_prepare [where tid = 3 and env = fdemo_env]) (simp_all add: locked_tasks_def k fdemo_miss_prepare)
  with k have r1: "?R ?k1" by (auto intro: reach_step)
  let ?w2 = "complete_effects fdemo_cfg fdemo_env None (fdemo_finish 3) (fdemo_miss 3 1)
      ((fx_world k)\<lparr>fw_db := complete_apply fdemo_env (fdemo_miss 3 1) (fw_db (fx_world k))\<rparr>)"
  let ?k2 = "k\<lparr>fx_world := ?w2, fx_open := []\<rparr>"
  have "fstep False fdemo_cfg ?k1 (?k1\<lparr>fx_world := ?w2, fx_open := [] @ []\<rparr>)"
    using f_commit [of ?k1 "[]" "fdemo_finish 3" "fdemo_miss 3 1" "[]" False fdemo_cfg fdemo_env None] by simp
  with r1 have r2: "?R ?k2" by (auto dest: reach_step)
  have db2: "fw_db ?w2 = fdemo_db Ord_cooking [?f 3 1, fdemo_started 4 2]" by (simp add: k fdemo_miss_apply)
  have "complete_prepare fdemo_env 4 (fdemo_finish 4) (fw_db ?w2) = Inr (Inr fdemo_last)"
    unfolding db2
    by (subst fdemo_finish_prepare [where u = 2], simp, simp add: pg_int4_def)
      (simp add: fdemo_last_def all_order_tasks_done_def completed_order_tasks_count_def fdemo_db_def)
  then have "fstep False fdemo_cfg ?k2 (?k2\<lparr>fx_open := ?b # fx_open ?k2\<rparr>)"
    by (intro f_prepare [where tid = 4 and env = fdemo_env]) (simp_all add: locked_tasks_def)
  with r2 have r3: "?R (?k2\<lparr>fx_open := [?b]\<rparr>)" by (auto dest: reach_step)
  let ?w4 = "complete_effects fdemo_cfg fdemo_env None (fdemo_finish 4) fdemo_last
      (?w2\<lparr>fw_db := complete_apply fdemo_env fdemo_last (fw_db ?w2)\<rparr>)"
  have "fstep False fdemo_cfg (?k2\<lparr>fx_open := [?b]\<rparr>) (?k2\<lparr>fx_open := [?b], fx_world := ?w4, fx_open := [] @ []\<rparr>)"
    using f_commit [of "?k2\<lparr>fx_open := [?b]\<rparr>" "[]" "fdemo_finish 4" fdemo_last "[]" False fdemo_cfg fdemo_env None] by simp
  with r3 have r4: "?R (?k2\<lparr>fx_open := [?b], fx_world := ?w4, fx_open := [] @ []\<rparr>)" by (rule reach_step)
  have env: "fe_db_now fdemo_env = fdemo_time" by (simp add: fdemo_env_def)
  have "fw_db ?w4 = complete_apply fdemo_env fdemo_last (fw_db ?w2)" by simp
  also have "\<dots> = fdemo_db Ord_ready_for_pickup [?f 3 1, ?f 4 2]"
    unfolding db2 by (simp add: complete_apply_def fdemo_last_def fdemo_save(1) fdemo_cook env)
  finally have "\<exists>r \<in> set (f_orders (fw_db ?w4)). o_id r = 1 \<and> o_status r = Ord_ready_for_pickup"
    by (simp add: fdemo_db_def new_order_def fdemo_env_def)
  with r4 show ?thesis by (intro exI [of _ "?k2\<lparr>fx_open := [?b], fx_world := ?w4, fx_open := [] @ []\<rparr>"]) auto
qed

theorem ready_order_is_done_witness:
  "\<exists>k r t. reach finit (fstep False fdemo_cfg) k \<and> r \<in> set (f_orders (fw_db (fx_world k)))
     \<and> o_status r = Ord_ready_for_pickup \<and> t \<in> set (f_tasks (fw_db (fx_world k))) \<and> ft_order_id t = o_id r \<and> ft_status t = Tk_done"
proof -
  obtain k r where k: "reach finit (fstep False fdemo_cfg) k" "r \<in> set (f_orders (fw_db (fx_world k)))"
    "o_status r = Ord_ready_for_pickup" using fdemo_reach_ready by blast
  from ready_order_is_done [OF k rtranclp.rtrancl_refl] k show ?thesis by blast
qed

end
