(* ===== verification/Demo_Seed.thy ===== *)
theory Demo_Seed
  imports Menu_Demo Simulator_Config
begin

text \<open>
  The script \<open>src/scripts/demo/seed_demo_data.py\<close>, which sets up the demo through the public APIs: a
  kitchen, two stations, a dish with its recipe, and its availability. Every request may be
  lost on the way there or back, which ends the script.
\<close>

section \<open>Requests\<close>

datatype seed_net = Sn_ok | Sn_refused | Sn_unanswered

text \<open>
  What ends the script: an error of the connection, or the \<open>RuntimeError\<close> of a failed action
  with the status it reports.
\<close>

datatype seed_error = Seed_network_error | Seed_failed string nat

record seed_env =
  sv_cfg :: ksettings
  sv_col :: collation
  sv_kenv :: "nat \<Rightarrow> kenv"
  sv_menv :: "nat \<Rightarrow> menv"
  sv_net :: "nat \<Rightarrow> seed_net"

record seed_state =
  se_kitchen :: kworld
  se_menu :: mdb
  se_calls :: nat

type_synonym 'a seeding = "seed_state \<Rightarrow> (seed_error + 'a) \<times> seed_state"

definition seed_return :: "'a \<Rightarrow> 'a seeding" where
  "seed_return a s = (Inr a, s)"

definition seed_raise :: "seed_error \<Rightarrow> 'a seeding" where
  "seed_raise e s = (Inl e, s)"

definition seed_bind :: "'a seeding \<Rightarrow> ('a \<Rightarrow> 'b seeding) \<Rightarrow> 'b seeding" where
  "seed_bind m f s = (case m s of (Inl e, s1) \<Rightarrow> (Inl e, s1) | (Inr a, s1) \<Rightarrow> f a s1)"

definition request_json :: "seed_env \<Rightarrow> (nat \<Rightarrow> seed_state \<Rightarrow> 'b reply \<times> seed_state) \<Rightarrow> 'b reply seeding" where
  "request_json env serve s =
     (let n = se_calls s; (r, s1) = serve n s
      in case sv_net env n of
           Sn_ok \<Rightarrow> (Inr r, s1\<lparr>se_calls := Suc n\<rparr>)
         | Sn_refused \<Rightarrow> (Inl Seed_network_error, s\<lparr>se_calls := Suc n\<rparr>)
         | Sn_unanswered \<Rightarrow> (Inl Seed_network_error, s1\<lparr>se_calls := Suc n\<rparr>))"

definition ensure_success :: "'b reply \<Rightarrow> string \<Rightarrow> 'b seeding" where
  "ensure_success r action =
     (case r of
        Reply c b \<Rightarrow> if c \<in> {200, 201} then seed_return b else seed_raise (Seed_failed action c)
      | _ \<Rightarrow> seed_raise (Seed_failed action (reply_status r)))"

definition find_by_name :: "('r \<Rightarrow> string) \<Rightarrow> 'r list \<Rightarrow> string \<Rightarrow> 'r option" where
  "find_by_name name_of items name = find (\<lambda>x. name_of x = name) items"

section \<open>The requests of the script\<close>

definition on_kitchen :: "(kworld \<Rightarrow> 'b reply \<times> kworld) \<Rightarrow> seed_state \<Rightarrow> 'b reply \<times> seed_state" where
  "on_kitchen f s = (let (r, kw) = f (se_kitchen s) in (r, s\<lparr>se_kitchen := kw\<rparr>))"

definition on_menu :: "(mdb \<Rightarrow> 'b reply \<times> mdb) \<Rightarrow> seed_state \<Rightarrow> 'b reply \<times> seed_state" where
  "on_menu f s = (let (r, db) = f (se_menu s) in (r, s\<lparr>se_menu := db\<rparr>))"

definition post_kitchen :: "seed_env \<Rightarrow> kitchen_create \<Rightarrow> kitchen reply seeding" where
  "post_kitchen env p = request_json env (\<lambda>n. on_kitchen (route_create_kitchen (sv_kenv env n) p))"

definition get_kitchens :: "seed_env \<Rightarrow> kitchen list reply seeding" where
  "get_kitchens env = request_json env (\<lambda>n. on_kitchen (\<lambda>w. (route_list_kitchens w, w)))"

definition post_station :: "seed_env \<Rightarrow> string \<Rightarrow> station_create \<Rightarrow> station reply seeding" where
  "post_station env kid p = request_json env (\<lambda>n. on_kitchen (route_create_station (sv_cfg env) (sv_kenv env n) kid p))"

definition get_stations :: "seed_env \<Rightarrow> string \<Rightarrow> station list reply seeding" where
  "get_stations env kid = request_json env (\<lambda>n. on_kitchen (\<lambda>w. (route_list_stations kid None w, w)))"

definition get_menu_items :: "seed_env \<Rightarrow> menu_item list reply seeding" where
  "get_menu_items env = request_json env (\<lambda>n. on_menu (\<lambda>db. (route_list_menu_items (sv_col env) None 500 0 db, db)))"

definition post_menu_item :: "seed_env \<Rightarrow> menu_item_create \<Rightarrow> menu_item reply seeding" where
  "post_menu_item env p = request_json env (\<lambda>n. on_menu (route_create_menu_item (sv_col env) (sv_menv env n) p))"

definition fetch_recipe :: "seed_env \<Rightarrow> string \<Rightarrow> recipe_read reply seeding" where
  "fetch_recipe env mid = request_json env (\<lambda>n. on_menu (\<lambda>db. (route_get_recipe uuid_parse mid db, db)))"

definition post_recipe_step :: "seed_env \<Rightarrow> string \<Rightarrow> recipe_step_create \<Rightarrow> recipe_row reply seeding" where
  "post_recipe_step env mid p = request_json env (\<lambda>n. on_menu (route_create_recipe_step uuid_parse (sv_menv env n) mid p))"

definition post_availability :: "seed_env \<Rightarrow> string \<Rightarrow> string \<Rightarrow> bool \<Rightarrow> availability reply seeding" where
  "post_availability env kid mid b =
     request_json env (\<lambda>n. on_menu (route_upsert_availability uuid_parse (sv_menv env n) kid mid b))"

section \<open>The steps of the script\<close>

definition demo_kitchen_id :: uuid where
  "demo_kitchen_id = 0x11111111111111111111111111111001"

definition demo_grill_id :: uuid where
  "demo_grill_id = 0x11111111111111111111111111111101"

definition demo_packaging_id :: uuid where
  "demo_packaging_id = 0x11111111111111111111111111111103"

definition ensure_kitchen :: "seed_env \<Rightarrow> kitchen seeding" where
  "ensure_kitchen env =
     seed_bind (post_kitchen env \<lparr>kc_id = Some demo_kitchen_id, kc_name = ''Demo Kitchen''\<rparr>) (\<lambda>r.
       if reply_status r \<in> {200, 201} then ensure_success r ''create kitchen''
       else seed_bind (get_kitchens env) (\<lambda>r2.
           seed_bind (ensure_success r2 ''list kitchens'') (\<lambda>ks.
             case find_by_name k_name ks ''Demo Kitchen'' of
               Some k \<Rightarrow> seed_return k
             | None \<Rightarrow> seed_raise (Seed_failed ''create kitchen'' (reply_status r2)))))"

definition ensure_station :: "seed_env \<Rightarrow> string \<Rightarrow> uuid \<Rightarrow> string \<Rightarrow> station_type \<Rightarrow> station seeding" where
  "ensure_station env kid sid name ty =
     seed_bind (post_station env kid \<lparr>sc_id = Some sid, sc_name = name, sc_type = ty, sc_capacity = 1, sc_backlog_limit = 4\<rparr>) (\<lambda>r.
       if reply_status r \<in> {200, 201} then ensure_success r (''create station '' @ name)
       else seed_bind (get_stations env kid) (\<lambda>r2.
           seed_bind (ensure_success r2 ''list stations'') (\<lambda>ss.
             case find_by_name st_name ss name of
               Some st \<Rightarrow> seed_return st
             | None \<Rightarrow> seed_raise (Seed_failed (''create station '' @ name) (reply_status r2)))))"

definition ensure_menu_item :: "seed_env \<Rightarrow> menu_item seeding" where
  "ensure_menu_item env =
     seed_bind (get_menu_items env) (\<lambda>r.
       seed_bind (ensure_success r ''list menu items'') (\<lambda>items.
         case find_by_name mi_name items ''Burger'' of
           Some m \<Rightarrow> seed_return m
         | None \<Rightarrow>
             seed_bind (post_menu_item env
                 \<lparr>mc_name = ''Burger'', mc_description = Some ''Demo burger'', mc_status = Mi_active\<rparr>) (\<lambda>r2.
               ensure_success r2 ''create Burger'')))"

definition ensure_recipe_step :: "seed_env \<Rightarrow> string \<Rightarrow> menu_station_type \<Rightarrow> string \<Rightarrow> int \<Rightarrow> int \<Rightarrow> unit seeding" where
  "ensure_recipe_step env mid ty operation dur ord =
     seed_bind (fetch_recipe env mid) (\<lambda>r.
       if (case r of Reply c rec \<Rightarrow> c = 200 \<and> (\<exists>s \<in> set (rr_steps rec). rs_step_order s = ord) | _ \<Rightarrow> False)
       then seed_return ()
       else seed_bind (post_recipe_step env mid
                \<lparr>sc_station_type = ty, sc_operation = operation, sc_duration = dur, sc_step_order = ord\<rparr>) (\<lambda>r2.
              seed_bind (ensure_success r2 (''create recipe step '' @ int_str ord)) (\<lambda>_. seed_return ())))"

text \<open>The state file, with the line that configures the simulator.\<close>

record demo_state =
  ds_kitchen_id :: string
  ds_grill :: string
  ds_packaging :: string
  ds_burger :: string
  ds_workers_config :: string

definition seed_main :: "seed_env \<Rightarrow> demo_state seeding" where
  "seed_main env =
     seed_bind (ensure_kitchen env) (\<lambda>k. let kid = uuid_str (k_id k) in
     seed_bind (ensure_station env kid demo_grill_id ''Demo Grill'' Grill) (\<lambda>grill.
     seed_bind (ensure_station env kid demo_packaging_id ''Demo Packaging'' Packaging) (\<lambda>packaging.
     seed_bind (ensure_menu_item env) (\<lambda>burger. let mid = uuid_str (mi_id burger) in
     seed_bind (ensure_recipe_step env mid Mst_grill ''cook_patty'' 480 1) (\<lambda>_.
     seed_bind (ensure_recipe_step env mid Mst_packaging ''pack_burger'' 60 2) (\<lambda>_.
     seed_bind (post_availability env kid mid True) (\<lambda>r.
     seed_bind (ensure_success r ''upsert Burger availability'') (\<lambda>_.
       let g = uuid_str (st_id grill); p = uuid_str (st_id packaging)
       in seed_return \<lparr>ds_kitchen_id = kid, ds_grill = g, ds_packaging = p, ds_burger = mid,
            ds_workers_config = g @ '':1,'' @ p @ '':1''\<rparr>))))))))"

end
