(* ===== verification/Demo_Seed_Steps.thy ===== *)
theory Demo_Seed_Steps
  imports Demo_Seed Kitchen_Facts
begin

text \<open>
  The demo script step by step: what a step that succeeds has set up, and that repeating it
  then succeeds and leaves the tables alone.
\<close>

section \<open>Binding and requests\<close>

abbreviation seed_kdb :: "seed_state \<Rightarrow> kdb" where
  "seed_kdb s \<equiv> kw_db (se_kitchen s)"

lemma seed_bind_InrE:
  assumes "seed_bind m f s = (Inr b, s2)"
  obtains a s1 where "m s = (Inr a, s1)" "f a s1 = (Inr b, s2)"
  using assms by (cases "m s") (auto simp: seed_bind_def split: sum.splits)

lemma seed_bind_Inr: "m s = (Inr a, s1) \<Longrightarrow> seed_bind m f s = f a s1"
  by (simp add: seed_bind_def)

definition seed_online :: "seed_env \<Rightarrow> bool" where
  "seed_online env = (\<forall>n. sv_net env n = Sn_ok)"

lemma kitchen_request_Inr:
  assumes "request_json env (\<lambda>n. on_kitchen (f n)) s = (Inr r, s1)"
  shows "se_menu s1 = se_menu s" "f (se_calls s) (se_kitchen s) = (r, se_kitchen s1)"
proof -
  obtain a b where "f (se_calls s) (se_kitchen s) = (a, b)" by fastforce
  with assms show "se_menu s1 = se_menu s" "f (se_calls s) (se_kitchen s) = (r, se_kitchen s1)"
    by (auto simp: request_json_def on_kitchen_def Let_def split: seed_net.splits)
qed

lemma menu_request_Inr:
  assumes "request_json env (\<lambda>n. on_menu (f n)) s = (Inr r, s1)"
  shows "se_kitchen s1 = se_kitchen s" "f (se_calls s) (se_menu s) = (r, se_menu s1)"
proof -
  obtain a b where "f (se_calls s) (se_menu s) = (a, b)" by fastforce
  with assms show "se_kitchen s1 = se_kitchen s" "f (se_calls s) (se_menu s) = (r, se_menu s1)"
    by (auto simp: request_json_def on_menu_def Let_def split: seed_net.splits)
qed

lemma kitchen_request_online:
  "seed_online env \<Longrightarrow> f (se_calls s) (se_kitchen s) = (r, w) \<Longrightarrow>
     request_json env (\<lambda>n. on_kitchen (f n)) s = (Inr r, s\<lparr>se_kitchen := w, se_calls := Suc (se_calls s)\<rparr>)"
  by (simp add: seed_online_def request_json_def on_kitchen_def)

lemma menu_request_online:
  "seed_online env \<Longrightarrow> f (se_calls s) (se_menu s) = (r, db) \<Longrightarrow>
     request_json env (\<lambda>n. on_menu (f n)) s = (Inr r, s\<lparr>se_menu := db, se_calls := Suc (se_calls s)\<rparr>)"
  by (simp add: seed_online_def request_json_def on_menu_def)

lemma ensure_success_Inr:
  "ensure_success r action s = (Inr b, s1) \<longleftrightarrow> s1 = s \<and> (\<exists>c. r = Reply c b \<and> (c = 200 \<or> c = 201))"
  by (auto simp: ensure_success_def seed_return_def seed_raise_def split: reply.splits)

lemma find_by_name_SomeD: "find_by_name f xs n = Some x \<Longrightarrow> x \<in> set xs \<and> f x = n"
  by (auto simp: find_by_name_def find_Some_iff)

lemma find_by_name_unique:
  assumes "x \<in> set xs" and "f x = n" and "\<And>y. y \<in> set xs \<Longrightarrow> f y = n \<Longrightarrow> y = x"
  shows "find_by_name f xs n = Some x"
proof (cases "find_by_name f xs n")
  case None
  then show ?thesis using assms(1,2) by (auto simp: find_by_name_def find_None_iff)
next
  case (Some y)
  with assms(3) show ?thesis by (auto dest: find_by_name_SomeD)
qed

text \<open>The same tables: what a second run must leave.\<close>

definition same_tables :: "seed_state \<Rightarrow> seed_state \<Rightarrow> bool" where
  "same_tables s s' = (seed_kdb s' = seed_kdb s \<and> se_menu s' = se_menu s)"

lemma same_tables_simps [simp]:
  "same_tables s (s\<lparr>se_calls := n\<rparr>)" "same_tables s s"
  by (simp_all add: same_tables_def)

section \<open>What the script has set up\<close>

definition has_kitchen :: "kitchen \<Rightarrow> seed_state \<Rightarrow> bool" where
  "has_kitchen k s = (k \<in> set (kitchens (seed_kdb s)) \<and> k_name k = ''Demo Kitchen'')"

definition has_station :: "uuid \<Rightarrow> string \<Rightarrow> station \<Rightarrow> seed_state \<Rightarrow> bool" where
  "has_station kid nm st s = (st \<in> set (stations (seed_kdb s)) \<and> st_kitchen_id st = kid \<and> st_name st = nm)"

definition has_burger :: "menu_item \<Rightarrow> seed_state \<Rightarrow> bool" where
  "has_burger m s = (m \<in> set (md_items (se_menu s)) \<and> mi_name m = ''Burger'')"

definition has_step :: "uuid \<Rightarrow> int \<Rightarrow> seed_state \<Rightarrow> bool" where
  "has_step mid n s = (\<exists>r \<in> set (md_steps (se_menu s)). rs_menu_item_id r = mid \<and> rs_step_order r = n)"

lemma has_same_tables:
  "same_tables s s' \<Longrightarrow> has_kitchen k s' = has_kitchen k s" "same_tables s s' \<Longrightarrow> has_station kid nm st s' = has_station kid nm st s"
  "same_tables s s' \<Longrightarrow> has_burger m s' = has_burger m s" "same_tables s s' \<Longrightarrow> has_step mid n s' = has_step mid n s"
  by (simp_all add: same_tables_def has_kitchen_def has_station_def has_burger_def has_step_def)

section \<open>The kitchen\<close>

lemma post_kitchen_cases:
  assumes "route_create_kitchen env p w = (r, w')"
  obtains (created) k db where "create_kitchen_row env p (kw_db w) = Inr (k, db)" "r = Reply 201 k" "w' = w\<lparr>kw_db := db\<rparr>"
  | (refused) "reply_status r \<notin> {200, 201}" "w' = w"
proof (cases "valid_kitchen_create p")
  case False
  then show ?thesis using assms refused by (auto simp: route_create_kitchen_def)
next
  case valid: True
  show ?thesis
  proof (cases "create_kitchen_row env p (kw_db w)")
    case (Inl e)
    then show ?thesis
      using assms valid refused by (cases e) (auto simp: route_create_kitchen_def create_kitchen_def k_reply_def)
  next
    case (Inr x)
    then show ?thesis
      using assms valid created by (cases x) (auto simp: route_create_kitchen_def create_kitchen_def k_reply_def)
  qed
qed

text \<open>The fallback of the script: the listed row with the name.\<close>

lemma listed_Inr:
  assumes "seed_bind (ensure_success r2 action) (\<lambda>xs. case find_by_name f xs nm of
      Some x \<Rightarrow> seed_return x | None \<Rightarrow> seed_raise e) s = (Inr x, s1)"
  shows "s1 = s \<and> (\<exists>c xs. r2 = Reply c xs \<and> x \<in> set xs \<and> f x = nm)"
proof -
  obtain xs s' where 1: "ensure_success r2 action s = (Inr xs, s')"
    and 2: "(case find_by_name f xs nm of Some x \<Rightarrow> seed_return x | None \<Rightarrow> seed_raise e) s' = (Inr x, s1)"
    using assms by (rule seed_bind_InrE)
  from 2 have "find_by_name f xs nm = Some x" "s1 = s'"
    by (auto simp: seed_return_def seed_raise_def split: option.splits)
  with 1 find_by_name_SomeD [of f xs nm x] show ?thesis by (auto simp: ensure_success_Inr)
qed

lemma listed_online:
  assumes "x \<in> set xs" and "f x = nm" and uniq: "\<And>y. y \<in> set xs \<Longrightarrow> f y = nm \<Longrightarrow> y = x"
  shows "seed_bind (ensure_success (Reply 200 xs) action) (\<lambda>xs. case find_by_name f xs nm of
      Some x \<Rightarrow> seed_return x | None \<Rightarrow> seed_raise e) s = (Inr x, s)"
proof -
  have "find_by_name f xs nm = Some x" by (rule find_by_name_unique) (fact assms(1), fact assms(2), fact uniq)
  then show ?thesis by (simp add: seed_bind_def ensure_success_def seed_return_def)
qed

lemma ensure_kitchen_post:
  assumes run: "ensure_kitchen env s = (Inr k, s1)" and inv: "db_inv (seed_kdb s)"
  shows "db_inv (seed_kdb s1) \<and> has_kitchen k s1 \<and> se_menu s1 = se_menu s"
proof -
  let ?p = "\<lparr>kc_id = Some demo_kitchen_id, kc_name = ''Demo Kitchen''\<rparr>"
  obtain r s' where post: "post_kitchen env ?p s = (Inr r, s')"
    and rest: "(if reply_status r \<in> {200, 201} then ensure_success r ''create kitchen''
       else seed_bind (get_kitchens env) (\<lambda>r2. seed_bind (ensure_success r2 ''list kitchens'') (\<lambda>ks.
         case find_by_name k_name ks ''Demo Kitchen'' of Some k \<Rightarrow> seed_return k
         | None \<Rightarrow> seed_raise (Seed_failed ''create kitchen'' (reply_status r2))))) s' = (Inr k, s1)"
    using run unfolding ensure_kitchen_def by (rule seed_bind_InrE)
  note 1 = kitchen_request_Inr [OF post [unfolded post_kitchen_def]]
  note menu = 1(1)
  from 1(2) show ?thesis
  proof (cases rule: post_kitchen_cases)
    case (created k' db)
    have ins: "insert_kitchen k' (seed_kdb s) = Inr db" "k_name k' = ''Demo Kitchen''"
      using created(1) by (auto simp: create_kitchen_row_def Let_def split: sum.splits)
    have "s1 = s'" "k = k'" using rest created(2) by (auto simp: ensure_success_Inr)
    moreover have "k' \<in> set (kitchens db)" using ins(1) by (auto simp: insert_kitchen_def split: if_splits)
    ultimately show ?thesis
      using created(3) menu ins(2) insert_kitchen_inv [OF inv ins(1)] by (simp add: has_kitchen_def)
  next
    case refused
    obtain r2 s2 where get: "get_kitchens env s' = (Inr r2, s2)"
      and rest2: "seed_bind (ensure_success r2 ''list kitchens'') (\<lambda>ks.
         case find_by_name k_name ks ''Demo Kitchen'' of Some k \<Rightarrow> seed_return k
         | None \<Rightarrow> seed_raise (Seed_failed ''create kitchen'' (reply_status r2))) s2 = (Inr k, s1)"
      using rest refused(1) by (auto elim: seed_bind_InrE)
    note 2 = kitchen_request_Inr [OF get [unfolded get_kitchens_def]]
    have s2: "se_kitchen s2 = se_kitchen s'" "r2 = Reply 200 (list_kitchens (se_kitchen s'))" "se_menu s2 = se_menu s'"
      using 2 by (auto simp: route_list_kitchens_def)
    have "s1 = s2" "k \<in> set (list_kitchens (se_kitchen s'))" "k_name k = ''Demo Kitchen''"
      using listed_Inr [OF rest2] s2(2) by auto
    then show ?thesis
      using s2 menu refused(2) inv by (simp add: list_kitchens_def list_kitchens_rows_def has_kitchen_def)
  qed
qed

lemma ensure_kitchen_again:
  assumes inv: "db_inv (seed_kdb s)" and has: "has_kitchen k s" and online: "seed_online env"
  shows "\<exists>s1. ensure_kitchen env s = (Inr k, s1) \<and> same_tables s s1"
proof -
  let ?p = "\<lparr>kc_id = Some demo_kitchen_id, kc_name = ''Demo Kitchen''\<rparr>"
  note k = has [unfolded has_kitchen_def, THEN conjunct1] has [unfolded has_kitchen_def, THEN conjunct2]
  let ?r = "k_error_reply (KConflictError ''kitchen_already_exists'') :: kitchen reply"
  have row: "create_kitchen_row e ?p (seed_kdb s) = Inl IntegrityError" for e
    using k by (auto simp: create_kitchen_row_def insert_kitchen_def kitchen_fits_def pg_text_def Let_def)
  have post: "post_kitchen env ?p s = (Inr ?r, s\<lparr>se_kitchen := se_kitchen s, se_calls := Suc (se_calls s)\<rparr>)"
    unfolding post_kitchen_def
    by (rule kitchen_request_online [OF online])
      (simp add: route_create_kitchen_def valid_kitchen_create_def len_between_def create_kitchen_def k_reply_def row)
  let ?s1 = "s\<lparr>se_kitchen := se_kitchen s, se_calls := Suc (se_calls s)\<rparr>"
  let ?s2 = "?s1\<lparr>se_kitchen := se_kitchen s, se_calls := Suc (se_calls ?s1)\<rparr>"
  have get: "get_kitchens env ?s1 = (Inr (Reply 200 (list_kitchens (se_kitchen s))), ?s2)"
    unfolding get_kitchens_def by (rule kitchen_request_online [OF online]) (simp add: route_list_kitchens_def)
  have "distinct (map k_name (kitchens (seed_kdb s)))" using inv by (simp add: db_inv_def kdb_ok_def)
  then have uniq: "y = k" if "y \<in> set (list_kitchens (se_kitchen s))" "k_name y = ''Demo Kitchen''" for y
    using that k by (auto simp: list_kitchens_def list_kitchens_rows_def distinct_map elim: inj_onD)
  have mem: "k \<in> set (list_kitchens (se_kitchen s))" using k(1) by (simp add: list_kitchens_def list_kitchens_rows_def)
  have "ensure_kitchen env s = (Inr k, ?s2)"
    unfolding ensure_kitchen_def seed_bind_Inr [where m = "post_kitchen env ?p", OF post]
    using listed_online [where f = k_name and nm = "''Demo Kitchen''", OF mem k(2) uniq] by (simp add: seed_bind_Inr [where m = "get_kitchens env", OF get [simplified]])
  then show ?thesis by (auto simp: same_tables_def)
qed

section \<open>The stations\<close>

lemma post_station_cases:
  assumes "route_create_station cfg env (uuid_str kid) p w = (r, w')" and "valid_station_create p"
  obtains (created) st db where "create_station_row env kid p (kw_db w) = Inr (st, db)" "r = Reply 201 st" "kw_db w' = db"
  | (refused) "reply_status r \<notin> {200, 201}" "kw_db w' = kw_db w"
proof (cases "get_kitchen kid w")
  case (Inl e)
  then have "e = KNotFoundError ''kitchen_not_found''" by (auto simp: get_kitchen_def split: option.splits)
  then show ?thesis
    using assms Inl refused by (auto simp: route_create_station_def parse_uuid_def create_station_def k_reply_def)
next
  case k: (Inr k)
  show ?thesis
  proof (cases "create_station_row env kid p (kw_db w)")
    case (Inl e)
    then show ?thesis
      using assms k refused
      by (cases e) (auto simp: route_create_station_def parse_uuid_def create_station_def k_reply_def)
  next
    case (Inr x)
    then show ?thesis
      using assms k created
      by (cases x) (auto simp: route_create_station_def parse_uuid_def create_station_def k_reply_def)
  qed
qed

lemma listed_stations: "route_list_stations (uuid_str kid) None w =
    (case get_kitchen_row (kw_db w) kid of None \<Rightarrow> Error_reply 404 [(''detail'', JStr ''kitchen_not_found'')]
     | Some _ \<Rightarrow> Reply 200 (list_by_kitchen (kw_db w) kid None))"
  by (simp add: route_list_stations_def parse_uuid_def list_stations_def get_kitchen_def k_reply_def split: option.split)

lemma ensure_station_post:
  assumes run: "ensure_station env (uuid_str kid) sid nm ty s = (Inr st, s1)" and inv: "db_inv (seed_kdb s)"
    and nm: "len_between 1 120 nm"
  shows "db_inv (seed_kdb s1) \<and> has_station kid nm st s1 \<and> se_menu s1 = se_menu s
     \<and> kitchens (seed_kdb s1) = kitchens (seed_kdb s) \<and> set (stations (seed_kdb s)) \<subseteq> set (stations (seed_kdb s1))"
proof -
  let ?p = "\<lparr>sc_id = Some sid, sc_name = nm, sc_type = ty, sc_capacity = 1, sc_backlog_limit = 4\<rparr>"
  have valid: "valid_station_create ?p" using nm by (simp add: valid_station_create_def)
  obtain r s' where post: "post_station env (uuid_str kid) ?p s = (Inr r, s')"
    and rest: "(if reply_status r \<in> {200, 201} then ensure_success r (''create station '' @ nm)
       else seed_bind (get_stations env (uuid_str kid)) (\<lambda>r2. seed_bind (ensure_success r2 ''list stations'') (\<lambda>ss.
         case find_by_name st_name ss nm of Some st \<Rightarrow> seed_return st
         | None \<Rightarrow> seed_raise (Seed_failed (''create station '' @ nm) (reply_status r2))))) s' = (Inr st, s1)"
    using run unfolding ensure_station_def by (rule seed_bind_InrE)
  note 1 = kitchen_request_Inr [OF post [unfolded post_station_def]]
  from 1(2) valid show ?thesis
  proof (cases rule: post_station_cases)
    case (created st' db)
    have ins: "insert_station st' (seed_kdb s) = Inr db" "st_name st' = nm" "st_kitchen_id st' = kid"
      "station_row_ok st'" "st_busy_slots st' = 0"
      using created(1) valid
      by (auto simp: create_station_row_def Let_def insert_station_def station_row_ok_def valid_station_create_def
          split: sum.splits if_splits)
    have run: "s1 = s'" "st = st'" using rest created(2) by (auto simp: ensure_success_Inr)
    have db: "db = (seed_kdb s)\<lparr>stations := stations (seed_kdb s) @ [st']\<rparr>"
      using ins(1) by (auto simp: insert_station_def split: if_splits)
    have kdb: "seed_kdb s1 = db" using created(3) run by simp
    show ?thesis
      using insert_station_inv [OF inv ins(1,4,5)] 1(1) run ins(2,3)
      unfolding kdb has_station_def by (simp add: db subset_insertI)
  next
    case refused
    obtain r2 s2 where get: "get_stations env (uuid_str kid) s' = (Inr r2, s2)"
      and rest2: "seed_bind (ensure_success r2 ''list stations'') (\<lambda>ss.
         case find_by_name st_name ss nm of Some st \<Rightarrow> seed_return st
         | None \<Rightarrow> seed_raise (Seed_failed (''create station '' @ nm) (reply_status r2))) s2 = (Inr st, s1)"
      using rest refused(1) by (auto elim: seed_bind_InrE)
    note 2 = kitchen_request_Inr [OF get [unfolded get_stations_def]]
    obtain c ss where l: "s1 = s2" "r2 = Reply c ss" "st \<in> set ss" "st_name st = nm"
      using listed_Inr [OF rest2] by blast
    have "se_kitchen s2 = se_kitchen s'" "ss = list_by_kitchen (seed_kdb s') kid None"
      using 2(2) l(2) by (auto simp: listed_stations split: option.splits)
    then show ?thesis
      using l 1(1) 2(1) refused(2) inv by (auto simp: has_station_def list_by_kitchen_def)
  qed
qed

lemma ensure_station_again:
  assumes inv: "db_inv (seed_kdb s)" and k: "has_kitchen k s" and st: "has_station (k_id k) nm st s"
    and nm: "len_between 1 120 nm" "pg_text 120 nm" and online: "seed_online env"
  shows "\<exists>s1. ensure_station env (uuid_str (k_id k)) sid nm ty s = (Inr st, s1) \<and> same_tables s s1"
proof -
  let ?kid = "k_id k"
  let ?p = "\<lparr>sc_id = Some sid, sc_name = nm, sc_type = ty, sc_capacity = 1, sc_backlog_limit = 4\<rparr>"
  let ?r = "k_error_reply (KConflictError ''station_already_exists'') :: station reply"
  have "distinct (map k_id (kitchens (seed_kdb s)))" using inv by (simp add: db_inv_def kdb_ok_def)
  then have row: "get_kitchen_row (seed_kdb s) ?kid = Some k"
    using k by (simp add: has_kitchen_def get_kitchen_row_def find_row_Some_iff)
  have "create_station_row e ?kid ?p (seed_kdb s) = Inl IntegrityError" for e
    using st nm(2) by (auto simp: has_station_def create_station_row_def insert_station_def station_fits_def pg_int4_def Let_def)
  then have post: "post_station env (uuid_str ?kid) ?p s
      = (Inr ?r, s\<lparr>se_kitchen := se_kitchen s, se_calls := Suc (se_calls s)\<rparr>)"
    unfolding post_station_def
    by (intro kitchen_request_online [OF online])
      (simp add: route_create_station_def valid_station_create_def nm(1) [simplified] parse_uuid_def create_station_def get_kitchen_def
        row k_reply_def)
  let ?s1 = "s\<lparr>se_kitchen := se_kitchen s, se_calls := Suc (se_calls s)\<rparr>"
  let ?s2 = "?s1\<lparr>se_kitchen := se_kitchen s, se_calls := Suc (se_calls ?s1)\<rparr>"
  let ?ss = "list_by_kitchen (seed_kdb s) ?kid None"
  have get: "get_stations env (uuid_str ?kid) ?s1 = (Inr (Reply 200 ?ss), ?s2)"
    unfolding get_stations_def by (rule kitchen_request_online [OF online]) (simp add: listed_stations row)
  have "distinct (map (\<lambda>s. (st_kitchen_id s, st_name s)) (stations (seed_kdb s)))"
    using inv by (simp add: db_inv_def kdb_ok_def)
  then have uniq: "y = st" if "y \<in> set ?ss" "st_name y = nm" for y
    using that st unfolding has_station_def distinct_map by (auto simp: list_by_kitchen_def elim: inj_onD)
  have mem: "st \<in> set ?ss" "st_name st = nm" using st by (simp_all add: list_by_kitchen_def has_station_def)
  have "ensure_station env (uuid_str ?kid) sid nm ty s = (Inr st, ?s2)"
    unfolding ensure_station_def seed_bind_Inr [where m = "post_station env (uuid_str ?kid) ?p", OF post]
    using listed_online [where f = st_name and nm = nm, OF mem uniq] by (simp add: seed_bind_Inr [where m = "get_stations env (uuid_str (k_id k))", OF get [simplified]])
  then show ?thesis by (auto simp: same_tables_def)
qed

section \<open>The dish\<close>

lemma menu_items_served:
  "route_list_menu_items col None 500 0 db = Reply 200 (take 500 (sort_key (\<lambda>m. col_key col (mi_name m)) (md_items db)))"
  by (simp add: route_list_menu_items_def m_list_menu_items_def list_items_query_def m_reply_def)

lemma post_menu_item_Reply:
  assumes "route_create_menu_item col env p db = (Reply c m, db')"
  shows "insert_menu_item col m db = Inr db'" "mi_name m = mc_name p"
  using assms
  by (auto simp: route_create_menu_item_def m_create_menu_item_def m_reply_def new_menu_item_def m_error_response_def
      as_conflict_def Let_def split: if_splits sum.splits db_error.splits)

lemma ensure_menu_item_post:
  assumes run: "ensure_menu_item env s = (Inr m, s1)" and ok: "menu_ok (sv_col env) (se_menu s)"
  shows "menu_ok (sv_col env) (se_menu s1) \<and> has_burger m s1 \<and> se_kitchen s1 = se_kitchen s"
proof -
  let ?p = "\<lparr>mc_name = ''Burger'', mc_description = Some ''Demo burger'', mc_status = Mi_active\<rparr>"
  obtain r s' where get: "get_menu_items env s = (Inr r, s')"
    and rest: "seed_bind (ensure_success r ''list menu items'') (\<lambda>items. case find_by_name mi_name items ''Burger'' of
         Some m \<Rightarrow> seed_return m
       | None \<Rightarrow> seed_bind (post_menu_item env ?p) (\<lambda>r2. ensure_success r2 ''create Burger'')) s' = (Inr m, s1)"
    using run unfolding ensure_menu_item_def by (rule seed_bind_InrE)
  note 1 = menu_request_Inr [OF get [unfolded get_menu_items_def]]
  let ?items = "take 500 (sort_key (\<lambda>m. col_key (sv_col env) (mi_name m)) (md_items (se_menu s)))"
  have s': "se_menu s' = se_menu s" "r = Reply 200 ?items" using 1(2) by (auto simp: menu_items_served)
  have after: "(case find_by_name mi_name ?items ''Burger'' of Some m \<Rightarrow> seed_return m
       | None \<Rightarrow> seed_bind (post_menu_item env ?p) (\<lambda>r2. ensure_success r2 ''create Burger'')) s' = (Inr m, s1)"
    using rest unfolding s'(2) by (simp add: seed_bind_def ensure_success_def seed_return_def)
  show ?thesis
  proof (cases "find_by_name mi_name ?items ''Burger''")
    case (Some x)
    then have "s1 = s'" "x = m" "m \<in> set ?items" "mi_name m = ''Burger''"
      using after find_by_name_SomeD [OF Some] by (auto simp: seed_return_def)
    moreover have "set ?items \<subseteq> set (md_items (se_menu s))" by (metis set_sort set_take_subset)
    ultimately show ?thesis using ok s' 1(1) by (auto simp: has_burger_def)
  next
    case None
    obtain r2 s2 where post: "post_menu_item env ?p s' = (Inr r2, s2)" and last: "ensure_success r2 ''create Burger'' s2 = (Inr m, s1)"
      using after unfolding None option.case by (rule seed_bind_InrE)
    note 2 = menu_request_Inr [OF post [unfolded post_menu_item_def]]
    obtain c where "r2 = Reply c m" "s1 = s2" using last by (auto simp: ensure_success_Inr)
    with 2(2) have ins: "insert_menu_item (sv_col env) m (se_menu s') = Inr (se_menu s1)" "mi_name m = ''Burger''"
      using post_menu_item_Reply [of "sv_col env" _ ?p _ c m] by auto
    then have "m \<in> set (md_items (se_menu s1))" by (auto simp: insert_menu_item_Inr)
    then show ?thesis
      using insert_menu_item_ok [OF _ ins(1)] ins(2) ok s' 1(1) 2(1) \<open>s1 = s2\<close> by (simp add: has_burger_def)
  qed
qed

lemma ensure_menu_item_again:
  assumes ok: "menu_ok (sv_col env) (se_menu s)" and m: "has_burger m s" and few: "length (md_items (se_menu s)) \<le> 500"
    and online: "seed_online env"
  shows "\<exists>s1. ensure_menu_item env s = (Inr m, s1) \<and> same_tables s s1"
proof -
  let ?items = "sort_key (\<lambda>m. col_key (sv_col env) (mi_name m)) (md_items (se_menu s))"
  let ?s1 = "s\<lparr>se_menu := se_menu s, se_calls := Suc (se_calls s)\<rparr>"
  have get: "get_menu_items env s = (Inr (Reply 200 ?items), ?s1)"
    unfolding get_menu_items_def
    by (rule menu_request_online [OF online]) (use few in \<open>simp add: menu_items_served\<close>)
  have "inj_on (\<lambda>m. col_lower (sv_col env) (mi_name m)) (set (md_items (se_menu s)))"
    using menu_okD(2) [OF ok] by (simp add: distinct_map)
  then have uniq: "y = m" if "y \<in> set ?items" "mi_name y = ''Burger''" for y
    using that m unfolding has_burger_def inj_on_def by (metis set_sort)
  have "find_by_name mi_name ?items ''Burger'' = Some m"
    by (rule find_by_name_unique) (use m uniq in \<open>auto simp: has_burger_def\<close>)
  then have "ensure_menu_item env s = (Inr m, ?s1)"
    unfolding ensure_menu_item_def seed_bind_Inr [where m = "get_menu_items env", OF get]
    by (simp add: seed_bind_def ensure_success_def seed_return_def)
  then show ?thesis by (auto simp: same_tables_def)
qed

section \<open>Its recipe\<close>

lemma post_recipe_step_Reply:
  assumes "route_create_recipe_step puuid env mid p db = (Reply c r, db')"
  shows "\<exists>i. puuid mid = Some i \<and> insert_recipe_step r db = Inr db' \<and> rs_menu_item_id r = i \<and> rs_step_order r = sc_step_order p"
  using assms
  by (auto simp: route_create_recipe_step_def m_create_recipe_step_def m_get_menu_item_def m_reply_def new_recipe_step_def
      m_error_response_def as_conflict_def Let_def split: if_splits sum.splits db_error.splits option.splits)

lemma ensure_recipe_step_post:
  assumes run: "ensure_recipe_step env (uuid_str mid) ty operation dur n s = (Inr u, s1)" and ok: "menu_ok col (se_menu s)"
  shows "menu_ok col (se_menu s1) \<and> has_step mid n s1 \<and> se_kitchen s1 = se_kitchen s
     \<and> md_items (se_menu s1) = md_items (se_menu s) \<and> set (md_steps (se_menu s)) \<subseteq> set (md_steps (se_menu s1))"
proof -
  let ?p = "\<lparr>sc_station_type = ty, sc_operation = operation, sc_duration = dur, sc_step_order = n\<rparr>"
  let ?there = "\<lambda>r. case r of Reply c rec \<Rightarrow> c = 200 \<and> (\<exists>s \<in> set (rr_steps rec). rs_step_order s = n) | _ \<Rightarrow> False"
  obtain r s' where get: "fetch_recipe env (uuid_str mid) s = (Inr r, s')"
    and rest: "(if ?there r then seed_return ()
       else seed_bind (post_recipe_step env (uuid_str mid) ?p) (\<lambda>r2.
              seed_bind (ensure_success r2 (''create recipe step '' @ int_str n)) (\<lambda>_. seed_return ()))) s' = (Inr u, s1)"
    using run unfolding ensure_recipe_step_def by (rule seed_bind_InrE)
  note 1 = menu_request_Inr [OF get [unfolded fetch_recipe_def]]
  have s': "se_menu s' = se_menu s" "route_get_recipe uuid_parse (uuid_str mid) (se_menu s) = r" using 1(2) by auto
  show ?thesis
  proof (cases "?there r")
    case True
    then obtain rec x where "r = Reply 200 rec" "x \<in> set (rr_steps rec)" "rs_step_order x = n" by (auto split: reply.splits)
    then have "has_step mid n s"
      using s'(2) by (auto simp: route_get_recipe_Reply has_step_def set_list_by_menu_item)
    moreover have "s1 = s'" using rest True by (simp add: seed_return_def)
    ultimately show ?thesis using ok s' 1(1) by (simp add: has_step_def)
  next
    case False
    obtain r2 s2 where post: "post_recipe_step env (uuid_str mid) ?p s' = (Inr r2, s2)"
      and last: "seed_bind (ensure_success r2 (''create recipe step '' @ int_str n)) (\<lambda>_. seed_return ()) s2 = (Inr u, s1)"
      using rest unfolding if_not_P [OF False] by (rule seed_bind_InrE)
    note 2 = menu_request_Inr [OF post [unfolded post_recipe_step_def]]
    obtain c x where "r2 = Reply c x" "s1 = s2"
      using last by (auto elim!: seed_bind_InrE simp: ensure_success_Inr seed_return_def)
    with 2(2) have ins: "insert_recipe_step x (se_menu s) = Inr (se_menu s1)" "rs_menu_item_id x = mid" "rs_step_order x = n"
      using post_recipe_step_Reply [of uuid_parse _ "uuid_str mid" ?p "se_menu s'" c x] s'(1) by auto
    then have "md_steps (se_menu s1) = md_steps (se_menu s) @ [x]" "md_items (se_menu s1) = md_items (se_menu s)"
      by (auto simp: insert_recipe_step_Inr)
    then show ?thesis
      using insert_recipe_step_ok [OF ok ins(1)] ins(2,3) 1(1) 2(1) \<open>s1 = s2\<close> by (auto simp: has_step_def)
  qed
qed

lemma ensure_recipe_step_again:
  assumes "has_step mid n s" and item: "get_item_row (se_menu s) mid \<noteq> None" and online: "seed_online env"
  shows "\<exists>s1. ensure_recipe_step env (uuid_str mid) ty operation dur n s = (Inr (), s1) \<and> same_tables s s1"
proof -
  let ?rec = "\<lparr>rr_menu_item_id = mid, rr_steps = list_by_menu_item (se_menu s) mid\<rparr>"
  let ?s1 = "s\<lparr>se_menu := se_menu s, se_calls := Suc (se_calls s)\<rparr>"
  have "route_get_recipe uuid_parse (uuid_str mid) (se_menu s) = Reply 200 ?rec"
    using item by (auto simp: route_get_recipe_Reply)
  then have get: "fetch_recipe env (uuid_str mid) s = (Inr (Reply 200 ?rec), ?s1)"
    unfolding fetch_recipe_def by (intro menu_request_online [OF online]) simp
  have "\<exists>x \<in> set (rr_steps ?rec). rs_step_order x = n"
    using assms(1) by (auto simp: has_step_def set_list_by_menu_item)
  then have "ensure_recipe_step env (uuid_str mid) ty operation dur n s = (Inr (), ?s1)"
    unfolding ensure_recipe_step_def seed_bind_Inr [where m = "fetch_recipe env (uuid_str mid)", OF get]
    by (simp add: seed_return_def)
  then show ?thesis by (auto simp: same_tables_def)
qed

section \<open>Its availability\<close>

lemma post_availability_post:
  assumes run: "post_availability env (uuid_str kid) (uuid_str mid) True s = (Inr (Reply c a), s1)" and ok: "menu_ok col (se_menu s)"
  shows "menu_ok col (se_menu s1) \<and> se_kitchen s1 = se_kitchen s \<and> md_items (se_menu s1) = md_items (se_menu s)
     \<and> md_steps (se_menu s1) = md_steps (se_menu s)
     \<and> (\<exists>a. get_availability_row (se_menu s1) (kid, mid) = Some a \<and> av_is_available a)"
proof -
  let ?env = "sv_menv env (se_calls s)"
  note 1 = menu_request_Inr [OF run [unfolded post_availability_def]]
  have up: "m_upsert_availability ?env kid mid True (se_menu s) = (Inr a, se_menu s1)"
    using 1(2) by (cases "m_upsert_availability ?env kid mid True (se_menu s)")
      (auto simp: route_upsert_availability_def m_reply_def split: sum.splits elim: m_error_reply.elims simp: m_error_response_def)
  then obtain m where item: "get_item_row (se_menu s) mid = Some m"
    and commit: "upsert_commit ?env kid mid True (get_availability_row (se_menu s) (kid, mid)) (se_menu s) = (Inr a, se_menu s1)"
    by (auto simp: m_upsert_availability_def m_get_menu_item_def split: option.splits)
  from upsert_commit_row [OF ok refl, where mid = mid and kid = kid and env = ?env and avail = True] item commit
  have "md_items (se_menu s1) = md_items (se_menu s)" "md_steps (se_menu s1) = md_steps (se_menu s)"
    "get_availability_row (se_menu s1) (kid, mid) = Some a" "av_is_available a" by auto
  moreover have "menu_ok col (se_menu s1)" using upsert_commit_db [OF commit] upsert_write_ok [OF ok] ok by metis
  ultimately show ?thesis using 1(1) by blast
qed

lemma post_availability_again:
  assumes "get_availability_row (se_menu s) (kid, mid) = Some a" and "av_is_available a"
    and "get_item_row (se_menu s) mid \<noteq> None" and online: "seed_online env"
  shows "\<exists>s1. post_availability env (uuid_str kid) (uuid_str mid) True s = (Inr (Reply 200 a), s1) \<and> same_tables s s1"
proof -
  have "m_upsert_availability e kid mid True (se_menu s) = (Inr a, se_menu s)" for e
    using assms(1-3) by (auto simp: m_upsert_availability_def m_get_menu_item_def upsert_commit_def upsert_write_def)
  then have "post_availability env (uuid_str kid) (uuid_str mid) True s
      = (Inr (Reply 200 a), s\<lparr>se_menu := se_menu s, se_calls := Suc (se_calls s)\<rparr>)"
    unfolding post_availability_def
    by (intro menu_request_online [OF online]) (simp add: route_upsert_availability_def m_reply_def)
  then show ?thesis by (auto simp: same_tables_def)
qed

end
