(* ===== verification/Demo_Seed_Props.thy ===== *)
theory Demo_Seed_Props
  imports Demo_Seed_Steps
begin

text \<open>
  What the demo script guarantees: after a run that succeeds the demo order is accepted and
  the simulator can be started with the line the script writes; running it again changes
  nothing.
\<close>

section \<open>A run as its steps\<close>

lemma seed_main_InrE:
  assumes "seed_main env s = (Inr d, s8)"
  obtains k s1 g s2 p s3 m s4 s5 s6 a c s7 where
    "ensure_kitchen env s = (Inr k, s1)"
    "ensure_station env (uuid_str (k_id k)) demo_grill_id ''Demo Grill'' Grill s1 = (Inr g, s2)"
    "ensure_station env (uuid_str (k_id k)) demo_packaging_id ''Demo Packaging'' Packaging s2 = (Inr p, s3)"
    "ensure_menu_item env s3 = (Inr m, s4)"
    "ensure_recipe_step env (uuid_str (mi_id m)) Mst_grill ''cook_patty'' 480 1 s4 = (Inr (), s5)"
    "ensure_recipe_step env (uuid_str (mi_id m)) Mst_packaging ''pack_burger'' 60 2 s5 = (Inr (), s6)"
    "post_availability env (uuid_str (k_id k)) (uuid_str (mi_id m)) True s6 = (Inr (Reply c a), s7)"
    "s8 = s7" "c \<in> {200, 201}"
    "d = \<lparr>ds_kitchen_id = uuid_str (k_id k), ds_grill = uuid_str (st_id g), ds_packaging = uuid_str (st_id p),
       ds_burger = uuid_str (mi_id m), ds_workers_config = uuid_str (st_id g) @ '':1,'' @ uuid_str (st_id p) @ '':1''\<rparr>"
  using assms unfolding seed_main_def Let_def
  by (elim seed_bind_InrE) (auto simp: ensure_success_Inr seed_return_def)

lemma seed_main_run:
  assumes "ensure_kitchen env s = (Inr k, s1)"
    and "ensure_station env (uuid_str (k_id k)) demo_grill_id ''Demo Grill'' Grill s1 = (Inr g, s2)"
    and "ensure_station env (uuid_str (k_id k)) demo_packaging_id ''Demo Packaging'' Packaging s2 = (Inr p, s3)"
    and "ensure_menu_item env s3 = (Inr m, s4)"
    and "ensure_recipe_step env (uuid_str (mi_id m)) Mst_grill ''cook_patty'' 480 1 s4 = (Inr (), s5)"
    and "ensure_recipe_step env (uuid_str (mi_id m)) Mst_packaging ''pack_burger'' 60 2 s5 = (Inr (), s6)"
    and "post_availability env (uuid_str (k_id k)) (uuid_str (mi_id m)) True s6 = (Inr (Reply 200 a), s7)"
  shows "seed_main env s = (Inr \<lparr>ds_kitchen_id = uuid_str (k_id k), ds_grill = uuid_str (st_id g), ds_packaging = uuid_str (st_id p),
       ds_burger = uuid_str (mi_id m), ds_workers_config = uuid_str (st_id g) @ '':1,'' @ uuid_str (st_id p) @ '':1''\<rparr>, s7)"
  unfolding seed_main_def Let_def
  by (simp add: seed_bind_def assms ensure_success_def seed_return_def)

text \<open>What a run that succeeds has set up.\<close>

definition demo_ready :: "kitchen \<Rightarrow> station \<Rightarrow> station \<Rightarrow> menu_item \<Rightarrow> seed_state \<Rightarrow> bool" where
  "demo_ready k g p m s =
     (has_kitchen k s \<and> has_station (k_id k) ''Demo Grill'' g s \<and> has_station (k_id k) ''Demo Packaging'' p s
      \<and> has_burger m s \<and> has_step (mi_id m) 1 s \<and> has_step (mi_id m) 2 s
      \<and> (\<exists>a. get_availability_row (se_menu s) (k_id k, mi_id m) = Some a \<and> av_is_available a))"

lemma demo_ready_same: "same_tables s s' \<Longrightarrow> demo_ready k g p m s' = demo_ready k g p m s"
  by (simp add: demo_ready_def has_same_tables) (simp add: same_tables_def)

abbreviation demo_state_of :: "kitchen \<Rightarrow> station \<Rightarrow> station \<Rightarrow> menu_item \<Rightarrow> demo_state" where
  "demo_state_of k g p m \<equiv> \<lparr>ds_kitchen_id = uuid_str (k_id k), ds_grill = uuid_str (st_id g), ds_packaging = uuid_str (st_id p),
     ds_burger = uuid_str (mi_id m), ds_workers_config = uuid_str (st_id g) @ '':1,'' @ uuid_str (st_id p) @ '':1''\<rparr>"

lemma seed_main_ready:
  assumes run: "seed_main env s = (Inr d, s1)" and inv: "db_inv (seed_kdb s)" and ok: "menu_ok (sv_col env) (se_menu s)"
  obtains k g p m where "d = demo_state_of k g p m" "demo_ready k g p m s1" "db_inv (seed_kdb s1)" "menu_ok (sv_col env) (se_menu s1)"
proof -
  obtain k t1 g t2 p t3 m t4 t5 t6 a c t7 where
    1: "ensure_kitchen env s = (Inr k, t1)" and
    2: "ensure_station env (uuid_str (k_id k)) demo_grill_id ''Demo Grill'' Grill t1 = (Inr g, t2)" and
    3: "ensure_station env (uuid_str (k_id k)) demo_packaging_id ''Demo Packaging'' Packaging t2 = (Inr p, t3)" and
    4: "ensure_menu_item env t3 = (Inr m, t4)" and
    5: "ensure_recipe_step env (uuid_str (mi_id m)) Mst_grill ''cook_patty'' 480 1 t4 = (Inr (), t5)" and
    6: "ensure_recipe_step env (uuid_str (mi_id m)) Mst_packaging ''pack_burger'' 60 2 t5 = (Inr (), t6)" and
    7: "post_availability env (uuid_str (k_id k)) (uuid_str (mi_id m)) True t6 = (Inr (Reply c a), t7)" and
    d: "s1 = t7" "d = demo_state_of k g p m"
    using seed_main_InrE [OF run] by metis
  note k = ensure_kitchen_post [OF 1 inv]
  note g = ensure_station_post [OF 2 k [THEN conjunct1]]
  have g': "db_inv (seed_kdb t2)" using g by (simp add: len_between_def)
  note p = ensure_station_post [OF 3 g']
  have m: "menu_ok (sv_col env) (se_menu t4) \<and> has_burger m t4 \<and> se_kitchen t4 = se_kitchen t3"
    using ensure_menu_item_post [OF 4] k g p ok by (simp add: len_between_def)
  note r = ensure_recipe_step_post [OF 5 m [THEN conjunct1]]
  note q = ensure_recipe_step_post [OF 6 r [THEN conjunct1]]
  note a = post_availability_post [OF 7 q [THEN conjunct1]]
  have "demo_ready k g p m s1"
    unfolding demo_ready_def d(1) using k g p m r q a
    by (auto simp: len_between_def has_kitchen_def has_station_def has_burger_def has_step_def)
  moreover have "db_inv (seed_kdb s1)" "menu_ok (sv_col env) (se_menu s1)"
    using p a q r m d(1) by (simp_all add: len_between_def)
  ultimately show thesis using that d(2) by blast
qed

section \<open>The order of the demo\<close>

lemma seed_rows:
  assumes "demo_ready k g p m s" and inv: "db_inv (seed_kdb s)" and ok: "menu_ok col (se_menu s)"
  shows "get_kitchen_row (seed_kdb s) (k_id k) = Some k" "get_item_row (se_menu s) (mi_id m) = Some m" "st_id g \<noteq> st_id p"
proof -
  have "distinct (map k_id (kitchens (seed_kdb s)))" "distinct (map st_id (stations (seed_kdb s)))"
    using inv by (simp_all add: db_inv_def kdb_ok_def)
  then show "get_kitchen_row (seed_kdb s) (k_id k) = Some k" "get_item_row (se_menu s) (mi_id m) = Some m" "st_id g \<noteq> st_id p"
    using assms(1) menu_okD(1) [OF ok]
    by (auto simp: demo_ready_def has_kitchen_def has_burger_def has_station_def get_kitchen_row_def get_item_row_def
        find_row_Some_iff distinct_map dest: inj_onD)
qed

text \<open>An order of nothing but the dish of the demo, in its kitchen.\<close>

definition demo_order :: "demo_state \<Rightarrow> order_create \<Rightarrow> bool" where
  "demo_order d p =
     (uuid_str (oc_kitchen_id p) = ds_kitchen_id d \<and> oc_items p \<noteq> []
      \<and> (\<forall>i \<in> set (oc_items p). uuid_str (ic_menu_item_id i) = ds_burger d))"

lemma demo_order_verdict:
  assumes ready: "demo_ready k g p m s" and inv: "db_inv (seed_kdb s)" and ok: "menu_ok col (se_menu s)"
    and order: "demo_order (demo_state_of k g p m) q"
  shows "order_verdict (se_kitchen s) (se_menu s) q =
     (if k_status k \<noteq> Kitchen_active then Some KitchenNotActiveError
      else if mi_status m \<noteq> Mi_active then Some MenuItemNotAvailableError else None)"
proof -
  note rows = seed_rows [OF ready inv ok]
  obtain a where a: "get_availability_row (se_menu s) (k_id k, mi_id m) = Some a" "av_is_available a"
    using ready by (auto simp: demo_ready_def)
  have orderable: "orderable (se_menu s) (k_id k) (mi_id m) \<longleftrightarrow> mi_status m = Mi_active"
    using rows(2) a by (simp add: orderable_def)
  have "list_by_menu_item (se_menu s) (mi_id m) \<noteq> []"
  proof -
    obtain r where "r \<in> set (list_by_menu_item (se_menu s) (mi_id m))"
      using ready by (auto simp: demo_ready_def has_step_def set_list_by_menu_item)
    then show ?thesis by auto
  qed
  moreover have q: "oc_kitchen_id q = k_id k" "\<forall>i \<in> set (oc_items q). ic_menu_item_id i = mi_id m" "oc_items q \<noteq> []"
    using order by (simp_all add: demo_order_def)
  ultimately have refused: "\<forall>i \<in> set (oc_items q). item_refused (se_menu s) (k_id k) i = (mi_status m \<noteq> Mi_active)"
    by (simp add: item_refused_def orderable)
  show ?thesis
  proof (cases "mi_status m = Mi_active")
    case True
    then have "find (item_refused (se_menu s) (k_id k)) (oc_items q) = None"
      using refused by (simp add: find_None_iff)
    then show ?thesis using True q rows(1) by (simp add: order_verdict_def)
  next
    case False
    obtain i "is" where "oc_items q = i # is" using q(3) by (cases "oc_items q") auto
    then show ?thesis using False q rows(1) refused by (simp add: order_verdict_def orderable)
  qed
qed

section \<open>The configuration of the simulator\<close>

lemma uuid_str_plain: "plain_station (uuid_str u)"
proof -
  have "c \<noteq> CHR '','' \<and> c \<noteq> CHR '':'' \<and> \<not> py_isspace c" if c: "c \<in> set (uuid_str u)" for c
  proof (cases "c = CHR ''-''")
    case True
    then show ?thesis by (simp add: py_isspace_def Let_def)
  next
    case False
    with set_uuid_str [OF c] obtain d where "d < 16" "c = hex_char d" by blast
    then have "(of_char c :: nat) = (if d < 10 then 48 + d else 87 + d)" "d < 16" by (simp_all add: of_char_hex_char)
    then show ?thesis by (cases "d < 10") (auto simp: py_isspace_def Let_def)
  qed
  moreover have "uuid_str u \<noteq> []" by (metis length_uuid_str list.size(3) zero_neq_numeral)
  ultimately show ?thesis by (auto simp: plain_station_def)
qed

lemma two_stations_config:
  assumes "u \<noteq> v"
  shows "parse_workers_config (uuid_str u @ '':1,'' @ uuid_str v @ '':1'') =
     Inr [\<lparr>wc_worker_id = uuid_str u @ ''-worker-1'', wc_station_id = uuid_str u\<rparr>,
          \<lparr>wc_worker_id = uuid_str v @ ''-worker-1'', wc_station_id = uuid_str v\<rparr>]"
proof -
  let ?cs = "[(uuid_str u, Suc 0), (uuid_str v, Suc 0)]"
  have one: "nat_str (Suc 0) = ''1''" by (simp add: nat_str_digit, code_simp)
  have "parse_workers_config (config_text ?cs) = Inr (concat (map (\<lambda>(sid, n). station_workers sid (int n)) ?cs))"
    using assms by (intro parse_config_text) (simp_all add: uuid_str_plain one)
  moreover have "config_text ?cs = uuid_str u @ '':1,'' @ uuid_str v @ '':1''" by (simp add: config_text_def one)
  moreover have "int_str 1 = ''1''" by (simp add: int_str_def one)
  ultimately show ?thesis by (simp add: station_workers_def)
qed

section \<open>Running it again\<close>

lemma same_tables_trans: "same_tables s t \<Longrightarrow> same_tables t u \<Longrightarrow> same_tables s u"
  by (simp add: same_tables_def)

lemma seed_main_again:
  assumes ready: "demo_ready k g p m s" and inv: "db_inv (seed_kdb s)" and ok: "menu_ok (sv_col env) (se_menu s)"
    and few: "length (md_items (se_menu s)) \<le> 500" and online: "seed_online env"
  shows "\<exists>s'. seed_main env s = (Inr (demo_state_of k g p m), s') \<and> same_tables s s'"
proof -
  note rows = seed_rows [OF ready inv ok]
  have has: "demo_ready k g p m t" "db_inv (seed_kdb t)" "menu_ok (sv_col env) (se_menu t)" "se_menu t = se_menu s"
    if "same_tables s t" for t
    using that ready inv ok by (simp_all add: demo_ready_same) (simp_all add: same_tables_def)
  have name: "len_between 1 120 ''Demo Grill''" "pg_text 120 ''Demo Grill''" "len_between 1 120 ''Demo Packaging''"
    "pg_text 120 ''Demo Packaging''"
    by (simp_all add: len_between_def pg_text_def)
  obtain t1 where 1: "ensure_kitchen env s = (Inr k, t1)" "same_tables s t1"
    using ensure_kitchen_again [OF inv _ online, of k] ready by (auto simp: demo_ready_def)
  obtain t2 where 2: "ensure_station env (uuid_str (k_id k)) demo_grill_id ''Demo Grill'' Grill t1 = (Inr g, t2)" "same_tables t1 t2"
    using ensure_station_again [OF has(2) [OF 1(2)] _ _ name(1,2) online, where k = k and st = g and sid = demo_grill_id and ty = Grill] has(1) [OF 1(2)] by (auto simp: demo_ready_def)
  note st2 = same_tables_trans [OF 1(2) 2(2)]
  obtain t3 where 3: "ensure_station env (uuid_str (k_id k)) demo_packaging_id ''Demo Packaging'' Packaging t2 = (Inr p, t3)" "same_tables t2 t3"
    using ensure_station_again [OF has(2) [OF st2] _ _ name(3,4) online, where k = k and st = p and sid = demo_packaging_id and ty = Packaging] has(1) [OF st2] by (auto simp: demo_ready_def)
  note st3 = same_tables_trans [OF st2 3(2)]
  obtain t4 where 4: "ensure_menu_item env t3 = (Inr m, t4)" "same_tables t3 t4"
    using ensure_menu_item_again [OF has(3) [OF st3] _ _ online, of m] has(1) [OF st3] has(4) [OF st3] few by (auto simp: demo_ready_def)
  note st4 = same_tables_trans [OF st3 4(2)]
  have item: "get_item_row (se_menu t) (mi_id m) \<noteq> None" if "same_tables s t" for t
    using rows(2) has(4) [OF that] by simp
  obtain t5 where 5: "ensure_recipe_step env (uuid_str (mi_id m)) Mst_grill ''cook_patty'' 480 1 t4 = (Inr (), t5)" "same_tables t4 t5"
    using ensure_recipe_step_again [OF _ item [OF st4] online, of 1 Mst_grill "''cook_patty''" 480] has(1) [OF st4] by (auto simp: demo_ready_def)
  note st5 = same_tables_trans [OF st4 5(2)]
  obtain t6 where 6: "ensure_recipe_step env (uuid_str (mi_id m)) Mst_packaging ''pack_burger'' 60 2 t5 = (Inr (), t6)" "same_tables t5 t6"
    using ensure_recipe_step_again [OF _ item [OF st5] online, of 2 Mst_packaging "''pack_burger''" 60] has(1) [OF st5] by (auto simp: demo_ready_def)
  note st6 = same_tables_trans [OF st5 6(2)]
  obtain a where a: "get_availability_row (se_menu t6) (k_id k, mi_id m) = Some a" "av_is_available a"
    using has(1) [OF st6] by (auto simp: demo_ready_def)
  obtain t7 where 7: "post_availability env (uuid_str (k_id k)) (uuid_str (mi_id m)) True t6 = (Inr (Reply 200 a), t7)" "same_tables t6 t7"
    using post_availability_again [OF a item [OF st6] online] by blast
  show ?thesis
    using seed_main_run [OF 1(1) 2(1) 3(1) 4(1) 5(1) 6(1) 7(1)] same_tables_trans [OF st6 7(2)] by blast
qed

section \<open>The theorems\<close>


text \<open>
  A second run, with every request answered, gives the same state file and changes no table
  of the two services, as long as the menu has at most 500 items (the page the script looks
  through).
\<close>

lemma seed_twice:
  assumes "db_inv (seed_kdb s)" and "menu_ok (sv_col env) (se_menu s)" and "seed_main env s = (Inr d, s1)"
    and "length (md_items (se_menu s1)) \<le> 500" and "seed_online env'" and "sv_col env' = sv_col env"
  shows "\<exists>s2. seed_main env' s1 = (Inr d, s2) \<and> seed_kdb s2 = seed_kdb s1 \<and> se_menu s2 = se_menu s1"
proof -
  obtain k g p m where d: "d = demo_state_of k g p m" and ready: "demo_ready k g p m s1"
    and inv: "db_inv (seed_kdb s1)" and ok: "menu_ok (sv_col env) (se_menu s1)"
    using seed_main_ready [OF assms(3,1,2)] by blast
  from ok have "menu_ok (sv_col env') (se_menu s1)" by (simp add: assms(6))
  from seed_main_again [OF ready inv this assms(4,5)] show ?thesis by (simp add: d same_tables_def)
qed

end
