(* ===== verification/Demo_Seed_Recovery.thy ===== *)
theory Demo_Seed_Recovery
  imports Demo_Seed_Props
begin

text \<open>
  The demo script after runs that were cut off: tables that stand in its way in no place stay
  so, wherever a run ends, and on such tables a run whose requests are all answered succeeds.
\<close>

section \<open>Tables that do not stand in the way\<close>

text \<open>
  The identifiers the script asks for belong to rows with its names or are free.
\<close>

definition kclear :: "kdb \<Rightarrow> bool" where
  "kclear db =
     (db_inv db
      \<and> (\<forall>k \<in> set (kitchens db). k_id k = demo_kitchen_id \<longrightarrow> k_name k = ''Demo Kitchen'')
      \<and> (\<forall>st \<in> set (stations db).
           (st_id st = demo_grill_id \<longrightarrow> st_name st = ''Demo Grill'')
           \<and> (st_id st = demo_packaging_id \<longrightarrow> st_name st = ''Demo Packaging'')
           \<and> (st_id st \<in> {demo_grill_id, demo_packaging_id} \<longrightarrow>
                (\<exists>k \<in> set (kitchens db). k_id k = st_kitchen_id st \<and> k_name k = ''Demo Kitchen''))))"

text \<open>
  No other dish has the name up to case, the page of 500 dishes shows all, and the generated
  identifiers of the requests to come, up to the \<open>N\<close>th, are unused.
\<close>

definition mclear :: "seed_env \<Rightarrow> nat \<Rightarrow> nat \<Rightarrow> mdb \<Rightarrow> bool" where
  "mclear env N n db =
     (menu_ok (sv_col env) db
      \<and> (\<forall>m \<in> set (md_items db). col_lower (sv_col env) (mi_name m) = col_lower (sv_col env) ''Burger'' \<longrightarrow> mi_name m = ''Burger'')
      \<and> count_rows (\<lambda>m. mi_name m \<noteq> ''Burger'') (md_items db) < 500
      \<and> (\<forall>i \<in> {n..<N}. me_id (sv_menv env i) \<notin> mi_id ` set (md_items db) \<and> me_id (sv_menv env i) \<notin> rs_id ` set (md_steps db)))"

definition seed_clear :: "seed_env \<Rightarrow> nat \<Rightarrow> seed_state \<Rightarrow> bool" where
  "seed_clear env N s = (kclear (seed_kdb s) \<and> mclear env N (se_calls s) (se_menu s))"

definition fresh_requests :: "seed_env \<Rightarrow> nat \<Rightarrow> bool" where
  "fresh_requests env N = inj_on (\<lambda>n. me_id (sv_menv env n)) {..<N}"

lemma demo_ids_distinct [simp]: "demo_grill_id \<noteq> demo_packaging_id" "demo_packaging_id \<noteq> demo_grill_id"
  by (simp_all add: demo_grill_id_def demo_packaging_id_def)

lemma mclear_Suc: "mclear env N n db \<Longrightarrow> mclear env N (Suc n) db"
  by (simp add: mclear_def)

lemma seed_clear_db:
  "seed_clear env N s \<Longrightarrow> db_inv (seed_kdb s)" "seed_clear env N s \<Longrightarrow> menu_ok (sv_col env) (se_menu s)"
  by (simp_all add: seed_clear_def kclear_def mclear_def)

lemma insert_kitchen_clear:
  assumes "kclear db" and "insert_kitchen k db = Inr db'" and "k_id k = demo_kitchen_id \<longrightarrow> k_name k = ''Demo Kitchen''"
  shows "kclear db'"
proof -
  have "db' = db\<lparr>kitchens := kitchens db @ [k]\<rparr>" using assms(2) by (auto simp: insert_kitchen_def split: if_splits)
  then show ?thesis using assms insert_kitchen_inv [OF _ assms(2)] by (auto simp: kclear_def)
qed

lemma insert_menu_item_clear:
  assumes "mclear env N n db" and "insert_menu_item (sv_col env) m db = Inr db'" and "mi_name m = ''Burger''"
    and "mi_id m = me_id (sv_menv env n)" and fresh: "fresh_requests env N"
  shows "mclear env N (Suc n) db'"
proof -
  have "me_id (sv_menv env i) \<noteq> me_id (sv_menv env n)" if "i \<in> {Suc n..<N}" for i
    using fresh that by (auto simp: fresh_requests_def dest!: inj_onD)
  then show ?thesis
    using assms insert_menu_item_ok [OF _ assms(2)] by (auto simp: mclear_def insert_menu_item_Inr)
qed

lemma insert_recipe_step_clear:
  assumes "mclear env N n db" and "insert_recipe_step r db = Inr db'"
    and "rs_id r = me_id (sv_menv env n)" and fresh: "fresh_requests env N"
  shows "mclear env N (Suc n) db'"
proof -
  have "me_id (sv_menv env i) \<noteq> me_id (sv_menv env n)" if "i \<in> {Suc n..<N}" for i
    using fresh that by (auto simp: fresh_requests_def dest!: inj_onD)
  then show ?thesis
    using assms insert_recipe_step_ok [OF _ assms(2)] by (auto simp: mclear_def insert_recipe_step_Inr)
qed

lemma upsert_clear:
  assumes "mclear env N n db"
  shows "mclear env N (Suc n) (snd (m_upsert_availability e kid mid b db))"
proof (cases "m_upsert_availability e kid mid b db")
  case (Pair r db')
  have "db' = db \<or> (\<exists>found. upsert_write e kid mid b found db = Inr db')"
    using Pair by (auto simp: m_upsert_availability_def upsert_commit_def split: sum.splits option.splits)
  moreover have "md_items db' = md_items db \<and> md_steps db' = md_steps db" if "upsert_write e kid mid b found db = Inr db'" for found
    using that by (auto simp: upsert_write_def insert_availability_Inr split: option.splits if_splits)
  moreover have "menu_ok (sv_col env) db'" if "upsert_write e kid mid b found db = Inr db'" for found
    using upsert_write_ok [OF _ that] assms by (simp add: mclear_def)
  ultimately have "md_items db' = md_items db \<and> md_steps db' = md_steps db \<and> menu_ok (sv_col env) db'"
    using assms by (metis mclear_def)
  then show ?thesis using assms Pair by (simp add: mclear_def)
qed

section \<open>Wherever a run ends\<close>

lemma clear_bind:
  assumes "seed_clear env N (snd (m s))"
    and "\<And>a s1. m s = (Inr a, s1) \<Longrightarrow> seed_clear env N s1 \<Longrightarrow> seed_clear env N (snd (f a s1))"
  shows "seed_clear env N (snd (seed_bind m f s))"
  using assms by (cases "m s") (auto simp: seed_bind_def split: sum.splits)

lemma seed_end_simps [simp]:
  "snd (seed_return a s) = s" "snd (seed_raise e s) = s" "snd (ensure_success r action s) = s"
  by (simp_all add: seed_return_def seed_raise_def ensure_success_def split: reply.split)

lemma kitchen_request_clear:
  assumes "seed_clear env N s" and "kclear (kw_db (snd (f (se_calls s) (se_kitchen s))))"
  shows "seed_clear env N (snd (request_json env (\<lambda>n. on_kitchen (f n)) s))"
  using assms mclear_Suc
  by (cases "f (se_calls s) (se_kitchen s)"; cases "sv_net env (se_calls s)")
    (simp_all add: request_json_def on_kitchen_def seed_clear_def Let_def)

lemma menu_request_clear:
  assumes "seed_clear env N s" and "mclear env N (Suc (se_calls s)) (snd (f (se_calls s) (se_menu s)))"
  shows "seed_clear env N (snd (request_json env (\<lambda>n. on_menu (f n)) s))"
  using assms mclear_Suc
  by (cases "f (se_calls s) (se_menu s)"; cases "sv_net env (se_calls s)")
    (simp_all add: request_json_def on_menu_def seed_clear_def Let_def)

lemma listed_clear:
  assumes "seed_clear env N s"
  shows "seed_clear env N (snd (seed_bind (ensure_success r action) (\<lambda>xs. case find_by_name f xs nm of
      Some x \<Rightarrow> seed_return x | None \<Rightarrow> seed_raise e) s))"
  using assms by (auto intro!: clear_bind split: option.split)

lemma ensure_kitchen_clear:
  assumes "seed_clear env N s"
  shows "seed_clear env N (snd (ensure_kitchen env s))"
proof -
  let ?p = "\<lparr>kc_id = Some demo_kitchen_id, kc_name = ''Demo Kitchen''\<rparr>"
  have post: "seed_clear env N (snd (post_kitchen env ?p t))" if t: "seed_clear env N t" for t
    unfolding post_kitchen_def
  proof (rule kitchen_request_clear [OF t])
    let ?e = "sv_kenv env (se_calls t)"
    obtain r w' where run: "route_create_kitchen ?e ?p (se_kitchen t) = (r, w')" by fastforce
    from run show "kclear (kw_db (snd (route_create_kitchen ?e ?p (se_kitchen t))))"
    proof (cases rule: post_kitchen_cases)
      case (created k db)
      then have "insert_kitchen k (seed_kdb t) = Inr db" "k_name k = ''Demo Kitchen''"
        by (auto simp: create_kitchen_row_def Let_def split: sum.splits)
      then show ?thesis using run created(3) insert_kitchen_clear t by (auto simp: seed_clear_def)
    next
      case refused
      then show ?thesis using run t by (simp add: seed_clear_def)
    qed
  qed
  have "seed_clear env N (snd (get_kitchens env t))" if t: "seed_clear env N t" for t
    unfolding get_kitchens_def by (rule kitchen_request_clear [OF t]) (use t in \<open>simp add: seed_clear_def\<close>)
  then show ?thesis
    unfolding ensure_kitchen_def
    by (intro clear_bind post assms) (simp split: if_split, intro impI clear_bind listed_clear)
qed

lemma ensure_station_clear:
  assumes s: "seed_clear env N s" and k: "has_kitchen k s" and nm: "len_between 1 120 nm"
    and names: "(sid, nm) \<in> {(demo_grill_id, ''Demo Grill''), (demo_packaging_id, ''Demo Packaging'')}"
  shows "seed_clear env N (snd (ensure_station env (uuid_str (k_id k)) sid nm ty s))"
proof -
  let ?kid = "k_id k"
  let ?p = "\<lparr>sc_id = Some sid, sc_name = nm, sc_type = ty, sc_capacity = 1, sc_backlog_limit = 4\<rparr>"
  have valid: "valid_station_create ?p" using nm by (simp add: valid_station_create_def)
  let ?e = "sv_kenv env (se_calls s)"
  have post: "seed_clear env N (snd (post_station env (uuid_str ?kid) ?p s))"
    unfolding post_station_def
  proof (rule kitchen_request_clear [OF s])
    obtain r w' where run: "route_create_station (sv_cfg env) ?e (uuid_str ?kid) ?p (se_kitchen s) = (r, w')" by fastforce
    from run valid show "kclear (kw_db (snd (route_create_station (sv_cfg env) ?e (uuid_str ?kid) ?p (se_kitchen s))))"
    proof (cases rule: post_station_cases)
      case (created st db)
      then have ins: "insert_station st (seed_kdb s) = Inr db" "st_id st = sid" "st_name st = nm" "st_kitchen_id st = ?kid"
        "station_row_ok st" "st_busy_slots st = 0"
        using valid by (auto simp: create_station_row_def Let_def station_row_ok_def valid_station_create_def
            insert_station_def split: sum.splits if_splits)
      then have db: "db = seed_kdb s\<lparr>stations := stations (seed_kdb s) @ [st]\<rparr>"
        by (auto simp: insert_station_def split: if_splits)
      have "db_inv db" using insert_station_inv [OF _ ins(1)] ins(5,6) s by (simp add: seed_clear_db)
      then have "kclear db"
        using s k names ins(2-4) by (auto simp: db seed_clear_def kclear_def has_kitchen_def)
      then show ?thesis using run created(3) by simp
    next
      case refused
      then show ?thesis using run s by (simp add: seed_clear_def)
    qed
  qed
  have get: "seed_clear env N (snd (get_stations env (uuid_str ?kid) t))" if t: "seed_clear env N t" for t
    unfolding get_stations_def by (rule kitchen_request_clear [OF t]) (use t in \<open>simp add: seed_clear_def\<close>)
  show ?thesis
    unfolding ensure_station_def
    by (intro clear_bind post) (simp split: if_split, intro impI clear_bind listed_clear get)
qed

lemma ensure_menu_item_clear:
  assumes s: "seed_clear env N s" and fresh: "fresh_requests env N"
  shows "seed_clear env N (snd (ensure_menu_item env s))"
proof -
  let ?p = "\<lparr>mc_name = ''Burger'', mc_description = Some ''Demo burger'', mc_status = Mi_active\<rparr>"
  have get: "seed_clear env N (snd (get_menu_items env s))"
    unfolding get_menu_items_def
    by (rule menu_request_clear [OF s]) (use s mclear_Suc in \<open>simp add: seed_clear_def\<close>)
  have post: "seed_clear env N (snd (post_menu_item env ?p t))" if t: "seed_clear env N t" for t
    unfolding post_menu_item_def
  proof (rule menu_request_clear [OF t])
    let ?e = "sv_menv env (se_calls t)" and ?db = "se_menu t"
    have clear: "mclear env N (se_calls t) ?db" using t by (simp add: seed_clear_def)
    show "mclear env N (Suc (se_calls t)) (snd (route_create_menu_item (sv_col env) ?e ?p ?db))"
    proof (cases "insert_menu_item (sv_col env) (new_menu_item ?e ?p) ?db")
      case (Inl e)
      then show ?thesis using mclear_Suc [OF clear] by (simp add: route_create_menu_item_def m_create_menu_item_def Let_def)
    next
      case (Inr db)
      then have "mclear env N (Suc (se_calls t)) db"
        by (rule insert_menu_item_clear [OF clear _ _ _ fresh]) (simp_all add: new_menu_item_def)
      then show ?thesis using Inr mclear_Suc [OF clear] by (simp add: route_create_menu_item_def m_create_menu_item_def Let_def)
    qed
  qed
  show ?thesis
    unfolding ensure_menu_item_def
    by (intro clear_bind get) (auto split: option.split intro!: clear_bind post)
qed

lemma ensure_recipe_step_clear:
  assumes s: "seed_clear env N s" and fresh: "fresh_requests env N"
  shows "seed_clear env N (snd (ensure_recipe_step env (uuid_str mid) ty operation dur n s))"
proof -
  let ?p = "\<lparr>sc_station_type = ty, sc_operation = operation, sc_duration = dur, sc_step_order = n\<rparr>"
  have get: "seed_clear env N (snd (fetch_recipe env (uuid_str mid) s))"
    unfolding fetch_recipe_def
    by (rule menu_request_clear [OF s]) (use s mclear_Suc in \<open>simp add: seed_clear_def\<close>)
  have post: "seed_clear env N (snd (post_recipe_step env (uuid_str mid) ?p t))" if t: "seed_clear env N t" for t
    unfolding post_recipe_step_def
  proof (rule menu_request_clear [OF t])
    let ?e = "sv_menv env (se_calls t)" and ?db = "se_menu t"
    have clear: "mclear env N (se_calls t) ?db" using t by (simp add: seed_clear_def)
    obtain r db where run: "m_create_recipe_step ?e mid ?p ?db = (r, db)" by fastforce
    have "db = ?db \<or> insert_recipe_step (new_recipe_step ?e mid ?p) ?db = Inr db"
      using run by (auto simp: m_create_recipe_step_def Let_def split: sum.splits)
    moreover have "mclear env N (Suc (se_calls t)) db" if "insert_recipe_step (new_recipe_step ?e mid ?p) ?db = Inr db"
      by (rule insert_recipe_step_clear [OF clear that _ fresh]) (simp add: new_recipe_step_def)
    ultimately have "mclear env N (Suc (se_calls t)) db" using mclear_Suc [OF clear] by blast
    then show "mclear env N (Suc (se_calls t)) (snd (route_create_recipe_step uuid_parse ?e (uuid_str mid) ?p ?db))"
      using mclear_Suc [OF clear] run by (simp add: route_create_recipe_step_def)
  qed
  show ?thesis
    unfolding ensure_recipe_step_def
    by (intro clear_bind get) (auto intro!: clear_bind post)
qed

lemma post_availability_clear:
  assumes s: "seed_clear env N s"
  shows "seed_clear env N (snd (post_availability env (uuid_str kid) (uuid_str mid) True s))"
  unfolding post_availability_def
  by (rule menu_request_clear [OF s])
    (use upsert_clear s in \<open>simp add: route_upsert_availability_def seed_clear_def\<close>)

lemma demo_names:
  "len_between 1 120 ''Demo Grill''" "len_between 1 120 ''Demo Packaging''" "pg_text 120 ''Demo Grill''" "pg_text 120 ''Demo Packaging''"
  by (simp_all add: len_between_def pg_text_def)

lemma seed_main_clear:
  assumes s: "seed_clear env N s" and fresh: "fresh_requests env N"
  shows "seed_clear env N (snd (seed_main env s))"
proof -
  have station: "seed_clear env N s2 \<and> has_kitchen k s2"
    if "ensure_station env (uuid_str (k_id k)) sid nm ty s1 = (Inr g, s2)" "seed_clear env N s1" "has_kitchen k s1" "len_between 1 120 nm"
      "(sid, nm) \<in> {(demo_grill_id, ''Demo Grill''), (demo_packaging_id, ''Demo Packaging'')}" for k sid nm ty s1 g s2
    using ensure_station_clear [OF that(2,3,4,5), of ty] ensure_station_post [OF that(1) seed_clear_db(1) [OF that(2)] that(4)] that(1,3)
    by (simp add: has_kitchen_def)
  have kitchen: "has_kitchen k s1" if "ensure_kitchen env s = (Inr k, s1)" for k s1
    using ensure_kitchen_post [OF that seed_clear_db(1) [OF s]] by blast
  show ?thesis
    unfolding seed_main_def Let_def
  proof (rule clear_bind [where m = "ensure_kitchen env", OF ensure_kitchen_clear [OF s]], rule clear_bind)
    fix k t1
    assume 1: "ensure_kitchen env s = (Inr k, t1)" "seed_clear env N t1"
    show "seed_clear env N (snd (ensure_station env (uuid_str (k_id k)) demo_grill_id ''Demo Grill'' Grill t1))"
      by (rule ensure_station_clear [OF 1(2) kitchen [OF 1(1)] demo_names(1)]) simp
    fix g t2
    assume 2: "ensure_station env (uuid_str (k_id k)) demo_grill_id ''Demo Grill'' Grill t1 = (Inr g, t2)"
    have t2: "seed_clear env N t2" "has_kitchen k t2"
      using station [OF 2 1(2) kitchen [OF 1(1)] demo_names(1)] by simp_all
    have "seed_clear env N (snd (ensure_station env (uuid_str (k_id k)) demo_packaging_id ''Demo Packaging'' Packaging t2))"
      by (rule ensure_station_clear [OF t2 demo_names(2)]) simp
    then show "seed_clear env N (snd (seed_bind
        (ensure_station env (uuid_str (k_id k)) demo_packaging_id ''Demo Packaging'' Packaging) (\<lambda>packaging.
         seed_bind (ensure_menu_item env) (\<lambda>burger.
         seed_bind (ensure_recipe_step env (uuid_str (mi_id burger)) Mst_grill ''cook_patty'' 480 1) (\<lambda>_.
         seed_bind (ensure_recipe_step env (uuid_str (mi_id burger)) Mst_packaging ''pack_burger'' 60 2) (\<lambda>_.
         seed_bind (post_availability env (uuid_str (k_id k)) (uuid_str (mi_id burger)) True) (\<lambda>r.
         seed_bind (ensure_success r ''upsert Burger availability'') (\<lambda>_.
           seed_return \<lparr>ds_kitchen_id = uuid_str (k_id k), ds_grill = uuid_str (st_id g), ds_packaging = uuid_str (st_id packaging),
             ds_burger = uuid_str (mi_id burger),
             ds_workers_config = uuid_str (st_id g) @ '':1,'' @ uuid_str (st_id packaging) @ '':1''\<rparr>)))))) t2))"
      by (intro clear_bind ensure_menu_item_clear ensure_recipe_step_clear post_availability_clear fresh) simp_all
  qed
qed

section \<open>How many requests a run makes\<close>

definition calls_le :: "nat \<Rightarrow> 'a seeding \<Rightarrow> bool" where
  "calls_le c m = (\<forall>s. se_calls (snd (m s)) \<le> se_calls s + c)"

lemma calls_le_bind:
  assumes "calls_le a m" and "\<And>x. calls_le b (f x)"
  shows "calls_le (a + b) (seed_bind m f)"
  unfolding calls_le_def
proof
  fix s
  have 1: "se_calls (snd (m s)) \<le> se_calls s + a" using assms(1) by (simp add: calls_le_def)
  have 2: "se_calls (snd (f x t)) \<le> se_calls t + b" for x t using assms(2) by (simp add: calls_le_def)
  show "se_calls (snd (seed_bind m f s)) \<le> se_calls s + (a + b)"
  proof (cases "m s")
    case (Pair r t)
    then show ?thesis using 1 2 [of _ t] by (cases r) (auto simp: seed_bind_def add.assoc [symmetric] intro: order_trans [OF 2])
  qed
qed

lemma calls_le_end [simp]: "calls_le c (seed_return a)" "calls_le c (seed_raise e)" "calls_le c (ensure_success r action)"
  by (simp_all add: calls_le_def)

lemma calls_le_request:
  "calls_le (Suc 0) (request_json env (\<lambda>n. on_kitchen (f n)))" "calls_le (Suc 0) (request_json env (\<lambda>n. on_menu (g n)))"
  by (auto simp: calls_le_def request_json_def on_kitchen_def on_menu_def Let_def split: seed_net.split prod.split)

lemma calls_le_mono: "calls_le a m \<Longrightarrow> a \<le> b \<Longrightarrow> calls_le b m"
  unfolding calls_le_def by (meson add_left_mono order_trans)

lemma calls_le_listed: "calls_le 0 (seed_bind (ensure_success r action) (\<lambda>xs. case find_by_name f xs nm of
      Some x \<Rightarrow> seed_return x | None \<Rightarrow> seed_raise e))"
  by (rule calls_le_bind [where a = 0 and b = 0, simplified]) (simp_all split: option.split)

lemma calls_le_steps:
  "calls_le (Suc (Suc 0)) (ensure_kitchen env)" "calls_le (Suc (Suc 0)) (ensure_station env kid sid nm ty)" "calls_le (Suc (Suc 0)) (ensure_menu_item env)"
  "calls_le (Suc (Suc 0)) (ensure_recipe_step env mid sty operation dur n)" "calls_le (Suc 0) (post_availability env kid mid b)"
proof -
  have two: "calls_le (Suc (Suc 0)) (seed_bind m f)" if "calls_le (Suc 0) m" "\<And>x. calls_le (Suc 0) (f x)" for m and f :: "_ \<Rightarrow> _ seeding"
    using calls_le_bind [OF that] by simp
  have one: "calls_le (Suc 0) (seed_bind m f)" if "calls_le (Suc 0) m" "\<And>x. calls_le 0 (f x)" for m and f :: "_ \<Rightarrow> _ seeding"
    using calls_le_bind [OF that] by simp
  have one': "calls_le (Suc 0) (seed_bind m f)" if "calls_le 0 m" "\<And>x. calls_le (Suc 0) (f x)" for m and f :: "_ \<Rightarrow> _ seeding"
    using calls_le_bind [OF that] by simp
  show "calls_le (Suc (Suc 0)) (ensure_kitchen env)"
    unfolding ensure_kitchen_def post_kitchen_def get_kitchens_def
    by (rule two [OF calls_le_request(1)]) (simp split: if_split, intro impI one calls_le_request calls_le_listed)
  show "calls_le (Suc (Suc 0)) (ensure_station env kid sid nm ty)"
    unfolding ensure_station_def post_station_def get_stations_def
    by (rule two [OF calls_le_request(1)]) (simp split: if_split, intro impI one calls_le_request calls_le_listed)
  show "calls_le (Suc (Suc 0)) (ensure_menu_item env)"
    unfolding ensure_menu_item_def post_menu_item_def get_menu_items_def
    by (rule two [OF calls_le_request(2)], rule one') (auto split: option.split intro!: one calls_le_request)
  show "calls_le (Suc (Suc 0)) (ensure_recipe_step env mid sty operation dur n)"
    unfolding ensure_recipe_step_def post_recipe_step_def fetch_recipe_def
    by (rule two [OF calls_le_request(2)])
      (auto split: if_split intro!: one calls_le_request calls_le_bind [where a = 0 and b = 0, simplified])
  show "calls_le (Suc 0) (post_availability env kid mid b)"
    unfolding post_availability_def by (rule calls_le_request)
qed

lemma calls_le_InrD: "calls_le c m \<Longrightarrow> m s = (r, s1) \<Longrightarrow> se_calls s1 \<le> se_calls s + c"
  by (auto simp: calls_le_def dest!: spec [of _ s])

lemma calls_le_seed_main: "calls_le 13 (seed_main env)"
proof -
  have step: "calls_le (Suc (Suc c)) (seed_bind m f)" if "calls_le (Suc (Suc 0)) m" "\<And>x. calls_le c (f x)" for c m and f :: "_ \<Rightarrow> _ seeding"
    using calls_le_bind [OF that] by simp
  have "calls_le (Suc (Suc (Suc (Suc (Suc (Suc (Suc (Suc (Suc (Suc (Suc (Suc (Suc 0))))))))))))) (seed_main env)"
    unfolding seed_main_def Let_def
    by (intro step calls_le_steps) (intro calls_le_bind [where a = "Suc 0" and b = 0, simplified]
        calls_le_bind [where a = 0 and b = 0, simplified] calls_le_steps calls_le_end)
  then show ?thesis by (simp add: eval_nat_numeral)
qed

section \<open>A run whose requests are all answered\<close>

lemma ensure_kitchen_done:
  assumes s: "seed_clear env N s" and online: "seed_online env"
  shows "\<exists>k s1. ensure_kitchen env s = (Inr k, s1)"
proof (cases "\<exists>k. has_kitchen k s")
  case True
  then show ?thesis using ensure_kitchen_again [OF seed_clear_db(1) [OF s] _ online] by blast
next
  case False
  let ?p = "\<lparr>kc_id = Some demo_kitchen_id, kc_name = ''Demo Kitchen''\<rparr>"
  let ?e = "sv_kenv env (se_calls s)"
  have "\<not> (\<exists>x \<in> set (kitchens (seed_kdb s)). k_id x = demo_kitchen_id \<or> k_name x = ''Demo Kitchen'')"
    using False s by (auto simp: has_kitchen_def seed_clear_def kclear_def)
  then have "\<exists>k db. create_kitchen_row ?e ?p (seed_kdb s) = Inr (k, db)"
    by (simp add: create_kitchen_row_def insert_kitchen_def kitchen_fits_def pg_text_def Let_def)
  then obtain k db where "route_create_kitchen ?e ?p (se_kitchen s) = (Reply 201 k, se_kitchen s\<lparr>kw_db := db\<rparr>)"
    by (auto simp: route_create_kitchen_def valid_kitchen_create_def len_between_def create_kitchen_def k_reply_def)
  note post = kitchen_request_online [where f = "\<lambda>n. route_create_kitchen (sv_kenv env n) ?p", OF online this]
  show ?thesis
    unfolding ensure_kitchen_def post_kitchen_def seed_bind_Inr [where m = "request_json env _", OF post]
    by (simp add: ensure_success_Inr)
qed

lemma kclear_station:
  assumes "kclear db" and "x \<in> set (stations db)"
    and "(st_id x, nm) \<in> {(demo_grill_id, ''Demo Grill''), (demo_packaging_id, ''Demo Packaging'')}"
  shows "st_name x = nm \<and> (\<exists>k \<in> set (kitchens db). k_id k = st_kitchen_id x \<and> k_name k = ''Demo Kitchen'')"
proof -
  note c = assms(1) [unfolded kclear_def, THEN conjunct2, THEN conjunct2, THEN bspec, OF assms(2)]
  from assms(3) consider "st_id x = demo_grill_id" "nm = ''Demo Grill''" | "st_id x = demo_packaging_id" "nm = ''Demo Packaging''"
    by auto
  then show ?thesis by cases (use c in simp_all)
qed

lemma ensure_station_done:
  assumes s: "seed_clear env N s" and online: "seed_online env" and k: "has_kitchen k s"
    and nm: "len_between 1 120 nm" "pg_text 120 nm"
    and names: "(sid, nm) \<in> {(demo_grill_id, ''Demo Grill''), (demo_packaging_id, ''Demo Packaging'')}"
  shows "\<exists>st s1. ensure_station env (uuid_str (k_id k)) sid nm ty s = (Inr st, s1)"
proof (cases "\<exists>st. has_station (k_id k) nm st s")
  case True
  then show ?thesis using ensure_station_again [OF seed_clear_db(1) [OF s] k _ nm online] by blast
next
  case False
  let ?kid = "k_id k" and ?db = "seed_kdb s"
  let ?p = "\<lparr>sc_id = Some sid, sc_name = nm, sc_type = ty, sc_capacity = 1, sc_backlog_limit = 4\<rparr>"
  let ?e = "sv_kenv env (se_calls s)"
  have inv: "db_inv ?db" by (rule seed_clear_db [OF s])
  then have "distinct (map k_id (kitchens ?db))" "distinct (map k_name (kitchens ?db))" by (simp_all add: db_inv_def kdb_ok_def)
  then have row: "get_kitchen_row ?db ?kid = Some k" and names_inj: "inj_on k_name (set (kitchens ?db))"
    using k by (simp_all add: has_kitchen_def get_kitchen_row_def find_row_Some_iff distinct_map)
  have only: "x = k" if "x \<in> set (kitchens ?db)" "k_name x = ''Demo Kitchen''" for x
    using k that by (intro inj_onD [OF names_inj]) (simp_all add: has_kitchen_def)
  have "st_id x \<noteq> sid" if x: "x \<in> set (stations ?db)" for x
  proof
    assume id: "st_id x = sid"
    have "kclear ?db" using s by (simp add: seed_clear_def)
    note c = kclear_station [OF this x names [folded id]]
    then obtain y where y: "y \<in> set (kitchens ?db)" "k_id y = st_kitchen_id x" "k_name y = ''Demo Kitchen''" by (elim conjE bexE)
    have "st_kitchen_id x = ?kid" using only [OF y(1,3)] y(2) by simp
    with c x have "has_station ?kid nm x s" by (simp add: has_station_def)
    with False show False by blast
  qed
  then have "\<not> (\<exists>x \<in> set (stations ?db). st_id x = sid \<or> (st_kitchen_id x = ?kid \<and> st_name x = nm))"
    using False by (auto simp: has_station_def)
  moreover have "\<exists>x \<in> set (kitchens ?db). k_id x = ?kid" using k by (auto simp: has_kitchen_def)
  ultimately have "\<exists>st db. create_station_row ?e ?kid ?p ?db = Inr (st, db)"
    using nm(2) by (simp add: create_station_row_def insert_station_def station_fits_def pg_int4_def Let_def)
  then obtain st w where "route_create_station (sv_cfg env) ?e (uuid_str ?kid) ?p (se_kitchen s) = (Reply 201 st, w)"
    using nm(1) by (auto simp: route_create_station_def valid_station_create_def parse_uuid_def create_station_def
        get_kitchen_def row k_reply_def)
  note post = kitchen_request_online [where f = "\<lambda>n. route_create_station (sv_cfg env) (sv_kenv env n) (uuid_str ?kid) ?p", OF online this]
  show ?thesis
    unfolding ensure_station_def post_station_def seed_bind_Inr [where m = "request_json env _", OF post]
    by (simp add: ensure_success_Inr)
qed

lemma mclear_length:
  assumes "mclear env N n db"
  shows "length (md_items db) \<le> 500"
proof -
  have "inj_on (\<lambda>m. col_lower (sv_col env) (mi_name m)) (set (md_items db))" "distinct (md_items db)"
    using assms menu_okD(1,2) unfolding mclear_def distinct_map by blast+
  then have "card {m \<in> set (md_items db). mi_name m = ''Burger''} \<le> 1"
    by (auto simp: card_le_Suc0_iff_eq inj_on_def)
  then have "length (filter (\<lambda>m. mi_name m = ''Burger'') (md_items db)) \<le> 1"
    using \<open>distinct (md_items db)\<close> by (simp add: distinct_length_filter Collect_conj_eq Int_commute)
  moreover have "length (filter (\<lambda>m. mi_name m \<noteq> ''Burger'') (md_items db)) < 500"
    using assms by (simp add: mclear_def count_rows_def)
  ultimately show ?thesis using sum_length_filter_compl [of "\<lambda>m. mi_name m = ''Burger''" "md_items db"] by simp
qed

lemma ensure_menu_item_done:
  assumes s: "seed_clear env N s" and online: "seed_online env" and N: "Suc (se_calls s) < N"
  shows "\<exists>m s1. ensure_menu_item env s = (Inr m, s1)"
proof (cases "\<exists>m. has_burger m s")
  case True
  then obtain m where m: "has_burger m s" by blast
  have "length (md_items (se_menu s)) \<le> 500" using s mclear_length by (auto simp: seed_clear_def)
  from ensure_menu_item_again [OF seed_clear_db(2) [OF s] m this online] show ?thesis by blast
next
  case False
  let ?p = "\<lparr>mc_name = ''Burger'', mc_description = Some ''Demo burger'', mc_status = Mi_active\<rparr>"
  let ?items = "take 500 (sort_key (\<lambda>m. col_key (sv_col env) (mi_name m)) (md_items (se_menu s)))"
  let ?s1 = "s\<lparr>se_menu := se_menu s, se_calls := Suc (se_calls s)\<rparr>"
  let ?e = "sv_menv env (se_calls ?s1)"
  have get: "get_menu_items env s = (Inr (Reply 200 ?items), ?s1)"
    unfolding get_menu_items_def by (rule menu_request_online [OF online]) (simp add: menu_items_served)
  have "set ?items \<subseteq> set (md_items (se_menu s))" by (metis set_sort set_take_subset)
  then have none: "find_by_name mi_name ?items ''Burger'' = None"
    using False by (auto simp: find_by_name_def find_None_iff has_burger_def)
  have "insert_menu_item (sv_col env) (new_menu_item ?e ?p) (se_menu s)
      = Inr (se_menu s\<lparr>md_items := md_items (se_menu s) @ [new_menu_item ?e ?p]\<rparr>)"
    using s False N
    by (auto simp: insert_menu_item_Inr new_menu_item_def pg_text_def seed_clear_def mclear_def has_burger_def)
  then have "\<exists>db. route_create_menu_item (sv_col env) ?e ?p (se_menu ?s1) = (Reply 201 (new_menu_item ?e ?p), db)"
    by (simp add: route_create_menu_item_def valid_menu_item_create_def m_create_menu_item_def m_reply_def Let_def)
  then obtain db where "route_create_menu_item (sv_col env) ?e ?p (se_menu ?s1) = (Reply 201 (new_menu_item ?e ?p), db)" by blast
  note post = menu_request_online [where f = "\<lambda>n. route_create_menu_item (sv_col env) (sv_menv env n) ?p", OF online this]
  show ?thesis
    unfolding ensure_menu_item_def seed_bind_Inr [where m = "get_menu_items env", OF get]
    using post by (simp add: seed_bind_def ensure_success_def seed_return_def none post_menu_item_def)
qed

lemma ensure_recipe_step_done:
  assumes s: "seed_clear env N s" and online: "seed_online env" and N: "Suc (se_calls s) < N" and m: "has_burger m s"
    and p: "1 \<le> length operation" "pg_text 120 operation" "0 < dur" "pg_int4 dur" "0 < n" "pg_int4 n"
  shows "\<exists>s1. ensure_recipe_step env (uuid_str (mi_id m)) ty operation dur n s = (Inr (), s1)"
proof -
  let ?mid = "mi_id m" and ?db = "se_menu s"
  have ok: "menu_ok (sv_col env) ?db" by (rule seed_clear_db [OF s])
  have row: "get_item_row ?db ?mid = Some m"
    using m menu_okD(1) [OF ok] by (simp add: has_burger_def get_item_row_def find_row_Some_iff)
  show ?thesis
  proof (cases "has_step ?mid n s")
    case True
    then show ?thesis using ensure_recipe_step_again [OF _ _ online] row by blast
  next
    case False
    let ?p = "\<lparr>sc_station_type = ty, sc_operation = operation, sc_duration = dur, sc_step_order = n\<rparr>"
    let ?rec = "\<lparr>rr_menu_item_id = ?mid, rr_steps = list_by_menu_item ?db ?mid\<rparr>"
    let ?s1 = "s\<lparr>se_menu := ?db, se_calls := Suc (se_calls s)\<rparr>"
    let ?e = "sv_menv env (se_calls ?s1)"
    let ?r = "new_recipe_step ?e ?mid ?p"
    have "route_get_recipe uuid_parse (uuid_str ?mid) ?db = Reply 200 ?rec" using row by (auto simp: route_get_recipe_Reply)
    then have get: "fetch_recipe env (uuid_str ?mid) s = (Inr (Reply 200 ?rec), ?s1)"
      unfolding fetch_recipe_def by (intro menu_request_online [OF online]) simp
    have none: "\<not> (\<exists>x \<in> set (rr_steps ?rec). rs_step_order x = n)"
      using False by (auto simp: has_step_def set_list_by_menu_item)
    have "insert_recipe_step ?r ?db = Inr (?db\<lparr>md_steps := md_steps ?db @ [?r]\<rparr>)"
      unfolding insert_recipe_step_Inr
    proof (intro conjI)
      show "recipe_row_ok ?r" using p by (simp add: recipe_row_ok_def new_recipe_step_def)
      show "rs_id ?r \<notin> rs_id ` set (md_steps ?db)"
        using s N unfolding new_recipe_step_def seed_clear_def mclear_def by simp
      show "step_key ?r \<notin> step_key ` set (md_steps ?db)"
        using False by (auto simp: step_key_def new_recipe_step_def has_step_def)
      show "rs_menu_item_id ?r \<in> mi_id ` set (md_items ?db)" using m by (simp add: new_recipe_step_def has_burger_def)
    qed simp
    moreover have "valid_recipe_step_create ?p" using p by (simp add: valid_recipe_step_create_def pg_text_def)
    ultimately have "\<exists>db. route_create_recipe_step uuid_parse ?e (uuid_str ?mid) ?p (se_menu ?s1) = (Reply 201 ?r, db)"
      by (simp add: route_create_recipe_step_def m_create_recipe_step_def m_get_menu_item_def row m_reply_def Let_def)
    then obtain db where "route_create_recipe_step uuid_parse ?e (uuid_str ?mid) ?p (se_menu ?s1) = (Reply 201 ?r, db)" by blast
    note post = menu_request_online
      [where f = "\<lambda>n. route_create_recipe_step uuid_parse (sv_menv env n) (uuid_str ?mid) ?p", OF online this]
    show ?thesis
      unfolding ensure_recipe_step_def seed_bind_Inr [where m = "fetch_recipe env (uuid_str ?mid)", OF get]
      using post none by (simp add: seed_bind_def ensure_success_def seed_return_def post_recipe_step_def)
  qed
qed

lemma post_availability_done:
  assumes s: "seed_clear env N s" and online: "seed_online env" and m: "has_burger m s"
  shows "\<exists>a s1. post_availability env (uuid_str kid) (uuid_str (mi_id m)) True s = (Inr (Reply 200 a), s1)"
proof -
  let ?mid = "mi_id m" and ?db = "se_menu s" and ?e = "sv_menv env (se_calls s)"
  have ok: "menu_ok (sv_col env) ?db" by (rule seed_clear_db [OF s])
  have row: "get_item_row ?db ?mid = Some m"
    using m menu_okD(1) [OF ok] by (simp add: has_burger_def get_item_row_def find_row_Some_iff)
  have "get_item_row ?db ?mid \<noteq> None" by (simp add: row)
  from upsert_commit_row [OF ok refl this, of ?e kid True]
  obtain a db where "m_upsert_availability ?e kid ?mid True ?db = (Inr a, db)"
    using row by (auto simp: m_upsert_availability_def m_get_menu_item_def)
  then have "route_upsert_availability uuid_parse ?e (uuid_str kid) (uuid_str ?mid) True ?db = (Reply 200 a, db)"
    by (simp add: route_upsert_availability_def m_reply_def)
  note menu_request_online
    [where f = "\<lambda>n. route_upsert_availability uuid_parse (sv_menv env n) (uuid_str kid) (uuid_str ?mid) True", OF online this]
  then show ?thesis unfolding post_availability_def by blast
qed

lemma seed_main_done:
  assumes s: "seed_clear env N s" and fresh: "fresh_requests env N" and online: "seed_online env"
    and N: "se_calls s + 13 \<le> N"
  shows "\<exists>d s1. seed_main env s = (Inr d, s1)"
proof -
  obtain k t1 where 1: "ensure_kitchen env s = (Inr k, t1)" using ensure_kitchen_done [OF s online] by blast
  have t1: "seed_clear env N t1" "has_kitchen k t1"
    using ensure_kitchen_clear [OF s] ensure_kitchen_post [OF 1 seed_clear_db(1) [OF s]] 1 by simp_all
  obtain g t2 where 2: "ensure_station env (uuid_str (k_id k)) demo_grill_id ''Demo Grill'' Grill t1 = (Inr g, t2)"
    using ensure_station_done [OF t1(1) online t1(2) demo_names(1,3), of demo_grill_id Grill] by auto
  have t2: "seed_clear env N t2" "has_kitchen k t2"
    using ensure_station_clear [OF t1 demo_names(1), of demo_grill_id Grill]
      ensure_station_post [OF 2 seed_clear_db(1) [OF t1(1)] demo_names(1)] t1(2) 2 by (simp_all add: has_kitchen_def)
  obtain p t3 where 3: "ensure_station env (uuid_str (k_id k)) demo_packaging_id ''Demo Packaging'' Packaging t2 = (Inr p, t3)"
    using ensure_station_done [OF t2(1) online t2(2) demo_names(2,4), of demo_packaging_id Packaging] by auto
  have t3: "seed_clear env N t3" using ensure_station_clear [OF t2 demo_names(2), of demo_packaging_id Packaging] 3 by simp
  note calls = calls_le_InrD [OF calls_le_steps(1) 1] calls_le_InrD [OF calls_le_steps(2) 2] calls_le_InrD [OF calls_le_steps(2) 3]
  have N3: "Suc (se_calls t3) < N" using calls N by linarith
  obtain m t4 where 4: "ensure_menu_item env t3 = (Inr m, t4)" using ensure_menu_item_done [OF t3 online N3] by blast
  have t4: "seed_clear env N t4" "has_burger m t4"
    using ensure_menu_item_clear [OF t3 fresh] ensure_menu_item_post [OF 4 seed_clear_db(2) [OF t3]] 4 by simp_all
  let ?mid = "uuid_str (mi_id m)"
  have N4: "Suc (se_calls t4) < N" using calls calls_le_InrD [OF calls_le_steps(3) 4] N by linarith
  obtain t5 where 5: "ensure_recipe_step env ?mid Mst_grill ''cook_patty'' 480 1 t4 = (Inr (), t5)"
    using ensure_recipe_step_done [OF t4(1) online N4 t4(2), of "''cook_patty''" 480 1 Mst_grill] by (auto simp: pg_text_def pg_int4_def)
  have t5: "seed_clear env N t5" "has_burger m t5"
    using ensure_recipe_step_clear [OF t4(1) fresh, of "mi_id m" Mst_grill "''cook_patty''" 480 1]
      ensure_recipe_step_post [OF 5 seed_clear_db(2) [OF t4(1)]] t4(2) 5 by (simp_all add: has_burger_def)
  have N5: "Suc (se_calls t5) < N"
    using calls calls_le_InrD [OF calls_le_steps(3) 4] calls_le_InrD [OF calls_le_steps(4) 5] N by linarith
  obtain t6 where 6: "ensure_recipe_step env ?mid Mst_packaging ''pack_burger'' 60 2 t5 = (Inr (), t6)"
    using ensure_recipe_step_done [OF t5(1) online N5 t5(2), of "''pack_burger''" 60 2 Mst_packaging] by (auto simp: pg_text_def pg_int4_def)
  have t6: "seed_clear env N t6" "has_burger m t6"
    using ensure_recipe_step_clear [OF t5(1) fresh, of "mi_id m" Mst_packaging "''pack_burger''" 60 2]
      ensure_recipe_step_post [OF 6 seed_clear_db(2) [OF t5(1)]] t5(2) 6 by (simp_all add: has_burger_def)
  obtain a t7 where "post_availability env (uuid_str (k_id k)) ?mid True t6 = (Inr (Reply 200 a), t7)"
    using post_availability_done [OF t6(1) online t6(2)] by blast
  from seed_main_run [OF 1 2 3 4 5 6 this] show ?thesis by blast
qed

section \<open>The theorem\<close>

text \<open>The script run over and over on the network of the environment.\<close>

definition seed_attempts :: "nat \<Rightarrow> seed_env \<Rightarrow> seed_state \<Rightarrow> seed_state" where
  "seed_attempts n env = (\<lambda>s. snd (seed_main env s)) ^^ n"

definition network_back :: "seed_env \<Rightarrow> seed_env" where
  "network_back env = env\<lparr>sv_net := \<lambda>_. Sn_ok\<rparr>"

lemma seed_attempts_clear:
  assumes "seed_clear env N s" and "fresh_requests env N"
  shows "seed_clear env N (seed_attempts n env s)" "se_calls (seed_attempts n env s) \<le> se_calls s + 13 * n"
proof (induction n)
  case (Suc n)
  let ?t = "seed_attempts n env s"
  have step: "seed_attempts (Suc n) env s = snd (seed_main env ?t)" by (simp add: seed_attempts_def)
  {
    case 1
    show ?case unfolding step by (rule seed_main_clear [OF Suc.IH(1) assms(2)])
  next
    case 2
    have "se_calls (snd (seed_main env ?t)) \<le> se_calls ?t + 13" using calls_le_seed_main by (simp add: calls_le_def)
    then show ?case unfolding step using Suc.IH(2) by simp
  }
qed (simp_all add: seed_attempts_def assms)

text \<open>
  C37. However many runs of the script the network has cut off, each at any request and
  with that request served or not, a run whose requests are all answered succeeds, and
  another one gives the same state file and changes no table, provided the tables did not
  stand in its way at first and the identifiers generated meanwhile (a run makes at most 13
  requests) are new.
\<close>

theorem seed_recovers:
  assumes "seed_clear env N s" and "fresh_requests env N" and "se_calls s + 13 * Suc n \<le> N"
  shows "\<exists>d s1 s2. seed_main (network_back env) (seed_attempts n env s) = (Inr d, s1)
     \<and> seed_main (network_back env) s1 = (Inr d, s2) \<and> seed_kdb s2 = seed_kdb s1 \<and> se_menu s2 = se_menu s1"
proof -
  let ?e = "network_back env" and ?t = "seed_attempts n env s"
  note clear = seed_attempts_clear [OF assms(1,2), of n]
  have t: "seed_clear ?e N ?t" using clear(1) by (simp add: network_back_def seed_clear_def mclear_def)
  have e: "fresh_requests ?e N" "seed_online ?e"
    using assms(2) by (simp_all add: network_back_def fresh_requests_def seed_online_def)
  have "se_calls ?t + 13 \<le> N" using clear(2) assms(3) by simp
  from seed_main_done [OF t e this] obtain d s1 where run: "seed_main ?e ?t = (Inr d, s1)" by blast
  then have "seed_clear ?e N s1" using seed_main_clear [OF t e(1)] by simp
  then have "length (md_items (se_menu s1)) \<le> 500" using mclear_length by (auto simp: seed_clear_def)
  from seed_twice [OF seed_clear_db [OF t] run this e(2) refl] run show ?thesis by blast
qed

end
