(* ===== verification/Demo_Seed_Example.thy ===== *)
theory Demo_Seed_Example
  imports Demo_Seed_Recovery
begin

text \<open>
  The demo script on empty tables: with a network that loses the answer of the fourth request,
  and with one that loses none.
\<close>

definition sdemo_env :: seed_env where
  "sdemo_env = \<lparr>sv_cfg = \<lparr>ks_service_name = ''kitchen'', ks_mongo_enabled = False\<rparr>, sv_col = mdemo_col,
     sv_kenv = (\<lambda>n. \<lparr>ke_now = mdemo_time, ke_db_now = mdemo_time, ke_uuid = of_nat n\<rparr>),
     sv_menv = (\<lambda>n. mdemo_env (of_nat n)),
     sv_net = (\<lambda>n. if n = 3 then Sn_unanswered else Sn_ok)\<rparr>"

definition sdemo_state :: seed_state where
  "sdemo_state = \<lparr>se_kitchen = \<lparr>kw_db = empty_kdb, kw_mongo = \<lparr>m_docs = [], m_script = []\<rparr>, kw_metrics = empty_metrics\<rparr>,
     se_menu = empty_mdb, se_calls = 0\<rparr>"

abbreviation sdemo_online :: seed_env where
  "sdemo_online \<equiv> network_back sdemo_env"

lemma sdemo_clear: "seed_clear e 39 sdemo_state"
proof -
  have "kclear empty_kdb" by (simp add: kclear_def empty_kdb_def db_inv_def kdb_ok_def busy_ok_def)
  moreover have "mclear e 39 0 empty_mdb" by (simp add: mclear_def) (simp add: empty_mdb_def)
  ultimately show ?thesis by (simp add: seed_clear_def sdemo_state_def)
qed

lemma sdemo_fresh: "fresh_requests sdemo_env 39" "fresh_requests sdemo_online 39" "seed_online sdemo_online"
proof -
  have "inj_on (\<lambda>n. of_nat n :: uuid) {..<39}"
  proof (rule inj_onI)
    fix m n :: nat
    assume "m \<in> {..<39}" "n \<in> {..<39}" "(of_nat m :: uuid) = of_nat n"
    moreover have "unat (of_nat i :: uuid) = i" if "i < 39" for i :: nat
      using that by (simp add: unat_of_nat take_bit_nat_eq_self)
    ultimately show "m = n" by (metis lessThan_iff)
  qed
  then show "fresh_requests sdemo_env 39" "fresh_requests sdemo_online 39" "seed_online sdemo_online"
    by (simp_all add: fresh_requests_def network_back_def sdemo_env_def mdemo_env_def seed_online_def)
qed

lemma sdemo_run: "\<exists>d s1. seed_main sdemo_online sdemo_state = (Inr d, s1)"
  by (rule seed_main_done [OF sdemo_clear sdemo_fresh(2,3)]) (simp add: sdemo_state_def)


theorem seed_recovers_witness:
  "\<exists>d s1 s2. seed_main (network_back sdemo_env) (seed_attempts 2 sdemo_env sdemo_state) = (Inr d, s1)
     \<and> seed_main (network_back sdemo_env) s1 = (Inr d, s2) \<and> se_menu s2 = se_menu s1"
proof -
  have "se_calls sdemo_state + 13 * Suc 2 \<le> 39" by (simp add: sdemo_state_def)
  from seed_recovers [OF sdemo_clear sdemo_fresh(1) this] show ?thesis by blast
qed

end
