(* ===== verification/Demo_Smoke.thy ===== *)
theory Demo_Smoke
  imports Demo_Seed Fulfillment_Routes
begin

text \<open>
  The script \<open>src/scripts/demo/smoke_demo.py\<close>: it places an order for the dish of the demo and
  polls it until it is ready for pickup or the time is up. A loop is a partial function, as
  nothing but the clock ends it.
\<close>

section \<open>The script and its surroundings\<close>

text \<open>
  What ends the script early: an exception of a request, an exception of a probe that its
  loop does not catch, a deadline beyond the calendar, a negative sleep, and the \<open>RuntimeError\<close>s.
\<close>

datatype smoke_error =
    Smoke_network_error
  | Smoke_probe_error
  | Smoke_overflow
  | Smoke_negative_sleep
  | Smoke_wait_timed_out string
  | Smoke_order_failed nat
  | Smoke_not_observed
  | Smoke_not_ready

text \<open>A probe: an answer with a status, an exception the loop catches, or another one.\<close>

datatype probe = Pr_status nat | Pr_caught | Pr_raises

text \<open>
  The world the \<open>n\<close>th request of the script meets, whether it is answered, the probes by URL, and the
  time that passes outside of sleeps up to the \<open>n\<close>th reading of the clock.
\<close>

record smoke_env =
  sw_cfg :: fsettings
  sw_up :: upstream
  sw_fenv :: fenv
  sw_world :: "nat \<Rightarrow> fworld"
  sw_net :: "nat \<Rightarrow> seed_net"
  sw_probe :: "string \<Rightarrow> nat \<Rightarrow> probe"
  sw_clock :: "nat \<Rightarrow> real"
  sw_now :: pydatetime
  sw_prometheus :: string
  sw_grafana :: string
  sw_timeout :: int
  sw_poll_interval :: real

record smoke_state =
  sm_calls :: nat
  sm_reads :: nat
  sm_slept :: real

definition monotonic :: "smoke_env \<Rightarrow> smoke_state \<Rightarrow> real \<times> smoke_state" where
  "monotonic env s = (sw_clock env (sm_reads s) + sm_slept s, s\<lparr>sm_reads := Suc (sm_reads s)\<rparr>)"

definition time_sleep :: "real \<Rightarrow> smoke_state \<Rightarrow> smoke_state" where
  "time_sleep x s = s\<lparr>sm_slept := sm_slept s + x\<rparr>"

definition smoke_request :: "smoke_env \<Rightarrow> (fworld \<Rightarrow> 'b reply) \<Rightarrow> smoke_state \<Rightarrow> (smoke_error + 'b reply) \<times> smoke_state" where
  "smoke_request env serve s =
     (let n = sm_calls s
      in (if sw_net env n = Sn_ok then Inr (serve (sw_world env n)) else Inl Smoke_network_error, s\<lparr>sm_calls := Suc n\<rparr>))"

section \<open>Waiting for a URL\<close>

partial_function (option) wait_loop ::
    "smoke_env \<Rightarrow> string \<Rightarrow> real \<Rightarrow> smoke_state \<Rightarrow> ((smoke_error + unit) \<times> smoke_state) option" where
  "wait_loop env url deadline s =
     (case monotonic env s of (t, s1) \<Rightarrow>
        if deadline \<le> t then Some (Inl (Smoke_wait_timed_out url), s1)
        else
          (case sw_probe env url (sm_calls s1) of
             Pr_raises \<Rightarrow> Some (Inl Smoke_probe_error, s1\<lparr>sm_calls := Suc (sm_calls s1)\<rparr>)
           | Pr_caught \<Rightarrow> wait_loop env url deadline (time_sleep 1 (s1\<lparr>sm_calls := Suc (sm_calls s1)\<rparr>))
           | Pr_status c \<Rightarrow>
               if c < 500 then Some (Inr (), s1\<lparr>sm_calls := Suc (sm_calls s1)\<rparr>)
               else wait_loop env url deadline (time_sleep 1 (s1\<lparr>sm_calls := Suc (sm_calls s1)\<rparr>))))"

definition wait_url :: "smoke_env \<Rightarrow> string \<Rightarrow> int \<Rightarrow> smoke_state \<Rightarrow> ((smoke_error + unit) \<times> smoke_state) option" where
  "wait_url env url timeout s =
     (case monotonic env s of (t, s1) \<Rightarrow> wait_loop env url (t + real_of_int timeout) s1)"

text \<open>The two at the end of a run that has seen the order ready.\<close>

definition wait_dashboards :: "smoke_env \<Rightarrow> smoke_state \<Rightarrow> ((smoke_error + unit) \<times> smoke_state) option" where
  "wait_dashboards env s =
     (case wait_url env (py_rstrip_char CHR ''/'' (sw_prometheus env) @ ''/-/ready'') 10 s of
        None \<Rightarrow> None
      | Some (Inl e, s1) \<Rightarrow> Some (Inl e, s1)
      | Some (Inr _, s1) \<Rightarrow> wait_url env (py_rstrip_char CHR ''/'' (sw_grafana env) @ ''/api/health'') 10 s1)"

section \<open>Polling the order\<close>

text \<open>Only the body of a success is a list, and only that of a success has a status.\<close>

definition task_statuses :: "task_read list reply \<Rightarrow> string list option" where
  "task_statuses r = (case r of Reply _ ts \<Rightarrow> Some (map (\<lambda>x. task_status_str (ft_status (tr_task x))) ts) | _ \<Rightarrow> None)"

definition order_ready :: "(order \<times> order_item list) reply \<Rightarrow> bool" where
  "order_ready r = (case r of Reply _ (x, _) \<Rightarrow> order_status_str (o_status x) = ''ready_for_pickup'' | _ \<Rightarrow> False)"

definition observe :: "task_read list reply \<Rightarrow> bool \<times> bool \<Rightarrow> bool \<times> bool" where
  "observe r seen =
     (case task_statuses r of
        None \<Rightarrow> seen
      | Some ss \<Rightarrow>
          (fst seen \<or> ''displayed'' \<in> set ss \<or> ''in_progress'' \<in> set ss \<or> ''done'' \<in> set ss,
           snd seen \<or> ''in_progress'' \<in> set ss \<or> ''done'' \<in> set ss))"

text \<open>The end of a run whose time is up: the tasks shown at the two stations are printed.\<close>

definition report_stations :: "smoke_env \<Rightarrow> smoke_state \<Rightarrow> smoke_error \<times> smoke_state" where
  "report_stations env s =
     (if sw_net env (sm_calls s) \<noteq> Sn_ok then (Smoke_network_error, s\<lparr>sm_calls := sm_calls s + 1\<rparr>)
      else if sw_net env (sm_calls s + 1) \<noteq> Sn_ok then (Smoke_network_error, s\<lparr>sm_calls := sm_calls s + 2\<rparr>)
      else (Smoke_not_ready, s\<lparr>sm_calls := sm_calls s + 2\<rparr>))"

partial_function (option) poll_loop ::
    "smoke_env \<Rightarrow> string \<Rightarrow> real \<Rightarrow> bool \<times> bool \<Rightarrow> smoke_state \<Rightarrow> ((smoke_error + unit) \<times> smoke_state) option" where
  "poll_loop env oid deadline seen s =
     (case monotonic env s of (t, s1) \<Rightarrow>
        if deadline \<le> t then Some (apfst Inl (report_stations env s1))
        else
          (case smoke_request env (route_get_order uuid_parse oid) s1 of
             (Inl e, s2) \<Rightarrow> Some (Inl e, s2)
           | (Inr ord, s2) \<Rightarrow>
               (case smoke_request env (route_list_order_tasks uuid_parse oid) s2 of
                  (Inl e, s3) \<Rightarrow> Some (Inl e, s3)
                | (Inr tasks, s3) \<Rightarrow>
                    if order_ready ord
                    then (case wait_dashboards env s3 of
                            None \<Rightarrow> None
                          | Some (Inl e, s4) \<Rightarrow> Some (Inl e, s4)
                          | Some (Inr _, s4) \<Rightarrow>
                              Some (if fst (observe tasks seen) \<and> snd (observe tasks seen) then Inr () else Inl Smoke_not_observed, s4))
                    else if sw_poll_interval env < 0 then Some (Inl Smoke_negative_sleep, s3)
                    else poll_loop env oid deadline (observe tasks seen) (time_sleep (sw_poll_interval env) s3))))"

section \<open>The whole script\<close>

text \<open>One hour from now, without the microseconds; \<open>datetime\<close> raises beyond its range.\<close>

definition smoke_deadline :: "pydatetime \<Rightarrow> pydatetime option" where
  "smoke_deadline now = map_option (\<lambda>d. d\<lparr>dt_us := dt_us d div 1000000 * 1000000\<rparr>) (dt_add_seconds now 3600)"

text \<open>The body as the service reads it; an identifier that is no UUID is refused.\<close>

definition smoke_order :: "demo_state \<Rightarrow> pydatetime \<Rightarrow> order_create option" where
  "smoke_order d deadline =
     (case (uuid_parse (ds_kitchen_id d), uuid_parse (ds_burger d)) of
        (Some kid, Some mid) \<Rightarrow>
          Some \<lparr>oc_kitchen_id = kid, oc_pickup_deadline = Some deadline,
            oc_items = [\<lparr>ic_menu_item_id = mid, ic_quantity = 1\<rparr>]\<rparr>
      | _ \<Rightarrow> None)"

definition post_order :: "smoke_env \<Rightarrow> order_create option \<Rightarrow> fworld \<Rightarrow> order_created reply" where
  "post_order env p w =
     (case p of None \<Rightarrow> Unprocessable | Some q \<Rightarrow> fst (route_create_order (sw_cfg env) (sw_up env) (sw_fenv env) None q w))"

definition smoke_main :: "smoke_env \<Rightarrow> demo_state \<Rightarrow> smoke_state \<Rightarrow> ((smoke_error + unit) \<times> smoke_state) option" where
  "smoke_main env d s =
     (case smoke_deadline (sw_now env) of
        None \<Rightarrow> Some (Inl Smoke_overflow, s)
      | Some deadline \<Rightarrow>
          (case smoke_request env (post_order env (smoke_order d deadline)) s of
             (Inl e, s1) \<Rightarrow> Some (Inl e, s1)
           | (Inr r, s1) \<Rightarrow>
               (case r of
                  Reply c x \<Rightarrow>
                    if c \<noteq> 201 then Some (Inl (Smoke_order_failed c), s1)
                    else (case monotonic env s1 of (t, s2) \<Rightarrow>
                      poll_loop env (uuid_str (o_id (oq_order x))) (t + real_of_int (sw_timeout env)) (False, False) s2)
                | _ \<Rightarrow> Some (Inl (Smoke_order_failed (reply_status r)), s1))))"

end
