(* ===== verification/Demo_Smoke_Props.thy ===== *)
theory Demo_Smoke_Props
  imports Demo_Smoke Fulfillment_Done
begin

text \<open>
  The smoke script against the fulfillment service: when it reports success the order really
  is done, its check of what it has observed can never fail, and the clock ends it.
\<close>

section \<open>Time\<close>

definition reading :: "smoke_env \<Rightarrow> smoke_state \<Rightarrow> real" where
  "reading env s = sw_clock env (sm_reads s) + sm_slept s"

lemma monotonic_eq: "monotonic env s = (reading env s, s\<lparr>sm_reads := Suc (sm_reads s)\<rparr>)"
  by (simp add: monotonic_def reading_def)

lemma smoke_request_state:
  "smoke_request env f s = (r, s1) \<Longrightarrow> s1 = s\<lparr>sm_calls := Suc (sm_calls s)\<rparr>"
  by (auto simp: smoke_request_def Let_def)

lemma reading_later:
  assumes "mono (sw_clock env)" and "sm_reads s \<le> sm_reads s1" and "sm_slept s + x \<le> sm_slept s1"
  shows "reading env s + x \<le> reading env s1"
  using monoD [OF assms(1,2)] assms(3) by (simp add: reading_def)

lemma wait_loop_ends:
  assumes clock: "mono (sw_clock env)"
  shows "deadline - reading env s \<le> real n \<Longrightarrow> \<exists>r. wait_loop env url deadline s = Some r"
proof (induction n arbitrary: s)
  case 0
  then show ?case by (simp add: wait_loop.simps monotonic_eq)
next
  case (Suc n)
  let ?s1 = "s\<lparr>sm_reads := Suc (sm_reads s), sm_calls := Suc (sm_calls s)\<rparr>"
  have "reading env s + 1 \<le> reading env (time_sleep 1 ?s1)"
    by (rule reading_later [OF clock]) (simp_all add: time_sleep_def)
  then have "\<exists>r. wait_loop env url deadline (time_sleep 1 ?s1) = Some r" using Suc by (intro Suc.IH) simp
  then show ?case by (subst wait_loop.simps) (auto simp: monotonic_eq split: probe.split)
qed

lemma wait_url_ends: "mono (sw_clock env) \<Longrightarrow> \<exists>r. wait_url env url timeout s = Some r"
  unfolding wait_url_def monotonic_eq prod.case
  by (rule wait_loop_ends) (auto intro: real_nat_ceiling_ge)

lemma wait_dashboards_ends: "mono (sw_clock env) \<Longrightarrow> \<exists>r. wait_dashboards env s = Some r"
proof -
  assume clock: "mono (sw_clock env)"
  obtain r s1 where "wait_url env (py_rstrip_char CHR ''/'' (sw_prometheus env) @ ''/-/ready'') 10 s = Some (r, s1)"
    using wait_url_ends [OF clock] by (metis surj_pair)
  then show ?thesis
    using wait_url_ends [OF clock] by (cases r) (simp_all add: wait_dashboards_def)
qed

lemma poll_loop_ends:
  assumes clock: "mono (sw_clock env)" and poll: "0 < sw_poll_interval env"
  shows "deadline - reading env s \<le> real n * sw_poll_interval env \<Longrightarrow> \<exists>r. poll_loop env oid deadline seen s = Some r"
proof (induction n arbitrary: s seen)
  case 0
  then show ?case by (simp add: poll_loop.simps monotonic_eq)
next
  case (Suc n)
  let ?s1 = "s\<lparr>sm_reads := Suc (sm_reads s)\<rparr>"
  obtain r2 s2 where 2: "smoke_request env (route_get_order uuid_parse oid) ?s1 = (r2, s2)" by fastforce
  obtain r3 s3 where 3: "smoke_request env (route_list_order_tasks uuid_parse oid) s2 = (r3, s3)" by fastforce
  note states = smoke_request_state [OF 2] smoke_request_state [OF 3]
  have "reading env s + sw_poll_interval env \<le> reading env (time_sleep (sw_poll_interval env) s3)"
    by (rule reading_later [OF clock]) (simp_all add: states time_sleep_def)
  then have "deadline - reading env (time_sleep (sw_poll_interval env) s3) \<le> real n * sw_poll_interval env"
    using Suc.prems by (simp add: algebra_simps)
  then have again: "\<exists>r. poll_loop env oid deadline seen' (time_sleep (sw_poll_interval env) s3) = Some r" for seen'
    by (rule Suc.IH)
  obtain r4 s4 where 4: "wait_dashboards env s3 = Some (r4, s4)" using wait_dashboards_ends [OF clock] by (metis surj_pair)
  show ?case
    by (subst poll_loop.simps) (use 2 3 4 again poll in \<open>auto simp: monotonic_eq split: sum.split\<close>)
qed

section \<open>Requests only advance\<close>

lemma wait_loop_calls: "wait_loop env url deadline s = Some y \<Longrightarrow> sm_calls s \<le> sm_calls (snd y)"
proof (induction rule: wait_loop.raw_induct [rotated, consumes 1])
  case (1 loop env url deadline s y)
  let ?s1 = "s\<lparr>sm_reads := Suc (sm_reads s)\<rparr>"
  let ?s2 = "?s1\<lparr>sm_calls := Suc (sm_calls s)\<rparr>"
  have IH: "Suc (sm_calls s) \<le> sm_calls (snd y)" if "loop env url deadline (time_sleep 1 ?s2) = Some y"
    using 1(1) [OF that] by (simp add: time_sleep_def)
  show ?case
  proof (cases "deadline \<le> reading env s")
    case True
    then show ?thesis using 1(2) by (auto simp: monotonic_eq)
  next
    case False
    then show ?thesis
      using 1(2) IH by (cases "sw_probe env url (sm_calls s)") (auto simp: monotonic_eq split: if_splits)
  qed
qed

lemma wait_dashboards_calls: "wait_dashboards env s = Some (r, s1) \<Longrightarrow> sm_calls s \<le> sm_calls s1"
  by (fastforce simp: wait_dashboards_def wait_url_def monotonic_eq dest!: wait_loop_calls split: option.splits sum.splits)

lemma wait_loop_error: "wait_loop env url deadline s = Some y \<Longrightarrow> fst y \<noteq> Inl Smoke_not_observed"
proof (induction rule: wait_loop.raw_induct [rotated, consumes 1])
  case (1 loop env url deadline s y)
  note IH = 1(1)
  show ?case
  proof (cases "deadline \<le> reading env s")
    case True
    then show ?thesis using 1(2) by (auto simp: monotonic_eq)
  next
    case False
    then show ?thesis
      using 1(2) IH by (cases "sw_probe env url (sm_calls s)") (auto simp: monotonic_eq split: if_splits)
  qed
qed

lemma wait_dashboards_error: "wait_dashboards env s = Some (r, s1) \<Longrightarrow> r \<noteq> Inl Smoke_not_observed"
  by (fastforce simp: wait_dashboards_def wait_url_def monotonic_eq dest!: wait_loop_error split: option.splits sum.splits)

section \<open>In front of the fulfillment service\<close>

text \<open>The worlds the requests meet are those of one run of the service, in its order.\<close>

definition service_run :: "fsettings \<Rightarrow> (nat \<Rightarrow> fconc) \<Rightarrow> bool" where
  "service_run cfg ks = (reach finit (fstep False cfg) (ks 0) \<and> (\<forall>n. (fstep False cfg)\<^sup>*\<^sup>* (ks n) (ks (Suc n))))"

lemma service_run_later: "service_run cfg ks \<Longrightarrow> m \<le> n \<Longrightarrow> (fstep False cfg)\<^sup>*\<^sup>* (ks m) (ks n)"
proof (induction n)
  case (Suc n)
  show ?case
  proof (cases "m = Suc n")
    case False
    then have "(fstep False cfg)\<^sup>*\<^sup>* (ks m) (ks n)" using Suc by simp
    moreover have "(fstep False cfg)\<^sup>*\<^sup>* (ks n) (ks (Suc n))" using Suc.prems(1) by (simp add: service_run_def)
    ultimately show ?thesis by (rule rtranclp_trans)
  qed simp
qed simp

lemma service_run_reach: "service_run cfg ks \<Longrightarrow> reach finit (fstep False cfg) (ks n)"
proof -
  assume run: "service_run cfg ks"
  have "(fstep False cfg)\<^sup>*\<^sup>* (ks 0) (ks n)" by (rule service_run_later [OF run]) simp
  then show ?thesis
    by (induction rule: rtranclp_induct) (use run in \<open>auto simp: service_run_def intro: reach_step\<close>)
qed

lemma order_ready_Reply: "order_ready r \<longleftrightarrow> (\<exists>c x is. r = Reply c (x, is) \<and> o_status x = Ord_ready_for_pickup)"
proof -
  have "order_status_str st = ''ready_for_pickup'' \<longleftrightarrow> st = Ord_ready_for_pickup" for st by (cases st) simp_all
  then show ?thesis by (auto simp: order_ready_def split: reply.splits)
qed

lemma ready_reply_done:
  assumes run: "service_run cfg ks" and ready: "order_ready (route_get_order uuid_parse (uuid_str oid) (fx_world (ks m)))" and "m \<le> n"
  shows "order_done oid (ks n)"
proof -
  let ?db = "fw_db (fx_world (ks m))"
  obtain r where r: "get_order_row ?db oid = Some r" "o_status r = Ord_ready_for_pickup"
    using ready
    by (cases "get_order_row ?db oid")
      (auto simp: order_ready_Reply route_get_order_def f_get_order_def f_reply_def f_error_reply_def split: if_splits)
  then have "o_id r = oid" "r \<in> set (f_orders ?db)" using order_tab.get_key order_tab.get_member by blast+
  then have "order_done oid (ks m)" using ready_order_done [OF service_run_reach [OF run, of m]] r(2) by metis
  then show ?thesis
    by (rule ful_done.steps_stable [OF service_run_later [OF run assms(3)] ful_sys.reach_inv [OF service_run_reach [OF run]]])
qed

text \<open>What the script observes of an order that is done.\<close>

lemma done_tasks_observed:
  assumes "order_done oid k"
  shows "observe (route_list_order_tasks uuid_parse (uuid_str oid) (fx_world k)) seen = (True, True)"
proof -
  let ?db = "fw_db (fx_world k)"
  have "oid \<in> o_id ` set (f_orders ?db)" using assms by (simp add: order_done_def Let_def)
  then have "get_order_row ?db oid \<noteq> None" by (auto simp: get_order_row_def find_row_None_iff)
  then have reply: "\<exists>ts. route_list_order_tasks uuid_parse (uuid_str oid) (fx_world k) = Reply 200 ts
      \<and> map tr_task ts = list_by_order ?db oid"
    by (auto simp: route_list_order_tasks_def list_order_tasks_def f_get_order_def f_reply_def comp_def)
  then obtain ts where ts: "route_list_order_tasks uuid_parse (uuid_str oid) (fx_world k) = Reply 200 ts"
    "map tr_task ts = list_by_order ?db oid" by blast
  obtain t where "t \<in> set (f_tasks ?db)" "ft_order_id t = oid" "ft_status t = Tk_done"
    using assms by (auto simp: order_done_def has_tasks_def unfinished_def count_rows_zero_iff Let_def)
  then have "t \<in> set (map tr_task ts)" by (simp add: ts(2) list_by_order_def)
  then obtain x where "x \<in> set ts" "ft_status (tr_task x) = Tk_done" using \<open>ft_status t = Tk_done\<close> by auto
  then have "''done'' \<in> set (map (\<lambda>x. task_status_str (ft_status (tr_task x))) ts)" by force
  then show ?thesis by (simp add: observe_def task_statuses_def ts(1))
qed

lemma poll_loop_sound:
  assumes run: "service_run cfg ks"
  shows "poll_loop env oid_str deadline seen s = Some y \<Longrightarrow> oid_str = uuid_str oid \<Longrightarrow> (\<And>n. sw_world env n = fx_world (ks n)) \<Longrightarrow>
     fst y \<noteq> Inl Smoke_not_observed \<and> (fst y = Inr () \<longrightarrow> order_done oid (ks (sm_calls (snd y))))"
proof (induction rule: poll_loop.raw_induct [rotated, consumes 1])
  case (1 loop env oid_str deadline seen s y)
  note world = 1(4)
  let ?t = "s\<lparr>sm_reads := Suc (sm_reads s)\<rparr>"
  obtain r2 s2 where 2: "smoke_request env (route_get_order uuid_parse oid_str) ?t = (r2, s2)" by fastforce
  obtain r3 s3 where 3: "smoke_request env (route_list_order_tasks uuid_parse oid_str) s2 = (r3, s3)" by fastforce
  note states = smoke_request_state [OF 2] smoke_request_state [OF 3]
  consider (late) "deadline \<le> reading env s" | (lost) e where "reading env s < deadline" "r2 = Inl e \<or> (\<exists>ord. r2 = Inr ord \<and> r3 = Inl e)"
    | (round) ord tasks where "reading env s < deadline" "r2 = Inr ord" "r3 = Inr tasks"
    by (cases r2; cases r3) force+
  then show ?case
  proof cases
    case late
    then have "y = apfst Inl (report_stations env ?t)" using 1(2) by (simp add: monotonic_eq)
    then show ?thesis by (simp add: report_stations_def)
  next
    case lost
    then have "fst y = Inl e" using 1(2) 2 3 by (auto simp: monotonic_eq)
    moreover have "e = Smoke_network_error" using lost(2) 2 3 by (auto simp: smoke_request_def Let_def split: if_splits)
    ultimately show ?thesis by simp
  next
    case round
    have ord: "ord = route_get_order uuid_parse (uuid_str oid) (fx_world (ks (sm_calls s)))"
      using 2 round world 1(3) by (simp add: smoke_request_def Let_def split: if_splits)
    have tasks: "tasks = route_list_order_tasks uuid_parse (uuid_str oid) (fx_world (ks (Suc (sm_calls s))))"
      using 3 round world states 1(3) by (simp add: smoke_request_def Let_def split: if_splits)
    show ?thesis
    proof (cases "order_ready ord")
      case True
      note ready = ready_reply_done [OF run True [unfolded ord]]
      have seen: "observe tasks seen = (True, True)" unfolding tasks by (rule done_tasks_observed [OF ready]) simp
      obtain r4 s4 where 4: "wait_dashboards env s3 = Some (r4, s4)"
        using 1(2) 2 3 round True by (cases "wait_dashboards env s3") (auto simp: monotonic_eq)
      have y: "y = (case r4 of Inl e \<Rightarrow> (Inl e, s4) | Inr _ \<Rightarrow> (Inr (), s4))"
        using 1(2) 2 3 round True 4 seen by (cases r4) (simp_all add: monotonic_eq)
      have "sm_calls s \<le> sm_calls s4" using wait_dashboards_calls [OF 4] states by simp
      then show ?thesis using ready wait_dashboards_error [OF 4] by (cases r4) (auto simp: y)
    next
      case False
      then have "sw_poll_interval env < 0 \<and> y = (Inl Smoke_negative_sleep, s3)
          \<or> loop env oid_str deadline (observe tasks seen) (time_sleep (sw_poll_interval env) s3) = Some y"
        using 1(2) 2 3 round by (auto simp: monotonic_eq split: if_splits)
      then show ?thesis
      proof
        assume "loop env oid_str deadline (observe tasks seen) (time_sleep (sw_poll_interval env) s3) = Some y"
        then show ?thesis by (rule 1(1) [OF _ 1(3,4)])
      qed simp
    qed
  qed
qed

section \<open>The theorems\<close>

text \<open>
  C21. Against one run of the fulfillment service the check of the script for observed
  states never fails (a task that is done counts as having been displayed and started), and
  if the script reports success, the order it has created has tasks, all of which are done.
\<close>

theorem smoke_success_sound:
  fixes ks :: "nat \<Rightarrow> fconc"
  assumes "service_run cfg ks" and "\<And>n. sw_world env n = fx_world (ks n)" and "smoke_main env d s = Some (res, s1)"
  shows "res \<noteq> Inl Smoke_not_observed
    \<and> (res = Inr () \<longrightarrow> (\<exists>p x. smoke_order d p \<noteq> None
          \<and> post_order env (smoke_order d p) (sw_world env (sm_calls s)) = Reply 201 x
          \<and> (\<exists>t \<in> set (f_tasks (fw_db (fx_world (ks (sm_calls s1))))). ft_order_id t = o_id (oq_order x))
          \<and> (\<forall>t \<in> set (f_tasks (fw_db (fx_world (ks (sm_calls s1))))).
               ft_order_id t = o_id (oq_order x) \<longrightarrow> ft_status t = Tk_done)))"
proof (cases "smoke_deadline (sw_now env)")
  case None
  then show ?thesis using assms(3) by (auto simp: smoke_main_def)
next
  case (Some p)
  obtain r2 s2 where post: "smoke_request env (post_order env (smoke_order d p)) s = (r2, s2)" by fastforce
  show ?thesis
  proof (cases "\<exists>x. r2 = Inr (Reply 201 x)")
    case False
    then have "res \<noteq> Inl Smoke_not_observed \<and> res \<noteq> Inr ()"
      using assms(3) Some post
      by (cases r2) (auto simp: smoke_main_def smoke_request_def Let_def split: reply.splits if_splits)
    then show ?thesis by blast
  next
    case True
    then obtain x where x: "r2 = Inr (Reply 201 x)" by blast
    have reply: "post_order env (smoke_order d p) (sw_world env (sm_calls s)) = Reply 201 x"
      using post x by (simp add: smoke_request_def Let_def split: if_splits)
    then have "smoke_order d p \<noteq> None" by (cases "smoke_order d p") (simp_all add: post_order_def)
    obtain t s3 where "poll_loop env (uuid_str (o_id (oq_order x))) t (False, False) s3 = Some (res, s1)"
      using assms(3) Some post x by (auto simp: smoke_main_def monotonic_eq)
    from poll_loop_sound [OF assms(1) this refl assms(2)]
    have "res \<noteq> Inl Smoke_not_observed \<and> (res = Inr () \<longrightarrow> order_done (o_id (oq_order x)) (ks (sm_calls s1)))" by simp
    then show ?thesis
      using reply \<open>smoke_order d p \<noteq> None\<close>
      by (fastforce simp: order_done_def has_tasks_def unfinished_def count_rows_zero_iff Let_def)
  qed
qed

text \<open>
  With a positive poll interval and a clock that does not run backwards the script ends.
\<close>

theorem smoke_ends:
  assumes "mono (sw_clock env)" and "0 < sw_poll_interval env"
  shows "\<exists>r. smoke_main env d s = Some r"
proof (cases "smoke_deadline (sw_now env)")
  case None
  then show ?thesis by (simp add: smoke_main_def)
next
  case (Some p)
  obtain r2 s2 where post: "smoke_request env (post_order env (smoke_order d p)) s = (r2, s2)" by fastforce
  have "\<exists>r. poll_loop env oid deadline seen t = Some r" for oid deadline seen t
  proof -
    have "deadline - reading env t \<le> real (nat \<lceil>(deadline - reading env t) / sw_poll_interval env\<rceil>) * sw_poll_interval env"
      using real_nat_ceiling_ge [of "(deadline - reading env t) / sw_poll_interval env"] assms(2) by (simp add: field_simps)
    then show ?thesis by (rule poll_loop_ends [OF assms])
  qed
  then show ?thesis
    using Some post by (cases r2) (auto simp: smoke_main_def monotonic_eq split: reply.split)
qed

end
