(* ===== verification/Demo_Smoke_Example.thy ===== *)
theory Demo_Smoke_Example
  imports Demo_Smoke_Props
begin

text \<open>
  The smoke script in front of a run of the fulfillment service in which its order, that of the
  fulfillment demo, is finished between its first and its second request.
\<close>

definition kdemo_env :: "(nat \<Rightarrow> fconc) \<Rightarrow> smoke_env" where
  "kdemo_env ks = \<lparr>sw_cfg = fdemo_cfg\<lparr>fs_redis_publish_enabled := False\<rparr>, sw_up = fdemo_up, sw_fenv = fdemo_env,
     sw_world = (\<lambda>n. fx_world (ks n)), sw_net = (\<lambda>_. Sn_ok), sw_probe = (\<lambda>_ _. Pr_status 200), sw_clock = real,
     sw_now = mdemo_time, sw_prometheus = ''http://localhost:9090'', sw_grafana = ''http://localhost:3000'',
     sw_timeout = 120, sw_poll_interval = 2\<rparr>"

definition kdemo_state :: demo_state where
  "kdemo_state = \<lparr>ds_kitchen_id = uuid_str 7, ds_grill = uuid_str 1, ds_packaging = uuid_str 2, ds_burger = uuid_str 9,
     ds_workers_config = []\<rparr>"

definition kdemo_start :: smoke_state where
  "kdemo_start = \<lparr>sm_calls = 0, sm_reads = 0, sm_slept = 0\<rparr>"

definition kdemo_deadline :: pydatetime where
  "kdemo_deadline = mdemo_time\<lparr>dt_us := 63900003600000000\<rparr>"

lemma kdemo_order:
  "smoke_deadline mdemo_time = Some kdemo_deadline"
  "smoke_order kdemo_state kdemo_deadline = Some \<lparr>oc_kitchen_id = 7, oc_pickup_deadline = Some kdemo_deadline,
     oc_items = [\<lparr>ic_menu_item_id = 9, ic_quantity = 1\<rparr>]\<rparr>"
  by (simp add: smoke_deadline_def mdemo_time_def dt_add_seconds_def dt_in_range_def dt_max_us_def kdemo_deadline_def)
    (simp add: smoke_order_def kdemo_state_def)

text \<open>The order is accepted by a service with empty tables and gets the identifier 1.\<close>

lemma kdemo_created:
  assumes "fw_db w = empty_fdb"
  shows "\<exists>x. post_order (kdemo_env ks) (smoke_order kdemo_state kdemo_deadline) w = Reply 201 x \<and> o_id (oq_order x) = 1"
proof -
  let ?p = "\<lparr>oc_kitchen_id = 7, oc_pickup_deadline = Some kdemo_deadline, oc_items = [\<lparr>ic_menu_item_id = 9, ic_quantity = 1\<rparr>]\<rparr> :: order_create"
  let ?cfg = "fdemo_cfg\<lparr>fs_redis_publish_enabled := False\<rparr>"
  have checks: "order_checks fdemo_up ?p = Inr (fdemo_recipes, fdemo_names)"
    by (simp add: order_checks_def fdemo_up_def client_get_kitchen_def client_get_menu_def
        client_get_recipe_def raises_for_status_def available_ids_def menu_item_names_def valid_recipe_def
        fdemo_recipe_def fdemo_recipes_def fdemo_names_def)
  have "\<exists>x w'. create_order ?cfg fdemo_up fdemo_env None ?p w = (Inr x, w')"
  proof -
    have "\<exists>x w'. create_order ?cfg fdemo_up fdemo_env None ?p w = (Inr x, w') \<and> oq_tasks_count x = order_size fdemo_recipes ?p
       \<and> oq_queued_count x = (if fs_redis_publish_enabled ?cfg then order_size fdemo_recipes ?p else 0)"
    proof (rule create_order_ok [OF checks])
      show "f_inv (fw_db w)" by (simp add: assms f_inv_def fdb_ok_def deps_forward_def empty_fdb_def)
      have "order_size fdemo_recipes ?p = 1"
        by (simp add: order_size_def recipe_steps_of_def fdemo_recipes_def fdemo_recipe_def)
      moreover have "fresh_ids fdemo_env 3 empty_fdb"
        using mdemo_fresh by (auto simp: fresh_ids_def intro: inj_on_subset)
      ultimately show "fresh_ids fdemo_env (Suc (length (oc_items ?p)) + order_size fdemo_recipes ?p) (fw_db w)"
        by (simp add: assms numeral_3_eq_3)
    qed (auto simp: fdemo_recipes_def fdemo_recipe_def step_fits_def pg_text_def pg_int4_def)
    then show ?thesis by blast
  qed
  then obtain x w' where run: "create_order ?cfg fdemo_up fdemo_env None ?p w = (Inr x, w')" by blast
  then obtain so db where "store_order fdemo_env ?p fdemo_recipes (fw_db w) = Inr (so, db)" "oq_order x = so_order so"
    by (auto simp: create_order_def checks split: sum.splits prod.splits)
  then have "o_id (oq_order x) = 1"
    by (auto simp: store_order_def new_order_def fdemo_env_def Let_def split: sum.splits option.splits prod.splits)
  then show ?thesis using run by (simp add: post_order_def kdemo_order kdemo_env_def route_create_order_def valid_order_create_def f_reply_def)
qed

lemma kdemo_run:
  assumes run: "service_run fdemo_cfg ks" and init: "fw_db (fx_world (ks 0)) = empty_fdb"
    and ready: "order_ready (route_get_order uuid_parse (uuid_str 1) (fx_world (ks 1)))"
  shows "\<exists>s1. smoke_main (kdemo_env ks) kdemo_state kdemo_start = Some (Inr (), s1)"
proof -
  let ?e = "kdemo_env ks"
  obtain x where x: "post_order ?e (smoke_order kdemo_state kdemo_deadline) (fx_world (ks 0)) = Reply 201 x" "o_id (oq_order x) = 1"
    using kdemo_created [OF init] by blast
  have env: "sw_now ?e = mdemo_time" "sw_net ?e n = Sn_ok" "sw_world ?e n = fx_world (ks n)" "sw_clock ?e n = real n"
    "sw_probe ?e u n = Pr_status 200" "sw_timeout ?e = 120" for n u by (simp_all add: kdemo_env_def)
  have wait: "\<exists>t. wait_url ?e u 10 s = Some (Inr (), t)" for u s
    unfolding wait_url_def monotonic_eq prod.case by (subst wait_loop.simps) (simp add: monotonic_eq reading_def env)
  then have dash: "\<exists>t. wait_dashboards ?e s = Some (Inr (), t)" for s
    unfolding wait_dashboards_def by (metis (no_types, lifting) option.case(2) prod.case sum.case(2))
  let ?s2 = "\<lparr>sm_calls = 1, sm_reads = 1, sm_slept = 0\<rparr>"
  have seen: "observe (route_list_order_tasks uuid_parse (uuid_str 1) (fx_world (ks 2))) seen = (True, True)" for seen
    by (rule done_tasks_observed [OF ready_reply_done [OF run ready]]) simp
  have "\<exists>s1. poll_loop ?e (uuid_str 1) 120 (False, False) ?s2 = Some (Inr (), s1)"
    using dash [of "\<lparr>sm_calls = 3, sm_reads = 2, sm_slept = 0\<rparr>"] ready seen
    by (subst poll_loop.simps) (auto simp: monotonic_eq reading_def env smoke_request_def Let_def numeral_2_eq_2 numeral_3_eq_3)
  then show ?thesis
    using x by (simp add: smoke_main_def env kdemo_order smoke_request_def kdemo_start_def monotonic_eq reading_def Let_def)
qed

lemma reach_from: "reach init step k \<Longrightarrow> \<exists>k0. init k0 \<and> step\<^sup>*\<^sup>* k0 k"
  by (induction rule: reach.induct) (auto intro: rtranclp.rtrancl_into_rtrancl)

lemma kdemo_service:
  "\<exists>ks. service_run fdemo_cfg ks \<and> fw_db (fx_world (ks 0)) = empty_fdb
     \<and> order_ready (route_get_order uuid_parse (uuid_str 1) (fx_world (ks 1)))"
proof -
  obtain k r where k: "reach finit (fstep False fdemo_cfg) k" "r \<in> set (f_orders (fw_db (fx_world k)))"
    "o_id r = 1" "o_status r = Ord_ready_for_pickup" using fdemo_reach_ready by blast
  obtain k0 where k0: "finit k0" "(fstep False fdemo_cfg)\<^sup>*\<^sup>* k0 k" using reach_from [OF k(1)] by blast
  let ?ks = "\<lambda>n. if n = 0 then k0 else k"
  have "fdb_ok (fw_db (fx_world k))" using ful_sys.reach_inv [OF k(1)] by (simp add: fconc_inv_def f_inv_def)
  then have "get_order_row (fw_db (fx_world k)) 1 = Some r"
    using order_tab.member_get [OF fdb_okD(1) k(2)] k(3) by simp
  then have "order_ready (route_get_order uuid_parse (uuid_str 1) (fx_world k))"
    using k(4) by (simp add: order_ready_Reply route_get_order_def f_get_order_def f_reply_def)
  moreover have "service_run fdemo_cfg ?ks"
    using k0 by (auto simp: service_run_def intro: reach_init)
  ultimately show ?thesis using k0(1) by (intro exI [of _ ?ks]) (simp add: finit_def)
qed

theorem smoke_success_sound_witness:
  "\<exists>ks s1 (x :: order_created). smoke_main (kdemo_env ks) kdemo_state kdemo_start = Some (Inr (), s1)
     \<and> (\<exists>t \<in> set (f_tasks (fw_db (fx_world (ks (sm_calls s1))))). ft_order_id t = o_id (oq_order x) \<and> ft_status t = Tk_done)"
proof -
  obtain ks where ks: "service_run fdemo_cfg ks" "fw_db (fx_world (ks 0)) = empty_fdb"
    "order_ready (route_get_order uuid_parse (uuid_str 1) (fx_world (ks 1)))" using kdemo_service by blast
  obtain s1 where run: "smoke_main (kdemo_env ks) kdemo_state kdemo_start = Some (Inr (), s1)" using kdemo_run [OF ks] by blast
  have "sw_world (kdemo_env ks) n = fx_world (ks n)" for n by (simp add: kdemo_env_def)
  note sound = smoke_success_sound [OF ks(1) this run, THEN conjunct2, THEN mp, OF refl]
  from sound obtain x :: order_created where "\<exists>t \<in> set (f_tasks (fw_db (fx_world (ks (sm_calls s1))))). ft_order_id t = o_id (oq_order x)"
    "\<forall>t \<in> set (f_tasks (fw_db (fx_world (ks (sm_calls s1))))). ft_order_id t = o_id (oq_order x) \<longrightarrow> ft_status t = Tk_done"
    by (elim exE conjE)
  with run show ?thesis by (intro exI [of _ ks] exI [of _ s1] exI [of _ x]) auto
qed

theorem smoke_ends_witness: "\<forall>ks. \<exists>r. smoke_main (kdemo_env ks) kdemo_state kdemo_start = Some r"
  by (intro allI smoke_ends) (simp_all add: kdemo_env_def mono_def)

end
