(* ===== verification/Schema_Ddl.thy ===== *)
theory Schema_Ddl
  imports Effects
begin

text \<open>
  Schemas of a PostgreSQL database as the migrations and the models of the services describe
  them, and the statements of alembic's \<open>op\<close> that change a schema. A statement the database
  refuses has no result; a statement that creates is undone by the one that drops.
\<close>

section \<open>Tables, constraints and indexes\<close>

datatype sqltype = Sql_uuid | Sql_string nat | Sql_integer | Sql_boolean | Sql_timestamptz

text \<open>\<open>cl_default_now\<close>: the column has the server default \<open>now()\<close>.\<close>

record sqlcolumn =
  cl_name :: string
  cl_type :: sqltype
  cl_nullable :: bool
  cl_default_now :: bool

datatype sqlcheck = Ck_positive string | Ck_non_negative string | Ck_differ string string

text \<open>A foreign key names its columns, the table it refers to and the columns there; it cascades.\<close>

datatype sqlconstraint =
    Primary_key "string list"
  | Unique_columns "string option" "string list"
  | Foreign_key "string list" string "string list"
  | Check_row string sqlcheck

datatype index_key = Ik_column string | Ik_lower string

record sqlindex =
  ix_name :: string
  ix_table :: string
  ix_keys :: "index_key list"
  ix_unique :: bool

record sqltable =
  tb_name :: string
  tb_columns :: "sqlcolumn list"
  tb_constraints :: "sqlconstraint list"

record sqlschema =
  db_tables :: "sqltable list"
  db_indexes :: "sqlindex list"

definition empty_schema :: sqlschema where
  "empty_schema = \<lparr>db_tables = [], db_indexes = []\<rparr>"

definition table_of :: "sqlschema \<Rightarrow> string \<Rightarrow> sqltable option" where
  "table_of s n = find_row tb_name n (db_tables s)"

definition has_column :: "sqltable \<Rightarrow> string \<Rightarrow> bool" where
  "has_column t c = (c \<in> cl_name ` set (tb_columns t))"

fun index_column :: "index_key \<Rightarrow> string" where
  "index_column (Ik_column c) = c"
| "index_column (Ik_lower c) = c"

fun check_columns :: "sqlcheck \<Rightarrow> string list" where
  "check_columns (Ck_positive c) = [c]"
| "check_columns (Ck_non_negative c) = [c]"
| "check_columns (Ck_differ c d) = [c, d]"

fun constraint_columns :: "sqlconstraint \<Rightarrow> string list" where
  "constraint_columns (Primary_key cs) = cs"
| "constraint_columns (Unique_columns _ cs) = cs"
| "constraint_columns (Foreign_key cs _ _) = cs"
| "constraint_columns (Check_row _ k) = check_columns k"

fun constraint_name :: "sqlconstraint \<Rightarrow> string option" where
  "constraint_name (Unique_columns n _) = n"
| "constraint_name (Check_row n _) = Some n"
| "constraint_name _ = None"

text \<open>Tables, indexes and the indexes behind named unique constraints share one name space.\<close>

fun unique_name :: "sqlconstraint \<Rightarrow> string option" where
  "unique_name (Unique_columns n _) = n"
| "unique_name _ = None"

definition table_relations :: "sqltable \<Rightarrow> string list" where
  "table_relations t = tb_name t # List.map_filter unique_name (tb_constraints t)"

definition relation_names :: "sqlschema \<Rightarrow> string list" where
  "relation_names s = concat (map table_relations (db_tables s)) @ map ix_name (db_indexes s)"

section \<open>What the database accepts\<close>

fun refers_to :: "sqlconstraint \<Rightarrow> string option" where
  "refers_to (Foreign_key _ t _) = Some t"
| "refers_to _ = None"

definition references :: "sqltable \<Rightarrow> string \<Rightarrow> bool" where
  "references t n = (Some n \<in> refers_to ` set (tb_constraints t))"

text \<open>A foreign key that holds on to a column of a table.\<close>

fun pins_column :: "string \<Rightarrow> string \<Rightarrow> sqlconstraint \<Rightarrow> bool" where
  "pins_column n c (Foreign_key _ t ds) = (t = n \<and> c \<in> set ds)"
| "pins_column _ _ _ = False"

text \<open>The columns a foreign key refers to are a key of a table that exists.\<close>

definition is_key :: "sqltable \<Rightarrow> string list \<Rightarrow> bool" where
  "is_key t cs = (\<exists>k \<in> set (tb_constraints t).
     case k of Primary_key ds \<Rightarrow> ds = cs | Unique_columns _ ds \<Rightarrow> ds = cs | _ \<Rightarrow> False)"

fun target_exists :: "sqlschema \<Rightarrow> sqlconstraint \<Rightarrow> bool" where
  "target_exists s (Foreign_key cs t ds) =
     (length cs = length ds
      \<and> (case table_of s t of None \<Rightarrow> False | Some tab \<Rightarrow> is_key tab ds))"
| "target_exists s _ = True"

definition new_table_ok :: "sqlschema \<Rightarrow> sqltable \<Rightarrow> bool" where
  "new_table_ok s t =
     (distinct (table_relations t) \<and> set (table_relations t) \<inter> set (relation_names s) = {}
      \<and> distinct (map cl_name (tb_columns t))
      \<and> distinct (List.map_filter constraint_name (tb_constraints t))
      \<and> (\<forall>k \<in> set (tb_constraints t). set (constraint_columns k) \<subseteq> cl_name ` set (tb_columns t) \<and> target_exists s k))"

definition new_index_ok :: "sqlschema \<Rightarrow> sqlindex \<Rightarrow> bool" where
  "new_index_ok s i =
     (ix_name i \<notin> set (relation_names s)
      \<and> (case table_of s (ix_table i) of None \<Rightarrow> False
         | Some t \<Rightarrow> (\<forall>k \<in> set (ix_keys i). has_column t (index_column k))))"

section \<open>The statements of a migration\<close>

datatype ddl =
    Create_table sqltable
  | Drop_table string
  | Create_index sqlindex
  | Drop_index string string
  | Add_column string sqlcolumn
  | Drop_column string string

definition add_to_table :: "string \<Rightarrow> sqlcolumn \<Rightarrow> sqlschema \<Rightarrow> sqlschema" where
  "add_to_table n c s =
     s\<lparr>db_tables := update_row tb_name n (\<lambda>t. t\<lparr>tb_columns := tb_columns t @ [c]\<rparr>) (db_tables s)\<rparr>"

text \<open>A column goes with the constraints of its table and the indexes that mention it.\<close>

definition remove_column :: "string \<Rightarrow> sqltable \<Rightarrow> sqltable" where
  "remove_column c t =
     t\<lparr>tb_columns := filter (\<lambda>d. cl_name d \<noteq> c) (tb_columns t),
       tb_constraints := filter (\<lambda>k. c \<notin> set (constraint_columns k)) (tb_constraints t)\<rparr>"

definition drop_from_table :: "string \<Rightarrow> string \<Rightarrow> sqlschema \<Rightarrow> sqlschema" where
  "drop_from_table n c s =
     \<lparr>db_tables = update_row tb_name n (remove_column c) (db_tables s),
      db_indexes = filter (\<lambda>i. \<not> (ix_table i = n \<and> c \<in> index_column ` set (ix_keys i))) (db_indexes s)\<rparr>"

fun run_ddl :: "ddl \<Rightarrow> sqlschema \<Rightarrow> sqlschema option" where
  "run_ddl (Create_table t) s =
     (if new_table_ok s t then Some (s\<lparr>db_tables := db_tables s @ [t]\<rparr>) else None)"
| "run_ddl (Drop_table n) s =
     (if table_of s n = None \<or> (\<exists>t \<in> set (db_tables s). tb_name t \<noteq> n \<and> references t n) then None
      else Some \<lparr>db_tables = filter (\<lambda>t. tb_name t \<noteq> n) (db_tables s),
                 db_indexes = filter (\<lambda>i. ix_table i \<noteq> n) (db_indexes s)\<rparr>)"
| "run_ddl (Create_index i) s =
     (if new_index_ok s i then Some (s\<lparr>db_indexes := db_indexes s @ [i]\<rparr>) else None)"
| "run_ddl (Drop_index n tab) s =
     (if \<exists>i \<in> set (db_indexes s). ix_name i = n \<and> ix_table i = tab
      then Some (s\<lparr>db_indexes := filter (\<lambda>i. ix_name i \<noteq> n) (db_indexes s)\<rparr>) else None)"
| "run_ddl (Add_column n c) s =
     (case table_of s n of None \<Rightarrow> None
      | Some t \<Rightarrow> if has_column t (cl_name c) then None else Some (add_to_table n c s))"
| "run_ddl (Drop_column n c) s =
     (case table_of s n of None \<Rightarrow> None
      | Some t \<Rightarrow> if \<not> has_column t c \<or> (\<exists>u \<in> set (db_tables s). \<exists>k \<in> set (tb_constraints u). pins_column n c k) then None
                  else Some (drop_from_table n c s))"

fun run_ddls :: "ddl list \<Rightarrow> sqlschema \<Rightarrow> sqlschema option" where
  "run_ddls [] s = Some s"
| "run_ddls (d # ds) s = (case run_ddl d s of None \<Rightarrow> None | Some s' \<Rightarrow> run_ddls ds s')"

lemma run_ddls_append: "run_ddls (ds @ es) s = Option.bind (run_ddls ds s) (run_ddls es)"
  by (induction ds arbitrary: s) (auto split: option.splits)

section \<open>Undoing\<close>

text \<open>The statement that takes back a creation.\<close>

fun undo_ddl :: "ddl \<Rightarrow> ddl option" where
  "undo_ddl (Create_table t) = Some (Drop_table (tb_name t))"
| "undo_ddl (Create_index i) = Some (Drop_index (ix_name i) (ix_table i))"
| "undo_ddl (Add_column n c) = Some (Drop_column n (cl_name c))"
| "undo_ddl _ = None"

text \<open>What holds of every schema the database has accepted.\<close>

definition table_ok :: "sqlschema \<Rightarrow> sqltable \<Rightarrow> bool" where
  "table_ok s t = (\<forall>k \<in> set (tb_constraints t).
     set (constraint_columns k) \<subseteq> cl_name ` set (tb_columns t) \<and> target_exists s k)"

definition schema_ok :: "sqlschema \<Rightarrow> bool" where
  "schema_ok s =
     (distinct (map tb_name (db_tables s)) \<and> (\<forall>t \<in> set (db_tables s). table_ok s t)
      \<and> (\<forall>i \<in> set (db_indexes s). \<exists>t. table_of s (ix_table i) = Some t
            \<and> (\<forall>k \<in> set (ix_keys i). has_column t (index_column k))))"

lemma schema_ok_code [code]:
  "schema_ok s =
     (distinct (map tb_name (db_tables s)) \<and> (\<forall>t \<in> set (db_tables s). table_ok s t)
      \<and> (\<forall>i \<in> set (db_indexes s). case table_of s (ix_table i) of None \<Rightarrow> False
            | Some t \<Rightarrow> (\<forall>k \<in> set (ix_keys i). has_column t (index_column k))))"
  unfolding schema_ok_def by (auto split: option.splits)

lemma empty_schema_ok [simp]: "schema_ok empty_schema"
  by (simp add: schema_ok_def empty_schema_def)

lemma table_name_relation: "t \<in> set (db_tables s) \<Longrightarrow> tb_name t \<in> set (relation_names s)"
  by (force simp: relation_names_def table_relations_def)

lemma index_name_relation: "i \<in> set (db_indexes s) \<Longrightarrow> ix_name i \<in> set (relation_names s)"
  by (simp add: relation_names_def)

lemma table_of_Some: "table_of s n = Some t \<Longrightarrow> t \<in> set (db_tables s) \<and> tb_name t = n"
  unfolding table_of_def by (rule find_row_SomeD)

lemma fresh_table: "new_table_ok s t \<Longrightarrow> u \<in> set (db_tables s) \<Longrightarrow> tb_name u \<noteq> tb_name t"
  using table_name_relation [of u s] by (auto simp: new_table_ok_def table_relations_def)

lemma references_exists:
  assumes "schema_ok s" "u \<in> set (db_tables s)" "references u n"
  shows "table_of s n \<noteq> None"
proof -
  obtain k where k: "k \<in> set (tb_constraints u)" "refers_to k = Some n"
    using assms(3) by (auto simp: references_def)
  then have "target_exists s k" using assms(1,2) by (auto simp: schema_ok_def table_ok_def)
  with k(2) show ?thesis by (cases k) (auto split: option.splits)
qed

lemma undo_create_table:
  assumes ok: "schema_ok s" and run: "run_ddl (Create_table t) s = Some s'"
  shows "run_ddl (Drop_table (tb_name t)) s' = Some s"
proof -
  have new: "new_table_ok s t" and s': "s' = s\<lparr>db_tables := db_tables s @ [t]\<rparr>"
    using run by (auto split: if_splits)
  have fresh: "tb_name u \<noteq> tb_name t" if "u \<in> set (db_tables s)" for u
    using fresh_table [OF new that] .
  have none: "table_of s (tb_name t) = None"
    using fresh by (auto simp: table_of_def find_row_None_iff)
  have "\<not> references u (tb_name t)" if "u \<in> set (db_tables s)" for u
    using references_exists [OF ok that] none by blast
  moreover have "ix_table i \<noteq> tb_name t" if "i \<in> set (db_indexes s)" for i
    using ok that none by (auto simp: schema_ok_def)
  moreover have "table_of s' (tb_name t) \<noteq> None"
    by (simp add: s' table_of_def find_row_append split: option.splits)
  ultimately show ?thesis using fresh by (auto simp: s')
qed

lemma undo_create_index:
  assumes run: "run_ddl (Create_index i) s = Some s'"
  shows "run_ddl (Drop_index (ix_name i) (ix_table i)) s' = Some s"
proof -
  have new: "new_index_ok s i" and s': "s' = s\<lparr>db_indexes := db_indexes s @ [i]\<rparr>"
    using run by (auto split: if_splits)
  have "ix_name j \<noteq> ix_name i" if "j \<in> set (db_indexes s)" for j
    using new index_name_relation [OF that] by (auto simp: new_index_ok_def)
  then show ?thesis by (auto simp: s')
qed

lemma table_of_unique: "schema_ok s \<Longrightarrow> t \<in> set (db_tables s) \<Longrightarrow> table_of s (tb_name t) = Some t"
  by (simp add: schema_ok_def table_of_def find_row_Some_iff)

lemma key_columns: "is_key t cs \<Longrightarrow> table_ok s t \<Longrightarrow> set cs \<subseteq> cl_name ` set (tb_columns t)"
  unfolding is_key_def table_ok_def by (fastforce split: sqlconstraint.splits)

lemma remove_added_column:
  assumes "table_ok s t" "\<not> has_column t (cl_name c)"
  shows "remove_column (cl_name c) (t\<lparr>tb_columns := tb_columns t @ [c]\<rparr>) = t"
proof -
  have "filter (\<lambda>d. cl_name d \<noteq> cl_name c) (tb_columns t) = tb_columns t"
    using assms(2) by (auto simp: has_column_def filter_id_conv image_iff)
  moreover have "filter (\<lambda>k. cl_name c \<notin> set (constraint_columns k)) (tb_constraints t) = tb_constraints t"
    using assms by (auto simp: table_ok_def has_column_def filter_id_conv)
  ultimately show ?thesis by (simp add: remove_column_def)
qed

lemma undo_add_column:
  assumes ok: "schema_ok s" and run: "run_ddl (Add_column n c) s = Some s'"
  shows "run_ddl (Drop_column n (cl_name c)) s' = Some s"
proof -
  let ?add = "\<lambda>t. t\<lparr>tb_columns := tb_columns t @ [c]\<rparr>"
  obtain t where t: "table_of s n = Some t" and new: "\<not> has_column t (cl_name c)" and s': "s' = add_to_table n c s"
    using run by (auto split: option.splits if_splits)
  note tn = table_of_Some [OF t]
  have only: "u = t" if "u \<in> set (db_tables s)" "tb_name u = n" for u
    using table_of_unique [OF ok that(1)] that(2) t by simp
  have tables': "db_tables s' = update_row tb_name n ?add (db_tables s)" and indexes': "db_indexes s' = db_indexes s"
    by (simp_all add: s' add_to_table_def)
  have t': "table_of s' n = Some (?add t)"
    using t by (simp add: table_of_def tables' find_row_update_same)
  have "\<not> pins_column n (cl_name c) k" if "u \<in> set (db_tables s)" "k \<in> set (tb_constraints u)" for u k
  proof
    assume "pins_column n (cl_name c) k"
    then obtain cs ds where k: "k = Foreign_key cs n ds" "cl_name c \<in> set ds" by (cases k) auto
    with ok that t have "is_key t ds" by (fastforce simp: schema_ok_def table_ok_def)
    moreover have "table_ok s t" using ok tn by (simp add: schema_ok_def)
    ultimately show False using key_columns k(2) new by (fastforce simp: has_column_def)
  qed
  then have free: "\<not> (\<exists>u \<in> set (db_tables s'). \<exists>k \<in> set (tb_constraints u). pins_column n (cl_name c) k)"
    unfolding tables' by (auto elim!: set_update_rowE)
  have "remove_column (cl_name c) (?add u) = u" if "u \<in> set (db_tables s)" "tb_name u = n" for u
    using only [OF that] remove_added_column [of s t c] ok tn new by (simp add: schema_ok_def)
  then have "update_row tb_name n (remove_column (cl_name c)) (db_tables s') = db_tables s"
    by (auto simp: tables' update_row_def intro: map_idI)
  moreover have "\<not> (ix_table i = n \<and> cl_name c \<in> index_column ` set (ix_keys i))" if "i \<in> set (db_indexes s)" for i
    using ok that t new by (auto simp: schema_ok_def)
  ultimately have "drop_from_table n (cl_name c) s' = s"
    by (simp add: drop_from_table_def indexes' filter_id_conv)
  then show ?thesis using t' free by (simp add: has_column_def)
qed

lemma undo_ddl_restores:
  assumes "schema_ok s" "run_ddl d s = Some s'" "undo_ddl d = Some e"
  shows "run_ddl e s' = Some s"
  using assms undo_create_table undo_create_index undo_add_column by (cases d) auto

text \<open>A creation keeps the schema well formed, so a sequence of them is undone in reverse.\<close>

definition grows :: "sqlschema \<Rightarrow> sqlschema \<Rightarrow> bool" where
  "grows s s' = (\<forall>n t. table_of s n = Some t \<longrightarrow> (\<exists>t'. table_of s' n = Some t'
     \<and> tb_constraints t' = tb_constraints t \<and> set (tb_columns t) \<subseteq> set (tb_columns t')))"

lemma table_ok_grows:
  assumes grows: "grows s s'" and t: "table_ok s t"
  shows "table_ok s' t"
proof -
  have "target_exists s' k" if "target_exists s k" for k
  proof (cases k)
    case (Foreign_key cs n ds)
    with that obtain tab where "table_of s n = Some tab" "is_key tab ds" "length cs = length ds"
      by (auto split: option.splits)
    with grows Foreign_key show ?thesis by (fastforce simp: grows_def is_key_def)
  qed simp_all
  with t show ?thesis by (auto simp: table_ok_def)
qed

lemma index_grows:
  assumes "grows s s'" "\<exists>t. table_of s n = Some t \<and> (\<forall>k \<in> K. has_column t (index_column k))"
  shows "\<exists>t. table_of s' n = Some t \<and> (\<forall>k \<in> K. has_column t (index_column k))"
  using assms unfolding grows_def has_column_def by (meson image_mono subsetD)

lemma create_table_ok:
  assumes ok: "schema_ok s" and run: "run_ddl (Create_table t) s = Some s'"
  shows "schema_ok s'"
proof -
  have new: "new_table_ok s t" and s': "s' = s\<lparr>db_tables := db_tables s @ [t]\<rparr>"
    using run by (auto split: if_splits)
  have grows: "grows s s'" by (auto simp: grows_def s' table_of_def find_row_append)
  have "table_ok s t" using new by (auto simp: new_table_ok_def table_ok_def)
  then have "\<forall>u \<in> set (db_tables s'). table_ok s' u"
    using ok table_ok_grows [OF grows] by (auto simp: s' schema_ok_def)
  moreover have fresh: "tb_name t \<notin> tb_name ` set (db_tables s)"
    using fresh_table [OF new] by force
  moreover have "distinct (map tb_name (db_tables s'))"
    using ok fresh by (auto simp: s' schema_ok_def)
  ultimately show ?thesis using ok index_grows [OF grows] by (simp add: schema_ok_def s')
qed

lemma create_index_ok:
  assumes ok: "schema_ok s" and run: "run_ddl (Create_index i) s = Some s'"
  shows "schema_ok s'"
proof -
  have new: "new_index_ok s i" and s': "s' = s\<lparr>db_indexes := db_indexes s @ [i]\<rparr>"
    using run by (auto split: if_splits)
  have "grows s s'" by (simp add: grows_def s' table_of_def)
  from ok table_ok_grows [OF this] index_grows [OF this] new show ?thesis
    by (auto simp: schema_ok_def s' new_index_ok_def table_of_def split: option.splits)
qed

lemma add_column_ok:
  assumes ok: "schema_ok s" and run: "run_ddl (Add_column n c) s = Some s'"
  shows "schema_ok s'"
proof -
  let ?add = "\<lambda>t. t\<lparr>tb_columns := tb_columns t @ [c]\<rparr>"
  have s': "s' = add_to_table n c s" using run by (auto split: option.splits if_splits)
  have look: "table_of s' m = map_option (\<lambda>t. if m = n then ?add t else t) (table_of s m)" for m
    by (cases "m = n") (simp_all add: s' add_to_table_def table_of_def row_simps option.map_ident)
  then have grows: "grows s s'" by (auto simp: grows_def)
  have "table_ok s (?add t)" if "table_ok s t" for t using that by (auto simp: table_ok_def)
  then have "\<forall>u \<in> set (db_tables s'). table_ok s' u"
    using ok table_ok_grows [OF grows]
    by (auto simp: s' add_to_table_def schema_ok_def elim!: set_update_rowE)
  moreover have "distinct (map tb_name (db_tables s'))"
    using ok by (simp add: s' add_to_table_def schema_ok_def map_key_update_row)
  moreover have "db_indexes s' = db_indexes s" by (simp add: s' add_to_table_def)
  ultimately show ?thesis using ok index_grows [OF grows] by (simp add: schema_ok_def)
qed

lemma creation_ok:
  "schema_ok s \<Longrightarrow> run_ddl d s = Some s' \<Longrightarrow> undo_ddl d \<noteq> None \<Longrightarrow> schema_ok s'"
  by (cases d) (auto simp del: run_ddl.simps intro: create_table_ok create_index_ok add_column_ok)

definition undo_ddls :: "ddl list \<Rightarrow> ddl list option" where
  "undo_ddls ds = map_option rev (those (map undo_ddl ds))"

lemma undo_ddls_restores:
  "schema_ok s \<Longrightarrow> run_ddls ds s = Some s' \<Longrightarrow> undo_ddls ds = Some es \<Longrightarrow>
     schema_ok s' \<and> run_ddls es s' = Some s"
proof (induction ds arbitrary: s es)
  case Nil
  then show ?case by (simp add: undo_ddls_def)
next
  case (Cons d ds)
  from Cons.prems(2) obtain s1 where s1: "run_ddl d s = Some s1" "run_ddls ds s1 = Some s'"
    by (auto split: option.splits)
  from Cons.prems(3) obtain e fs where undo: "undo_ddl d = Some e" "undo_ddls ds = Some fs" "es = fs @ [e]"
    by (auto simp: undo_ddls_def split: option.splits)
  have ok1: "schema_ok s1" using creation_ok [OF Cons.prems(1) s1(1)] undo(1) by simp
  have "schema_ok s' \<and> run_ddls fs s' = Some s1" using Cons.IH [OF ok1 s1(2) undo(2)] .
  moreover have "run_ddl e s1 = Some s" using undo_ddl_restores [OF Cons.prems(1) s1(1) undo(1)] .
  ultimately show ?case by (simp add: run_ddls_append undo(3))
qed

end
