(* ===== verification/Schema_Migrations.thy ===== *)
theory Schema_Migrations
  imports Schema_Ddl
begin

text \<open>
  The revisions of \<open>alembic/versions\<close> of the three services, and the migration of a database
  from revision to revision. A database remembers the revision it is at; a migration runs in
  one transaction, so one that fails leaves schema and revision as they were.
\<close>

section \<open>Revisions\<close>

record migration =
  mg_revision :: string
  mg_down_revision :: "string option"
  mg_upgrade :: "ddl list"
  mg_downgrade :: "ddl list"

definition req_col :: "string \<Rightarrow> sqltype \<Rightarrow> sqlcolumn" where
  "req_col n ty = \<lparr>cl_name = n, cl_type = ty, cl_nullable = False, cl_default_now = False\<rparr>"

definition opt_col :: "string \<Rightarrow> sqltype \<Rightarrow> sqlcolumn" where
  "opt_col n ty = \<lparr>cl_name = n, cl_type = ty, cl_nullable = True, cl_default_now = False\<rparr>"

text \<open>\<open>DateTime(timezone=True), server_default=func.now(), nullable=False\<close>.\<close>

definition now_col :: "string \<Rightarrow> sqlcolumn" where
  "now_col n = \<lparr>cl_name = n, cl_type = Sql_timestamptz, cl_nullable = False, cl_default_now = True\<rparr>"

definition sql_index :: "string \<Rightarrow> string \<Rightarrow> string list \<Rightarrow> sqlindex" where
  "sql_index n t cs = \<lparr>ix_name = n, ix_table = t, ix_keys = map Ik_column cs, ix_unique = False\<rparr>"

subsection \<open>Kitchen service\<close>

definition ksvc_0001 :: migration where
  "ksvc_0001 =
     \<lparr>mg_revision = ''ksvc_0001'', mg_down_revision = None,
      mg_upgrade =
       [Create_table \<lparr>tb_name = ''kitchens'',
          tb_columns = [req_col ''id'' Sql_uuid, req_col ''name'' (Sql_string 120), req_col ''status'' (Sql_string 24),
            now_col ''created_at'', now_col ''updated_at''],
          tb_constraints = [Primary_key [''id''], Unique_columns None [''name'']]\<rparr>,
        Create_table \<lparr>tb_name = ''stations'',
          tb_columns = [req_col ''id'' Sql_uuid, req_col ''kitchen_id'' Sql_uuid, req_col ''name'' (Sql_string 120),
            req_col ''station_type'' (Sql_string 32), req_col ''status'' (Sql_string 24),
            req_col ''capacity'' Sql_integer, req_col ''busy_slots'' Sql_integer,
            req_col ''visible_backlog_limit'' Sql_integer, now_col ''created_at'', now_col ''updated_at''],
          tb_constraints = [Foreign_key [''kitchen_id''] ''kitchens'' [''id''], Primary_key [''id''],
            Unique_columns (Some ''uq_stations_kitchen_id_name'') [''kitchen_id'', ''name'']]\<rparr>,
        Create_index (sql_index ''ix_stations_kitchen_id'' ''stations'' [''kitchen_id'']),
        Create_index (sql_index ''ix_stations_station_type'' ''stations'' [''station_type''])],
      mg_downgrade =
       [Drop_index ''ix_stations_station_type'' ''stations'', Drop_index ''ix_stations_kitchen_id'' ''stations'',
        Drop_table ''stations'', Drop_table ''kitchens'']\<rparr>"

definition ksvc_0002 :: migration where
  "ksvc_0002 =
     \<lparr>mg_revision = ''ksvc_0002'', mg_down_revision = Some ''ksvc_0001'',
      mg_upgrade =
       [Create_table \<lparr>tb_name = ''kds_station_tasks'',
          tb_columns = [req_col ''id'' Sql_uuid, req_col ''task_id'' (Sql_string 36), req_col ''order_id'' (Sql_string 36),
            req_col ''kitchen_id'' Sql_uuid, req_col ''station_id'' Sql_uuid, req_col ''station_type'' (Sql_string 32),
            req_col ''operation'' (Sql_string 120), opt_col ''menu_item_name'' (Sql_string 120),
            req_col ''status'' (Sql_string 24), req_col ''estimated_duration_seconds'' Sql_integer,
            opt_col ''pickup_deadline'' Sql_timestamptz, now_col ''displayed_at'',
            opt_col ''claimed_by'' (Sql_string 120), opt_col ''claimed_at'' Sql_timestamptz,
            opt_col ''completed_at'' Sql_timestamptz, req_col ''idempotency_key'' (Sql_string 200),
            now_col ''created_at'', now_col ''updated_at''],
          tb_constraints =
           [Check_row ''ck_kds_station_tasks_duration_positive'' (Ck_positive ''estimated_duration_seconds''),
            Foreign_key [''station_id''] ''stations'' [''id''], Primary_key [''id''],
            Unique_columns (Some ''uq_kds_station_tasks_idempotency_key'') [''idempotency_key''],
            Unique_columns (Some ''uq_kds_station_tasks_task_id'') [''task_id'']]\<rparr>,
        Create_index (sql_index ''ix_kds_station_tasks_idempotency_key'' ''kds_station_tasks'' [''idempotency_key'']),
        Create_index (sql_index ''ix_kds_station_tasks_kitchen_id_station_type'' ''kds_station_tasks''
          [''kitchen_id'', ''station_type'']),
        Create_index (sql_index ''ix_kds_station_tasks_station_id_status'' ''kds_station_tasks'' [''station_id'', ''status'']),
        Create_index (sql_index ''ix_kds_station_tasks_task_id'' ''kds_station_tasks'' [''task_id''])],
      mg_downgrade =
       [Drop_index ''ix_kds_station_tasks_task_id'' ''kds_station_tasks'',
        Drop_index ''ix_kds_station_tasks_station_id_status'' ''kds_station_tasks'',
        Drop_index ''ix_kds_station_tasks_kitchen_id_station_type'' ''kds_station_tasks'',
        Drop_index ''ix_kds_station_tasks_idempotency_key'' ''kds_station_tasks'',
        Drop_table ''kds_station_tasks'']\<rparr>"

subsection \<open>Menu service\<close>

definition menu_0001 :: migration where
  "menu_0001 =
     \<lparr>mg_revision = ''0001_create_menu_service_tables'', mg_down_revision = None,
      mg_upgrade =
       [Create_table \<lparr>tb_name = ''menu_items'',
          tb_columns = [req_col ''id'' Sql_uuid, req_col ''name'' (Sql_string 120),
            opt_col ''description'' (Sql_string 500), req_col ''status'' (Sql_string 24),
            now_col ''created_at'', now_col ''updated_at''],
          tb_constraints = [Primary_key [''id'']]\<rparr>,
        Create_index \<lparr>ix_name = ''uq_menu_items_lower_name'', ix_table = ''menu_items'',
          ix_keys = [Ik_lower ''name''], ix_unique = True\<rparr>,
        Create_table \<lparr>tb_name = ''kitchen_menu_availability'',
          tb_columns = [req_col ''kitchen_id'' Sql_uuid, req_col ''menu_item_id'' Sql_uuid,
            req_col ''is_available'' Sql_boolean, now_col ''created_at'', now_col ''updated_at''],
          tb_constraints = [Foreign_key [''menu_item_id''] ''menu_items'' [''id''],
            Primary_key [''kitchen_id'', ''menu_item_id''],
            Unique_columns (Some ''uq_kitchen_menu_availability'') [''kitchen_id'', ''menu_item_id'']]\<rparr>,
        Create_table \<lparr>tb_name = ''recipe_steps'',
          tb_columns = [req_col ''id'' Sql_uuid, req_col ''menu_item_id'' Sql_uuid, req_col ''station_type'' (Sql_string 32),
            req_col ''operation'' (Sql_string 120), req_col ''duration_seconds'' Sql_integer,
            req_col ''step_order'' Sql_integer, now_col ''created_at'', now_col ''updated_at''],
          tb_constraints =
           [Check_row ''ck_recipe_steps_duration_seconds_positive'' (Ck_positive ''duration_seconds''),
            Check_row ''ck_recipe_steps_step_order_positive'' (Ck_positive ''step_order''),
            Foreign_key [''menu_item_id''] ''menu_items'' [''id''], Primary_key [''id''],
            Unique_columns (Some ''uq_recipe_steps_menu_item_id_step_order'') [''menu_item_id'', ''step_order'']]\<rparr>,
        Create_index (sql_index ''ix_recipe_steps_menu_item_id_step_order'' ''recipe_steps'' [''menu_item_id'', ''step_order''])],
      mg_downgrade =
       [Drop_index ''ix_recipe_steps_menu_item_id_step_order'' ''recipe_steps'', Drop_table ''recipe_steps'',
        Drop_table ''kitchen_menu_availability'', Drop_index ''uq_menu_items_lower_name'' ''menu_items'',
        Drop_table ''menu_items'']\<rparr>"

subsection \<open>Fulfillment service\<close>

definition fulf_0001 :: migration where
  "fulf_0001 =
     \<lparr>mg_revision = ''fulf_0001'', mg_down_revision = None,
      mg_upgrade =
       [Create_table \<lparr>tb_name = ''orders'',
          tb_columns = [req_col ''id'' Sql_uuid, req_col ''kitchen_id'' Sql_uuid, req_col ''status'' (Sql_string 32),
            opt_col ''pickup_deadline'' Sql_timestamptz, now_col ''created_at'', now_col ''updated_at''],
          tb_constraints = [Primary_key [''id'']]\<rparr>,
        Create_index (sql_index ''ix_orders_kitchen_id'' ''orders'' [''kitchen_id'']),
        Create_table \<lparr>tb_name = ''order_items'',
          tb_columns = [req_col ''id'' Sql_uuid, req_col ''order_id'' Sql_uuid, req_col ''menu_item_id'' Sql_uuid,
            req_col ''quantity'' Sql_integer, now_col ''created_at'', now_col ''updated_at''],
          tb_constraints = [Check_row ''ck_order_items_quantity_positive'' (Ck_positive ''quantity''),
            Foreign_key [''order_id''] ''orders'' [''id''], Primary_key [''id'']]\<rparr>,
        Create_index (sql_index ''ix_order_items_order_id'' ''order_items'' [''order_id'']),
        Create_index (sql_index ''ix_order_items_menu_item_id'' ''order_items'' [''menu_item_id'']),
        Create_table \<lparr>tb_name = ''kitchen_tasks'',
          tb_columns = [req_col ''id'' Sql_uuid, req_col ''order_id'' Sql_uuid, req_col ''order_item_id'' Sql_uuid,
            req_col ''menu_item_id'' Sql_uuid, req_col ''station_type'' (Sql_string 32), opt_col ''station_id'' Sql_uuid,
            opt_col ''kds_task_id'' Sql_uuid, req_col ''operation'' (Sql_string 120), req_col ''status'' (Sql_string 32),
            req_col ''estimated_duration_seconds'' Sql_integer, opt_col ''displayed_at'' Sql_timestamptz,
            opt_col ''started_at'' Sql_timestamptz, opt_col ''sla_deadline_at'' Sql_timestamptz,
            opt_col ''completed_at'' Sql_timestamptz, opt_col ''actual_duration_seconds'' Sql_integer,
            opt_col ''delay_seconds'' Sql_integer, req_col ''attempts'' Sql_integer,
            req_col ''recipe_step_order'' Sql_integer, req_col ''item_unit_index'' Sql_integer,
            now_col ''created_at'', now_col ''updated_at''],
          tb_constraints =
           [Check_row ''ck_kitchen_tasks_duration_positive'' (Ck_positive ''estimated_duration_seconds''),
            Check_row ''ck_kitchen_tasks_attempts_non_negative'' (Ck_non_negative ''attempts''),
            Check_row ''ck_kitchen_tasks_recipe_step_order_positive'' (Ck_positive ''recipe_step_order''),
            Check_row ''ck_kitchen_tasks_item_unit_index_positive'' (Ck_positive ''item_unit_index''),
            Foreign_key [''order_id''] ''orders'' [''id''], Foreign_key [''order_item_id''] ''order_items'' [''id''],
            Primary_key [''id'']]\<rparr>,
        Create_index (sql_index ''ix_kitchen_tasks_order_id'' ''kitchen_tasks'' [''order_id'']),
        Create_index (sql_index ''ix_kitchen_tasks_menu_item_id'' ''kitchen_tasks'' [''menu_item_id'']),
        Create_index (sql_index ''ix_kitchen_tasks_status'' ''kitchen_tasks'' [''status'']),
        Create_index (sql_index ''ix_kitchen_tasks_station_type'' ''kitchen_tasks'' [''station_type'']),
        Create_index (sql_index ''ix_kitchen_tasks_order_item_id'' ''kitchen_tasks'' [''order_item_id'']),
        Create_table \<lparr>tb_name = ''task_dependencies'',
          tb_columns = [req_col ''task_id'' Sql_uuid, req_col ''depends_on_task_id'' Sql_uuid, now_col ''created_at''],
          tb_constraints =
           [Check_row ''ck_task_dependencies_not_self'' (Ck_differ ''task_id'' ''depends_on_task_id''),
            Foreign_key [''task_id''] ''kitchen_tasks'' [''id''],
            Foreign_key [''depends_on_task_id''] ''kitchen_tasks'' [''id''],
            Primary_key [''task_id'', ''depends_on_task_id''],
            Unique_columns (Some ''uq_task_dependencies_task_id_depends_on_task_id'')
              [''task_id'', ''depends_on_task_id'']]\<rparr>],
      mg_downgrade =
       [Drop_table ''task_dependencies'',
        Drop_index ''ix_kitchen_tasks_order_item_id'' ''kitchen_tasks'',
        Drop_index ''ix_kitchen_tasks_station_type'' ''kitchen_tasks'',
        Drop_index ''ix_kitchen_tasks_status'' ''kitchen_tasks'',
        Drop_index ''ix_kitchen_tasks_menu_item_id'' ''kitchen_tasks'',
        Drop_index ''ix_kitchen_tasks_order_id'' ''kitchen_tasks'',
        Drop_table ''kitchen_tasks'',
        Drop_index ''ix_order_items_menu_item_id'' ''order_items'',
        Drop_index ''ix_order_items_order_id'' ''order_items'',
        Drop_table ''order_items'',
        Drop_index ''ix_orders_kitchen_id'' ''orders'',
        Drop_table ''orders'']\<rparr>"

definition fulf_0002 :: migration where
  "fulf_0002 =
     \<lparr>mg_revision = ''fulf_0002'', mg_down_revision = Some ''fulf_0001'',
      mg_upgrade =
       [Add_column ''kitchen_tasks'' (opt_col ''queued_at'' Sql_timestamptz),
        Add_column ''kitchen_tasks'' (opt_col ''redis_stream'' (Sql_string 255)),
        Add_column ''kitchen_tasks'' (opt_col ''redis_message_id'' (Sql_string 128)),
        Create_index (sql_index ''ix_kitchen_tasks_redis_stream'' ''kitchen_tasks'' [''redis_stream''])],
      mg_downgrade =
       [Drop_index ''ix_kitchen_tasks_redis_stream'' ''kitchen_tasks'',
        Drop_column ''kitchen_tasks'' ''redis_message_id'',
        Drop_column ''kitchen_tasks'' ''redis_stream'',
        Drop_column ''kitchen_tasks'' ''queued_at'']\<rparr>"

definition fulf_0003 :: migration where
  "fulf_0003 =
     \<lparr>mg_revision = ''fulf_0003'', mg_down_revision = Some ''fulf_0002'',
      mg_upgrade =
       [Create_index (sql_index ''ix_kitchen_tasks_station_id'' ''kitchen_tasks'' [''station_id'']),
        Create_index (sql_index ''ix_kitchen_tasks_kds_task_id'' ''kitchen_tasks'' [''kds_task_id''])],
      mg_downgrade =
       [Drop_index ''ix_kitchen_tasks_kds_task_id'' ''kitchen_tasks'',
        Drop_index ''ix_kitchen_tasks_station_id'' ''kitchen_tasks'']\<rparr>"

subsection \<open>The databases\<close>

datatype service_db = Kitchen_db | Menu_db | Fulfillment_db

fun migrations_of :: "service_db \<Rightarrow> migration list" where
  "migrations_of Kitchen_db = [ksvc_0001, ksvc_0002]"
| "migrations_of Menu_db = [menu_0001]"
| "migrations_of Fulfillment_db = [fulf_0001, fulf_0002, fulf_0003]"

section \<open>A database under migration\<close>

record db_version =
  dv_revision :: "string option"
  dv_schema :: sqlschema

definition new_database :: db_version where
  "new_database = \<lparr>dv_revision = None, dv_schema = empty_schema\<rparr>"

definition apply_upgrade :: "migration \<Rightarrow> db_version \<Rightarrow> db_version option" where
  "apply_upgrade m v =
     (if mg_down_revision m = dv_revision v
      then map_option (\<lambda>s. \<lparr>dv_revision = Some (mg_revision m), dv_schema = s\<rparr>) (run_ddls (mg_upgrade m) (dv_schema v))
      else None)"

definition apply_downgrade :: "migration \<Rightarrow> db_version \<Rightarrow> db_version option" where
  "apply_downgrade m v =
     (if dv_revision v = Some (mg_revision m)
      then map_option (\<lambda>s. \<lparr>dv_revision = mg_down_revision m, dv_schema = s\<rparr>) (run_ddls (mg_downgrade m) (dv_schema v))
      else None)"

text \<open>\<open>alembic upgrade head\<close>: the revisions above the current one, in their order.\<close>

fun upgrade_head :: "migration list \<Rightarrow> db_version \<Rightarrow> db_version option" where
  "upgrade_head [] v = Some v"
| "upgrade_head (m # ms) v =
     (if mg_down_revision m = dv_revision v
      then (case apply_upgrade m v of None \<Rightarrow> None | Some v' \<Rightarrow> upgrade_head ms v')
      else upgrade_head ms v)"

text \<open>The databases that single upgrades and downgrades lead to, in any order.\<close>

inductive db_reach :: "migration list \<Rightarrow> db_version \<Rightarrow> bool" for ms where
  fresh: "db_reach ms new_database"
| up: "db_reach ms v \<Longrightarrow> m \<in> set ms \<Longrightarrow> apply_upgrade m v = Some v' \<Longrightarrow> db_reach ms v'"
| down: "db_reach ms v \<Longrightarrow> m \<in> set ms \<Longrightarrow> apply_downgrade m v = Some v' \<Longrightarrow> db_reach ms v'"

end
