(* ===== verification/Schema_Chain.thy ===== *)
theory Schema_Chain
  imports Schema_Migrations
begin

text \<open>
  The contract of a chain of revisions and what it gives: a database that was upgraded and
  downgraded in any order has the schema of its revision, each downgrade takes back its
  upgrade, and an upgrade to the head succeeds from everywhere. The revisions of the three
  services keep the contract.
\<close>

section \<open>The contract\<close>

text \<open>The revision of a database after the first \<open>k\<close> migrations.\<close>

definition revision_at :: "migration list \<Rightarrow> nat \<Rightarrow> string option" where
  "revision_at ms k = (if k = 0 then None else Some (mg_revision (ms ! (k - 1))))"

definition upgrades :: "migration list \<Rightarrow> ddl list" where
  "upgrades ms = concat (map mg_upgrade ms)"

locale migration_chain =
  fixes ms :: "migration list"
  assumes revisions: "distinct (map mg_revision ms)"
    and linear: "k < length ms \<Longrightarrow> mg_down_revision (ms ! k) = revision_at ms k"
    and reversed: "m \<in> set ms \<Longrightarrow> undo_ddls (mg_upgrade m) = Some (mg_downgrade m)"
    and accepted: "run_ddls (upgrades ms) empty_schema \<noteq> None"
begin

definition at_revision :: "db_version \<Rightarrow> nat \<Rightarrow> bool" where
  "at_revision v k = (k \<le> length ms \<and> dv_revision v = revision_at ms k
     \<and> run_ddls (upgrades (take k ms)) empty_schema = Some (dv_schema v))"

lemma revision_at_inj:
  assumes "j \<le> length ms" "k \<le> length ms" "revision_at ms j = revision_at ms k"
  shows "j = k"
proof (cases j; cases k)
  fix j' k' assume "j = Suc j'" "k = Suc k'"
  then show ?thesis using assms nth_eq_iff_index_eq [OF revisions, of j' k'] by (simp add: revision_at_def)
qed (use assms in \<open>simp_all add: revision_at_def\<close>)

lemma upgrades_Suc: "k < length ms \<Longrightarrow> upgrades (take (Suc k) ms) = upgrades (take k ms) @ mg_upgrade (ms ! k)"
  by (simp add: upgrades_def take_Suc_conv_app_nth)

lemma upgrades_split: "upgrades ms = upgrades (take k ms) @ upgrades (drop k ms)"
  by (simp add: upgrades_def flip: concat_append map_append)

lemma prefix_runs: "\<exists>s. run_ddls (upgrades (take k ms)) empty_schema = Some s"
  using accepted unfolding upgrades_split [of k] run_ddls_append by (auto simp: bind_eq_Some_conv)

lemma upgrade_undone:
  assumes "k < length ms" "schema_ok s" "run_ddls (mg_upgrade (ms ! k)) s = Some s'"
  shows "schema_ok s'" "run_ddls (mg_downgrade (ms ! k)) s' = Some s"
  using undo_ddls_restores [OF assms(2,3) reversed] assms(1) by simp_all

lemma prefix_ok: "k \<le> length ms \<Longrightarrow> run_ddls (upgrades (take k ms)) empty_schema = Some s \<Longrightarrow> schema_ok s"
proof (induction k arbitrary: s)
  case 0
  then show ?case by (simp add: upgrades_def)
next
  case (Suc k)
  then obtain s0 where "run_ddls (upgrades (take k ms)) empty_schema = Some s0" "run_ddls (mg_upgrade (ms ! k)) s0 = Some s"
    by (auto simp: upgrades_Suc run_ddls_append bind_eq_Some_conv)
  with Suc show ?case using upgrade_undone(1) [of k s0 s] by simp
qed

text \<open>From one revision to the one after it and back.\<close>

lemma next_revision:
  assumes "at_revision v k" "k < length ms"
  obtains s where "run_ddls (mg_upgrade (ms ! k)) (dv_schema v) = Some s"
    "run_ddls (mg_downgrade (ms ! k)) s = Some (dv_schema v)"
    "apply_upgrade (ms ! k) v = Some \<lparr>dv_revision = Some (mg_revision (ms ! k)), dv_schema = s\<rparr>"
    "at_revision \<lparr>dv_revision = Some (mg_revision (ms ! k)), dv_schema = s\<rparr> (Suc k)"
proof -
  note v = assms(1) [unfolded at_revision_def]
  obtain s where s: "run_ddls (upgrades (take (Suc k) ms)) empty_schema = Some s" using prefix_runs by blast
  then have up: "run_ddls (mg_upgrade (ms ! k)) (dv_schema v) = Some s"
    using assms(2) v by (simp add: upgrades_Suc run_ddls_append)
  show thesis
  proof (rule that [OF up])
    show "run_ddls (mg_downgrade (ms ! k)) s = Some (dv_schema v)"
      using upgrade_undone(2) [OF assms(2) _ up] prefix_ok v by blast
    show "apply_upgrade (ms ! k) v = Some \<lparr>dv_revision = Some (mg_revision (ms ! k)), dv_schema = s\<rparr>"
      using v linear [OF assms(2)] by (simp add: apply_upgrade_def up)
    show "at_revision \<lparr>dv_revision = Some (mg_revision (ms ! k)), dv_schema = s\<rparr> (Suc k)"
      using s assms(2) by (simp add: at_revision_def revision_at_def)
  qed
qed

lemma upgrade_position:
  assumes "at_revision v k" "m \<in> set ms" "apply_upgrade m v = Some v'"
  shows "k < length ms" "m = ms ! k"
proof -
  obtain j where j: "j < length ms" "m = ms ! j" using assms(2) by (auto simp: in_set_conv_nth)
  with assms linear have "revision_at ms j = revision_at ms k"
    by (auto simp: apply_upgrade_def at_revision_def split: if_splits)
  with revision_at_inj [of j k] j assms(1) show "k < length ms" "m = ms ! k"
    by (auto simp: at_revision_def)
qed

lemma downgrade_position:
  assumes "at_revision v k" "m \<in> set ms" "apply_downgrade m v = Some v'"
  obtains j where "k = Suc j" "m = ms ! j" "j < length ms"
proof -
  obtain j where j: "j < length ms" "m = ms ! j" using assms(2) by (auto simp: in_set_conv_nth)
  have "dv_revision v = revision_at ms (Suc j)"
    using assms(3) j by (auto simp: apply_downgrade_def revision_at_def split: if_splits)
  with assms(1) j revision_at_inj [of "Suc j" k] have "k = Suc j" by (simp add: at_revision_def)
  with j that show thesis by blast
qed

lemma reached_at_revision: "db_reach ms v \<Longrightarrow> \<exists>k. at_revision v k"
proof (induction rule: db_reach.induct)
  case fresh
  then show ?case
    by (intro exI [of _ 0]) (simp add: at_revision_def new_database_def revision_at_def upgrades_def)
next
  case (up v m v')
  then obtain k where k: "at_revision v k" by blast
  note p = upgrade_position [OF k up.hyps(2,3)]
  from next_revision [OF k p(1)] up.hyps(3) p(2) show ?case by (metis option.inject)
next
  case (down v m v')
  then obtain k where k: "at_revision v k" by blast
  obtain j where j: "k = Suc j" "m = ms ! j" "j < length ms"
    using downgrade_position [OF k down.hyps(2,3)] .
  obtain s where s: "run_ddls (upgrades (take j ms)) empty_schema = Some s" using prefix_runs by blast
  with k j have "run_ddls (mg_upgrade m) s = Some (dv_schema v)"
    by (simp add: at_revision_def upgrades_Suc run_ddls_append)
  with upgrade_undone(2) [of j s "dv_schema v"] prefix_ok [of j s] s j have "run_ddls (mg_downgrade m) (dv_schema v) = Some s" by simp
  with down.hyps(3) have "v' = \<lparr>dv_revision = mg_down_revision m, dv_schema = s\<rparr>"
    by (auto simp: apply_downgrade_def split: if_splits)
  with s j linear show ?case by (intro exI [of _ j]) (simp add: at_revision_def)
qed

lemma upgrade_from: "j \<le> length ms \<Longrightarrow> \<forall>k v. j \<le> k \<longrightarrow> at_revision v k \<longrightarrow>
    (\<exists>v'. upgrade_head (drop j ms) v = Some v' \<and> at_revision v' (length ms))"
proof (induction rule: inc_induct)
  case base
  have "k = length ms" if "length ms \<le> k" "at_revision v k" for k v using that by (simp add: at_revision_def)
  then show ?case by auto
next
  case (step j)
  show ?case
  proof (intro allI impI)
    fix k v assume jk: "j \<le> k" and v: "at_revision v k"
    have chain: "drop j ms = ms ! j # drop (Suc j) ms" using step.hyps by (simp add: Cons_nth_drop_Suc)
    show "\<exists>v'. upgrade_head (drop j ms) v = Some v' \<and> at_revision v' (length ms)"
    proof (cases "k = j")
      case True
      obtain s where "apply_upgrade (ms ! j) v = Some \<lparr>dv_revision = Some (mg_revision (ms ! j)), dv_schema = s\<rparr>"
        "at_revision \<lparr>dv_revision = Some (mg_revision (ms ! j)), dv_schema = s\<rparr> (Suc j)"
        using next_revision [OF v] step.hyps True by metis
      then show ?thesis using step.IH by (auto simp: chain apply_upgrade_def split: if_splits)
    next
      case False
      have "mg_down_revision (ms ! j) \<noteq> dv_revision v"
        using linear [OF step.hyps(2)] revision_at_inj [of j k] v jk False by (auto simp: at_revision_def)
      moreover have "Suc j \<le> k" using jk False by simp
      ultimately show ?thesis using step.IH v by (simp add: chain)
    qed
  qed
qed

lemma head_reached:
  assumes "db_reach ms v"
  obtains v' where "upgrade_head ms v = Some v'" "dv_revision v' = revision_at ms (length ms)"
    "run_ddls (upgrades ms) empty_schema = Some (dv_schema v')"
proof -
  obtain k where "at_revision v k" using reached_at_revision [OF assms] by blast
  with upgrade_from [of 0] obtain v' where "upgrade_head ms v = Some v'" "at_revision v' (length ms)" by auto
  with that show thesis by (simp add: at_revision_def)
qed

lemma upgrade_and_back:
  assumes "db_reach ms v" "m \<in> set ms" "mg_down_revision m = dv_revision v"
  obtains v' where "apply_upgrade m v = Some v'" "apply_downgrade m v' = Some v"
proof -
  obtain k where k: "at_revision v k" using reached_at_revision [OF assms(1)] by blast
  obtain j where j: "j < length ms" "m = ms ! j" using assms(2) by (auto simp: in_set_conv_nth)
  with assms(3) linear k revision_at_inj [of j k] have "j = k" by (simp add: at_revision_def)
  with next_revision [OF k] j obtain s where "run_ddls (mg_downgrade m) s = Some (dv_schema v)"
    "apply_upgrade m v = Some \<lparr>dv_revision = Some (mg_revision m), dv_schema = s\<rparr>" by metis
  with that assms(3) show thesis by (simp add: apply_downgrade_def)
qed

end

section \<open>The revisions of the services\<close>

lemmas revision_defs = ksvc_0001_def ksvc_0002_def menu_0001_def fulf_0001_def fulf_0002_def fulf_0003_def

lemma service_upgrades_accepted: "run_ddls (upgrades (migrations_of svc)) empty_schema \<noteq> None"
proof (cases svc)
  case Kitchen_db
  have "run_ddls (upgrades (migrations_of Kitchen_db)) empty_schema \<noteq> None" by code_simp
  with Kitchen_db show ?thesis by simp
next
  case Menu_db
  have "run_ddls (upgrades (migrations_of Menu_db)) empty_schema \<noteq> None" by code_simp
  with Menu_db show ?thesis by simp
next
  case Fulfillment_db
  have "run_ddls (upgrades (migrations_of Fulfillment_db)) empty_schema \<noteq> None" by code_simp
  with Fulfillment_db show ?thesis by simp
qed

lemma service_upgrades_reversed:
  "m \<in> set (migrations_of svc) \<Longrightarrow> undo_ddls (mg_upgrade m) = Some (mg_downgrade m)"
  by (cases svc) (auto simp: revision_defs undo_ddls_def sql_index_def opt_col_def)

lemma service_revisions_linear:
  "k < length (migrations_of svc) \<Longrightarrow> mg_down_revision (migrations_of svc ! k) = revision_at (migrations_of svc) k"
  by (cases svc) (auto simp: revision_defs revision_at_def less_Suc_eq nth_Cons')

interpretation svc_chain: migration_chain "migrations_of svc" for svc
proof
  show "distinct (map mg_revision (migrations_of svc))" by (cases svc) (simp_all add: revision_defs)
  show "mg_down_revision (migrations_of svc ! k) = revision_at (migrations_of svc) k"
    if "k < length (migrations_of svc)" for k using that by (rule service_revisions_linear)
  show "undo_ddls (mg_upgrade m) = Some (mg_downgrade m)" if "m \<in> set (migrations_of svc)" for m
    using that by (rule service_upgrades_reversed)
  show "run_ddls (upgrades (migrations_of svc)) empty_schema \<noteq> None" by (rule service_upgrades_accepted)
qed

end
