(* ===== verification/Schema_Models.thy ===== *)
theory Schema_Models
  imports Schema_Migrations
begin

text \<open>
  The tables the classes of \<open>app/models.py\<close> declare: the columns with what \<open>mapped_column\<close>
  says of them, and the schema (\<open>Base.metadata\<close>) SQLAlchemy makes of these declarations.
\<close>

section \<open>Declarations\<close>

text \<open>
  \<open>om_optional\<close> is the nullability of the column, \<open>om_key\<close> stands for \<open>primary_key\<close>, \<open>om_unique\<close> and \<open>om_index\<close> for the
  arguments of that name, \<open>om_refers\<close> for \<open>ForeignKey("table.column", ondelete="CASCADE")\<close>.
\<close>

record ormcolumn =
  om_name :: string
  om_type :: sqltype
  om_optional :: bool
  om_now :: bool
  om_key :: bool
  om_unique :: bool
  om_index :: bool
  om_refers :: "(string \<times> string) option"

definition mapped :: "string \<Rightarrow> sqltype \<Rightarrow> ormcolumn" where
  "mapped n ty = \<lparr>om_name = n, om_type = ty, om_optional = False, om_now = False, om_key = False,
     om_unique = False, om_index = False, om_refers = None\<rparr>"

definition mapped_opt :: "string \<Rightarrow> sqltype \<Rightarrow> ormcolumn" where
  "mapped_opt n ty = (mapped n ty)\<lparr>om_optional := True\<rparr>"

definition mapped_now :: "string \<Rightarrow> ormcolumn" where
  "mapped_now n = (mapped n Sql_timestamptz)\<lparr>om_now := True\<rparr>"

definition mapped_key :: "string \<Rightarrow> ormcolumn" where
  "mapped_key n = (mapped n Sql_uuid)\<lparr>om_key := True\<rparr>"

definition refers :: "string \<Rightarrow> ormcolumn \<Rightarrow> ormcolumn" where
  "refers t c = c\<lparr>om_refers := Some (t, ''id'')\<rparr>"

text \<open>A class: its table name, columns, and the constraints and indexes of \<open>__table_args__\<close>.\<close>

record ormclass =
  oc_table :: string
  oc_columns :: "ormcolumn list"
  oc_constraints :: "sqlconstraint list"
  oc_indexes :: "(string \<times> index_key list \<times> bool) list"

section \<open>The schema of a class\<close>

definition orm_sqlcolumn :: "ormcolumn \<Rightarrow> sqlcolumn" where
  "orm_sqlcolumn c = \<lparr>cl_name = om_name c, cl_type = om_type c, cl_nullable = om_optional c, cl_default_now = om_now c\<rparr>"

definition orm_constraints :: "ormclass \<Rightarrow> sqlconstraint list" where
  "orm_constraints k =
     Primary_key (map om_name (filter om_key (oc_columns k)))
     # map (\<lambda>c. Unique_columns None [om_name c]) (filter om_unique (oc_columns k))
     @ List.map_filter (\<lambda>c. map_option (\<lambda>(t, d). Foreign_key [om_name c] t [d]) (om_refers c)) (oc_columns k)
     @ oc_constraints k"

definition orm_table :: "ormclass \<Rightarrow> sqltable" where
  "orm_table k =
     \<lparr>tb_name = oc_table k, tb_columns = map orm_sqlcolumn (oc_columns k), tb_constraints = orm_constraints k\<rparr>"

text \<open>The index of a column declared with \<open>index=True\<close> is \<open>ix_<table>_<column>\<close>.\<close>

definition orm_indexes :: "ormclass \<Rightarrow> sqlindex list" where
  "orm_indexes k =
     map (\<lambda>c. sql_index (''ix_'' @ oc_table k @ ''_'' @ om_name c) (oc_table k) [om_name c])
       (filter om_index (oc_columns k))
     @ map (\<lambda>(n, keys, u). \<lparr>ix_name = n, ix_table = oc_table k, ix_keys = keys, ix_unique = u\<rparr>) (oc_indexes k)"

definition metadata :: "ormclass list \<Rightarrow> sqlschema" where
  "metadata ks = \<lparr>db_tables = map orm_table ks, db_indexes = concat (map orm_indexes ks)\<rparr>"

section \<open>Kitchen service\<close>

definition Kitchen_class :: ormclass where
  "Kitchen_class = \<lparr>oc_table = ''kitchens'',
     oc_columns = [mapped_key ''id'', (mapped ''name'' (Sql_string 120))\<lparr>om_unique := True\<rparr>,
       mapped ''status'' (Sql_string 24), mapped_now ''created_at'', mapped_now ''updated_at''],
     oc_constraints = [], oc_indexes = []\<rparr>"

definition Station_class :: ormclass where
  "Station_class = \<lparr>oc_table = ''stations'',
     oc_columns = [mapped_key ''id'', (refers ''kitchens'' (mapped ''kitchen_id'' Sql_uuid))\<lparr>om_index := True\<rparr>,
       mapped ''name'' (Sql_string 120), (mapped ''station_type'' (Sql_string 32))\<lparr>om_index := True\<rparr>,
       mapped ''status'' (Sql_string 24), mapped ''capacity'' Sql_integer, mapped ''busy_slots'' Sql_integer,
       mapped ''visible_backlog_limit'' Sql_integer, mapped_now ''created_at'', mapped_now ''updated_at''],
     oc_constraints = [Unique_columns (Some ''uq_stations_kitchen_id_name'') [''kitchen_id'', ''name'']],
     oc_indexes = []\<rparr>"

definition KdsStationTask_class :: ormclass where
  "KdsStationTask_class = \<lparr>oc_table = ''kds_station_tasks'',
     oc_columns = [mapped_key ''id'', (mapped ''task_id'' (Sql_string 36))\<lparr>om_index := True\<rparr>,
       mapped ''order_id'' (Sql_string 36), mapped ''kitchen_id'' Sql_uuid,
       refers ''stations'' (mapped ''station_id'' Sql_uuid), mapped ''station_type'' (Sql_string 32),
       mapped ''operation'' (Sql_string 120), mapped_opt ''menu_item_name'' (Sql_string 120),
       mapped ''status'' (Sql_string 24), mapped ''estimated_duration_seconds'' Sql_integer,
       mapped_opt ''pickup_deadline'' Sql_timestamptz, mapped_now ''displayed_at'',
       mapped_opt ''claimed_by'' (Sql_string 120), mapped_opt ''claimed_at'' Sql_timestamptz,
       mapped_opt ''completed_at'' Sql_timestamptz, (mapped ''idempotency_key'' (Sql_string 200))\<lparr>om_index := True\<rparr>,
       mapped_now ''created_at'', mapped_now ''updated_at''],
     oc_constraints = [Unique_columns (Some ''uq_kds_station_tasks_task_id'') [''task_id''],
       Unique_columns (Some ''uq_kds_station_tasks_idempotency_key'') [''idempotency_key''],
       Check_row ''ck_kds_station_tasks_duration_positive'' (Ck_positive ''estimated_duration_seconds'')],
     oc_indexes = [(''ix_kds_station_tasks_station_id_status'', [Ik_column ''station_id'', Ik_column ''status''], False),
       (''ix_kds_station_tasks_kitchen_id_station_type'', [Ik_column ''kitchen_id'', Ik_column ''station_type''], False)]\<rparr>"

section \<open>Menu service\<close>

definition MenuItem_class :: ormclass where
  "MenuItem_class = \<lparr>oc_table = ''menu_items'',
     oc_columns = [mapped_key ''id'', mapped ''name'' (Sql_string 120), mapped_opt ''description'' (Sql_string 500),
       mapped ''status'' (Sql_string 24), mapped_now ''created_at'', mapped_now ''updated_at''],
     oc_constraints = [], oc_indexes = [(''uq_menu_items_lower_name'', [Ik_lower ''name''], True)]\<rparr>"

definition KitchenMenuAvailability_class :: ormclass where
  "KitchenMenuAvailability_class = \<lparr>oc_table = ''kitchen_menu_availability'',
     oc_columns = [mapped_key ''kitchen_id'', refers ''menu_items'' (mapped_key ''menu_item_id''),
       mapped ''is_available'' Sql_boolean, mapped_now ''created_at'', mapped_now ''updated_at''],
     oc_constraints = [Unique_columns (Some ''uq_kitchen_menu_availability'') [''kitchen_id'', ''menu_item_id'']],
     oc_indexes = []\<rparr>"

definition RecipeStep_class :: ormclass where
  "RecipeStep_class = \<lparr>oc_table = ''recipe_steps'',
     oc_columns = [mapped_key ''id'', refers ''menu_items'' (mapped ''menu_item_id'' Sql_uuid),
       mapped ''station_type'' (Sql_string 32), mapped ''operation'' (Sql_string 120),
       mapped ''duration_seconds'' Sql_integer, mapped ''step_order'' Sql_integer,
       mapped_now ''created_at'', mapped_now ''updated_at''],
     oc_constraints = [Unique_columns (Some ''uq_recipe_steps_menu_item_id_step_order'') [''menu_item_id'', ''step_order''],
       Check_row ''ck_recipe_steps_duration_seconds_positive'' (Ck_positive ''duration_seconds''),
       Check_row ''ck_recipe_steps_step_order_positive'' (Ck_positive ''step_order'')],
     oc_indexes = [(''ix_recipe_steps_menu_item_id_step_order'', [Ik_column ''menu_item_id'', Ik_column ''step_order''], False)]\<rparr>"

section \<open>Fulfillment service\<close>

definition Order_class :: ormclass where
  "Order_class = \<lparr>oc_table = ''orders'',
     oc_columns = [mapped_key ''id'', (mapped ''kitchen_id'' Sql_uuid)\<lparr>om_index := True\<rparr>,
       mapped ''status'' (Sql_string 32), mapped_opt ''pickup_deadline'' Sql_timestamptz,
       mapped_now ''created_at'', mapped_now ''updated_at''],
     oc_constraints = [], oc_indexes = []\<rparr>"

definition OrderItem_class :: ormclass where
  "OrderItem_class = \<lparr>oc_table = ''order_items'',
     oc_columns = [mapped_key ''id'', refers ''orders'' (mapped ''order_id'' Sql_uuid), mapped ''menu_item_id'' Sql_uuid,
       mapped ''quantity'' Sql_integer, mapped_now ''created_at'', mapped_now ''updated_at''],
     oc_constraints = [Check_row ''ck_order_items_quantity_positive'' (Ck_positive ''quantity'')],
     oc_indexes = [(''ix_order_items_order_id'', [Ik_column ''order_id''], False),
       (''ix_order_items_menu_item_id'', [Ik_column ''menu_item_id''], False)]\<rparr>"

definition KitchenTask_class :: ormclass where
  "KitchenTask_class = \<lparr>oc_table = ''kitchen_tasks'',
     oc_columns = [mapped_key ''id'', refers ''orders'' (mapped ''order_id'' Sql_uuid),
       refers ''order_items'' (mapped ''order_item_id'' Sql_uuid), mapped ''menu_item_id'' Sql_uuid,
       mapped ''station_type'' (Sql_string 32), mapped_opt ''station_id'' Sql_uuid, mapped_opt ''kds_task_id'' Sql_uuid,
       mapped ''operation'' (Sql_string 120), mapped ''status'' (Sql_string 32),
       mapped ''estimated_duration_seconds'' Sql_integer, mapped_opt ''displayed_at'' Sql_timestamptz,
       mapped_opt ''started_at'' Sql_timestamptz, mapped_opt ''sla_deadline_at'' Sql_timestamptz,
       mapped_opt ''completed_at'' Sql_timestamptz, mapped_opt ''actual_duration_seconds'' Sql_integer,
       mapped_opt ''delay_seconds'' Sql_integer, mapped ''attempts'' Sql_integer,
       mapped_opt ''queued_at'' Sql_timestamptz, mapped_opt ''redis_stream'' (Sql_string 255),
       mapped_opt ''redis_message_id'' (Sql_string 128), mapped ''recipe_step_order'' Sql_integer,
       mapped ''item_unit_index'' Sql_integer, mapped_now ''created_at'', mapped_now ''updated_at''],
     oc_constraints = [Check_row ''ck_kitchen_tasks_duration_positive'' (Ck_positive ''estimated_duration_seconds''),
       Check_row ''ck_kitchen_tasks_attempts_non_negative'' (Ck_non_negative ''attempts''),
       Check_row ''ck_kitchen_tasks_recipe_step_order_positive'' (Ck_positive ''recipe_step_order''),
       Check_row ''ck_kitchen_tasks_item_unit_index_positive'' (Ck_positive ''item_unit_index'')],
     oc_indexes = [(''ix_kitchen_tasks_order_id'', [Ik_column ''order_id''], False),
       (''ix_kitchen_tasks_menu_item_id'', [Ik_column ''menu_item_id''], False),
       (''ix_kitchen_tasks_status'', [Ik_column ''status''], False),
       (''ix_kitchen_tasks_station_type'', [Ik_column ''station_type''], False),
       (''ix_kitchen_tasks_station_id'', [Ik_column ''station_id''], False),
       (''ix_kitchen_tasks_kds_task_id'', [Ik_column ''kds_task_id''], False),
       (''ix_kitchen_tasks_order_item_id'', [Ik_column ''order_item_id''], False),
       (''ix_kitchen_tasks_redis_stream'', [Ik_column ''redis_stream''], False)]\<rparr>"

definition TaskDependency_class :: ormclass where
  "TaskDependency_class = \<lparr>oc_table = ''task_dependencies'',
     oc_columns = [refers ''kitchen_tasks'' (mapped_key ''task_id''),
       refers ''kitchen_tasks'' (mapped_key ''depends_on_task_id''), mapped_now ''created_at''],
     oc_constraints = [Unique_columns (Some ''uq_task_dependencies_task_id_depends_on_task_id'') [''task_id'', ''depends_on_task_id''],
       Check_row ''ck_task_dependencies_not_self'' (Ck_differ ''task_id'' ''depends_on_task_id'')],
     oc_indexes = []\<rparr>"

fun models_of :: "service_db \<Rightarrow> ormclass list" where
  "models_of Kitchen_db = [Kitchen_class, Station_class, KdsStationTask_class]"
| "models_of Menu_db = [MenuItem_class, KitchenMenuAvailability_class, RecipeStep_class]"
| "models_of Fulfillment_db = [Order_class, OrderItem_class, KitchenTask_class, TaskDependency_class]"

text \<open>The schema the code of a service works with.\<close>

definition schema_of :: "service_db \<Rightarrow> sqlschema" where
  "schema_of svc = metadata (models_of svc)"

section \<open>Schemas up to order\<close>

text \<open>The order of the tables, and of the columns, constraints and indexes, has no meaning.\<close>

definition same_table :: "sqltable \<Rightarrow> sqltable \<Rightarrow> bool" where
  "same_table t u =
     (tb_name t = tb_name u \<and> length (tb_columns t) = length (tb_columns u)
      \<and> set (tb_columns t) = set (tb_columns u) \<and> set (tb_constraints t) = set (tb_constraints u))"

definition same_schema :: "sqlschema \<Rightarrow> sqlschema \<Rightarrow> bool" where
  "same_schema s s' =
     ((\<forall>t \<in> set (db_tables s). \<exists>u \<in> set (db_tables s'). same_table t u)
      \<and> (\<forall>u \<in> set (db_tables s'). \<exists>t \<in> set (db_tables s). same_table t u)
      \<and> set (db_indexes s) = set (db_indexes s'))"

lemma models_migrated:
  "\<exists>s. run_ddls (concat (map mg_upgrade (migrations_of svc))) empty_schema = Some s
     \<and> same_schema s (schema_of svc)"
proof -
  have k: "case run_ddls (concat (map mg_upgrade (migrations_of Kitchen_db))) empty_schema of None \<Rightarrow> False
    | Some s \<Rightarrow> same_schema s (schema_of Kitchen_db)" by code_simp
  have m: "case run_ddls (concat (map mg_upgrade (migrations_of Menu_db))) empty_schema of None \<Rightarrow> False
    | Some s \<Rightarrow> same_schema s (schema_of Menu_db)" by code_simp
  have f: "case run_ddls (concat (map mg_upgrade (migrations_of Fulfillment_db))) empty_schema of None \<Rightarrow> False
    | Some s \<Rightarrow> same_schema s (schema_of Fulfillment_db)" by code_simp
  show ?thesis using k m f by (cases svc) (auto simp del: migrations_of.simps split: option.splits)
qed

end
