(* ===== verification/Schema_Rows.thy ===== *)
theory Schema_Rows
  imports Schema_Models
begin

text \<open>
  What a database with a given schema does with an \<open>INSERT\<close>: the values must fit their
  columns, columns without a value take their server default, and the declared constraints
  and unique indexes must hold among the rows stored so far. Two schemas that differ in
  order only accept the same rows.
\<close>

section \<open>Values and rows\<close>

datatype sqlvalue =
    V_null
  | V_uuid uuid
  | V_text string
  | V_int int
  | V_bool bool
  | V_time pydatetime

type_synonym sqlrow = "string \<rightharpoonup> sqlvalue"

type_synonym sqldb = "string \<Rightarrow> sqlrow list"

fun value_fits :: "sqltype \<Rightarrow> sqlvalue \<Rightarrow> bool" where
  "value_fits _ V_null = True"
| "value_fits Sql_uuid (V_uuid _) = True"
| "value_fits (Sql_string n) (V_text s) = pg_text n s"
| "value_fits Sql_integer (V_int i) = pg_int4 i"
| "value_fits Sql_boolean (V_bool _) = True"
| "value_fits Sql_timestamptz (V_time _) = True"
| "value_fits _ _ = False"

definition cell :: "sqlrow \<Rightarrow> string \<Rightarrow> sqlvalue" where
  "cell r c = (case r c of None \<Rightarrow> V_null | Some v \<Rightarrow> v)"

definition stored_row :: "pydatetime \<Rightarrow> sqltable \<Rightarrow> (string \<times> sqlvalue) list \<Rightarrow> sqlrow" where
  "stored_row now t given = (\<lambda>c. case map_of given c of Some v \<Rightarrow> Some v
     | None \<Rightarrow> if \<exists>d \<in> set (tb_columns t). cl_name d = c \<and> cl_default_now d then Some (V_time now) else None)"

section \<open>Constraints of a row\<close>

text \<open>A comparison with a null is unknown, and an unknown check passes.\<close>

fun check_ok :: "sqlrow \<Rightarrow> sqlcheck \<Rightarrow> bool" where
  "check_ok r (Ck_positive c) = (case cell r c of V_int i \<Rightarrow> 0 < i | _ \<Rightarrow> True)"
| "check_ok r (Ck_non_negative c) = (case cell r c of V_int i \<Rightarrow> 0 \<le> i | _ \<Rightarrow> True)"
| "check_ok r (Ck_differ c d) = (cell r c = V_null \<or> cell r d = V_null \<or> cell r c \<noteq> cell r d)"

definition same_key :: "(sqlrow \<Rightarrow> 'k \<Rightarrow> sqlvalue) \<Rightarrow> 'k list \<Rightarrow> sqlrow \<Rightarrow> sqlrow \<Rightarrow> bool" where
  "same_key val ks r x = (\<forall>k \<in> set ks. val r k \<noteq> V_null \<and> val x k = val r k)"

fun constraint_ok :: "sqldb \<Rightarrow> string \<Rightarrow> sqlrow \<Rightarrow> sqlconstraint \<Rightarrow> bool" where
  "constraint_ok db n r (Primary_key cs) = (\<not> (\<exists>x \<in> set (db n). same_key cell cs r x))"
| "constraint_ok db n r (Unique_columns _ cs) = (\<not> (\<exists>x \<in> set (db n). same_key cell cs r x))"
| "constraint_ok db n r (Foreign_key cs t ds) =
     ((\<exists>c \<in> set cs. cell r c = V_null) \<or> (\<exists>x \<in> set (db t). list_all2 (\<lambda>c d. cell x d = cell r c) cs ds))"
| "constraint_ok db n r (Check_row _ k) = check_ok r k"

fun key_value :: "(string \<Rightarrow> string) \<Rightarrow> sqlrow \<Rightarrow> index_key \<Rightarrow> sqlvalue" where
  "key_value lower r (Ik_column c) = cell r c"
| "key_value lower r (Ik_lower c) = (case cell r c of V_text s \<Rightarrow> V_text (lower s) | v \<Rightarrow> v)"

definition index_ok :: "(string \<Rightarrow> string) \<Rightarrow> sqldb \<Rightarrow> string \<Rightarrow> sqlrow \<Rightarrow> sqlindex \<Rightarrow> bool" where
  "index_ok lower db n r i =
     (ix_table i = n \<and> ix_unique i \<longrightarrow> \<not> (\<exists>x \<in> set (db n). same_key (key_value lower) (ix_keys i) r x))"

definition row_fits :: "sqltable \<Rightarrow> sqlrow \<Rightarrow> bool" where
  "row_fits t r = (\<forall>d \<in> set (tb_columns t). value_fits (cl_type d) (cell r (cl_name d)))"

definition row_ok :: "(string \<Rightarrow> string) \<Rightarrow> sqlschema \<Rightarrow> sqldb \<Rightarrow> sqltable \<Rightarrow> sqlrow \<Rightarrow> bool" where
  "row_ok lower s db t r =
     ((\<forall>d \<in> set (tb_columns t). cl_nullable d \<or> cell r (cl_name d) \<noteq> V_null)
      \<and> (\<forall>k \<in> set (tb_constraints t). constraint_ok db (tb_name t) r k)
      \<and> (\<forall>i \<in> set (db_indexes s). index_ok lower db (tb_name t) r i))"

section \<open>Insertion\<close>

definition sql_insert ::
    "(string \<Rightarrow> string) \<Rightarrow> pydatetime \<Rightarrow> sqlschema \<Rightarrow> string \<Rightarrow> (string \<times> sqlvalue) list \<Rightarrow> sqldb \<Rightarrow> db_error + sqldb" where
  "sql_insert lower now s n given db =
     (case table_of s n of
        None \<Rightarrow> Inl DataError
      | Some t \<Rightarrow>
          (let r = stored_row now t given
           in if \<not> set (map fst given) \<subseteq> cl_name ` set (tb_columns t) \<or> \<not> row_fits t r then Inl DataError
              else if \<not> row_ok lower s db t r then Inl IntegrityError
              else Inr (db(n := db n @ [r]))))"

section \<open>The order of a schema has no effect\<close>

lemma same_schema_table:
  assumes "same_schema s s'" "schema_ok s" "schema_ok s'"
  shows "rel_option same_table (table_of s n) (table_of s' n)"
proof (cases "table_of s n")
  case None
  then have "\<forall>u \<in> set (db_tables s'). tb_name u \<noteq> n"
    using assms(1) by (fastforce simp: same_schema_def same_table_def table_of_def find_row_None_iff)
  then have "table_of s' n = None" by (simp add: table_of_def find_row_None_iff)
  with None show ?thesis by simp
next
  case (Some t)
  then obtain u where "u \<in> set (db_tables s')" "same_table t u" "tb_name u = n"
    using assms(1) table_of_Some [OF Some] by (auto simp: same_schema_def same_table_def)
  with Some table_of_unique [OF assms(3)] show ?thesis by force
qed

lemma sql_insert_same_schema:
  assumes "same_schema s s'" "schema_ok s" "schema_ok s'"
  shows "sql_insert lower now s n given db = sql_insert lower now s' n given db"
proof -
  have "stored_row now t given = stored_row now u given" "row_fits t r = row_fits u r"
    "row_ok lower s db t r = row_ok lower s' db u r" "cl_name ` set (tb_columns t) = cl_name ` set (tb_columns u)"
    if "same_table t u" for t u r
    using that assms(1)
    by (auto simp: same_table_def same_schema_def stored_row_def row_fits_def row_ok_def cong: option.case_cong)
  note same = this
  show ?thesis
  proof (cases "table_of s n")
    case None
    with same_schema_table [OF assms, of n] show ?thesis by (simp add: sql_insert_def rel_option_iff split: option.splits)
  next
    case (Some t)
    with same_schema_table [OF assms, of n] obtain u where u: "table_of s' n = Some u" "same_table t u"
      by (auto simp: rel_option_iff split: option.splits)
    show ?thesis by (simp add: sql_insert_def Some u(1) same [OF u(2)] Let_def)
  qed
qed

lemma stored_row_complete:
  assumes "cl_name ` {d \<in> set (tb_columns t). cl_default_now d} \<subseteq> fst ` set given"
  shows "stored_row now t given = map_of given"
proof
  fix c
  show "stored_row now t given c = map_of given c"
  proof (cases "map_of given c")
    case None
    then have "c \<notin> fst ` set given" by (simp add: map_of_eq_None_iff)
    with assms have "\<not> (\<exists>d \<in> set (tb_columns t). cl_name d = c \<and> cl_default_now d)" by blast
    with None show ?thesis by (simp add: stored_row_def)
  qed (simp add: stored_row_def)
qed

text \<open>An \<open>INSERT\<close> that names every column of the table.\<close>

lemma sql_insert_complete:
  assumes "table_of s n = Some t" "set (map fst given) = set (map cl_name (tb_columns t))"
  shows "sql_insert lower now s n given db =
    (if \<not> row_fits t (map_of given) then Inl DataError
     else if \<not> row_ok lower s db t (map_of given) then Inl IntegrityError
     else Inr (db(n := db n @ [map_of given])))"
proof -
  have "stored_row now t given = map_of given"
    using assms(2) by (intro stored_row_complete) auto
  with assms show ?thesis by (simp add: sql_insert_def Let_def)
qed

section \<open>A table and its model\<close>

text \<open>
  The interface between a declared table and the insertion of a service model: the cells of a
  row, when it fits its columns, when it breaks a constraint, and the database with the row.
\<close>

locale table_model =
  fixes schema :: sqlschema
    and lower :: "string \<Rightarrow> string"
    and tab :: sqltable
    and cells :: "'r \<Rightarrow> (string \<times> sqlvalue) list"
    and tables :: "'db \<Rightarrow> sqldb"
    and fits :: "'r \<Rightarrow> bool"
    and clash :: "'r \<Rightarrow> 'db \<Rightarrow> bool"
    and put :: "'r \<Rightarrow> 'db \<Rightarrow> 'db"
  assumes declared: "table_of schema (tb_name tab) = Some tab"
    and columns: "map cl_name (tb_columns tab) = map fst (cells r)"
    and fitting: "row_fits tab (map_of (cells r)) = fits r"
    and constraints: "row_ok lower schema (tables db) tab (map_of (cells r)) = (\<not> clash r db)"
    and appended: "tables (put r db) = (tables db)(tb_name tab := tables db (tb_name tab) @ [map_of (cells r)])"
begin

definition model_insert :: "'r \<Rightarrow> 'db \<Rightarrow> db_error + 'db" where
  "model_insert r db =
     (if \<not> fits r then Inl DataError else if clash r db then Inl IntegrityError else Inr (put r db))"

lemma model_insert_refines:
  "map_sum id tables (model_insert r db) = sql_insert lower now schema (tb_name tab) (cells r) (tables db)"
proof -
  have "set (map fst (cells r)) = set (map cl_name (tb_columns tab))" by (simp only: columns [of r])
  from sql_insert_complete [OF declared this] show ?thesis
    by (simp add: model_insert_def fitting constraints appended)
qed

end

section \<open>Cells of optional columns\<close>

definition opt_cell :: "('a \<Rightarrow> sqlvalue) \<Rightarrow> 'a option \<Rightarrow> sqlvalue" where
  "opt_cell f v = (case v of None \<Rightarrow> V_null | Some x \<Rightarrow> f x)"

lemma opt_cell_null [simp]: "(\<And>x. f x \<noteq> V_null) \<Longrightarrow> opt_cell f v = V_null \<longleftrightarrow> v = None"
  by (simp add: opt_cell_def split: option.splits)

lemma opt_cell_fits [simp]:
  "value_fits Sql_uuid (opt_cell V_uuid u)"
  "value_fits (Sql_string n) (opt_cell V_text s) = opt_ok (pg_text n) s"
  "value_fits Sql_integer (opt_cell V_int i) = opt_ok pg_int4 i"
  "value_fits Sql_timestamptz (opt_cell V_time d)"
  by (auto simp: opt_cell_def split: option.splits)

lemmas declared_simps = orm_table_def orm_constraints_def orm_sqlcolumn_def orm_indexes_def mapped_def mapped_opt_def
  mapped_now_def mapped_key_def refers_def sql_index_def map_filter_simps

end
