(* ===== verification/Schema_Kitchen.thy ===== *)
theory Schema_Kitchen
  imports Schema_Rows Kitchen_Model
begin

text \<open>
  The insertions of the kitchen model as statements on the tables the kitchen service
  declares: each accepts exactly the rows the schema accepts, fails with the same kind of
  error, and stores the row.
\<close>

section \<open>Rows\<close>

definition kitchen_cells :: "kitchen \<Rightarrow> (string \<times> sqlvalue) list" where
  "kitchen_cells k =
     [(''id'', V_uuid (k_id k)), (''name'', V_text (k_name k)), (''status'', V_text (kitchen_status_str (k_status k))),
      (''created_at'', V_time (k_created_at k)), (''updated_at'', V_time (k_updated_at k))]"

definition station_cells :: "station \<Rightarrow> (string \<times> sqlvalue) list" where
  "station_cells s =
     [(''id'', V_uuid (st_id s)), (''kitchen_id'', V_uuid (st_kitchen_id s)), (''name'', V_text (st_name s)),
      (''station_type'', V_text (station_type_str (st_type s))), (''status'', V_text (station_status_str (st_status s))),
      (''capacity'', V_int (st_capacity s)), (''busy_slots'', V_int (st_busy_slots s)),
      (''visible_backlog_limit'', V_int (st_backlog_limit s)),
      (''created_at'', V_time (st_created_at s)), (''updated_at'', V_time (st_updated_at s))]"

definition kds_task_cells :: "kds_task \<Rightarrow> (string \<times> sqlvalue) list" where
  "kds_task_cells t =
     [(''id'', V_uuid (kt_id t)), (''task_id'', V_text (kt_task_id t)), (''order_id'', V_text (kt_order_id t)),
      (''kitchen_id'', V_uuid (kt_kitchen_id t)), (''station_id'', V_uuid (kt_station_id t)),
      (''station_type'', V_text (station_type_str (kt_station_type t))), (''operation'', V_text (kt_operation t)),
      (''menu_item_name'', opt_cell V_text (kt_menu_item_name t)),
      (''status'', V_text (kds_task_status_str (kt_status t))), (''estimated_duration_seconds'', V_int (kt_duration t)),
      (''pickup_deadline'', opt_cell V_time (kt_pickup_deadline t)), (''displayed_at'', V_time (kt_displayed_at t)),
      (''claimed_by'', opt_cell V_text (kt_claimed_by t)), (''claimed_at'', opt_cell V_time (kt_claimed_at t)),
      (''completed_at'', opt_cell V_time (kt_completed_at t)), (''idempotency_key'', V_text (kt_idempotency_key t)),
      (''created_at'', V_time (kt_created_at t)), (''updated_at'', V_time (kt_updated_at t))]"

definition kitchen_tables :: "kdb \<Rightarrow> sqldb" where
  "kitchen_tables db = (\<lambda>_. [])
     (''kitchens'' := map (\<lambda>k. map_of (kitchen_cells k)) (kitchens db),
      ''stations'' := map (\<lambda>s. map_of (station_cells s)) (stations db),
      ''kds_station_tasks'' := map (\<lambda>t. map_of (kds_task_cells t)) (kds_tasks db))"

section \<open>The declared tables\<close>

lemma status_texts [simp]:
  "pg_text 24 (kitchen_status_str ks)" "pg_text 24 (station_status_str ss)" "pg_text 24 (kds_task_status_str ts)"
  "pg_text 32 (station_type_str ty)"
  by (cases ks, simp_all add: pg_text_def, cases ss, simp_all, cases ts, simp_all, cases ty, simp_all)

lemma kitchen_index_ok: "i \<in> set (db_indexes (schema_of Kitchen_db)) \<Longrightarrow> index_ok lower db n r i"
  by (auto simp: index_ok_def schema_of_def metadata_def Kitchen_class_def Station_class_def KdsStationTask_class_def declared_simps)

lemma kitchen_declared:
  "tb_name (orm_table Kitchen_class) = ''kitchens''" "tb_name (orm_table Station_class) = ''stations''"
  "tb_name (orm_table KdsStationTask_class) = ''kds_station_tasks''"
  "table_of (schema_of Kitchen_db) ''kitchens'' = Some (orm_table Kitchen_class)"
  "table_of (schema_of Kitchen_db) ''stations'' = Some (orm_table Station_class)"
  "table_of (schema_of Kitchen_db) ''kds_station_tasks'' = Some (orm_table KdsStationTask_class)"
  by (simp_all add: schema_of_def metadata_def table_of_def orm_table_def Kitchen_class_def Station_class_def KdsStationTask_class_def)

lemma kitchen_tables_at:
  "kitchen_tables db ''kitchens'' = map (\<lambda>k. map_of (kitchen_cells k)) (kitchens db)"
  "kitchen_tables db ''stations'' = map (\<lambda>s. map_of (station_cells s)) (stations db)"
  "kitchen_tables db ''kds_station_tasks'' = map (\<lambda>t. map_of (kds_task_cells t)) (kds_tasks db)"
  by (simp_all add: kitchen_tables_def)

lemma kitchen_tables_put:
  "kitchen_tables (db\<lparr>kitchens := kitchens db @ [k]\<rparr>)
     = (kitchen_tables db)(''kitchens'' := kitchen_tables db ''kitchens'' @ [map_of (kitchen_cells k)])"
  "kitchen_tables (db\<lparr>stations := stations db @ [s]\<rparr>)
     = (kitchen_tables db)(''stations'' := kitchen_tables db ''stations'' @ [map_of (station_cells s)])"
  "kitchen_tables (db\<lparr>kds_tasks := kds_tasks db @ [t]\<rparr>)
     = (kitchen_tables db)(''kds_station_tasks'' := kitchen_tables db ''kds_station_tasks'' @ [map_of (kds_task_cells t)])"
  by (auto simp: kitchen_tables_def)

lemma kitchen_cell [simp]:
  "map fst (kitchen_cells k) = [''id'', ''name'', ''status'', ''created_at'', ''updated_at'']"
  "cell (map_of (kitchen_cells k)) ''id'' = V_uuid (k_id k)"
  "cell (map_of (kitchen_cells k)) ''name'' = V_text (k_name k)"
  "cell (map_of (kitchen_cells k)) ''status'' = V_text (kitchen_status_str (k_status k))"
  "cell (map_of (kitchen_cells k)) ''created_at'' = V_time (k_created_at k)"
  "cell (map_of (kitchen_cells k)) ''updated_at'' = V_time (k_updated_at k)"
  by (simp_all add: cell_def kitchen_cells_def)

lemma station_cell [simp]:
  "map fst (station_cells s) = [''id'', ''kitchen_id'', ''name'', ''station_type'', ''status'', ''capacity'', ''busy_slots'', ''visible_backlog_limit'', ''created_at'', ''updated_at'']"
  "cell (map_of (station_cells s)) ''id'' = V_uuid (st_id s)"
  "cell (map_of (station_cells s)) ''kitchen_id'' = V_uuid (st_kitchen_id s)"
  "cell (map_of (station_cells s)) ''name'' = V_text (st_name s)"
  "cell (map_of (station_cells s)) ''station_type'' = V_text (station_type_str (st_type s))"
  "cell (map_of (station_cells s)) ''status'' = V_text (station_status_str (st_status s))"
  "cell (map_of (station_cells s)) ''capacity'' = V_int (st_capacity s)"
  "cell (map_of (station_cells s)) ''busy_slots'' = V_int (st_busy_slots s)"
  "cell (map_of (station_cells s)) ''visible_backlog_limit'' = V_int (st_backlog_limit s)"
  "cell (map_of (station_cells s)) ''created_at'' = V_time (st_created_at s)"
  "cell (map_of (station_cells s)) ''updated_at'' = V_time (st_updated_at s)"
  by (simp_all add: cell_def station_cells_def)

lemma kds_task_cell [simp]:
  "map fst (kds_task_cells t) = [''id'', ''task_id'', ''order_id'', ''kitchen_id'', ''station_id'', ''station_type'', ''operation'', ''menu_item_name'', ''status'', ''estimated_duration_seconds'', ''pickup_deadline'', ''displayed_at'', ''claimed_by'', ''claimed_at'', ''completed_at'', ''idempotency_key'', ''created_at'', ''updated_at'']"
  "cell (map_of (kds_task_cells t)) ''id'' = V_uuid (kt_id t)"
  "cell (map_of (kds_task_cells t)) ''task_id'' = V_text (kt_task_id t)"
  "cell (map_of (kds_task_cells t)) ''order_id'' = V_text (kt_order_id t)"
  "cell (map_of (kds_task_cells t)) ''kitchen_id'' = V_uuid (kt_kitchen_id t)"
  "cell (map_of (kds_task_cells t)) ''station_id'' = V_uuid (kt_station_id t)"
  "cell (map_of (kds_task_cells t)) ''station_type'' = V_text (station_type_str (kt_station_type t))"
  "cell (map_of (kds_task_cells t)) ''operation'' = V_text (kt_operation t)"
  "cell (map_of (kds_task_cells t)) ''menu_item_name'' = opt_cell V_text (kt_menu_item_name t)"
  "cell (map_of (kds_task_cells t)) ''status'' = V_text (kds_task_status_str (kt_status t))"
  "cell (map_of (kds_task_cells t)) ''estimated_duration_seconds'' = V_int (kt_duration t)"
  "cell (map_of (kds_task_cells t)) ''pickup_deadline'' = opt_cell V_time (kt_pickup_deadline t)"
  "cell (map_of (kds_task_cells t)) ''displayed_at'' = V_time (kt_displayed_at t)"
  "cell (map_of (kds_task_cells t)) ''claimed_by'' = opt_cell V_text (kt_claimed_by t)"
  "cell (map_of (kds_task_cells t)) ''claimed_at'' = opt_cell V_time (kt_claimed_at t)"
  "cell (map_of (kds_task_cells t)) ''completed_at'' = opt_cell V_time (kt_completed_at t)"
  "cell (map_of (kds_task_cells t)) ''idempotency_key'' = V_text (kt_idempotency_key t)"
  "cell (map_of (kds_task_cells t)) ''created_at'' = V_time (kt_created_at t)"
  "cell (map_of (kds_task_cells t)) ''updated_at'' = V_time (kt_updated_at t)"
  by (simp_all add: cell_def kds_task_cells_def)

section \<open>Insertions\<close>

lemmas kitchen_table_simps = row_fits_def row_ok_def same_key_def declared_simps kitchen_index_ok kitchen_tables_at

interpretation kitchens_model: table_model "schema_of Kitchen_db" lower "orm_table Kitchen_class" kitchen_cells kitchen_tables
    kitchen_fits "\<lambda>k db. \<exists>x \<in> set (kitchens db). k_id x = k_id k \<or> k_name x = k_name k"
    "\<lambda>k db. db\<lparr>kitchens := kitchens db @ [k]\<rparr>" for lower
  by unfold_locales
    (simp_all only: kitchen_declared kitchen_tables_put, auto simp: Kitchen_class_def kitchen_fits_def kitchen_table_simps)

interpretation stations_model: table_model "schema_of Kitchen_db" lower "orm_table Station_class" station_cells kitchen_tables
    station_fits "\<lambda>s db. (\<exists>x \<in> set (stations db). st_id x = st_id s
                 \<or> (st_kitchen_id x = st_kitchen_id s \<and> st_name x = st_name s))
           \<or> \<not> (\<exists>k \<in> set (kitchens db). k_id k = st_kitchen_id s)"
    "\<lambda>s db. db\<lparr>stations := stations db @ [s]\<rparr>" for lower
  by unfold_locales
    (simp_all only: kitchen_declared kitchen_tables_put, auto simp: Station_class_def station_fits_def kitchen_table_simps)

interpretation kds_tasks_model: table_model "schema_of Kitchen_db" lower "orm_table KdsStationTask_class" kds_task_cells
    kitchen_tables kds_task_fits "\<lambda>t db. \<not> 0 < kt_duration t
           \<or> (\<exists>x \<in> set (kds_tasks db). kt_id x = kt_id t \<or> kt_task_id x = kt_task_id t
                 \<or> kt_idempotency_key x = kt_idempotency_key t)
           \<or> \<not> (\<exists>s \<in> set (stations db). st_id s = kt_station_id t)"
    "\<lambda>t db. db\<lparr>kds_tasks := kds_tasks db @ [t]\<rparr>" for lower
  by unfold_locales
    (simp_all only: kitchen_declared kitchen_tables_put, auto simp: KdsStationTask_class_def kds_task_fits_def kitchen_table_simps)

lemma kitchen_inserts_refine:
  "map_sum id kitchen_tables (insert_kitchen k db)
     = sql_insert lower now (schema_of Kitchen_db) ''kitchens'' (kitchen_cells k) (kitchen_tables db)"
  "map_sum id kitchen_tables (insert_station s db)
     = sql_insert lower now (schema_of Kitchen_db) ''stations'' (station_cells s) (kitchen_tables db)"
  "map_sum id kitchen_tables (insert_kds_task t db)
     = sql_insert lower now (schema_of Kitchen_db) ''kds_station_tasks'' (kds_task_cells t) (kitchen_tables db)"
  using kitchens_model.model_insert_refines [of k db lower now] stations_model.model_insert_refines [of s db lower now]
    kds_tasks_model.model_insert_refines [of t db lower now]
  by (simp_all only: kitchens_model.model_insert_def stations_model.model_insert_def kds_tasks_model.model_insert_def
      insert_kitchen_def insert_station_def insert_kds_task_def kitchen_declared)

end
