(* ===== verification/Schema_Menu.thy ===== *)
theory Schema_Menu
  imports Schema_Rows Menu_Model
begin

text \<open>
  The insertions of the menu model as statements on the tables the menu service declares.
  The unique index on \<open>lower(name)\<close> uses the database's \<open>lower\<close>, a parameter of both.
\<close>

section \<open>Rows\<close>

definition menu_item_cells :: "menu_item \<Rightarrow> (string \<times> sqlvalue) list" where
  "menu_item_cells r =
     [(''id'', V_uuid (mi_id r)), (''name'', V_text (mi_name r)), (''description'', opt_cell V_text (mi_description r)),
      (''status'', V_text (menu_item_status_str (mi_status r))),
      (''created_at'', V_time (mi_created_at r)), (''updated_at'', V_time (mi_updated_at r))]"

definition availability_cells :: "availability \<Rightarrow> (string \<times> sqlvalue) list" where
  "availability_cells a =
     [(''kitchen_id'', V_uuid (av_kitchen_id a)), (''menu_item_id'', V_uuid (av_menu_item_id a)),
      (''is_available'', V_bool (av_is_available a)),
      (''created_at'', V_time (av_created_at a)), (''updated_at'', V_time (av_updated_at a))]"

definition recipe_row_cells :: "recipe_row \<Rightarrow> (string \<times> sqlvalue) list" where
  "recipe_row_cells r =
     [(''id'', V_uuid (rs_id r)), (''menu_item_id'', V_uuid (rs_menu_item_id r)),
      (''station_type'', V_text (menu_station_type_str (rs_station_type r))), (''operation'', V_text (rs_operation r)),
      (''duration_seconds'', V_int (rs_duration r)), (''step_order'', V_int (rs_step_order r)),
      (''created_at'', V_time (rs_created_at r)), (''updated_at'', V_time (rs_updated_at r))]"

definition menu_tables :: "mdb \<Rightarrow> sqldb" where
  "menu_tables db = (\<lambda>_. [])
     (''menu_items'' := map (\<lambda>r. map_of (menu_item_cells r)) (md_items db),
      ''kitchen_menu_availability'' := map (\<lambda>a. map_of (availability_cells a)) (md_avail db),
      ''recipe_steps'' := map (\<lambda>r. map_of (recipe_row_cells r)) (md_steps db))"

section \<open>The declared tables\<close>

lemma menu_texts [simp]: "pg_text 24 (menu_item_status_str ms)" "pg_text 32 (menu_station_type_str ty)"
  by (cases ms, simp_all add: pg_text_def, cases ty, simp_all)

lemmas menu_class_defs = MenuItem_class_def KitchenMenuAvailability_class_def RecipeStep_class_def

lemma menu_index_ok:
  "(\<forall>i \<in> set (db_indexes (schema_of Menu_db)). index_ok lower db n r i)
     \<longleftrightarrow> (n = ''menu_items'' \<longrightarrow> \<not> (\<exists>x \<in> set (db n). same_key (key_value lower) [Ik_lower ''name''] r x))"
  by (auto simp: index_ok_def schema_of_def metadata_def menu_class_defs declared_simps)

lemma menu_declared:
  "tb_name (orm_table MenuItem_class) = ''menu_items''"
  "tb_name (orm_table KitchenMenuAvailability_class) = ''kitchen_menu_availability''"
  "tb_name (orm_table RecipeStep_class) = ''recipe_steps''"
  "table_of (schema_of Menu_db) ''menu_items'' = Some (orm_table MenuItem_class)"
  "table_of (schema_of Menu_db) ''kitchen_menu_availability'' = Some (orm_table KitchenMenuAvailability_class)"
  "table_of (schema_of Menu_db) ''recipe_steps'' = Some (orm_table RecipeStep_class)"
  by (simp_all add: schema_of_def metadata_def table_of_def orm_table_def menu_class_defs)

lemma menu_tables_at:
  "menu_tables db ''menu_items'' = map (\<lambda>r. map_of (menu_item_cells r)) (md_items db)"
  "menu_tables db ''kitchen_menu_availability'' = map (\<lambda>a. map_of (availability_cells a)) (md_avail db)"
  "menu_tables db ''recipe_steps'' = map (\<lambda>r. map_of (recipe_row_cells r)) (md_steps db)"
  by (simp_all add: menu_tables_def)

lemma menu_tables_put:
  "menu_tables (db\<lparr>md_items := md_items db @ [r]\<rparr>)
     = (menu_tables db)(''menu_items'' := menu_tables db ''menu_items'' @ [map_of (menu_item_cells r)])"
  "menu_tables (db\<lparr>md_avail := md_avail db @ [a]\<rparr>) = (menu_tables db)
     (''kitchen_menu_availability'' := menu_tables db ''kitchen_menu_availability'' @ [map_of (availability_cells a)])"
  "menu_tables (db\<lparr>md_steps := md_steps db @ [s]\<rparr>)
     = (menu_tables db)(''recipe_steps'' := menu_tables db ''recipe_steps'' @ [map_of (recipe_row_cells s)])"
  by (auto simp: menu_tables_def)

lemma menu_item_cell [simp]:
  "map fst (menu_item_cells r) = [''id'', ''name'', ''description'', ''status'', ''created_at'', ''updated_at'']"
  "cell (map_of (menu_item_cells r)) ''id'' = V_uuid (mi_id r)"
  "cell (map_of (menu_item_cells r)) ''name'' = V_text (mi_name r)"
  "cell (map_of (menu_item_cells r)) ''description'' = opt_cell V_text (mi_description r)"
  "cell (map_of (menu_item_cells r)) ''status'' = V_text (menu_item_status_str (mi_status r))"
  "cell (map_of (menu_item_cells r)) ''created_at'' = V_time (mi_created_at r)"
  "cell (map_of (menu_item_cells r)) ''updated_at'' = V_time (mi_updated_at r)"
  by (simp_all add: cell_def menu_item_cells_def)

lemma availability_cell [simp]:
  "map fst (availability_cells a) = [''kitchen_id'', ''menu_item_id'', ''is_available'', ''created_at'', ''updated_at'']"
  "cell (map_of (availability_cells a)) ''kitchen_id'' = V_uuid (av_kitchen_id a)"
  "cell (map_of (availability_cells a)) ''menu_item_id'' = V_uuid (av_menu_item_id a)"
  "cell (map_of (availability_cells a)) ''is_available'' = V_bool (av_is_available a)"
  "cell (map_of (availability_cells a)) ''created_at'' = V_time (av_created_at a)"
  "cell (map_of (availability_cells a)) ''updated_at'' = V_time (av_updated_at a)"
  by (simp_all add: cell_def availability_cells_def)

lemma recipe_row_cell [simp]:
  "map fst (recipe_row_cells r) = [''id'', ''menu_item_id'', ''station_type'', ''operation'', ''duration_seconds'', ''step_order'', ''created_at'', ''updated_at'']"
  "cell (map_of (recipe_row_cells r)) ''id'' = V_uuid (rs_id r)"
  "cell (map_of (recipe_row_cells r)) ''menu_item_id'' = V_uuid (rs_menu_item_id r)"
  "cell (map_of (recipe_row_cells r)) ''station_type'' = V_text (menu_station_type_str (rs_station_type r))"
  "cell (map_of (recipe_row_cells r)) ''operation'' = V_text (rs_operation r)"
  "cell (map_of (recipe_row_cells r)) ''duration_seconds'' = V_int (rs_duration r)"
  "cell (map_of (recipe_row_cells r)) ''step_order'' = V_int (rs_step_order r)"
  "cell (map_of (recipe_row_cells r)) ''created_at'' = V_time (rs_created_at r)"
  "cell (map_of (recipe_row_cells r)) ''updated_at'' = V_time (rs_updated_at r)"
  by (simp_all add: cell_def recipe_row_cells_def)

section \<open>Insertions\<close>

lemmas menu_table_simps = row_fits_def row_ok_def same_key_def declared_simps menu_index_ok menu_tables_at

interpretation menu_items_model: table_model "schema_of Menu_db" "col_lower col" "orm_table MenuItem_class" menu_item_cells
    menu_tables "\<lambda>r. pg_text 120 (mi_name r) \<and> opt_ok (pg_text 500) (mi_description r)"
    "\<lambda>r db. \<exists>x \<in> set (md_items db). mi_id x = mi_id r \<or> col_lower col (mi_name x) = col_lower col (mi_name r)"
    "\<lambda>r db. db\<lparr>md_items := md_items db @ [r]\<rparr>" for col
  by unfold_locales (simp_all only: menu_declared menu_tables_put, auto simp: MenuItem_class_def menu_table_simps)

interpretation availability_model: table_model "schema_of Menu_db" lower "orm_table KitchenMenuAvailability_class"
    availability_cells menu_tables "\<lambda>_. True"
    "\<lambda>a db. (\<exists>x \<in> set (md_avail db). av_key x = av_key a) \<or> \<not> (\<exists>x \<in> set (md_items db). mi_id x = av_menu_item_id a)"
    "\<lambda>a db. db\<lparr>md_avail := md_avail db @ [a]\<rparr>" for lower
  by unfold_locales
    (simp_all only: menu_declared menu_tables_put, auto simp: KitchenMenuAvailability_class_def menu_table_simps av_key_def)

interpretation recipe_steps_model: table_model "schema_of Menu_db" lower "orm_table RecipeStep_class" recipe_row_cells
    menu_tables "\<lambda>r. pg_text 120 (rs_operation r) \<and> pg_int4 (rs_duration r) \<and> pg_int4 (rs_step_order r)"
    "\<lambda>r db. \<not> 0 < rs_duration r \<or> \<not> 0 < rs_step_order r
           \<or> (\<exists>x \<in> set (md_steps db). rs_id x = rs_id r)
           \<or> (\<exists>x \<in> set (md_steps db). rs_menu_item_id x = rs_menu_item_id r \<and> rs_step_order x = rs_step_order r)
           \<or> \<not> (\<exists>x \<in> set (md_items db). mi_id x = rs_menu_item_id r)"
    "\<lambda>r db. db\<lparr>md_steps := md_steps db @ [r]\<rparr>" for lower
  by unfold_locales (simp_all only: menu_declared menu_tables_put, auto simp: RecipeStep_class_def menu_table_simps)

lemma menu_inserts_refine:
  "map_sum id menu_tables (insert_menu_item col r db)
     = sql_insert (col_lower col) now (schema_of Menu_db) ''menu_items'' (menu_item_cells r) (menu_tables db)"
  "map_sum id menu_tables (insert_availability a db)
     = sql_insert lower now (schema_of Menu_db) ''kitchen_menu_availability'' (availability_cells a) (menu_tables db)"
  "map_sum id menu_tables (insert_recipe_step s db)
     = sql_insert lower now (schema_of Menu_db) ''recipe_steps'' (recipe_row_cells s) (menu_tables db)"
  using menu_items_model.model_insert_refines [of col r db now] availability_model.model_insert_refines [of a db lower now]
    recipe_steps_model.model_insert_refines [of s db lower now]
  by (simp_all only: menu_items_model.model_insert_def availability_model.model_insert_def
      recipe_steps_model.model_insert_def insert_menu_item_def insert_availability_def insert_recipe_step_def
      menu_declared if_False not_True_eq_False)

end
