(* ===== verification/Schema_Fulfillment.thy ===== *)
theory Schema_Fulfillment
  imports Schema_Rows Fulfillment_Model
begin

text \<open>
  The insertions of the fulfillment model as statements on the tables the fulfillment service
  declares. The model leaves out when a dependency was created; its rows take that from a
  function \<open>since\<close>, and an insertion sets it to the server default.
\<close>

section \<open>Rows\<close>

definition order_cells :: "order \<Rightarrow> (string \<times> sqlvalue) list" where
  "order_cells r =
     [(''id'', V_uuid (o_id r)), (''kitchen_id'', V_uuid (o_kitchen_id r)),
      (''status'', V_text (order_status_str (o_status r))), (''pickup_deadline'', opt_cell V_time (o_pickup_deadline r)),
      (''created_at'', V_time (o_created_at r)), (''updated_at'', V_time (o_updated_at r))]"

definition order_item_cells :: "order_item \<Rightarrow> (string \<times> sqlvalue) list" where
  "order_item_cells r =
     [(''id'', V_uuid (oi_id r)), (''order_id'', V_uuid (oi_order_id r)), (''menu_item_id'', V_uuid (oi_menu_item_id r)),
      (''quantity'', V_int (oi_quantity r)),
      (''created_at'', V_time (oi_created_at r)), (''updated_at'', V_time (oi_updated_at r))]"

definition ftask_cells :: "ftask \<Rightarrow> (string \<times> sqlvalue) list" where
  "ftask_cells t =
     [(''id'', V_uuid (ft_id t)), (''order_id'', V_uuid (ft_order_id t)), (''order_item_id'', V_uuid (ft_order_item_id t)),
      (''menu_item_id'', V_uuid (ft_menu_item_id t)), (''station_type'', V_text (ft_station_type t)),
      (''station_id'', opt_cell V_uuid (ft_station_id t)), (''kds_task_id'', opt_cell V_uuid (ft_kds_task_id t)),
      (''operation'', V_text (ft_operation t)), (''status'', V_text (task_status_str (ft_status t))),
      (''estimated_duration_seconds'', V_int (ft_duration t)), (''displayed_at'', opt_cell V_time (ft_displayed_at t)),
      (''started_at'', opt_cell V_time (ft_started_at t)), (''sla_deadline_at'', opt_cell V_time (ft_sla_deadline_at t)),
      (''completed_at'', opt_cell V_time (ft_completed_at t)),
      (''actual_duration_seconds'', opt_cell V_int (ft_actual_duration t)), (''delay_seconds'', opt_cell V_int (ft_delay t)),
      (''attempts'', V_int (ft_attempts t)), (''queued_at'', opt_cell V_time (ft_queued_at t)),
      (''redis_stream'', opt_cell V_text (ft_redis_stream t)),
      (''redis_message_id'', opt_cell V_text (ft_redis_message_id t)),
      (''recipe_step_order'', V_int (ft_step_order t)), (''item_unit_index'', V_int (ft_unit_index t)),
      (''created_at'', V_time (ft_created_at t)), (''updated_at'', V_time (ft_updated_at t))]"

definition tdep_cells :: "tdep \<Rightarrow> (string \<times> sqlvalue) list" where
  "tdep_cells d =
     [(''task_id'', V_uuid (td_task d)), (''depends_on_task_id'', V_uuid (td_depends_on d))]"

definition tdep_row :: "(tdep \<Rightarrow> pydatetime) \<Rightarrow> tdep \<Rightarrow> sqlrow" where
  "tdep_row since d = map_of (tdep_cells d @ [(''created_at'', V_time (since d))])"

definition fulfillment_tables :: "(tdep \<Rightarrow> pydatetime) \<Rightarrow> fdb \<Rightarrow> sqldb" where
  "fulfillment_tables since db = (\<lambda>_. [])
     (''orders'' := map (\<lambda>r. map_of (order_cells r)) (f_orders db),
      ''order_items'' := map (\<lambda>r. map_of (order_item_cells r)) (f_items db),
      ''kitchen_tasks'' := map (\<lambda>t. map_of (ftask_cells t)) (f_tasks db),
      ''task_dependencies'' := map (tdep_row since) (f_deps db))"

section \<open>The declared tables\<close>

lemma fulfillment_texts [simp]: "pg_text 32 (order_status_str os)" "pg_text 32 (task_status_str ts)"
  by (cases os, simp_all add: pg_text_def, cases ts, simp_all)

lemmas fulfillment_class_defs = Order_class_def OrderItem_class_def KitchenTask_class_def TaskDependency_class_def

lemma fulfillment_index_ok: "i \<in> set (db_indexes (schema_of Fulfillment_db)) \<Longrightarrow> index_ok lower db n r i"
  by (auto simp: index_ok_def schema_of_def metadata_def fulfillment_class_defs declared_simps)

lemma fulfillment_declared:
  "tb_name (orm_table Order_class) = ''orders''"
  "tb_name (orm_table OrderItem_class) = ''order_items''"
  "tb_name (orm_table KitchenTask_class) = ''kitchen_tasks''"
  "tb_name (orm_table TaskDependency_class) = ''task_dependencies''"
  "table_of (schema_of Fulfillment_db) ''orders'' = Some (orm_table Order_class)"
  "table_of (schema_of Fulfillment_db) ''order_items'' = Some (orm_table OrderItem_class)"
  "table_of (schema_of Fulfillment_db) ''kitchen_tasks'' = Some (orm_table KitchenTask_class)"
  "table_of (schema_of Fulfillment_db) ''task_dependencies'' = Some (orm_table TaskDependency_class)"
  by (simp_all add: schema_of_def metadata_def table_of_def orm_table_def fulfillment_class_defs)

lemma fulfillment_tables_at:
  "fulfillment_tables since db ''orders'' = map (\<lambda>r. map_of (order_cells r)) (f_orders db)"
  "fulfillment_tables since db ''order_items'' = map (\<lambda>r. map_of (order_item_cells r)) (f_items db)"
  "fulfillment_tables since db ''kitchen_tasks'' = map (\<lambda>t. map_of (ftask_cells t)) (f_tasks db)"
  "fulfillment_tables since db ''task_dependencies'' = map (tdep_row since) (f_deps db)"
  by (simp_all add: fulfillment_tables_def)

lemma fulfillment_tables_put:
  "fulfillment_tables since (db\<lparr>f_orders := f_orders db @ [r]\<rparr>) = (fulfillment_tables since db)
     (''orders'' := fulfillment_tables since db ''orders'' @ [map_of (order_cells r)])"
  "fulfillment_tables since (db\<lparr>f_items := f_items db @ [i]\<rparr>) = (fulfillment_tables since db)
     (''order_items'' := fulfillment_tables since db ''order_items'' @ [map_of (order_item_cells i)])"
  "fulfillment_tables since (db\<lparr>f_tasks := f_tasks db @ [t]\<rparr>) = (fulfillment_tables since db)
     (''kitchen_tasks'' := fulfillment_tables since db ''kitchen_tasks'' @ [map_of (ftask_cells t)])"
  by (auto simp: fulfillment_tables_def)

lemma order_cell [simp]:
  "map fst (order_cells r) = [''id'', ''kitchen_id'', ''status'', ''pickup_deadline'', ''created_at'', ''updated_at'']"
  "cell (map_of (order_cells r)) ''id'' = V_uuid (o_id r)"
  "cell (map_of (order_cells r)) ''kitchen_id'' = V_uuid (o_kitchen_id r)"
  "cell (map_of (order_cells r)) ''status'' = V_text (order_status_str (o_status r))"
  "cell (map_of (order_cells r)) ''pickup_deadline'' = opt_cell V_time (o_pickup_deadline r)"
  "cell (map_of (order_cells r)) ''created_at'' = V_time (o_created_at r)"
  "cell (map_of (order_cells r)) ''updated_at'' = V_time (o_updated_at r)"
  by (simp_all add: cell_def order_cells_def)

lemma order_item_cell [simp]:
  "map fst (order_item_cells r) = [''id'', ''order_id'', ''menu_item_id'', ''quantity'', ''created_at'', ''updated_at'']"
  "cell (map_of (order_item_cells r)) ''id'' = V_uuid (oi_id r)"
  "cell (map_of (order_item_cells r)) ''order_id'' = V_uuid (oi_order_id r)"
  "cell (map_of (order_item_cells r)) ''menu_item_id'' = V_uuid (oi_menu_item_id r)"
  "cell (map_of (order_item_cells r)) ''quantity'' = V_int (oi_quantity r)"
  "cell (map_of (order_item_cells r)) ''created_at'' = V_time (oi_created_at r)"
  "cell (map_of (order_item_cells r)) ''updated_at'' = V_time (oi_updated_at r)"
  by (simp_all add: cell_def order_item_cells_def)

lemma ftask_cell [simp]:
  "map fst (ftask_cells t) = [''id'', ''order_id'', ''order_item_id'', ''menu_item_id'', ''station_type'', ''station_id'', ''kds_task_id'', ''operation'', ''status'', ''estimated_duration_seconds'', ''displayed_at'', ''started_at'', ''sla_deadline_at'', ''completed_at'', ''actual_duration_seconds'', ''delay_seconds'', ''attempts'', ''queued_at'', ''redis_stream'', ''redis_message_id'', ''recipe_step_order'', ''item_unit_index'', ''created_at'', ''updated_at'']"
  "cell (map_of (ftask_cells t)) ''id'' = V_uuid (ft_id t)"
  "cell (map_of (ftask_cells t)) ''order_id'' = V_uuid (ft_order_id t)"
  "cell (map_of (ftask_cells t)) ''order_item_id'' = V_uuid (ft_order_item_id t)"
  "cell (map_of (ftask_cells t)) ''menu_item_id'' = V_uuid (ft_menu_item_id t)"
  "cell (map_of (ftask_cells t)) ''station_type'' = V_text (ft_station_type t)"
  "cell (map_of (ftask_cells t)) ''station_id'' = opt_cell V_uuid (ft_station_id t)"
  "cell (map_of (ftask_cells t)) ''kds_task_id'' = opt_cell V_uuid (ft_kds_task_id t)"
  "cell (map_of (ftask_cells t)) ''operation'' = V_text (ft_operation t)"
  "cell (map_of (ftask_cells t)) ''status'' = V_text (task_status_str (ft_status t))"
  "cell (map_of (ftask_cells t)) ''estimated_duration_seconds'' = V_int (ft_duration t)"
  "cell (map_of (ftask_cells t)) ''displayed_at'' = opt_cell V_time (ft_displayed_at t)"
  "cell (map_of (ftask_cells t)) ''started_at'' = opt_cell V_time (ft_started_at t)"
  "cell (map_of (ftask_cells t)) ''sla_deadline_at'' = opt_cell V_time (ft_sla_deadline_at t)"
  "cell (map_of (ftask_cells t)) ''completed_at'' = opt_cell V_time (ft_completed_at t)"
  "cell (map_of (ftask_cells t)) ''actual_duration_seconds'' = opt_cell V_int (ft_actual_duration t)"
  "cell (map_of (ftask_cells t)) ''delay_seconds'' = opt_cell V_int (ft_delay t)"
  "cell (map_of (ftask_cells t)) ''attempts'' = V_int (ft_attempts t)"
  "cell (map_of (ftask_cells t)) ''queued_at'' = opt_cell V_time (ft_queued_at t)"
  "cell (map_of (ftask_cells t)) ''redis_stream'' = opt_cell V_text (ft_redis_stream t)"
  "cell (map_of (ftask_cells t)) ''redis_message_id'' = opt_cell V_text (ft_redis_message_id t)"
  "cell (map_of (ftask_cells t)) ''recipe_step_order'' = V_int (ft_step_order t)"
  "cell (map_of (ftask_cells t)) ''item_unit_index'' = V_int (ft_unit_index t)"
  "cell (map_of (ftask_cells t)) ''created_at'' = V_time (ft_created_at t)"
  "cell (map_of (ftask_cells t)) ''updated_at'' = V_time (ft_updated_at t)"
  by (simp_all add: cell_def ftask_cells_def)

lemma tdep_cell [simp]:
  "cell (tdep_row since d) ''task_id'' = V_uuid (td_task d)"
  "cell (tdep_row since d) ''depends_on_task_id'' = V_uuid (td_depends_on d)"
  "cell (tdep_row since d) ''created_at'' = V_time (since d)"
  by (simp_all add: cell_def tdep_row_def tdep_cells_def)

section \<open>Insertions\<close>

lemmas fulfillment_table_simps =
  row_fits_def row_ok_def same_key_def declared_simps fulfillment_index_ok fulfillment_tables_at

interpretation orders_model: table_model "schema_of Fulfillment_db" lower "orm_table Order_class" order_cells
    "fulfillment_tables since" "\<lambda>_. True" "\<lambda>r db. \<exists>x \<in> set (f_orders db). o_id x = o_id r"
    "\<lambda>r db. db\<lparr>f_orders := f_orders db @ [r]\<rparr>" for lower since
  by unfold_locales
    (simp_all only: fulfillment_declared fulfillment_tables_put, auto simp: Order_class_def fulfillment_table_simps)

interpretation order_items_model: table_model "schema_of Fulfillment_db" lower "orm_table OrderItem_class"
    order_item_cells "fulfillment_tables since" "\<lambda>r. pg_int4 (oi_quantity r)"
    "\<lambda>r db. \<not> 0 < oi_quantity r \<or> (\<exists>x \<in> set (f_items db). oi_id x = oi_id r)
           \<or> \<not> (\<exists>x \<in> set (f_orders db). o_id x = oi_order_id r)"
    "\<lambda>r db. db\<lparr>f_items := f_items db @ [r]\<rparr>" for lower since
  by unfold_locales
    (simp_all only: fulfillment_declared fulfillment_tables_put, auto simp: OrderItem_class_def fulfillment_table_simps)

interpretation kitchen_tasks_model: table_model "schema_of Fulfillment_db" lower "orm_table KitchenTask_class"
    ftask_cells "fulfillment_tables since" ftask_fits
    "\<lambda>t db. \<not> ftask_checks t \<or> (\<exists>x \<in> set (f_tasks db). ft_id x = ft_id t)
           \<or> \<not> (\<exists>x \<in> set (f_orders db). o_id x = ft_order_id t)
           \<or> \<not> (\<exists>x \<in> set (f_items db). oi_id x = ft_order_item_id t)"
    "\<lambda>t db. db\<lparr>f_tasks := f_tasks db @ [t]\<rparr>" for lower since
  by unfold_locales
    (simp_all only: fulfillment_declared fulfillment_tables_put,
     auto simp: KitchenTask_class_def fulfillment_table_simps ftask_fits_def ftask_checks_def)

text \<open>The code gives a dependency no creation time.\<close>

lemma tdep_stored:
  "stored_row now (orm_table TaskDependency_class) (tdep_cells d) = tdep_row (since(d := now)) d"
  by (rule ext)
    (auto simp: stored_row_def tdep_row_def tdep_cells_def TaskDependency_class_def declared_simps split: option.splits)

lemma tdep_tables_put:
  "d \<notin> set (f_deps db) \<Longrightarrow> fulfillment_tables (since(d := now)) (db\<lparr>f_deps := f_deps db @ [d]\<rparr>)
     = (fulfillment_tables since db)(''task_dependencies'' :=
         fulfillment_tables since db ''task_dependencies'' @ [tdep_row (since(d := now)) d])"
  by (auto simp: fulfillment_tables_def tdep_row_def)

lemma tdep_among: "(d :: tdep) \<in> set ds \<longleftrightarrow> (\<exists>x \<in> set ds. td_task x = td_task d \<and> td_depends_on x = td_depends_on d)"
proof
  assume "\<exists>x \<in> set ds. td_task x = td_task d \<and> td_depends_on x = td_depends_on d"
  then obtain x where x: "x \<in> set ds" "td_task x = td_task d" "td_depends_on x = td_depends_on d" by blast
  have "x = d" using x(2,3) by - (cases x, cases d, simp)
  with x show "d \<in> set ds" by simp
qed auto

lemma insert_tdep_refines:
  "map_sum id (fulfillment_tables (since(d := now))) (insert_tdep d db)
     = sql_insert lower now (schema_of Fulfillment_db) ''task_dependencies'' (tdep_cells d) (fulfillment_tables since db)"
proof -
  let ?t = "orm_table TaskDependency_class" and ?r = "tdep_row (since(d := now)) d"
  have cols: "set (map fst (tdep_cells d)) \<subseteq> cl_name ` set (tb_columns ?t)"
    by (simp add: tdep_cells_def TaskDependency_class_def declared_simps)
  have fits: "row_fits ?t ?r"
    by (simp add: row_fits_def TaskDependency_class_def declared_simps)
  have rows: "row_ok lower (schema_of Fulfillment_db) (fulfillment_tables since db) ?t ?r
      \<longleftrightarrow> \<not> (td_task d = td_depends_on d \<or> d \<in> set (f_deps db)
         \<or> \<not> (\<exists>x \<in> set (f_tasks db). ft_id x = td_task d)
         \<or> \<not> (\<exists>x \<in> set (f_tasks db). ft_id x = td_depends_on d))"
    unfolding tdep_among by (auto simp: TaskDependency_class_def fulfillment_table_simps)
  show ?thesis
    using cols by (auto simp: sql_insert_def fulfillment_declared Let_def tdep_stored [of now d since] fits rows insert_tdep_def tdep_tables_put)
qed

lemma fulfillment_inserts_refine:
  "map_sum id (fulfillment_tables since) (insert_order r db)
     = sql_insert lower now (schema_of Fulfillment_db) ''orders'' (order_cells r) (fulfillment_tables since db)"
  "map_sum id (fulfillment_tables since) (insert_item i db)
     = sql_insert lower now (schema_of Fulfillment_db) ''order_items'' (order_item_cells i) (fulfillment_tables since db)"
  "map_sum id (fulfillment_tables since) (insert_ftask t db)
     = sql_insert lower now (schema_of Fulfillment_db) ''kitchen_tasks'' (ftask_cells t) (fulfillment_tables since db)"
  using orders_model.model_insert_refines [of since r db lower now]
    order_items_model.model_insert_refines [of since i db lower now]
    kitchen_tasks_model.model_insert_refines [of since t db lower now]
  by (simp_all only: orders_model.model_insert_def order_items_model.model_insert_def
      kitchen_tasks_model.model_insert_def insert_order_def insert_item_def insert_ftask_def
      fulfillment_declared if_False not_True_eq_False)

end
