(* ===== verification/Schema_Props.thy ===== *)
theory Schema_Props
  imports Schema_Chain Schema_Kitchen Schema_Menu Schema_Fulfillment
begin

text \<open>
  The databases of the services: from wherever its migrations have brought a database, the
  upgrade to the head gives the tables that the code declares, each downgrade takes back its
  upgrade, and the insertions of the service models are those of the migrated tables.
\<close>

section \<open>The migrated schema\<close>

definition deployed_schema :: "service_db \<Rightarrow> sqlschema" where
  "deployed_schema svc =
     (case upgrade_head (migrations_of svc) new_database of None \<Rightarrow> empty_schema | Some v \<Rightarrow> dv_schema v)"

lemma schema_of_ok: "schema_ok (schema_of svc)"
proof -
  have "schema_ok (schema_of Kitchen_db)" "schema_ok (schema_of Menu_db)" "schema_ok (schema_of Fulfillment_db)"
    by code_simp+
  then show ?thesis by (cases svc) simp_all
qed

lemma deployed_schema:
  "same_schema (deployed_schema svc) (schema_of svc)" "schema_ok (deployed_schema svc)"
proof -
  obtain v' where v': "upgrade_head (migrations_of svc) new_database = Some v'"
    "run_ddls (upgrades (migrations_of svc)) empty_schema = Some (dv_schema v')"
    using svc_chain.head_reached [OF db_reach.fresh] by metis
  obtain s where "run_ddls (upgrades (migrations_of svc)) empty_schema = Some s" "same_schema s (schema_of svc)"
    using models_migrated [of svc] by (auto simp: upgrades_def)
  with v' show "same_schema (deployed_schema svc) (schema_of svc)" by (simp add: deployed_schema_def)
  show "schema_ok (deployed_schema svc)"
    using svc_chain.prefix_ok [of "length (migrations_of svc)" svc] v' by (simp add: deployed_schema_def)
qed

lemma insert_deployed: "sql_insert lower now (deployed_schema svc) = sql_insert lower now (schema_of svc)"
  by (intro ext sql_insert_same_schema deployed_schema schema_of_ok)

section \<open>Properties\<close>

text \<open>
  C38. However a database of one of the three services was upgraded and downgraded, an upgrade
  to the head succeeds from where it is, and leaves at the last revision exactly the tables,
  columns, constraints and indexes that the service's \<open>app/models.py\<close> declares.
\<close>

theorem upgrade_reaches_models:
  assumes "db_reach (migrations_of svc) v"
  shows "\<exists>v'. upgrade_head (migrations_of svc) v = Some v'
     \<and> dv_revision v' = Some (mg_revision (last (migrations_of svc)))
     \<and> same_schema (dv_schema v') (schema_of svc)"
proof -
  obtain v' where v': "upgrade_head (migrations_of svc) v = Some v'"
    "dv_revision v' = revision_at (migrations_of svc) (length (migrations_of svc))"
    "run_ddls (upgrades (migrations_of svc)) empty_schema = Some (dv_schema v')"
    using svc_chain.head_reached [OF assms] .
  moreover have "revision_at (migrations_of svc) (length (migrations_of svc)) = Some (mg_revision (last (migrations_of svc)))"
    by (cases svc) (simp_all add: revision_at_def)
  moreover have "same_schema (dv_schema v') (schema_of svc)"
    using models_migrated [of svc] v'(3) by (auto simp: upgrades_def)
  ultimately show ?thesis by simp
qed

text \<open>
  C39. Where a migration of a service applies, it succeeds, and downgrading it again succeeds
  and gives back the schema and the revision there were before.
\<close>

theorem downgrade_undoes_upgrade:
  assumes "db_reach (migrations_of svc) v" "m \<in> set (migrations_of svc)" "mg_down_revision m = dv_revision v"
  shows "\<exists>v'. apply_upgrade m v = Some v' \<and> apply_downgrade m v' = Some v"
  using svc_chain.upgrade_and_back [OF assms] by blast

text \<open>
  C40. On the tables its migrations leave, an \<open>INSERT\<close> of a service has the outcome of the
  insertion the development models: the same rows are stored, and a value that does not fit,
  a duplicate, a failed check or a missing parent row raises the same kind of error.
\<close>

theorem inserts_enforce_schema:
  "map_sum id kitchen_tables (insert_kitchen k kdb)
       = sql_insert lower now (deployed_schema Kitchen_db) ''kitchens'' (kitchen_cells k) (kitchen_tables kdb)
   \<and> map_sum id kitchen_tables (insert_station s kdb)
       = sql_insert lower now (deployed_schema Kitchen_db) ''stations'' (station_cells s) (kitchen_tables kdb)
   \<and> map_sum id kitchen_tables (insert_kds_task kt kdb)
       = sql_insert lower now (deployed_schema Kitchen_db) ''kds_station_tasks'' (kds_task_cells kt) (kitchen_tables kdb)
   \<and> map_sum id menu_tables (insert_menu_item col m mdb)
       = sql_insert (col_lower col) now (deployed_schema Menu_db) ''menu_items'' (menu_item_cells m) (menu_tables mdb)
   \<and> map_sum id menu_tables (insert_availability a mdb)
       = sql_insert lower now (deployed_schema Menu_db) ''kitchen_menu_availability'' (availability_cells a) (menu_tables mdb)
   \<and> map_sum id menu_tables (insert_recipe_step rs mdb)
       = sql_insert lower now (deployed_schema Menu_db) ''recipe_steps'' (recipe_row_cells rs) (menu_tables mdb)
   \<and> map_sum id (fulfillment_tables since) (insert_order r fdb)
       = sql_insert lower now (deployed_schema Fulfillment_db) ''orders'' (order_cells r) (fulfillment_tables since fdb)
   \<and> map_sum id (fulfillment_tables since) (insert_item i fdb)
       = sql_insert lower now (deployed_schema Fulfillment_db) ''order_items'' (order_item_cells i) (fulfillment_tables since fdb)
   \<and> map_sum id (fulfillment_tables since) (insert_ftask t fdb)
       = sql_insert lower now (deployed_schema Fulfillment_db) ''kitchen_tasks'' (ftask_cells t) (fulfillment_tables since fdb)
   \<and> map_sum id (fulfillment_tables (since(d := now))) (insert_tdep d fdb)
       = sql_insert lower now (deployed_schema Fulfillment_db) ''task_dependencies'' (tdep_cells d) (fulfillment_tables since fdb)"
  by (intro conjI;
    simp only: insert_deployed kitchen_inserts_refine menu_inserts_refine fulfillment_inserts_refine insert_tdep_refines)

section \<open>Witnesses\<close>

text \<open>A database that was upgraded twice and downgraded once.\<close>

lemma fulfillment_revisions:
  "mg_revision fulf_0001 = ''fulf_0001''" "mg_down_revision fulf_0001 = None"
  "mg_down_revision fulf_0002 = Some ''fulf_0001''"
  "mg_revision (last (migrations_of Fulfillment_db)) = ''fulf_0003''"
  "fulf_0001 \<in> set (migrations_of Fulfillment_db)" "fulf_0002 \<in> set (migrations_of Fulfillment_db)"
  by (simp_all add: fulf_0001_def fulf_0002_def fulf_0003_def)

lemma reached_twice_up_once_down:
  obtains v where "db_reach (migrations_of Fulfillment_db) v" "dv_revision v = Some ''fulf_0001''"
proof -
  note rev = fulfillment_revisions
  have "mg_down_revision fulf_0001 = dv_revision new_database" by (simp add: rev new_database_def)
  then obtain v1 where v1: "apply_upgrade fulf_0001 new_database = Some v1"
    using svc_chain.upgrade_and_back [OF db_reach.fresh rev(5)] by metis
  have at1: "dv_revision v1 = Some ''fulf_0001''"
    using v1 by (auto simp: apply_upgrade_def rev split: if_splits)
  have r1: "db_reach (migrations_of Fulfillment_db) v1" using db_reach.up [OF db_reach.fresh rev(5) v1] .
  have "mg_down_revision fulf_0002 = dv_revision v1" by (simp add: rev at1)
  then obtain v2 where v2: "apply_upgrade fulf_0002 v1 = Some v2" "apply_downgrade fulf_0002 v2 = Some v1"
    using svc_chain.upgrade_and_back [OF r1 rev(6)] by metis
  show thesis using that db_reach.down [OF db_reach.up [OF r1 rev(6) v2(1)] rev(6) v2(2)] at1 by blast
qed

lemma upgrade_reaches_models_witness:
  "\<exists>v v'. db_reach (migrations_of Fulfillment_db) v \<and> dv_revision v = Some ''fulf_0001''
     \<and> upgrade_head (migrations_of Fulfillment_db) v = Some v' \<and> dv_revision v' = Some ''fulf_0003''
     \<and> same_schema (dv_schema v') (schema_of Fulfillment_db)"
proof -
  obtain v where v: "db_reach (migrations_of Fulfillment_db) v" "dv_revision v = Some ''fulf_0001''"
    using reached_twice_up_once_down .
  show ?thesis
    using upgrade_reaches_models [OF v(1), unfolded fulfillment_revisions(4)] v by blast
qed

lemma downgrade_undoes_upgrade_witness:
  "\<exists>v v'. db_reach (migrations_of Fulfillment_db) v \<and> dv_revision v = Some ''fulf_0001''
     \<and> apply_upgrade fulf_0002 v = Some v' \<and> apply_downgrade fulf_0002 v' = Some v"
proof -
  obtain v where v: "db_reach (migrations_of Fulfillment_db) v" "dv_revision v = Some ''fulf_0001''"
    using reached_twice_up_once_down .
  show ?thesis
    using downgrade_undoes_upgrade [OF v(1) fulfillment_revisions(6)] v by (simp only: fulfillment_revisions) blast
qed

end
