(* ===== verification/Wire_Json.thy ===== *)
theory Wire_Json
  imports Menu_Orders Simulator_Shop
begin

text \<open>
  What the services send each other: JSON values, the response models of one service as the
  framework serialises them, and the models of the other that read them (\<open>model_validate\<close>).
\<close>

section \<open>JSON on the wire\<close>

text \<open>\<open>W_time d\<close> is the ISO text of a time, which keeps the time and its offset.\<close>

datatype wire =
    W_null
  | W_bool bool
  | W_int int
  | W_str string
  | W_time pydatetime
  | W_arr "wire list"
  | W_obj "(string \<times> wire) list"

text \<open>
  What pydantic makes of a value of another kind than the field asks for (a number in a text,
  say) is a parameter; the services do not send such values.
\<close>

record coercions =
  co_str :: "wire \<Rightarrow> string option"
  co_int :: "wire \<Rightarrow> int option"
  co_bool :: "wire \<Rightarrow> bool option"
  co_time :: "wire \<Rightarrow> pydatetime option"
  co_uuid :: "wire \<Rightarrow> uuid option"
  co_id :: "wire \<Rightarrow> id_value option"

definition as_str :: "coercions \<Rightarrow> wire \<Rightarrow> string option" where
  "as_str c v = (case v of W_str s \<Rightarrow> Some s | _ \<Rightarrow> co_str c v)"

definition as_int :: "coercions \<Rightarrow> wire \<Rightarrow> int option" where
  "as_int c v = (case v of W_int i \<Rightarrow> Some i | _ \<Rightarrow> co_int c v)"

definition as_bool :: "coercions \<Rightarrow> wire \<Rightarrow> bool option" where
  "as_bool c v = (case v of W_bool b \<Rightarrow> Some b | _ \<Rightarrow> co_bool c v)"

definition as_time :: "coercions \<Rightarrow> wire \<Rightarrow> pydatetime option" where
  "as_time c v = (case v of W_time d \<Rightarrow> Some d | _ \<Rightarrow> co_time c v)"

definition as_uuid :: "coercions \<Rightarrow> wire \<Rightarrow> uuid option" where
  "as_uuid c v = (case v of W_str s \<Rightarrow> uuid_parse s | _ \<Rightarrow> co_uuid c v)"

text \<open>\<open>int | str\<close> keeps a text and an integer as they are.\<close>

definition as_id :: "coercions \<Rightarrow> wire \<Rightarrow> id_value option" where
  "as_id c v = (case v of W_str s \<Rightarrow> Some (Id_str s) | W_int i \<Rightarrow> Some (Id_int i) | _ \<Rightarrow> co_id c v)"

definition as_opt :: "(wire \<Rightarrow> 'a option) \<Rightarrow> wire \<Rightarrow> 'a option option" where
  "as_opt rd v = (case v of W_null \<Rightarrow> Some None | _ \<Rightarrow> map_option Some (rd v))"

definition positive :: "int option \<Rightarrow> int option" where
  "positive v = (case v of Some i \<Rightarrow> if 0 < i then Some i else None | None \<Rightarrow> None)"

definition as_list :: "(wire \<Rightarrow> 'a option) \<Rightarrow> wire \<Rightarrow> 'a list option" where
  "as_list rd v = (case v of W_arr vs \<Rightarrow> those (map rd vs) | _ \<Rightarrow> None)"

text \<open>\<open>[Model.model_validate(item) for item in response.json()]\<close>: what is not iterable raises.\<close>

definition each_item :: "(wire \<Rightarrow> 'a option) \<Rightarrow> wire \<Rightarrow> 'a list option" where
  "each_item rd v =
     (case v of
        W_arr vs \<Rightarrow> those (map rd vs)
      | W_obj fs \<Rightarrow> those (map (rd \<circ> W_str \<circ> fst) fs)
      | W_str s \<Rightarrow> those (map (\<lambda>ch. rd (W_str [ch])) s)
      | _ \<Rightarrow> None)"

text \<open>A field of an object (the last of that name), and a field with a default.\<close>

definition field :: "wire \<Rightarrow> string \<Rightarrow> wire option" where
  "field v n = (case v of W_obj fs \<Rightarrow> map_of (rev fs) n | _ \<Rightarrow> None)"

definition required :: "wire \<Rightarrow> string \<Rightarrow> (wire \<Rightarrow> 'a option) \<Rightarrow> 'a option" where
  "required v n rd = Option.bind (field v n) rd"

definition with_default :: "wire \<Rightarrow> string \<Rightarrow> 'a \<Rightarrow> (wire \<Rightarrow> 'a option) \<Rightarrow> 'a option" where
  "with_default v n d rd = (case v of W_obj _ \<Rightarrow> (case field v n of None \<Rightarrow> Some d | Some x \<Rightarrow> rd x) | _ \<Rightarrow> None)"

lemma as_simps [simp]:
  "as_str c (W_str s) = Some s" "as_int c (W_int i) = Some i" "as_bool c (W_bool b) = Some b"
  "as_time c (W_time d) = Some d" "as_uuid c (W_str s) = uuid_parse s" "as_id c (W_str s) = Some (Id_str s)"
  by (simp_all add: as_str_def as_int_def as_bool_def as_time_def as_uuid_def as_id_def)

definition w_opt :: "('a \<Rightarrow> wire) \<Rightarrow> 'a option \<Rightarrow> wire" where
  "w_opt f v = (case v of None \<Rightarrow> W_null | Some x \<Rightarrow> f x)"

definition w_uuid :: "uuid \<Rightarrow> wire" where
  "w_uuid u = W_str (uuid_str u)"

lemma as_opt_simps [simp]:
  "as_opt (as_str c) (w_opt W_str s) = Some s" "as_opt (as_time c) (w_opt W_time d) = Some d"
  "as_uuid c (w_uuid u) = Some u" "as_id c (w_uuid u) = Some (Id_str (uuid_str u))" "as_str c (w_uuid u) = Some (uuid_str u)"
  by (simp_all add: as_opt_def w_opt_def w_uuid_def split: option.splits)

lemma those_map [simp]: "(\<And>x. x \<in> set xs \<Longrightarrow> f x = Some (g x)) \<Longrightarrow> those (map f xs) = Some (map g xs)"
  by (induction xs) auto

section \<open>Response models as JSON\<close>

definition kitchen_read_json :: "kitchen \<Rightarrow> wire" where
  "kitchen_read_json k =
     W_obj [(''id'', w_uuid (k_id k)), (''name'', W_str (k_name k)), (''status'', W_str (kitchen_status_str (k_status k))),
       (''created_at'', W_time (k_created_at k)), (''updated_at'', W_time (k_updated_at k))]"

definition kitchen_menu_item_json :: "kitchen_menu_item \<Rightarrow> wire" where
  "kitchen_menu_item_json m =
     W_obj [(''id'', w_uuid (km_id m)), (''name'', W_str (km_name m)), (''description'', w_opt W_str (km_description m)),
       (''status'', W_str (menu_item_status_str (km_status m))), (''is_available'', W_bool (km_is_available m))]"

definition recipe_step_summary_json :: "recipe_row \<Rightarrow> wire" where
  "recipe_step_summary_json s =
     W_obj [(''id'', w_uuid (rs_id s)), (''station_type'', W_str (menu_station_type_str (rs_station_type s))),
       (''operation'', W_str (rs_operation s)), (''duration_seconds'', W_int (rs_duration s)),
       (''step_order'', W_int (rs_step_order s))]"

definition recipe_read_json :: "recipe_read \<Rightarrow> wire" where
  "recipe_read_json r =
     W_obj [(''menu_item_id'', w_uuid (rr_menu_item_id r)), (''steps'', W_arr (map recipe_step_summary_json (rr_steps r)))]"

definition station_task_json :: "station_task_response \<Rightarrow> wire" where
  "station_task_json r =
     W_obj [(''kds_task_id'', w_uuid (sr_kds_task_id r)), (''task_id'', w_uuid (sr_task_id r)),
       (''order_id'', w_uuid (sr_order_id r)), (''station_id'', w_uuid (sr_station_id r)),
       (''operation'', W_str (sr_operation r)), (''menu_item_name'', w_opt W_str (sr_menu_item_name r)),
       (''status'', W_str (kds_task_status_str (sr_status r))), (''estimated_duration_seconds'', W_int (sr_duration r)),
       (''pickup_deadline'', w_opt W_time (sr_pickup_deadline r)), (''displayed_at'', W_time (sr_displayed_at r))]"

definition claim_response_json :: "claim_response \<Rightarrow> wire" where
  "claim_response_json r =
     W_obj [(''kds_task_id'', w_uuid (cl_kds_task_id r)), (''task_id'', w_uuid (cl_task_id r)),
       (''station_id'', w_uuid (cl_station_id r)), (''status'', W_str (kds_task_status_str (cl_status r))),
       (''claimed_by'', W_str (cl_claimed_by r)), (''claimed_at'', W_time (cl_claimed_at r))]"

definition complete_response_json :: "complete_response \<Rightarrow> wire" where
  "complete_response_json r =
     W_obj [(''kds_task_id'', w_uuid (cp_kds_task_id r)), (''task_id'', w_uuid (cp_task_id r)),
       (''station_id'', w_uuid (cp_station_id r)), (''status'', W_str (kds_task_status_str (cp_status r))),
       (''claimed_by'', W_str (cp_claimed_by r)), (''completed_at'', W_time (cp_completed_at r))]"

text \<open>The models that only the demo scripts read.\<close>

definition station_read_json :: "station \<Rightarrow> wire" where
  "station_read_json s =
     W_obj [(''id'', w_uuid (st_id s)), (''kitchen_id'', w_uuid (st_kitchen_id s)), (''name'', W_str (st_name s)),
       (''station_type'', W_str (station_type_str (st_type s))), (''status'', W_str (station_status_str (st_status s))),
       (''capacity'', W_int (st_capacity s)), (''busy_slots'', W_int (st_busy_slots s)),
       (''visible_backlog_limit'', W_int (st_backlog_limit s)),
       (''created_at'', W_time (st_created_at s)), (''updated_at'', W_time (st_updated_at s))]"

definition menu_item_read_json :: "menu_item \<Rightarrow> wire" where
  "menu_item_read_json m =
     W_obj [(''id'', w_uuid (mi_id m)), (''name'', W_str (mi_name m)), (''description'', w_opt W_str (mi_description m)),
       (''status'', W_str (menu_item_status_str (mi_status m))),
       (''created_at'', W_time (mi_created_at m)), (''updated_at'', W_time (mi_updated_at m))]"

definition order_item_read_json :: "order_item \<Rightarrow> wire" where
  "order_item_read_json i =
     W_obj [(''id'', w_uuid (oi_id i)), (''menu_item_id'', w_uuid (oi_menu_item_id i)), (''quantity'', W_int (oi_quantity i))]"

definition order_fields :: "order \<Rightarrow> order_item list \<Rightarrow> (string \<times> wire) list" where
  "order_fields r is =
     [(''id'', w_uuid (o_id r)), (''kitchen_id'', w_uuid (o_kitchen_id r)), (''status'', W_str (order_status_str (o_status r))),
      (''pickup_deadline'', w_opt W_time (o_pickup_deadline r)), (''items'', W_arr (map order_item_read_json is)),
      (''created_at'', W_time (o_created_at r)), (''updated_at'', W_time (o_updated_at r))]"

definition order_created_json :: "order_created \<Rightarrow> wire" where
  "order_created_json x =
     W_obj (order_fields (oq_order x) (oq_items x)
       @ [(''tasks_count'', W_int (int (oq_tasks_count x))), (''queued_tasks_count'', W_int (int (oq_queued_count x)))])"

definition task_read_json :: "task_read \<Rightarrow> wire" where
  "task_read_json x =
     (let t = tr_task x
      in W_obj [(''id'', w_uuid (ft_id t)), (''order_id'', w_uuid (ft_order_id t)), (''menu_item_id'', w_uuid (ft_menu_item_id t)),
           (''station_type'', W_str (ft_station_type t)), (''operation'', W_str (ft_operation t)),
           (''status'', W_str (task_status_str (ft_status t))), (''estimated_duration_seconds'', W_int (ft_duration t)),
           (''station_id'', w_opt w_uuid (ft_station_id t)), (''kds_task_id'', w_opt w_uuid (ft_kds_task_id t)),
           (''attempts'', W_int (ft_attempts t)), (''queued_at'', w_opt W_time (ft_queued_at t)),
           (''redis_stream'', w_opt W_str (ft_redis_stream t)), (''redis_message_id'', w_opt W_str (ft_redis_message_id t)),
           (''recipe_step_order'', W_int (ft_step_order t)), (''item_unit_index'', W_int (ft_unit_index t)),
           (''depends_on_task_ids'', W_arr (map w_uuid (tr_depends_on x))),
           (''created_at'', W_time (ft_created_at t)), (''updated_at'', W_time (ft_updated_at t))])"

end
