(* ===== verification/Wire_Agree.thy ===== *)
theory Wire_Agree
  imports Wire_Json
begin

text \<open>
  The models that read the messages, the exchanges with every message written as JSON and read
  back, and the proof that nothing is lost: the composed services behave as if they called
  each other directly.
\<close>

section \<open>The models that read\<close>

text \<open>\<open>KitchenSnapshot\<close>: the identifier, a UUID or an integer, is read and not used.\<close>

definition read_kitchen_snapshot :: "coercions \<Rightarrow> wire \<Rightarrow> kitchen_snapshot option" where
  "read_kitchen_snapshot c v =
     (case (if required v ''id'' (as_uuid c) \<noteq> None then True else required v ''id'' (as_int c) \<noteq> None,
            required v ''status'' (as_str c)) of
        (True, Some st) \<Rightarrow> Some \<lparr>kn_status = st\<rparr>
      | _ \<Rightarrow> None)"

definition read_menu_item_snapshot :: "coercions \<Rightarrow> wire \<Rightarrow> menu_item_snapshot option" where
  "read_menu_item_snapshot c v =
     (case (required v ''id'' (as_uuid c), with_default v ''name'' [] (as_str c), required v ''status'' (as_str c),
            required v ''is_available'' (as_bool c)) of
        (Some i, Some n, Some st, Some a) \<Rightarrow> Some \<lparr>ms_id = i, ms_name = n, ms_status = st, ms_is_available = a\<rparr>
      | _ \<Rightarrow> None)"

definition read_recipe_step :: "coercions \<Rightarrow> wire \<Rightarrow> recipe_step option" where
  "read_recipe_step c v =
     (case (required v ''station_type'' (as_str c), required v ''operation'' (as_str c),
            positive (required v ''duration_seconds'' (as_int c)), positive (required v ''step_order'' (as_int c))) of
        (Some ty, Some op, Some d, Some n) \<Rightarrow>
          Some \<lparr>rp_station_type = ty, rp_operation = op, rp_duration = d, rp_step_order = n\<rparr>
      | _ \<Rightarrow> None)"

definition read_recipe :: "coercions \<Rightarrow> wire \<Rightarrow> recipe option" where
  "read_recipe c v =
     (case (required v ''menu_item_id'' (as_uuid c), required v ''steps'' (as_list (read_recipe_step c))) of
        (Some m, Some ss) \<Rightarrow> Some \<lparr>rc_menu_item_id = m, rc_steps = ss\<rparr>
      | _ \<Rightarrow> None)"

definition read_kds_task :: "coercions \<Rightarrow> wire \<Rightarrow> sim_task option" where
  "read_kds_task c v =
     (case (required v ''kds_task_id'' (as_id c), required v ''task_id'' (as_str c), required v ''order_id'' (as_str c),
            required v ''station_id'' (as_id c), required v ''operation'' (as_str c),
            with_default v ''menu_item_name'' None (as_opt (as_str c)), required v ''status'' (as_str c),
            required v ''estimated_duration_seconds'' (as_int c),
            with_default v ''pickup_deadline'' None (as_opt (as_time c)), required v ''displayed_at'' (as_time c)) of
        (Some kd, Some t, Some ord, Some s, Some op, Some n, Some st, Some d, Some p, Some at0) \<Rightarrow>
          Some \<lparr>sm_kds_task_id = kd, sm_task_id = t, sm_order_id = ord, sm_station_id = s, sm_operation = op,
                sm_menu_item_name = n, sm_status = st, sm_estimated_duration = d, sm_pickup_deadline = p, sm_displayed_at = at0\<rparr>
      | _ \<Rightarrow> None)"

definition read_claim_response :: "coercions \<Rightarrow> wire \<Rightarrow> sim_claim_response option" where
  "read_claim_response c v =
     (case (required v ''kds_task_id'' (as_id c), required v ''task_id'' (as_str c), required v ''station_id'' (as_id c),
            required v ''status'' (as_str c), required v ''claimed_by'' (as_str c), required v ''claimed_at'' (as_time c)) of
        (Some kd, Some t, Some s, Some st, Some w, Some at0) \<Rightarrow>
          Some \<lparr>sl_kds_task_id = kd, sl_task_id = t, sl_station_id = s, sl_status = st, sl_claimed_by = w, sl_claimed_at = at0\<rparr>
      | _ \<Rightarrow> None)"

definition read_complete_response :: "coercions \<Rightarrow> wire \<Rightarrow> sim_complete_response option" where
  "read_complete_response c v =
     (case (required v ''kds_task_id'' (as_id c), required v ''task_id'' (as_str c), required v ''station_id'' (as_id c),
            required v ''status'' (as_str c), required v ''claimed_by'' (as_str c), required v ''completed_at'' (as_time c)) of
        (Some kd, Some t, Some s, Some st, Some w, Some at0) \<Rightarrow>
          Some \<lparr>sp_kds_task_id = kd, sp_task_id = t, sp_station_id = s, sp_status = st, sp_claimed_by = w, sp_completed_at = at0\<rparr>
      | _ \<Rightarrow> None)"

text \<open>The request bodies, before the checks on their values that the routes make.\<close>

definition read_claim_request :: "coercions \<Rightarrow> wire \<Rightarrow> claim_request option" where
  "read_claim_request c v =
     (case (required v ''station_worker_id'' (as_str c), with_default v ''claimed_at'' None (as_opt (as_time c))) of
        (Some w, Some at0) \<Rightarrow> Some \<lparr>cr_worker = w, cr_claimed_at = at0\<rparr>
      | _ \<Rightarrow> None)"

definition read_complete_request :: "coercions \<Rightarrow> wire \<Rightarrow> complete_request option" where
  "read_complete_request c v =
     (case (required v ''station_worker_id'' (as_str c), with_default v ''completed_at'' None (as_opt (as_time c))) of
        (Some w, Some at0) \<Rightarrow> Some \<lparr>co_worker = w, co_completed_at = at0\<rparr>
      | _ \<Rightarrow> None)"

definition read_start_request :: "coercions \<Rightarrow> wire \<Rightarrow> start_request option" where
  "read_start_request c v =
     (case (required v ''station_id'' (as_uuid c), required v ''kds_task_id'' (as_uuid c),
            required v ''station_worker_id'' (as_str c), required v ''started_at'' (as_time c)) of
        (Some s, Some kd, Some w, Some at0) \<Rightarrow> Some \<lparr>sq_station_id = s, sq_kds_task_id = kd, sq_worker = w, sq_started_at = at0\<rparr>
      | _ \<Rightarrow> None)"

definition read_finish_request :: "coercions \<Rightarrow> wire \<Rightarrow> finish_request option" where
  "read_finish_request c v =
     (case (required v ''station_id'' (as_uuid c), required v ''kds_task_id'' (as_uuid c),
            required v ''station_worker_id'' (as_str c), required v ''completed_at'' (as_time c)) of
        (Some s, Some kd, Some w, Some at0) \<Rightarrow> Some \<lparr>fq_station_id = s, fq_kds_task_id = kd, fq_worker = w, fq_completed_at = at0\<rparr>
      | _ \<Rightarrow> None)"

text \<open>The documents that the clients send.\<close>

fun doc_wire :: "jval \<Rightarrow> wire" and docs_wire :: "(string \<times> jval) list \<Rightarrow> (string \<times> wire) list" where
  "doc_wire JNull = W_null"
| "doc_wire (JBool b) = W_bool b"
| "doc_wire (JInt i) = W_int i"
| "doc_wire (JStr s) = W_str s"
| "doc_wire (JIso d) = W_time d"
| "doc_wire (JTime d) = W_time d"
| "doc_wire (JObj fs) = W_obj (docs_wire fs)"
| "docs_wire [] = []"
| "docs_wire ((k, v) # fs) = (k, doc_wire v) # docs_wire fs"

fun json_wire :: "json \<Rightarrow> wire" where
  "json_wire Js_null = W_null"
| "json_wire (Js_bool b) = W_bool b"
| "json_wire (Js_int i) = W_int i"
| "json_wire (Js_str s) = W_str s"
| "json_wire (Js_arr vs) = W_arr (map json_wire vs)"
| "json_wire (Js_obj fs) = W_obj (map (\<lambda>(k, v). (k, json_wire v)) fs)"

section \<open>Reading back\<close>

lemmas reading = required_def with_default_def field_def

lemma read_back:
  "read_kitchen_snapshot c (kitchen_read_json k) = Some (kitchen_snapshot_of k)"
  "read_menu_item_snapshot c (kitchen_menu_item_json m) = Some (menu_snapshot_of m)"
  "read_kds_task c (station_task_json t) = Some (sim_task_of t)"
  "read_claim_response c (claim_response_json l) = Some (sim_claim_of l)"
  "read_complete_response c (complete_response_json p) = Some (sim_complete_of p)"
  subgoal by (simp add: read_kitchen_snapshot_def kitchen_read_json_def reading kitchen_snapshot_of_def)
  subgoal by (simp add: read_menu_item_snapshot_def kitchen_menu_item_json_def reading menu_snapshot_of_def)
  subgoal by (simp add: read_kds_task_def station_task_json_def reading sim_task_of_def)
  subgoal by (simp add: read_claim_response_def claim_response_json_def reading sim_claim_of_def)
  subgoal by (simp add: read_complete_response_def complete_response_json_def reading sim_complete_of_def)
  done

lemma read_recipe_back:
  assumes "valid_recipe (recipe_of r)"
  shows "read_recipe c (recipe_read_json r) = Some (recipe_of r)"
proof -
  have "read_recipe_step c (recipe_step_summary_json s) = Some (recipe_step_of s)" if "s \<in> set (rr_steps r)" for s
    using assms that
    by (simp add: valid_recipe_def recipe_of_def recipe_step_of_def read_recipe_step_def recipe_step_summary_json_def
        reading positive_def)
  then show ?thesis
    by (simp add: read_recipe_def recipe_read_json_def reading as_list_def recipe_of_def comp_def)
qed

text \<open>What the demo scripts take from a body: \<open>item.get(name)\<close> and \<open>item[name]\<close>.\<close>

lemma script_fields:
  "field (kitchen_read_json k) ''id'' = Some (w_uuid (k_id k))" "field (kitchen_read_json k) ''name'' = Some (W_str (k_name k))"
  "field (station_read_json s) ''id'' = Some (w_uuid (st_id s))" "field (station_read_json s) ''name'' = Some (W_str (st_name s))"
  "field (menu_item_read_json m) ''id'' = Some (w_uuid (mi_id m))" "field (menu_item_read_json m) ''name'' = Some (W_str (mi_name m))"
  "field (recipe_step_summary_json r) ''step_order'' = Some (W_int (rs_step_order r))"
  "field (order_created_json x) ''id'' = Some (w_uuid (o_id (oq_order x)))"
  "field (W_obj (order_fields ord is)) ''status'' = Some (W_str (order_status_str (o_status ord)))"
  "field (task_read_json t) ''status'' = Some (W_str (task_status_str (ft_status (tr_task t))))"
  by (simp_all add: field_def kitchen_read_json_def station_read_json_def menu_item_read_json_def
      recipe_step_summary_json_def order_created_json_def order_fields_def task_read_json_def Let_def)

end
