(* ===== verification/Wire_Exchange.thy ===== *)
theory Wire_Exchange
  imports Wire_Agree Menu_Demo Simulator_Shop_Demo
begin

text \<open>
  The exchanges of the composed services with every body written and read: the callbacks of the
  kitchen service, what order creation asks the other services, and the calls of the workers.
\<close>

section \<open>Callbacks of the kitchen service\<close>

definition wire_remote :: "coercions \<Rightarrow> fsettings \<Rightarrow> fenv \<Rightarrow> string option \<Rightarrow> fworld remote" where
  "wire_remote c cfg env corr call w =
     (let body = doc_wire (JObj (transition_payload call))
      in case tc_op call of
           Start_op \<Rightarrow>
             (case read_start_request c body of
                None \<Rightarrow> (Http_response 422 (), w)
              | Some p \<Rightarrow>
                  (case route_start uuid_parse cfg env corr (tc_task_id call) p w of
                     (r, w') \<Rightarrow> (Http_response (reply_status r) (), w')))
         | Complete_op \<Rightarrow>
             (case read_finish_request c body of
                None \<Rightarrow> (Http_response 422 (), w)
              | Some p \<Rightarrow>
                  (case route_finish uuid_parse cfg env corr (tc_task_id call) p w of
                     (r, w') \<Rightarrow> (Http_response (reply_status r) (), w'))))"

lemma wire_remote_served: "wire_remote c cfg env corr = ful_remote cfg env corr"
proof (intro ext)
  fix call w
  show "wire_remote c cfg env corr call w = ful_remote cfg env corr call w"
    by (cases "tc_op call")
      (simp_all add: wire_remote_def ful_remote_def transition_payload_def read_start_request_def
        read_finish_request_def reading split: option.splits)
qed

section \<open>What order creation asks\<close>

definition wire_http :: "(wire \<Rightarrow> 'a option) \<Rightarrow> ('b \<Rightarrow> wire) \<Rightarrow> 'b reply \<Rightarrow> 'a option http_result" where
  "wire_http rd wr r =
     (case r of
        Reply code b \<Rightarrow> Http_response code (rd (wr b))
      | Error_reply code _ \<Rightarrow> Http_response code None
      | Unprocessable \<Rightarrow> Http_response 422 None
      | Server_error \<Rightarrow> Http_response 500 None)"

lemma wire_http_view: "(\<And>code b. r = Reply code b \<Longrightarrow> rd (wr b) = Some (view b)) \<Longrightarrow> wire_http rd wr r = as_http view r"
  by (cases r) (simp_all add: wire_http_def as_http_def)

definition wire_upstream :: "coercions \<Rightarrow> collation \<Rightarrow> kworld \<Rightarrow> mdb \<Rightarrow> upstream" where
  "wire_upstream c col kw db =
     \<lparr>up_kitchen = (\<lambda>k. wire_http (read_kitchen_snapshot c) kitchen_read_json (route_get_kitchen (uuid_str k) kw)),
      up_menu = (\<lambda>k. wire_http (each_item (read_menu_item_snapshot c)) (W_arr \<circ> map kitchen_menu_item_json)
                   (route_list_kitchen_menu uuid_parse col (uuid_str k) False db)),
      up_recipe = (\<lambda>n m. wire_http (read_recipe c) recipe_read_json (route_get_recipe uuid_parse (uuid_str m) db))\<rparr>"

lemma served_recipe_valid:
  assumes "menu_ok col db" "route_get_recipe uuid_parse (uuid_str m) db = Reply code b"
  shows "valid_recipe (recipe_of b)"
proof -
  have "b = \<lparr>rr_menu_item_id = m, rr_steps = list_by_menu_item db m\<rparr>"
    using assms(2) by (cases "get_item_row db m") (auto simp: route_get_recipe_def m_get_recipe_eq m_reply_def m_error_response_def)
  then show ?thesis using menu_recipe_valid [OF assms(1), of m] by (simp add: menu_recipe_def)
qed

lemma wire_upstream_served: "menu_ok col' db \<Longrightarrow> wire_upstream c col kw db = services_upstream col kw db"
  unfolding wire_upstream_def services_upstream_def
  by (simp add: wire_http_view [where view = kitchen_snapshot_of] wire_http_view [where view = "map menu_snapshot_of"]
      wire_http_view [where view = recipe_of] read_back read_recipe_back served_recipe_valid each_item_def comp_def)

section \<open>The calls of a worker\<close>

text \<open>A body that its model refuses raises; \<open>refused\<close> is the message.\<close>

definition wire_response ::
    "json \<Rightarrow> string \<Rightarrow> (wire \<Rightarrow> 'a option) \<Rightarrow> ('b \<Rightarrow> wire) \<Rightarrow> 'b reply \<Rightarrow> 'a kds_body http_result" where
  "wire_response unprocessable refused rd wr r =
     (case r of
        Reply code b \<Rightarrow>
          Http_response code \<lparr>kb_json = None, kb_model = (case rd (wr b) of None \<Rightarrow> Inl refused | Some a \<Rightarrow> Inr a)\<rparr>
      | Error_reply code doc \<Rightarrow> Http_response code \<lparr>kb_json = Some (doc_json (JObj doc)), kb_model = Inl []\<rparr>
      | Unprocessable \<Rightarrow> Http_response 422 \<lparr>kb_json = Some unprocessable, kb_model = Inl []\<rparr>
      | Server_error \<Rightarrow> Http_response 500 \<lparr>kb_json = None, kb_model = Inl []\<rparr>)"

definition wire_exchange ::
    "shop \<Rightarrow> string \<Rightarrow> (wire \<Rightarrow> 'a option) \<Rightarrow> ('b \<Rightarrow> wire)
      \<Rightarrow> (kenv \<Rightarrow> fenv \<Rightarrow> kworld \<Rightarrow> fworld \<Rightarrow> 'b reply \<times> kworld \<times> fworld) \<Rightarrow> shop_state
      \<Rightarrow> 'a kds_body http_result option \<times> shop_state" where
  "wire_exchange sh refused rd wr serve s =
     (let n = sx_tick s;
          later = s\<lparr>sx_tick := Suc n\<rparr>;
          (r, kw, fw) = serve (sh_kenv sh n) (sh_fenv sh n) (sx_kitchen s) (sx_ful s);
          served = later\<lparr>sx_kitchen := kw, sx_ful := fw\<rparr>
      in case sh_net sh n of
           Net_ok \<Rightarrow> (Some (wire_response (sh_unprocessable sh) refused rd wr r), served)
         | Request_lost \<Rightarrow> (Some Http_timeout, later)
         | Response_lost \<Rightarrow> (Some Http_timeout, served)
         | Cancelled_waiting reached \<Rightarrow> (None, if reached then served else later))"

lemma wire_exchange_view:
  assumes "\<And>b. rd (wr b) = Some (view b)"
  shows "wire_exchange sh refused rd wr = shop_exchange sh view"
proof (intro ext)
  have "wire_response unprocessable refused rd wr r = reply_response unprocessable view r" for unprocessable r
    by (cases r) (simp_all add: wire_response_def reply_response_def assms)
  then show "wire_exchange sh refused rd wr serve s = shop_exchange sh view serve s" for serve s
    by (simp add: wire_exchange_def shop_exchange_def Let_def split: prod.splits net_outcome.splits)
qed

definition wire_claim ::
    "coercions \<Rightarrow> shop \<Rightarrow> string \<Rightarrow> string \<Rightarrow> string \<Rightarrow> string \<Rightarrow> kenv \<Rightarrow> fenv \<Rightarrow> kworld \<Rightarrow> fworld
      \<Rightarrow> claim_response reply \<times> kworld \<times> fworld" where
  "wire_claim c sh sid tid worker corr ke fe kw fw =
     (case Option.bind (call_payload (Claim_task sid tid worker)) (read_claim_request c \<circ> json_wire) of
        None \<Rightarrow> (Unprocessable, kw, fw)
      | Some p \<Rightarrow> route_claim (sh_populate sh) (wire_remote c (sh_fcfg sh) fe (Some corr)) (sh_kcfg sh) ke (Some corr) sid tid p kw fw)"

definition wire_complete ::
    "coercions \<Rightarrow> shop \<Rightarrow> string \<Rightarrow> string \<Rightarrow> string \<Rightarrow> string \<Rightarrow> kenv \<Rightarrow> fenv \<Rightarrow> kworld \<Rightarrow> fworld
      \<Rightarrow> complete_response reply \<times> kworld \<times> fworld" where
  "wire_complete c sh sid tid worker corr ke fe kw fw =
     (case Option.bind (call_payload (Complete_task sid tid worker)) (read_complete_request c \<circ> json_wire) of
        None \<Rightarrow> (Unprocessable, kw, fw)
      | Some p \<Rightarrow> route_complete (sh_populate sh) (wire_remote c (sh_fcfg sh) fe (Some corr)) (sh_kcfg sh) ke (Some corr) sid tid p kw fw)"

lemma wire_claim_served: "wire_claim c sh sid tid worker corr = serve_claim sh sid tid worker corr"
  by (intro ext) (simp add: wire_claim_def serve_claim_def read_claim_request_def reading wire_remote_served)

lemma wire_complete_served: "wire_complete c sh sid tid worker corr = serve_complete sh sid tid worker corr"
  by (intro ext) (simp add: wire_complete_def serve_complete_def read_complete_request_def reading wire_remote_served)

definition wire_shop_api :: "coercions \<Rightarrow> string \<Rightarrow> shop \<Rightarrow> shop_state kds_api" where
  "wire_shop_api c refused sh =
     \<lparr>ap_tasks = (\<lambda>sid corr. wire_exchange sh refused (each_item (read_kds_task c)) (W_arr \<circ> map station_task_json) (serve_tasks sid)),
      ap_claim = (\<lambda>sid tid worker corr.
        wire_exchange sh refused (read_claim_response c) claim_response_json (wire_claim c sh sid tid worker corr)),
      ap_complete = (\<lambda>sid tid worker corr.
        wire_exchange sh refused (read_complete_response c) complete_response_json (wire_complete c sh sid tid worker corr)),
      ap_sleep = (\<lambda>_. shop_sleep sh)\<rparr>"

lemma wire_shop_served: "wire_shop_api c refused sh = shop_api sh"
  unfolding wire_shop_api_def shop_api_def
  by (simp add: wire_exchange_view [where view = sim_claim_of] wire_exchange_view [where view = sim_complete_of]
      wire_exchange_view [where view = "map sim_task_of"] read_back each_item_def comp_def wire_claim_served wire_complete_served)

section \<open>The composed services over JSON\<close>

text \<open>
  C19. Writing every message between the services as JSON and reading it back through the
  models of the receiver changes nothing, whatever pydantic does with other values: the workers see the
  kitchen service, the kitchen service the fulfillment service, and order creation the kitchen
  and the menu service exactly as if they called their routes directly.
\<close>

theorem messages_read_back:
  assumes "menu_ok col' db"
  shows "wire_shop_api c refused sh = shop_api sh \<and> wire_remote c cfg env corr = ful_remote cfg env corr
     \<and> wire_upstream c col kw db = services_upstream col kw db"
  using wire_upstream_served [OF assms] by (simp add: wire_shop_served wire_remote_served)

text \<open>Models that accept no value of another kind, at the menu of the demo.\<close>

definition strict_models :: coercions where
  "strict_models = \<lparr>co_str = (\<lambda>_. None), co_int = (\<lambda>_. None), co_bool = (\<lambda>_. None), co_time = (\<lambda>_. None),
     co_uuid = (\<lambda>_. None), co_id = (\<lambda>_. None)\<rparr>"

theorem messages_read_back_witness:
  "wire_upstream strict_models mdemo_col mdemo_kw mdemo_db = services_upstream mdemo_col mdemo_kw mdemo_db
     \<and> wire_shop_api strict_models [] (shop_demo (\<lambda>n. Net_ok)) = shop_api (shop_demo (\<lambda>n. Net_ok)) \<and> md_steps mdemo_db \<noteq> []"
  using messages_read_back [OF mdemo_ok(1), where c = strict_models and sh = "shop_demo (\<lambda>n. Net_ok)" and refused = "[]"
      and col = mdemo_col and kw = mdemo_kw]
  by (simp add: mdemo_db_def mdemo_db2_def)

end
