(* ===== verification/Simulator_Machine.thy ===== *)
theory Simulator_Machine
  imports Simulator_Protocol
begin

text \<open>
  Station simulator: \<open>VirtualWorker.run\<close> as the coroutine that asyncio drives. A worker rests
  at an \<open>await\<close>, and one step takes it from the answer to the next \<open>await\<close>; between two steps
  the other workers run. Alone, the steps are the run of \<open>Simulator_Worker\<close>.
\<close>

section \<open>Where a worker waits\<close>

text \<open>
  The point of an \<open>await\<close> keeps the locals that are used after it: the environment of the round,
  the chosen task, how long it cooks, how many attempts are left after this one.
\<close>

datatype worker_point =
    Wp_created
  | Wp_polling sim_env
  | Wp_claiming sim_env sim_task
  | Wp_cooking sim_env sim_task real
  | Wp_completing sim_env sim_task nat
  | Wp_retrying sim_env sim_task nat string
  | Wp_pausing
  | Wp_ended

text \<open>What resumes it: the outcome of a call, or waking up (\<open>True\<close>: cancelled instead).\<close>

datatype sim_answer =
    An_tasks "sim_error + sim_task list"
  | An_claim "sim_error + sim_claim_response"
  | An_complete "sim_error + sim_complete_response"
  | An_wake bool

section \<open>From one await to the next\<close>

definition enter_round :: "sim_env \<Rightarrow> 's sim_world \<Rightarrow> worker_point \<times> 's sim_world" where
  "enter_round env w =
     (Wp_polling env, on_state (ws_status_update (\<lambda>_. ''polling'') \<circ> ws_last_poll_at_update (\<lambda>_. Some (se_now env))) w)"

text \<open>The \<open>except\<close> and \<open>finally\<close> of \<open>run\<close>, and the \<open>except Exception\<close> of \<open>run_once\<close>.\<close>

definition leave_run :: "'s sim_world \<Rightarrow> worker_point \<times> 's sim_world" where
  "leave_run w =
     (Wp_ended, on_metrics (inc_gauge active_workers [] (- 1)) (on_state (ws_status_update (\<lambda>_. ''stopped'')) w))"

definition on_raise :: "virtual_worker \<Rightarrow> sim_error \<Rightarrow> 's sim_world \<Rightarrow> worker_point \<times> 's sim_world" where
  "on_raise vw e w =
     (if e = CancelledError then leave_run w
      else (Wp_pausing,
            on_metrics (inc_counter ''simulator_poll_errors_total'' (worker_labels vw @ [''unexpected_error'']))
              (on_state (ws_status_update (\<lambda>_. ''error'') \<circ> ws_last_error_update (\<lambda>_. Some (exception_text e))) w)))"

text \<open>The \<open>except (RetryableKdsError, KdsClientError)\<close> around a poll or a claim.\<close>

definition on_kds_error :: "virtual_worker \<Rightarrow> sim_error \<Rightarrow> 's sim_world \<Rightarrow> worker_point \<times> 's sim_world" where
  "on_kds_error vw e w =
     (case kds_error_text e of
        None \<Rightarrow> on_raise vw e w
      | Some msg \<Rightarrow>
          (Wp_pausing,
           on_metrics (inc_counter ''simulator_poll_errors_total'' (worker_labels vw @ [msg]))
             (on_state (ws_status_update (\<lambda>_. ''idle'') \<circ> ws_last_error_update (\<lambda>_. Some msg)) w)))"

definition after_poll :: "virtual_worker \<Rightarrow> sim_env \<Rightarrow> sim_task list \<Rightarrow> 's sim_world \<Rightarrow> worker_point \<times> 's sim_world" where
  "after_poll vw env tasks w =
     (case select_displayed_task tasks of
        Inl msg \<Rightarrow> on_raise vw (OtherException msg) w
      | Inr None \<Rightarrow> (Wp_pausing, on_state (ws_status_update (\<lambda>_. ''idle'')) w)
      | Inr (Some t) \<Rightarrow> (Wp_claiming env t, on_metrics (inc_counter ''simulator_claim_attempts_total'' (worker_labels vw)) w))"

definition after_grant :: "virtual_worker \<Rightarrow> sim_env \<Rightarrow> sim_task \<Rightarrow> 's sim_world \<Rightarrow> worker_point \<times> 's sim_world" where
  "after_grant vw env t w =
     (let w1 = on_metrics (inc_counter ''simulator_claim_success_total'' (worker_labels vw))
                 (on_state (ws_status_update (\<lambda>_. ''cooking'') \<circ> ws_current_task_id_update (\<lambda>_. Some (sm_task_id t))) w)
      in case calculate_simulated_duration (sm_estimated_duration t) (vw_speed_factor vw) (vw_min_factor vw)
                (vw_max_factor vw) (se_random env) of
           Inl msg \<Rightarrow> on_raise vw (OtherException msg) w1
         | Inr d \<Rightarrow>
             (Wp_cooking env t d, on_metrics (observe_hist ''simulator_task_duration_seconds'' (worker_labels vw) d) w1))"

definition after_task :: "virtual_worker \<Rightarrow> sim_env \<Rightarrow> bool \<Rightarrow> 's sim_world \<Rightarrow> worker_point \<times> 's sim_world" where
  "after_task vw nxt ok w =
     (let w1 = (if ok
                then on_metrics (inc_counter ''simulator_completed_tasks_total'' (worker_labels vw))
                       (on_state (ws_completed_update Suc) w)
                else w)
      in enter_round nxt (on_state (ws_status_update (\<lambda>_. ''idle'') \<circ> ws_current_task_id_update (\<lambda>_. None)) w1))"

text \<open>The head of the loop over the attempts.\<close>

definition next_attempt ::
    "virtual_worker \<Rightarrow> sim_env \<Rightarrow> sim_env \<Rightarrow> sim_task \<Rightarrow> nat \<Rightarrow> string option \<Rightarrow> 's sim_world
      \<Rightarrow> worker_point \<times> 's sim_world" where
  "next_attempt vw nxt env t left last_error w =
     (case left of
        0 \<Rightarrow> after_task vw nxt False
               (on_state (ws_last_error_update (\<lambda>_. Some (case last_error of Some e \<Rightarrow> e | None \<Rightarrow> ''complete_failed''))) w)
      | Suc m \<Rightarrow> (Wp_completing env t m, w))"

text \<open>
  \<open>nxt\<close> is the environment of the next round, should one begin in this step. A task cancelled
  before its first step never enters \<open>run\<close>. An answer to another question changes nothing.
\<close>

fun worker_resume ::
    "virtual_worker \<Rightarrow> sim_env \<Rightarrow> worker_point \<Rightarrow> sim_answer \<Rightarrow> 's sim_world \<Rightarrow> worker_point \<times> 's sim_world" where
  "worker_resume vw nxt Wp_created (An_wake cancelled) w =
     (if cancelled then (Wp_ended, w)
      else enter_round nxt (on_state (ws_status_update (\<lambda>_. ''idle'')) (on_metrics (inc_gauge active_workers [] 1) w)))"
| "worker_resume vw nxt (Wp_polling env) (An_tasks r) w =
     (case r of Inl e \<Rightarrow> on_kds_error vw e w | Inr tasks \<Rightarrow> after_poll vw env tasks w)"
| "worker_resume vw nxt (Wp_claiming env t) (An_claim r) w =
     (case r of
        Inr _ \<Rightarrow> after_grant vw env t w
      | Inl (ClaimConflict reason) \<Rightarrow>
          enter_round nxt
            (on_metrics (inc_counter ''simulator_claim_conflicts_total'' (worker_labels vw @ [reason]))
              (on_state (ws_status_update (\<lambda>_. ''idle'')) w))
      | Inl e \<Rightarrow> on_kds_error vw e w)"
| "worker_resume vw nxt (Wp_cooking env t d) (An_wake cancelled) w =
     (if cancelled then leave_run w else next_attempt vw nxt env t (nat (vw_complete_attempts vw)) None w)"
| "worker_resume vw nxt (Wp_completing env t left) (An_complete r) w =
     (case r of
        Inr _ \<Rightarrow> after_task vw nxt True w
      | Inl e \<Rightarrow>
          (case kds_error_text e of
             None \<Rightarrow> on_raise vw e w
           | Some msg \<Rightarrow> if 0 < left then (Wp_retrying env t left msg, w) else next_attempt vw nxt env t left (Some msg) w))"
| "worker_resume vw nxt (Wp_retrying env t left msg) (An_wake cancelled) w =
     (if cancelled then leave_run w else next_attempt vw nxt env t left (Some msg) w)"
| "worker_resume vw nxt Wp_pausing (An_wake cancelled) w = (if cancelled then leave_run w else enter_round nxt w)"
| "worker_resume vw nxt pt a w = (pt, w)"

section \<open>A worker alone\<close>

definition woken :: "(sim_error + unit) \<times> 's sim_world \<Rightarrow> sim_answer \<times> 's sim_world" where
  "woken = apfst (\<lambda>r. An_wake (r = Inl CancelledError))"

definition worker_await :: "'s kds_api \<Rightarrow> virtual_worker \<Rightarrow> worker_point \<Rightarrow> 's sim_world \<Rightarrow> sim_answer \<times> 's sim_world" where
  "worker_await api vw pt w =
     (case pt of
        Wp_polling env \<Rightarrow> apfst An_tasks (call_tasks api vw (uuid_str (se_corr env)) w)
      | Wp_claiming env t \<Rightarrow> apfst An_claim (call_claim api vw (uuid_str (se_corr env)) (sm_task_id t) w)
      | Wp_cooking env t d \<Rightarrow> woken (call_sleep api d w)
      | Wp_completing env t left \<Rightarrow> apfst An_complete (call_complete api vw (uuid_str (se_corr env)) (sm_task_id t) w)
      | Wp_retrying env t left msg \<Rightarrow> woken (call_sleep api (vw_poll_interval vw) w)
      | Wp_pausing \<Rightarrow> woken (call_sleep api (vw_poll_interval vw) w)
      | _ \<Rightarrow> (An_wake False, w))"

text \<open>One step of the event loop; the number counts the rounds that have begun.\<close>

definition arrive :: "nat \<Rightarrow> worker_point \<times> 's sim_world \<Rightarrow> nat \<times> worker_point \<times> 's sim_world" where
  "arrive n x = (case fst x of Wp_polling _ \<Rightarrow> (Suc n, x) | _ \<Rightarrow> (n, x))"

definition worker_step ::
    "'s kds_api \<Rightarrow> virtual_worker \<Rightarrow> (nat \<Rightarrow> sim_env) \<Rightarrow> nat \<times> worker_point \<times> 's sim_world \<Rightarrow> nat \<times> worker_point \<times> 's sim_world" where
  "worker_step api vw envs x =
     (case x of (n, pt, w) \<Rightarrow>
       (case worker_await api vw pt w of (a, w1) \<Rightarrow> arrive n (worker_resume vw (envs n) pt a w1)))"

definition worker_goes ::
    "'s kds_api \<Rightarrow> virtual_worker \<Rightarrow> (nat \<Rightarrow> sim_env) \<Rightarrow> nat \<times> worker_point \<times> 's sim_world
      \<Rightarrow> nat \<times> worker_point \<times> 's sim_world \<Rightarrow> bool" where
  "worker_goes api vw envs x y = (\<exists>k. (worker_step api vw envs ^^ k) x = y)"

lemma arrive_simps [simp]:
  "arrive n (Wp_claiming env t, w) = (n, Wp_claiming env t, w)" "arrive n (Wp_cooking env t d, w) = (n, Wp_cooking env t d, w)"
  "arrive n (Wp_completing env t k, w) = (n, Wp_completing env t k, w)"
  "arrive n (Wp_retrying env t k m, w) = (n, Wp_retrying env t k m, w)"
  "arrive n (Wp_pausing, w) = (n, Wp_pausing, w)" "arrive n (leave_run w) = (n, leave_run w)"
  "arrive n (enter_round env w) = (Suc n, enter_round env w)"
  by (simp_all add: arrive_def leave_run_def enter_round_def)

lemma goes_refl [intro, simp]: "worker_goes api vw envs x x"
  unfolding worker_goes_def by (rule exI [of _ 0]) simp

lemma goes_trans: "worker_goes api vw envs x y \<Longrightarrow> worker_goes api vw envs y z \<Longrightarrow> worker_goes api vw envs x z"
  unfolding worker_goes_def by (metis comp_apply funpow_add)

lemma goes_step: "worker_goes api vw envs (worker_step api vw envs x) y \<Longrightarrow> worker_goes api vw envs x y"
  unfolding worker_goes_def by (metis comp_apply funpow_Suc_right)

lemmas step_defs = worker_step_def worker_await_def woken_def

text \<open>How the event loop goes on from the value of a part of a round.\<close>

definition after_value ::
    "virtual_worker \<Rightarrow> nat \<Rightarrow> ('a \<Rightarrow> 's sim_world \<Rightarrow> worker_point \<times> 's sim_world) \<Rightarrow> (sim_error + 'a) \<times> 's sim_world
      \<Rightarrow> nat \<times> worker_point \<times> 's sim_world" where
  "after_value vw n f x = (case x of (Inl e, w) \<Rightarrow> arrive n (on_raise vw e w) | (Inr a, w) \<Rightarrow> arrive n (f a w))"

lemma sleep_value:
  "call_sleep api d w = (r, w') \<Longrightarrow> (r = Inl CancelledError) = (r \<noteq> Inr ())"
  using call_sleep_frame by fastforce

lemma pause_goes:
  "worker_goes api vw envs (n, Wp_pausing, w) (after_value vw n (\<lambda>_. enter_round (envs n)) (call_sleep api (vw_poll_interval vw) w))"
proof -
  obtain r w' where c: "call_sleep api (vw_poll_interval vw) w = (r, w')" by fastforce
  show ?thesis
    by (rule goes_step) (use c call_sleep_frame [OF c] in \<open>auto simp: step_defs after_value_def on_raise_def\<close>)
qed

lemma attempts_go:
  "worker_goes api vw envs (arrive n (next_attempt vw (envs n) env t left lst w))
     (after_value vw n (after_task vw (envs n)) (complete_attempts api vw (uuid_str (se_corr env)) (sm_task_id t) left lst w))"
proof (induction left arbitrary: lst w)
  case 0
  then show ?case by (auto simp: next_attempt_def after_value_def)
next
  case (Suc left)
  obtain r w1 where c: "call_complete api vw (uuid_str (se_corr env)) (sm_task_id t) w = (r, w1)" by fastforce
  obtain r2 w2 where s: "call_sleep api (vw_poll_interval vw) w1 = (r2, w2)" by fastforce
  have go: "worker_step api vw envs (n, Wp_completing env t left, w) = arrive n (worker_resume vw (envs n) (Wp_completing env t left) (An_complete r) w1)"
    using c by (simp add: step_defs)
  have wake: "worker_step api vw envs (n, Wp_retrying env t left msg, w1)
      = arrive n (worker_resume vw (envs n) (Wp_retrying env t left msg) (An_wake (r2 = Inl CancelledError)) w2)" for msg
    using s by (simp add: step_defs)
  have "worker_goes api vw envs (n, Wp_completing env t left, w)
     (after_value vw n (after_task vw (envs n)) (complete_attempts api vw (uuid_str (se_corr env)) (sm_task_id t) (Suc left) lst w))"
    (is "worker_goes _ _ _ _ ?end")
  proof (rule goes_step, cases "\<exists>e msg. r = Inl e \<and> kds_error_text e = Some msg \<and> 0 < left")
    case True
    then obtain e msg where e: "r = Inl e" "kds_error_text e = Some msg" "0 < left" by blast
    have "worker_goes api vw envs (n, Wp_retrying env t left msg, w1) ?end"
      by (rule goes_step)
        (use c s e call_sleep_frame [OF s] Suc.IH [of "Some msg" w2] in \<open>auto simp: wake after_value_def on_raise_def\<close>)
    then show "worker_goes api vw envs (worker_step api vw envs (n, Wp_completing env t left, w)) ?end" using e by (simp add: go)
  next
    case False
    then show "worker_goes api vw envs (worker_step api vw envs (n, Wp_completing env t left, w)) ?end"
      using c Suc.IH [of "Some _" w1] by (auto simp: go after_value_def split: sum.splits option.splits)
  qed
  then show ?case by (simp add: next_attempt_def)
qed

lemma value_raised [simp]: "after_value vw n f (Inl e, w) = arrive n (on_raise vw e w)"
  and value_given [simp]: "after_value vw n f (Inr a, w) = arrive n (f a w)"
  by (simp_all add: after_value_def)

lemma cook_goes:
  "worker_goes api vw envs (arrive n (after_grant vw env t w))
     (after_value vw n (\<lambda>_. enter_round (envs n)) (cook_and_complete api vw env t w))"
proof -
  let ?w1 = "on_metrics (inc_counter ''simulator_claim_success_total'' (worker_labels vw))
               (on_state (ws_status_update (\<lambda>_. ''cooking'') \<circ> ws_current_task_id_update (\<lambda>_. Some (sm_task_id t))) w)"
  show ?thesis
  proof (cases "calculate_simulated_duration (sm_estimated_duration t) (vw_speed_factor vw) (vw_min_factor vw)
                (vw_max_factor vw) (se_random env)")
    case (Inl msg)
    then show ?thesis by (simp add: after_grant_def cook_and_complete_def Let_def)
  next
    case (Inr d)
    let ?w2 = "on_metrics (observe_hist ''simulator_task_duration_seconds'' (worker_labels vw) d) ?w1"
    obtain r3 w3 where s: "call_sleep api d ?w2 = (r3, w3)" by fastforce
    obtain r4 w4 where c: "complete_with_retry api vw (uuid_str (se_corr env)) (sm_task_id t) w3 = (r4, w4)" by fastforce
    have go: "worker_step api vw envs (n, Wp_cooking env t d, ?w2)
        = arrive n (worker_resume vw (envs n) (Wp_cooking env t d) (An_wake (r3 = Inl CancelledError)) w3)"
      using s by (simp add: step_defs)
    have "worker_goes api vw envs (worker_step api vw envs (n, Wp_cooking env t d, ?w2))
        (after_value vw n (\<lambda>_. enter_round (envs n)) (cook_and_complete api vw env t w))"
      using call_sleep_frame [OF s] attempts_go [of api vw envs n env t "nat (vw_complete_attempts vw)" None w3] s c Inr
      by (auto simp: go cook_and_complete_def Let_def complete_with_retry_def on_raise_def after_task_def split: sum.splits)
    then show ?thesis using goes_step Inr by (simp add: after_grant_def Let_def)
  qed
qed

lemma backoff_goes:
  assumes "kds_error_text e = Some msg"
  shows "worker_goes api vw envs (arrive n (on_kds_error vw e w)) (after_value vw n (\<lambda>_. enter_round (envs n)) (worker_backoff api vw msg w))"
  using pause_goes [of api vw envs n] assms by (simp add: on_kds_error_def worker_backoff_def)

lemma raise_goes: "kds_error_text e = None \<Longrightarrow> on_kds_error vw e w = on_raise vw e w"
  by (simp add: on_kds_error_def)

lemma claim_goes:
  "worker_goes api vw envs (n, Wp_claiming env t, on_metrics (inc_counter ''simulator_claim_attempts_total'' (worker_labels vw)) w)
     (after_value vw n (\<lambda>_. enter_round (envs n)) (claim_and_cook api vw env t w))"
proof -
  let ?w = "on_metrics (inc_counter ''simulator_claim_attempts_total'' (worker_labels vw)) w"
  obtain r w1 where c: "call_claim api vw (uuid_str (se_corr env)) (sm_task_id t) ?w = (r, w1)" by fastforce
  have go: "worker_step api vw envs (n, Wp_claiming env t, ?w)
      = arrive n (worker_resume vw (envs n) (Wp_claiming env t) (An_claim r) w1)"
    using c by (simp add: step_defs)
  show ?thesis
    by (rule goes_step, cases r)
      (use c cook_goes [of api vw envs n env t w1] backoff_goes [of _ _ api vw envs n w1] in
        \<open>auto simp: go claim_and_cook_def raise_goes split: sim_error.splits option.splits\<close>)
qed

lemma round_goes:
  "worker_goes api vw envs (n, enter_round env w) (after_value vw n (\<lambda>_. enter_round (envs n)) (sim_round api vw env w))"
proof -
  let ?w = "on_state (ws_status_update (\<lambda>_. ''polling'') \<circ> ws_last_poll_at_update (\<lambda>_. Some (se_now env))) w"
  obtain r w1 where c: "call_tasks api vw (uuid_str (se_corr env)) ?w = (r, w1)" by fastforce
  have go: "worker_step api vw envs (n, Wp_polling env, ?w) = arrive n (worker_resume vw (envs n) (Wp_polling env) (An_tasks r) w1)"
    using c by (simp add: step_defs)
  have "worker_goes api vw envs (worker_step api vw envs (n, Wp_polling env, ?w))
      (after_value vw n (\<lambda>_. enter_round (envs n)) (sim_round api vw env w))"
    by (cases r)
      (use c claim_goes [of api vw envs n env _ w1] backoff_goes [of _ _ api vw envs n w1] pause_goes [of api vw envs n] in
        \<open>auto simp: go sim_round_def raise_goes after_poll_def split: sum.splits option.splits\<close>)
  then show ?thesis using goes_step by (simp add: enter_round_def)
qed

lemma run_once_goes:
  "worker_goes api vw envs (n, enter_round env w)
     (case sim_run_once api vw env w of (Inl _, w') \<Rightarrow> (n, leave_run w') | (Inr _, w') \<Rightarrow> (Suc n, enter_round (envs n) w'))"
proof -
  obtain r w1 where r: "sim_round api vw env w = (r, w1)" by fastforce
  have "worker_goes api vw envs (after_value vw n (\<lambda>_. enter_round (envs n)) (r, w1))
     (case sim_run_once api vw env w of (Inl _, w') \<Rightarrow> (n, leave_run w') | (Inr _, w') \<Rightarrow> (Suc n, enter_round (envs n) w'))"
  proof (cases "r = Inr () \<or> r = Inl CancelledError")
    case True
    then show ?thesis using r by (auto simp: sim_run_once_def on_raise_def)
  next
    case False
    then obtain e where e: "r = Inl e" "e \<noteq> CancelledError" by (cases r) auto
    obtain w2 where p: "on_raise vw e w1 = (Wp_pausing, w2)" using e(2) by (simp add: on_raise_def)
    obtain r2 w3 where s: "call_sleep api (vw_poll_interval vw) w2 = (r2, w3)" by fastforce
    have once: "sim_run_once api vw env w = (r2, w3)"
      using r e s p by (auto simp: sim_run_once_def on_raise_def split: sim_error.splits)
    have "worker_goes api vw envs (n, Wp_pausing, w2) (after_value vw n (\<lambda>_. enter_round (envs n)) (r2, w3))"
      using pause_goes [of api vw envs n w2] unfolding s .
    moreover have "r2 = Inl CancelledError \<or> r2 = Inr ()" using call_sleep_frame [OF s] by blast
    ultimately show ?thesis unfolding e(1) once by (elim disjE) (simp_all add: p, simp add: on_raise_def)
  qed
  then show ?thesis by (rule goes_trans [OF round_goes [of api vw envs n env w, unfolded r]])
qed

section \<open>The whole run\<close>

text \<open>A worker that has ended stays as it is; so a run that ends is found at every later step.\<close>

lemma ended_steps: "(worker_step api vw envs ^^ k) (n, Wp_ended, w) = (n, Wp_ended, w)"
  by (induction k) (simp_all add: step_defs arrive_def)

lemma rounds_bounded: "fst ((worker_step api vw envs ^^ k) x) \<le> fst x + k"
proof (induction k)
  case (Suc k)
  have "fst (worker_step api vw envs y) \<le> Suc (fst y)" for y
    by (simp add: worker_step_def arrive_def split: prod.splits worker_point.splits)
  from this [of "(worker_step api vw envs ^^ k) x"] show ?case using Suc by simp
qed simp

lemma goes_ended_eq:
  assumes "worker_goes api vw envs x y" and "fst (snd y) = Wp_ended"
    and "worker_goes api vw envs x z" "fst (snd z) = Wp_ended"
  shows "y = z"
proof -
  obtain i j where ij: "(worker_step api vw envs ^^ i) x = y" "(worker_step api vw envs ^^ j) x = z"
    using assms(1,3) by (auto simp: worker_goes_def)
  have later: "(worker_step api vw envs ^^ (k + i)) x = y" "(worker_step api vw envs ^^ (k + j)) x = z" for k
    using ended_steps [of k api vw envs] assms(2,4) ij by (cases y, cases z, simp add: funpow_add)+
  show ?thesis using later(1) [of j] later(2) [of i] by (simp add: add.commute)
qed

lemma rounds_go:
  "worker_rounds api vw envs n k w = Some w'
    \<Longrightarrow> worker_goes api vw envs (Suc n, enter_round (envs n) w) (Suc (n + k), enter_round (envs (n + k)) w')"
proof (induction k arbitrary: n w)
  case (Suc k)
  then obtain w1 where r: "sim_run_once api vw (envs n) w = (Inr (), w1)" "worker_rounds api vw envs (Suc n) k w1 = Some w'"
    by (auto split: prod.splits sum.splits)
  have "worker_goes api vw envs (Suc n, enter_round (envs n) w) (Suc (Suc n), enter_round (envs (Suc n)) w1)"
    using run_once_goes [of api vw envs "Suc n" "envs n" w] r(1) by simp
  then show ?case using Suc.IH [OF r(2)] goes_trans by fastforce
qed auto

lemma run_begins:
  "worker_goes api vw envs (0, Wp_created, w)
     (1, enter_round (envs 0) (on_state (ws_status_update (\<lambda>_. ''idle'')) (on_metrics (inc_gauge active_workers [] 1) w)))"
  by (rule goes_step) (simp add: step_defs)

text \<open>If no round is cancelled, every number of rounds is reached, so that no step can have ended it.\<close>

lemma never_ended:
  assumes "\<forall>k. worker_rounds api vw envs 0 k (on_state (ws_status_update (\<lambda>_. ''idle'')) (on_metrics (inc_gauge active_workers [] 1) w)) \<noteq> None"
  shows "(worker_step api vw envs ^^ k) (0, Wp_created, w) \<noteq> (n, Wp_ended, v)"
proof
  assume ended: "(worker_step api vw envs ^^ k) (0, Wp_created, w) = (n, Wp_ended, v)"
  obtain v' where v': "worker_rounds api vw envs 0 (Suc k)
      (on_state (ws_status_update (\<lambda>_. ''idle'')) (on_metrics (inc_gauge active_workers [] 1) w)) = Some v'"
    using assms by blast
  obtain j where j: "(worker_step api vw envs ^^ j) (0, Wp_created, w) = (Suc (Suc k), enter_round (envs (Suc k)) v')"
    using goes_trans [OF run_begins, of api vw envs w "(Suc (Suc k), enter_round (envs (Suc k)) v')"] rounds_go [OF v']
    by (auto simp: worker_goes_def)
  have "k \<le> j" using rounds_bounded [of j api vw envs "(0, Wp_created, w)"] j by simp
  then have "(worker_step api vw envs ^^ j) (0, Wp_created, w) = (n, Wp_ended, v)"
    using ended ended_steps [of "j - k" api vw envs n v] funpow_add [of "j - k" k "worker_step api vw envs"] by simp
  then show False using j by (simp add: enter_round_def)
qed


end
