(* ===== verification/Simulator_Lifespan.thy ===== *)
theory Simulator_Lifespan
  imports Simulator_Machine Simulator_Start Common_Http
begin

text \<open>
  Station simulator: the application of \<open>app/main.py\<close>. Its startup creates one asyncio task for
  each worker, the tasks share one event loop and one metrics registry, and its shutdown cancels
  them and waits. The workers are interleaved at every \<open>await\<close>, with arbitrary answers.
\<close>

section \<open>The application\<close>

datatype app_phase = App_down | App_failed | App_serving | App_stopping | App_closed

type_synonym crew_member = "virtual_worker \<times> worker_state \<times> worker_point"

record sim_app =
  pa_phase :: app_phase
  pa_client :: "string option"
  pa_crew :: "crew_member list"
  pa_tasks :: "string list"
  pa_metrics :: metrics

definition simulator_app :: sim_app where
  "simulator_app =
     \<lparr>pa_phase = App_down, pa_client = sr_client idle_runner, pa_crew = [], pa_tasks = sr_tasks idle_runner,
      pa_metrics = empty_metrics\<rparr>"

definition app_runner :: "sim_app \<Rightarrow> sim_runner" where
  "app_runner app =
     \<lparr>sr_client = pa_client app, sr_workers = map (\<lambda>(vw, st, pt). (vw, st)) (pa_crew app), sr_tasks = pa_tasks app\<rparr>"

text \<open>\<open>GET /simulator/workers\<close> and \<open>GET /health\<close>.\<close>

definition simulator_workers :: "sim_app \<Rightarrow> jdoc list" where
  "simulator_workers app = worker_states (app_runner app)"

definition simulator_health :: "string \<Rightarrow> string \<Rightarrow> string \<Rightarrow> jdoc" where
  "simulator_health service environment version = build_health_response service environment (Some version)"

section \<open>Its steps\<close>

text \<open>The answers that a waiting worker can get, and those by which its cancellation arrives.\<close>

fun answers :: "worker_point \<Rightarrow> sim_answer \<Rightarrow> bool" where
  "answers (Wp_polling env) (An_tasks r) = True"
| "answers (Wp_claiming env t) (An_claim r) = True"
| "answers (Wp_completing env t left) (An_complete r) = True"
| "answers Wp_created (An_wake c) = True"
| "answers (Wp_cooking env t d) (An_wake c) = True"
| "answers (Wp_retrying env t left msg) (An_wake c) = True"
| "answers Wp_pausing (An_wake c) = True"
| "answers pt a = False"

definition cancels :: "sim_answer \<Rightarrow> bool" where
  "cancels a = (a \<in> {An_tasks (Inl CancelledError), An_claim (Inl CancelledError), An_complete (Inl CancelledError), An_wake True})"

definition resume_member :: "sim_env \<Rightarrow> sim_answer \<Rightarrow> crew_member \<Rightarrow> metrics \<Rightarrow> crew_member \<times> metrics" where
  "resume_member nxt a x m =
     (case x of (vw, st, pt) \<Rightarrow>
       (case worker_resume vw nxt pt a \<lparr>sv_state = st, sv_metrics = m, sv_trace = [], sv_remote = ()\<rparr> of
          (pt', w') \<Rightarrow> ((vw, sv_state w', pt'), sv_metrics w')))"

definition resume_at :: "nat \<Rightarrow> sim_env \<Rightarrow> sim_answer \<Rightarrow> sim_app \<Rightarrow> sim_app" where
  "resume_at i nxt a app =
     (case resume_member nxt a (pa_crew app ! i) (pa_metrics app) of
        (x, m) \<Rightarrow> app\<lparr>pa_crew := (pa_crew app)[i := x], pa_metrics := m\<rparr>)"

abbreviation point_at :: "sim_app \<Rightarrow> nat \<Rightarrow> worker_point" where
  "point_at app i \<equiv> snd (snd (pa_crew app ! i))"

text \<open>
  \<open>lifespan\<close>: a startup that raises leaves the application down. \<open>stop\<close> cancels every task at once, so
  whatever a worker waited for, the next it gets is its cancellation; then \<open>gather\<close> waits for all.
\<close>

inductive app_step :: "sim_settings \<Rightarrow> sim_app \<Rightarrow> sim_app \<Rightarrow> bool" for s where
  startup: "pa_phase app = App_down \<Longrightarrow> runner_start s (app_runner app) = Inr r \<Longrightarrow>
    app_step s app (app\<lparr>pa_phase := App_serving, pa_client := sr_client r,
      pa_crew := map (\<lambda>(vw, st). (vw, st, Wp_created)) (sr_workers r), pa_tasks := sr_tasks r\<rparr>)"
| startup_fails: "pa_phase app = App_down \<Longrightarrow> runner_start s (app_runner app) = Inl msg \<Longrightarrow>
    app_step s app (app\<lparr>pa_phase := App_failed\<rparr>)"
| resumed: "pa_phase app = App_serving \<Longrightarrow> i < length (pa_crew app) \<Longrightarrow> answers (point_at app i) a \<Longrightarrow> \<not> cancels a \<Longrightarrow>
    app_step s app (resume_at i nxt a app)"
| shutdown: "pa_phase app = App_serving \<Longrightarrow> app_step s app (app\<lparr>pa_phase := App_stopping\<rparr>)"
| cancelled: "pa_phase app = App_stopping \<Longrightarrow> i < length (pa_crew app) \<Longrightarrow> answers (point_at app i) a \<Longrightarrow> cancels a \<Longrightarrow>
    app_step s app (resume_at i nxt a app)"
| closed: "pa_phase app = App_stopping \<Longrightarrow> \<forall>x \<in> set (pa_crew app). snd (snd x) = Wp_ended \<Longrightarrow>
    r = runner_stop (\<lambda>vw st. st) (app_runner app) \<Longrightarrow>
    app_step s app (app\<lparr>pa_phase := App_closed, pa_client := sr_client r, pa_tasks := sr_tasks r\<rparr>)"

inductive simulator_reaches :: "sim_settings \<Rightarrow> sim_app \<Rightarrow> bool" for s where
  created: "simulator_reaches s simulator_app"
| stepped: "simulator_reaches s app \<Longrightarrow> app_step s app app' \<Longrightarrow> simulator_reaches s app'"

section \<open>What a worker shows\<close>

definition runs :: "worker_point \<Rightarrow> bool" where
  "runs pt = (pt \<noteq> Wp_created \<and> pt \<noteq> Wp_ended)"

definition task_at :: "worker_point \<Rightarrow> sim_task option" where
  "task_at pt =
     (case pt of Wp_cooking _ t _ \<Rightarrow> Some t | Wp_completing _ t _ \<Rightarrow> Some t | Wp_retrying _ t _ _ \<Rightarrow> Some t | _ \<Rightarrow> None)"

definition statuses_at :: "worker_point \<Rightarrow> string set" where
  "statuses_at pt =
     (case pt of
        Wp_created \<Rightarrow> {''starting''}
      | Wp_polling _ \<Rightarrow> {''polling''}
      | Wp_claiming _ _ \<Rightarrow> {''polling''}
      | Wp_pausing \<Rightarrow> {''idle'', ''error''}
      | Wp_ended \<Rightarrow> {''stopped'', ''starting''}
      | _ \<Rightarrow> {''cooking''})"

definition active_gauge :: "metrics \<Rightarrow> real" where
  "active_gauge m = (case mt_gauges m (active_workers, []) of None \<Rightarrow> 0 | Some v \<Rightarrow> v)"

definition tally :: "string \<Rightarrow> virtual_worker \<Rightarrow> metrics \<Rightarrow> nat" where
  "tally n vw m = mt_counters m (n, worker_labels vw)"

definition member_ok :: "metrics \<Rightarrow> crew_member \<Rightarrow> bool" where
  "member_ok m x =
     (case x of (vw, st, pt) \<Rightarrow>
        ws_worker_id st = vw_worker_id vw \<and> ws_station_id st = vw_station_id vw
        \<and> ws_status st \<in> statuses_at pt \<and> (\<forall>t. task_at pt = Some t \<longrightarrow> ws_current_task_id st = Some (sm_task_id t))
        \<and> tally ''simulator_completed_tasks_total'' vw m = ws_completed st
        \<and> ws_completed st + (if task_at pt = None then 0 else 1) \<le> tally ''simulator_claim_success_total'' vw m
        \<and> tally ''simulator_claim_success_total'' vw m + (case pt of Wp_claiming _ _ \<Rightarrow> 1 | _ \<Rightarrow> 0)
            \<le> tally ''simulator_claim_attempts_total'' vw m)"

section \<open>One step of a worker\<close>

lemma metrics_frame [simp]:
  "tally n vw (inc_counter n' ls m) = (if (n', ls) = (n, worker_labels vw) then Suc (tally n vw m) else tally n vw m)"
  "tally n vw (inc_gauge g ls d m) = tally n vw m" "tally n vw (observe_hist n' ls v m) = tally n vw m"
  "active_gauge (inc_counter n ls m) = active_gauge m" "active_gauge (observe_hist n ls v m) = active_gauge m"
  "active_gauge (inc_gauge active_workers [] d m) = active_gauge m + d"
  by (auto simp: tally_def active_gauge_def inc_gauge_def)

lemma labels_differ [simp]: "worker_labels vw @ [x] \<noteq> worker_labels vw'" "worker_labels vw' \<noteq> worker_labels vw @ [x]"
  by (simp_all add: worker_labels_def)

lemmas resume_parts = enter_round_def leave_run_def on_raise_def on_kds_error_def after_poll_def after_grant_def after_task_def
  next_attempt_def
lemmas point_facts = statuses_at_def task_at_def runs_def cancels_def member_ok_def kds_error_text_def

lemma polled_ok:
  assumes "worker_resume vw nxt (Wp_polling env) (An_tasks r) w = (pt', w')" "member_ok (sv_metrics w) (vw, sv_state w, Wp_polling env)"
  shows "member_ok (sv_metrics w') (vw, sv_state w', pt') \<and> (pt' = Wp_ended) = (r = Inl CancelledError) \<and> pt' \<noteq> Wp_created"
  using assms by (cases r) (auto simp: resume_parts point_facts split: if_splits sim_error.splits sum.splits option.splits)

lemma claimed_ok:
  assumes "worker_resume vw nxt (Wp_claiming env t) (An_claim r) w = (pt', w')" "member_ok (sv_metrics w) (vw, sv_state w, Wp_claiming env t)"
  shows "member_ok (sv_metrics w') (vw, sv_state w', pt') \<and> (pt' = Wp_ended) = (r = Inl CancelledError) \<and> pt' \<noteq> Wp_created"
  using assms
  by (cases r) (auto simp: resume_parts point_facts Let_def split: if_splits sim_error.splits sum.splits option.splits)

lemma completed_ok:
  assumes "worker_resume vw nxt (Wp_completing env t left) (An_complete r) w = (pt', w')" "member_ok (sv_metrics w) (vw, sv_state w, Wp_completing env t left)"
  shows "member_ok (sv_metrics w') (vw, sv_state w', pt') \<and> (pt' = Wp_ended) = (r = Inl CancelledError) \<and> pt' \<noteq> Wp_created"
  using assms
  by (cases r) (auto simp: resume_parts point_facts Let_def split: if_splits sim_error.splits nat.splits option.splits)

lemma woken_ok:
  assumes "worker_resume vw nxt pt (An_wake c) w = (pt', w')" "member_ok (sv_metrics w) (vw, sv_state w, pt)" "answers pt (An_wake c)"
  shows "member_ok (sv_metrics w') (vw, sv_state w', pt') \<and> (pt' = Wp_ended) = c \<and> pt' \<noteq> Wp_created"
  using assms
  by (cases pt) (auto simp: resume_parts point_facts Let_def split: if_splits nat.splits)

lemma resume_gauge:
  "worker_resume vw nxt pt a w = (pt', w') \<Longrightarrow>
     active_gauge (sv_metrics w') = active_gauge (sv_metrics w) + (if runs pt' then 1 else 0) - (if runs pt then 1 else 0)"
  by (cases "(vw, nxt, pt, a, w)" rule: worker_resume.cases)
    (auto simp: resume_parts runs_def Let_def split: if_splits sim_error.splits sum.splits nat.splits option.splits)

lemma resume_others:
  "worker_resume vw nxt pt a w = (pt', w') \<Longrightarrow> vw_worker_id vw' \<noteq> vw_worker_id vw \<Longrightarrow>
     tally n vw' (sv_metrics w') = tally n vw' (sv_metrics w)"
  by (cases "(vw, nxt, pt, a, w)" rule: worker_resume.cases)
    (auto simp: resume_parts worker_labels_def Let_def split: if_splits sim_error.splits sum.splits nat.splits option.splits)

lemma resume_ok:
  assumes "worker_resume vw nxt pt a w = (pt', w')" "member_ok (sv_metrics w) (vw, sv_state w, pt)" "answers pt a"
  shows "member_ok (sv_metrics w') (vw, sv_state w', pt') \<and> (pt' = Wp_ended) = cancels a \<and> pt' \<noteq> Wp_created"
  using assms(3)
proof (cases a)
  case (An_tasks r)
  then obtain env where pt: "pt = Wp_polling env" using assms(3) by (cases pt) auto
  then show ?thesis using polled_ok assms An_tasks by (simp add: cancels_def)
next
  case (An_claim r)
  then obtain env t where pt: "pt = Wp_claiming env t" using assms(3) by (cases pt) auto
  show ?thesis using claimed_ok assms(1,2) unfolding pt An_claim by (simp add: cancels_def)
next
  case (An_complete r)
  then obtain env t left where pt: "pt = Wp_completing env t left" using assms(3) by (cases pt) auto
  show ?thesis using completed_ok assms(1,2) unfolding pt An_complete by (simp add: cancels_def)
next
  case (An_wake c)
  then show ?thesis using woken_ok assms by (simp add: cancels_def)
qed

section \<open>The crew\<close>

definition crew_ok :: "sim_app \<Rightarrow> bool" where
  "crew_ok app =
     (distinct (map (vw_worker_id \<circ> fst) (pa_crew app))
      \<and> (\<forall>x \<in> set (pa_crew app). member_ok (pa_metrics app) x)
      \<and> active_gauge (pa_metrics app) = real (length (filter (\<lambda>x. runs (snd (snd x))) (pa_crew app)))
      \<and> (pa_phase app = App_serving \<longrightarrow> (\<forall>x \<in> set (pa_crew app). snd (snd x) \<noteq> Wp_ended))
      \<and> (pa_phase app \<in> {App_down, App_failed} \<longrightarrow> pa_crew app = [] \<and> pa_metrics app = empty_metrics)
      \<and> (pa_phase app = App_closed \<longrightarrow>
           pa_tasks app = [] \<and> pa_client app = None \<and> (\<forall>x \<in> set (pa_crew app). snd (snd x) = Wp_ended)))"

lemma filter_update:
  "i < length xs \<Longrightarrow> length (filter P (xs[i := y])) + (if P (xs ! i) then 1 else 0) = length (filter P xs) + (if P y then 1 else 0)"
proof (induction xs arbitrary: i)
  case (Cons x xs)
  then show ?case by (cases i) auto
qed simp

lemma resume_at_cases:
  assumes "i < length (pa_crew app)"
  obtains vw st pt pt' w' where "pa_crew app ! i = (vw, st, pt)"
    "worker_resume vw nxt pt a \<lparr>sv_state = st, sv_metrics = pa_metrics app, sv_trace = [], sv_remote = ()\<rparr> = (pt', w')"
    "resume_at i nxt a app = app\<lparr>pa_crew := (pa_crew app)[i := (vw, sv_state w', pt')], pa_metrics := sv_metrics w'\<rparr>"
proof -
  obtain vw st pt where x: "pa_crew app ! i = (vw, st, pt)" by (cases "pa_crew app ! i")
  obtain pt' w' where "worker_resume vw nxt pt a \<lparr>sv_state = st, sv_metrics = pa_metrics app, sv_trace = [], sv_remote = ()\<rparr> = (pt', w')"
    by fastforce
  with x show ?thesis by (intro that) (simp_all add: resume_at_def resume_member_def)
qed

lemma crew_okI:
  assumes "pa_phase app \<in> {App_serving, App_stopping}" "distinct (map (vw_worker_id \<circ> fst) cs)" "\<And>y. y \<in> set cs \<Longrightarrow> member_ok m y"
    and "active_gauge m = real (length (filter (\<lambda>x. runs (snd (snd x))) cs))"
    and "\<And>y. pa_phase app = App_serving \<Longrightarrow> y \<in> set cs \<Longrightarrow> snd (snd y) \<noteq> Wp_ended"
  shows "crew_ok (app\<lparr>pa_crew := cs, pa_metrics := m\<rparr>)"
  using assms by (auto simp: crew_ok_def)

lemma members_kept:
  assumes "crew_ok app" "i < length (pa_crew app)" "pa_crew app ! i = (vw, st, pt)"
    and "worker_resume vw nxt pt a \<lparr>sv_state = st, sv_metrics = pa_metrics app, sv_trace = [], sv_remote = ()\<rparr> = (pt', w')"
    and "member_ok (sv_metrics w') (vw, sv_state w', pt')" "y \<in> set ((pa_crew app)[i := (vw, sv_state w', pt')])"
  shows "member_ok (sv_metrics w') y"
proof -
  obtain j where j: "j < length (pa_crew app)" "y = (pa_crew app)[i := (vw, sv_state w', pt')] ! j"
    using assms(6) by (auto simp: in_set_conv_nth)
  show ?thesis
  proof (cases "j = i")
    case False
    then have y: "y = pa_crew app ! j" using j by simp
    have "vw_worker_id (fst y) \<noteq> vw_worker_id vw"
      using assms(1-3) False j(1) nth_eq_iff_index_eq [of "map (vw_worker_id \<circ> fst) (pa_crew app)" j i]
      by (simp add: crew_ok_def y)
    moreover have "member_ok (pa_metrics app) y" using assms(1) j(1) y by (simp add: crew_ok_def)
    ultimately show ?thesis using resume_others [OF assms(4)] by (cases y) (simp add: member_ok_def)
  qed (use assms(5) j in simp)
qed

lemma resume_keeps_crew:
  assumes "crew_ok app" "pa_phase app \<in> {App_serving, App_stopping}" "i < length (pa_crew app)" "answers (point_at app i) a"
    and "pa_phase app = App_serving \<Longrightarrow> \<not> cancels a"
  shows "crew_ok (resume_at i nxt a app)"
proof (rule resume_at_cases [OF assms(3), of nxt a])
  fix vw st pt pt' and w' :: "unit sim_world"
  assume x: "pa_crew app ! i = (vw, st, pt)"
    and r: "worker_resume vw nxt pt a \<lparr>sv_state = st, sv_metrics = pa_metrics app, sv_trace = [], sv_remote = ()\<rparr> = (pt', w')"
    and app': "resume_at i nxt a app = app\<lparr>pa_crew := (pa_crew app)[i := (vw, sv_state w', pt')], pa_metrics := sv_metrics w'\<rparr>"
  have "member_ok (pa_metrics app) (vw, st, pt)" using assms(1,3) x nth_mem by (fastforce simp: crew_ok_def)
  then have new: "member_ok (sv_metrics w') (vw, sv_state w', pt')" "(pt' = Wp_ended) = cancels a"
    using resume_ok [OF r] assms(4) x by simp_all
  show "crew_ok (resume_at i nxt a app)"
    unfolding app'
  proof (rule crew_okI [OF assms(2)])
    show "distinct (map (vw_worker_id \<circ> fst) ((pa_crew app)[i := (vw, sv_state w', pt')]))"
      using list_update_id [of "map (vw_worker_id \<circ> fst) (pa_crew app)" i] x assms(1,3) by (simp add: map_update crew_ok_def)
    show "active_gauge (sv_metrics w') = real (length (filter (\<lambda>x. runs (snd (snd x))) ((pa_crew app)[i := (vw, sv_state w', pt')])))"
      using resume_gauge [OF r] filter_update [OF assms(3), of "\<lambda>x. runs (snd (snd x))" "(vw, sv_state w', pt')"] assms(1) x
      by (auto simp: crew_ok_def split: if_splits)
    show "snd (snd y) \<noteq> Wp_ended" if "pa_phase app = App_serving" "y \<in> set ((pa_crew app)[i := (vw, sv_state w', pt')])" for y
      using set_update_subset_insert [of "pa_crew app" i] that assms(1,5) new(2) by (fastforce simp: crew_ok_def)
  qed (rule members_kept [OF assms(1,3) x r new(1)])
qed

lemma started_crew:
  assumes "runner_start s idle_runner = Inr r"
  shows "distinct (map (vw_worker_id \<circ> fst) (sr_workers r)) \<and> (\<forall>(vw, st) \<in> set (sr_workers r). st = fresh_state vw)"
proof (cases "ss_enabled s")
  case True
  obtain ws where ws: "parse_workers_config (ss_workers_config s) = Inr ws"
    "sr_workers r = map (\<lambda>c. (build_worker s c, fresh_state (build_worker s c))) ws"
    by (rule runner_start_workers [OF assms True])
  show ?thesis using parse_items_distinct [OF parse_config_items [OF ws(1)]] by (auto simp: ws(2) build_worker_def comp_def)
qed (use assms in \<open>auto simp: runner_start_def idle_runner_def\<close>)

lemma step_keeps_crew:
  assumes "app_step s app app'" and "crew_ok app" and "pa_phase app = App_down \<Longrightarrow> app_runner app = idle_runner"
  shows "crew_ok app'"
  using assms
proof cases
  case (startup r)
  then have r: "runner_start s idle_runner = Inr r" using assms(3) by simp
  show ?thesis
    using started_crew [OF r] assms(2) startup(2)
    by (auto simp: startup(1) crew_ok_def point_facts fresh_state_def tally_def active_gauge_def empty_metrics_def comp_def
        case_prod_unfold)
next
  case (resumed i a nxt)
  then show ?thesis using resume_keeps_crew [OF assms(2)] by simp
next
  case (cancelled i a nxt)
  then show ?thesis using resume_keeps_crew [OF assms(2)] by simp
qed (use assms(2) in \<open>auto simp: crew_ok_def runner_stop_def\<close>)

lemma down_is_idle:
  "simulator_reaches s app \<Longrightarrow> pa_phase app = App_down \<Longrightarrow> app = simulator_app"
proof (induction rule: simulator_reaches.induct)
  case (stepped app app')
  then show ?case
    by (auto elim!: app_step.cases simp: resume_at_def split: prod.splits)
qed simp

lemma reached_crew: "simulator_reaches s app \<Longrightarrow> crew_ok app"
proof (induction rule: simulator_reaches.induct)
  case created
  then show ?case by (simp add: simulator_app_def crew_ok_def active_gauge_def empty_metrics_def)
next
  case (stepped app app')
  have "app_runner app = idle_runner" if "pa_phase app = App_down"
    using down_is_idle [OF stepped.hyps(1) that] by (simp add: simulator_app_def app_runner_def idle_runner_def)
  then show ?case by (rule step_keeps_crew [OF stepped.hyps(2) stepped.IH])
qed

section \<open>The declared metrics\<close>

text \<open>
  Every metric of \<open>SimulatorMetrics\<close> with its labels. \<open>labels\<close> raises \<open>ValueError\<close> if it gets another number of
  values, which never happens: what the workers count has the declared names and numbers of labels.
\<close>

definition simulator_metrics :: "(string \<times> string list) list" where
  "simulator_metrics =
     [(''simulator_claim_attempts_total'', [''station_id'', ''worker_id'']),
      (''simulator_claim_success_total'', [''station_id'', ''worker_id'']),
      (''simulator_claim_conflicts_total'', [''station_id'', ''worker_id'', ''reason'']),
      (''simulator_completed_tasks_total'', [''station_id'', ''worker_id'']),
      (''simulator_task_duration_seconds'', [''station_id'', ''worker_id'']),
      (''simulator_poll_errors_total'', [''station_id'', ''worker_id'', ''reason'']),
      (active_workers, [])]"

definition declared :: "series \<Rightarrow> bool" where
  "declared x = (\<exists>ls. map_of simulator_metrics (fst x) = Some ls \<and> length (snd x) = length ls)"

definition only_declared :: "metrics \<Rightarrow> bool" where
  "only_declared m = (\<forall>x. declared x \<or> (mt_counters m x = 0 \<and> mt_gauges m x = None \<and> mt_observations m x = []))"

lemma only_declared_moves [simp]:
  "only_declared m \<Longrightarrow> declared (n, ls) \<Longrightarrow> only_declared (inc_counter n ls m)"
  "only_declared m \<Longrightarrow> declared (n, ls) \<Longrightarrow> only_declared (observe_hist n ls v m)"
  "only_declared m \<Longrightarrow> declared (n, ls) \<Longrightarrow> only_declared (inc_gauge n ls d m)"
  by (auto simp: only_declared_def inc_gauge_def inc_counter_def observe_hist_def set_gauge_def)

lemma worker_series [simp]:
  "declared (''simulator_claim_attempts_total'', worker_labels vw)" "declared (''simulator_claim_success_total'', worker_labels vw)"
  "declared (''simulator_claim_conflicts_total'', worker_labels vw @ [r])" "declared (''simulator_completed_tasks_total'', worker_labels vw)"
  "declared (''simulator_task_duration_seconds'', worker_labels vw)" "declared (''simulator_poll_errors_total'', worker_labels vw @ [r])"
  "declared (active_workers, [])"
  by (simp_all add: declared_def simulator_metrics_def worker_labels_def active_workers_def)

lemma resume_declared:
  "worker_resume vw nxt pt a w = (pt', w') \<Longrightarrow> only_declared (sv_metrics w) \<Longrightarrow> only_declared (sv_metrics w')"
  by (cases "(vw, nxt, pt, a, w)" rule: worker_resume.cases)
    (auto simp: resume_parts Let_def split: if_splits sim_error.splits sum.splits nat.splits option.splits)

lemma series_declared: "simulator_reaches s app \<Longrightarrow> only_declared (pa_metrics app)"
proof (induction rule: simulator_reaches.induct)
  case created
  then show ?case by (simp add: simulator_app_def only_declared_def empty_metrics_def)
next
  case (stepped app app')
  have "only_declared (pa_metrics (resume_at i nxt a app))" if "i < length (pa_crew app)" for i nxt a
    by (rule resume_at_cases [OF that, of nxt a]) (use stepped.IH resume_declared in force)
  then show ?case using stepped.hyps(2) stepped.IH by (auto elim!: app_step.cases)
qed

section \<open>What the endpoints report\<close>

lemma member_reports:
  assumes "member_ok m (vw, st, pt)"
  shows "map_of (to_dict st) ''worker_id'' = Some (JStr (vw_worker_id vw))"
    "map_of (to_dict st) ''completed_tasks_count'' = Some (JInt (int (tally ''simulator_completed_tasks_total'' vw m)))"
    "tally ''simulator_completed_tasks_total'' vw m + (if task_at pt = None then 0 else 1) \<le> tally ''simulator_claim_success_total'' vw m"
    "tally ''simulator_claim_success_total'' vw m \<le> tally ''simulator_claim_attempts_total'' vw m"
    "map_of (to_dict st) ''status'' \<in> (Some \<circ> JStr) ` statuses_at pt"
    "task_at pt = Some t \<Longrightarrow> map_of (to_dict st) ''current_task_id'' = Some (JStr (sm_task_id t))"
  using assms by (simp_all add: member_ok_def to_dict_def jopt_def)

text \<open>
  C17. However the workers are interleaved and whatever the kitchen service answers, the two
  views of the simulator agree: \<open>/simulator/workers\<close> reports for each worker as many completed tasks as its
  metric counts, at most the claims it was granted, of which one is still open while it cooks; it names the task a
  worker cooks, and a status of the point where the worker waits. The gauge of active workers is the number
  of workers that have begun and not ended, and no worker ends before the shutdown.
\<close>

theorem workers_agree_with_metrics:
  assumes "simulator_reaches s app"
  shows "active_gauge (pa_metrics app) = real (length (filter (\<lambda>x. runs (snd (snd x))) (pa_crew app)))
    \<and> distinct (map (vw_worker_id \<circ> fst) (pa_crew app))
    \<and> (\<forall>i < length (pa_crew app). case pa_crew app ! i of (vw, st, pt) \<Rightarrow>
         (let shown = map_of (simulator_workers app ! i);
              granted = tally ''simulator_claim_success_total'' vw (pa_metrics app);
              finished = tally ''simulator_completed_tasks_total'' vw (pa_metrics app)
          in shown ''worker_id'' = Some (JStr (vw_worker_id vw)) \<and> shown ''completed_tasks_count'' = Some (JInt (int finished))
             \<and> finished + (if task_at pt = None then 0 else 1) \<le> granted
             \<and> granted \<le> tally ''simulator_claim_attempts_total'' vw (pa_metrics app)
             \<and> shown ''status'' \<in> (Some \<circ> JStr) ` statuses_at pt
             \<and> (\<forall>t. task_at pt = Some t \<longrightarrow> shown ''current_task_id'' = Some (JStr (sm_task_id t)))
             \<and> (pt = Wp_ended \<longrightarrow> pa_phase app \<in> {App_stopping, App_closed})))"
    (is "_ \<and> _ \<and> (\<forall>i < _. ?reported i)")
proof (intro conjI allI impI)
  note ok = reached_crew [OF assms, unfolded crew_ok_def]
  show "active_gauge (pa_metrics app) = real (length (filter (\<lambda>x. runs (snd (snd x))) (pa_crew app)))"
    "distinct (map (vw_worker_id \<circ> fst) (pa_crew app))" using ok by simp_all
  fix i assume i: "i < length (pa_crew app)"
  obtain vw st pt where x: "pa_crew app ! i = (vw, st, pt)" by (cases "pa_crew app ! i")
  have shown: "simulator_workers app ! i = to_dict st"
    using i x by (simp add: simulator_workers_def worker_states_def app_runner_def)
  have m: "member_ok (pa_metrics app) (vw, st, pt)" "pt = Wp_ended \<Longrightarrow> pa_phase app \<in> {App_stopping, App_closed}"
    using ok nth_mem [OF i] unfolding x by (cases "pa_phase app"; fastforce)+
  show "?reported i"
    unfolding x prod.case Let_def shown using member_reports [OF m(1)] m(2) by blast
qed

section \<open>The shutdown\<close>

definition unended :: "sim_app \<Rightarrow> nat" where
  "unended app = length (filter (\<lambda>x. snd (snd x) \<noteq> Wp_ended) (pa_crew app))"

lemma cancelled_ends:
  assumes "crew_ok app" "i < length (pa_crew app)" "answers (point_at app i) a" "cancels a"
  shows "unended app = Suc (unended (resume_at i nxt a app))"
proof (rule resume_at_cases [OF assms(2), of nxt a])
  fix vw st pt pt' and w' :: "unit sim_world"
  assume x: "pa_crew app ! i = (vw, st, pt)"
    and r: "worker_resume vw nxt pt a \<lparr>sv_state = st, sv_metrics = pa_metrics app, sv_trace = [], sv_remote = ()\<rparr> = (pt', w')"
    and app': "resume_at i nxt a app = app\<lparr>pa_crew := (pa_crew app)[i := (vw, sv_state w', pt')], pa_metrics := sv_metrics w'\<rparr>"
  have "member_ok (pa_metrics app) (vw, st, pt)" using assms(1,2) x nth_mem by (fastforce simp: crew_ok_def)
  then have "pt' = Wp_ended" using resume_ok [OF r] assms(3,4) x by simp
  moreover have "pt \<noteq> Wp_ended" using assms(3) x by (cases a) auto
  ultimately show ?thesis
    using filter_update [OF assms(2), of "\<lambda>x. snd (snd x) \<noteq> Wp_ended" "(vw, sv_state w', pt')"] x by (simp add: unended_def app')
qed

lemma stopping_step:
  assumes "app_step s app app'" "pa_phase app = App_stopping" "crew_ok app"
  shows "(pa_phase app' = App_stopping \<and> unended app = Suc (unended app')) \<or> (pa_phase app' = App_closed \<and> unended app = 0)"
  using assms(1)
proof cases
  case (cancelled i a nxt)
  then show ?thesis using cancelled_ends [OF assms(3)] by (simp add: resume_at_def split: prod.splits)
qed (use assms(2) in \<open>auto simp: unended_def\<close>)

lemma cancellation_exists: "pt \<noteq> Wp_ended \<Longrightarrow> \<exists>a. answers pt a \<and> cancels a"
  by (cases pt) (auto simp: cancels_def intro: exI [of _ "An_wake True"] exI [of _ "An_tasks (Inl CancelledError)"]
      exI [of _ "An_claim (Inl CancelledError)"] exI [of _ "An_complete (Inl CancelledError)"])

lemma stopping_progress:
  assumes "pa_phase app = App_stopping"
  shows "\<exists>app'. app_step s app app'"
proof (cases "\<forall>x \<in> set (pa_crew app). snd (snd x) = Wp_ended")
  case True
  then show ?thesis using app_step.closed assms by blast
next
  case False
  then obtain i where "i < length (pa_crew app)" "point_at app i \<noteq> Wp_ended" by (metis in_set_conv_nth)
  then show ?thesis using cancellation_exists app_step.cancelled assms by meson
qed

lemma stopping_steps:
  assumes "(app_step s ^^ n) app app'" "simulator_reaches s app" "pa_phase app = App_stopping"
  shows "simulator_reaches s app' \<and> ((pa_phase app' = App_stopping \<and> n + unended app' = unended app)
     \<or> (pa_phase app' = App_closed \<and> n = Suc (unended app)))"
  using assms(1)
proof (induction n arbitrary: app')
  case 0
  then show ?case using assms(2,3) by simp
next
  case (Suc n)
  then obtain app1 where step: "(app_step s ^^ n) app app1" "app_step s app1 app'" by auto
  have stopping: "pa_phase app1 = App_stopping" using Suc.IH [OF step(1)] step(2) by (auto elim: app_step.cases)
  then show ?case
    using Suc.IH [OF step(1)] stopping_step [OF step(2)] reached_crew simulator_reaches.stepped [OF _ step(2)] by fastforce
qed

text \<open>
  C18. A shutdown always comes to its end: from where it begins there are at most as many steps as
  there are workers that have not ended, and one that closes the client; it is never stuck before that. In the end no task is
  left, the gauge of active workers is zero, and every worker shows \<open>stopped\<close>, or \<open>starting\<close> if its
  task was cancelled before it ran.
\<close>

theorem shutdown_completes:
  assumes "simulator_reaches s app" and "pa_phase app = App_stopping" and "(app_step s ^^ n) app app'"
  shows "n \<le> Suc (unended app) \<and> ((\<forall>next. \<not> app_step s app' next) \<longleftrightarrow> pa_phase app' = App_closed)
     \<and> (pa_phase app' = App_closed \<longrightarrow>
          pa_tasks app' = [] \<and> pa_client app' = None \<and> active_gauge (pa_metrics app') = 0
          \<and> (\<forall>(vw, st, pt) \<in> set (pa_crew app'). ws_status st \<in> {''stopped'', ''starting''}))"
proof -
  note st = stopping_steps [OF assms(3,1,2)]
  note ok = reached_crew [OF conjunct1 [OF st], unfolded crew_ok_def]
  have "\<not> app_step s app' app''" if "pa_phase app' = App_closed" for app''
    using that by (auto elim: app_step.cases)
  moreover have "active_gauge (pa_metrics app') = 0 \<and> (\<forall>(vw, st, pt) \<in> set (pa_crew app'). ws_status st \<in> {''stopped'', ''starting''})"
    if "pa_phase app' = App_closed"
  proof -
    have ended: "\<forall>x \<in> set (pa_crew app'). snd (snd x) = Wp_ended" using ok that by simp
    then have "filter (\<lambda>x. runs (snd (snd x))) (pa_crew app') = []" by (simp add: filter_empty_conv runs_def)
    then show ?thesis using ok ended by (fastforce simp: member_ok_def statuses_at_def)
  qed
  ultimately show ?thesis using st ok stopping_progress by fastforce
qed

section \<open>An example\<close>

text \<open>The simulator with one cook, who begins, finds a task and is granted it.\<close>

definition lone_settings :: sim_settings where
  "lone_settings = demo_settings\<lparr>ss_workers_config := ''grill_1:1''\<rparr>"

definition lone_cook :: virtual_worker where
  "lone_cook = build_worker lone_settings \<lparr>wc_worker_id = ''grill_1-worker-'' @ int_str 1, wc_station_id = ''grill_1''\<rparr>"

definition lone_app :: "app_phase \<Rightarrow> worker_state \<Rightarrow> worker_point \<Rightarrow> metrics \<Rightarrow> sim_app" where
  "lone_app phase st pt m =
     \<lparr>pa_phase = phase, pa_client = Some ''http://localhost:8001'', pa_crew = [(lone_cook, st, pt)],
      pa_tasks = [vw_worker_id lone_cook], pa_metrics = m\<rparr>"

lemma lone_started: "simulator_reaches lone_settings (lone_app App_serving (fresh_state lone_cook) Wp_created empty_metrics)"
proof -
  have "parse_workers_config ''grill_1:1'' = Inr (station_workers ''grill_1'' 1)"
    by (simp add: parse_workers_config_def py_strip_def py_strip_by_def py_isspace_def py_split1_def
        py_int_def int_space_def drop_hex_prefix_def py_nat_def digit_val_def Let_def)
  then have "runner_start lone_settings idle_runner
      = Inr \<lparr>sr_client = Some ''http://localhost:8001'', sr_workers = [(lone_cook, fresh_state lone_cook)],
             sr_tasks = [vw_worker_id lone_cook]\<rparr>"
    by (simp add: runner_start_def lone_settings_def demo_settings_def station_workers_def lone_cook_def py_rstrip_char_def Let_def)
  moreover have "app_runner simulator_app = idle_runner" by (simp add: app_runner_def simulator_app_def idle_runner_def)
  ultimately have "app_step lone_settings simulator_app (lone_app App_serving (fresh_state lone_cook) Wp_created empty_metrics)"
    using app_step.startup [of simulator_app lone_settings] by (simp add: simulator_app_def lone_app_def)
  then show ?thesis using simulator_reaches.created simulator_reaches.stepped by blast
qed

lemma lone_resumed:
  assumes "simulator_reaches lone_settings (lone_app App_serving st pt m)" "answers pt a" "\<not> cancels a"
    and "worker_resume lone_cook nxt pt a \<lparr>sv_state = st, sv_metrics = m, sv_trace = [], sv_remote = ()\<rparr> = (pt', w')"
  shows "simulator_reaches lone_settings (lone_app App_serving (sv_state w') pt' (sv_metrics w'))"
proof -
  have "app_step lone_settings (lone_app App_serving st pt m) (resume_at 0 nxt a (lone_app App_serving st pt m))"
    using assms(2,3) by (intro app_step.resumed) (simp_all add: lone_app_def)
  then show ?thesis
    using simulator_reaches.stepped [OF assms(1)] assms(4) by (simp add: resume_at_def resume_member_def lone_app_def)
qed

theorem workers_agree_with_metrics_witness:
  "\<exists>app. simulator_reaches lone_settings app \<and> active_gauge (pa_metrics app) = 1
     \<and> map_of (simulator_workers app ! 0) ''current_task_id'' = Some (JStr ''task-1'')"
proof -
  have d: "calculate_simulated_duration (sm_estimated_duration sim_demo_task) (vw_speed_factor lone_cook) (vw_min_factor lone_cook)
      (vw_max_factor lone_cook) (se_random sim_demo_env) = Inr (56 / 10)"
    by (simp add: calculate_simulated_duration_def sim_demo_task_def lone_cook_def build_worker_def lone_settings_def
        demo_settings_def sim_demo_env_def)
  obtain w1 where 1: "worker_resume lone_cook sim_demo_env Wp_created (An_wake False)
      \<lparr>sv_state = fresh_state lone_cook, sv_metrics = empty_metrics, sv_trace = [], sv_remote = ()\<rparr> = (Wp_polling sim_demo_env, w1)"
    by (simp add: enter_round_def)
  obtain w2 where 2: "worker_resume lone_cook sim_demo_env (Wp_polling sim_demo_env) (An_tasks (Inr [sim_demo_task]))
      \<lparr>sv_state = sv_state w1, sv_metrics = sv_metrics w1, sv_trace = [], sv_remote = ()\<rparr> = (Wp_claiming sim_demo_env sim_demo_task, w2)"
    by (simp add: after_poll_def sim_demo_select)
  obtain w3 where 3: "worker_resume lone_cook sim_demo_env (Wp_claiming sim_demo_env sim_demo_task) (An_claim (Inr sim_demo_claimed))
      \<lparr>sv_state = sv_state w2, sv_metrics = sv_metrics w2, sv_trace = [], sv_remote = ()\<rparr> = (Wp_cooking sim_demo_env sim_demo_task (56 / 10), w3)"
    by (simp add: after_grant_def d Let_def)
  let ?app = "lone_app App_serving (sv_state w3) (Wp_cooking sim_demo_env sim_demo_task (56 / 10)) (sv_metrics w3)"
  have app: "simulator_reaches lone_settings ?app"
    by (rule lone_resumed [OF lone_resumed [OF lone_resumed [OF lone_started _ _ 1] _ _ 2] _ _ 3]) (simp_all add: cancels_def)
  have "pa_crew ?app = [(lone_cook, sv_state w3, Wp_cooking sim_demo_env sim_demo_task (56 / 10))]" by (simp add: lone_app_def)
  then have "active_gauge (pa_metrics ?app) = 1 \<and> map_of (simulator_workers ?app ! 0) ''current_task_id'' = Some (JStr (sm_task_id sim_demo_task))"
    using workers_agree_with_metrics [OF app] by (simp add: runs_def task_at_def Let_def)
  with app show ?thesis by (auto simp: sim_demo_task_def)
qed

theorem shutdown_completes_witness:
  "\<exists>app app'. simulator_reaches lone_settings app \<and> pa_phase app = App_stopping \<and> (app_step lone_settings ^^ 2) app app'
     \<and> pa_phase app' = App_closed \<and> active_gauge (pa_metrics app') = 0 \<and> pa_client app' = None"
proof -
  let ?app = "lone_app App_stopping (fresh_state lone_cook) Wp_created empty_metrics"
  let ?mid = "lone_app App_stopping (fresh_state lone_cook) Wp_ended empty_metrics"
  have "app_step lone_settings (lone_app App_serving (fresh_state lone_cook) Wp_created empty_metrics) ?app"
    using app_step.shutdown [of "lone_app App_serving (fresh_state lone_cook) Wp_created empty_metrics"] by (simp add: lone_app_def)
  then have app: "simulator_reaches lone_settings ?app" using simulator_reaches.stepped [OF lone_started] by blast
  have ph: "pa_phase ?app = App_stopping" by (simp add: lone_app_def)
  have "app_step lone_settings ?app (resume_at 0 sim_demo_env (An_wake True) ?app)"
    by (rule app_step.cancelled) (simp_all add: lone_app_def cancels_def)
  then have 1: "app_step lone_settings ?app ?mid" by (simp add: resume_at_def resume_member_def lone_app_def)
  obtain app' where 2: "app_step lone_settings ?mid app'" "pa_phase app' = App_closed"
    using app_step.closed [of ?mid _ lone_settings] by (simp add: lone_app_def)
  have "(app_step lone_settings ^^ 2) ?app app'" using 1 2(1) by (auto simp: numeral_2_eq_2)
  then show ?thesis using shutdown_completes [OF app ph] app ph 2(2) by blast
qed

end
