(* ===== verification/Fulfillment_Meters.thy ===== *)
theory Fulfillment_Meters
  imports Fulfillment_Done
begin

text \<open>
  Fulfillment service: the business metrics (\<open>metrics/business_metrics.py\<close>) against the database.
  A counter of tasks has counted exactly the tasks that have come as far as its name says, a counter
  of orders the orders in that state, for each kitchen and station type, however the requests interleave.
\<close>

section \<open>What the metrics stand for\<close>

text \<open>Each metric with the statuses that a task or an order it has counted can have.\<close>

definition task_meters :: "(string \<times> task_status set) list" where
  "task_meters =
     [(''tasks_queued_total'', - {Tk_created}),
      (''tasks_displayed_total'', {Tk_displayed, Tk_in_progress, Tk_done}),
      (''tasks_started_total'', {Tk_in_progress, Tk_done}),
      (''tasks_completed_total'', {Tk_done}),
      (''tasks_failed_total'', {Tk_failed}),
      (''task_actual_duration_seconds'', {Tk_done}),
      (''task_delay_seconds'', {Tk_done})]"

definition order_meters :: "(string \<times> order_status set) list" where
  "order_meters = [(''orders_created_total'', UNIV), (''orders_ready_total'', {Ord_ready_for_pickup})]"

definition idle_meters :: "string list" where
  "idle_meters = [''orders_cancelled_total'', ''orders_handed_off_total'', ''orders_delayed_total'']"

text \<open>What a counter shows, or how many values a histogram has observed.\<close>

definition meter :: "metrics \<Rightarrow> string \<Rightarrow> string list \<Rightarrow> nat" where
  "meter m n ls = mt_counters m (n, ls) + length (mt_observations m (n, ls))"

definition kitchen_of :: "fdb \<Rightarrow> uuid \<Rightarrow> uuid option" where
  "kitchen_of db oid = map_option o_kitchen_id (get_order_row db oid)"

definition place :: "fdb \<Rightarrow> ftask \<Rightarrow> string list option" where
  "place db t = map_option (\<lambda>k. [uuid_str k, ft_station_type t]) (kitchen_of db (ft_order_id t))"

definition staged :: "fdb \<Rightarrow> task_status set \<Rightarrow> string list \<Rightarrow> nat" where
  "staged db S ls = count_rows (\<lambda>t. place db t = Some ls \<and> ft_status t \<in> S) (f_tasks db)"

definition ordered :: "fdb \<Rightarrow> order_status set \<Rightarrow> string list \<Rightarrow> nat" where
  "ordered db S ls = count_rows (\<lambda>r. [uuid_str (o_kitchen_id r)] = ls \<and> o_status r \<in> S) (f_orders db)"

definition metered :: "metrics \<Rightarrow> fdb \<Rightarrow> bool" where
  "metered m db =
     ((\<forall>(n, S) \<in> set task_meters. \<forall>ls. meter m n ls = staged db S ls)
      \<and> (\<forall>(n, S) \<in> set order_meters. \<forall>ls. meter m n ls = ordered db S ls)
      \<and> (\<forall>n \<in> set idle_meters. \<forall>ls. meter m n ls = 0))"

lemmas meter_lists = task_meters_def order_meters_def idle_meters_def

lemma meter_moves [simp]:
  "meter (inc_counter n' ls' m) n ls = meter m n ls + of_bool (n = n' \<and> ls = ls')"
  "meter (observe_hist n' ls' v m) n ls = meter m n ls + of_bool (n = n' \<and> ls = ls')"
  by (auto simp: meter_def inc_counter_def observe_hist_def)

section \<open>The moves of the database\<close>

lemma place_kitchen: "kitchen_of db' = kitchen_of db \<Longrightarrow> place db' = place db"
  by (simp add: place_def fun_eq_iff)

lemma kitchen_of_orders: "f_orders db' = f_orders db \<Longrightarrow> kitchen_of db' = kitchen_of db"
  by (simp add: kitchen_of_def get_order_row_def fun_eq_iff)

lemma kitchen_of_status [simp]: "kitchen_of (set_order_status now r st db) = kitchen_of db"
  by (auto simp: kitchen_of_def set_order_status_def order_tab.get_upd fun_eq_iff map_option.compositionality comp_def)

lemma saved_row_type [simp]: "ft_station_type (saved_row now t) = ft_station_type t"
  by (simp add: saved_row_def ftask_row_def)

lemma staged_status [simp]: "staged (set_order_status now r st db) S ls = staged db S ls"
  by (simp add: staged_def place_kitchen [OF kitchen_of_status])

lemma ordered_save [simp]: "ordered (save_task now t db) S ls = ordered db S ls"
  by (simp add: ordered_def)

lemma staged_save:
  assumes ok: "fdb_ok db" and row: "get_ftask_row db (ft_id t1) = Some t0"
    and same: "ft_order_id t1 = ft_order_id t0" "ft_station_type t1 = ft_station_type t0"
  shows "staged (save_task now t1 db) S ls + of_bool (place db t0 = Some ls \<and> ft_status t0 \<in> S)
     = staged db S ls + of_bool (place db t0 = Some ls \<and> ft_status t1 \<in> S)"
proof -
  have p: "place (save_task now t1 db) = place db" by (rule place_kitchen [OF kitchen_of_orders]) simp
  have "place db (saved_row now t1) = place db t0" using same by (simp add: place_def)
  then show ?thesis
    using count_save_task [OF ok row, of "\<lambda>t. place db t = Some ls \<and> ft_status t \<in> S" now] by (simp add: staged_def p)
qed

lemma place_loaded: "load_task db tid = Some (t, r) \<Longrightarrow> place db t = Some (task_labels t r)"
  by (simp add: place_def kitchen_of_def load_task_SomeD task_labels_def)

lemma ordered_status:
  assumes ok: "fdb_ok db" and row: "get_order_row db (o_id r) = Some r0" and st: "o_status r \<noteq> st"
  shows "ordered (set_order_status now r st db) S ls + of_bool ([uuid_str (o_kitchen_id r0)] = ls \<and> o_status r0 \<in> S)
     = ordered db S ls + of_bool ([uuid_str (o_kitchen_id r0)] = ls \<and> st \<in> S)"
  using order_tab.count_upd [OF fdb_okD(1) [OF ok] row, of "\<lambda>r. [uuid_str (o_kitchen_id r)] = ls \<and> o_status r \<in> S"
      "\<lambda>x. x\<lparr>o_status := st, o_updated_at := now\<rparr>"] st
  by (simp add: ordered_def set_order_status_def)

section \<open>Where a task is counted\<close>

definition place_at :: "fdb \<Rightarrow> uuid \<Rightarrow> string list option" where
  "place_at db i = Option.bind (get_ftask_row db i) (place db)"

lemma place_at_save:
  assumes "get_ftask_row db (ft_id t1) = Some t0" "ft_order_id t1 = ft_order_id t0" "ft_station_type t1 = ft_station_type t0"
  shows "place_at (save_task now t1 db) = place_at db"
proof
  have "place (save_task now t1 db) = place db" by (rule place_kitchen [OF kitchen_of_orders]) simp
  then show "place_at (save_task now t1 db) i = place_at db i" for i
    using assms get_save_task [of db t1 now i] by (simp add: place_at_def place_def)
qed

lemma place_at_status [simp]: "place_at (set_order_status now r st db) = place_at db"
  by (simp add: place_at_def place_kitchen [OF kitchen_of_status] get_ftask_row_def fun_eq_iff)

lemma place_at_loaded: "load_task db tid = Some (t, r) \<Longrightarrow> place_at db (ft_id t) = Some (task_labels t r)"
  using place_loaded load_task_SomeD(1,2) by (simp add: place_at_def)

text \<open>One task moves from status \<open>old\<close> to \<open>new\<close>, and the metrics with it.\<close>

lemma metered_task_move:
  assumes "metered m db"
    and "\<And>S ls. staged db' S ls + of_bool (pl = ls \<and> old \<in> S) = staged db S ls + of_bool (pl = ls \<and> new \<in> S)"
    and "\<And>n S ls. (n, S) \<in> set order_meters \<Longrightarrow> ordered db' S ls = ordered db S ls"
    and "\<And>n S ls. (n, S) \<in> set task_meters \<Longrightarrow>
      meter m' n ls + of_bool (pl = ls \<and> old \<in> S) = meter m n ls + of_bool (pl = ls \<and> new \<in> S)"
    and "\<And>n ls. n \<in> fst ` set order_meters \<union> set idle_meters \<Longrightarrow> meter m' n ls = meter m n ls"
  shows "metered m' db'"
proof -
  have "meter m' n ls = staged db' S ls" if "(n, S) \<in> set task_meters" for n S ls
  proof -
    have "meter m n ls = staged db S ls" using assms(1) that by (auto simp: metered_def)
    then show ?thesis using assms(2) [of S ls] assms(4) [OF that, of ls] by linarith
  qed
  moreover have "meter m' n ls = ordered db' S ls" if "(n, S) \<in> set order_meters" for n S ls
  proof -
    have "n \<in> fst ` set order_meters" using that by (rule rev_image_eqI) simp
    then have "meter m' n ls = meter m n ls" using assms(5) by blast
    moreover have "meter m n ls = ordered db S ls" using assms(1) that by (auto simp: metered_def)
    ultimately show ?thesis using assms(3) that by simp
  qed
  moreover have "meter m' n ls = 0" if "n \<in> set idle_meters" for n ls
    using assms(1) assms(5) [of n ls] that by (auto simp: metered_def)
  ultimately show ?thesis by (auto simp: metered_def)
qed

section \<open>The handlers\<close>

lemma task_forms_type [simp]:
  "ft_station_type (displayed_task p t) = ft_station_type t" "ft_station_type (started_task q sla t) = ft_station_type t"
  "ft_station_type (failed_task n t) = ft_station_type t" "ft_station_type (finished_task c a d t) = ft_station_type t"
  by (simp_all add: displayed_task_def started_task_def failed_task_def finished_task_def split: option.splits)

lemma mark_displayed_moves:
  assumes "mark_displayed cfg env corr tid p w = (res, w')"
  shows "(fw_db w' = fw_db w \<and> fw_metrics w' = fw_metrics w)
    \<or> (\<exists>t r. load_task (fw_db w) tid = Some (t, r) \<and> can_transition (ft_status t) Tk_displayed
        \<and> fw_db w' = save_task (fe_db_now env) (displayed_task p t) (fw_db w)
        \<and> fw_metrics w' = inc_counter ''tasks_displayed_total'' (task_labels t r) (fw_metrics w))"
  using assms
  by (auto simp: mark_displayed_def require_transition_def task_labels_def Let_def split: option.splits if_splits)

lemma dispatch_failed_moves:
  assumes "dispatch_failed cfg env corr tid p w = (res, w')"
  shows "(fw_db w' = fw_db w \<and> fw_metrics w' = fw_metrics w)
    \<or> (\<exists>t r. load_task (fw_db w) tid = Some (t, r) \<and> can_transition (ft_status t) Tk_failed
        \<and> fw_db w' = save_task (fe_db_now env) (failed_task (df_attempts p) t) (fw_db w)
        \<and> fw_metrics w' = inc_counter ''tasks_failed_total'' (task_labels t r) (fw_metrics w))"
  using assms
  by (auto simp: dispatch_failed_def require_transition_def task_labels_def Let_def split: option.splits if_splits)

lemma start_task_moves:
  assumes "start_task cfg env corr tid p w = (res, w')"
  shows "(fw_db w' = fw_db w \<and> fw_metrics w' = fw_metrics w)
    \<or> (\<exists>t r sla. load_task (fw_db w) tid = Some (t, r) \<and> can_transition (ft_status t) Tk_in_progress
        \<and> fw_db w' = set_order_status (fe_db_now env) r Ord_cooking (save_task (fe_db_now env) (started_task p sla t) (fw_db w))
        \<and> fw_metrics w' = inc_counter ''tasks_started_total'' (task_labels t r) (fw_metrics w))"
  using assms
  by (auto simp: start_task_def require_transition_def task_labels_def Let_def split: option.splits if_splits; blast)

lemma loaded_save:
  assumes ok: "fdb_ok db" and load: "load_task db tid = Some (t, r)"
    and same: "ft_id t1 = ft_id t" "ft_order_id t1 = ft_order_id t" "ft_station_type t1 = ft_station_type t"
  shows "staged (save_task now t1 db) S ls + of_bool (task_labels t r = ls \<and> ft_status t \<in> S)
     = staged db S ls + of_bool (task_labels t r = ls \<and> ft_status t1 \<in> S)"
    "place_at (save_task now t1 db) = place_at db"
proof -
  have row: "get_ftask_row db (ft_id t1) = Some t" using load_task_SomeD(1,2) [OF load] same(1) by simp
  show "staged (save_task now t1 db) S ls + of_bool (task_labels t r = ls \<and> ft_status t \<in> S)
     = staged db S ls + of_bool (task_labels t r = ls \<and> ft_status t1 \<in> S)"
    using staged_save [OF ok row same(2,3), of now S ls] by (simp add: place_loaded [OF load])
  show "place_at (save_task now t1 db) = place_at db" by (rule place_at_save [OF row same(2,3)])
qed

text \<open>The counter of each transition, and that no other metric moves.\<close>

lemma transition_meters:
  "(n, S) \<in> set task_meters \<Longrightarrow> can_transition old Tk_displayed \<Longrightarrow>
     meter (inc_counter ''tasks_displayed_total'' pl m) n ls + of_bool (pl = ls \<and> old \<in> S) = meter m n ls + of_bool (pl = ls \<and> Tk_displayed \<in> S)"
  "(n, S) \<in> set task_meters \<Longrightarrow> can_transition old Tk_in_progress \<Longrightarrow>
     meter (inc_counter ''tasks_started_total'' pl m) n ls + of_bool (pl = ls \<and> old \<in> S) = meter m n ls + of_bool (pl = ls \<and> Tk_in_progress \<in> S)"
  "(n, S) \<in> set task_meters \<Longrightarrow> can_transition old Tk_failed \<Longrightarrow>
     meter (inc_counter ''tasks_failed_total'' pl m) n ls + of_bool (pl = ls \<and> old \<in> S) = meter m n ls + of_bool (pl = ls \<and> Tk_failed \<in> S)"
  "(n, S) \<in> set task_meters \<Longrightarrow>
     meter (inc_counter ''tasks_queued_total'' pl m) n ls + of_bool (pl = ls \<and> Tk_created \<in> S) = meter m n ls + of_bool (pl = ls \<and> Tk_queued \<in> S)"
  "(n, S) \<in> set task_meters \<Longrightarrow>
     meter (observe_hist ''task_delay_seconds'' pl u (observe_hist ''task_actual_duration_seconds'' pl v
       (inc_counter ''tasks_completed_total'' pl m))) n ls + of_bool (pl = ls \<and> Tk_in_progress \<in> S)
     = meter m n ls + of_bool (pl = ls \<and> Tk_done \<in> S)"
  by (auto simp: task_meters_def)

lemma order_meters_kept:
  assumes "n \<in> fst ` set order_meters \<union> set idle_meters"
    and "n' \<in> {''tasks_queued_total'', ''tasks_displayed_total'', ''tasks_started_total'', ''tasks_failed_total'', ''tasks_completed_total'',
      ''task_actual_duration_seconds'', ''task_delay_seconds''}"
  shows "meter (inc_counter n' pl m) n ls = meter m n ls" "meter (observe_hist n' pl v m) n ls = meter m n ls"
  using assms by (auto simp: meter_lists)

lemma order_meters_kept_completed:
  "n \<in> fst ` set order_meters \<union> set idle_meters \<Longrightarrow>
     meter (observe_hist ''task_delay_seconds'' pl u (observe_hist ''task_actual_duration_seconds'' pl v
       (inc_counter ''tasks_completed_total'' pl m))) n ls = meter m n ls"
  by (simp add: order_meters_kept del: meter_moves)

lemma displayed_metered:
  assumes "mark_displayed cfg env corr tid p w = (res, w')" "fdb_ok (fw_db w)" "metered (fw_metrics w) (fw_db w)"
  shows "metered (fw_metrics w') (fw_db w') \<and> place_at (fw_db w') = place_at (fw_db w)"
  using mark_displayed_moves [OF assms(1)]
proof (elim disjE exE conjE)
  fix t r assume load: "load_task (fw_db w) tid = Some (t, r)" and st: "can_transition (ft_status t) Tk_displayed"
    and w': "fw_db w' = save_task (fe_db_now env) (displayed_task p t) (fw_db w)"
      "fw_metrics w' = inc_counter ''tasks_displayed_total'' (task_labels t r) (fw_metrics w)"
  note save = loaded_save [OF assms(2) load, of "displayed_task p t" "fe_db_now env", simplified]
  show ?thesis
    unfolding w' by (rule conjI, rule metered_task_move [OF assms(3) save(1) ordered_save transition_meters(1) [OF _ st] order_meters_kept(1)])
      (simp_all add: save)
qed (use assms(3) in simp)

lemma failed_metered:
  assumes "dispatch_failed cfg env corr tid p w = (res, w')" "fdb_ok (fw_db w)" "metered (fw_metrics w) (fw_db w)"
  shows "metered (fw_metrics w') (fw_db w') \<and> place_at (fw_db w') = place_at (fw_db w)"
  using dispatch_failed_moves [OF assms(1)]
proof (elim disjE exE conjE)
  fix t r assume load: "load_task (fw_db w) tid = Some (t, r)" and st: "can_transition (ft_status t) Tk_failed"
    and w': "fw_db w' = save_task (fe_db_now env) (failed_task (df_attempts p) t) (fw_db w)"
      "fw_metrics w' = inc_counter ''tasks_failed_total'' (task_labels t r) (fw_metrics w)"
  note save = loaded_save [OF assms(2) load, of "failed_task (df_attempts p) t" "fe_db_now env", simplified]
  show ?thesis
    unfolding w' by (rule conjI, rule metered_task_move [OF assms(3) save(1) ordered_save transition_meters(3) [OF _ st] order_meters_kept(1)])
      (simp_all add: save)
qed (use assms(3) in simp)

lemma cooking_ordered:
  assumes "fdb_ok db" "get_order_row db (o_id r) = Some r" "o_status r \<noteq> Ord_ready_for_pickup" "(n, S) \<in> set order_meters"
  shows "ordered (set_order_status now r Ord_cooking db) S ls = ordered db S ls"
proof (cases "o_status r = Ord_cooking")
  case False
  then show ?thesis
    using ordered_status [OF assms(1,2) False, of now S ls] assms(3,4) by (auto simp: order_meters_def)
qed (simp add: set_order_status_def)

lemma open_order_not_ready:
  assumes "ready_done k" "t \<in> set (f_tasks (fw_db (fx_world k)))" "ft_status t \<noteq> Tk_done"
    and "get_order_row (fw_db (fx_world k)) (ft_order_id t) = Some r"
  shows "o_status r \<noteq> Ord_ready_for_pickup"
  using assms(1) unfinished_pos [OF assms(2,3)] order_tab.get_member [OF assms(4)] order_tab.get_key [OF assms(4)]
  by (auto simp: ready_done_def Let_def)

lemma started_metered:
  assumes "start_task cfg env corr tid p (fx_world k) = (res, w')" "fdb_ok (fw_db (fx_world k))" "ready_done k"
    and "metered (fw_metrics (fx_world k)) (fw_db (fx_world k))"
  shows "metered (fw_metrics w') (fw_db w') \<and> place_at (fw_db w') = place_at (fw_db (fx_world k))"
  using start_task_moves [OF assms(1)]
proof (elim disjE exE conjE)
  let ?db = "fw_db (fx_world k)"
  fix t r sla assume load: "load_task ?db tid = Some (t, r)" and st: "can_transition (ft_status t) Tk_in_progress"
    and w': "fw_db w' = set_order_status (fe_db_now env) r Ord_cooking (save_task (fe_db_now env) (started_task p sla t) ?db)"
      "fw_metrics w' = inc_counter ''tasks_started_total'' (task_labels t r) (fw_metrics (fx_world k))"
  note l = load_task_SomeD [OF load]
  note save = loaded_save [OF assms(2) load, of "started_task p sla t" "fe_db_now env"]
  have row: "get_order_row (save_task (fe_db_now env) (started_task p sla t) ?db) (o_id r) = Some r"
    using l(4,5) by (simp add: get_order_row_def)
  have "o_status r \<noteq> Ord_ready_for_pickup" by (rule open_order_not_ready [OF assms(3) l(3) _ l(4)]) (use st in auto)
  then have ord: "ordered (fw_db w') S ls = ordered ?db S ls" if "(n, S) \<in> set order_meters" for n S ls
    using cooking_ordered [OF assms(2), of r n S "fe_db_now env" ls] l(4,5) that
    by (simp add: w'(1) ordered_def orders_set_order_status split: if_splits)
  have "staged (fw_db w') S ls = staged (save_task (fe_db_now env) (started_task p sla t) ?db) S ls" for S ls by (simp add: w'(1))
  then have moved: "staged (fw_db w') S ls + of_bool (task_labels t r = ls \<and> ft_status t \<in> S)
      = staged ?db S ls + of_bool (task_labels t r = ls \<and> Tk_in_progress \<in> S)" for S ls
    using save(1) [of S ls] by simp
  show ?thesis
    unfolding w'(2)
    by (rule conjI, rule metered_task_move [OF assms(4) moved ord transition_meters(2) [OF _ st] order_meters_kept(1)])
      (simp_all add: w'(1) save(2))
qed (use assms(4) in simp)

section \<open>Completions\<close>

lemma completed_metered:
  assumes k: "fx_open k = xs @ (p, c) # ys" and inv: "fconc_inv lock_order k" and rd: "ready_done k"
    and m: "metered (fw_metrics (fx_world k)) (fw_db (fx_world k))"
    and pl: "place_at (fw_db (fx_world k)) (ft_id (cm_task c)) = Some (task_labels (cm_task c) (cm_order c))"
    and new: "o_status (cm_order c) \<noteq> Ord_ready_for_pickup"
    and w': "w' = complete_effects cfg env corr p c ((fx_world k)\<lparr>fw_db := complete_apply env c (fw_db (fx_world k))\<rparr>)"
  shows "metered (fw_metrics w') (fw_db w') \<and> place_at (fw_db w') = place_at (fw_db (fx_world k))"
proof -
  let ?db = "fw_db (fx_world k)" and ?m = "fw_metrics (fx_world k)" and ?ls = "task_labels (cm_task c) (cm_order c)"
  let ?db1 = "save_task (fe_db_now env) (cm_task c) ?db"
  have ok: "fdb_ok ?db" and o: "open_ok lock_order ?db c" using inv k by (auto simp: fconc_inv_def f_inv_def)
  obtain t where t: "get_ftask_row ?db (ft_id (cm_task c)) = Some t" "ft_order_id (cm_task c) = ft_order_id t"
    "ft_status t = Tk_in_progress" "ft_status (cm_task c) = Tk_done" and oid: "o_id (cm_order c) = ft_order_id t"
    using o by (auto simp: open_ok_def)
  have pt: "place ?db t = Some ?ls" using pl t(1) by (simp add: place_at_def)
  then obtain r where r: "get_order_row ?db (o_id (cm_order c)) = Some r" "uuid_str (o_kitchen_id r) = uuid_str (o_kitchen_id (cm_order c))"
    and ty: "ft_station_type (cm_task c) = ft_station_type t"
    by (auto simp: place_def kitchen_of_def task_labels_def oid)
  have st: "o_status r \<noteq> Ord_ready_for_pickup"
    by (rule open_order_not_ready [OF rd ftask_tab.get_member [OF t(1)]]) (use t r oid in auto)
  have staged: "staged ?db1 S ls + of_bool (?ls = ls \<and> Tk_in_progress \<in> S) = staged ?db S ls + of_bool (?ls = ls \<and> Tk_done \<in> S)" for S ls
    using staged_save [OF ok t(1,2) ty, of "fe_db_now env" S ls] pt t(3,4) by simp
  have row: "get_order_row ?db1 (o_id (cm_order c)) = Some r" using r(1) by (simp add: get_order_row_def)
  have places: "place_at ?db1 = place_at ?db" by (rule place_at_save [OF t(1,2) ty])
  let ?m1 = "observe_hist ''task_delay_seconds'' ?ls (case ft_delay (cm_task c) of None \<Rightarrow> 0 | Some n \<Rightarrow> real_of_int n)
     (observe_hist ''task_actual_duration_seconds'' ?ls (case ft_actual_duration (cm_task c) of None \<Rightarrow> 0 | Some n \<Rightarrow> real_of_int n)
       (inc_counter ''tasks_completed_total'' ?ls ?m))"
  have one: "metered ?m1 ?db1"
    by (rule metered_task_move [OF m staged ordered_save transition_meters(5) order_meters_kept_completed])
  show ?thesis
  proof (cases "cm_ready c")
    case False
    then show ?thesis using one places by (simp add: w' complete_effects_def complete_apply_def Let_def)
  next
    case True
    let ?db2 = "set_order_status (fe_db_now env) (cm_order c) Ord_ready_for_pickup ?db1"
    have ord: "ordered ?db2 S ls = ordered ?db1 S ls + of_bool ([uuid_str (o_kitchen_id (cm_order c))] = ls \<and> S = {Ord_ready_for_pickup})"
      if "S = UNIV \<or> S = {Ord_ready_for_pickup}" for S ls
      using order_tab.count_upd [OF _ row, of "\<lambda>r. [uuid_str (o_kitchen_id r)] = ls \<and> o_status r \<in> S"
          "\<lambda>x. x\<lparr>o_status := Ord_ready_for_pickup, o_updated_at := fe_db_now env\<rparr>"] fdb_okD(1) [OF ok] new st r(2) that
      by (auto simp: ordered_def set_order_status_def)
    have "metered (inc_counter ''orders_ready_total'' [uuid_str (o_kitchen_id (cm_order c))] ?m1) ?db2"
      using one by (auto simp: metered_def ord meter_lists)
    then show ?thesis using True places by (simp add: w' complete_effects_def complete_apply_def Let_def)
  qed
qed

section \<open>New orders\<close>

definition places_grow :: "fdb \<Rightarrow> fdb \<Rightarrow> bool" where
  "places_grow db db' = (\<forall>i ls. place_at db i = Some ls \<longrightarrow> place_at db' i = Some ls)"

lemma places_grow_same: "place_at db' = place_at db \<Longrightarrow> places_grow db db'"
  by (simp add: places_grow_def)

lemma place_appended:
  assumes "f_orders db' = f_orders db @ os" "kitchen_of db (ft_order_id t) \<noteq> None"
  shows "place db' t = place db t"
  using assms by (auto simp: place_def kitchen_of_def get_order_row_def find_row_append)

lemma kitchen_of_member: "fdb_ok db \<Longrightarrow> t \<in> set (f_tasks db) \<Longrightarrow> kitchen_of db (ft_order_id t) \<noteq> None"
  using fdb_okD(4) [of db t] by (auto simp: kitchen_of_def get_order_row_def find_row_None_iff)

lemma metered_new_order:
  assumes m: "metered m db" and t: "\<And>n S ls. (n, S) \<in> set task_meters \<Longrightarrow> staged db' S ls = staged db S ls"
    and o: "\<And>n S ls. (n, S) \<in> set order_meters \<Longrightarrow> ordered db' S ls = ordered db S ls + of_bool (ls = new \<and> n = ''orders_created_total'')"
  shows "metered (inc_counter ''orders_created_total'' new m) db'"
proof -
  have "meter (inc_counter ''orders_created_total'' new m) n ls = staged db' S ls" if "(n, S) \<in> set task_meters" for n S ls
  proof -
    have "n \<noteq> ''orders_created_total''" using that by (auto simp: task_meters_def)
    then show ?thesis using m that t [OF that] by (auto simp: metered_def)
  qed
  moreover have "meter (inc_counter ''orders_created_total'' new m) n ls = ordered db' S ls" if "(n, S) \<in> set order_meters" for n S ls
    using m that o [OF that] by (auto simp: metered_def)
  moreover have "meter (inc_counter ''orders_created_total'' new m) n ls = 0" if "n \<in> set idle_meters" for n ls
  proof -
    have "n \<noteq> ''orders_created_total''" using that by (auto simp: idle_meters_def)
    then show ?thesis using m that by (auto simp: metered_def)
  qed
  ultimately show ?thesis unfolding metered_def by blast
qed

lemma stored_metered:
  assumes ok: "fdb_ok db" and checks: "order_checks up p = Inr (recipes, names)"
    and run: "store_order env p recipes db = Inr (so, db')" and m: "metered m db"
  shows "metered (inc_counter ''orders_created_total'' [uuid_str (o_kitchen_id (so_order so))] m) db'"
    and "places_grow db db'"
    and "fdb_ok db' \<Longrightarrow> x \<in> set (so_tasks so) \<Longrightarrow> place_at db' (ft_id x) = Some (task_labels x (so_order so))"
proof -
  note n = store_order_new [OF run order_checks_known [OF checks]]
  have old: "place db' t = place db t" if "t \<in> set (f_tasks db)" for t
    by (rule place_appended [OF n(1) kitchen_of_member [OF ok that]])
  have staged: "staged db' S ls = staged db S ls" if "(n, S) \<in> set task_meters" for n S ls
  proof -
    have "count_rows (\<lambda>t. place db' t = Some ls \<and> ft_status t \<in> S) (f_tasks db) = staged db S ls"
      unfolding staged_def by (rule count_rows_cong) (simp add: old)
    moreover have "Tk_created \<notin> S" using that by (auto simp: task_meters_def)
    then have "count_rows (\<lambda>t. place db' t = Some ls \<and> ft_status t \<in> S) (so_tasks so) = 0"
      using n(5) by (auto simp: count_rows_zero_iff)
    ultimately show ?thesis by (simp add: staged_def n(2))
  qed
  show "metered (inc_counter ''orders_created_total'' [uuid_str (o_kitchen_id (so_order so))] m) db'"
    by (rule metered_new_order [OF m staged]) (use n(4) in \<open>auto simp: ordered_def n(1) order_row_def order_meters_def\<close>)
  show "places_grow db db'"
    unfolding places_grow_def
  proof (intro allI impI)
    fix i ls assume "place_at db i = Some ls"
    then obtain t where t: "find_row ft_id i (f_tasks db) = Some t" "place db t = Some ls"
      by (auto simp: place_at_def get_ftask_row_def bind_eq_Some_conv)
    moreover have "place db' t = place db t" by (rule old) (use find_row_SomeD [OF t(1)] in simp)
    ultimately show "place_at db' i = Some ls" by (simp add: place_at_def get_ftask_row_def n(2) find_row_append)
  qed
  show "place_at db' (ft_id x) = Some (task_labels x (so_order so))" if "fdb_ok db'" "x \<in> set (so_tasks so)"
  proof -
    have "get_ftask_row db' (ft_id x) = Some x"
      by (rule ftask_tab.member_get [OF fdb_okD(2) [OF that(1)]]) (use that(2) n(2) in simp)
    moreover have "get_order_row db' (o_id (so_order so)) = Some (order_row (so_order so))"
      using order_tab.member_get [of db' "order_row (so_order so)"] fdb_okD(1) [OF that(1)] n(1) by (simp add: order_row_def)
    ultimately show ?thesis using n(5) that(2) by (simp add: place_at_def place_def kitchen_of_def task_labels_def order_row_def)
  qed
qed

section \<open>Queued tasks\<close>

lemma place_at_queued: "place_at (upd_ftask i (queued_row qa now s j) db) = place_at db"
proof
  have p: "place (upd_ftask i (queued_row qa now s j) db) = place db" by (rule place_kitchen [OF kitchen_of_orders]) simp
  have "place db (queued_row qa now s j t) = place db t" for t by (simp add: place_def queued_row_def)
  then show "place_at (upd_ftask i (queued_row qa now s j) db) k = place_at db k" for k
    by (auto simp: place_at_def p ftask_tab.get_upd queued_row_def split: bind_split)
qed

lemma queue_one_metered:
  assumes ok: "distinct (map ft_id (f_tasks db))" and row: "get_ftask_row db (ft_id x) = Some t" "ft_status t = Tk_created"
    and pl: "place_at db (ft_id x) = Some ls0" and m: "metered m db"
  shows "metered (inc_counter ''tasks_queued_total'' ls0 m) (upd_ftask (ft_id x) (queued_row qa now s j) db)"
proof (rule metered_task_move [OF m])
  let ?db = "upd_ftask (ft_id x) (queued_row qa now s j) db"
  have p: "place ?db = place db" by (rule place_kitchen [OF kitchen_of_orders]) simp
  have pt: "place db t = Some ls0" "place db (queued_row qa now s j t) = Some ls0"
    using pl row(1) by (simp_all add: place_at_def place_def queued_row_def)
  show "staged ?db S ls + of_bool (ls0 = ls \<and> Tk_created \<in> S) = staged db S ls + of_bool (ls0 = ls \<and> Tk_queued \<in> S)" for S ls
    using ftask_tab.count_upd [OF ok row(1), of "\<lambda>t. place db t = Some ls \<and> ft_status t \<in> S" "queued_row qa now s j"] pt row(2)
    by (simp add: staged_def p queued_row_def)
  show "ordered ?db S ls = ordered db S ls" for S ls by (simp add: ordered_def)
qed (rule transition_meters(4) order_meters_kept(1); simp)+

lemma queue_all_metered:
  assumes "mark_tasks_queued env ps db = Inr db'" "distinct (map ft_id (f_tasks db))" "distinct (map (ft_id \<circ> fst) ps)"
    and "\<forall>(x, s, i) \<in> set ps. (\<exists>t. get_ftask_row db (ft_id x) = Some t \<and> ft_status t = Tk_created)
           \<and> place_at db (ft_id x) = Some (task_labels x ord)"
    and "metered m db"
  shows "metered (fst (note_queued cfg env2 corr ord ps (m, mg))) db' \<and> place_at db' = place_at db"
  using assms
proof (induction ps arbitrary: db m mg)
  case (Cons e ps)
  obtain x s i where e: "e = (x, s, i)" by (cases e) auto
  obtain t where row: "get_ftask_row db (ft_id x) = Some t" "ft_status t = Tk_created"
    and pl: "place_at db (ft_id x) = Some (task_labels x ord)" using Cons.prems(4) e by auto
  let ?db1 = "upd_ftask (ft_id x) (queued_row (fe_now env) (fe_db_now env) s i) db"
  let ?m1 = "inc_counter ''tasks_queued_total'' (task_labels x ord) m"
  have rest: "mark_tasks_queued env ps ?db1 = Inr db'" using Cons.prems(1) by (simp add: e split: if_splits)
  have ids: "distinct (map ft_id (f_tasks ?db1))" using Cons.prems(2) ftask_tab.keys_upd [of "queued_row _ _ _ _"] by (simp add: queued_row_def)
  have "get_ftask_row ?db1 (ft_id y) = get_ftask_row db (ft_id y)" if "(y, s', i') \<in> set ps" for y s' i'
    using that Cons.prems(3) by (subst ftask_tab.get_upd) (force simp: queued_row_def e)+
  then have "\<forall>(y, s, i) \<in> set ps. (\<exists>t. get_ftask_row ?db1 (ft_id y) = Some t \<and> ft_status t = Tk_created)
      \<and> place_at ?db1 (ft_id y) = Some (task_labels y ord)"
    using Cons.prems(4) by (fastforce simp: place_at_queued)
  from Cons.IH [OF rest ids _ this queue_one_metered [OF Cons.prems(2) row pl Cons.prems(5)]] Cons.prems(3)
  show ?case by (simp add: e place_at_queued)
qed simp

section \<open>Every step\<close>

text \<open>What is open or still to be published is counted under the labels that its row has.\<close>

definition labels_ok :: "fconc \<Rightarrow> bool" where
  "labels_ok k =
     ((\<forall>(p, c) \<in> set (fx_open k). o_status (cm_order c) \<noteq> Ord_ready_for_pickup
         \<and> place_at (fw_db (fx_world k)) (ft_id (cm_task c)) = Some (task_labels (cm_task c) (cm_order c)))
      \<and> (\<forall>(so, names) \<in> set (fx_pub k). \<forall>x \<in> set (so_tasks so).
           place_at (fw_db (fx_world k)) (ft_id x) = Some (task_labels x (so_order so))))"

definition meters_ok :: "fconc \<Rightarrow> bool" where
  "meters_ok k = (metered (fw_metrics (fx_world k)) (fw_db (fx_world k)) \<and> labels_ok k)"

lemma labels_kept:
  assumes "labels_ok k" "places_grow (fw_db (fx_world k)) (fw_db w)" "set op \<subseteq> set (fx_open k)" "set pub \<subseteq> set (fx_pub k)"
  shows "labels_ok (k\<lparr>fx_world := w, fx_open := op, fx_pub := pub\<rparr>)"
  using assms unfolding labels_ok_def places_grow_def by fastforce

lemma meters_kept:
  assumes "meters_ok k" "metered (fw_metrics w) (fw_db w) \<and> place_at (fw_db w) = place_at (fw_db (fx_world k))"
    and "set op \<subseteq> set (fx_open k)" "set pub \<subseteq> set (fx_pub k)"
  shows "meters_ok (k\<lparr>fx_world := w, fx_open := op, fx_pub := pub\<rparr>)"
  using assms labels_kept places_grow_same by (simp add: meters_ok_def)

lemma publish_and_queue_moves:
  assumes "publish_and_queue cfg env corr ord tasks names w = (res, w')"
  obtains "fw_db w' = fw_db w" "fw_metrics w' = fw_metrics w"
  | ps where "map fst ps = tasks" "mark_tasks_queued env ps (fw_db w) = Inr (fw_db w')"
      "fw_metrics w' = fst (note_queued cfg env corr ord ps (fw_metrics w, fw_mongo w))"
proof (cases "fs_redis_publish_enabled cfg")
  case False
  then show ?thesis using assms that(1) by (simp add: publish_and_queue_def)
next
  case True
  obtain r rd where pub: "publish_all cfg corr ord names tasks (fw_redis w) = (r, rd)" by fastforce
  show ?thesis
  proof (cases r)
    case (Inl e)
    then show ?thesis using assms True pub that(1) by (auto simp: publish_and_queue_def)
  next
    case (Inr ps)
    then show ?thesis
      using assms True pub that publish_all_tasks [of cfg corr ord names tasks "fw_redis w" ps rd]
      by (cases "mark_tasks_queued env ps (fw_db w)") (auto simp: publish_and_queue_def split: prod.splits)
  qed
qed

lemma queue_meters:
  assumes inv: "fconc_inv lock_order k" and m: "meters_ok k" and k: "fx_pub k = xs @ (so, names) # ys"
    and run: "publish_and_queue cfg env corr (so_order so) (so_tasks so) names (fx_world k) = (res, w)"
  shows "metered (fw_metrics w) (fw_db w) \<and> place_at (fw_db w) = place_at (fw_db (fx_world k))"
proof -
  let ?db = "fw_db (fx_world k)"
  have met: "metered (fw_metrics (fx_world k)) ?db" using m by (simp add: meters_ok_def)
  from run show ?thesis
  proof (cases rule: publish_and_queue_moves)
    case (2 ps)
    have ids: "map (ft_id \<circ> fst) ps = map ft_id (so_tasks so)" using 2(1) by (metis map_map)
    have "distinct (pub_ids k)" "pub_ok ?db so" "fdb_ok ?db" using inv k by (auto simp: fconc_inv_def f_inv_def)
    then have dist: "distinct (map (ft_id \<circ> fst) ps)" "distinct (map ft_id (f_tasks ?db))"
      unfolding ids by (simp_all add: pub_ids_def k fdb_ok_def)
    have "(\<exists>t. get_ftask_row ?db (ft_id x) = Some t \<and> ft_status t = Tk_created)
        \<and> place_at ?db (ft_id x) = Some (task_labels x (so_order so))" if "(x, s, i) \<in> set ps" for x s i
    proof -
      have "x \<in> set (so_tasks so)" using that 2(1) by (metis fst_conv imageI list.set_map)
      then show ?thesis using \<open>pub_ok ?db so\<close> m k by (auto simp: pub_ok_def meters_ok_def labels_ok_def)
    qed
    then show ?thesis unfolding 2(3) by (intro queue_all_metered [OF 2(2) dist(2,1) _ met]) auto
  qed (use met in simp)
qed

lemma prepared_labels:
  assumes inv: "fconc_inv lock_order k" and rd: "ready_done k" and run: "complete_prepare env tid p (fw_db (fx_world k)) = Inr (Inr c)"
  shows "o_status (cm_order c) \<noteq> Ord_ready_for_pickup
     \<and> place_at (fw_db (fx_world k)) (ft_id (cm_task c)) = Some (task_labels (cm_task c) (cm_order c))"
proof (rule complete_prepare_ok [OF run])
  fix t r a assume load: "load_task (fw_db (fx_world k)) tid = Some (t, r)" and st: "can_transition (ft_status t) Tk_done"
    and c: "cm_task c = finished_task (dt_utc (dt_instant (fq_completed_at p))) (dt_utc (dt_instant a)) (as_utc (ft_sla_deadline_at t)) t"
      "cm_order c = r"
  note l = load_task_SomeD [OF load]
  have "o_status r \<noteq> Ord_ready_for_pickup" by (rule open_order_not_ready [OF rd l(3) _ l(4)]) (use st in auto)
  then show ?thesis using place_at_loaded [OF load] by (simp add: c task_labels_def finished_task_def)
qed

lemma step_meters:
  "fstep lock_order cfg k k' \<Longrightarrow> fconc_inv lock_order k \<Longrightarrow> ready_done k \<Longrightarrow> meters_ok k \<Longrightarrow> meters_ok k'"
proof (induction rule: fstep.induct)
  case (f_store p up recipes names env k so db corr)
  have ok: "fdb_ok (fw_db (fx_world k))" using f_store(4) by (simp add: fconc_inv_def f_inv_def)
  have met: "metered (fw_metrics (fx_world k)) (fw_db (fx_world k))" and lab: "labels_ok k" using f_store(6) by (simp_all add: meters_ok_def)
  note s = stored_metered [OF ok f_store(2,3) met]
  have "f_inv db" by (rule store_order_inv [OF _ f_store(3) order_checks_known [OF f_store(2)]]) (use f_store(4) in \<open>simp add: fconc_inv_def\<close>)
  then have "fdb_ok db" by (simp add: f_inv_def)
  let ?w = "order_stored cfg env corr so db (fx_world k)"
  have w: "fw_db ?w = db" "fw_metrics ?w = inc_counter ''orders_created_total'' [uuid_str (o_kitchen_id (so_order so))] (fw_metrics (fx_world k))"
    by (simp_all add: order_stored_def Let_def)
  have "labels_ok (k\<lparr>fx_world := ?w, fx_open := fx_open k, fx_pub := fx_pub k\<rparr>)"
    by (rule labels_kept [OF lab]) (simp_all add: w s(2))
  then show ?case using s(1) s(3) [OF \<open>fdb_ok db\<close>] by (simp add: meters_ok_def labels_ok_def w)
next
  case (f_queue k xs so names ys env corr res w)
  show ?case
    using meters_kept [OF f_queue(5) queue_meters [OF f_queue(3,5,1,2)], of "fx_open k" "xs @ ys"] f_queue(1) by auto
next
  case (f_displayed tid k env corr p res w)
  have "metered (fw_metrics w) (fw_db w) \<and> place_at (fw_db w) = place_at (fw_db (fx_world k))"
    by (rule displayed_metered [OF f_displayed(2)]) (use f_displayed(3,5) in \<open>simp_all add: fconc_inv_def f_inv_def meters_ok_def\<close>)
  then show ?case using meters_kept [OF f_displayed(5), of w "fx_open k" "fx_pub k"] by simp
next
  case (f_start tid k env corr p res w)
  have "metered (fw_metrics w) (fw_db w) \<and> place_at (fw_db w) = place_at (fw_db (fx_world k))"
    by (rule started_metered [OF f_start(2) _ f_start(4)]) (use f_start(3,5) in \<open>simp_all add: fconc_inv_def f_inv_def meters_ok_def\<close>)
  then show ?case using meters_kept [OF f_start(5), of w "fx_open k" "fx_pub k"] by simp
next
  case (f_failed tid k env corr p res w)
  have "metered (fw_metrics w) (fw_db w) \<and> place_at (fw_db w) = place_at (fw_db (fx_world k))"
    by (rule failed_metered [OF f_failed(2)]) (use f_failed(3,5) in \<open>simp_all add: fconc_inv_def f_inv_def meters_ok_def\<close>)
  then show ?case using meters_kept [OF f_failed(5), of w "fx_open k" "fx_pub k"] by simp
next
  case (f_prepare tid k env p c)
  show ?case using f_prepare(6) prepared_labels [OF f_prepare(4,5,2)] by (simp add: meters_ok_def labels_ok_def)
next
  case (f_commit k xs p c ys env corr)
  have m: "metered (fw_metrics (fx_world k)) (fw_db (fx_world k))" and l: "labels_ok k" using f_commit(4) by (simp_all add: meters_ok_def)
  have c: "o_status (cm_order c) \<noteq> Ord_ready_for_pickup"
    "place_at (fw_db (fx_world k)) (ft_id (cm_task c)) = Some (task_labels (cm_task c) (cm_order c))"
    using l f_commit(1) by (auto simp: labels_ok_def)
  show ?case
    using meters_kept [OF f_commit(4) completed_metered [OF f_commit(1-3) m c(2,1) refl], of "xs @ ys" "fx_pub k"] f_commit(1) by auto
next
  case (f_abort k xs p c ys)
  then show ?case by (auto simp: meters_ok_def labels_ok_def)
next
  case (f_crash k xs e ys)
  then show ?case by (auto simp: meters_ok_def labels_ok_def)
qed

definition fresh_service :: "fconc \<Rightarrow> bool" where
  "fresh_service k = (finit k \<and> fw_metrics (fx_world k) = empty_metrics)"

lemma fresh_reach: "reach fresh_service (fstep lock_order cfg) k \<Longrightarrow> reach finit (fstep lock_order cfg) k"
  by (induction rule: reach.induct) (auto intro: reach.intros simp: fresh_service_def)

lemma reach_meters: "reach fresh_service (fstep lock_order cfg) k \<Longrightarrow> meters_ok k"
proof (induction rule: reach.induct)
  case (reach_init k)
  then show ?case
    by (auto simp: fresh_service_def finit_def meters_ok_def labels_ok_def metered_def meter_def empty_metrics_def staged_def
        ordered_def empty_fdb_def)
next
  case (reach_step k k')
  have r: "reach finit (fstep lock_order cfg) k" by (rule fresh_reach [OF reach_step(1)])
  show ?case by (rule step_meters [OF reach_step(2) ful_sys.reach_inv [OF r] reach_ready_done [OF r] reach_step(3)])
qed



end
