(* ===== verification/Spec2Isabelle.thy ===== *)
theory Spec2Isabelle
  imports Kitchen_Events_Props Fulfillment_Ready_Props Fulfillment_Machine Fulfillment_Dispatch
    Fulfillment_Replay Fulfillment_Creation Fulfillment_Orphans Simulator_Start Simulator_Shop_Demo Menu_Demo Common_Http
    Fulfillment_Done Demo_Seed_Example Demo_Smoke_Example Schema_Props Wire_Exchange Simulator_Lifespan Fulfillment_Meters
begin

text \<open>
  \<^bold>\<open>A dark kitchen, its services verified\<close>

  The repository runs a dark kitchen (a kitchen that only serves delivery orders) as a set of
  services: a menu service holds dishes, recipes and what each kitchen offers; a fulfillment
  service takes orders, turns them into kitchen tasks and publishes those to Redis streams; a
  dispatcher (a worker in Go) carries tasks to the screens of the kitchen service, where
  stations with a limited number of slots claim and complete them; a station simulator plays
  the cooks. Claims and completions are called back from the kitchen to the fulfillment service, and
  when the last task of an order is done the order is ready for pickup. This library models
  the Python services from their sources under \<open>src/\<close>, each handler branch by branch, alone,
  interleaved with other requests, and composed with the services it calls.

  \<^bold>\<open>Shared theories.\<close>
  \<^item> \<open>Prelude\<close>: results, rows of a table with a key (\<open>find_row\<close>, \<open>update_row\<close>, \<open>count_rows\<close> and
    their laws), the locale \<open>row_store\<close> of a stored table, the locales \<open>inv_system\<close> and
    \<open>stable_system\<close> of a transition system with an invariant. Every table and every step
    relation of the development interprets them.
  \<^item> \<open>Py_Runtime\<close>, \<open>Py_Text\<close>: the Python library as the code uses it: \<open>str\<close> methods, \<open>int(text, base)\<close>,
    \<open>uuid.UUID\<close> with its round trip, \<open>datetime\<close> with overflow, \<open>str(int)\<close>.
  \<^item> \<open>Effects\<close>: documents and the Mongo database (locale \<open>event_sink\<close>), Prometheus metrics, HTTP
    exchanges, replies of a service, column checks of PostgreSQL.

  \<^bold>\<open>Kitchen service\<close> (\<open>src/services/kitchen-service/app\<close>).
  \<^item> \<open>Kitchen_Model\<close>: \<open>models.py\<close> with the constraints of the migrations, request schemas, the invariants
    \<open>kdb_ok\<close> (rows and keys) and \<open>busy_ok\<close> (a station's \<open>busy_slots\<close> counts its claimed tasks).
  \<^item> \<open>Kitchen_Repository\<close>: \<open>repositories.py\<close> and the identity map of a session (\<open>db.py\<close>).
    \<open>Kitchen_Events\<close>: \<open>events.py\<close>, \<open>metrics/business_metrics.py\<close>. \<open>Kitchen_Client\<close>: \<open>clients.py\<close>.
  \<^item> \<open>Kitchen_Service\<close>: \<open>KitchenService\<close> and \<open>KdsService\<close> of \<open>services.py\<close>; claim and completion are
    split at their commits around the callback. \<open>Kitchen_Routes\<close>: \<open>api/routes.py\<close>, \<open>errors.py\<close>.
  \<^item> \<open>Kitchen_Invariants\<close>, \<open>Kitchen_Concurrency\<close>, \<open>Kitchen_Overcommit\<close>: every request keeps the
    invariant; interleaved requests as the step relation \<open>kstep\<close>; a stale read overcommits a station.
  \<^item> \<open>Kitchen_Facts\<close>, \<open>Kitchen_Properties\<close>, \<open>Kitchen_Delivery\<close>, \<open>Kitchen_Events_Props\<close>: capacity, exclusive claims,
    compensation, completion, delivery (idempotence, backlog bound, listing), event traces.

  \<^bold>\<open>Fulfillment service\<close> (\<open>src/services/fulfillment-service/app\<close>).
  \<^item> \<open>Fulfillment_Model\<close>: \<open>domain/\<close>, \<open>models.py\<close> with the migrations, \<open>schemas.py\<close>, errors.
    \<open>Fulfillment_Builder\<close>: \<open>task_builder.py\<close> and its reference, one chain of tasks per unit.
  \<^item> \<open>Fulfillment_Gateways\<close>: \<open>clients/\<close>, \<open>redis/streams.py\<close>, \<open>events/task_events.py\<close>.
    \<open>Fulfillment_Orders\<close>: \<open>OrderCreationService\<close>. \<open>Fulfillment_Transitions\<close>: \<open>TaskTransitionService\<close>.
    \<open>Fulfillment_Routes\<close>: \<open>api/routes.py\<close>, \<open>errors.py\<close>.
  \<^item> \<open>Fulfillment_Invariants\<close>, \<open>_Storage\<close>, \<open>_Preservation\<close>: the invariant \<open>f_inv\<close> and what keeps it.
    \<open>Fulfillment_Concurrency\<close>, \<open>_Steps\<close>: interleaved requests as the step relation \<open>fstep\<close>, where a
    completion is split at its commit. \<open>Fulfillment_Demo\<close>: a concrete order for the witnesses.
  \<^item> \<open>Fulfillment_Ready\<close>, \<open>_Ready_Props\<close>: when an order becomes ready, and the interleaving in which
    it never does. \<open>Fulfillment_Done\<close>: a ready order has tasks and all stay done. \<open>Fulfillment_Meters\<close>: the
    metrics of \<open>metrics/business_metrics.py\<close> as functions of the database.
    \<open>Fulfillment_Machine\<close>: the abstract task machine that every step refines.
    \<open>Fulfillment_Dispatch\<close>, \<open>_Replay\<close>, \<open>_Creation\<close>, \<open>_Orphans\<close>, \<open>_Acceptance\<close>: dispatch readiness, repeated
    requests, what creation stores and publishes, tasks that are never queued, when creation cannot fail.

  \<^bold>\<open>Menu service\<close> (\<open>src/services/menu-service/app\<close>).
  \<^item> \<open>Menu_Model\<close>: \<open>models.py\<close> with the migration, \<open>schemas.py\<close>. \<open>Menu_Service\<close>: \<open>repositories.py\<close>,
    \<open>services.py\<close>, \<open>errors.py\<close>, \<open>api/routes.py\<close>. \<open>Menu_Invariants\<close>: the invariant \<open>menu_ok\<close> and the step
    relation \<open>mstep\<close>, in which an upsert is a read and a write. \<open>Menu_Props\<close>: recipes in order, read-back
    of steps and availabilities, racing upserts.

  \<^bold>\<open>Station simulator\<close> (\<open>src/services/station-simulator-service/app\<close>).
  \<^item> \<open>Simulator_Config\<close>: \<open>core/config.py\<close>, \<open>simulator/config_parser.py\<close>, \<open>simulator/duration.py\<close>.
    \<open>Simulator_Client\<close>: \<open>kds_client/\<close>. \<open>Simulator_Worker\<close>: \<open>simulator/worker.py\<close>, \<open>simulator/runner.py\<close>.
  \<^item> \<open>Simulator_Start\<close>, \<open>Simulator_Protocol\<close>, \<open>Simulator_Invariants\<close>: what a start of the runner makes, what a
    round does to any service (locale \<open>kds_service\<close>), when a worker ends.
  \<^item> \<open>Simulator_Machine\<close>: the same worker as the coroutine of the event loop, resumed from one \<open>await\<close> to the
    next, and the proof that both agree. \<open>Simulator_Lifespan\<close>: \<open>main.py\<close> and \<open>metrics/metrics.py\<close>, all workers
    interleaved between startup and shutdown (\<open>app_step\<close>) over shared metrics, with arbitrary answers.

  \<^bold>\<open>Shared library\<close> (\<open>src/libs/python/dk_common\<close>).
  \<^item> \<open>Common_Http\<close>: \<open>correlation.py\<close>, \<open>metrics.py\<close>, \<open>logging.py\<close>, \<open>health.py\<close>, \<open>errors.py\<close> and the stack of
    middlewares every \<open>create_app\<close> builds: what a request leaves behind, whatever its handler does.

  \<^bold>\<open>Demo scripts\<close> (\<open>src/scripts/demo\<close>).
  \<^item> \<open>Demo_Seed\<close>: \<open>seed_demo_data.py\<close> as a state and error monad over the kitchen and the menu routes.
    \<open>Demo_Seed_Steps\<close>, \<open>_Props\<close>, \<open>_Recovery\<close>, \<open>_Example\<close>: what each step sets up, what a run guarantees, running
    it again, recovery from a network that cuts runs off.
  \<^item> \<open>Demo_Smoke\<close>: \<open>smoke_demo.py\<close>, its loops as partial functions over a clock. \<open>Demo_Smoke_Props\<close>, \<open>_Example\<close>: that
    it ends, and what its success means in front of the fulfillment service.

  \<^bold>\<open>Services together.\<close>
  \<^item> \<open>Services_Agree\<close>: the callbacks of the kitchen service served by the fulfillment routes.
  \<^item> \<open>Simulator_Shop\<close>, \<open>Simulator_Claims\<close>, \<open>Simulator_Shop_Demo\<close>: workers in front of both services, over a
    network that may lose a request or its response.
  \<^item> \<open>Menu_Orders\<close>, \<open>Menu_Placing\<close>, \<open>Menu_Demo\<close>: order creation in front of the kitchen and the menu
    service: which orders are refused, that all others go through, and that the tasks are the menu's recipes.
  \<^item> \<open>Wire_Json\<close>: JSON values, the readers of their fields, and the response models of the services (\<open>schemas.py\<close>) as
    JSON. \<open>Wire_Agree\<close>: the models that read them (\<open>kds_client/schemas.py\<close> of the simulator, the snapshots and
    request models of the fulfillment service, the request models of the kitchen service). \<open>Wire_Exchange\<close>: the
    exchanges above with every body written and read back, and that this changes nothing.

  \<^bold>\<open>Database schemas\<close> (\<open>alembic/versions\<close> and \<open>app/models.py\<close> of the three services).
  \<^item> \<open>Schema_Ddl\<close>: tables, constraints, indexes, and the statements of a migration with the cases in which
    PostgreSQL refuses them; a creation is undone by the statement that drops. \<open>Schema_Migrations\<close>: every revision,
    and the databases upgrades and downgrades lead to. \<open>Schema_Chain\<close>: the contract of a chain of revisions
    (locale \<open>migration_chain\<close>), interpreted on the three services. \<open>Schema_Models\<close>: the tables of each model class.
  \<^item> \<open>Schema_Rows\<close>: what an \<open>INSERT\<close> does under a schema, and the interface between a table and the insertion of a
    service model (locale \<open>table_model\<close>), interpreted on the tables in \<open>Schema_Kitchen\<close>, \<open>Schema_Menu\<close> and
    \<open>Schema_Fulfillment\<close>. \<open>Schema_Props\<close>: the properties. So the constraints the service models assume are those
    the migrations create.

  \<^bold>\<open>How the code corresponds.\<close> A component's state is a record (\<open>kdb\<close> and \<open>kworld\<close>, \<open>fdb\<close> and \<open>fworld\<close>, \<open>mdb\<close>, the
  workers' \<open>sim_world\<close>); a handler is a function from the environment of a request (clock, identifiers,
  correlation id), the parsed payload and the state to a sum of the service's error type and a value, with
  the new state; a route adds the schema checks, the parsing of identifiers and the reply. Rows of a table are
  a list in insertion order, integers are unbounded with the 32-bit check of their column, identifiers are 128-bit
  words, timestamps are microseconds with an optional offset. A transaction is one function of the committed
  database; where a handler commits more than once or calls another service in between, it is
  split there, and the step relations interleave the parts in every order.

  \<^bold>\<open>Parameters and assumptions.\<close> What is not under \<open>src/\<close> is a parameter: the outcome of each Mongo insertion, of each
  \<open>XADD\<close> and of each exchange over the network is a script chosen by the environment; identifiers and
  clocks are supplies; \<open>populate\<close> says whether a locking read refreshes a loaded object (it does not, in the
  program), \<open>lock_order\<close> whether a completion locks the order row (it does not); the collation of the menu
  database and the framework's parser of path identifiers are functions. The database server's time zone
  is UTC and timestamps lie in the years 1 to 9999; strings are sequences of code points up to 255; floating-point
  values (durations, the simulator's speed) are real numbers; requests of one service see committed
  states only (\<open>READ COMMITTED\<close>), and a statement is atomic. No definition uses fuel: loops over data are
  structural or have a measure; the endless loop of a worker and the polling loops of the smoke script are
  partial functions into \<open>option\<close>, the first with an exact characterisation of when it ends
  (\<open>worker_ends_when_cancelled\<close>), the others proved to end when the clock advances (\<open>smoke_ends\<close>).

  \<^bold>\<open>Not modelled.\<close> The Go worker \<open>kitchen-scheduler-worker\<close> (another language; its calls are arbitrary
  requests here); the engines of \<open>db.py\<close>, the connections of \<open>alembic/env.py\<close> and the reading of configuration (wiring of
  frameworks); the text formats of log handlers and of the metrics endpoint (libraries); command lines and
  printing of the scripts; deployment files and tests.
\<close>

end
